(* ===== verification/Prelude.thy ===== *)
theory Prelude
  imports
    Complex_Main
    "HOL-Library.Char_ord"
    "HOL-Library.List_Lexorder"
    "HOL-Library.Product_Lexorder"
begin

text \<open>
  Shared vocabulary of the development: the Python values the controller computes with (strings,
  dictionaries with insertion order, exact numbers, JSON), the exceptions it raises, and the generic
  facts about them that every component uses. Strings are lists of ASCII characters, numbers that
  are floats in the source are exact rationals, instants are microseconds since the epoch.
\<close>

named_theorems enum_defs \<open>definitions of the frozen sets and tables over enums\<close>
named_theorems keeps_intros \<open>preservation rules for the controller monad\<close>

section \<open>Python strings\<close>

type_synonym str = string

definition starts_with :: "str \<Rightarrow> str \<Rightarrow> bool" where
  "starts_with s p \<longleftrightarrow> take (length p) s = p"

definition ends_with :: "str \<Rightarrow> str \<Rightarrow> bool" where
  "ends_with s p \<longleftrightarrow> starts_with (rev s) (rev p)"

fun contains_str :: "str \<Rightarrow> str \<Rightarrow> bool" where
  "contains_str [] p = (p = [])"
| "contains_str (c # s) p = (starts_with (c # s) p \<or> contains_str s p)"

fun join :: "str \<Rightarrow> str list \<Rightarrow> str" where
  "join sep [] = []"
| "join sep [x] = x"
| "join sep (x # xs) = x @ sep @ join sep xs"

text \<open>\<open>s.rsplit(c, 1)[-1]\<close>: what follows the last \<open>c\<close>, all of \<open>s\<close> when there is none.\<close>

definition after_last :: "char \<Rightarrow> str \<Rightarrow> str" where
  "after_last c s = rev (takeWhile (\<lambda>x. x \<noteq> c) (rev s))"

text \<open>\<open>s.split(c, 1)[0]\<close> and \<open>s.split(c, 1)[1]\<close> (the latter when \<open>c\<close> occurs in \<open>s\<close>).\<close>

definition before_first :: "char \<Rightarrow> str \<Rightarrow> str" where
  "before_first c s = takeWhile (\<lambda>x. x \<noteq> c) s"

definition after_first :: "char \<Rightarrow> str \<Rightarrow> str" where
  "after_first c s = tl (dropWhile (\<lambda>x. x \<noteq> c) s)"

fun split_on_acc :: "char \<Rightarrow> str \<Rightarrow> str \<Rightarrow> str list" where
  "split_on_acc c acc [] = [rev acc]"
| "split_on_acc c acc (x # s) = (if x = c then rev acc # split_on_acc c [] s else split_on_acc c (x # acc) s)"

definition split_on :: "char \<Rightarrow> str \<Rightarrow> str list" where
  "split_on c s = split_on_acc c [] s"

definition is_space :: "char \<Rightarrow> bool" where
  "is_space c \<longleftrightarrow> (let n = (of_char c :: nat) in n = 32 \<or> (9 \<le> n \<and> n \<le> 13) \<or> (28 \<le> n \<and> n \<le> 31))"

definition strip :: "str \<Rightarrow> str" where
  "strip s = rev (dropWhile is_space (rev (dropWhile is_space s)))"

definition rstrip_char :: "char \<Rightarrow> str \<Rightarrow> str" where
  "rstrip_char c s = rev (dropWhile (\<lambda>x. x = c) (rev s))"

definition lower_char :: "char \<Rightarrow> char" where
  "lower_char c = (let n = (of_char c :: nat) in if 65 \<le> n \<and> n \<le> 90 then char_of (n + 32) else c)"

definition upper_char :: "char \<Rightarrow> char" where
  "upper_char c = (let n = (of_char c :: nat) in if 97 \<le> n \<and> n \<le> 122 then char_of (n - 32) else c)"

definition lower :: "str \<Rightarrow> str" where "lower s = map lower_char s"
definition upper :: "str \<Rightarrow> str" where "upper s = map upper_char s"

definition is_digit :: "char \<Rightarrow> bool" where
  "is_digit c \<longleftrightarrow> (let n = (of_char c :: nat) in 48 \<le> n \<and> n \<le> 57)"

text \<open>Decimal numerals: \<open>str(n)\<close> and \<open>int(s)\<close> on a string of digits.\<close>

function show_digits :: "int \<Rightarrow> str" where
  "show_digits i = (if i < 10 then [char_of (48 + nat i)] else show_digits (i div 10) @ [char_of (48 + nat (i mod 10))])"
  by pat_completeness auto
termination by (relation "measure nat") auto

declare show_digits.simps [simp del]

definition show_nat :: "nat \<Rightarrow> str" where
  "show_nat n = show_digits (int n)"

lemma show_nat_rec:
  "show_nat n = (if n < 10 then [char_of (48 + n)] else show_nat (n div 10) @ [char_of (48 + n mod 10)])"
  by (auto simp: show_nat_def show_digits.simps [of "int n"] nat_mod_distrib zdiv_int)

definition show_int :: "int \<Rightarrow> str" where
  "show_int i = (if i < 0 then ''-'' @ show_digits (- i) else show_digits i)"

definition read_nat :: "str \<Rightarrow> nat" where
  "read_nat s = foldl (\<lambda>n c. n * 10 + (of_char c - 48)) 0 s"

text \<open>
  Fixed-point formatting \<open>f"{q:.kf}"\<close>: the value scaled by \<open>10 ^ k\<close> and rounded half to even.
\<close>

definition round_half_even :: "rat \<Rightarrow> int" where
  "round_half_even q = (let f = \<lfloor>q\<rfloor>; r = q - of_int f in
     if r < 1 / 2 then f else if 1 / 2 < r then f + 1 else if even f then f else f + 1)"

definition pad_zeros :: "nat \<Rightarrow> str \<Rightarrow> str" where
  "pad_zeros k s = replicate (k - length s) CHR ''0'' @ s"

definition fmt_fixed :: "nat \<Rightarrow> rat \<Rightarrow> str" where
  "fmt_fixed k q =
     (let m = round_half_even (\<bar>q\<bar> * 10 ^ k);
          body = show_digits (m div 10 ^ k) @ (if k = 0 then [] else ''.'' @ pad_zeros k (show_digits (m mod 10 ^ k)))
      in if q < 0 then ''-'' @ body else body)"

text \<open>\<open>x or d\<close> on an optional string: an empty string is falsy, like None.\<close>

definition or_str :: "str option \<Rightarrow> str \<Rightarrow> str" where
  "or_str x d = (case x of Some s \<Rightarrow> if s = [] then d else s | None \<Rightarrow> d)"

definition show_opt_str :: "str option \<Rightarrow> str" where
  "show_opt_str x = (case x of None \<Rightarrow> ''None'' | Some s \<Rightarrow> s)"

text \<open>\<open>repr(s)\<close> of an ASCII string, as \<open>f"{s!r}"\<close> prints it.\<close>

definition hex_digit :: "nat \<Rightarrow> char" where
  "hex_digit n = (if n < 10 then char_of (48 + n) else char_of (87 + n))"

definition repr_char :: "char \<Rightarrow> char \<Rightarrow> str" where
  "repr_char q c = (let n = (of_char c :: nat) in
     if c = CHR 0x5C then [CHR 0x5C, CHR 0x5C]
     else if c = q then [CHR 0x5C, q]
     else if n = 10 then [CHR 0x5C, CHR ''n'']
     else if n = 13 then [CHR 0x5C, CHR ''r'']
     else if n = 9 then [CHR 0x5C, CHR ''t'']
     else if n < 32 \<or> n = 127 then [CHR 0x5C, CHR ''x'', hex_digit (n div 16), hex_digit (n mod 16)]
     else [c])"

definition repr_str :: "str \<Rightarrow> str" where
  "repr_str s =
     (let q = (if CHR 0x27 \<in> set s \<and> CHR 0x22 \<notin> set s then CHR 0x22 else CHR 0x27)
      in [q] @ concat (map (repr_char q) s) @ [q])"

text \<open>\<open>str(xs)\<close> of a list of strings.\<close>

definition repr_str_list :: "str list \<Rightarrow> str" where
  "repr_str_list xs = ''['' @ join '', '' (map repr_str xs) @ '']''"

section \<open>Dictionaries with insertion order\<close>

type_synonym ('k, 'v) dict = "('k \<times> 'v) list"

definition dict_get :: "('k, 'v) dict \<Rightarrow> 'k \<Rightarrow> 'v option" where
  "dict_get d k = map_of d k"

fun dict_set :: "'k \<Rightarrow> 'v \<Rightarrow> ('k, 'v) dict \<Rightarrow> ('k, 'v) dict" where
  "dict_set k v [] = [(k, v)]"
| "dict_set k v ((k', v') # d) = (if k' = k then (k, v) # d else (k', v') # dict_set k v d)"

lemma dict_get_set: "dict_get (dict_set k v d) k' = (if k' = k then Some v else dict_get d k')"
  by (induction d) (auto simp: dict_get_def)

lemma dict_keys_set: "fst ` set (dict_set k v d) = insert k (fst ` set d)"
  by (induction d rule: dict_set.induct) (simp_all add: insert_commute)

lemma dict_set_distinct: "distinct (map fst d) \<Longrightarrow> distinct (map fst (dict_set k v d))"
proof (induction d)
  case (Cons kv d)
  then show ?case using dict_keys_set [of k v d] by (cases kv) auto
qed simp

text \<open>Appending to a bucket of a \<open>defaultdict(list)\<close>.\<close>

definition bucket_add :: "'k \<Rightarrow> 'v \<Rightarrow> ('k, 'v list) dict \<Rightarrow> ('k, 'v list) dict" where
  "bucket_add k v d = dict_set k ((case dict_get d k of None \<Rightarrow> [] | Some vs \<Rightarrow> vs) @ [v]) d"

text \<open>Incrementing a counter of a \<open>defaultdict(int)\<close>.\<close>

definition counter_add :: "'k \<Rightarrow> ('k, nat) dict \<Rightarrow> ('k, nat) dict" where
  "counter_add k d = dict_set k (Suc (case dict_get d k of None \<Rightarrow> 0 | Some n \<Rightarrow> n)) d"

text \<open>\<open>str(counts)\<close> of a dict of counters.\<close>

definition repr_counts :: "(str, nat) dict \<Rightarrow> str" where
  "repr_counts c = ''{'' @ join '', '' (map (\<lambda>(k, n). repr_str k @ '': '' @ show_nat n) c) @ ''}''"

section \<open>Lists\<close>

text \<open>\<open>list(dict.fromkeys(xs))\<close>: duplicates dropped, first occurrences kept in order.\<close>

fun fromkeys_acc :: "'a list \<Rightarrow> 'a list \<Rightarrow> 'a list" where
  "fromkeys_acc seen [] = []"
| "fromkeys_acc seen (x # xs) = (if x \<in> set seen then fromkeys_acc seen xs else x # fromkeys_acc (x # seen) xs)"

definition fromkeys :: "'a list \<Rightarrow> 'a list" where
  "fromkeys xs = fromkeys_acc [] xs"

lemma set_fromkeys_acc: "set (fromkeys_acc seen xs) = set xs - set seen"
  by (induction xs arbitrary: seen) auto

lemma set_fromkeys [simp]: "set (fromkeys xs) = set xs"
  by (simp add: fromkeys_def set_fromkeys_acc)

lemma fromkeys_eq_Nil [simp]: "fromkeys xs = [] \<longleftrightarrow> xs = []"
  by (metis set_fromkeys set_empty)

lemma distinct_fromkeys [simp]: "distinct (fromkeys xs)"
proof -
  have "distinct (fromkeys_acc seen xs)" for seen
    by (induction xs arbitrary: seen) (auto simp: set_fromkeys_acc)
  then show ?thesis by (simp add: fromkeys_def)
qed

text \<open>\<open>sorted(set(xs))\<close>.\<close>

definition sorted_set :: "'a::linorder list \<Rightarrow> 'a list" where
  "sorted_set xs = sort (remdups xs)"

lemma set_sorted_set [simp]: "set (sorted_set xs) = set xs"
  by (simp add: sorted_set_def)

text \<open>\<open>max(xs, key=f)\<close> on a non-empty list: the first element of maximal key.\<close>

fun max_by :: "('a \<Rightarrow> 'b::linorder) \<Rightarrow> 'a \<Rightarrow> 'a list \<Rightarrow> 'a" where
  "max_by f best [] = best"
| "max_by f best (x # xs) = max_by f (if f best < f x then x else best) xs"

lemma max_by_mem: "max_by f b xs \<in> insert b (set xs)"
proof (induction xs arbitrary: b)
  case (Cons x xs)
  show ?case using Cons.IH [of "if f b < f x then x else b"] by (auto split: if_splits)
qed simp

lemma max_by_self: "f b \<le> f (max_by f b xs)"
proof (induction xs arbitrary: b)
  case (Cons x xs)
  have "f b \<le> f (if f b < f x then x else b)" by auto
  also have "\<dots> \<le> f (max_by f (if f b < f x then x else b) xs)" by (rule Cons.IH)
  finally show ?case by simp
qed simp

lemma max_by_ge: "y \<in> insert b (set xs) \<Longrightarrow> f y \<le> f (max_by f b xs)"
proof (induction xs arbitrary: b)
  case (Cons x xs)
  let ?b = "if f b < f x then x else b"
  have le: "f b \<le> f ?b" "f x \<le> f ?b" by auto
  show ?case
  proof (cases "y \<in> set xs")
    case True
    then show ?thesis using Cons.IH [of ?b] by simp
  next
    case False
    with Cons.prems have "y = b \<or> y = x" by auto
    then have "f y \<le> f ?b" using le by auto
    also have "f ?b \<le> f (max_by f ?b xs)" by (rule max_by_self)
    finally show ?thesis by simp
  qed
qed simp

section \<open>JSON values\<close>

datatype json =
    JNull
  | JBool bool
  | JInt int
  | JFloat rat
  | JStr str
  | JArr "json list"
  | JObj "(str \<times> json) list"

fun jget :: "json \<Rightarrow> str \<Rightarrow> json option" where
  "jget (JObj fs) k = map_of fs k"
| "jget _ k = None"

fun jstr :: "json option \<Rightarrow> str option" where
  "jstr (Some (JStr s)) = Some s"
| "jstr _ = None"

text \<open>Python truthiness of a JSON value.\<close>

fun jtruthy :: "json \<Rightarrow> bool" where
  "jtruthy JNull = False"
| "jtruthy (JBool b) = b"
| "jtruthy (JInt i) = (i \<noteq> 0)"
| "jtruthy (JFloat q) = (q \<noteq> 0)"
| "jtruthy (JStr s) = (s \<noteq> [])"
| "jtruthy (JArr xs) = (xs \<noteq> [])"
| "jtruthy (JObj fs) = (fs \<noteq> [])"

text \<open>
  \<open>repr\<close> and \<open>str\<close> of a JSON value. A float prints its decimal expansion to at most 16 places with
  trailing zeros dropped, which is Python's text for the short decimals that occur in evidence.
\<close>

definition show_rat :: "rat \<Rightarrow> str" where
  "show_rat q = (let s = fmt_fixed 16 q; t = rstrip_char CHR ''0'' s
                 in if last t = CHR ''.'' then t @ ''0'' else t)"

fun py_repr :: "json \<Rightarrow> str" where
  "py_repr JNull = ''None''"
| "py_repr (JBool b) = (if b then ''True'' else ''False'')"
| "py_repr (JInt i) = show_int i"
| "py_repr (JFloat q) = show_rat q"
| "py_repr (JStr s) = repr_str s"
| "py_repr (JArr xs) = ''['' @ join '', '' (map py_repr xs) @ '']''"
| "py_repr (JObj fs) = ''{'' @ join '', '' (map (\<lambda>(k, v). repr_str k @ '': '' @ py_repr v) fs) @ ''}''"

definition py_str :: "json \<Rightarrow> str" where
  "py_str j = (case j of JStr s \<Rightarrow> s | _ \<Rightarrow> py_repr j)"

text \<open>\<open>j == 0\<close>: True for the numbers 0 and for \<open>False\<close>, which is an int in Python.\<close>

fun jeq_zero :: "json \<Rightarrow> bool" where
  "jeq_zero (JInt i) = (i = 0)"
| "jeq_zero (JFloat q) = (q = 0)"
| "jeq_zero (JBool b) = (\<not> b)"
| "jeq_zero _ = False"

section \<open>Exceptions\<close>

text \<open>An exception the source raises or receives: its class name and its message.\<close>

datatype exn = Exn (exn_type: str) (exn_msg: str)

lemma starts_with_append [simp]: "starts_with (p @ s) p"
  by (simp add: starts_with_def)

lemma starts_with_iff: "starts_with s p \<longleftrightarrow> (\<exists>t. s = p @ t)"
  by (metis append_take_drop_id starts_with_append starts_with_def)

section \<open>Decimal numerals are injective\<close>

lemma read_nat_snoc: "read_nat (s @ [c]) = read_nat s * 10 + (of_char c - 48)"
  by (simp add: read_nat_def)

lemma digit_value: "n < 10 \<Longrightarrow> (of_char (char_of (48 + n) :: char) :: nat) = 48 + n"
  by (simp add: of_char_of)

lemma read_show_nat: "read_nat (show_nat n) = n"
proof (induction n rule: less_induct)
  case (less n)
  show ?case
  proof (cases "n < 10")
    case True
    then show ?thesis using digit_value [of n] by (simp add: show_nat_rec read_nat_def)
  next
    case False
    then have "read_nat (show_nat n) = read_nat (show_nat (n div 10)) * 10 + n mod 10"
      using digit_value [of "n mod 10"] by (subst show_nat_rec) (simp add: read_nat_snoc)
    with less False show ?thesis by simp
  qed
qed

lemma show_nat_inj [simp]: "show_nat a = show_nat b \<longleftrightarrow> a = b"
  by (metis read_show_nat)

lemma show_nat_digits: "list_all is_digit (show_nat n) \<and> show_nat n \<noteq> []"
proof (induction n rule: less_induct)
  case (less n)
  have d: "is_digit (char_of (48 + k))" if "k < 10" for k :: nat
    using that digit_value [OF that] by (simp add: is_digit_def)
  show ?case using less.IH [of "n div 10"] by (subst (1 2) show_nat_rec) (auto simp: d)
qed

lemma last_show_nat: "is_digit (last (show_nat n))"
  using show_nat_digits [of n] by (auto simp: list_all_iff)

section \<open>Splitting and trimming\<close>

lemma split_on_acc_part:
  "c \<notin> set p \<Longrightarrow> split_on_acc c acc (p @ c # s) = (rev acc @ p) # split_on_acc c [] s"
  "c \<notin> set p \<Longrightarrow> split_on_acc c acc p = [rev acc @ p]"
  by (induction p arbitrary: acc) auto

lemma strip_id: "\<not> is_space (hd s) \<Longrightarrow> \<not> is_space (last s) \<Longrightarrow> strip s = s"
proof -
  have id: "\<not> is_space (hd t) \<Longrightarrow> dropWhile is_space t = t" for t by (cases t) auto
  assume "\<not> is_space (hd s)" "\<not> is_space (last s)"
  then have "dropWhile is_space s = s" "dropWhile is_space (rev s) = rev s"
    by (simp_all add: id hd_rev)
  then show ?thesis by (simp add: strip_def)
qed

lemma find_SomeD: "find P xs = Some x \<Longrightarrow> P x \<and> x \<in> set xs"
  by (induction xs) (auto split: if_splits)

end
