(* ===== verification/Domain.thy ===== *)
theory Domain
  imports Prelude
begin

text \<open>
  The typed enums of \<^verbatim>\<open>domain/enums.py\<close> that the whole controller shares: each \<^verbatim>\<open>StrEnum\<close> is a
  datatype with its string value, each \<^verbatim>\<open>IntEnum\<close> one with its number and the linear order of that
  number; the frozen sets and tables over them are lists.
\<close>

datatype Scanner =
    SC_trivy
  | SC_grype

fun scanner_value :: "Scanner \<Rightarrow> str" where
  "scanner_value SC_trivy = ''trivy''"
| "scanner_value SC_grype = ''grype''"

datatype ScanMode =
    SM_raw
  | SM_policy

fun scan_mode_value :: "ScanMode \<Rightarrow> str" where
  "scan_mode_value SM_raw = ''raw''"
| "scan_mode_value SM_policy = ''policy''"

datatype GateMode =
    GM_report
  | GM_enforce

fun gate_mode_value :: "GateMode \<Rightarrow> str" where
  "gate_mode_value GM_report = ''report''"
| "gate_mode_value GM_enforce = ''enforce''"

datatype ImageTarget =
    IT_lean
  | IT_ci

fun image_target_value :: "ImageTarget \<Rightarrow> str" where
  "image_target_value IT_lean = ''lean''"
| "image_target_value IT_ci = ''ci''"

subsection \<open>Severity\<close>

datatype Severity =
    SEV_critical
  | SEV_high
  | SEV_medium
  | SEV_low
  | SEV_unknown

fun severity_value :: "Severity \<Rightarrow> str" where
  "severity_value SEV_critical = ''CRITICAL''"
| "severity_value SEV_high = ''HIGH''"
| "severity_value SEV_medium = ''MEDIUM''"
| "severity_value SEV_low = ''LOW''"
| "severity_value SEV_unknown = ''UNKNOWN''"

fun severity_rank :: "Severity \<Rightarrow> nat" where
  "severity_rank SEV_unknown = 0"
| "severity_rank SEV_low = 1"
| "severity_rank SEV_medium = 2"
| "severity_rank SEV_high = 3"
| "severity_rank SEV_critical = 4"

text \<open>The members in declaration order, as \<open>for s in Severity\<close> visits them.\<close>

definition all_severities :: "Severity list" where
  "all_severities = [SEV_critical, SEV_high, SEV_medium, SEV_low, SEV_unknown]"

text \<open>\<open>cls(raw)\<close>: the member whose value is the string, None where Python raises ValueError.\<close>

definition severity_of_value :: "str \<Rightarrow> Severity option" where
  "severity_of_value s = find (\<lambda>v. severity_value v = s) all_severities"

definition severity_parse :: "str option \<Rightarrow> Severity" where
  "severity_parse raw =
     (case raw of
        None \<Rightarrow> SEV_unknown
      | Some s \<Rightarrow>
          (case severity_of_value (upper s) of
             Some v \<Rightarrow> v
           | None \<Rightarrow> if lower s = ''negligible'' then SEV_low else SEV_unknown))"

definition DISPATCH_DEFAULT_SEVERITIES :: "Severity list" where
  [enum_defs]: "DISPATCH_DEFAULT_SEVERITIES = [SEV_high, SEV_critical]"

subsection \<open>Layers, ecosystems, kinds\<close>

datatype Layer =
    LY_python
  | LY_os
  | LY_binary
  | LY_dockerfile
  | LY_helm
  | LY_compose

fun layer_value :: "Layer \<Rightarrow> str" where
  "layer_value LY_python = ''python''"
| "layer_value LY_os = ''os''"
| "layer_value LY_binary = ''binary''"
| "layer_value LY_dockerfile = ''dockerfile''"
| "layer_value LY_helm = ''helm''"
| "layer_value LY_compose = ''compose''"

datatype Ecosystem =
    EC_pypi
  | EC_deb
  | EC_npm
  | EC_golang
  | EC_binary
  | EC_config
  | EC_unknown

fun ecosystem_value :: "Ecosystem \<Rightarrow> str" where
  "ecosystem_value EC_pypi = ''pypi''"
| "ecosystem_value EC_deb = ''deb''"
| "ecosystem_value EC_npm = ''npm''"
| "ecosystem_value EC_golang = ''golang''"
| "ecosystem_value EC_binary = ''binary''"
| "ecosystem_value EC_config = ''config''"
| "ecosystem_value EC_unknown = ''unknown''"

fun SCANNER_ECOSYSTEMS :: "Scanner \<Rightarrow> Ecosystem list" where
  "SCANNER_ECOSYSTEMS SC_trivy = [EC_pypi, EC_deb, EC_npm, EC_golang]"
| "SCANNER_ECOSYSTEMS SC_grype = [EC_pypi, EC_deb, EC_npm, EC_golang, EC_binary]"

datatype Kind =
    K_dependency_upgrade
  | K_no_fix_reachability
  | K_container_hardening
  | K_scanner_disagreement
  | K_helm_deploy_config

fun kind_slug :: "Kind \<Rightarrow> str" where
  "kind_slug K_dependency_upgrade = ''dependency_upgrade''"
| "kind_slug K_no_fix_reachability = ''no_fix_reachability''"
| "kind_slug K_container_hardening = ''container_hardening''"
| "kind_slug K_scanner_disagreement = ''scanner_disagreement''"
| "kind_slug K_helm_deploy_config = ''helm_deploy_config''"

fun kind_value :: "Kind \<Rightarrow> nat" where
  "kind_value K_dependency_upgrade = 1"
| "kind_value K_no_fix_reachability = 2"
| "kind_value K_container_hardening = 3"
| "kind_value K_scanner_disagreement = 4"
| "kind_value K_helm_deploy_config = 5"

fun ACU_CAPS :: "Kind \<Rightarrow> nat" where
  "ACU_CAPS K_dependency_upgrade = 5"
| "ACU_CAPS K_no_fix_reachability = 8"
| "ACU_CAPS K_container_hardening = 20"
| "ACU_CAPS K_scanner_disagreement = 3"
| "ACU_CAPS K_helm_deploy_config = 6"

fun PLAYBOOK_SLUGS :: "Kind \<Rightarrow> str" where
  "PLAYBOOK_SLUGS K_dependency_upgrade = ''pb-dependency-upgrade''"
| "PLAYBOOK_SLUGS K_no_fix_reachability = ''pb-no-fix-openvex''"
| "PLAYBOOK_SLUGS K_container_hardening = ''pb-container-hardening''"
| "PLAYBOOK_SLUGS K_scanner_disagreement = ''pb-scanner-disagreement''"
| "PLAYBOOK_SLUGS K_helm_deploy_config = ''pb-helm-security''"

datatype Risk =
    RK_normal
  | RK_high

fun risk_value :: "Risk \<Rightarrow> str" where
  "risk_value RK_normal = ''normal''"
| "risk_value RK_high = ''high''"

subsection \<open>Lifecycle states\<close>

datatype FindingState =
    F_open
  | F_unclassified
  | F_grouped
  | F_in_remediation
  | F_awaiting_rescan
  | F_fixed
  | F_approved_disposition
  | F_scanner_disagreement_resolved
  | F_regression
  | F_human_blocked

fun finding_state_value :: "FindingState \<Rightarrow> str" where
  "finding_state_value F_open = ''open''"
| "finding_state_value F_unclassified = ''unclassified''"
| "finding_state_value F_grouped = ''grouped''"
| "finding_state_value F_in_remediation = ''in_remediation''"
| "finding_state_value F_awaiting_rescan = ''awaiting_rescan''"
| "finding_state_value F_fixed = ''fixed''"
| "finding_state_value F_approved_disposition = ''approved_disposition''"
| "finding_state_value F_scanner_disagreement_resolved = ''scanner_disagreement_resolved''"
| "finding_state_value F_regression = ''regression''"
| "finding_state_value F_human_blocked = ''human_blocked''"

definition CLOSING_FINDING_STATES :: "FindingState list" where
  [enum_defs]: "CLOSING_FINDING_STATES = [F_fixed, F_approved_disposition, F_scanner_disagreement_resolved]"

datatype WorkItemState =
    W_queued
  | W_issue_open
  | W_dispatching
  | W_session_active
  | W_pr_open
  | W_checks_running
  | W_checks_failed
  | W_review_pending
  | W_ready_for_human
  | W_merged
  | W_awaiting_rescan
  | W_verified
  | W_needs_human
  | W_abandoned
  | W_failed

fun work_item_state_value :: "WorkItemState \<Rightarrow> str" where
  "work_item_state_value W_queued = ''queued''"
| "work_item_state_value W_issue_open = ''issue_open''"
| "work_item_state_value W_dispatching = ''dispatching''"
| "work_item_state_value W_session_active = ''session_active''"
| "work_item_state_value W_pr_open = ''pr_open''"
| "work_item_state_value W_checks_running = ''checks_running''"
| "work_item_state_value W_checks_failed = ''checks_failed''"
| "work_item_state_value W_review_pending = ''review_pending''"
| "work_item_state_value W_ready_for_human = ''ready_for_human''"
| "work_item_state_value W_merged = ''merged''"
| "work_item_state_value W_awaiting_rescan = ''awaiting_rescan''"
| "work_item_state_value W_verified = ''verified''"
| "work_item_state_value W_needs_human = ''needs_human''"
| "work_item_state_value W_abandoned = ''abandoned''"
| "work_item_state_value W_failed = ''failed''"

definition ACTIVE_WORK_ITEM_STATES :: "WorkItemState list" where
  [enum_defs]: "ACTIVE_WORK_ITEM_STATES =
     [W_dispatching, W_session_active, W_pr_open, W_checks_running, W_checks_failed, W_review_pending]"

definition TERMINAL_WORK_ITEM_STATES :: "WorkItemState list" where
  [enum_defs]: "TERMINAL_WORK_ITEM_STATES = [W_verified, W_abandoned]"

subsection \<open>Lifecycle level and verification depth\<close>

datatype LifecycleLevel =
    LL_none
  | LL_pr_opened
  | LL_ci_green
  | LL_review_completed
  | LL_human_approved
  | LL_merged
  | LL_rescan_verified

fun level_name :: "LifecycleLevel \<Rightarrow> str" where
  "level_name LL_none = ''none''"
| "level_name LL_pr_opened = ''pr_opened''"
| "level_name LL_ci_green = ''ci_green''"
| "level_name LL_review_completed = ''review_completed''"
| "level_name LL_human_approved = ''human_approved''"
| "level_name LL_merged = ''merged''"
| "level_name LL_rescan_verified = ''rescan_verified''"

fun level_value :: "LifecycleLevel \<Rightarrow> nat" where
  "level_value LL_none = 0"
| "level_value LL_pr_opened = 1"
| "level_value LL_ci_green = 2"
| "level_value LL_review_completed = 3"
| "level_value LL_human_approved = 4"
| "level_value LL_merged = 5"
| "level_value LL_rescan_verified = 6"

datatype VerificationDepth =
    VD_requirements_pip
  | VD_import_migrations
  | VD_targeted_unit
  | VD_immutable_image_runtime
  | VD_db_subset
  | VD_playwright
  | VD_canary

fun depth_name :: "VerificationDepth \<Rightarrow> str" where
  "depth_name VD_requirements_pip = ''requirements_pip''"
| "depth_name VD_import_migrations = ''import_migrations''"
| "depth_name VD_targeted_unit = ''targeted_unit''"
| "depth_name VD_immutable_image_runtime = ''immutable_image_runtime''"
| "depth_name VD_db_subset = ''db_subset''"
| "depth_name VD_playwright = ''playwright''"
| "depth_name VD_canary = ''canary''"

fun depth_value :: "VerificationDepth \<Rightarrow> nat" where
  "depth_value VD_requirements_pip = 0"
| "depth_value VD_import_migrations = 1"
| "depth_value VD_targeted_unit = 2"
| "depth_value VD_immutable_image_runtime = 3"
| "depth_value VD_db_subset = 4"
| "depth_value VD_playwright = 5"
| "depth_value VD_canary = 6"

definition all_depths :: "VerificationDepth list" where
  "all_depths = [VD_requirements_pip, VD_import_migrations, VD_targeted_unit, VD_immutable_image_runtime, VD_db_subset, VD_playwright, VD_canary]"

fun depth_title :: "VerificationDepth \<Rightarrow> str" where
  "depth_title VD_requirements_pip = ''requirements + pip''"
| "depth_title VD_import_migrations = ''import + migrations''"
| "depth_title VD_targeted_unit = ''targeted + unit tests''"
| "depth_title VD_immutable_image_runtime = ''immutable-image runtime''"
| "depth_title VD_db_subset = ''database subset''"
| "depth_title VD_playwright = ''Playwright''"
| "depth_title VD_canary = ''canary''"

definition depth_label :: "VerificationDepth \<Rightarrow> str" where
  "depth_label d = ''L'' @ show_nat (depth_value d) @ '' '' @ depth_title d"

subsection \<open>Checks, runs, triggers, labels\<close>

datatype CheckStatus =
    CK_pending
  | CK_passed
  | CK_failed
  | CK_partial
  | CK_unavailable

fun check_status_value :: "CheckStatus \<Rightarrow> str" where
  "check_status_value CK_pending = ''pending''"
| "check_status_value CK_passed = ''passed''"
| "check_status_value CK_failed = ''failed''"
| "check_status_value CK_partial = ''partial''"
| "check_status_value CK_unavailable = ''unavailable''"

datatype CheckSource =
    CS_github_check
  | CS_ladder
  | CS_devin_claim

fun check_source_value :: "CheckSource \<Rightarrow> str" where
  "check_source_value CS_github_check = ''github_check''"
| "check_source_value CS_ladder = ''ladder''"
| "check_source_value CS_devin_claim = ''devin_claim''"

datatype ScanRunStatus =
    SR_complete
  | SR_incomplete
  | SR_failed

fun scan_run_status_value :: "ScanRunStatus \<Rightarrow> str" where
  "scan_run_status_value SR_complete = ''complete''"
| "scan_run_status_value SR_incomplete = ''incomplete''"
| "scan_run_status_value SR_failed = ''failed''"

datatype IntakeStatus =
    IS_ingested
  | IS_rejected

fun intake_status_value :: "IntakeStatus \<Rightarrow> str" where
  "intake_status_value IS_ingested = ''ingested''"
| "intake_status_value IS_rejected = ''rejected''"

datatype Trigger =
    TR_push
  | TR_pull_request
  | TR_schedule
  | TR_workflow_dispatch
  | TR_replay
  | TR_fixture

fun trigger_value :: "Trigger \<Rightarrow> str" where
  "trigger_value TR_push = ''push''"
| "trigger_value TR_pull_request = ''pull_request''"
| "trigger_value TR_schedule = ''schedule''"
| "trigger_value TR_workflow_dispatch = ''workflow_dispatch''"
| "trigger_value TR_replay = ''replay''"
| "trigger_value TR_fixture = ''fixture''"

definition CLOSING_TRIGGERS :: "Trigger list" where
  [enum_defs]: "CLOSING_TRIGGERS = [TR_push, TR_schedule, TR_workflow_dispatch, TR_replay, TR_fixture]"

datatype HumanLabel =
    HL_needs_human
  | HL_dispatch_approved
  | HL_disposition_approved
  | HL_disagreement_resolved
  | HL_retry
  | HL_verify_no_change

fun human_label_value :: "HumanLabel \<Rightarrow> str" where
  "human_label_value HL_needs_human = ''needs-human''"
| "human_label_value HL_dispatch_approved = ''dispatch:approved''"
| "human_label_value HL_disposition_approved = ''disposition:approved''"
| "human_label_value HL_disagreement_resolved = ''disagreement:resolved''"
| "human_label_value HL_retry = ''retry''"
| "human_label_value HL_verify_no_change = ''verify-no-change''"

section \<open>Orders of the numbered enums\<close>

instantiation Kind :: linorder
begin

definition less_eq_Kind :: "Kind \<Rightarrow> Kind \<Rightarrow> bool" where
  "less_eq_Kind a b \<longleftrightarrow> kind_value a \<le> kind_value b"

definition less_Kind :: "Kind \<Rightarrow> Kind \<Rightarrow> bool" where
  "less_Kind a b \<longleftrightarrow> kind_value a < kind_value b"

instance
proof
  fix x y z :: Kind
  show "x < y \<longleftrightarrow> x \<le> y \<and> \<not> y \<le> x" by (auto simp: less_eq_Kind_def less_Kind_def)
  show "x \<le> x" by (simp add: less_eq_Kind_def)
  show "x \<le> y \<Longrightarrow> y \<le> z \<Longrightarrow> x \<le> z" by (simp add: less_eq_Kind_def)
  show "x \<le> y \<Longrightarrow> y \<le> x \<Longrightarrow> x = y" by (cases x; cases y) (simp_all add: less_eq_Kind_def)
  show "x \<le> y \<or> y \<le> x" by (auto simp: less_eq_Kind_def)
qed

end

instantiation LifecycleLevel :: linorder
begin

definition less_eq_LifecycleLevel :: "LifecycleLevel \<Rightarrow> LifecycleLevel \<Rightarrow> bool" where
  "less_eq_LifecycleLevel a b \<longleftrightarrow> level_value a \<le> level_value b"

definition less_LifecycleLevel :: "LifecycleLevel \<Rightarrow> LifecycleLevel \<Rightarrow> bool" where
  "less_LifecycleLevel a b \<longleftrightarrow> level_value a < level_value b"

instance
proof
  fix x y z :: LifecycleLevel
  show "x < y \<longleftrightarrow> x \<le> y \<and> \<not> y \<le> x" by (auto simp: less_eq_LifecycleLevel_def less_LifecycleLevel_def)
  show "x \<le> x" by (simp add: less_eq_LifecycleLevel_def)
  show "x \<le> y \<Longrightarrow> y \<le> z \<Longrightarrow> x \<le> z" by (simp add: less_eq_LifecycleLevel_def)
  show "x \<le> y \<Longrightarrow> y \<le> x \<Longrightarrow> x = y" by (cases x; cases y) (simp_all add: less_eq_LifecycleLevel_def)
  show "x \<le> y \<or> y \<le> x" by (auto simp: less_eq_LifecycleLevel_def)
qed

end

instantiation VerificationDepth :: linorder
begin

definition less_eq_VerificationDepth :: "VerificationDepth \<Rightarrow> VerificationDepth \<Rightarrow> bool" where
  "less_eq_VerificationDepth a b \<longleftrightarrow> depth_value a \<le> depth_value b"

definition less_VerificationDepth :: "VerificationDepth \<Rightarrow> VerificationDepth \<Rightarrow> bool" where
  "less_VerificationDepth a b \<longleftrightarrow> depth_value a < depth_value b"

instance
proof
  fix x y z :: VerificationDepth
  show "x < y \<longleftrightarrow> x \<le> y \<and> \<not> y \<le> x" by (auto simp: less_eq_VerificationDepth_def less_VerificationDepth_def)
  show "x \<le> x" by (simp add: less_eq_VerificationDepth_def)
  show "x \<le> y \<Longrightarrow> y \<le> z \<Longrightarrow> x \<le> z" by (simp add: less_eq_VerificationDepth_def)
  show "x \<le> y \<Longrightarrow> y \<le> x \<Longrightarrow> x = y" by (cases x; cases y) (simp_all add: less_eq_VerificationDepth_def)
  show "x \<le> y \<or> y \<le> x" by (auto simp: less_eq_VerificationDepth_def)
qed

end

lemmas level_order = less_eq_LifecycleLevel_def less_LifecycleLevel_def

lemma severity_value_inj: "severity_value a = severity_value b \<longleftrightarrow> a = b"
  by (cases a; cases b) auto

lemma severity_parse_value: "severity_parse (Some (severity_value s)) = s"
  by (cases s; hypsubst; code_simp)

end
