(* ===== verification/Config.thy ===== *)
theory Config
  imports Domain
begin

text \<open>
  The constants and the settings of \<^verbatim>\<open>config.py\<close> the controller logic reads. Bounds that pydantic
  enforces on construction (\<open>ge\<close>, \<open>gt\<close>) are the predicate \<open>settings_ok\<close>.
\<close>

definition FORK_REPO :: str where "FORK_REPO = ''Hunter-1298/superset''"
definition CONTROLLER_REPO :: str where "CONTROLLER_REPO = ''Hunter-1298/superset-hardening-loop''"
definition REPO_ALLOWLIST :: "str list" where "REPO_ALLOWLIST = [FORK_REPO, CONTROLLER_REPO]"
definition REMEDIATION_BRANCH :: str where "REMEDIATION_BRANCH = ''main''"
definition BASELINE_SHA :: str where "BASELINE_SHA = ''c83fb2bb1dcfac41ac51bcebd82471f4a7180d18''"
definition TRIVY_VERSION :: str where "TRIVY_VERSION = ''0.71.2''"
definition GRYPE_VERSION :: str where "GRYPE_VERSION = ''0.114.0''"

lemmas config_consts = FORK_REPO_def CONTROLLER_REPO_def REPO_ALLOWLIST_def REMEDIATION_BRANCH_def

record Settings =
  st_fork_repo :: str
  st_remediation_branch :: str
  st_max_concurrent_sessions :: nat
  st_global_acu_budget :: rat
  st_retries_per_work_item :: nat
  st_session_wall_clock_max_hours :: rat
  st_review_timeout_minutes :: nat
  st_approver_logins :: "str list"
  st_required_check_names :: "str list"
  st_max_dispatch_failures :: nat
  st_auto_open_issues :: bool
  st_repo_root :: str
  st_evidence_dir :: str

definition settings_ok :: "Settings \<Rightarrow> bool" where
  "settings_ok s \<longleftrightarrow> 1 \<le> st_max_concurrent_sessions s \<and> 0 < st_global_acu_budget s \<and>
     0 < st_session_wall_clock_max_hours s \<and> 1 \<le> st_review_timeout_minutes s \<and>
     1 \<le> st_max_dispatch_failures s"

definition default_settings :: Settings where
  "default_settings =
     \<lparr>st_fork_repo = FORK_REPO, st_remediation_branch = REMEDIATION_BRANCH,
      st_max_concurrent_sessions = 2, st_global_acu_budget = 60, st_retries_per_work_item = 2,
      st_session_wall_clock_max_hours = 3, st_review_timeout_minutes = 30,
      st_approver_logins = [''Hunter-1298''], st_required_check_names = [],
      st_max_dispatch_failures = 3, st_auto_open_issues = True, st_repo_root = ''/app'',
      st_evidence_dir = ''data/evidence''\<rparr>"

text \<open>\<open>assert_repo_allowed\<close>: PermissionError outside the allowlist.\<close>

definition assert_repo_allowed :: "str \<Rightarrow> exn + unit" where
  "assert_repo_allowed repo =
     (if repo \<in> set REPO_ALLOWLIST then Inr ()
      else Inl (Exn ''PermissionError''
        (''repository '' @ repr_str repo @ '' is not in the allowlist '' @ repr_str_list (sort REPO_ALLOWLIST))))"

lemma default_settings_ok: "settings_ok default_settings"
  by (simp add: settings_ok_def default_settings_def)

end
