(* ===== verification/Protocol.thy ===== *)
theory Protocol
  imports Domain
begin

text \<open>
  What the controller reads from the two services it drives: the records of
  \<^verbatim>\<open>github/protocol.py\<close> and \<^verbatim>\<open>devin/protocol.py\<close>, and the Devin session enums and snapshot
  predicates of \<^verbatim>\<open>devin/enums.py\<close>. The services themselves are outside the repository; they
  appear later as parameters that return these records.
\<close>

section \<open>GitHub\<close>

record Issue =
  is_repo :: str
  is_number :: nat
  is_url :: str
  is_title :: str
  is_state :: str
  is_labels :: "str list"

record PullRequestInfo =
  pi_repo :: str
  pi_number :: nat
  pi_url :: str
  pi_title :: str
  pi_state :: str
  pi_merged :: bool
  pi_merge_commit_sha :: "str option"
  pi_base_ref :: str
  pi_head_ref :: str
  pi_head_repo :: str
  pi_head_sha :: str
  pi_author :: str
  pi_merged_at :: "int option"

record CheckRun =
  cr_name :: str
  cr_status :: str
  cr_conclusion :: "str option"
  cr_url :: "str option"

record Review =
  rv_author :: str
  rv_state :: str
  rv_commit_sha :: str
  rv_submitted_at :: "int option"

record Compare =
  cmp_status :: str
  cmp_ahead_by :: nat
  cmp_behind_by :: nat

record DiffFile =
  df_filename :: str
  df_status :: str
  df_previous_filename :: "str option"

record BranchFile =
  bf_path :: str
  bf_sha :: str
  bf_content :: str

record WorkflowRunInfo =
  wr_id :: nat
  wr_run_attempt :: nat
  wr_event :: str
  wr_status :: str
  wr_conclusion :: "str option"
  wr_head_branch :: "str option"
  wr_head_sha :: str
  wr_url :: str

record ArtifactInfo =
  ai_id :: nat
  ai_name :: str
  ai_expired :: bool
  ai_digest :: "str option"

section \<open>Devin sessions\<close>

datatype DevinStatus =
    DS_new
  | DS_claimed
  | DS_running
  | DS_exit
  | DS_error
  | DS_suspended
  | DS_resuming

fun devin_status_value :: "DevinStatus \<Rightarrow> str" where
  "devin_status_value DS_new = ''new''"
| "devin_status_value DS_claimed = ''claimed''"
| "devin_status_value DS_running = ''running''"
| "devin_status_value DS_exit = ''exit''"
| "devin_status_value DS_error = ''error''"
| "devin_status_value DS_suspended = ''suspended''"
| "devin_status_value DS_resuming = ''resuming''"

datatype DevinStatusDetail =
    DD_working
  | DD_waiting_for_user
  | DD_waiting_for_approval
  | DD_finished
  | DD_inactivity
  | DD_user_request
  | DD_usage_limit_exceeded
  | DD_out_of_credits
  | DD_out_of_quota
  | DD_no_quota_allocation
  | DD_payment_declined
  | DD_org_usage_limit_exceeded
  | DD_user_usage_limit_exceeded
  | DD_total_session_limit_exceeded
  | DD_error

fun devin_detail_value :: "DevinStatusDetail \<Rightarrow> str" where
  "devin_detail_value DD_working = ''working''"
| "devin_detail_value DD_waiting_for_user = ''waiting_for_user''"
| "devin_detail_value DD_waiting_for_approval = ''waiting_for_approval''"
| "devin_detail_value DD_finished = ''finished''"
| "devin_detail_value DD_inactivity = ''inactivity''"
| "devin_detail_value DD_user_request = ''user_request''"
| "devin_detail_value DD_usage_limit_exceeded = ''usage_limit_exceeded''"
| "devin_detail_value DD_out_of_credits = ''out_of_credits''"
| "devin_detail_value DD_out_of_quota = ''out_of_quota''"
| "devin_detail_value DD_no_quota_allocation = ''no_quota_allocation''"
| "devin_detail_value DD_payment_declined = ''payment_declined''"
| "devin_detail_value DD_org_usage_limit_exceeded = ''org_usage_limit_exceeded''"
| "devin_detail_value DD_user_usage_limit_exceeded = ''user_usage_limit_exceeded''"
| "devin_detail_value DD_total_session_limit_exceeded = ''total_session_limit_exceeded''"
| "devin_detail_value DD_error = ''error''"

definition BUDGET_STOP_DETAILS :: "DevinStatusDetail list" where
  [enum_defs]: "BUDGET_STOP_DETAILS =
     [DD_usage_limit_exceeded, DD_out_of_credits, DD_out_of_quota, DD_no_quota_allocation,
      DD_payment_declined, DD_org_usage_limit_exceeded, DD_user_usage_limit_exceeded,
      DD_total_session_limit_exceeded]"

definition RESUMABLE_SUSPENSION_DETAILS :: "DevinStatusDetail list" where
  [enum_defs]: "RESUMABLE_SUSPENSION_DETAILS = [DD_inactivity, DD_user_request]"

datatype Outcome =
    O_pr_opened
  | O_blocked
  | O_no_change_needed

fun outcome_value :: "Outcome \<Rightarrow> str" where
  "outcome_value O_pr_opened = ''pr_opened''"
| "outcome_value O_blocked = ''blocked''"
| "outcome_value O_no_change_needed = ''no_change_needed''"

definition outcome_of_value :: "str \<Rightarrow> Outcome option" where
  "outcome_of_value s = find (\<lambda>v. outcome_value v = s) [O_pr_opened, O_blocked, O_no_change_needed]"

record SessionPullRequest =
  spr_url :: str
  spr_state :: "str option"

text \<open>\<open>structured_output\<close> is a JSON object: its fields, or None.\<close>

record SessionSnapshot =
  ss_session_id :: str
  ss_url :: str
  ss_status :: DevinStatus
  ss_status_detail :: "DevinStatusDetail option"
  ss_acus_consumed :: rat
  ss_pull_requests :: "SessionPullRequest list"
  ss_structured_output :: "(str \<times> json) list option"
  ss_tags :: "str list"
  ss_created_at :: int
  ss_updated_at :: int

definition detail_in :: "SessionSnapshot \<Rightarrow> DevinStatusDetail list \<Rightarrow> bool" where
  "detail_in s ds = (case ss_status_detail s of None \<Rightarrow> False | Some d \<Rightarrow> d \<in> set ds)"

definition ss_outcome :: "SessionSnapshot \<Rightarrow> Outcome option" where
  "ss_outcome s =
     (case ss_structured_output s of
        None \<Rightarrow> None
      | Some out \<Rightarrow>
          if out = [] then None
          else (case map_of out ''outcome'' of
                  Some (JStr raw) \<Rightarrow> outcome_of_value raw
                | _ \<Rightarrow> None))"

definition ss_blocked_reason :: "SessionSnapshot \<Rightarrow> str option" where
  "ss_blocked_reason s =
     (case ss_structured_output s of
        None \<Rightarrow> None
      | Some out \<Rightarrow>
          if out = [] then None
          else (case map_of out ''blocked_reason'' of
                  Some (JStr v) \<Rightarrow> if strip v \<noteq> [] then Some v else None
                | _ \<Rightarrow> None))"

definition is_done :: "SessionSnapshot \<Rightarrow> bool" where
  "is_done s \<longleftrightarrow> ss_status s \<in> set [DS_exit, DS_error] \<or>
     (ss_status s = DS_running \<and> ss_status_detail s = Some DD_finished)"

definition is_budget_stop :: "SessionSnapshot \<Rightarrow> bool" where
  "is_budget_stop s = detail_in s BUDGET_STOP_DETAILS"

definition is_resumable_suspension :: "SessionSnapshot \<Rightarrow> bool" where
  "is_resumable_suspension s \<longleftrightarrow> ss_status s = DS_suspended \<and> detail_in s RESUMABLE_SUSPENSION_DETAILS"

definition is_inactivity_suspension :: "SessionSnapshot \<Rightarrow> bool" where
  "is_inactivity_suspension s \<longleftrightarrow> ss_status s = DS_suspended \<and> ss_status_detail s = Some DD_inactivity"

definition is_waiting_for_user :: "SessionSnapshot \<Rightarrow> bool" where
  "is_waiting_for_user s \<longleftrightarrow> ss_status s = DS_running \<and> ss_status_detail s = Some DD_waiting_for_user"

definition is_waiting_for_approval :: "SessionSnapshot \<Rightarrow> bool" where
  "is_waiting_for_approval s \<longleftrightarrow> ss_status s = DS_running \<and> ss_status_detail s = Some DD_waiting_for_approval"

definition is_error :: "SessionSnapshot \<Rightarrow> bool" where
  "is_error s \<longleftrightarrow> ss_status s = DS_error \<or> ss_status_detail s = Some DD_error"

definition is_active :: "SessionSnapshot \<Rightarrow> bool" where
  "is_active s \<longleftrightarrow> ss_status s \<in> set [DS_new, DS_claimed, DS_running, DS_resuming] \<or> is_resumable_suspension s"

definition is_final_report :: "SessionSnapshot \<Rightarrow> bool" where
  "is_final_report s \<longleftrightarrow> is_done s \<or>
     ((is_waiting_for_user s \<or> is_inactivity_suspension s) \<and> ss_outcome s = Some O_pr_opened)"

definition output_blocked :: "SessionSnapshot \<Rightarrow> bool" where
  "output_blocked s \<longleftrightarrow> ss_outcome s = Some O_blocked \<and> ss_blocked_reason s \<noteq> None"

definition no_change_needed :: "SessionSnapshot \<Rightarrow> bool" where
  "no_change_needed s \<longleftrightarrow> ss_outcome s = Some O_no_change_needed"

lemmas snapshot_defs = is_done_def is_budget_stop_def is_resumable_suspension_def
  is_inactivity_suspension_def is_waiting_for_user_def is_waiting_for_approval_def is_error_def
  is_active_def is_final_report_def detail_in_def

section \<open>Devin reviews and session requests\<close>

datatype ReviewStatus =
    RS_pending
  | RS_running
  | RS_completed
  | RS_errored
  | RS_cancelled

fun review_status_value :: "ReviewStatus \<Rightarrow> str" where
  "review_status_value RS_pending = ''pending''"
| "review_status_value RS_running = ''running''"
| "review_status_value RS_completed = ''completed''"
| "review_status_value RS_errored = ''errored''"
| "review_status_value RS_cancelled = ''cancelled''"

definition review_is_terminal :: "ReviewStatus \<Rightarrow> bool" where
  "review_is_terminal s \<longleftrightarrow> s \<in> set [RS_completed, RS_errored, RS_cancelled]"

record ReviewSnapshot =
  rs_status :: ReviewStatus
  rs_repo_path :: str
  rs_pr_number :: nat
  rs_commit_sha :: str
  rs_created_at :: int

record CreateSessionRequest =
  csr_prompt :: str
  csr_repos :: "str list"
  csr_title :: str
  csr_tags :: "str list"
  csr_max_acu_limit :: rat
  csr_structured_output_schema :: json
  csr_structured_output_required :: bool
  csr_playbook_id :: "str option"
  csr_knowledge_ids :: "str list"
  csr_attachment_urls :: "str list"
  csr_resumable :: bool

end
