(* ===== verification/Depth.thy ===== *)
theory Depth
  imports Protocol
begin

text \<open>
  \<^verbatim>\<open>verification.py\<close>: which rungs of the L0-L6 ladder a PR head has earned, from the GitHub check runs
  on that head. Devin's own \<open>tests_run\<close> claims become records and never touch a rung.
\<close>

record Component =
  co_name :: str
  co_description :: str
  co_check :: "str option"

type_synonym ladder = "VerificationDepth \<Rightarrow> Component list"

fun DEFAULT_LADDER :: ladder where
  "DEFAULT_LADDER VD_requirements_pip =
     [\<lparr>co_name = ''requirements-regenerated'',
        co_description = ''pins regenerate cleanly from source inputs (scripts/uv-pip-compile.sh)'',
        co_check = Some ''check-python-deps''\<rparr>,
      \<lparr>co_name = ''pip-install'',
        co_description = ''pip installs the pinned set while building the immutable image'',
        co_check = Some ''build-image''\<rparr>]"
| "DEFAULT_LADDER VD_import_migrations =
     [\<lparr>co_name = ''import-and-migrations'',
        co_description = ''superset imports, `superset db upgrade` reaches head, gunicorn serves /health, login works, all inside the exact lean image'',
        co_check = Some ''lean-smoke''\<rparr>]"
| "DEFAULT_LADDER VD_targeted_unit =
     [\<lparr>co_name = ''python-unit-tests'',
        co_description = ''pytest unit suite'',
        co_check = Some ''unit-tests''\<rparr>]"
| "DEFAULT_LADDER VD_immutable_image_runtime =
     [\<lparr>co_name = ''postgres-redis-app-runs'',
        co_description = ''exact ci image with Postgres, Redis and Celery: migrations, login, dashboards, chart data, SQL Lab sync + async, CSV export'',
        co_check = Some ''app-runs''\<rparr>,
      \<lparr>co_name = ''screenshot'',
        co_description = ''rendered dashboard screenshot from the running image'',
        co_check = None\<rparr>]"
| "DEFAULT_LADDER VD_db_subset =
     [\<lparr>co_name = ''integration-postgres'',
        co_description = ''integration tests on PostgreSQL'',
        co_check = Some ''test-postgres''\<rparr>,
      \<lparr>co_name = ''integration-mysql'',
        co_description = ''integration tests on MySQL'',
        co_check = Some ''test-mysql''\<rparr>,
      \<lparr>co_name = ''integration-sqlite'',
        co_description = ''integration tests on SQLite'',
        co_check = Some ''test-sqlite''\<rparr>]"
| "DEFAULT_LADDER VD_playwright =
     [\<lparr>co_name = ''playwright'',
        co_description = ''Playwright end-to-end suite'',
        co_check = Some ''playwright-tests''\<rparr>]"
| "DEFAULT_LADDER VD_canary =
     [\<lparr>co_name = ''canary'',
        co_description = ''canary deployment with traffic; no environment exists'',
        co_check = None\<rparr>]"

record CheckRecord =
  rec_depth :: VerificationDepth
  rec_name :: str
  rec_source :: CheckSource
  rec_status :: CheckStatus
  rec_detail :: str
  rec_url :: "str option"

record DepthEvaluation =
  ev_records :: "CheckRecord list"
  ev_rungs :: "(VerificationDepth, CheckStatus) dict"

definition highest_passed :: "DepthEvaluation \<Rightarrow> VerificationDepth option" where
  "highest_passed ev =
     (let passed = map fst (filter (\<lambda>(d, s). s = CK_passed) (ev_rungs ev))
      in case passed of [] \<Rightarrow> None | d # ds \<Rightarrow> Some (fold max ds d))"

definition rung_summary :: "DepthEvaluation \<Rightarrow> (str, str) dict" where
  "rung_summary ev = map (\<lambda>(d, s). (depth_name d, check_status_value s)) (ev_rungs ev)"

definition matching_runs :: "str \<Rightarrow> CheckRun list \<Rightarrow> CheckRun list" where
  "matching_runs check runs =
     filter (\<lambda>r. cr_name r = check \<or> starts_with (cr_name r) (check @ '' ('')) runs"

definition SUCCESS :: "str list" where "SUCCESS = [''success'']"
definition UNAVAILABLE_CONCLUSIONS :: "str list" where "UNAVAILABLE_CONCLUSIONS = [''skipped'', ''neutral'']"

definition concluded :: "str list \<Rightarrow> CheckRun \<Rightarrow> bool" where
  "concluded cs r = (case cr_conclusion r of None \<Rightarrow> False | Some c \<Rightarrow> c \<in> set cs)"

definition run_text :: "CheckRun \<Rightarrow> str" where
  "run_text r = cr_name r @ ''='' @ show_opt_str (cr_conclusion r)"

text \<open>The first truthy url of the matched runs.\<close>

fun first_url :: "CheckRun list \<Rightarrow> str option" where
  "first_url [] = None"
| "first_url (r # rs) =
     (case cr_url r of
        Some u \<Rightarrow> if u \<noteq> [] then Some u else first_url rs
      | None \<Rightarrow> first_url rs)"

definition component_status :: "str \<Rightarrow> CheckRun list \<Rightarrow> CheckStatus \<times> str \<times> str option" where
  "component_status check runs =
     (let matched = matching_runs check runs;
          url = first_url matched;
          incomplete = filter (\<lambda>r. cr_status r \<noteq> ''completed'') matched;
          failed = filter (\<lambda>r. \<not> concluded (SUCCESS @ UNAVAILABLE_CONCLUSIONS) r) matched;
          succeeded = filter (concluded SUCCESS) matched;
          skipped = filter (\<lambda>r. r \<notin> set succeeded) matched
      in if matched = [] then
           (CK_unavailable, ''no check run named '' @ repr_str check @ '' on this head'', None)
         else if incomplete \<noteq> [] then
           (CK_pending, show_nat (length incomplete) @ ''/'' @ show_nat (length matched) @ '' runs still in progress'', url)
         else if failed \<noteq> [] then (CK_failed, join '', '' (map run_text failed), url)
         else if succeeded = [] then
           (CK_unavailable,
            ''all runs concluded '' @ join '', '' (sorted_set (map (\<lambda>r. show_opt_str (cr_conclusion r)) matched))
              @ ''; no evidence'', url)
         else if skipped \<noteq> [] then
           (CK_partial,
            show_nat (length succeeded) @ ''/'' @ show_nat (length matched) @ '' runs succeeded; no evidence from ''
              @ join '', '' (map run_text skipped), url)
         else (CK_passed, show_nat (length succeeded) @ '' run(s) succeeded'', url))"

definition rung_status :: "CheckStatus list \<Rightarrow> CheckStatus" where
  "rung_status statuses =
     (if list_ex (\<lambda>s. s = CK_failed) statuses then CK_failed
      else if list_ex (\<lambda>s. s = CK_pending) statuses then CK_pending
      else if list_all (\<lambda>s. s = CK_unavailable) statuses then CK_unavailable
      else if list_all (\<lambda>s. s = CK_passed) statuses then CK_passed
      else CK_partial)"

definition eval_component :: "VerificationDepth \<Rightarrow> CheckRun list \<Rightarrow> Component \<Rightarrow> CheckRecord" where
  "eval_component depth runs co =
     (case co_check co of
        None \<Rightarrow>
          \<lparr>rec_depth = depth, rec_name = co_name co, rec_source = CS_ladder, rec_status = CK_unavailable,
           rec_detail = ''no check exists for this on the repository: '' @ co_description co, rec_url = None\<rparr>
      | Some check \<Rightarrow>
          (case component_status check runs of (status, detail, url) \<Rightarrow>
             \<lparr>rec_depth = depth, rec_name = co_name co, rec_source = CS_github_check, rec_status = status,
              rec_detail = detail, rec_url = url\<rparr>))"

definition rung_records :: "CheckRun list \<Rightarrow> ladder \<Rightarrow> VerificationDepth \<Rightarrow> CheckRecord list" where
  "rung_records runs ladder depth = map (eval_component depth runs) (ladder depth)"

definition evaluate :: "CheckRun list \<Rightarrow> ladder \<Rightarrow> DepthEvaluation" where
  "evaluate runs ladder =
     \<lparr>ev_records = concat (map (rung_records runs ladder) all_depths),
      ev_rungs = map (\<lambda>d. let statuses = map rec_status (rung_records runs ladder d)
                          in (d, if statuses \<noteq> [] then rung_status statuses else CK_unavailable)) all_depths\<rparr>"

fun claim_records :: "nat \<Rightarrow> json list \<Rightarrow> CheckRecord list" where
  "claim_records i [] = []"
| "claim_records i (JObj item # rest) =
     (let command = take 200 (case map_of item ''command'' of None \<Rightarrow> [] | Some c \<Rightarrow> py_str c);
          code = (case map_of item ''exit_code'' of None \<Rightarrow> JNull | Some c \<Rightarrow> c)
      in \<lparr>rec_depth = VD_targeted_unit, rec_name = ''devin-tests-run-'' @ show_nat (i + 1),
          rec_source = CS_devin_claim, rec_status = (if jeq_zero code then CK_passed else CK_failed),
          rec_detail = ''exit '' @ py_str code @ '': '' @ command, rec_url = None\<rparr> # claim_records (i + 1) rest)"
| "claim_records i (_ # rest) = claim_records (i + 1) rest"

definition claims_from_output :: "(str \<times> json) list option \<Rightarrow> CheckRecord list" where
  "claims_from_output structured_output =
     (case structured_output of
        None \<Rightarrow> []
      | Some out \<Rightarrow>
          if out = [] then []
          else (case map_of out ''tests_run'' of Some (JArr raw) \<Rightarrow> claim_records 0 raw | _ \<Rightarrow> []))"

section \<open>Facts about the ladder\<close>

lemma rung_status_passed:
  "rung_status ss = CK_passed \<longleftrightarrow> ss \<noteq> [] \<and> list_all (\<lambda>s. s = CK_passed) ss"
  by (cases ss) (auto simp: rung_status_def list_all_iff list_ex_iff)

lemma component_status_passed:
  "fst (component_status check runs) = CK_passed \<longleftrightarrow>
     matching_runs check runs \<noteq> [] \<and>
     list_all (\<lambda>r. cr_status r = ''completed'' \<and> cr_conclusion r = Some ''success'') (matching_runs check runs)"
  by (auto simp: component_status_def Let_def concluded_def SUCCESS_def UNAVAILABLE_CONCLUSIONS_def
      filter_empty_conv list_all_iff split: option.splits if_splits)

lemma eval_component_passed:
  "rec_status (eval_component d runs co) = CK_passed \<longleftrightarrow>
     (\<exists>check. co_check co = Some check \<and> fst (component_status check runs) = CK_passed)"
  by (auto simp: eval_component_def split: option.splits prod.splits)

lemma rung_of_evaluate:
  "map_of (ev_rungs (evaluate runs ladder)) d =
     Some (if ladder d = [] then CK_unavailable else rung_status (map rec_status (rung_records runs ladder d)))"
  by (cases d) (simp_all add: evaluate_def all_depths_def Let_def rung_records_def)

lemma evaluate_keys: "map fst (ev_rungs (evaluate runs ladder)) = all_depths"
  by (simp add: evaluate_def Let_def o_def)

lemma fold_max_mem: "fold max ds d \<in> insert (d::'a::linorder) (set ds)"
  by (induction ds arbitrary: d) (auto simp: max_def)

lemma fold_max_ge: "x \<in> insert (d::'a::linorder) (set ds) \<Longrightarrow> x \<le> fold max ds d"
proof (induction ds arbitrary: d x)
  case (Cons e ds)
  have "x \<le> max e d \<or> x \<in> set ds" using Cons.prems by auto
  then show ?case
    using Cons.IH [of "max e d" "max e d"] Cons.IH [of x "max e d"] by (auto intro: order_trans)
qed simp

lemma highest_passed_Some:
  assumes "highest_passed ev = Some d"
  shows "(d, CK_passed) \<in> set (ev_rungs ev)" and "(d', CK_passed) \<in> set (ev_rungs ev) \<Longrightarrow> d' \<le> d"
proof -
  let ?passed = "map fst (filter (\<lambda>(d, s). s = CK_passed) (ev_rungs ev))"
  obtain e es where es: "?passed = e # es" and d: "d = fold max es e"
    using assms by (auto simp: highest_passed_def Let_def split: list.splits)
  have "d \<in> set ?passed" using fold_max_mem [of es e] es d by simp
  then show "(d, CK_passed) \<in> set (ev_rungs ev)" by auto
  show "d' \<le> d" if "(d', CK_passed) \<in> set (ev_rungs ev)"
  proof -
    have "d' \<in> set ?passed" using that by force
    then show ?thesis using fold_max_ge [of d' e es] es d by simp
  qed
qed

lemma highest_passed_None:
  "highest_passed ev = None \<longleftrightarrow> CK_passed \<notin> snd ` set (ev_rungs ev)"
proof -
  have "highest_passed ev = None \<longleftrightarrow> filter (\<lambda>(d, s). s = CK_passed) (ev_rungs ev) = []"
    by (cases "filter (\<lambda>(d, s). s = CK_passed) (ev_rungs ev)") (simp_all add: highest_passed_def Let_def)
  also have "\<dots> \<longleftrightarrow> (\<forall>(d, s) \<in> set (ev_rungs ev). s \<noteq> CK_passed)"
    by (auto simp: filter_empty_conv)
  also have "\<dots> \<longleftrightarrow> CK_passed \<notin> snd ` set (ev_rungs ev)"
    by force
  finally show ?thesis .
qed

end
