(* ===== verification/Records.thy ===== *)
theory Records
  imports Domain
begin

text \<open>
  The scanner-neutral records of \<^verbatim>\<open>ingest/records.py\<close> and their merge into deduplicated findings,
  \<^verbatim>\<open>ingest/normalize.py\<close>. A set of scanners is a list without repetitions.
\<close>

text \<open>\<open>_PEP503.sub("-", name)\<close>: every run of \<open>-\<close>, \<open>_\<close>, \<open>.\<close> becomes one \<open>-\<close>.\<close>

definition pep503_sep :: "char \<Rightarrow> bool" where
  "pep503_sep c \<longleftrightarrow> c \<in> set ''-_.''"

fun pep503 :: "bool \<Rightarrow> str \<Rightarrow> str" where
  "pep503 in_run [] = []"
| "pep503 in_run (c # s) =
     (if pep503_sep c then (if in_run then pep503 True s else CHR ''-'' # pep503 True s)
      else c # pep503 False s)"

definition normalize_pkg_name :: "str \<Rightarrow> Ecosystem \<Rightarrow> str" where
  "normalize_pkg_name name ecosystem = (if ecosystem = EC_pypi then lower (pep503 False name) else name)"

definition prefixed_ids :: "str \<Rightarrow> str list \<Rightarrow> str list" where
  "prefixed_ids p candidates = sort (filter (\<lambda>c. starts_with (upper c) p) candidates)"

definition canonical_vuln_id :: "str \<Rightarrow> str list \<Rightarrow> str" where
  "canonical_vuln_id primary aliases =
     (let candidates = primary # aliases in
      (case prefixed_ids ''CVE-'' candidates of
         m # _ \<Rightarrow> m
       | [] \<Rightarrow> (case prefixed_ids ''GHSA-'' candidates of m # _ \<Rightarrow> m | [] \<Rightarrow> primary)))"

record RawVuln =
  rw_scanner :: Scanner
  rw_primary_id :: str
  rw_aliases :: "str list"
  rw_pkg_name :: str
  rw_pkg_version :: str
  rw_purl :: "str option"
  rw_ecosystem :: Ecosystem
  rw_layer :: Layer
  rw_severity :: Severity
  rw_fixed_versions :: "str list"
  rw_fix_state :: str
  rw_title :: "str option"
  rw_location :: "str option"
  rw_record :: json

definition rw_canonical_id :: "RawVuln \<Rightarrow> str" where
  "rw_canonical_id v = canonical_vuln_id (rw_primary_id v) (rw_aliases v)"

definition rw_normalized_pkg_name :: "RawVuln \<Rightarrow> str" where
  "rw_normalized_pkg_name v = normalize_pkg_name (rw_pkg_name v) (rw_ecosystem v)"

definition rw_dedupe_key :: "RawVuln \<Rightarrow> str" where
  "rw_dedupe_key v = join ''|''
     [''vuln'', rw_canonical_id v, ecosystem_value (rw_ecosystem v), rw_normalized_pkg_name v,
      rw_pkg_version v, layer_value (rw_layer v)]"

record RawConfigFinding =
  rf_scanner :: Scanner
  rf_rule_id :: str
  rf_resource :: str
  rf_layer :: Layer
  rf_severity :: Severity
  rf_title :: "str option"
  rf_message :: "str option"
  rf_fix_available :: bool
  rf_record :: json

definition rf_dedupe_key :: "RawConfigFinding \<Rightarrow> str" where
  "rf_dedupe_key c = join ''|'' [''config'', rf_rule_id c, layer_value (rf_layer c), rf_resource c]"

definition PURL_TYPE_TO_ECOSYSTEM :: "(str \<times> Ecosystem) list" where
  "PURL_TYPE_TO_ECOSYSTEM =
     [(''pypi'', EC_pypi), (''deb'', EC_deb), (''npm'', EC_npm), (''golang'', EC_golang), (''generic'', EC_binary)]"

definition ecosystem_from_purl :: "str option \<Rightarrow> Ecosystem" where
  "ecosystem_from_purl purl =
     (case purl of
        None \<Rightarrow> EC_unknown
      | Some p \<Rightarrow>
          if p = [] \<or> \<not> starts_with p ''pkg:'' then EC_unknown
          else (case map_of PURL_TYPE_TO_ECOSYSTEM (lower (before_first CHR ''/'' (drop 4 p))) of
                  Some e \<Rightarrow> e
                | None \<Rightarrow> EC_unknown))"

definition layer_for :: "Ecosystem \<Rightarrow> Layer" where
  "layer_for e = (if e = EC_pypi then LY_python else if e = EC_deb then LY_os else LY_binary)"

section \<open>Normalization\<close>

record NormalizedFinding =
  nf_dedupe_key :: str
  nf_vuln_id :: str
  nf_is_config :: bool
  nf_pkg_name :: "str option"
  nf_pkg_version :: "str option"
  nf_purl :: "str option"
  nf_ecosystem :: Ecosystem
  nf_layer :: Layer
  nf_resource :: "str option"
  nf_title :: "str option"
  nf_severity :: Severity
  nf_severity_by_scanner :: "(str, str) dict"
  nf_fix_versions_by_scanner :: "(str, str list) dict"
  nf_fix_state_by_scanner :: "(str, str) dict"
  nf_reported_by :: "Scanner list"
  nf_records :: "(str, json) dict"

definition severity_disagreement :: "NormalizedFinding \<Rightarrow> bool" where
  "severity_disagreement f \<longleftrightarrow> 1 < length (remdups (map snd (nf_severity_by_scanner f)))"

definition all_fix_versions :: "NormalizedFinding \<Rightarrow> str list" where
  "all_fix_versions f = fromkeys (concat (map snd (nf_fix_versions_by_scanner f)))"

definition has_fix :: "NormalizedFinding \<Rightarrow> bool" where
  "has_fix f \<longleftrightarrow> all_fix_versions f \<noteq> []"

definition scanner_add :: "Scanner \<Rightarrow> Scanner list \<Rightarrow> Scanner list" where
  "scanner_add s ss = (if s \<in> set ss then ss else ss @ [s])"

definition new_vuln_finding :: "RawVuln \<Rightarrow> NormalizedFinding" where
  "new_vuln_finding rv =
     \<lparr>nf_dedupe_key = rw_dedupe_key rv, nf_vuln_id = rw_canonical_id rv, nf_is_config = False,
      nf_pkg_name = Some (rw_normalized_pkg_name rv), nf_pkg_version = Some (rw_pkg_version rv),
      nf_purl = rw_purl rv, nf_ecosystem = rw_ecosystem rv, nf_layer = rw_layer rv, nf_resource = None,
      nf_title = rw_title rv, nf_severity = SEV_unknown, nf_severity_by_scanner = [],
      nf_fix_versions_by_scanner = [], nf_fix_state_by_scanner = [], nf_reported_by = [], nf_records = []\<rparr>"

definition truthy_str :: "str option \<Rightarrow> bool" where
  "truthy_str x = (case x of None \<Rightarrow> False | Some s \<Rightarrow> s \<noteq> [])"

definition merge_vuln_into :: "NormalizedFinding \<Rightarrow> RawVuln \<Rightarrow> NormalizedFinding" where
  "merge_vuln_into f rv =
     (let k = scanner_value (rw_scanner rv) in
      f\<lparr>nf_title := (if nf_title f = None \<and> truthy_str (rw_title rv) then rw_title rv else nf_title f),
        nf_purl := (if nf_purl f = None \<and> truthy_str (rw_purl rv) then rw_purl rv else nf_purl f),
        nf_reported_by := scanner_add (rw_scanner rv) (nf_reported_by f),
        nf_severity_by_scanner := dict_set k (severity_value (rw_severity rv)) (nf_severity_by_scanner f),
        nf_fix_versions_by_scanner := dict_set k (rw_fixed_versions rv) (nf_fix_versions_by_scanner f),
        nf_fix_state_by_scanner := dict_set k (rw_fix_state rv) (nf_fix_state_by_scanner f),
        nf_records := dict_set k (rw_record rv) (nf_records f),
        nf_severity := (if severity_rank (nf_severity f) < severity_rank (rw_severity rv)
                        then rw_severity rv else nf_severity f)\<rparr>)"

definition new_config_finding :: "RawConfigFinding \<Rightarrow> NormalizedFinding" where
  "new_config_finding rc =
     \<lparr>nf_dedupe_key = rf_dedupe_key rc, nf_vuln_id = rf_rule_id rc, nf_is_config = True,
      nf_pkg_name = None, nf_pkg_version = None, nf_purl = None, nf_ecosystem = EC_config,
      nf_layer = rf_layer rc, nf_resource = Some (rf_resource rc), nf_title = rf_title rc,
      nf_severity = rf_severity rc, nf_severity_by_scanner = [], nf_fix_versions_by_scanner = [],
      nf_fix_state_by_scanner = [], nf_reported_by = [], nf_records = []\<rparr>"

definition merge_config_into :: "NormalizedFinding \<Rightarrow> RawConfigFinding \<Rightarrow> NormalizedFinding" where
  "merge_config_into f rc =
     (let k = scanner_value (rf_scanner rc) in
      f\<lparr>nf_reported_by := scanner_add (rf_scanner rc) (nf_reported_by f),
        nf_severity_by_scanner := dict_set k (severity_value (rf_severity rc)) (nf_severity_by_scanner f),
        nf_fix_state_by_scanner :=
          dict_set k (if rf_fix_available rc then ''fixed'' else ''unknown'') (nf_fix_state_by_scanner f),
        nf_records := dict_set k (rf_record rc) (nf_records f)\<rparr>)"

type_synonym merged = "(str, NormalizedFinding) dict"

definition add_vuln :: "merged \<Rightarrow> RawVuln \<Rightarrow> merged" where
  "add_vuln m rv =
     (let key = rw_dedupe_key rv;
          f = (case dict_get m key of Some f \<Rightarrow> f | None \<Rightarrow> new_vuln_finding rv)
      in dict_set key (merge_vuln_into f rv) m)"

definition add_config :: "merged \<Rightarrow> RawConfigFinding \<Rightarrow> merged" where
  "add_config m rc =
     (let key = rf_dedupe_key rc;
          f = (case dict_get m key of Some f \<Rightarrow> f | None \<Rightarrow> new_config_finding rc)
      in dict_set key (merge_config_into f rc) m)"

definition merge_all :: "RawVuln list \<Rightarrow> RawConfigFinding list \<Rightarrow> merged" where
  "merge_all vulns configs = foldl add_config (foldl add_vuln [] vulns) configs"

definition normalize :: "RawVuln list \<Rightarrow> RawConfigFinding list \<Rightarrow> NormalizedFinding list" where
  "normalize vulns configs = sort_key nf_dedupe_key (map snd (merge_all vulns configs))"

section \<open>The merge keeps one finding per key\<close>

text \<open>
  What every step of the merge keeps: keys are distinct, each finding is stored under its own key,
  and its reporters are distinct and named in its severities.
\<close>

definition finding_ok :: "NormalizedFinding \<Rightarrow> bool" where
  "finding_ok f \<longleftrightarrow> distinct (nf_reported_by f) \<and> nf_reported_by f \<noteq> [] \<and>
     fst ` set (nf_severity_by_scanner f) = scanner_value ` set (nf_reported_by f)"

definition merged_ok :: "merged \<Rightarrow> bool" where
  "merged_ok m \<longleftrightarrow> distinct (map fst m) \<and> (\<forall>(k, f) \<in> set m. nf_dedupe_key f = k \<and> finding_ok f)"

lemma set_dict_set:
  "distinct (map fst d) \<Longrightarrow> set (dict_set k v d) = insert (k, v) {(k', v'). (k', v') \<in> set d \<and> k' \<noteq> k}"
  by (induction d rule: dict_set.induct) (auto simp: rev_image_eqI)

lemma merged_ok_set:
  "merged_ok m \<Longrightarrow> nf_dedupe_key f = k \<Longrightarrow> finding_ok f \<Longrightarrow> merged_ok (dict_set k f m)"
  by (auto simp: merged_ok_def set_dict_set dict_set_distinct)

lemma merged_ok_get: "merged_ok m \<Longrightarrow> dict_get m k = Some f \<Longrightarrow> nf_dedupe_key f = k \<and> finding_ok f"
  by (auto simp: merged_ok_def dict_get_def dest: map_of_SomeD)

lemma set_scanner_add [simp]: "set (scanner_add s ss) = insert s (set ss)"
  by (auto simp: scanner_add_def)

lemma scanner_add_ok: "distinct ss \<Longrightarrow> distinct (scanner_add s ss) \<and> scanner_add s ss \<noteq> []"
  by (cases ss) (auto simp: scanner_add_def)

lemma merge_vuln_into_ok:
  assumes "finding_ok f \<or> f = new_vuln_finding rv"
  shows "finding_ok (merge_vuln_into f rv)" "nf_dedupe_key (merge_vuln_into f rv) = nf_dedupe_key f"
  using assms
  by (auto simp: finding_ok_def merge_vuln_into_def new_vuln_finding_def Let_def dict_keys_set scanner_add_ok)

lemma merge_config_into_ok:
  assumes "finding_ok f \<or> f = new_config_finding rc"
  shows "finding_ok (merge_config_into f rc)" "nf_dedupe_key (merge_config_into f rc) = nf_dedupe_key f"
  using assms
  by (auto simp: finding_ok_def merge_config_into_def new_config_finding_def Let_def dict_keys_set scanner_add_ok)

lemma add_vuln_ok: "merged_ok m \<Longrightarrow> merged_ok (add_vuln m rv)"
  by (auto simp: add_vuln_def Let_def merge_vuln_into_ok new_vuln_finding_def [of rv]
      intro!: merged_ok_set split: option.split dest: merged_ok_get)

lemma add_config_ok: "merged_ok m \<Longrightarrow> merged_ok (add_config m rc)"
  by (auto simp: add_config_def Let_def merge_config_into_ok new_config_finding_def [of rc]
      intro!: merged_ok_set split: option.split dest: merged_ok_get)

lemma foldl_add_vuln_ok: "merged_ok m \<Longrightarrow> merged_ok (foldl add_vuln m vs)"
  by (induction vs arbitrary: m) (auto simp: add_vuln_ok)

lemma foldl_add_config_ok: "merged_ok m \<Longrightarrow> merged_ok (foldl add_config m cs)"
  by (induction cs arbitrary: m) (auto simp: add_config_ok)

lemma merge_all_ok: "merged_ok (merge_all vulns configs)"
  by (simp add: merge_all_def foldl_add_config_ok foldl_add_vuln_ok merged_ok_def [of "[]"])

lemma keys_add_vuln: "fst ` set (add_vuln m rv) = insert (rw_dedupe_key rv) (fst ` set m)"
  by (simp add: add_vuln_def Let_def dict_keys_set)

lemma keys_add_config: "fst ` set (add_config m rc) = insert (rf_dedupe_key rc) (fst ` set m)"
  by (simp add: add_config_def Let_def dict_keys_set)

lemma keys_merge_all:
  "fst ` set (merge_all vulns configs) = rw_dedupe_key ` set vulns \<union> rf_dedupe_key ` set configs"
proof -
  have v: "fst ` set (foldl add_vuln m vulns) = rw_dedupe_key ` set vulns \<union> fst ` set m" for m
    by (induction vulns arbitrary: m) (auto simp: keys_add_vuln)
  have c: "fst ` set (foldl add_config m configs) = rf_dedupe_key ` set configs \<union> fst ` set m" for m
    by (induction configs arbitrary: m) (auto simp: keys_add_config)
  show ?thesis by (auto simp: merge_all_def v c)
qed

lemma map_key_merge_all: "map nf_dedupe_key (map snd (merge_all vulns configs)) = map fst (merge_all vulns configs)"
  using merge_all_ok [of vulns configs] by (auto simp: merged_ok_def)

lemma set_normalize: "set (normalize vulns configs) = snd ` set (merge_all vulns configs)"
  by (simp add: normalize_def)

lemma normalize_finding_ok: "f \<in> set (normalize vulns configs) \<Longrightarrow> finding_ok f"
  using merge_all_ok [of vulns configs] by (auto simp: set_normalize merged_ok_def)

lemma pep503_idem: "pep503 b (pep503 b s) = pep503 b s"
  by (induction b s rule: pep503.induct) (auto simp: pep503_sep_def)

end
