(* ===== verification/Tables.thy ===== *)
theory Tables
  imports Config Depth Records
begin

text \<open>
  The rows of \<^verbatim>\<open>models/tables.py\<close> the controller's logic reads and writes, one record per table with
  the columns it uses. Instants are microseconds since the epoch, JSON columns are association
  lists or JSON values, float columns are exact rationals; every stored row has its primary key.
\<close>

section \<open>Scan evidence\<close>

record ScanRun =
  sr_id :: nat
  sr_external_run_id :: str
  sr_run_attempt :: nat
  sr_trigger :: Trigger
  sr_source_repo :: str
  sr_source_branch :: str
  sr_source_sha :: str
  sr_platform :: str
  sr_lean_digest :: "str option"
  sr_ci_digest :: "str option"
  sr_ci_layer_delta :: "(str, json) dict option"
  sr_tools :: "(str, json) dict"
  sr_scan_gate_mode :: GateMode
  sr_vex_documents :: "(str, json) dict list"
  sr_status :: ScanRunStatus
  sr_started_at :: "int option"
  sr_finished_at :: "int option"
  sr_ingested_at :: int
  sr_is_baseline :: bool
  sr_workflow :: "(str, json) dict option"
  sr_closure_applied_at :: "int option"

definition DATETIME_MIN :: int where "DATETIME_MIN = -62135596800000000"

definition chronology :: "ScanRun \<Rightarrow> int \<times> int \<times> nat" where
  "chronology r = ((case sr_finished_at r of Some t \<Rightarrow> t | None \<Rightarrow> DATETIME_MIN), sr_ingested_at r, sr_id r)"

record ScanJob =
  sj_id :: nat
  sj_scan_run_id :: nat
  sj_name :: str
  sj_scanner :: "Scanner option"
  sj_mode :: "ScanMode option"
  sj_image_target :: "ImageTarget option"
  sj_layer_scope :: str
  sj_success :: bool
  sj_tool_version :: "str option"
  sj_db_built_at :: "int option"
  sj_started_at :: "int option"
  sj_finished_at :: "int option"
  sj_artifact_path :: "str option"
  sj_artifact_sha256 :: "str option"
  sj_counts :: "(str, nat) dict"

text \<open>One attempt to bring a completed workflow run in, and one file of its evidence.\<close>

record ScanIntake =
  si_id :: nat
  si_external_run_id :: str
  si_source_repo :: str
  si_workflow_run_id :: nat
  si_run_attempt :: nat
  si_head_branch :: "str option"
  si_head_sha :: "str option"
  si_conclusion :: "str option"
  si_url :: "str option"
  si_artifact_id :: "nat option"
  si_artifact_name :: "str option"
  si_artifact_digest :: "str option"
  si_bundle_sha256 :: "str option"
  si_bundle_path :: "str option"
  si_status :: IntakeStatus
  si_reasons :: "str list"
  si_scan_run_id :: "nat option"
  si_observed_at :: int

record EvidenceRow =
  er_id :: nat
  er_scan_run_id :: "nat option"
  er_kind :: str
  er_path :: str
  er_sha256 :: str
  er_created_at :: int

record Finding =
  fd_id :: nat
  fd_dedupe_key :: str
  fd_vuln_id :: str
  fd_purl :: "str option"
  fd_pkg_name :: "str option"
  fd_pkg_version :: "str option"
  fd_ecosystem :: Ecosystem
  fd_layer :: Layer
  fd_image_target :: "ImageTarget option"
  fd_platform :: str
  fd_resource :: "str option"
  fd_title :: "str option"
  fd_severity :: Severity
  fd_severity_by_scanner :: "(str, str) dict"
  fd_severity_disagreement :: bool
  fd_fix_versions_by_scanner :: "(str, str list) dict"
  fd_reported_by_trivy :: bool
  fd_reported_by_grype :: bool
  fd_opened_by_trivy :: bool
  fd_opened_by_grype :: bool
  fd_kind :: "Kind option"
  fd_risk :: Risk
  fd_bound_blocked :: bool
  fd_classification_trace :: "str option"
  fd_unclassified_reason :: "str option"
  fd_state :: FindingState
  fd_first_seen_run_id :: nat
  fd_last_seen_run_id :: nat
  fd_opening_db_built_at :: "int option"
  fd_work_item_id :: "nat option"
  fd_closed_by_run_id :: "nat option"
  fd_created_at :: int
  fd_updated_at :: int

record Sighting =
  sg_id :: nat
  sg_finding_id :: nat
  sg_scan_run_id :: nat
  sg_scanner :: Scanner
  sg_mode :: ScanMode
  sg_present :: bool
  sg_severity :: "Severity option"
  sg_fixed_versions :: "str list"
  sg_record :: "json option"

section \<open>Work\<close>

record WorkItem =
  wi_id :: nat
  wi_kind :: Kind
  wi_group_key :: str
  wi_title :: str
  wi_source_branch :: str
  wi_severity :: Severity
  wi_risk :: Risk
  wi_state :: WorkItemState
  wi_acu_cap :: rat
  wi_retries_used :: nat
  wi_budget_warning_sent :: bool
  wi_active_session_id :: "str option"
  wi_issue_number :: "nat option"
  wi_issue_url :: "str option"
  wi_pr_number :: "nat option"
  wi_pr_url :: "str option"
  wi_pr_head_sha :: "str option"
  wi_merge_sha :: "str option"
  wi_lifecycle_level :: LifecycleLevel
  wi_verification_depth :: "VerificationDepth option"
  wi_blocked_reason :: "str option"
  wi_human_resolution :: "str option"
  wi_dispatch_failures :: nat
  wi_regression_of_work_item_id :: "nat option"
  wi_created_at :: int
  wi_updated_at :: int
  wi_issue_opened_at :: "int option"
  wi_pr_opened_at :: "int option"
  wi_merged_at :: "int option"
  wi_verified_at :: "int option"

text \<open>The Devin session row, \<^verbatim>\<open>Session\<close> in the source.\<close>

record DevinSession =
  se_id :: nat
  se_devin_id :: str
  se_work_item_id :: nat
  se_url :: str
  se_playbook_id :: "str option"
  se_max_acu_limit :: rat
  se_status :: str
  se_status_detail :: "str option"
  se_acus_consumed :: rat
  se_structured_output :: "(str \<times> json) list option"
  se_pull_requests :: "SessionPullRequest list"
  se_messages_sent :: nat
  se_created_at :: int
  se_last_polled_at :: "int option"
  se_finished_at :: "int option"

record SessionPoll =
  sp_id :: nat
  sp_session_id :: nat
  sp_polled_at :: int
  sp_status :: str
  sp_status_detail :: "str option"
  sp_acus_consumed :: rat
  sp_decision :: str
  sp_reason :: str

record PullRequest =
  pr_id :: nat
  pr_work_item_id :: nat
  pr_repo :: str
  pr_number :: nat
  pr_url :: str
  pr_base_branch :: str
  pr_head_branch :: str
  pr_head_sha :: str
  pr_state :: str
  pr_merge_sha :: "str option"
  pr_first_head_sha :: "str option"
  pr_first_head_checks_green :: "bool option"
  pr_diff_policy_ok :: "bool option"
  pr_diff_policy_violations :: "str list"
  pr_lifecycle_level :: LifecycleLevel
  pr_verification_depth :: "VerificationDepth option"
  pr_depth_rungs :: "(str, str) dict"
  pr_review_status :: "str option"
  pr_review_id :: "str option"
  pr_review_head_sha :: "str option"
  pr_review_comment_count :: nat
  pr_approved_by :: "str option"
  pr_opened_at :: int
  pr_merged_at :: "int option"
  pr_updated_at :: int

record PRCheck =
  pc_id :: nat
  pc_pull_request_id :: nat
  pc_head_sha :: str
  pc_name :: str
  pc_status :: str
  pc_conclusion :: "str option"
  pc_url :: "str option"
  pc_observed_at :: int

record VerificationCheck =
  vc_id :: nat
  vc_pull_request_id :: nat
  vc_head_sha :: str
  vc_depth :: VerificationDepth
  vc_name :: str
  vc_source :: CheckSource
  vc_status :: CheckStatus
  vc_detail :: str
  vc_url :: "str option"
  vc_observed_at :: int

text \<open>The append-only transition log.\<close>

record Event =
  el_id :: nat
  el_ts :: int
  el_actor :: str
  el_entity_type :: str
  el_entity_id :: nat
  el_event :: str
  el_from_state :: "str option"
  el_to_state :: "str option"
  el_reason :: "str option"
  el_evidence_ids :: "nat list"

section \<open>Text of an instant\<close>

text \<open>
  \<open>str(datetime)\<close> of an aware UTC instant: the proleptic Gregorian date of the day number, the time
  of day, and the microseconds when they are not zero.
\<close>

definition pad_nat :: "nat \<Rightarrow> int \<Rightarrow> str" where
  "pad_nat k i = pad_zeros k (show_nat (nat i))"

definition civil_of_days :: "int \<Rightarrow> int \<times> int \<times> int" where
  "civil_of_days days =
     (let z = days + 719468; era = z div 146097; doe = z mod 146097;
          yoe = (doe - doe div 1460 + doe div 36524 - doe div 146096) div 365;
          doy = doe - (365 * yoe + yoe div 4 - yoe div 100);
          mp = (5 * doy + 2) div 153;
          d = doy - (153 * mp + 2) div 5 + 1;
          m = (if mp < 10 then mp + 3 else mp - 9);
          y = yoe + era * 400 + (if m \<le> 2 then 1 else 0)
      in (y, m, d))"

definition show_datetime :: "int \<Rightarrow> str" where
  "show_datetime t =
     (let micros = t mod 1000000; secs = t div 1000000; sod = secs mod 86400 in
      case civil_of_days (secs div 86400) of (y, m, d) \<Rightarrow>
        pad_nat 4 y @ ''-'' @ pad_nat 2 m @ ''-'' @ pad_nat 2 d @ '' '' @
        pad_nat 2 (sod div 3600) @ '':'' @ pad_nat 2 (sod div 60 mod 60) @ '':'' @ pad_nat 2 (sod mod 60) @
        (if micros = 0 then [] else ''.'' @ pad_nat 6 micros) @ ''+00:00'')"

lemma show_datetime_example: "show_datetime 1735787045000000 = ''2025-01-02 03:04:05+00:00''"
  by code_simp

end
