(* ===== verification/Schemas.thy ===== *)
theory Schemas
  imports Domain
begin

text \<open>
  \<^verbatim>\<open>devin/schemas.py\<close>: the structured-output JSON Schema of each playbook, as the JSON value Devin is
  given, and the report of a validator's errors. The validator itself (\<^verbatim>\<open>jsonschema\<close>) is a parameter:
  its errors on a document, each a path and a message.
\<close>

abbreviation js_type :: "str \<Rightarrow> str \<times> json" where "js_type t \<equiv> (''type'', JStr t)"
abbreviation js_obj :: "(str \<times> json) list \<Rightarrow> json" where "js_obj \<equiv> JObj"
abbreviation js_strs :: "str list \<Rightarrow> json" where "js_strs xs \<equiv> JArr (map JStr xs)"
abbreviation js_string :: json where "js_string \<equiv> JObj [js_type ''string'']"
abbreviation js_integer :: json where "js_integer \<equiv> JObj [js_type ''integer'']"
abbreviation js_string_null :: json where "js_string_null \<equiv> JObj [(''type'', js_strs [''string'', ''null''])]"
abbreviation js_enum :: "str list \<Rightarrow> json" where
  "js_enum xs \<equiv> JObj [js_type ''string'', (''enum'', js_strs xs)]"
abbreviation js_array :: "json \<Rightarrow> json" where
  "js_array items \<equiv> JObj [js_type ''array'', (''items'', items)]"
abbreviation js_record :: "str list \<Rightarrow> (str \<times> json) list \<Rightarrow> json" where
  "js_record req ps \<equiv> JObj [js_type ''object'', (''required'', js_strs req), (''properties'', JObj ps)]"

definition CORE_PROPERTIES :: "(str \<times> json) list" where
  "CORE_PROPERTIES =
     [(''outcome'', js_enum [''pr_opened'', ''blocked'', ''no_change_needed'']),
      (''pr_url'', JObj [(''type'', js_strs [''string'', ''null'']),
         (''pattern'', JStr ''^https://github.com/[^/]+/[^/]+/pull/[0-9]+$'')]),
      (''base_branch'', JObj [js_type ''string'', (''const'', JStr ''main'')]),
      (''findings_addressed'', js_array js_string),
      (''findings_not_addressed'',
         js_array (js_record [''id'', ''reason''] [(''id'', js_string), (''reason'', js_string)])),
      (''tests_run'',
         js_array (js_record [''command'', ''exit_code'']
           [(''command'', js_string), (''exit_code'', js_integer), (''log_attachment'', js_string_null)])),
      (''blocked_reason'', js_string_null),
      (''evidence_urls'', js_array js_string),
      (''reason'', js_string_null)]"

text \<open>\<open>if outcome is v then t\<close>.\<close>

definition outcome_rule :: "str \<Rightarrow> (str \<times> json) list \<Rightarrow> json" where
  "outcome_rule v t = JObj
     [(''if'', JObj [(''properties'', JObj [(''outcome'', JObj [(''const'', JStr v)])])]), (''then'', JObj t)]"

definition CORE_RULES :: "json list" where
  "CORE_RULES =
     [outcome_rule ''pr_opened''
        [(''required'', js_strs [''pr_url'']), (''properties'', JObj [(''pr_url'', js_string)])],
      outcome_rule ''blocked''
        [(''required'', js_strs [''blocked_reason'']),
         (''properties'', JObj [(''blocked_reason'', JObj [js_type ''string'', (''minLength'', JInt 10)])])],
      outcome_rule ''no_change_needed''
        [(''required'', js_strs [''reason'', ''evidence_urls'']),
         (''properties'', JObj [(''reason'', JObj [js_type ''string'', (''minLength'', JInt 10)])])]]"

fun EXTENSIONS :: "Kind \<Rightarrow> (str \<times> json) list" where
  "EXTENSIONS K_dependency_upgrade =
     [(''packages'', js_array (js_record [''name'', ''from'', ''to'']
         [(''name'', js_string), (''from'', js_string), (''to'', js_string)])),
      (''regenerated_with'', js_string_null),
      (''bound_changes'', js_array (js_record [''package'', ''old_bound'', ''new_bound'', ''justification'']
         [(''package'', js_string), (''old_bound'', js_string), (''new_bound'', js_string),
          (''justification'', js_string)]))]"
| "EXTENSIONS K_no_fix_reachability =
     [(''reachability'', js_record [''imports_found'', ''call_sites'', ''runtime_paths'', ''verdict'']
         [(''imports_found'', js_array js_string),
          (''call_sites'', js_array (js_record [''file'', ''line'', ''symbol'']
             [(''file'', js_string), (''line'', js_integer), (''symbol'', js_string)])),
          (''runtime_paths'', js_array js_string),
          (''verdict'', js_enum [''reachable'', ''unreachable'', ''unknown''])]),
      (''proposed_vex_path'', JObj [(''type'', js_strs [''string'', ''null'']),
         (''pattern'', JStr ''^security/vex/proposed/'')]),
      (''justification'', js_string_null)]"
| "EXTENSIONS K_container_hardening =
     [(''changes'', js_array (js_record [''type'', ''detail'']
         [(''type'', js_enum [''base_image'', ''package_removal'', ''user'', ''permissions'', ''pin'']),
          (''detail'', js_string)])),
      (''image_size_before_after'', JObj [(''type'', js_strs [''object'', ''null'']),
         (''properties'', JObj [(''before'', js_integer), (''after'', js_integer)])]),
      (''lean_smoke_local'', JObj [js_type ''boolean''])]"
| "EXTENSIONS K_scanner_disagreement =
     [(''verdict'', js_enum [''trivy_correct'', ''grype_correct'', ''both_partial'', ''undetermined'']),
      (''evidence'', js_array (js_record [''scanner'', ''record'', ''reasoning'']
         [(''scanner'', js_enum [''trivy'', ''grype'']), (''record'', JObj [js_type ''object'']),
          (''reasoning'', js_string)])),
      (''recommended_action'', js_enum [''upgrade'', ''vex'', ''none''])]"
| "EXTENSIONS K_helm_deploy_config =
     [(''values_changed'', js_array (js_record [''path'', ''from'', ''to'']
         [(''path'', js_string), (''from'', JObj []), (''to'', JObj [])])),
      (''helm_lint'', js_string_null),
      (''helm_template_diff_attachment'', js_string_null)]"

fun EXTENSION_REQUIRED :: "Kind \<Rightarrow> str list" where
  "EXTENSION_REQUIRED K_scanner_disagreement = [''verdict'', ''evidence'', ''recommended_action'']"
| "EXTENSION_REQUIRED _ = []"

fun EXTENSION_RULES :: "Kind \<Rightarrow> json list" where
  "EXTENSION_RULES K_dependency_upgrade =
     [outcome_rule ''pr_opened''
        [(''required'', js_strs [''packages'', ''regenerated_with'']),
         (''properties'', JObj [(''packages'', JObj [(''minItems'', JInt 1)]),
            (''regenerated_with'', JObj [js_type ''string'', (''minLength'', JInt 1)])])]]"
| "EXTENSION_RULES K_no_fix_reachability =
     [outcome_rule ''pr_opened''
        [(''required'', js_strs [''reachability'', ''proposed_vex_path'', ''justification'']),
         (''properties'', JObj [(''proposed_vex_path'', js_string)])]]"
| "EXTENSION_RULES K_container_hardening =
     [outcome_rule ''pr_opened''
        [(''required'', js_strs [''changes'', ''lean_smoke_local'']),
         (''properties'', JObj [(''changes'', JObj [(''minItems'', JInt 1)])])]]"
| "EXTENSION_RULES K_scanner_disagreement =
     [JObj [(''properties'', JObj [(''outcome'', JObj [(''enum'', js_strs [''no_change_needed'', ''blocked''])])])]]"
| "EXTENSION_RULES K_helm_deploy_config =
     [outcome_rule ''pr_opened''
        [(''required'', js_strs [''values_changed'', ''helm_lint'']),
         (''properties'', JObj [(''values_changed'', JObj [(''minItems'', JInt 1)])])]]"

definition schema_for :: "Kind \<Rightarrow> json" where
  "schema_for kind = JObj
     [(''$schema'', JStr ''https://json-schema.org/draft/2020-12/schema''),
      (''$id'', JStr (''https://hardening-loop/schemas/'' @ PLAYBOOK_SLUGS kind @ ''.json'')),
      (''title'', JStr (PLAYBOOK_SLUGS kind @ '' structured output'')),
      (''type'', JStr ''object''),
      (''additionalProperties'', JBool False),
      (''required'', js_strs ([''outcome'', ''base_branch'', ''findings_addressed'', ''findings_not_addressed'']
         @ EXTENSION_REQUIRED kind)),
      (''properties'', JObj (foldl (\<lambda>d (k, v). dict_set k v d) CORE_PROPERTIES (EXTENSIONS kind))),
      (''allOf'', JArr (CORE_RULES @ EXTENSION_RULES kind))]"

section \<open>Reporting violations\<close>

datatype path_elem = PIdx nat | PKey str

fun path_elem_text :: "path_elem \<Rightarrow> str" where
  "path_elem_text (PIdx n) = show_nat n"
| "path_elem_text (PKey k) = k"

text \<open>
  Paths are compared as Python lists. Two elements at the same position below a common prefix
  belong to one container, so an index is never compared with a key; the order between them is
  immaterial.
\<close>

instantiation path_elem :: linorder
begin

fun less_eq_path_elem :: "path_elem \<Rightarrow> path_elem \<Rightarrow> bool" where
  "less_eq_path_elem (PIdx a) (PIdx b) = (a \<le> b)"
| "less_eq_path_elem (PIdx a) (PKey b) = True"
| "less_eq_path_elem (PKey a) (PIdx b) = False"
| "less_eq_path_elem (PKey a) (PKey b) = (a \<le> b)"

definition less_path_elem :: "path_elem \<Rightarrow> path_elem \<Rightarrow> bool" where
  "less_path_elem a b \<longleftrightarrow> a \<le> b \<and> \<not> b \<le> a"

instance
proof
  fix x y z :: path_elem
  show "x < y \<longleftrightarrow> x \<le> y \<and> \<not> y \<le> x" by (simp add: less_path_elem_def)
  show "x \<le> x" by (cases x) simp_all
  show "x \<le> y \<Longrightarrow> y \<le> z \<Longrightarrow> x \<le> z" by (cases x; cases y; cases z) simp_all
  show "x \<le> y \<Longrightarrow> y \<le> x \<Longrightarrow> x = y" by (cases x; cases y) simp_all
  show "x \<le> y \<or> y \<le> x" by (cases x; cases y) auto
qed

end

type_synonym schema_errors = "json \<Rightarrow> (str \<times> json) list \<Rightarrow> (path_elem list \<times> str) list"

definition error_text :: "path_elem list \<times> str \<Rightarrow> str" where
  "error_text e =
     (case e of (path, message) \<Rightarrow>
        or_str (Some (join ''/'' (map path_elem_text path))) ''<root>'' @ '': '' @ message)"

definition validate_output :: "schema_errors \<Rightarrow> Kind \<Rightarrow> (str \<times> json) list option \<Rightarrow> str list" where
  "validate_output iter_errors kind output =
     (case output of
        None \<Rightarrow> [''structured_output is missing or not an object'']
      | Some out \<Rightarrow> map error_text (sort_key fst (iter_errors (schema_for kind) out)))"

lemma validate_output_Nil:
  "validate_output ie kind res = [] \<longleftrightarrow> (\<exists>out. res = Some out \<and> ie (schema_for kind) out = [])"
proof (cases res)
  case (Some out)
  have "sort_key fst (ie (schema_for kind) out) = [] \<longleftrightarrow> ie (schema_for kind) out = []"
    by (metis length_0_conv length_sort)
  with Some show ?thesis by (simp add: validate_output_def)
qed (simp add: validate_output_def)

end
