(* ===== verification/Lifecycle.thy ===== *)
theory Lifecycle
  imports Domain
begin

text \<open>
  The table-driven state machines of \<^verbatim>\<open>orchestrator/state.py\<close>. The two transition tables are
  association lists in the source's order; \<open>next_work_item_state\<close> and \<open>next_finding_state\<close>
  look a pair up and raise \<open>InvalidTransition\<close> otherwise. The abstract view is the step relations
  \<open>wi_step\<close> and \<open>finding_step\<close>; the reachability facts every component uses are proved here.
\<close>

datatype WorkItemEvent =
    E_dispatch_approved
  | E_issue_created
  | E_dispatch_started
  | E_session_created
  | E_session_adopted
  | E_dispatch_failed
  | E_pr_opened
  | E_checks_started
  | E_checks_green
  | E_checks_red
  | E_retry_sent
  | E_retries_exhausted
  | E_new_head_pushed
  | E_review_completed
  | E_review_not_observed
  | E_human_merged
  | E_pr_closed_unmerged
  | E_rescan_started
  | E_rescan_verified
  | E_rescan_shows_present
  | E_blocked
  | E_human_retry
  | E_operator_cancelled
  | E_human_abandoned
  | E_human_resolved
  | E_superseded

fun wi_event_value :: "WorkItemEvent \<Rightarrow> str" where
  "wi_event_value E_dispatch_approved = ''dispatch_approved''"
| "wi_event_value E_issue_created = ''issue_created''"
| "wi_event_value E_dispatch_started = ''dispatch_started''"
| "wi_event_value E_session_created = ''session_created''"
| "wi_event_value E_session_adopted = ''session_adopted''"
| "wi_event_value E_dispatch_failed = ''dispatch_failed''"
| "wi_event_value E_pr_opened = ''pr_opened''"
| "wi_event_value E_checks_started = ''checks_started''"
| "wi_event_value E_checks_green = ''checks_green''"
| "wi_event_value E_checks_red = ''checks_red''"
| "wi_event_value E_retry_sent = ''retry_sent''"
| "wi_event_value E_retries_exhausted = ''retries_exhausted''"
| "wi_event_value E_new_head_pushed = ''new_head_pushed''"
| "wi_event_value E_review_completed = ''review_completed''"
| "wi_event_value E_review_not_observed = ''review_not_observed''"
| "wi_event_value E_human_merged = ''human_merged''"
| "wi_event_value E_pr_closed_unmerged = ''pr_closed_unmerged''"
| "wi_event_value E_rescan_started = ''rescan_started''"
| "wi_event_value E_rescan_verified = ''rescan_verified''"
| "wi_event_value E_rescan_shows_present = ''rescan_shows_present''"
| "wi_event_value E_blocked = ''blocked''"
| "wi_event_value E_human_retry = ''human_retry''"
| "wi_event_value E_operator_cancelled = ''operator_cancelled''"
| "wi_event_value E_human_abandoned = ''human_abandoned''"
| "wi_event_value E_human_resolved = ''human_resolved''"
| "wi_event_value E_superseded = ''superseded''"

datatype FindingEvent =
    FE_classified
  | FE_unclassifiable
  | FE_grouped
  | FE_remediation_started
  | FE_pr_merged
  | FE_closing_absent
  | FE_closing_vex
  | FE_disagreement_resolved
  | FE_reappeared
  | FE_human_blocked
  | FE_human_reopened
  | FE_reclassified

fun finding_event_value :: "FindingEvent \<Rightarrow> str" where
  "finding_event_value FE_classified = ''classified''"
| "finding_event_value FE_unclassifiable = ''unclassifiable''"
| "finding_event_value FE_grouped = ''grouped''"
| "finding_event_value FE_remediation_started = ''remediation_started''"
| "finding_event_value FE_pr_merged = ''pr_merged''"
| "finding_event_value FE_closing_absent = ''closing_absent''"
| "finding_event_value FE_closing_vex = ''closing_vex''"
| "finding_event_value FE_disagreement_resolved = ''disagreement_resolved''"
| "finding_event_value FE_reappeared = ''reappeared''"
| "finding_event_value FE_human_blocked = ''human_blocked''"
| "finding_event_value FE_human_reopened = ''human_reopened''"
| "finding_event_value FE_reclassified = ''reclassified''"

text \<open>
  \<^verbatim>\<open>InvalidTransitionError(state, event)\<close>; both arguments are kept, its text is
  \<open>invalid_transition_text\<close> of their values.
\<close>

datatype ('s, 'e) invalid_transition = InvalidTransition 's 'e

definition invalid_transition_text :: "str \<Rightarrow> str \<Rightarrow> str" where
  "invalid_transition_text state event = ''invalid transition: '' @ state @ '' --'' @ event @ ''--> ?''"

definition WORK_ITEM_TRANSITIONS :: "((WorkItemState \<times> WorkItemEvent) \<times> WorkItemState) list" where
  "WORK_ITEM_TRANSITIONS = [
     ((W_queued, E_dispatch_approved), W_queued),
     ((W_queued, E_issue_created), W_issue_open),
     ((W_queued, E_human_abandoned), W_abandoned),
     ((W_queued, E_superseded), W_abandoned),
     ((W_issue_open, E_superseded), W_abandoned),
     ((W_issue_open, E_dispatch_started), W_dispatching),
     ((W_issue_open, E_human_abandoned), W_abandoned),
     ((W_issue_open, E_blocked), W_needs_human),
     ((W_dispatching, E_session_created), W_session_active),
     ((W_dispatching, E_session_adopted), W_session_active),
     ((W_dispatching, E_dispatch_failed), W_issue_open),
     ((W_dispatching, E_blocked), W_needs_human),
     ((W_session_active, E_pr_opened), W_pr_open),
     ((W_session_active, E_blocked), W_needs_human),
     ((W_session_active, E_operator_cancelled), W_needs_human),
     ((W_session_active, E_retries_exhausted), W_failed),
     ((W_pr_open, E_checks_started), W_checks_running),
     ((W_pr_open, E_blocked), W_needs_human),
     ((W_pr_open, E_pr_closed_unmerged), W_needs_human),
     ((W_checks_running, E_checks_green), W_review_pending),
     ((W_checks_running, E_checks_red), W_checks_failed),
     ((W_checks_running, E_blocked), W_needs_human),
     ((W_checks_running, E_pr_closed_unmerged), W_needs_human),
     ((W_checks_failed, E_retry_sent), W_session_active),
     ((W_checks_failed, E_retries_exhausted), W_failed),
     ((W_checks_failed, E_blocked), W_needs_human),
     ((W_review_pending, E_review_completed), W_ready_for_human),
     ((W_review_pending, E_review_not_observed), W_needs_human),
     ((W_review_pending, E_checks_red), W_checks_failed),
     ((W_review_pending, E_blocked), W_needs_human),
     ((W_review_pending, E_pr_closed_unmerged), W_needs_human),
     ((W_review_pending, E_new_head_pushed), W_checks_running),
     ((W_ready_for_human, E_human_merged), W_merged),
     ((W_ready_for_human, E_checks_red), W_checks_failed),
     ((W_ready_for_human, E_pr_closed_unmerged), W_needs_human),
     ((W_ready_for_human, E_human_abandoned), W_abandoned),
     ((W_ready_for_human, E_blocked), W_needs_human),
     ((W_ready_for_human, E_new_head_pushed), W_checks_running),
     ((W_merged, E_rescan_started), W_awaiting_rescan),
     ((W_awaiting_rescan, E_rescan_verified), W_verified),
     ((W_awaiting_rescan, E_rescan_shows_present), W_needs_human),
     ((W_awaiting_rescan, E_rescan_started), W_awaiting_rescan),
     ((W_needs_human, E_human_retry), W_issue_open),
     ((W_needs_human, E_human_abandoned), W_abandoned),
     ((W_needs_human, E_human_resolved), W_awaiting_rescan),
     ((W_needs_human, E_human_merged), W_merged),
     ((W_failed, E_human_retry), W_issue_open),
     ((W_failed, E_human_abandoned), W_abandoned)]"

definition HUMAN_ATTENTION_STATES :: "WorkItemState list" where
  [enum_defs]: "HUMAN_ATTENTION_STATES = [W_needs_human, W_failed]"

definition next_work_item_state ::
    "WorkItemState \<Rightarrow> WorkItemEvent \<Rightarrow> (WorkItemState, WorkItemEvent) invalid_transition + WorkItemState" where
  "next_work_item_state s e =
     (case map_of WORK_ITEM_TRANSITIONS (s, e) of
        Some s' \<Rightarrow> Inr s'
      | None \<Rightarrow> Inl (InvalidTransition s e))"

definition FINDING_TRANSITIONS :: "((FindingState \<times> FindingEvent) \<times> FindingState) list" where
  "FINDING_TRANSITIONS = [
     ((F_open, FE_classified), F_open),
     ((F_open, FE_unclassifiable), F_unclassified),
     ((F_open, FE_grouped), F_grouped),
     ((F_open, FE_closing_absent), F_fixed),
     ((F_unclassified, FE_reclassified), F_open),
     ((F_unclassified, FE_closing_absent), F_fixed),
     ((F_grouped, FE_remediation_started), F_in_remediation),
     ((F_grouped, FE_human_blocked), F_human_blocked),
     ((F_grouped, FE_closing_absent), F_fixed),
     ((F_in_remediation, FE_pr_merged), F_awaiting_rescan),
     ((F_in_remediation, FE_human_blocked), F_human_blocked),
     ((F_in_remediation, FE_disagreement_resolved), F_scanner_disagreement_resolved),
     ((F_in_remediation, FE_closing_vex), F_approved_disposition),
     ((F_in_remediation, FE_closing_absent), F_fixed),
     ((F_awaiting_rescan, FE_closing_absent), F_fixed),
     ((F_awaiting_rescan, FE_closing_vex), F_approved_disposition),
     ((F_awaiting_rescan, FE_human_blocked), F_human_blocked),
     ((F_fixed, FE_reappeared), F_regression),
     ((F_approved_disposition, FE_human_reopened), F_open),
     ((F_scanner_disagreement_resolved, FE_human_reopened), F_open),
     ((F_regression, FE_grouped), F_grouped),
     ((F_regression, FE_closing_absent), F_fixed),
     ((F_human_blocked, FE_human_reopened), F_open),
     ((F_human_blocked, FE_closing_absent), F_fixed),
     ((F_human_blocked, FE_closing_vex), F_approved_disposition),
     ((F_human_blocked, FE_disagreement_resolved), F_scanner_disagreement_resolved)]"

definition next_finding_state ::
    "FindingState \<Rightarrow> FindingEvent \<Rightarrow> (FindingState, FindingEvent) invalid_transition + FindingState" where
  "next_finding_state s e =
     (case map_of FINDING_TRANSITIONS (s, e) of
        Some s' \<Rightarrow> Inr s'
      | None \<Rightarrow> Inl (InvalidTransition s e))"

section \<open>The machines as step relations\<close>

inductive wi_step :: "WorkItemState \<Rightarrow> WorkItemEvent \<Rightarrow> WorkItemState \<Rightarrow> bool" where
  wi_step: "next_work_item_state s e = Inr s' \<Longrightarrow> wi_step s e s'"

inductive finding_step :: "FindingState \<Rightarrow> FindingEvent \<Rightarrow> FindingState \<Rightarrow> bool" where
  finding_step: "next_finding_state s e = Inr s' \<Longrightarrow> finding_step s e s'"

inductive_simps wi_step_iff: "wi_step s e s'"
inductive_simps finding_step_iff: "finding_step s e s'"

lemma next_work_item_state_mem:
  "next_work_item_state s e = Inr s' \<Longrightarrow> ((s, e), s') \<in> set WORK_ITEM_TRANSITIONS"
  by (auto simp: next_work_item_state_def dest: map_of_SomeD split: option.splits)

lemma next_finding_state_mem:
  "next_finding_state s e = Inr s' \<Longrightarrow> ((s, e), s') \<in> set FINDING_TRANSITIONS"
  by (auto simp: next_finding_state_def dest: map_of_SomeD split: option.splits)

lemma distinct_work_item_keys: "distinct (map fst WORK_ITEM_TRANSITIONS)"
  by code_simp

lemma distinct_finding_keys: "distinct (map fst FINDING_TRANSITIONS)"
  by code_simp

lemma next_work_item_state_iff:
  "next_work_item_state s e = Inr s' \<longleftrightarrow> ((s, e), s') \<in> set WORK_ITEM_TRANSITIONS"
  using next_work_item_state_mem map_of_is_SomeI [OF distinct_work_item_keys]
  by (auto simp: next_work_item_state_def)

lemma next_finding_state_iff:
  "next_finding_state s e = Inr s' \<longleftrightarrow> ((s, e), s') \<in> set FINDING_TRANSITIONS"
  using next_finding_state_mem map_of_is_SomeI [OF distinct_finding_keys]
  by (auto simp: next_finding_state_def)

text \<open>A property of every transition is checked on the rows of the table.\<close>

lemma wi_transition_rule:
  assumes "list_all (\<lambda>((s, e), s'). P s e s') WORK_ITEM_TRANSITIONS"
    and "next_work_item_state s e = Inr s'"
  shows "P s e s'"
  using assms next_work_item_state_mem by (fastforce simp: list_all_iff)

lemma finding_transition_rule:
  assumes "list_all (\<lambda>((s, e), s'). P s e s') FINDING_TRANSITIONS"
    and "next_finding_state s e = Inr s'"
  shows "P s e s'"
  using assms next_finding_state_mem by (fastforce simp: list_all_iff)

end
