(* ===== verification/Regex.thy ===== *)
theory Regex
  imports Prelude
begin

text \<open>
  Regular expressions as the source uses them through Python's \<^verbatim>\<open>re\<close> module: an executable
  derivative matcher, proved to decide the language of the expression. \<open>re_match\<close> anchors at the
  start, \<open>re_search\<close> matches anywhere, \<open>re_full\<close> the whole string; the \<^verbatim>\<open>$\<close> of a pattern is
  \<open>re_end\<close>, which allows one trailing newline as Python's does.
\<close>

datatype regex =
    RNone
  | REps
  | RChar "char \<Rightarrow> bool"
  | RSeq regex regex
  | RAlt regex regex
  | RStar regex

inductive rlang :: "regex \<Rightarrow> str \<Rightarrow> bool" where
  eps: "rlang REps []"
| chr: "p c \<Longrightarrow> rlang (RChar p) [c]"
| sq: "rlang r s \<Longrightarrow> rlang r' s' \<Longrightarrow> rlang (RSeq r r') (s @ s')"
| altl: "rlang r s \<Longrightarrow> rlang (RAlt r r') s"
| altr: "rlang r' s \<Longrightarrow> rlang (RAlt r r') s"
| star0: "rlang (RStar r) []"
| star1: "rlang r s \<Longrightarrow> rlang (RStar r) s' \<Longrightarrow> rlang (RStar r) (s @ s')"

inductive_simps rlang_None [simp]: "rlang RNone s"
inductive_simps rlang_Eps [simp]: "rlang REps s"
inductive_simps rlang_Char [simp]: "rlang (RChar p) s"
inductive_simps rlang_Seq: "rlang (RSeq r r') s"
inductive_simps rlang_Alt [simp]: "rlang (RAlt r r') s"

fun nullable :: "regex \<Rightarrow> bool" where
  "nullable RNone = False"
| "nullable REps = True"
| "nullable (RChar p) = False"
| "nullable (RSeq r r') = (nullable r \<and> nullable r')"
| "nullable (RAlt r r') = (nullable r \<or> nullable r')"
| "nullable (RStar r) = True"

text \<open>The smart constructors keep derivatives of long literals small.\<close>

fun mk_seq :: "regex \<Rightarrow> regex \<Rightarrow> regex" where
  "mk_seq RNone r = RNone"
| "mk_seq REps r = r"
| "mk_seq r r' = RSeq r r'"

fun mk_alt :: "regex \<Rightarrow> regex \<Rightarrow> regex" where
  "mk_alt RNone r = r"
| "mk_alt r RNone = r"
| "mk_alt r r' = RAlt r r'"

fun rderiv :: "char \<Rightarrow> regex \<Rightarrow> regex" where
  "rderiv c RNone = RNone"
| "rderiv c REps = RNone"
| "rderiv c (RChar p) = (if p c then REps else RNone)"
| "rderiv c (RSeq r r') =
     (if nullable r then mk_alt (mk_seq (rderiv c r) r') (rderiv c r') else mk_seq (rderiv c r) r')"
| "rderiv c (RAlt r r') = mk_alt (rderiv c r) (rderiv c r')"
| "rderiv c (RStar r) = mk_seq (rderiv c r) (RStar r)"

fun re_full :: "regex \<Rightarrow> str \<Rightarrow> bool" where
  "re_full r [] = nullable r"
| "re_full r (c # s) = re_full (rderiv c r) s"

definition re_any :: regex where "re_any = RStar (RChar (\<lambda>_. True))"
definition re_match :: "regex \<Rightarrow> str \<Rightarrow> bool" where "re_match r s = re_full (RSeq r re_any) s"
definition re_search :: "regex \<Rightarrow> str \<Rightarrow> bool" where "re_search r s = re_full (RSeq re_any (RSeq r re_any)) s"

fun re_lit :: "str \<Rightarrow> regex" where
  "re_lit [] = REps"
| "re_lit (c # s) = RSeq (RChar (\<lambda>x. x = c)) (re_lit s)"

text \<open>A literal under \<^verbatim>\<open>re.I\<close>.\<close>

fun re_lit_ci :: "str \<Rightarrow> regex" where
  "re_lit_ci [] = REps"
| "re_lit_ci (c # s) = RSeq (RChar (\<lambda>x. lower_char x = lower_char c)) (re_lit_ci s)"

definition re_plus :: "regex \<Rightarrow> regex" where "re_plus r = RSeq r (RStar r)"
definition re_opt :: "regex \<Rightarrow> regex" where "re_opt r = RAlt REps r"
definition re_dots :: regex where "re_dots = RStar (RChar (\<lambda>c. c \<noteq> CHR ''\<newline>''))"
definition re_end :: regex where "re_end = RAlt REps (RChar (\<lambda>c. c = CHR ''\<newline>''))"
definition re_digits :: regex where "re_digits = re_plus (RChar is_digit)"

fun re_seqs :: "regex list \<Rightarrow> regex" where
  "re_seqs [] = REps"
| "re_seqs (r # rs) = RSeq r (re_seqs rs)"

section \<open>The matcher decides the language\<close>

lemma rlang_Seq_iff: "rlang (RSeq r r') s \<longleftrightarrow> (\<exists>s1 s2. s = s1 @ s2 \<and> rlang r s1 \<and> rlang r' s2)"
  by (auto simp: rlang_Seq)

lemma nullable_iff: "nullable r \<longleftrightarrow> rlang r []"
  by (induction r) (auto simp: rlang_Seq_iff intro: rlang.star0)

lemma rlang_mk_seq [simp]: "rlang (mk_seq r r') s \<longleftrightarrow> rlang (RSeq r r') s"
  by (cases r) (auto simp: rlang_Seq_iff)

lemma rlang_mk_alt [simp]: "rlang (mk_alt r r') s \<longleftrightarrow> rlang (RAlt r r') s"
  by (cases r; cases r') auto

lemma rlang_Star_Cons:
  assumes "rlang (RStar r) w" and "w = c # s"
  shows "\<exists>s1 s2. s = s1 @ s2 \<and> rlang r (c # s1) \<and> rlang (RStar r) s2"
  using assms
proof (induction "RStar r" w arbitrary: s rule: rlang.induct)
  case (star1 s1 s')
  show ?case
  proof (cases s1)
    case Nil
    with star1 show ?thesis by auto
  next
    case (Cons d t)
    with star1.prems have "d = c" "s = t @ s'" by auto
    with star1.hyps Cons show ?thesis by blast
  qed
qed simp

lemma rlang_Seq_Cons:
  "rlang (RSeq r r') (c # s) \<longleftrightarrow>
     (\<exists>s1 s2. s = s1 @ s2 \<and> rlang r (c # s1) \<and> rlang r' s2) \<or> (rlang r [] \<and> rlang r' (c # s))"
  by (auto simp: rlang_Seq_iff Cons_eq_append_conv)

lemma rlang_deriv: "rlang (rderiv c r) s \<longleftrightarrow> rlang r (c # s)"
proof (induction r arbitrary: s)
  case (RSeq r1 r2)
  then show ?case unfolding rlang_Seq_Cons by (auto simp: rlang_Seq_iff nullable_iff)
next
  case (RStar r)
  have "rlang (RStar r) (c # s)" if "s = s1 @ s2" "rlang r (c # s1)" "rlang (RStar r) s2" for s1 s2
    using rlang.star1 [OF that(2,3)] that(1) by simp
  with RStar show ?case by (auto simp: rlang_Seq_iff dest: rlang_Star_Cons)
qed auto

lemma re_full_iff: "re_full r s \<longleftrightarrow> rlang r s"
  by (induction s arbitrary: r) (auto simp: nullable_iff rlang_deriv)

lemma rlang_any [simp]: "rlang re_any s"
proof (induction s)
  case (Cons c s)
  have "rlang (RStar (RChar (\<lambda>_. True))) ([c] @ s)"
    using Cons rlang.star1 [of "RChar (\<lambda>_. True)" "[c]" s] by (simp add: re_any_def)
  then show ?case by (simp add: re_any_def)
qed (simp add: re_any_def rlang.star0)

lemma re_match_iff: "re_match r s \<longleftrightarrow> (\<exists>s1 s2. s = s1 @ s2 \<and> rlang r s1)"
  by (auto simp: re_match_def re_full_iff rlang_Seq_iff)

lemma re_search_iff: "re_search r s \<longleftrightarrow> (\<exists>s0 s1 s2. s = s0 @ s1 @ s2 \<and> rlang r s1)"
  by (auto simp: re_search_def re_full_iff rlang_Seq_iff)

lemma rlang_lit [simp]: "rlang (re_lit p) s \<longleftrightarrow> s = p"
  by (induction p arbitrary: s) (auto simp: rlang_Seq_iff)

lemma re_match_lit: "re_match (re_lit p) s \<longleftrightarrow> starts_with s p"
  by (auto simp: re_match_iff starts_with_iff)

lemma rlang_char_Seq: "rlang (RSeq (RChar p) r) s \<longleftrightarrow> (case s of [] \<Rightarrow> False | c # t \<Rightarrow> p c \<and> rlang r t)"
  by (cases s) (auto simp: rlang_Seq_Cons rlang_Seq_iff, metis append_Cons append_Nil)

lemma rlang_lit_ci: "rlang (re_lit_ci p) s \<longleftrightarrow> map lower_char s = map lower_char p"
  by (induction p arbitrary: s) (auto simp: rlang_char_Seq split: list.split)

lemma rlang_star_char: "rlang (RStar (RChar p)) s \<longleftrightarrow> list_all p s"
proof
  assume "list_all p s"
  then show "rlang (RStar (RChar p)) s"
  proof (induction s)
    case (Cons c s)
    then show ?case using rlang.star1 [of "RChar p" "[c]" s] by (auto intro: rlang.chr)
  qed (rule rlang.star0)
next
  assume "rlang (RStar (RChar p)) s"
  then show "list_all p s"
    by (induction "RStar (RChar p)" s rule: rlang.induct) auto
qed

lemma rlang_plus_char: "rlang (re_plus (RChar p)) s \<longleftrightarrow> s \<noteq> [] \<and> list_all p s"
proof
  assume "rlang (re_plus (RChar p)) s"
  then show "s \<noteq> [] \<and> list_all p s" by (auto simp: re_plus_def rlang_Seq_iff rlang_star_char)
next
  assume "s \<noteq> [] \<and> list_all p s"
  then obtain c s' where "s = c # s'" "p c" "list_all p s'" by (cases s) auto
  then show "rlang (re_plus (RChar p)) s"
    using rlang.sq [of "RChar p" "[c]" "RStar (RChar p)" s'] by (simp add: re_plus_def rlang_star_char)
qed

end
