(* ===== verification/Vex.thy ===== *)
theory Vex
  imports Regex
begin

text \<open>
  \<^verbatim>\<open>ingest/vex.py\<close>: the approval block of an OpenVEX document and the structural check a document must
  pass before its suppression is evidence. A document is the fields of its JSON object; an
  exception is an \<open>exn\<close>, TypeError included (a status that Python cannot hash).
\<close>

section \<open>Sequencing of fallible steps\<close>

definition ebind :: "exn + 'a \<Rightarrow> ('a \<Rightarrow> exn + 'b) \<Rightarrow> exn + 'b" where
  "ebind m f = (case m of Inl e \<Rightarrow> Inl e | Inr a \<Rightarrow> f a)"

fun emap :: "(nat \<Rightarrow> 'a \<Rightarrow> exn + 'b) \<Rightarrow> nat \<Rightarrow> 'a list \<Rightarrow> exn + 'b list" where
  "emap f i [] = Inr []"
| "emap f i (x # xs) = ebind (f i x) (\<lambda>y. ebind (emap f (Suc i) xs) (\<lambda>ys. Inr (y # ys)))"

lemma ebind_simps [simp]: "ebind (Inl e) f = Inl e" "ebind (Inr a) f = f a"
  by (simp_all add: ebind_def)

lemma ebind_Inr_iff: "ebind m f = Inr b \<longleftrightarrow> (\<exists>a. m = Inr a \<and> f a = Inr b)"
  by (cases m) auto

lemma emap_Inr_inv:
  "emap f i xs = Inr ys \<Longrightarrow> y \<in> set ys \<Longrightarrow> \<exists>j x. x \<in> set xs \<and> f j x = Inr y"
proof (induction xs arbitrary: i ys)
  case (Cons a xs)
  then obtain b bs where b: "f i a = Inr b" "emap f (Suc i) xs = Inr bs" "ys = b # bs"
    by (auto simp: ebind_Inr_iff)
  with Cons.prems consider "y = b" | "y \<in> set bs" by auto
  then show ?case
  proof cases
    case 1
    with b show ?thesis by auto
  next
    case 2
    from Cons.IH [OF b(2) this] show ?thesis by auto
  qed
qed simp

lemma emap_length: "emap f i xs = Inr ys \<Longrightarrow> length ys = length xs"
  by (induction xs arbitrary: i ys) (auto simp: ebind_Inr_iff)

section \<open>Approvals\<close>

definition SUPPRESSING_STATUSES :: "str list" where
  "SUPPRESSING_STATUSES = [''not_affected'', ''fixed'']"

definition is_word_char :: "char \<Rightarrow> bool" where
  "is_word_char c \<longleftrightarrow> is_digit c \<or> c = CHR ''_'' \<or> (let l = (of_char (lower_char c) :: nat) in 97 \<le> l \<and> l \<le> 122)"

definition repo_part :: regex where
  "repo_part = re_plus (RChar (\<lambda>c. is_word_char c \<or> c = CHR ''.'' \<or> c = CHR ''-''))"

definition ISSUE_URL :: regex where
  "ISSUE_URL = re_seqs [re_lit ''https://github.com/'', repo_part, re_lit ''/'', repo_part,
     re_lit ''/issues/'', re_digits, re_end]"

record VexApproval =
  va_issue_url :: str
  va_approved_by :: str

record VexStatementSummary =
  vs_vulnerability :: str
  vs_products :: "str list"
  vs_status :: str

type_synonym vex_doc = "(str, json) dict"

definition approval_of :: "vex_doc \<Rightarrow> VexApproval option" where
  "approval_of doc =
     (case dict_get doc ''x-approval'' of
        Some (JObj raw) \<Rightarrow>
          (case (map_of raw ''issue_url'', map_of raw ''approved_by'') of
             (Some (JStr u), Some (JStr b)) \<Rightarrow>
               if \<not> re_full ISSUE_URL u \<or> strip b = [] then None
               else Some \<lparr>va_issue_url = u, va_approved_by = b\<rparr>
           | _ \<Rightarrow> None)
      | _ \<Rightarrow> None)"

section \<open>Structure\<close>

definition vex_error :: "str \<Rightarrow> str \<Rightarrow> exn" where
  "vex_error loc m = Exn ''VexEvidenceError'' (loc @ '': '' @ m)"

fun hashable :: "json \<Rightarrow> bool" where
  "hashable (JArr _) = False"
| "hashable (JObj _) = False"
| "hashable _ = True"

definition json_or_null :: "json option \<Rightarrow> json" where
  "json_or_null x = (case x of None \<Rightarrow> JNull | Some j \<Rightarrow> j)"

definition check_product :: "str \<Rightarrow> nat \<Rightarrow> json \<Rightarrow> exn + str" where
  "check_product loc i p =
     (case jget p ''@id'' of
        Some (JStr pid) \<Rightarrow>
          if pid = [] then Inl (vex_error loc (''statement '' @ show_nat i @ '' has a product without @id'')) else Inr pid
      | _ \<Rightarrow> Inl (vex_error loc (''statement '' @ show_nat i @ '' has a product without @id'')))"

definition check_statement :: "str \<Rightarrow> nat \<Rightarrow> json \<Rightarrow> exn + VexStatementSummary" where
  "check_statement loc i st =
     (case st of
        JObj fs \<Rightarrow>
          let name = (case map_of fs ''vulnerability'' of Some v \<Rightarrow> jstr (jget v ''name'') | None \<Rightarrow> None);
              status = json_or_null (map_of fs ''status'')
          in if or_str name [] = []
             then Inl (vex_error loc (''statement '' @ show_nat i @ '' has no vulnerability.name''))
             else if \<not> hashable status then Inl (Exn ''TypeError'' ''unhashable type'')
             else if status \<notin> JStr ` set SUPPRESSING_STATUSES
             then Inl (vex_error loc
               (''statement '' @ show_nat i @ '' status '' @ py_repr status @ '' cannot suppress a finding''))
             else ebind (emap (\<lambda>_. check_product loc i) 0
                          (case map_of fs ''products'' of Some (JArr ps) \<Rightarrow> ps | _ \<Rightarrow> []))
               (\<lambda>ids. if ids = []
                  then Inl (vex_error loc (''statement '' @ show_nat i @ '' has no products''))
                  else Inr \<lparr>vs_vulnerability = or_str name [], vs_products = ids, vs_status = py_str status\<rparr>)
      | _ \<Rightarrow> Inl (vex_error loc (''statement '' @ show_nat i @ '' is not an object'')))"

definition validate_openvex :: "vex_doc \<Rightarrow> str \<Rightarrow> exn + VexStatementSummary list" where
  "validate_openvex doc loc =
     (let context = json_or_null (dict_get doc ''@context'');
          bad = Inl (vex_error loc (''not an OpenVEX document (@context='' @ py_repr context @ '')'')) in
      case context of
        JStr c \<Rightarrow>
          if \<not> starts_with c ''https://openvex.dev/ns/'' then bad
          else (case dict_get doc ''statements'' of
                  Some (JArr sts) \<Rightarrow>
                    if sts = [] then Inl (vex_error loc ''OpenVEX document has no statements'')
                    else emap (check_statement loc) 0 sts
                | _ \<Rightarrow> Inl (vex_error loc ''OpenVEX document has no statements''))
      | _ \<Rightarrow> bad)"

section \<open>Facts\<close>

lemma approval_of_SomeD:
  "approval_of doc = Some a \<Longrightarrow> re_full ISSUE_URL (va_issue_url a) \<and> strip (va_approved_by a) \<noteq> []"
  by (auto simp: approval_of_def split: option.splits json.splits if_splits)

lemma check_statement_Inr:
  assumes "check_statement w i st = Inr s"
  shows "vs_status s \<in> set SUPPRESSING_STATUSES \<and> vs_products s \<noteq> [] \<and> vs_vulnerability s \<noteq> [] \<and>
    (\<exists>fs v. st = JObj fs \<and> map_of fs ''vulnerability'' = Some v \<and> jget v ''name'' = Some (JStr (vs_vulnerability s)))"
  using assms
  by (auto simp: check_statement_def Let_def ebind_Inr_iff or_str_def py_str_def
      split: json.splits option.splits if_splits elim!: jstr.elims)

lemma validate_openvex_Inr:
  assumes "validate_openvex doc w = Inr ss"
  shows "ss \<noteq> []" and "s \<in> set ss \<Longrightarrow> vs_status s \<in> set SUPPRESSING_STATUSES \<and> vs_products s \<noteq> []"
proof -
  obtain sts where sts: "sts \<noteq> []" "emap (check_statement w) 0 sts = Inr ss"
    using assms by (auto simp: validate_openvex_def Let_def split: json.splits option.splits if_splits)
  show "ss \<noteq> []" using sts emap_length [OF sts(2)] by auto
  show "vs_status s \<in> set SUPPRESSING_STATUSES \<and> vs_products s \<noteq> []" if "s \<in> set ss"
    using emap_Inr_inv [OF sts(2) that] check_statement_Inr by blast
qed

end
