(* ===== verification/Classify.thy ===== *)
theory Classify
  imports Records "HOL-Library.Multiset"
begin

text \<open>
  \<^verbatim>\<open>classify/rules.py\<close> and \<^verbatim>\<open>classify/group.py\<close>: the ordered rules that put a normalized finding into one
  of the five kinds (or leave it unclassified), and the grouping of classified findings into
  work-item candidates. The \<^verbatim>\<open>packaging\<close> library (\<open>Requirement\<close>, \<open>SpecifierSet\<close>, \<open>Version\<close>) is a
  record of functions over an unspecified type of specifier sets.
\<close>

section \<open>Classification rules\<close>

definition NO_FIX_STATES :: "str list" where
  "NO_FIX_STATES =
     [''affected'', ''will_not_fix'', ''wont-fix'', ''fix_deferred'', ''end_of_life'', ''not-fixed'', ''unknown'']"

definition UPPER_BOUND_OPS :: "str list" where
  "UPPER_BOUND_OPS = [''<'', ''<='', ''=='', ''~='', ''==='']"

text \<open>
  The calls on \<^verbatim>\<open>packaging\<close>: \<open>Requirement(raw)\<close> (None where it raises InvalidRequirement) gives a name
  and a specifier set; the operators of a set, in its order; \<open>&\<close>; \<open>spec.contains(Version(v),
  prereleases=False)\<close> (None where \<open>Version\<close> raises); and the set's text.
\<close>

record 'spec packaging =
  pk_requirement :: "str \<Rightarrow> (str \<times> 'spec) option"
  pk_operators :: "'spec \<Rightarrow> str list"
  pk_and :: "'spec \<Rightarrow> 'spec \<Rightarrow> 'spec"
  pk_contains :: "'spec \<Rightarrow> str \<Rightarrow> bool option"
  pk_text :: "'spec \<Rightarrow> str"

record 'spec ClassificationContext =
  cx_scanner_job_success :: "(Scanner, bool) dict"
  cx_upper_bounds :: "(str, 'spec) dict"

record Classification =
  cl_kind :: "Kind option"
  cl_risk :: Risk
  cl_bound_blocked :: bool
  cl_trace :: str
  cl_unclassified_reason :: "str option"

definition is_unclassified :: "Classification \<Rightarrow> bool" where
  "is_unclassified c \<longleftrightarrow> cl_kind c = None"

text \<open>
  \<open>parse_upper_bounds\<close> from the \<^verbatim>\<open>[project]\<close> table \<^verbatim>\<open>tomllib\<close> returns: its dependencies and its
  optional dependencies, None where the key is missing.
\<close>

definition bound_name :: "str \<Rightarrow> str" where
  "bound_name n = lower (map (\<lambda>c. if c = CHR ''_'' \<or> c = CHR ''.'' then CHR ''-'' else c) n)"

definition add_bound :: "'spec packaging \<Rightarrow> (str, 'spec) dict \<Rightarrow> str \<Rightarrow> (str, 'spec) dict" where
  "add_bound pk bounds raw =
     (case pk_requirement pk raw of
        None \<Rightarrow> bounds
      | Some (req_name, spec) \<Rightarrow>
          let name = bound_name req_name in
          if list_ex (\<lambda>op. op \<in> set UPPER_BOUND_OPS) (pk_operators pk spec)
          then dict_set name
                 (case dict_get bounds name of
                    Some existing \<Rightarrow> if pk_operators pk existing \<noteq> [] then pk_and pk existing spec else spec
                  | None \<Rightarrow> spec) bounds
          else bounds)"

definition parse_upper_bounds ::
    "'spec packaging \<Rightarrow> str list option \<Rightarrow> (str, str list) dict option \<Rightarrow> (str, 'spec) dict" where
  "parse_upper_bounds pk deps extras =
     (let reqs = (case deps of None \<Rightarrow> [] | Some ds \<Rightarrow> ds) @
                 (case extras of None \<Rightarrow> [] | Some es \<Rightarrow> concat (map snd es))
      in foldl (add_bound pk) [] reqs)"

fun fix_allowed_by_bounds :: "'spec packaging \<Rightarrow> str list \<Rightarrow> 'spec \<Rightarrow> bool" where
  "fix_allowed_by_bounds pk [] spec = False"
| "fix_allowed_by_bounds pk (fv # fvs) spec =
     (if pk_contains pk spec fv = Some True then True else fix_allowed_by_bounds pk fvs spec)"

definition comparable :: "NormalizedFinding \<Rightarrow> bool" where
  "comparable f \<longleftrightarrow> \<not> nf_is_config f \<and>
     list_all (\<lambda>s. nf_ecosystem f \<in> set (SCANNER_ECOSYSTEMS s)) [SC_trivy, SC_grype]"

definition no_fix_from_every_reporter :: "NormalizedFinding \<Rightarrow> bool" where
  "no_fix_from_every_reporter f =
     (if has_fix f then False
      else let states = map snd (nf_fix_state_by_scanner f) in
           states \<noteq> [] \<and> list_all (\<lambda>s. s \<in> set NO_FIX_STATES \<or> s = []) states)"

definition repr_str_dict :: "(str, str) dict \<Rightarrow> str" where
  "repr_str_dict d = ''{'' @ join '', '' (map (\<lambda>(k, v). repr_str k @ '': '' @ repr_str v) d) @ ''}''"

definition unclassified_reason :: "NormalizedFinding \<Rightarrow> str" where
  "unclassified_reason f =
     (if nf_ecosystem f = EC_unknown then ''unknown_ecosystem''
      else if nf_is_config f then ''config_layer_unsupported:'' @ layer_value (nf_layer f)
      else if nf_reported_by f = [] then ''no_reporter''
      else if has_fix f then ''fixable_but_unsupported_ecosystem:'' @ ecosystem_value (nf_ecosystem f)
      else ''fix_state_inconsistent:'' @ repr_str_dict (nf_fix_state_by_scanner f))"

definition other_scanner :: "Scanner \<Rightarrow> Scanner" where
  "other_scanner s = (if s = SC_trivy then SC_grype else SC_trivy)"

definition classified :: "Kind \<Rightarrow> str list \<Rightarrow> Classification" where
  "classified k trace =
     \<lparr>cl_kind = Some k, cl_risk = RK_normal, cl_bound_blocked = False, cl_trace = join '';'' trace,
      cl_unclassified_reason = None\<rparr>"

text \<open>
  The rules in order, one definition each: \<open>Inl\<close> the classification of a rule that matches, \<open>Inr\<close>
  the trace line of one that does not. \<open>tr\<close> is the trace so far.
\<close>

definition rule1 :: "NormalizedFinding \<Rightarrow> Classification + str" where
  "rule1 f =
     (if nf_is_config f \<and> nf_layer f \<in> set [LY_helm, LY_compose]
      then Inl (classified K_helm_deploy_config [''r1:config layer='' @ layer_value (nf_layer f)])
      else Inr ''r1:no(not helm/compose config)'')"

definition rule2 :: "NormalizedFinding \<Rightarrow> 'spec ClassificationContext \<Rightarrow> str list \<Rightarrow> Classification + str" where
  "rule2 f ctx tr =
     (case (comparable f, nf_reported_by f) of
        (True, [reporter]) \<Rightarrow>
          let other = other_scanner reporter;
              other_ok = (case dict_get (cx_scanner_job_success ctx) other of Some b \<Rightarrow> b | None \<Rightarrow> False)
          in if other_ok
             then Inl (classified K_scanner_disagreement
                         (tr @ [''r2:only '' @ scanner_value reporter @ '', '' @ scanner_value other @ '' job succeeded'']))
             else Inr (''r2:no('' @ scanner_value other @ '' job did not succeed; not a disagreement)'')
      | _ \<Rightarrow> Inr ''r2:no(not comparable or reported by both)'')"

definition rule3 ::
    "'spec packaging \<Rightarrow> NormalizedFinding \<Rightarrow> 'spec ClassificationContext \<Rightarrow> str list \<Rightarrow> Classification + str" where
  "rule3 pk f ctx tr =
     (if \<not> nf_is_config f \<and> nf_ecosystem f = EC_pypi \<and> has_fix f
      then let fixes = ''r3:pypi fix '' @ repr_str_list (all_fix_versions f) in
        (case dict_get (cx_upper_bounds ctx) (or_str (nf_pkg_name f) []) of
           Some spec \<Rightarrow>
             if \<not> fix_allowed_by_bounds pk (all_fix_versions f) spec
             then Inl ((classified K_dependency_upgrade (tr @ [fixes @ '' blocked by '' @ pk_text pk spec]))
                         \<lparr>cl_risk := RK_high, cl_bound_blocked := True\<rparr>)
             else Inl (classified K_dependency_upgrade (tr @ [fixes]))
         | None \<Rightarrow> Inl (classified K_dependency_upgrade (tr @ [fixes])))
      else Inr ''r3:no(not fixable pypi)'')"

definition rule4 :: "NormalizedFinding \<Rightarrow> str list \<Rightarrow> Classification + str" where
  "rule4 f tr =
     (if \<not> nf_is_config f \<and> no_fix_from_every_reporter f
      then Inl (classified K_no_fix_reachability
                  (tr @ [''r4:no fix states='' @ repr_str_dict (nf_fix_state_by_scanner f)]))
      else Inr ''r4:no(some reporter has a fix or unknown state)'')"

definition rule5 :: "NormalizedFinding \<Rightarrow> str list \<Rightarrow> Classification + str" where
  "rule5 f tr =
     (if nf_is_config f \<and> nf_layer f = LY_dockerfile
      then Inl (classified K_container_hardening (tr @ [''r5:dockerfile config'']))
      else if \<not> nf_is_config f \<and> nf_ecosystem f \<in> set [EC_deb, EC_binary, EC_npm, EC_golang] \<and> has_fix f
      then Inl (classified K_container_hardening
                  (tr @ [''r5:'' @ ecosystem_value (nf_ecosystem f) @ '' fix '' @ repr_str_list (all_fix_versions f)]))
      else Inr ''r5:no(not fixable os/binary or dockerfile)'')"

definition classify :: "'spec packaging \<Rightarrow> NormalizedFinding \<Rightarrow> 'spec ClassificationContext \<Rightarrow> Classification" where
  "classify pk f ctx =
     (case rule1 f of Inl c \<Rightarrow> c | Inr t1 \<Rightarrow>
     (case rule2 f ctx [t1] of Inl c \<Rightarrow> c | Inr t2 \<Rightarrow>
     (case rule3 pk f ctx [t1, t2] of Inl c \<Rightarrow> c | Inr t3 \<Rightarrow>
     (case rule4 f [t1, t2, t3] of Inl c \<Rightarrow> c | Inr t4 \<Rightarrow>
     (case rule5 f [t1, t2, t3, t4] of Inl c \<Rightarrow> c | Inr t5 \<Rightarrow>
        \<lparr>cl_kind = None, cl_risk = RK_normal, cl_bound_blocked = False,
         cl_trace = join '';'' [t1, t2, t3, t4, t5],
         cl_unclassified_reason = Some (unclassified_reason f)\<rparr>)))))"

section \<open>Grouping\<close>

definition CONFIG_LAYERS :: "Layer list" where
  [enum_defs]: "CONFIG_LAYERS = [LY_dockerfile, LY_helm, LY_compose]"

fun group_key_for :: "Kind option \<Rightarrow> str option \<Rightarrow> Ecosystem \<Rightarrow> Layer \<Rightarrow> str \<Rightarrow> str" where
  "group_key_for (Some K_dependency_upgrade) pkg eco layer key = ''pypi:'' @ show_opt_str pkg"
| "group_key_for (Some K_no_fix_reachability) pkg eco layer key =
     ''nofix:'' @ ecosystem_value eco @ '':'' @ show_opt_str pkg"
| "group_key_for (Some K_container_hardening) pkg eco layer key =
     (if layer \<in> set CONFIG_LAYERS then ''container:dockerfile''
      else ''container:'' @ layer_value layer @ ''-packages'')"
| "group_key_for (Some K_scanner_disagreement) pkg eco layer key =
     ''disagreement:'' @ ecosystem_value eco @ '':'' @ show_opt_str pkg"
| "group_key_for (Some K_helm_deploy_config) pkg eco layer key = ''deploy:'' @ layer_value layer"
| "group_key_for None pkg eco layer key = ''unclassified:'' @ key"

definition group_key :: "NormalizedFinding \<Rightarrow> Classification \<Rightarrow> str" where
  "group_key f c = group_key_for (cl_kind c) (nf_pkg_name f) (nf_ecosystem f) (nf_layer f) (nf_dedupe_key f)"

fun title_for :: "Kind \<Rightarrow> str list \<Rightarrow> str option \<Rightarrow> str option \<Rightarrow> Layer \<Rightarrow> str" where
  "title_for kind vuln_ids pkg version layer =
     (let ids = sorted_set vuln_ids;
          shown = join '', '' (take 4 ids) @
                  (if 4 < length ids then '' (+'' @ show_nat (length ids - 4) @ '' more)'' else [])
      in case kind of
           K_dependency_upgrade \<Rightarrow> ''Upgrade '' @ show_opt_str pkg @ '' '' @ show_opt_str version @ '': '' @ shown
         | K_no_fix_reachability \<Rightarrow> ''Reachability analysis / OpenVEX for '' @ show_opt_str pkg @ '': '' @ shown
         | K_container_hardening \<Rightarrow>
             if layer \<in> set CONFIG_LAYERS then ''Container hardening (Dockerfile): '' @ shown
             else ''Container hardening ('' @ layer_value layer @ '' packages): '' @ shown
         | K_scanner_disagreement \<Rightarrow> ''Scanner disagreement on '' @ show_opt_str pkg @ '': '' @ shown
         | K_helm_deploy_config \<Rightarrow> ''Deployment security configuration ('' @ layer_value layer @ ''): '' @ shown)"

definition group_title :: "Kind \<Rightarrow> str \<Rightarrow> NormalizedFinding list \<Rightarrow> str" where
  "group_title kind key members =
     (let first = hd members
      in title_for kind (map nf_vuln_id members) (nf_pkg_name first) (nf_pkg_version first) (nf_layer first))"

record WorkItemCandidate =
  wc_kind :: Kind
  wc_group_key :: str
  wc_title :: str
  wc_severity :: Severity
  wc_risk :: Risk
  wc_layer :: Layer
  wc_members :: "NormalizedFinding list"

definition wc_acu_cap :: "WorkItemCandidate \<Rightarrow> nat" where
  "wc_acu_cap w = ACU_CAPS (wc_kind w)"

type_synonym classified_finding = "NormalizedFinding \<times> Classification"
type_synonym buckets = "(Kind \<times> str, classified_finding list) dict"

text \<open>One turn of the loop over the classified findings: (buckets, unclassified).\<close>

definition bucket_step :: "buckets \<times> classified_finding list \<Rightarrow> classified_finding \<Rightarrow> buckets \<times> classified_finding list" where
  "bucket_step acc fc =
     (case acc of (buckets, unclassified) \<Rightarrow>
        (case cl_kind (snd fc) of
           None \<Rightarrow> (buckets, unclassified @ [fc])
         | Some k \<Rightarrow> (bucket_add (k, group_key (fst fc) (snd fc)) fc buckets, unclassified)))"

definition candidate_of :: "(Kind \<times> str) \<times> classified_finding list \<Rightarrow> WorkItemCandidate" where
  "candidate_of b =
     (case b of ((kind, key), items) \<Rightarrow>
        let members = map fst items in
        \<lparr>wc_kind = kind, wc_group_key = key, wc_title = group_title kind key members,
         wc_severity = max_by severity_rank (nf_severity (hd members)) (map nf_severity (tl members)),
         wc_risk = (if list_ex (\<lambda>(f, c). cl_risk c = RK_high) items then RK_high else RK_normal),
         wc_layer = nf_layer (hd members), wc_members = members\<rparr>)"

definition group_findings :: "classified_finding list \<Rightarrow> WorkItemCandidate list \<times> classified_finding list" where
  "group_findings fcs =
     (case foldl bucket_step ([], []) fcs of
        (buckets, unclassified) \<Rightarrow> (map candidate_of (sort_key fst buckets), unclassified))"

section \<open>Facts about classification\<close>

lemmas rule_defs = rule1_def rule2_def rule3_def rule4_def rule5_def

text \<open>What makes each rule match, with the rules before it not matching.\<close>

definition disagrees :: "NormalizedFinding \<Rightarrow> 'spec ClassificationContext \<Rightarrow> bool" where
  "disagrees f ctx \<longleftrightarrow> comparable f \<and>
     (\<exists>r. nf_reported_by f = [r] \<and> dict_get (cx_scanner_job_success ctx) (other_scanner r) = Some True)"

lemma rule2_matches: "(\<exists>c. rule2 f ctx tr = Inl c) \<longleftrightarrow> disagrees f ctx"
  by (auto simp: rule2_def disagrees_def Let_def split: list.splits bool.splits option.splits)

lemma rule2_kind: "rule2 f ctx tr = Inl c \<Longrightarrow> cl_kind c = Some K_scanner_disagreement \<and> cl_risk c = RK_normal"
  by (auto simp: rule2_def Let_def classified_def split: list.splits bool.splits option.splits if_splits)

lemma rule3_matches: "(\<exists>c. rule3 pk f ctx tr = Inl c) \<longleftrightarrow> \<not> nf_is_config f \<and> nf_ecosystem f = EC_pypi \<and> has_fix f"
  by (auto simp: rule3_def Let_def split: option.splits if_splits)

lemma rule3_kind: "rule3 pk f ctx tr = Inl c \<Longrightarrow> cl_kind c = Some K_dependency_upgrade"
  by (auto simp: rule3_def Let_def classified_def split: option.splits if_splits)

text \<open>The kind alone, as the table in the module's header states it.\<close>

definition kind_spec :: "NormalizedFinding \<Rightarrow> 'spec ClassificationContext \<Rightarrow> Kind option" where
  "kind_spec f ctx =
     (if nf_is_config f then
        (case nf_layer f of LY_helm \<Rightarrow> Some K_helm_deploy_config | LY_compose \<Rightarrow> Some K_helm_deploy_config
           | LY_dockerfile \<Rightarrow> Some K_container_hardening | _ \<Rightarrow> None)
      else if disagrees f ctx then Some K_scanner_disagreement
      else if has_fix f then
        (case nf_ecosystem f of EC_pypi \<Rightarrow> Some K_dependency_upgrade
           | EC_unknown \<Rightarrow> None | EC_config \<Rightarrow> None | _ \<Rightarrow> Some K_container_hardening)
      else if no_fix_from_every_reporter f then Some K_no_fix_reachability else None)"

lemma disagrees_not_config: "disagrees f ctx \<Longrightarrow> \<not> nf_is_config f"
  by (simp add: disagrees_def comparable_def)

lemma no_fix_not_has_fix: "no_fix_from_every_reporter f \<Longrightarrow> \<not> has_fix f"
  by (simp add: no_fix_from_every_reporter_def split: if_splits)

lemma classify_kind_rest:
  assumes "rule1 f = Inr t1"
  shows "cl_kind (classify pk f ctx) =
    (if disagrees f ctx then Some K_scanner_disagreement
     else if \<not> nf_is_config f \<and> nf_ecosystem f = EC_pypi \<and> has_fix f then Some K_dependency_upgrade
     else case rule4 f [] of Inl c \<Rightarrow> cl_kind c
       | Inr t \<Rightarrow> (case rule5 f [] of Inl c \<Rightarrow> cl_kind c | Inr t \<Rightarrow> None))"
proof (cases "rule2 f ctx [t1]")
  case (Inl c)
  then show ?thesis using assms rule2_kind [OF Inl] rule2_matches [of f ctx "[t1]"]
    by (auto simp: classify_def)
next
  case (Inr t2)
  then have nd: "\<not> disagrees f ctx" using rule2_matches [of f ctx "[t1]"] by auto
  show ?thesis
  proof (cases "rule3 pk f ctx [t1, t2]")
    case (Inl c)
    then show ?thesis using assms Inr nd rule3_kind [OF Inl] rule3_matches [of pk f ctx "[t1, t2]"]
      by (auto simp: classify_def)
  next
    case (Inr t3)
    then show ?thesis using assms \<open>rule2 f ctx [t1] = Inr t2\<close> nd rule3_matches [of pk f ctx "[t1, t2]"]
      by (auto simp: classify_def rule4_def rule5_def classified_def)
  qed
qed

lemma classify_kind_eq: "cl_kind (classify pk f ctx) = kind_spec f ctx"
proof (cases "rule1 f")
  case (Inl c)
  then show ?thesis by (auto simp: classify_def rule1_def kind_spec_def classified_def split: if_splits)
next
  case (Inr t1)
  then have "\<not> (nf_is_config f \<and> nf_layer f \<in> set [LY_helm, LY_compose])"
    by (auto simp: rule1_def split: if_splits)
  then show ?thesis
    unfolding classify_kind_rest [OF Inr]
    by (cases "nf_layer f"; cases "nf_ecosystem f")
       (auto simp: kind_spec_def rule4_def rule5_def classified_def dest: disagrees_not_config no_fix_not_has_fix)
qed

lemma fix_allowed_by_bounds_iff:
  "fix_allowed_by_bounds pk fvs spec \<longleftrightarrow> (\<exists>fv \<in> set fvs. pk_contains pk spec fv = Some True)"
  by (induction fvs) auto

section \<open>Facts about grouping\<close>

text \<open>The buckets hold exactly the classified findings of their kind and key, in order.\<close>

definition bucket_key :: "classified_finding \<Rightarrow> (Kind \<times> str) option" where
  "bucket_key fc = (case cl_kind (snd fc) of None \<Rightarrow> None | Some k \<Rightarrow> Some (k, group_key (fst fc) (snd fc)))"

definition buckets_ok :: "buckets \<Rightarrow> classified_finding list \<Rightarrow> bool" where
  "buckets_ok bs done \<longleftrightarrow> distinct (map fst bs) \<and>
     (\<forall>k. k \<in> fst ` set bs \<longleftrightarrow> (\<exists>fc \<in> set done. bucket_key fc = Some k)) \<and>
     (\<forall>(k, items) \<in> set bs. items = filter (\<lambda>fc. bucket_key fc = Some k) done)"

lemma buckets_ok_get:
  assumes "buckets_ok bs done"
  shows "(case dict_get bs k of None \<Rightarrow> [] | Some vs \<Rightarrow> vs) = filter (\<lambda>fc. bucket_key fc = Some k) done"
proof (cases "dict_get bs k")
  case None
  then have "k \<notin> fst ` set bs" by (simp add: dict_get_def map_of_eq_None_iff)
  then have "\<forall>fc \<in> set done. bucket_key fc \<noteq> Some k"
    using assms unfolding buckets_ok_def by blast
  then show ?thesis using None by (simp add: filter_empty_conv)
next
  case (Some vs)
  then have "(k, vs) \<in> set bs" by (simp add: dict_get_def map_of_SomeD)
  then show ?thesis using assms Some by (auto simp: buckets_ok_def)
qed

lemma buckets_ok_add:
  assumes ok: "buckets_ok bs done" and k: "bucket_key fc = Some k"
  shows "buckets_ok (bucket_add k fc bs) (done @ [fc])"
proof -
  have "\<forall>k'. k' \<in> fst ` set (bucket_add k fc bs) \<longleftrightarrow> (\<exists>x \<in> set (done @ [fc]). bucket_key x = Some k')"
    using ok k by (auto simp: bucket_add_def dict_keys_set buckets_ok_def simp del: split_paired_Ex split_paired_All)
  moreover have "distinct (map fst (bucket_add k fc bs))"
    using ok by (simp add: bucket_add_def dict_set_distinct buckets_ok_def)
  moreover have "\<forall>(k', items) \<in> set (bucket_add k fc bs).
      items = filter (\<lambda>fc'. bucket_key fc' = Some k') (done @ [fc])"
    using ok k buckets_ok_get [OF ok, of k]
    by (auto simp: bucket_add_def set_dict_set buckets_ok_def)
  ultimately show ?thesis by (simp add: buckets_ok_def)
qed

lemma bucket_fold_ok:
  assumes "buckets_ok bs done" and "un = filter (\<lambda>fc. bucket_key fc = None) done"
  shows "case foldl bucket_step (bs, un) fcs of (bs', un') \<Rightarrow>
           buckets_ok bs' (done @ fcs) \<and> un' = filter (\<lambda>fc. bucket_key fc = None) (done @ fcs)"
  using assms
proof (induction fcs arbitrary: bs un "done")
  case Nil
  then show ?case by simp
next
  case (Cons fc fcs)
  show ?case
  proof (cases "cl_kind (snd fc)")
    case None
    then have "bucket_key fc = None" by (simp add: bucket_key_def)
    moreover from this have "buckets_ok bs (done @ [fc])"
      using Cons.prems by (auto simp: buckets_ok_def simp del: split_paired_Ex split_paired_All)
    ultimately show ?thesis
      using Cons.IH [of bs "done @ [fc]" "un @ [fc]"] Cons.prems None by (simp add: bucket_step_def)
  next
    case (Some k)
    then have "bucket_key fc = Some (k, group_key (fst fc) (snd fc))" by (simp add: bucket_key_def)
    from buckets_ok_add [OF Cons.prems(1) this] show ?thesis
      using Cons.IH [of "bucket_add (k, group_key (fst fc) (snd fc)) fc bs" "done @ [fc]" un] Cons.prems Some
      by (simp add: bucket_step_def bucket_key_def)
  qed
qed

lemma group_findings_buckets:
  obtains bs where "buckets_ok bs fcs" and
    "group_findings fcs = (map candidate_of (sort_key fst bs), filter (\<lambda>fc. bucket_key fc = None) fcs)"
proof -
  have "buckets_ok [] []" by (simp add: buckets_ok_def)
  from bucket_fold_ok [OF this refl, of fcs] show ?thesis
    by (auto simp: group_findings_def intro: that split: prod.splits)
qed

lemma candidate_key: "wc_kind (candidate_of b) = fst (fst b)" "wc_group_key (candidate_of b) = snd (fst b)"
  "wc_members (candidate_of b) = map fst (snd b)"
  by (auto simp: candidate_of_def Let_def split: prod.splits)

section \<open>Buckets partition a list\<close>

lemma mset_partition:
  "distinct ks \<Longrightarrow> list_all (\<lambda>x. case key x of None \<Rightarrow> True | Some k \<Rightarrow> k \<in> set ks) xs \<Longrightarrow>
     mset xs = mset (filter (\<lambda>x. key x = None) xs) + mset (concat (map (\<lambda>k. filter (\<lambda>x. key x = Some k) xs) ks))"
proof (induction xs)
  case (Cons x xs)
  let ?f = "\<lambda>ys ks. concat (map (\<lambda>k. filter (\<lambda>x. key x = Some k) ys) ks)"
  have IH: "mset xs = mset (filter (\<lambda>x. key x = None) xs) + mset (?f xs ks)" using Cons by simp
  show ?case
  proof (cases "key x")
    case None
    then show ?thesis using IH by simp
  next
    case (Some k)
    have "mset (?f (x # xs) ks) = add_mset x (mset (?f xs ks))" if "distinct ks" "k \<in> set ks" for ks
      using that
    proof (induction ks)
      case (Cons a ks)
      have other: "k \<notin> set ks \<Longrightarrow> ?f (x # xs) ks = ?f xs ks" for ks
        using Some by (induction ks) auto
      show ?case
      proof (cases "a = k")
        case True
        with Cons.prems Some other [of ks] show ?thesis by simp
      next
        case False
        with Cons Some show ?thesis by simp
      qed
    qed simp
    with Cons.prems IH Some show ?thesis by simp
  qed
qed simp

end
