(* ===== verification/Closer.thy ===== *)
theory Closer
  imports Tables Vex Classify
begin

text \<open>
  \<^verbatim>\<open>orchestrator/closer.py\<close>: when a later scan run may close a finding, and with which outcome. The
  version comparison of \<^verbatim>\<open>packaging\<close> is a parameter \<open>version_ge\<close> (None where \<open>Version\<close> raises), the
  ancestry check a parameter \<open>anc\<close>. Sets of scanners are visited trivy first.
\<close>

fun PINNED_VERSIONS :: "Scanner \<Rightarrow> str" where
  "PINNED_VERSIONS SC_trivy = TRIVY_VERSION"
| "PINNED_VERSIONS SC_grype = GRYPE_VERSION"

datatype ClosingOutcome =
    CO_fixed
  | CO_approved_disposition
  | CO_scanner_disagreement_resolved
  | CO_regression
  | CO_human_blocked
  | CO_still_present
  | CO_not_applicable

fun closing_outcome_value :: "ClosingOutcome \<Rightarrow> str" where
  "closing_outcome_value CO_fixed = ''fixed''"
| "closing_outcome_value CO_approved_disposition = ''approved_disposition''"
| "closing_outcome_value CO_scanner_disagreement_resolved = ''scanner_disagreement_resolved''"
| "closing_outcome_value CO_regression = ''regression''"
| "closing_outcome_value CO_human_blocked = ''human_blocked''"
| "closing_outcome_value CO_still_present = ''still_present''"
| "closing_outcome_value CO_not_applicable = ''not_applicable''"

record RunValidity =
  rv_valid :: bool
  rv_reasons :: "str list"

type_synonym version_ge = "str \<Rightarrow> str \<Rightarrow> bool option"

definition version_at_least :: "version_ge \<Rightarrow> str option \<Rightarrow> str \<Rightarrow> bool" where
  "version_at_least version_ge actual pinned =
     (case actual of
        None \<Rightarrow> False
      | Some a \<Rightarrow> (case version_ge a pinned of Some b \<Rightarrow> b | None \<Rightarrow> False))"

definition original_detectors :: "Finding \<Rightarrow> Scanner list" where
  "original_detectors f =
     (if fd_opened_by_trivy f then [SC_trivy] else []) @ (if fd_opened_by_grype f then [SC_grype] else [])"

definition show_opt_target :: "ImageTarget option \<Rightarrow> str" where
  "show_opt_target t = (case t of None \<Rightarrow> ''None'' | Some x \<Rightarrow> image_target_value x)"

definition targets_differ :: "ImageTarget option \<Rightarrow> ImageTarget option \<Rightarrow> bool" where
  "targets_differ a b \<longleftrightarrow> a \<noteq> None \<and> b \<noteq> None \<and> a \<noteq> b"

definition job_reasons :: "version_ge \<Rightarrow> str \<Rightarrow> Scanner \<Rightarrow> ScanJob \<Rightarrow> Finding \<Rightarrow> str list" where
  "job_reasons version_ge name det job f =
     (if targets_differ (sj_image_target job) (fd_image_target f)
      then [name @ '' scanned '' @ show_opt_target (sj_image_target job) @ '', need '' @ show_opt_target (fd_image_target f)]
      else []) @
     (if \<not> version_at_least version_ge (sj_tool_version job) (PINNED_VERSIONS det)
      then [name @ '' '' @ show_opt_str (sj_tool_version job) @ '' < pinned '' @ PINNED_VERSIONS det] else []) @
     (case fd_opening_db_built_at f of
        None \<Rightarrow> []
      | Some opened \<Rightarrow>
          (case sj_db_built_at job of
             None \<Rightarrow> [name @ '' has no db timestamp: freshness unproven'']
           | Some built \<Rightarrow>
               if built < opened then [name @ '' db '' @ show_datetime built @ '' older than opening run''] else []))"

text \<open>\<open>{j.name: j for j in jobs}.get(name)\<close>: the last job of that name.\<close>

definition job_named :: "ScanJob list \<Rightarrow> str \<Rightarrow> ScanJob option" where
  "job_named jobs name = find (\<lambda>j. sj_name j = name) (rev jobs)"

definition detector_job_names :: "bool \<Rightarrow> Scanner \<Rightarrow> str list" where
  "detector_job_names require_policy det =
     [scanner_value det @ ''-raw''] @ (if require_policy then [scanner_value det @ ''-policy''] else [])"

definition detector_reasons :: "version_ge \<Rightarrow> ScanJob list \<Rightarrow> Finding \<Rightarrow> bool \<Rightarrow> Scanner \<Rightarrow> str list" where
  "detector_reasons version_ge jobs f require_policy det =
     concat (map (\<lambda>name.
       case job_named jobs name of
         None \<Rightarrow> [name @ '' job missing or failed'']
       | Some job \<Rightarrow>
           if \<not> sj_success job then [name @ '' job missing or failed'']
           else job_reasons version_ge name det job f) (detector_job_names require_policy det))"

definition run_reasons :: "ScanRun \<Rightarrow> Finding \<Rightarrow> str option \<Rightarrow> (str \<Rightarrow> str \<Rightarrow> bool) \<Rightarrow> ScanRun option \<Rightarrow> str list" where
  "run_reasons run f merge_sha anc superseded_by =
     (case superseded_by of None \<Rightarrow> []
      | Some r \<Rightarrow> [''run finished before '' @ sr_external_run_id r @ '', the later evidence for this finding'']) @
     (if sr_source_repo run \<noteq> FORK_REPO then [''repo '' @ sr_source_repo run @ '' != '' @ FORK_REPO] else []) @
     (if sr_source_branch run \<noteq> REMEDIATION_BRANCH
      then [''branch '' @ sr_source_branch run @ '' != '' @ REMEDIATION_BRANCH] else []) @
     (if sr_trigger run \<notin> set CLOSING_TRIGGERS
      then [''trigger '' @ trigger_value (sr_trigger run) @ '' cannot close findings''] else []) @
     (if sr_status run \<noteq> SR_complete
      then [''run status '' @ scan_run_status_value (sr_status run) @ '': incomplete runs never prove absence''] else []) @
     (case merge_sha of None \<Rightarrow> []
      | Some m \<Rightarrow> if \<not> anc m (sr_source_sha run)
                 then [''run sha '' @ take 12 (sr_source_sha run) @ '' is not '' @ take 12 m @ '' or a descendant''] else []) @
     (if fd_platform f \<noteq> sr_platform run
      then [''platform '' @ sr_platform run @ '' != '' @ fd_platform f] else [])"

definition layer_reasons :: "version_ge \<Rightarrow> ScanRun \<Rightarrow> ScanJob list \<Rightarrow> Finding \<Rightarrow> bool \<Rightarrow> str list" where
  "layer_reasons version_ge run jobs f require_policy =
     (if fd_layer f \<in> set CONFIG_LAYERS then
        (case job_named jobs ''config-raw'' of
           None \<Rightarrow> [''config-raw job missing or failed'']
         | Some cfg \<Rightarrow>
             if \<not> sj_success cfg then [''config-raw job missing or failed'']
             else if targets_differ (fd_image_target f) (sj_image_target cfg)
             then [''config job image target mismatch''] else [])
      else
        (if fd_image_target f \<noteq> None \<and> sr_lean_digest run = None then [''run has no lean image digest''] else []) @
        (if original_detectors f = [] then [''finding has no original detector''] else []) @
        concat (map (detector_reasons version_ge jobs f require_policy) (original_detectors f)))"

definition validate_closing_run ::
    "version_ge \<Rightarrow> ScanRun \<Rightarrow> ScanJob list \<Rightarrow> Finding \<Rightarrow> str option \<Rightarrow> (str \<Rightarrow> str \<Rightarrow> bool) \<Rightarrow> bool \<Rightarrow>
       ScanRun option \<Rightarrow> RunValidity" where
  "validate_closing_run version_ge run jobs f merge_sha anc require_policy superseded_by =
     (let reasons = run_reasons run f merge_sha anc superseded_by @
                    layer_reasons version_ge run jobs f require_policy @
                    concat (map (\<lambda>j. if \<not> sj_success j then [''job '' @ sj_name j @ '' failed''] else []) jobs);
          unique = fromkeys reasons
      in \<lparr>rv_valid = (unique = []), rv_reasons = unique\<rparr>)"

record SightingView =
  sv_raw_present :: "(Scanner, bool) dict"
  sv_policy_present :: "(Scanner, bool) dict"

type_synonym family = "str \<times> str \<times> str option \<times> str"

definition family_key :: "Finding \<Rightarrow> family" where
  "family_key f = (fd_vuln_id f, ecosystem_value (fd_ecosystem f), fd_pkg_name f, layer_value (fd_layer f))"

definition get_bool :: "(Scanner, bool) dict \<Rightarrow> Scanner \<Rightarrow> bool" where
  "get_bool d s = (case dict_get d s of Some b \<Rightarrow> b | None \<Rightarrow> False)"

definition note_present :: "Scanner \<Rightarrow> bool \<Rightarrow> (Scanner, bool) dict \<Rightarrow> (Scanner, bool) dict" where
  "note_present s p d = dict_set s (get_bool d s \<or> p) d"

definition view_step :: "nat list \<Rightarrow> nat \<Rightarrow> SightingView \<Rightarrow> Sighting \<Rightarrow> SightingView" where
  "view_step ids run_id v s =
     (if sg_finding_id s \<notin> set ids \<or> sg_scan_run_id s \<noteq> run_id then v
      else (case sg_mode s of
              SM_raw \<Rightarrow> v\<lparr>sv_raw_present := note_present (sg_scanner s) (sg_present s) (sv_raw_present v)\<rparr>
            | SM_policy \<Rightarrow> v\<lparr>sv_policy_present := note_present (sg_scanner s) (sg_present s) (sv_policy_present v)\<rparr>))"

definition sightings_for :: "Finding \<Rightarrow> ScanRun \<Rightarrow> Sighting list \<Rightarrow> nat list \<Rightarrow> SightingView" where
  "sightings_for f run sightings family_ids =
     foldl (view_step (fd_id f # family_ids) (sr_id run)) \<lparr>sv_raw_present = [], sv_policy_present = []\<rparr> sightings"

text \<open>
  \<open>_vex_approved_for_issue\<close>: a document that fails its structural check is skipped; any other
  exception of the check propagates.
\<close>

fun vex_approved_docs :: "vex_doc list \<Rightarrow> str \<Rightarrow> str \<Rightarrow> exn + bool" where
  "vex_approved_docs [] issue_url vuln = Inr False"
| "vex_approved_docs (doc # docs) issue_url vuln =
     (case approval_of doc of
        None \<Rightarrow> vex_approved_docs docs issue_url vuln
      | Some a \<Rightarrow>
          if va_issue_url a \<noteq> issue_url then vex_approved_docs docs issue_url vuln
          else (case validate_openvex doc (case dict_get doc ''@id'' of Some j \<Rightarrow> py_str j | None \<Rightarrow> ''vex'') of
                  Inl e \<Rightarrow> if exn_type e = ''VexEvidenceError'' then vex_approved_docs docs issue_url vuln else Inl e
                | Inr sts \<Rightarrow>
                    if list_ex (\<lambda>s. vs_vulnerability s = vuln) sts then Inr True
                    else vex_approved_docs docs issue_url vuln))"

definition vex_approved_for_issue :: "ScanRun \<Rightarrow> str option \<Rightarrow> str \<Rightarrow> exn + bool" where
  "vex_approved_for_issue run issue_url vuln =
     (case issue_url of None \<Rightarrow> Inr False | Some u \<Rightarrow> vex_approved_docs (sr_vex_documents run) u vuln)"

definition decide_outcome ::
    "Finding \<Rightarrow> ScanRun \<Rightarrow> SightingView \<Rightarrow> RunValidity \<Rightarrow> bool \<Rightarrow> str option \<Rightarrow> bool \<Rightarrow> exn + ClosingOutcome" where
  "decide_outcome f run view validity resolved_by_human issue_url was_closed =
     (if \<not> rv_valid validity then Inr CO_not_applicable
      else if fd_layer f \<in> set CONFIG_LAYERS then
        (if get_bool (sv_raw_present view) SC_trivy
         then Inr (if was_closed then CO_regression else CO_still_present)
         else Inr CO_fixed)
      else
        let present = filter (get_bool (sv_raw_present view)) (original_detectors f) in
        if present = [] then Inr CO_fixed
        else if was_closed then Inr CO_regression
        else
          let policy_seen = list_all (\<lambda>d. dict_get (sv_policy_present view) d \<noteq> None) present;
              policy_absent_all = list_all (\<lambda>d. \<not> get_bool (sv_policy_present view) d) present
          in ebind (if policy_seen \<and> policy_absent_all
                    then vex_approved_for_issue run issue_url (fd_vuln_id f) else Inr False)
               (\<lambda>approved.
                  if approved then Inr CO_approved_disposition
                  else if length present = 1 \<and> resolved_by_human then Inr CO_scanner_disagreement_resolved
                  else Inr CO_still_present))"

definition issue_may_close :: "FindingState list \<Rightarrow> bool" where
  "issue_may_close states \<longleftrightarrow> states \<noteq> [] \<and> list_all (\<lambda>s. s \<in> set CLOSING_FINDING_STATES) states"

section \<open>What validity means\<close>

text \<open>The conditions under which one job is evidence about a finding.\<close>

definition job_proves :: "version_ge \<Rightarrow> Finding \<Rightarrow> Scanner \<Rightarrow> ScanJob \<Rightarrow> bool" where
  "job_proves version_ge f det job \<longleftrightarrow> sj_success job \<and>
     \<not> targets_differ (sj_image_target job) (fd_image_target f) \<and>
     version_at_least version_ge (sj_tool_version job) (PINNED_VERSIONS det) \<and>
     (\<forall>opened. fd_opening_db_built_at f = Some opened \<longrightarrow>
        (\<exists>built. sj_db_built_at job = Some built \<and> opened \<le> built))"

lemma job_reasons_Nil:
  "sj_success job \<Longrightarrow> job_reasons vg name det job f = [] \<longleftrightarrow> job_proves vg f det job"
  by (auto simp: job_reasons_def job_proves_def split: option.splits)

lemma named_job_reasons:
  "(case job_named jobs name of None \<Rightarrow> [m]
      | Some job \<Rightarrow> if \<not> sj_success job then [m] else job_reasons vg name det job f) = [] \<longleftrightarrow>
   (\<exists>job. job_named jobs name = Some job \<and> job_proves vg f det job)"
proof (cases "job_named jobs name")
  case (Some job)
  then show ?thesis by (cases "sj_success job") (simp_all add: job_reasons_Nil, simp add: job_proves_def)
qed simp

lemma detector_reasons_Nil:
  "detector_reasons vg jobs f rp det = [] \<longleftrightarrow>
     (\<forall>name \<in> set (detector_job_names rp det). \<exists>job. job_named jobs name = Some job \<and> job_proves vg f det job)"
  by (simp add: detector_reasons_def named_job_reasons)

lemma rv_valid_iff:
  "rv_valid (validate_closing_run vg run jobs f m anc rp later) \<longleftrightarrow>
     run_reasons run f m anc later = [] \<and> layer_reasons vg run jobs f rp = [] \<and> list_all sj_success jobs"
  by (auto simp: validate_closing_run_def Let_def list_all_iff split: if_splits)

lemma run_reasons_Nil:
  "run_reasons run f m anc later = [] \<longleftrightarrow>
     later = None \<and> sr_source_repo run = FORK_REPO \<and> sr_source_branch run = REMEDIATION_BRANCH \<and>
     sr_trigger run \<in> set CLOSING_TRIGGERS \<and> sr_status run = SR_complete \<and>
     (\<forall>sha. m = Some sha \<longrightarrow> anc sha (sr_source_sha run)) \<and> fd_platform f = sr_platform run"
  by (auto simp: run_reasons_def split: option.splits if_splits)

lemma layer_reasons_Nil:
  "layer_reasons vg run jobs f rp = [] \<longleftrightarrow>
     (if fd_layer f \<in> set CONFIG_LAYERS
      then \<exists>cfg. job_named jobs ''config-raw'' = Some cfg \<and> sj_success cfg \<and>
             \<not> targets_differ (fd_image_target f) (sj_image_target cfg)
      else (fd_image_target f \<noteq> None \<longrightarrow> sr_lean_digest run \<noteq> None) \<and> original_detectors f \<noteq> [] \<and>
        (\<forall>det \<in> set (original_detectors f). detector_reasons vg jobs f rp det = []))"
  by (auto simp: layer_reasons_def split: option.splits if_splits)

section \<open>What a view shows\<close>

lemma get_bool_note: "get_bool (note_present s p d) s' = (if s' = s then get_bool d s \<or> p else get_bool d s')"
  by (simp add: note_present_def get_bool_def dict_get_set)

definition sighted :: "Finding \<Rightarrow> ScanRun \<Rightarrow> nat list \<Rightarrow> ScanMode \<Rightarrow> Scanner \<Rightarrow> Sighting \<Rightarrow> bool" where
  "sighted f run ids mode scanner s \<longleftrightarrow>
     (sg_finding_id s = fd_id f \<or> sg_finding_id s \<in> set ids) \<and> sg_scan_run_id s = sr_id run \<and>
     sg_mode s = mode \<and> sg_scanner s = scanner \<and> sg_present s"

lemma view_fold_raw:
  "get_bool (sv_raw_present (foldl (view_step (fd_id f # ids) (sr_id run)) v ss)) sc \<longleftrightarrow>
     get_bool (sv_raw_present v) sc \<or> (\<exists>s \<in> set ss. sighted f run ids SM_raw sc s)"
proof (induction ss arbitrary: v)
  case (Cons s ss)
  show ?case
    unfolding foldl.simps Cons.IH
    by (auto simp: view_step_def sighted_def get_bool_note split: ScanMode.splits if_splits)
qed simp

lemma raw_present_iff:
  "get_bool (sv_raw_present (sightings_for f run ss ids)) sc \<longleftrightarrow> (\<exists>s \<in> set ss. sighted f run ids SM_raw sc s)"
  by (simp add: sightings_for_def view_fold_raw) (simp add: get_bool_def dict_get_def)

section \<open>What an outcome means\<close>

lemma decide_fixed:
  assumes "decide_outcome f run view validity hr u wc = Inr CO_fixed"
  shows "rv_valid validity"
    and "fd_layer f \<in> set CONFIG_LAYERS \<Longrightarrow> \<not> get_bool (sv_raw_present view) SC_trivy"
    and "fd_layer f \<notin> set CONFIG_LAYERS \<Longrightarrow> d \<in> set (original_detectors f) \<Longrightarrow> \<not> get_bool (sv_raw_present view) d"
  using assms
  by (auto simp: decide_outcome_def Let_def ebind_Inr_iff filter_empty_conv split: if_splits)

lemma vex_approved_docs_True:
  "vex_approved_docs docs u v = Inr True \<Longrightarrow>
     \<exists>doc a sts s loc. doc \<in> set docs \<and> approval_of doc = Some a \<and> va_issue_url a = u \<and>
       validate_openvex doc loc = Inr sts \<and> s \<in> set sts \<and> vs_vulnerability s = v"
proof (induction docs)
  case (Cons doc docs)
  show ?case
  proof (cases "vex_approved_docs docs u v = Inr True")
    case True
    from Cons.IH [OF this] show ?thesis by (auto; blast)
  next
    case False
    with Cons.prems show ?thesis
      by (auto simp: list_ex_iff split: option.splits sum.splits if_splits)
  qed
qed simp

section \<open>When a run proves a finding fixed\<close>

text \<open>
  The contract of the closing decision: the run is entitled to close, every job succeeded, every
  detector that opened the finding scanned it at a good version with a fresh enough database, and
  none of them saw it.
\<close>

text \<open>A run that may serve as closing evidence, whatever the finding.\<close>

definition closing_run_ok :: "ScanRun \<Rightarrow> bool" where
  "closing_run_ok r \<longleftrightarrow> sr_source_repo r = FORK_REPO \<and> sr_source_branch r = REMEDIATION_BRANCH \<and>
     sr_trigger r \<in> set CLOSING_TRIGGERS \<and> sr_status r = SR_complete"

definition absence_proved ::
    "version_ge \<Rightarrow> Finding \<Rightarrow> ScanRun \<Rightarrow> ScanJob list \<Rightarrow> Sighting list \<Rightarrow> nat list \<Rightarrow> str option \<Rightarrow>
       (str \<Rightarrow> str \<Rightarrow> bool) \<Rightarrow> bool \<Rightarrow> ScanRun option \<Rightarrow> bool" where
  "absence_proved vg f run jobs ss ids merge_sha anc require_policy later \<longleftrightarrow>
     closing_run_ok run \<and> later = None \<and> fd_platform f = sr_platform run \<and> list_all sj_success jobs \<and>
     (case merge_sha of None \<Rightarrow> True | Some sha \<Rightarrow> anc sha (sr_source_sha run)) \<and>
     (if fd_layer f \<in> set CONFIG_LAYERS then
        (\<exists>job. job_named jobs ''config-raw'' = Some job \<and> sj_success job \<and>
           \<not> targets_differ (fd_image_target f) (sj_image_target job)) \<and>
        \<not> list_ex (sighted f run ids SM_raw SC_trivy) ss
      else
        (fd_image_target f = None \<or> sr_lean_digest run \<noteq> None) \<and> original_detectors f \<noteq> [] \<and>
        (\<forall>det \<in> set (original_detectors f).
           (\<forall>name \<in> set (detector_job_names require_policy det).
              \<exists>job. job_named jobs name = Some job \<and> job_proves vg f det job) \<and>
           \<not> list_ex (sighted f run ids SM_raw det) ss))"

lemma decide_fixed_iff:
  "decide_outcome f run view validity hr u wc = Inr CO_fixed \<longleftrightarrow>
     rv_valid validity \<and>
     (if fd_layer f \<in> set CONFIG_LAYERS then \<not> get_bool (sv_raw_present view) SC_trivy
      else \<forall>d \<in> set (original_detectors f). \<not> get_bool (sv_raw_present view) d)"
  by (auto simp: decide_outcome_def Let_def ebind_Inr_iff filter_empty_conv split: if_splits)

end
