(* ===== verification/Store.thy ===== *)
theory Store
  imports Tables Schemas Lifecycle Closer
begin

text \<open>
  The controller's world: the database (\<^verbatim>\<open>db.py\<close>: an open transaction and the last committed state),
  the remote calls made so far, and the clock. An operation is a state transformer that may raise.
  The remote services are functions of the calls made so far (\<open>Env\<close>); each call is logged with
  the committed database at that moment, which is what a crash during the call leaves on disk.
  Transactions are serial: one controller process, no concurrent writer.
\<close>

section \<open>The database\<close>

record Db =
  db_runs :: "ScanRun list"
  db_jobs :: "ScanJob list"
  db_findings :: "Finding list"
  db_sightings :: "Sighting list"
  db_work_items :: "WorkItem list"
  db_sessions :: "DevinSession list"
  db_polls :: "SessionPoll list"
  db_prs :: "PullRequest list"
  db_pr_checks :: "PRCheck list"
  db_ver_checks :: "VerificationCheck list"
  db_events :: "Event list"
  db_evidence :: "EvidenceRow list"
  db_intakes :: "ScanIntake list"

definition empty_db :: Db where
  "empty_db = \<lparr>db_runs = [], db_jobs = [], db_findings = [], db_sightings = [], db_work_items = [],
     db_sessions = [], db_polls = [], db_prs = [], db_pr_checks = [], db_ver_checks = [], db_events = [],
     db_evidence = [], db_intakes = []\<rparr>"

text \<open>Rows by primary key; a new row gets the largest key plus one.\<close>

definition get_row :: "('r \<Rightarrow> nat) \<Rightarrow> nat \<Rightarrow> 'r list \<Rightarrow> 'r option" where
  "get_row rid i rows = find (\<lambda>r. rid r = i) rows"

definition update_row :: "('r \<Rightarrow> nat) \<Rightarrow> nat \<Rightarrow> ('r \<Rightarrow> 'r) \<Rightarrow> 'r list \<Rightarrow> 'r list" where
  "update_row rid i f rows = map (\<lambda>r. if rid r = i then f r else r) rows"

definition next_id :: "('r \<Rightarrow> nat) \<Rightarrow> 'r list \<Rightarrow> nat" where
  "next_id rid rows = Suc (fold (\<lambda>r m. max (rid r) m) rows 0)"

section \<open>Remote calls\<close>

datatype Call =
    GetIssue str nat
  | CreateIssue str str str "str list"
  | FindIssues str str str
  | CommentIssue str nat str
  | AddLabels str nat "str list"
  | RemoveLabel str nat str
  | CloseIssue str nat
  | ReopenIssue str nat
  | GetPullRequest str nat
  | ListPrFiles str nat
  | ListPrReviews str nat
  | ListCheckRuns str str
  | CompareRefs str str str
  | CreateSession CreateSessionRequest
  | GetSession str
  | TerminateSession str
  | ListSessions "str list"
  | SendMessage str str
  | UploadAttachment str json
  | LastQuestion str
  | GetReview str str
  | TriggerReview str
  | ListWorkflowRuns str str str str
  | ListRunArtifacts str nat
  | DownloadArtifact str nat str
  | GetFile str str str

text \<open>
  What the controller is given: its settings, playbook and knowledge ids, the clock (the n-th
  reading), the library functions it calls, and the answers of the two services. An answer is a
  function of the calls so far, the call itself first. \<open>en_disk\<close> is the content of the regular files
  on the controller's disk after those calls (a download writes there).
\<close>

type_synonym 'a answer = "Call list \<Rightarrow> exn + 'a"

record Env =
  en_settings :: Settings
  en_playbook_ids :: "(Kind, str) dict"
  en_knowledge_ids :: "str list"
  en_clock :: "nat \<Rightarrow> int"
  en_iter_errors :: schema_errors
  en_version_ge :: version_ge
  en_issue :: "Issue answer"
  en_issues :: "Issue list answer"
  en_unit :: "unit answer"
  en_pr :: "PullRequestInfo answer"
  en_files :: "DiffFile list answer"
  en_reviews :: "Review list answer"
  en_checks :: "CheckRun list answer"
  en_compare :: "Compare answer"
  en_session :: "SessionSnapshot answer"
  en_sessions :: "SessionSnapshot list answer"
  en_text :: "str answer"
  en_question :: "str option answer"
  en_review :: "ReviewSnapshot answer"
  en_review_opt :: "ReviewSnapshot option answer"
  en_workflow_runs :: "WorkflowRunInfo list answer"
  en_artifacts :: "ArtifactInfo list answer"
  en_download :: "str answer"
  en_file :: "BranchFile option answer"
  en_disk :: "Call list \<Rightarrow> str \<Rightarrow> str option"

section \<open>Operations\<close>

record World =
  w_db :: Db
  w_saved :: Db
  w_calls :: "(Call \<times> Db) list"
  w_reads :: nat

type_synonym 'a M = "World \<Rightarrow> (exn + 'a) \<times> World"

definition fresh_world :: "Db \<Rightarrow> World" where
  "fresh_world d = \<lparr>w_db = d, w_saved = d, w_calls = [], w_reads = 0\<rparr>"

definition ret :: "'a \<Rightarrow> 'a M" where
  "ret a = (\<lambda>w. (Inr a, w))"

definition bnd :: "'a M \<Rightarrow> ('a \<Rightarrow> 'b M) \<Rightarrow> 'b M" where
  "bnd m f = (\<lambda>w. case m w of (Inl e, w') \<Rightarrow> (Inl e, w') | (Inr a, w') \<Rightarrow> f a w')"

definition raise :: "exn \<Rightarrow> 'a M" where
  "raise e = (\<lambda>w. (Inl e, w))"

text \<open>\<open>try: m except Exception as e: h e\<close>; what \<open>m\<close> did before it raised stays done.\<close>

definition try_except :: "'a M \<Rightarrow> (exn \<Rightarrow> 'a M) \<Rightarrow> 'a M" where
  "try_except m h = (\<lambda>w. case m w of (Inl e, w') \<Rightarrow> h e w' | (Inr a, w') \<Rightarrow> (Inr a, w'))"

text \<open>A block of statements.\<close>

fun blk :: "unit M list \<Rightarrow> unit M" where
  "blk [] = ret ()"
| "blk (m # ms) = bnd m (\<lambda>_. blk ms)"

definition skip :: "unit M" where "skip = ret ()"

definition when_ok :: "bool \<Rightarrow> unit M \<Rightarrow> unit M" where
  "when_ok b m = (if b then m else skip)"

fun for_each :: "'a list \<Rightarrow> ('a \<Rightarrow> unit M) \<Rightarrow> unit M" where
  "for_each [] f = ret ()"
| "for_each (x # xs) f = bnd (f x) (\<lambda>_. for_each xs f)"

text \<open>A loop that carries a value.\<close>

fun loop :: "('s \<Rightarrow> 'a \<Rightarrow> 's M) \<Rightarrow> 's \<Rightarrow> 'a list \<Rightarrow> 's M" where
  "loop f s [] = ret s"
| "loop f s (x # xs) = bnd (f s x) (\<lambda>s'. loop f s' xs)"

definition lift_exn :: "exn + 'a \<Rightarrow> 'a M" where
  "lift_exn r = (\<lambda>w. (r, w))"

definition query :: "(Db \<Rightarrow> 'a) \<Rightarrow> 'a M" where
  "query f = (\<lambda>w. (Inr (f (w_db w)), w))"

definition write_db :: "(Db \<Rightarrow> Db) \<Rightarrow> unit M" where
  "write_db g = (\<lambda>w. (Inr (), w\<lparr>w_db := g (w_db w)\<rparr>))"

definition now :: "Env \<Rightarrow> int M" where
  "now E = (\<lambda>w. (Inr (en_clock E (w_reads w)), w\<lparr>w_reads := Suc (w_reads w)\<rparr>))"

definition remote :: "Call \<Rightarrow> 'a answer \<Rightarrow> 'a M" where
  "remote c answer =
     (\<lambda>w. let calls = (c, w_saved w) # w_calls w in (answer (map fst calls), w\<lparr>w_calls := calls\<rparr>))"

section \<open>Transactions\<close>

definition commit :: "unit M" where
  "commit = (\<lambda>w. (Inr (), w\<lparr>w_saved := w_db w\<rparr>))"

text \<open>
  \<open>session_scope\<close> and \<open>write_scope\<close>: commit at the end of the block, roll back to the last commit
  and re-raise when it raises. They differ in when they take the write lock, which serial
  transactions do not observe.
\<close>

definition session_scope :: "'a M \<Rightarrow> 'a M" where
  "session_scope m =
     (\<lambda>w. case m (w\<lparr>w_saved := w_db w\<rparr>) of
            (Inl e, w') \<Rightarrow> (Inl e, w'\<lparr>w_db := w_saved w'\<rparr>)
          | (Inr a, w') \<Rightarrow> (Inr a, w'\<lparr>w_saved := w_db w'\<rparr>))"

definition write_scope :: "'a M \<Rightarrow> 'a M" where
  "write_scope m =
     (\<lambda>w. case m (w\<lparr>w_saved := w_db w\<rparr>) of
            (Inl e, w') \<Rightarrow> (Inl e, w'\<lparr>w_db := w_saved w'\<rparr>)
          | (Inr a, w') \<Rightarrow> (Inr a, w'\<lparr>w_saved := w_db w'\<rparr>))"

section \<open>Running an operation\<close>

lemma bnd_run:
  "bnd (ret a) f w = f a w"
  "bnd (raise e) f' w = (Inl e, w)"
  "bnd (query g) h w = h (g (w_db w)) w"
  "bnd (write_db t) k w = k () (w\<lparr>w_db := t (w_db w)\<rparr>)"
  "bnd (now E) l w = l (en_clock E (w_reads w)) (w\<lparr>w_reads := Suc (w_reads w)\<rparr>)"
  "bnd commit n w = n () (w\<lparr>w_saved := w_db w\<rparr>)"
  by (simp_all add: bnd_def ret_def raise_def query_def write_db_def now_def commit_def)

lemma bnd_assoc: "bnd (bnd m f) g = bnd m (\<lambda>a. bnd (f a) g)"
  by (rule ext) (simp add: bnd_def split: prod.split sum.split)

lemma run_end: "ret a w = (Inr a, w)" "raise e w' = (Inl e, w')"
  "write_db t w = (Inr (), w\<lparr>w_db := t (w_db w)\<rparr>)" "query g w = (Inr (g (w_db w)), w)"
  by (simp_all add: ret_def raise_def write_db_def query_def)

lemmas run_simps = bnd_run bnd_assoc run_end

section \<open>Remote operations by name\<close>

definition repo_of :: "Env \<Rightarrow> str" where "repo_of E = st_fork_repo (en_settings E)"

definition gh_get_issue :: "Env \<Rightarrow> nat \<Rightarrow> Issue M" where
  "gh_get_issue E n = remote (GetIssue (repo_of E) n) (en_issue E)"
definition gh_create_issue :: "Env \<Rightarrow> str \<Rightarrow> str \<Rightarrow> str list \<Rightarrow> Issue M" where
  "gh_create_issue E title body labels = remote (CreateIssue (repo_of E) title body labels) (en_issue E)"
definition gh_find_issues :: "Env \<Rightarrow> str \<Rightarrow> str \<Rightarrow> Issue list M" where
  "gh_find_issues E label state = remote (FindIssues (repo_of E) label state) (en_issues E)"
definition gh_comment_issue :: "Env \<Rightarrow> nat \<Rightarrow> str \<Rightarrow> unit M" where
  "gh_comment_issue E n body = remote (CommentIssue (repo_of E) n body) (en_unit E)"
definition gh_add_labels :: "Env \<Rightarrow> nat \<Rightarrow> str list \<Rightarrow> unit M" where
  "gh_add_labels E n labels = remote (AddLabels (repo_of E) n labels) (en_unit E)"
definition gh_remove_label :: "Env \<Rightarrow> nat \<Rightarrow> str \<Rightarrow> unit M" where
  "gh_remove_label E n label = remote (RemoveLabel (repo_of E) n label) (en_unit E)"
definition gh_close_issue :: "Env \<Rightarrow> nat \<Rightarrow> unit M" where
  "gh_close_issue E n = remote (CloseIssue (repo_of E) n) (en_unit E)"
definition gh_reopen_issue :: "Env \<Rightarrow> nat \<Rightarrow> unit M" where
  "gh_reopen_issue E n = remote (ReopenIssue (repo_of E) n) (en_unit E)"
definition gh_get_pull_request :: "Env \<Rightarrow> str \<Rightarrow> nat \<Rightarrow> PullRequestInfo M" where
  "gh_get_pull_request E repo n = remote (GetPullRequest repo n) (en_pr E)"
definition gh_list_pr_files :: "Env \<Rightarrow> nat \<Rightarrow> DiffFile list M" where
  "gh_list_pr_files E n = remote (ListPrFiles (repo_of E) n) (en_files E)"
definition gh_list_pr_reviews :: "Env \<Rightarrow> nat \<Rightarrow> Review list M" where
  "gh_list_pr_reviews E n = remote (ListPrReviews (repo_of E) n) (en_reviews E)"
definition gh_list_check_runs :: "Env \<Rightarrow> str \<Rightarrow> CheckRun list M" where
  "gh_list_check_runs E sha = remote (ListCheckRuns (repo_of E) sha) (en_checks E)"
definition gh_compare :: "Env \<Rightarrow> str \<Rightarrow> str \<Rightarrow> Compare M" where
  "gh_compare E base head = remote (CompareRefs (repo_of E) base head) (en_compare E)"
definition dv_create_session :: "Env \<Rightarrow> CreateSessionRequest \<Rightarrow> SessionSnapshot M" where
  "dv_create_session E req = remote (CreateSession req) (en_session E)"
definition dv_get_session :: "Env \<Rightarrow> str \<Rightarrow> SessionSnapshot M" where
  "dv_get_session E sid = remote (GetSession sid) (en_session E)"
definition dv_terminate_session :: "Env \<Rightarrow> str \<Rightarrow> SessionSnapshot M" where
  "dv_terminate_session E sid = remote (TerminateSession sid) (en_session E)"
definition dv_list_sessions :: "Env \<Rightarrow> str list \<Rightarrow> SessionSnapshot list M" where
  "dv_list_sessions E tags = remote (ListSessions tags) (en_sessions E)"
definition dv_send_message :: "Env \<Rightarrow> str \<Rightarrow> str \<Rightarrow> unit M" where
  "dv_send_message E sid text = remote (SendMessage sid text) (en_unit E)"
definition dv_upload_attachment :: "Env \<Rightarrow> str \<Rightarrow> json \<Rightarrow> str M" where
  "dv_upload_attachment E name payload = remote (UploadAttachment name payload) (en_text E)"
definition dv_last_question :: "Env \<Rightarrow> str \<Rightarrow> str option M" where
  "dv_last_question E sid = remote (LastQuestion sid) (en_question E)"
definition dv_get_review :: "Env \<Rightarrow> str \<Rightarrow> str \<Rightarrow> ReviewSnapshot option M" where
  "dv_get_review E url sha = remote (GetReview url sha) (en_review_opt E)"
definition dv_trigger_review :: "Env \<Rightarrow> str \<Rightarrow> ReviewSnapshot M" where
  "dv_trigger_review E url = remote (TriggerReview url) (en_review E)"

definition gh_list_workflow_runs :: "Env \<Rightarrow> str \<Rightarrow> str \<Rightarrow> str \<Rightarrow> str \<Rightarrow> WorkflowRunInfo list M" where
  "gh_list_workflow_runs E repo file branch status = remote (ListWorkflowRuns repo file branch status) (en_workflow_runs E)"
definition gh_list_run_artifacts :: "Env \<Rightarrow> str \<Rightarrow> nat \<Rightarrow> ArtifactInfo list M" where
  "gh_list_run_artifacts E repo n = remote (ListRunArtifacts repo n) (en_artifacts E)"
definition gh_download_artifact :: "Env \<Rightarrow> str \<Rightarrow> nat \<Rightarrow> str \<Rightarrow> str M" where
  "gh_download_artifact E repo n dest = remote (DownloadArtifact repo n dest) (en_download E)"
definition gh_get_file :: "Env \<Rightarrow> str \<Rightarrow> str \<Rightarrow> str \<Rightarrow> BranchFile option M" where
  "gh_get_file E repo path sha = remote (GetFile repo path sha) (en_file E)"

lemmas remote_defs = gh_get_issue_def gh_create_issue_def gh_find_issues_def gh_comment_issue_def
  gh_add_labels_def gh_remove_label_def gh_close_issue_def gh_reopen_issue_def
  gh_get_pull_request_def gh_list_pr_files_def gh_list_pr_reviews_def gh_list_check_runs_def
  gh_compare_def dv_create_session_def dv_get_session_def dv_terminate_session_def
  dv_list_sessions_def dv_send_message_def dv_upload_attachment_def dv_last_question_def
  dv_get_review_def dv_trigger_review_def gh_list_workflow_runs_def gh_list_run_artifacts_def
  gh_download_artifact_def gh_get_file_def

section \<open>Preservation\<close>

text \<open>
  A database predicate holds of a world when it holds of the open transaction, of the committed
  state and of every state a crash could have left; an operation keeps it when it holds afterwards,
  whether the operation returned or raised.
\<close>

definition holds :: "(Db \<Rightarrow> bool) \<Rightarrow> World \<Rightarrow> bool" where
  "holds P w \<longleftrightarrow> P (w_db w) \<and> P (w_saved w) \<and> (\<forall>(c, d) \<in> set (w_calls w). P d)"

definition keeps :: "(Db \<Rightarrow> bool) \<Rightarrow> 'a M \<Rightarrow> bool" where
  "keeps P m \<longleftrightarrow> (\<forall>w. holds P w \<longrightarrow> holds P (snd (m w)))"

lemma keepsI: "(\<And>w. holds P w \<Longrightarrow> holds P (snd (m w))) \<Longrightarrow> keeps P m"
  by (simp add: keeps_def)

lemma keepsD: "keeps P m \<Longrightarrow> holds P w \<Longrightarrow> m w = (r, w') \<Longrightarrow> holds P w'"
  by (metis keeps_def snd_conv)

lemma keeps_ret [keeps_intros]: "keeps P (ret a)"
  by (simp add: keeps_def ret_def)

lemma keeps_skip [keeps_intros]: "keeps P skip"
  by (simp add: skip_def keeps_ret)

lemma keeps_raise [keeps_intros]: "keeps P (raise e)"
  by (simp add: keeps_def raise_def)

lemma keeps_lift_exn [keeps_intros]: "keeps P (lift_exn r)"
  by (simp add: keeps_def lift_exn_def)

lemma keeps_bnd [keeps_intros]:
  assumes "keeps P m" "\<And>a. keeps P (f a)"
  shows "keeps P (bnd m f)"
proof (rule keepsI)
  fix w
  assume w: "holds P w"
  obtain r w' where m: "m w = (r, w')" by (cases "m w") auto
  from keepsD [OF assms(1) w m] assms(2) show "holds P (snd (bnd m f w))"
    by (cases r) (simp_all add: bnd_def m keeps_def)
qed

lemma keeps_try_except [keeps_intros]:
  assumes "keeps P m" "\<And>e. keeps P (h e)"
  shows "keeps P (try_except m h)"
proof (rule keepsI)
  fix w
  assume w: "holds P w"
  obtain r w' where m: "m w = (r, w')" by (cases "m w") auto
  from keepsD [OF assms(1) w m] assms(2) show "holds P (snd (try_except m h w))"
    by (cases r) (simp_all add: try_except_def m keeps_def)
qed

lemma keeps_blk [keeps_intros]: "list_all (keeps P) ms \<Longrightarrow> keeps P (blk ms)"
  by (induction ms) (auto intro: keeps_ret keeps_bnd)

lemma keeps_when_ok [keeps_intros]: "(b \<Longrightarrow> keeps P m) \<Longrightarrow> keeps P (when_ok b m)"
  by (simp add: when_ok_def keeps_skip)

lemma keeps_for_each [keeps_intros]: "(\<And>x. x \<in> set xs \<Longrightarrow> keeps P (f x)) \<Longrightarrow> keeps P (for_each xs f)"
  by (induction xs) (auto intro: keeps_ret keeps_bnd)

lemma keeps_loop [keeps_intros]: "(\<And>s x. x \<in> set xs \<Longrightarrow> keeps P (f s x)) \<Longrightarrow> keeps P (loop f s xs)"
  by (induction xs arbitrary: s) (auto intro: keeps_ret keeps_bnd)

lemma keeps_query [keeps_intros]: "keeps P (query f)"
  by (simp add: keeps_def query_def)

lemma keeps_bnd_query: "(\<And>d. P d \<Longrightarrow> keeps P (f (g d))) \<Longrightarrow> keeps P (bnd (query g) f)"
proof (rule keepsI)
  fix w
  assume k: "\<And>d. P d \<Longrightarrow> keeps P (f (g d))" and w: "holds P w"
  from w have "P (w_db w)" by (simp add: holds_def)
  from k [OF this] w have "holds P (snd (f (g (w_db w)) w))" by (simp add: keeps_def)
  then show "holds P (snd (bnd (query g) f w))" by (simp add: bnd_def query_def)
qed

lemma keeps_write_db: "(\<And>d. P d \<Longrightarrow> P (g d)) \<Longrightarrow> keeps P (write_db g)"
  by (auto simp: keeps_def write_db_def holds_def)

lemma keeps_now [keeps_intros]: "keeps P (now E)"
  by (simp add: keeps_def now_def holds_def)

lemma keeps_remote [keeps_intros]: "keeps P (remote c a)"
  by (auto simp: keeps_def remote_def holds_def Let_def)

lemma keeps_commit [keeps_intros]: "keeps P commit"
  by (simp add: keeps_def commit_def holds_def)

lemma keeps_session_scope [keeps_intros]:
  assumes "keeps P m"
  shows "keeps P (session_scope m)"
proof (rule keepsI)
  fix w
  assume "holds P w"
  then have w: "holds P (w\<lparr>w_saved := w_db w\<rparr>)" by (simp add: holds_def)
  obtain r w' where m: "m (w\<lparr>w_saved := w_db w\<rparr>) = (r, w')" by (cases "m (w\<lparr>w_saved := w_db w\<rparr>)") auto
  from keepsD [OF assms w m] show "holds P (snd (session_scope m w))"
    by (cases r) (simp_all add: session_scope_def m holds_def)
qed

lemma write_scope_eq: "write_scope m = session_scope m"
  by (simp add: write_scope_def session_scope_def)

lemma keeps_write_scope [keeps_intros]: "keeps P m \<Longrightarrow> keeps P (write_scope m)"
  by (simp add: write_scope_eq keeps_session_scope)

lemma keeps_remotes [keeps_intros]:
  "keeps P (gh_get_issue E n)" "keeps P (gh_create_issue E t b ls)" "keeps P (gh_find_issues E l s)"
  "keeps P (gh_comment_issue E n t)" "keeps P (gh_add_labels E n ls)" "keeps P (gh_remove_label E n l)"
  "keeps P (gh_close_issue E n)" "keeps P (gh_reopen_issue E n)" "keeps P (gh_get_pull_request E r n)"
  "keeps P (gh_list_pr_files E n)" "keeps P (gh_list_pr_reviews E n)" "keeps P (gh_list_check_runs E s)"
  "keeps P (gh_compare E s s')" "keeps P (dv_create_session E req)" "keeps P (dv_get_session E s)"
  "keeps P (dv_terminate_session E s)" "keeps P (dv_list_sessions E ls)" "keeps P (dv_send_message E s t)"
  "keeps P (dv_upload_attachment E s j)" "keeps P (dv_last_question E s)" "keeps P (dv_get_review E s s')"
  "keeps P (dv_trigger_review E s)"
  by (simp_all add: remote_defs keeps_remote)

lemma keeps_if [keeps_intros]: "(b \<Longrightarrow> keeps P m) \<Longrightarrow> (\<not> b \<Longrightarrow> keeps P m') \<Longrightarrow> keeps P (if b then m else m')"
  by simp

lemma keeps_Let [keeps_intros]: "(\<And>x. x = a \<Longrightarrow> keeps P (f x)) \<Longrightarrow> keeps P (Let a f)"
  by simp

lemma keeps_case_option [keeps_intros]:
  "(x = None \<Longrightarrow> keeps P m) \<Longrightarrow> (\<And>a. x = Some a \<Longrightarrow> keeps P (f a)) \<Longrightarrow> keeps P (case x of None \<Rightarrow> m | Some a \<Rightarrow> f a)"
  by (cases x) auto

lemma keeps_case_sum [keeps_intros]:
  "(\<And>a. x = Inl a \<Longrightarrow> keeps P (f a)) \<Longrightarrow> (\<And>b. x = Inr b \<Longrightarrow> keeps P (g b)) \<Longrightarrow>
     keeps P (case x of Inl a \<Rightarrow> f a | Inr b \<Rightarrow> g b)"
  by (cases x) auto

lemma keeps_case_prod [keeps_intros]:
  "(\<And>a b. x = (a, b) \<Longrightarrow> keeps P (f a b)) \<Longrightarrow> keeps P (case x of (a, b) \<Rightarrow> f a b)"
  by (cases x) auto

lemma keeps_case_list [keeps_intros]:
  "(x = [] \<Longrightarrow> keeps P m) \<Longrightarrow> (\<And>a b. x = a # b \<Longrightarrow> keeps P (f a b)) \<Longrightarrow>
     keeps P (case x of [] \<Rightarrow> m | a # b \<Rightarrow> f a b)"
  by (cases x) auto

lemma keeps_blk_Nil [keeps_intros]: "list_all (keeps P) []"
  by simp

lemma keeps_blk_Cons [keeps_intros]: "keeps P m \<Longrightarrow> list_all (keeps P) ms \<Longrightarrow> list_all (keeps P) (m # ms)"
  by simp

lemma keeps_result:
  assumes "keeps P m" "P d"
  shows "P (w_db (snd (m (fresh_world d))))" "P (w_saved (snd (m (fresh_world d))))"
    "(c, d') \<in> set (w_calls (snd (m (fresh_world d)))) \<Longrightarrow> P d'"
proof -
  have "holds P (fresh_world d)" using assms(2) by (simp add: holds_def fresh_world_def)
  then have "holds P (snd (m (fresh_world d)))" using assms(1) by (simp add: keeps_def)
  then show "P (w_db (snd (m (fresh_world d))))" "P (w_saved (snd (m (fresh_world d))))"
    "(c, d') \<in> set (w_calls (snd (m (fresh_world d)))) \<Longrightarrow> P d'"
    by (auto simp: holds_def)
qed

section \<open>Rows\<close>

lemma get_row_SomeD: "get_row rid i rows = Some r \<Longrightarrow> r \<in> set rows \<and> rid r = i"
  by (auto simp: get_row_def find_Some_iff)

lemma get_row_None: "get_row rid i rows = None \<longleftrightarrow> i \<notin> rid ` set rows"
  by (auto simp: get_row_def find_None_iff)

lemma get_row_Cons: "get_row rid i (r # rows) = (if rid r = i then Some r else get_row rid i rows)"
  by (simp add: get_row_def)

lemma get_row_update:
  assumes "\<And>r. rid (f r) = rid r"
  shows "get_row rid j (update_row rid i f rows) = (if j = i then map_option f (get_row rid i rows) else get_row rid j rows)"
  by (induction rows) (auto simp: get_row_def update_row_def assms)

lemma get_row_append: "get_row rid i (xs @ ys) = (case get_row rid i xs of Some r \<Rightarrow> Some r | None \<Rightarrow> get_row rid i ys)"
  by (induction xs) (auto simp: get_row_def)

lemma map_update_row:
  assumes "\<And>r. h (f r) = h r"
  shows "map h (update_row rid i f rows) = map h rows"
  by (auto simp: update_row_def assms)

lemma next_id_gt: "r \<in> set rows \<Longrightarrow> rid r < next_id rid rows"
proof -
  have "rid r \<le> fold (\<lambda>r m. max (rid r) m) rows m \<and> m \<le> fold (\<lambda>r m. max (rid r) m) rows m" if "r \<in> set rows" for m
    using that
  proof (induction rows arbitrary: m)
    case (Cons a rows)
    have mono: "m \<le> fold (\<lambda>r m. max (rid r) m) rs m" for rs m
    proof (induction rs arbitrary: m)
      case (Cons b rs)
      from Cons.IH [of "max (rid b) m"] show ?case by (simp add: max_def split: if_splits)
    qed simp
    show ?case
    proof (cases "r = a")
      case True
      then show ?thesis using mono [of "max (rid a) m" rows] by simp
    next
      case False
      with Cons.prems Cons.IH [of "max (rid a) m"] show ?thesis by auto
    qed
  qed simp
  then show "r \<in> set rows \<Longrightarrow> rid r < next_id rid rows" by (auto simp: next_id_def less_Suc_eq_le)
qed

lemma next_id_fresh: "next_id rid rows \<notin> rid ` set rows"
  using next_id_gt [of _ rows rid] by fastforce

end
