(* ===== verification/Core.thy ===== *)
theory Core
  imports Store
begin

text \<open>
  The core of \<^verbatim>\<open>orchestrator/engine.py\<close>: the event log, the two guarded state changes \<open>_wi\<close> and
  \<open>_finding\<close> through which every lifecycle state is written, the human label, the lifecycle levels
  and the shared capacity and budget figures. The locale \<open>controller_invariant\<close> states what a database predicate must
  satisfy for every primitive write; each operation of the controller is proved to keep it once.
\<close>

section \<open>The event log\<close>

definition push_event :: "Event \<Rightarrow> Db \<Rightarrow> Db" where
  "push_event ev d = d\<lparr>db_events := db_events d @ [ev]\<rparr>"

definition log_event ::
    "Env \<Rightarrow> str \<Rightarrow> nat \<Rightarrow> str \<Rightarrow> str option \<Rightarrow> str option \<Rightarrow> str \<Rightarrow> str \<Rightarrow> nat list \<Rightarrow> unit M" where
  "log_event E entity_type entity_id event from_state to_state reason actor evidence_ids =
     bnd (now E) (\<lambda>t. write_db (\<lambda>d. push_event
       \<lparr>el_id = next_id el_id (db_events d), el_ts = t, el_actor = actor, el_entity_type = entity_type,
        el_entity_id = entity_id, el_event = event, el_from_state = from_state, el_to_state = to_state,
        el_reason = Some reason, el_evidence_ids = evidence_ids\<rparr> d))"

text \<open>An event of a work item that changes no state.\<close>

definition wi_note :: "Env \<Rightarrow> WorkItem \<Rightarrow> str \<Rightarrow> str \<Rightarrow> str \<Rightarrow> unit M" where
  "wi_note E wi event reason actor =
     log_event E ''work_item'' (wi_id wi) event (Some (work_item_state_value (wi_state wi)))
       (Some (work_item_state_value (wi_state wi))) reason actor []"

section \<open>Rows of the open transaction\<close>

definition lookup_error :: "str \<Rightarrow> exn" where
  "lookup_error m = Exn ''LookupError'' m"

definition wi_row :: "nat \<Rightarrow> WorkItem M" where
  "wi_row wid = bnd (query (\<lambda>d. get_row wi_id wid (db_work_items d)))
     (\<lambda>r. case r of Some wi \<Rightarrow> ret wi | None \<Rightarrow> raise (Exn ''AssertionError'' ''work item''))"

definition fd_row :: "nat \<Rightarrow> Finding M" where
  "fd_row fid = bnd (query (\<lambda>d. get_row fd_id fid (db_findings d)))
     (\<lambda>r. case r of Some f \<Rightarrow> ret f | None \<Rightarrow> raise (Exn ''AssertionError'' ''finding''))"

definition pr_row :: "nat \<Rightarrow> PullRequest M" where
  "pr_row i = bnd (query (\<lambda>d. get_row pr_id i (db_prs d)))
     (\<lambda>r. case r of Some x \<Rightarrow> ret x | None \<Rightarrow> raise (Exn ''AssertionError'' ''pull request''))"

definition edit_wi :: "nat \<Rightarrow> (WorkItem \<Rightarrow> WorkItem) \<Rightarrow> unit M" where
  "edit_wi wid g = write_db (\<lambda>d. d\<lparr>db_work_items := update_row wi_id wid g (db_work_items d)\<rparr>)"

definition set_owner :: "nat \<Rightarrow> nat option \<Rightarrow> unit M" where
  "set_owner fid owner =
     write_db (\<lambda>d. d\<lparr>db_findings := update_row fd_id fid (\<lambda>f. f\<lparr>fd_work_item_id := owner\<rparr>) (db_findings d)\<rparr>)"

definition edit_pr :: "nat \<Rightarrow> (PullRequest \<Rightarrow> PullRequest) \<Rightarrow> unit M" where
  "edit_pr i g = write_db (\<lambda>d. d\<lparr>db_prs := update_row pr_id i g (db_prs d)\<rparr>)"

definition edit_session :: "nat \<Rightarrow> (DevinSession \<Rightarrow> DevinSession) \<Rightarrow> unit M" where
  "edit_session i g = write_db (\<lambda>d. d\<lparr>db_sessions := update_row se_id i g (db_sessions d)\<rparr>)"

definition session_by_devin_id :: "str option \<Rightarrow> Db \<Rightarrow> DevinSession option" where
  "session_by_devin_id sid d = find (\<lambda>s. Some (se_devin_id s) = sid) (db_sessions d)"

definition members_of :: "nat \<Rightarrow> Db \<Rightarrow> Finding list" where
  "members_of wid d = filter (\<lambda>f. fd_work_item_id f = Some wid) (db_findings d)"

lemma bnd_wi_row:
  "bnd (wi_row wid) k w =
     (case get_row wi_id wid (db_work_items (w_db w)) of
        Some wi \<Rightarrow> k wi w | None \<Rightarrow> (Inl (Exn ''AssertionError'' ''work item''), w))"
  by (simp add: wi_row_def bnd_def query_def ret_def raise_def split: option.split)

lemma bnd_fd_row:
  "bnd (fd_row fid) k w =
     (case get_row fd_id fid (db_findings (w_db w)) of
        Some f \<Rightarrow> k f w | None \<Rightarrow> (Inl (Exn ''AssertionError'' ''finding''), w))"
  by (simp add: fd_row_def bnd_def query_def ret_def raise_def split: option.split)

section \<open>State changes\<close>

definition do_wi_transition ::
    "nat \<Rightarrow> WorkItemEvent \<Rightarrow> WorkItemState \<Rightarrow> WorkItemState \<Rightarrow> str \<Rightarrow> str \<Rightarrow> int \<Rightarrow> int \<Rightarrow> Db \<Rightarrow> Db" where
  "do_wi_transition wid event prior after reason actor t1 t2 d =
     push_event
       \<lparr>el_id = next_id el_id (db_events d), el_ts = t2, el_actor = actor, el_entity_type = ''work_item'',
        el_entity_id = wid, el_event = wi_event_value event,
        el_from_state = Some (work_item_state_value prior), el_to_state = Some (work_item_state_value after),
        el_reason = Some reason, el_evidence_ids = []\<rparr>
       (d\<lparr>db_work_items := update_row wi_id wid
            (\<lambda>w. w\<lparr>wi_state := after, wi_updated_at := t1,
                   wi_blocked_reason := (if event = E_blocked \<or> after = W_needs_human then Some reason
                                         else wi_blocked_reason w)\<rparr>) (db_work_items d)\<rparr>)"

definition sync_human_label :: "Env \<Rightarrow> nat \<Rightarrow> WorkItemState \<Rightarrow> WorkItemState \<Rightarrow> unit M" where
  "sync_human_label E wid prior after =
     bnd (wi_row wid) (\<lambda>wi.
       case wi_issue_number wi of
         None \<Rightarrow> skip
       | Some n \<Rightarrow>
           try_except
             (if after \<in> set HUMAN_ATTENTION_STATES \<and> prior \<notin> set HUMAN_ATTENTION_STATES then
                blk [gh_add_labels E n [human_label_value HL_needs_human],
                     gh_comment_issue E n (''**needs-human** ('' @ work_item_state_value after @ ''): `'' @
                       or_str (wi_blocked_reason wi) ''see events'' @ ''`'')]
              else if prior \<in> set HUMAN_ATTENTION_STATES \<and> after \<notin> set HUMAN_ATTENTION_STATES then
                gh_remove_label E n (human_label_value HL_needs_human)
              else skip)
             (\<lambda>e. skip))"

definition wi_commit ::
    "Env \<Rightarrow> nat \<Rightarrow> WorkItemEvent \<Rightarrow> WorkItemState \<Rightarrow> WorkItemState \<Rightarrow> str \<Rightarrow> str \<Rightarrow> WorkItemState M" where
  "wi_commit E wid event prior after reason actor =
     bnd (now E) (\<lambda>t1. bnd (now E) (\<lambda>t2.
     bnd (write_db (do_wi_transition wid event prior after reason actor t1 t2)) (\<lambda>_.
     bnd (sync_human_label E wid prior after) (\<lambda>_. ret after))))"

definition wi_apply ::
    "Env \<Rightarrow> nat \<Rightarrow> WorkItemEvent \<Rightarrow> str \<Rightarrow> str \<Rightarrow> (WorkItemState \<Rightarrow> WorkItemState M) \<Rightarrow> WorkItemState M" where
  "wi_apply E wid event reason actor on_invalid =
     bnd (wi_row wid) (\<lambda>wi.
       case next_work_item_state (wi_state wi) event of
         Inr after \<Rightarrow> wi_commit E wid event (wi_state wi) after reason actor
       | Inl _ \<Rightarrow> on_invalid (wi_state wi))"

definition blockable :: "(WorkItemState \<times> WorkItemEvent) list" where
  "blockable = filter (\<lambda>k. snd k = E_blocked) (map fst WORK_ITEM_TRANSITIONS)"

text \<open>
  \<open>_wi\<close>. An event the table does not allow is recorded and the item is blocked where it can be; the
  recursive call is then always a row of the table, so it is \<open>wi_apply\<close> once more.
\<close>

definition wi_event :: "Env \<Rightarrow> nat \<Rightarrow> WorkItemEvent \<Rightarrow> str \<Rightarrow> str \<Rightarrow> WorkItemState M" where
  "wi_event E wid event reason actor =
     wi_apply E wid event reason actor (\<lambda>prior.
       let v = work_item_state_value prior in
       bnd (log_event E ''work_item'' wid ''invalid_transition'' (Some v) (Some v)
              (invalid_transition_text v (wi_event_value event) @ ''; reason='' @ reason) ''controller'' []) (\<lambda>_.
       if prior \<noteq> W_needs_human \<and> (prior, E_blocked) \<in> set blockable then
         let r = ''invalid_transition:'' @ v @ '':'' @ wi_event_value event in
         bnd (edit_wi wid (\<lambda>w. w\<lparr>wi_blocked_reason := Some r\<rparr>)) (\<lambda>_.
           wi_apply E wid E_blocked r ''controller'' ret)
       else ret prior))"

definition do_finding_transition ::
    "nat \<Rightarrow> FindingEvent \<Rightarrow> FindingState \<Rightarrow> FindingState \<Rightarrow> str \<Rightarrow> str \<Rightarrow> nat option \<Rightarrow> int \<Rightarrow> int \<Rightarrow> Db \<Rightarrow> Db" where
  "do_finding_transition fid event prior after reason actor run_id t1 t2 d =
     push_event
       \<lparr>el_id = next_id el_id (db_events d), el_ts = t2, el_actor = actor, el_entity_type = ''finding'',
        el_entity_id = fid, el_event = finding_event_value event,
        el_from_state = Some (finding_state_value prior), el_to_state = Some (finding_state_value after),
        el_reason = Some reason, el_evidence_ids = (case run_id of None \<Rightarrow> [] | Some r \<Rightarrow> [r])\<rparr>
       (d\<lparr>db_findings := update_row fd_id fid
            (\<lambda>f. f\<lparr>fd_state := after, fd_updated_at := t1,
                   fd_closed_by_run_id := (if after \<in> set CLOSING_FINDING_STATES \<and> run_id \<noteq> None then run_id
                                           else fd_closed_by_run_id f)\<rparr>) (db_findings d)\<rparr>)"

definition finding_event :: "Env \<Rightarrow> nat \<Rightarrow> FindingEvent \<Rightarrow> str \<Rightarrow> str \<Rightarrow> nat option \<Rightarrow> bool M" where
  "finding_event E fid event reason actor run_id =
     bnd (fd_row fid) (\<lambda>f.
       case next_finding_state (fd_state f) event of
         Inl _ \<Rightarrow>
           let v = finding_state_value (fd_state f) in
           bnd (log_event E ''finding'' fid ''invalid_transition'' (Some v) (Some v)
                  (invalid_transition_text v (finding_event_value event) @ ''; reason='' @ reason) ''controller'' [])
             (\<lambda>_. ret False)
       | Inr after \<Rightarrow>
           bnd (now E) (\<lambda>t1. bnd (now E) (\<lambda>t2.
           bnd (write_db (do_finding_transition fid event (fd_state f) after reason actor run_id t1 t2))
             (\<lambda>_. ret True))))"

section \<open>Lifecycle levels\<close>

definition raise_level :: "Env \<Rightarrow> nat \<Rightarrow> nat \<Rightarrow> LifecycleLevel \<Rightarrow> str \<Rightarrow> unit M" where
  "raise_level E wid prid level why =
     bnd (wi_row wid) (\<lambda>wi. bnd (pr_row prid) (\<lambda>row.
     blk [when_ok (wi_lifecycle_level wi < level) (blk
            [log_event E ''work_item'' wid ''lifecycle_level'' (Some (level_name (wi_lifecycle_level wi)))
               (Some (level_name level)) why ''controller'' [],
             edit_wi wid (\<lambda>w. w\<lparr>wi_lifecycle_level := level\<rparr>)]),
          when_ok (pr_lifecycle_level row < level) (edit_pr prid (\<lambda>p. p\<lparr>pr_lifecycle_level := level\<rparr>))]))"

definition reset_level :: "Env \<Rightarrow> nat \<Rightarrow> nat \<Rightarrow> LifecycleLevel \<Rightarrow> str \<Rightarrow> unit M" where
  "reset_level E wid prid level why =
     bnd (wi_row wid) (\<lambda>wi.
     blk [when_ok (level < wi_lifecycle_level wi) (blk
            [log_event E ''work_item'' wid ''lifecycle_level'' (Some (level_name (wi_lifecycle_level wi)))
               (Some (level_name level)) why ''controller'' [],
             edit_wi wid (\<lambda>w. w\<lparr>wi_lifecycle_level := level\<rparr>)]),
          edit_pr prid (\<lambda>p. p\<lparr>pr_lifecycle_level := min (pr_lifecycle_level p) level\<rparr>)])"

definition last_event_ts :: "nat \<Rightarrow> WorkItemEvent \<Rightarrow> Db \<Rightarrow> int option" where
  "last_event_ts wid event d =
     (case filter (\<lambda>e. el_entity_type e = ''work_item'' \<and> el_entity_id e = wid \<and>
                       el_event e = wi_event_value event) (db_events d) of
        [] \<Rightarrow> None
      | e # es \<Rightarrow> Some (el_ts (max_by (\<lambda>e. (el_ts e, el_id e)) e es)))"

section \<open>Capacity and budget\<close>

definition active_session_count :: "Db \<Rightarrow> nat" where
  "active_session_count d = length (filter (\<lambda>w. wi_state w \<in> set ACTIVE_WORK_ITEM_STATES) (db_work_items d))"

record AcuBudgetPosition =
  ab_consumed :: rat
  ab_outstanding :: rat

definition ab_committed :: "AcuBudgetPosition \<Rightarrow> rat" where
  "ab_committed b = ab_consumed b + ab_outstanding b"

definition acu_budget_position :: "Db \<Rightarrow> AcuBudgetPosition" where
  "acu_budget_position d =
     (let reserved = map wi_active_session_id
            (filter (\<lambda>w. wi_state w \<in> set ACTIVE_WORK_ITEM_STATES) (db_work_items d))
      in \<lparr>ab_consumed = sum_list (map se_acus_consumed (db_sessions d)),
          ab_outstanding = sum_list (map (\<lambda>s. max 0 (se_max_acu_limit s - se_acus_consumed s))
            (filter (\<lambda>s. Some (se_devin_id s) \<in> set reserved) (db_sessions d)))\<rparr>)"

definition pending_scan_run_count :: "Db \<Rightarrow> nat" where
  "pending_scan_run_count d = length (filter (\<lambda>r. sr_closure_applied_at r = None) (db_runs d))"

section \<open>The interface of an invariant\<close>

text \<open>
  Events whose name is not a transition of a work item or a finding carry no state. An edit of a
  work item that is not a transition keeps its identity and its state.
\<close>

definition wi_event_names :: "str list" where
  "wi_event_names =
     [''dispatch_approved'', ''issue_created'', ''dispatch_started'', ''session_created'', ''session_adopted'',
      ''dispatch_failed'', ''pr_opened'', ''checks_started'', ''checks_green'', ''checks_red'', ''retry_sent'',
      ''retries_exhausted'', ''new_head_pushed'', ''review_completed'', ''review_not_observed'', ''human_merged'',
      ''pr_closed_unmerged'', ''rescan_started'', ''rescan_verified'', ''rescan_shows_present'', ''blocked'',
      ''human_retry'', ''operator_cancelled'', ''human_abandoned'', ''human_resolved'', ''superseded'']"

definition finding_event_names :: "str list" where
  "finding_event_names =
     [''classified'', ''unclassifiable'', ''grouped'', ''remediation_started'', ''pr_merged'', ''closing_absent'',
      ''closing_vex'', ''disagreement_resolved'', ''reappeared'', ''human_blocked'', ''human_reopened'', ''reclassified'']"

lemma wi_event_value_mem [simp]: "wi_event_value e \<in> set wi_event_names"
  by (cases e) (simp_all add: wi_event_names_def)

lemma finding_event_value_mem [simp]: "finding_event_value e \<in> set finding_event_names"
  by (cases e) (simp_all add: finding_event_names_def)

definition note_event :: "str \<Rightarrow> str \<Rightarrow> bool" where
  "note_event entity_type event \<longleftrightarrow>
     \<not> (entity_type = ''work_item'' \<and> event \<in> set wi_event_names) \<and>
     \<not> (entity_type = ''finding'' \<and> event \<in> set finding_event_names)"

definition wi_edit :: "(WorkItem \<Rightarrow> WorkItem) \<Rightarrow> bool" where
  "wi_edit g \<longleftrightarrow> (\<forall>w. wi_id (g w) = wi_id w \<and> wi_state (g w) = wi_state w \<and> wi_kind (g w) = wi_kind w \<and>
     wi_group_key (g w) = wi_group_key w \<and> wi_title (g w) = wi_title w \<and>
     wi_source_branch (g w) = wi_source_branch w \<and> wi_severity (g w) = wi_severity w \<and>
     wi_risk (g w) = wi_risk w \<and> wi_acu_cap (g w) = wi_acu_cap w \<and> wi_created_at (g w) = wi_created_at w \<and>
     wi_regression_of_work_item_id (g w) = wi_regression_of_work_item_id w)"

definition CLOSING_EVENTS :: "FindingEvent list" where
  [enum_defs]: "CLOSING_EVENTS = [FE_closing_absent, FE_closing_vex, FE_disagreement_resolved]"

lemma closing_state_event:
  "next_finding_state s e = Inr s' \<Longrightarrow> s' \<in> set CLOSING_FINDING_STATES \<longleftrightarrow> e \<in> set CLOSING_EVENTS"
proof (erule finding_transition_rule [rotated])
  show "list_all (\<lambda>((s, e), s'). (s' \<in> set CLOSING_FINDING_STATES) = (e \<in> set CLOSING_EVENTS)) FINDING_TRANSITIONS"
    by (simp add: FINDING_TRANSITIONS_def enum_defs)
qed

definition stamp_run :: "nat \<Rightarrow> int \<Rightarrow> Db \<Rightarrow> Db" where
  "stamp_run rid t d =
     d\<lparr>db_runs := update_row sr_id rid (\<lambda>r. r\<lparr>sr_closure_applied_at := Some t\<rparr>) (db_runs d)\<rparr>"

locale controller_invariant =
  fixes P :: "Db \<Rightarrow> bool" and V :: "nat \<Rightarrow> bool"
  assumes noted: "P d \<Longrightarrow> note_event (el_entity_type ev) (el_event ev) \<Longrightarrow> P (push_event ev d)"
    and wi_transition:
      "P d \<Longrightarrow> get_row wi_id wid (db_work_items d) = Some wi \<Longrightarrow>
         next_work_item_state (wi_state wi) event = Inr s' \<Longrightarrow>
         P (do_wi_transition wid event (wi_state wi) s' reason actor t1 t2 d)"
    and finding_transition:
      "P d \<Longrightarrow> get_row fd_id fid (db_findings d) = Some f \<Longrightarrow>
         next_finding_state (fd_state f) fevent = Inr fs' \<Longrightarrow>
         (fevent \<in> set CLOSING_EVENTS \<Longrightarrow> \<exists>r. run_id = Some r \<and> V r) \<Longrightarrow>
         P (do_finding_transition fid fevent (fd_state f) fs' reason actor run_id t1 t2 d)"
    and edited: "P d \<Longrightarrow> wi_edit g \<Longrightarrow> P (d\<lparr>db_work_items := update_row wi_id wid g (db_work_items d)\<rparr>)"
    and owned: "P d \<Longrightarrow>
      P (d\<lparr>db_findings := update_row fd_id fid (\<lambda>f. f\<lparr>fd_work_item_id := own\<rparr>) (db_findings d)\<rparr>)"
    and new_item: "P d \<Longrightarrow> wi_id w = next_id wi_id (db_work_items d) \<Longrightarrow> wi_state w = W_queued \<Longrightarrow>
      P (d\<lparr>db_work_items := db_work_items d @ [w]\<rparr>)"
    and sessions: "P d \<Longrightarrow> P (d\<lparr>db_sessions := ss\<rparr>)"
    and polls: "P d \<Longrightarrow> P (d\<lparr>db_polls := ps\<rparr>)"
    and prs: "P d \<Longrightarrow> P (d\<lparr>db_prs := prs\<rparr>)"
    and pr_checks: "P d \<Longrightarrow> P (d\<lparr>db_pr_checks := pcs\<rparr>)"
    and ver_checks: "P d \<Longrightarrow> P (d\<lparr>db_ver_checks := vcs\<rparr>)"
    and stamp: "P d \<Longrightarrow> P (stamp_run rid t d)"
    and valid_run: "P d \<Longrightarrow> r \<in> set (db_runs d) \<Longrightarrow> closing_run_ok r \<Longrightarrow> V (sr_id r)"
begin

lemma log_event_keeps [keeps_intros]:
  "note_event et ev \<Longrightarrow> keeps P (log_event E et eid ev fs ts r a es)"
  by (auto simp: log_event_def intro!: keeps_intros keeps_write_db noted)

lemma wi_note_keeps [keeps_intros]: "note_event ''work_item'' ev \<Longrightarrow> keeps P (wi_note E wi ev r a)"
  by (simp add: wi_note_def log_event_keeps)

lemma wi_row_keeps [keeps_intros]: "keeps P (wi_row wid)"
  by (auto simp: wi_row_def intro!: keeps_intros)

lemma fd_row_keeps [keeps_intros]: "keeps P (fd_row fid)"
  by (auto simp: fd_row_def intro!: keeps_intros)

lemma pr_row_keeps [keeps_intros]: "keeps P (pr_row i)"
  by (auto simp: pr_row_def intro!: keeps_intros)

lemma edit_wi_keeps [keeps_intros]: "wi_edit g \<Longrightarrow> keeps P (edit_wi wid g)"
  by (auto simp: edit_wi_def intro!: keeps_write_db edited)

lemma set_owner_keeps [keeps_intros]: "keeps P (set_owner fid own)"
  by (auto simp: set_owner_def intro!: keeps_write_db owned)

lemma edit_pr_keeps [keeps_intros]: "keeps P (edit_pr i pg)"
  by (auto simp: edit_pr_def intro!: keeps_write_db prs)

lemma edit_session_keeps [keeps_intros]: "keeps P (edit_session i sg)"
  by (auto simp: edit_session_def intro!: keeps_write_db sessions)

lemma sync_human_label_keeps [keeps_intros]: "keeps P (sync_human_label E wid b a)"
  by (auto simp: sync_human_label_def intro!: keeps_intros)

lemma wi_commit_keeps:
  assumes "holds P w" "get_row wi_id wid (db_work_items (w_db w)) = Some wi"
    and "next_work_item_state (wi_state wi) event = Inr s'"
  shows "holds P (snd (wi_commit E wid event (wi_state wi) s' reason actor w))"
proof -
  define t1 where "t1 = en_clock E (w_reads w)"
  define t2 where "t2 = en_clock E (Suc (w_reads w))"
  let ?w = "w\<lparr>w_reads := Suc (Suc (w_reads w)), w_db := do_wi_transition wid event (wi_state wi) s' reason actor t1 t2 (w_db w)\<rparr>"
  have "holds P ?w" using assms wi_transition by (simp add: holds_def)
  moreover have "keeps P (bnd (sync_human_label E wid (wi_state wi) s') (\<lambda>_. ret s'))"
    by (intro keeps_intros)
  ultimately have "holds P (snd (bnd (sync_human_label E wid (wi_state wi) s') (\<lambda>_. ret s') ?w))"
    by (simp add: keeps_def)
  then show ?thesis by (simp add: wi_commit_def run_simps t1_def t2_def)
qed

lemma wi_apply_keeps [keeps_intros]:
  assumes "\<And>s. keeps P (k s)"
  shows "keeps P (wi_apply E wid event reason actor k)"
proof (rule keepsI)
  fix w
  assume w: "holds P w"
  show "holds P (snd (wi_apply E wid event reason actor k w))"
    using w wi_commit_keeps assms
    by (auto simp: wi_apply_def bnd_wi_row keeps_def split: sum.split option.split)
qed

lemma wi_event_keeps [keeps_intros]: "keeps P (wi_event E wid event reason actor)"
  by (auto simp: wi_event_def note_event_def wi_event_names_def wi_edit_def intro!: keeps_intros)

lemma finding_event_keeps [keeps_intros]:
  assumes "event \<in> set CLOSING_EVENTS \<Longrightarrow> \<exists>r. run_id = Some r \<and> V r"
  shows "keeps P (finding_event E fid event reason actor run_id)"
proof (rule keepsI)
  fix w
  assume w: "holds P w"
  show "holds P (snd (finding_event E fid event reason actor run_id w))"
  proof (cases "get_row fd_id fid (db_findings (w_db w))")
    case None
    then show ?thesis using w by (simp add: finding_event_def bnd_fd_row)
  next
    case (Some f)
    show ?thesis
    proof (cases "next_finding_state (fd_state f) event")
      case (Inl e)
      have "keeps P (bnd (log_event E ''finding'' fid ''invalid_transition'' a b c ''controller'' []) (\<lambda>_. ret False))" for a b c
        by (intro keeps_intros) (simp add: note_event_def finding_event_names_def)
      with Some Inl w show ?thesis
        by (simp add: finding_event_def bnd_fd_row Let_def keeps_def)
    next
      case (Inr s')
      with Some w assms finding_transition show ?thesis
        by (simp add: finding_event_def bnd_fd_row run_simps holds_def)
    qed
  qed
qed

lemma raise_level_keeps [keeps_intros]: "keeps P (raise_level E wid prid level why)"
  by (auto simp: raise_level_def note_event_def wi_event_names_def wi_edit_def intro!: keeps_intros)

lemma reset_level_keeps [keeps_intros]: "keeps P (reset_level E wid prid level why)"
  by (auto simp: reset_level_def note_event_def wi_event_names_def wi_edit_def intro!: keeps_intros)

end

end
