(* ===== verification/Grouping.thy ===== *)
theory Grouping
  imports Core
begin

text \<open>
  Grouping of open and regressed findings into work items: \<^verbatim>\<open>create_work_items\<close>, \<^verbatim>\<open>_members_joined\<close>,
  \<^verbatim>\<open>_work_item_for_group\<close> and \<^verbatim>\<open>_latest_main_run\<close> of \<^verbatim>\<open>orchestrator/engine.py\<close>. The search for a free
  \<^verbatim>\<open>#rN\<close> suffix is a recursive function with its termination proof.
\<close>

section \<open>Work items of a group\<close>

definition suffixed :: "str \<Rightarrow> nat \<Rightarrow> str" where
  "suffixed key n = key @ ''#r'' @ show_nat n"

lemma suffixed_inj [simp]: "suffixed key a = suffixed key b \<longleftrightarrow> a = b"
  by (simp add: suffixed_def)

text \<open>\<open>while exists(f"{key}#r{n}"): n += 1\<close>.\<close>

function free_suffix :: "str list \<Rightarrow> str \<Rightarrow> nat \<Rightarrow> nat" where
  "free_suffix keys key n = (if suffixed key n \<in> set keys then free_suffix keys key (Suc n) else n)"
  by auto

termination
proof (relation "measure (\<lambda>(keys, key, n). card (set keys \<inter> suffixed key ` {n..}))", simp)
  fix keys key n
  assume mem: "suffixed key n \<in> set keys"
  have "set keys \<inter> suffixed key ` {Suc n..} \<subset> set keys \<inter> suffixed key ` {n..}"
  proof
    show "set keys \<inter> suffixed key ` {Suc n..} \<subseteq> set keys \<inter> suffixed key ` {n..}"
      by (intro Int_mono image_mono) auto
    have "suffixed key n \<in> set keys \<inter> suffixed key ` {n..}" using mem by auto
    moreover have "suffixed key n \<notin> suffixed key ` {Suc n..}" by (auto simp: image_iff)
    ultimately show "set keys \<inter> suffixed key ` {Suc n..} \<noteq> set keys \<inter> suffixed key ` {n..}" by blast
  qed
  then show "((keys, key, Suc n), keys, key, n) \<in> measure (\<lambda>(keys, key, n). card (set keys \<inter> suffixed key ` {n..}))"
    by (simp add: psubset_card_mono)
qed

declare free_suffix.simps [simp del]

lemma free_suffix_free: "suffixed key (free_suffix keys key n) \<notin> set keys"
  by (induction keys key n rule: free_suffix.induct) (metis free_suffix.simps)

lemma free_suffix_least: "n \<le> m \<Longrightarrow> m < free_suffix keys key n \<Longrightarrow> suffixed key m \<in> set keys"
proof (induction keys key n arbitrary: m rule: free_suffix.induct)
  case (1 keys key n)
  show ?case
  proof (cases "suffixed key n \<in> set keys")
    case True
    then have "free_suffix keys key n = free_suffix keys key (Suc n)" by (subst free_suffix.simps) simp
    with 1 True show ?thesis by (cases "m = n") auto
  next
    case False
    then have "free_suffix keys key n = n" by (subst free_suffix.simps) simp
    with 1 show ?thesis by simp
  qed
qed

definition group_item :: "Kind \<Rightarrow> str \<Rightarrow> Db \<Rightarrow> WorkItem option" where
  "group_item kind key d =
     find (\<lambda>w. wi_kind w = kind \<and> wi_group_key w = key \<and> wi_source_branch w = REMEDIATION_BRANCH) (db_work_items d)"

definition add_work_item :: "(nat \<Rightarrow> WorkItem) \<Rightarrow> Db \<Rightarrow> Db" where
  "add_work_item mk d = d\<lparr>db_work_items := db_work_items d @ [mk (next_id wi_id (db_work_items d))]\<rparr>"

text \<open>\<open>WorkItem(kind=..., ...)\<close> with the defaults of its columns.\<close>

definition new_work_item ::
    "Kind \<Rightarrow> str \<Rightarrow> str \<Rightarrow> Severity \<Rightarrow> Risk \<Rightarrow> nat option \<Rightarrow> int \<Rightarrow> int \<Rightarrow> nat \<Rightarrow> WorkItem" where
  "new_work_item kind key title severity risk regression_of t1 t2 wid =
     \<lparr>wi_id = wid, wi_kind = kind, wi_group_key = key, wi_title = title, wi_source_branch = ''main'',
      wi_severity = severity, wi_risk = risk, wi_state = W_queued, wi_acu_cap = of_nat (ACU_CAPS kind),
      wi_retries_used = 0, wi_budget_warning_sent = False, wi_active_session_id = None,
      wi_issue_number = None, wi_issue_url = None, wi_pr_number = None, wi_pr_url = None,
      wi_pr_head_sha = None, wi_merge_sha = None, wi_lifecycle_level = LL_none,
      wi_verification_depth = None, wi_blocked_reason = None, wi_human_resolution = None,
      wi_dispatch_failures = 0, wi_regression_of_work_item_id = regression_of, wi_created_at = t1,
      wi_updated_at = t2, wi_issue_opened_at = None, wi_pr_opened_at = None, wi_merged_at = None,
      wi_verified_at = None\<rparr>"

definition create_group_item :: "Env \<Rightarrow> Kind \<Rightarrow> str \<Rightarrow> Finding list \<Rightarrow> nat option \<Rightarrow> (nat \<times> bool) M" where
  "create_group_item E kind key members regression_of =
     (let severity = max_by severity_rank (fd_severity (hd members)) (map fd_severity (tl members));
          risk = (if list_ex (\<lambda>f. fd_risk f = RK_high) members then RK_high else RK_normal);
          first = hd members;
          title = title_for kind (map fd_vuln_id members) (fd_pkg_name first) (fd_pkg_version first) (fd_layer first) in
      bnd (now E) (\<lambda>t1. bnd (now E) (\<lambda>t2.
      bnd (query (\<lambda>d. next_id wi_id (db_work_items d))) (\<lambda>wid.
      bnd (write_db (add_work_item (new_work_item kind key title severity risk regression_of t1 t2))) (\<lambda>_.
      bnd (log_event E ''work_item'' wid ''created'' None (Some ''queued'')
             (show_nat (length members) @ '' findings; severity='' @ severity_value severity @ ''; risk='' @ risk_value risk @
              (case regression_of of None \<Rightarrow> [] | Some r \<Rightarrow> if r = 0 then [] else ''; regression_of='' @ show_nat r))
             ''controller'' []) (\<lambda>_.
      ret (wid, True)))))))"

definition work_item_for_group :: "Env \<Rightarrow> Kind \<Rightarrow> str \<Rightarrow> Finding list \<Rightarrow> (nat \<times> bool) M" where
  "work_item_for_group E kind key members =
     bnd (query (group_item kind key)) (\<lambda>existing.
     case existing of
       Some w \<Rightarrow>
         if wi_state w \<in> set [W_verified, W_abandoned]
         then bnd (query (\<lambda>d. map wi_group_key (db_work_items d))) (\<lambda>keys.
                create_group_item E kind (suffixed key (free_suffix keys key 1)) members (Some (wi_id w)))
         else ret (wi_id w, False)
     | None \<Rightarrow> create_group_item E kind key members None)"

definition bump_messages :: "str \<Rightarrow> unit M" where
  "bump_messages sid =
     bnd (query (session_by_devin_id (Some sid))) (\<lambda>r.
       case r of
         None \<Rightarrow> skip
       | Some s \<Rightarrow> edit_session (se_id s) (\<lambda>x. x\<lparr>se_messages_sent := Suc (se_messages_sent x)\<rparr>))"

definition members_joined :: "Env \<Rightarrow> nat \<Rightarrow> Finding list \<Rightarrow> unit M" where
  "members_joined E wid joining =
     bnd (wi_row wid) (\<lambda>wi.
     let vulns = sorted_set (map fd_vuln_id joining); n = show_nat (length joining) in
     bnd (wi_note E wi ''members_added'' (n @ '' new finding(s): '' @ join '', '' (take 8 vulns)) ''scanner'') (\<lambda>_.
     case wi_issue_number wi of
       None \<Rightarrow> skip
     | Some issue \<Rightarrow>
         if wi_state wi = W_queued then skip
         else
           bnd (gh_comment_issue E issue
                  (''A later scan added '' @ n @ '' finding(s) to this group: '' @
                   join '', '' (map (\<lambda>v. ''`'' @ v @ ''`'') (take 8 vulns)) @
                   ''. They must be remediated here too; this issue cannot close until every member is resolved.'')) (\<lambda>_.
           case wi_active_session_id wi of
             None \<Rightarrow> skip
           | Some sid \<Rightarrow>
               when_ok (wi_state wi \<in> set ACTIVE_WORK_ITEM_STATES)
                 (blk [dv_send_message E sid
                         (''New findings joined this work item: '' @ join '', '' (take 8 vulns) @
                          ''. Cover them in the same PR and list them in the structured output.''),
                       bump_messages sid]))))"

section \<open>The latest scan of the remediation branch\<close>

text \<open>NULL sorts below every instant, as in SQLite.\<close>

definition sql_time :: "int option \<Rightarrow> nat \<times> int" where
  "sql_time t = (case t of None \<Rightarrow> (0, 0) | Some x \<Rightarrow> (1, x))"

definition recency :: "ScanRun \<Rightarrow> (nat \<times> int) \<times> int \<times> nat" where
  "recency r = (sql_time (sr_finished_at r), sr_ingested_at r, sr_id r)"

definition latest_main_run :: "nat option \<Rightarrow> Db \<Rightarrow> ScanRun option" where
  "latest_main_run run_id d =
     (case run_id of
        Some i \<Rightarrow> get_row sr_id i (db_runs d)
      | None \<Rightarrow>
          (case filter (\<lambda>r. sr_source_repo r = FORK_REPO \<and> sr_source_branch r = REMEDIATION_BRANCH) (db_runs d) of
             [] \<Rightarrow> None
           | r # rs \<Rightarrow> Some (max_by recency r rs)))"

section \<open>Grouping\<close>

definition GROUPABLE :: "FindingState list" where
  [enum_defs]: "GROUPABLE = [F_open, F_regression]"

definition finding_group :: "Finding \<Rightarrow> (Kind \<times> str) option" where
  "finding_group f =
     (case fd_kind f of
        None \<Rightarrow> None
      | Some k \<Rightarrow> Some (k, group_key_for (Some k) (fd_pkg_name f) (fd_ecosystem f) (fd_layer f) (fd_dedupe_key f)))"

definition groupable_in :: "nat \<Rightarrow> Finding \<Rightarrow> bool" where
  "groupable_in run_id f \<longleftrightarrow> fd_last_seen_run_id f = run_id \<and> fd_state f \<in> set GROUPABLE"

definition group_buckets :: "nat \<Rightarrow> Db \<Rightarrow> (Kind \<times> str, nat list) dict" where
  "group_buckets run_id d =
     foldl (\<lambda>b f. case finding_group f of None \<Rightarrow> b | Some g \<Rightarrow> bucket_add g (fd_id f) b) []
       (filter (groupable_in run_id) (db_findings d))"

definition join_item :: "Env \<Rightarrow> nat \<Rightarrow> str \<Rightarrow> Finding \<Rightarrow> unit M" where
  "join_item E wid key f =
     bnd (set_owner (fd_id f) (Some wid)) (\<lambda>_.
     bnd (finding_event E (fd_id f) FE_grouped (''work_item='' @ show_nat wid @ '' '' @ key) ''controller'' None)
       (\<lambda>_. skip))"

definition group_one :: "Env \<Rightarrow> nat \<Rightarrow> nat list \<Rightarrow> (Kind \<times> str) \<times> nat list \<Rightarrow> nat list M" where
  "group_one E run_id created bucket =
     (case bucket of ((kind, key), ids) \<Rightarrow>
        write_scope (
          bnd (query (\<lambda>d. filter (groupable_in run_id) (List.map_filter (\<lambda>i. get_row fd_id i (db_findings d)) ids))) (\<lambda>members.
          if members = [] then ret created
          else
            bnd (work_item_for_group E kind key members) (\<lambda>(wid, is_new).
            bnd (wi_row wid) (\<lambda>wi.
            let joining = filter (\<lambda>f. fd_work_item_id f \<noteq> Some wid) members in
            bnd (when_ok (\<not> is_new \<and> joining \<noteq> []) (members_joined E wid joining)) (\<lambda>_.
            bnd (for_each joining (join_item E wid (wi_group_key wi))) (\<lambda>_.
            ret (if is_new then created @ [wid] else created))))))))"

definition create_work_items :: "Env \<Rightarrow> nat option \<Rightarrow> nat list M" where
  "create_work_items E run_id =
     bnd (session_scope (query (\<lambda>d. map_option (\<lambda>r. (sr_id r, group_buckets (sr_id r) d)) (latest_main_run run_id d))))
       (\<lambda>found. case found of
          None \<Rightarrow> ret []
        | Some (rid, buckets) \<Rightarrow> loop (group_one E rid) [] (sort_key fst buckets))"

section \<open>Preservation\<close>

context controller_invariant
begin

lemma bump_messages_keeps [keeps_intros]: "keeps P (bump_messages sid)"
  by (auto simp: bump_messages_def intro!: keeps_intros)

lemma add_work_item_keeps:
  "(\<And>i. wi_id (mk i) = i) \<Longrightarrow> (\<And>i. wi_state (mk i) = W_queued) \<Longrightarrow> keeps P (write_db (add_work_item mk))"
  by (auto simp: add_work_item_def intro!: keeps_write_db new_item)

lemma create_group_item_keeps [keeps_intros]: "keeps P (create_group_item E kind key members rof)"
  by (auto simp: create_group_item_def note_event_def wi_event_names_def new_work_item_def
      intro!: keeps_intros add_work_item_keeps)

lemma work_item_for_group_keeps [keeps_intros]: "keeps P (work_item_for_group E kind key members)"
  unfolding work_item_for_group_def by (intro keeps_intros)

lemma members_joined_keeps [keeps_intros]: "keeps P (members_joined E wid joining)"
  unfolding members_joined_def by (intro keeps_intros) (simp_all add: note_event_def wi_event_names_def)

lemma join_item_keeps [keeps_intros]: "keeps P (join_item E wid key f)"
  unfolding join_item_def by (intro keeps_intros) (simp add: enum_defs)

lemma group_one_keeps [keeps_intros]: "keeps P (group_one E rid created b)"
  unfolding group_one_def by (intro keeps_intros)

lemma create_work_items_keeps [keeps_intros]: "keeps P (create_work_items E run_id)"
  unfolding create_work_items_def by (intro keeps_intros)

end

end
