(* ===== verification/Policy.thy ===== *)
theory Policy
  imports Config Regex Protocol
begin

text \<open>
  The pure policy checks of \<^verbatim>\<open>orchestrator/policy.py\<close>: what a remediation PR may touch, whether a
  pull request is the one the session claims on the fork's remediation branch, and which severities
  dispatch without a human. The source's regular expressions are regular expressions here too.
\<close>

definition IGNORE_FILE_NAMES :: "str list" where
  "IGNORE_FILE_NAMES =
     [''.trivyignore'', ''.trivyignore.yaml'', ''.trivyignore.yml'', ''.grype.yaml'', ''.grype.yml'']"

definition PROTECTED_PATHS :: "str list" where
  "PROTECTED_PATHS =
     [''.github/workflows/security-scan.yml'', ''.github/workflows/app-runs.yml'',
      ''.github/workflows/lean-smoke.yml'', ''.github/workflows/install-scanners.yml'',
      ''.github/workflows/vex-lint.yml'']"

definition GENERATED_REQUIREMENTS :: regex where
  "GENERATED_REQUIREMENTS = re_seqs [re_lit ''requirements/'', re_dots, re_lit ''.txt'', re_end]"

definition REQUIREMENT_SOURCES :: regex where
  "REQUIREMENT_SOURCES =
     RSeq (RAlt (re_lit ''pyproject.toml'') (re_seqs [re_lit ''requirements/'', re_dots, re_lit ''.in''])) re_end"

definition VEX_APPROVED :: regex where
  "VEX_APPROVED = re_lit ''security/vex/approved/''"

definition VEX_PROPOSED :: regex where
  "VEX_PROPOSED = re_seqs [re_lit ''security/vex/proposed/'', re_dots, re_lit ''.json'', re_end]"

definition not_slash_plus :: regex where
  "not_slash_plus = re_plus (RChar (\<lambda>c. c \<noteq> CHR ''/''))"

definition PR_URL_RE :: regex where
  "PR_URL_RE = re_seqs [re_lit ''https://github.com/'', not_slash_plus, re_lit ''/'', not_slash_plus,
     re_lit ''/pull/'', re_digits, re_end]"

text \<open>
  The patterns that end in \<^verbatim>\<open>$\<close> decide the whole string, so \<open>match\<close> on them is \<open>re_full\<close>.
\<close>

definition is_generated_requirement :: "str \<Rightarrow> bool" where
  "is_generated_requirement n = re_full GENERATED_REQUIREMENTS n"
definition is_requirement_source :: "str \<Rightarrow> bool" where
  "is_requirement_source n = re_full REQUIREMENT_SOURCES n"
definition is_vex_approved :: "str \<Rightarrow> bool" where
  "is_vex_approved n = re_match VEX_APPROVED n"
definition is_vex_proposed :: "str \<Rightarrow> bool" where
  "is_vex_proposed n = re_full VEX_PROPOSED n"

definition name_violations :: "str \<Rightarrow> str list" where
  "name_violations n =
     (if after_last CHR ''/'' n \<in> set IGNORE_FILE_NAMES \<or> starts_with n ''.grype/'' \<or> contains_str n ''/.grype/''
      then [''scanner ignore file: '' @ n] else []) @
     (if n \<in> set PROTECTED_PATHS \<or> starts_with n ''ci-negative/''
      then [''protected CI path modified: '' @ n] else []) @
     (if is_vex_approved n then [''approved VEX directory touched: '' @ n] else []) @
     (if starts_with n ''security/vex/'' \<and> \<not> is_vex_proposed n \<and> \<not> is_vex_approved n
      then [''VEX outside security/vex/proposed/: '' @ n] else [])"

definition diff_policy_violations :: "DiffFile list \<Rightarrow> Kind \<Rightarrow> str list" where
  "diff_policy_violations files kind =
     (let names = map df_filename files;
          generated = filter is_generated_requirement names;
          sources = filter is_requirement_source names
      in concat (map name_violations names) @
         (if generated \<noteq> [] \<and> sources = [] \<and> kind \<noteq> K_dependency_upgrade
          then [''generated requirements changed without pyproject.toml/*.in: '' @ join '', '' generated] else []) @
         (if kind = K_no_fix_reachability
          then map (\<lambda>n. ''no-fix PR may only add proposed VEX/analysis, found: '' @ n)
                 (filter (\<lambda>n. \<not> (is_vex_proposed n \<or> starts_with n ''security/analysis/'')) names)
          else []) @
         (if kind = K_scanner_disagreement
          then [''scanner-disagreement work items are analysis-only; no PR expected''] else []))"

definition verify_pull_request :: "PullRequestInfo \<Rightarrow> str option \<Rightarrow> str list" where
  "verify_pull_request pr claimed_url =
     (if pi_repo pr \<notin> set REPO_ALLOWLIST \<or> pi_repo pr \<noteq> FORK_REPO
      then [''PR repo '' @ pi_repo pr @ '' is not the fork''] else []) @
     (if pi_base_ref pr \<noteq> REMEDIATION_BRANCH
      then [''PR base is '' @ repr_str (pi_base_ref pr) @ '', expected '' @ repr_str REMEDIATION_BRANCH] else []) @
     (if pi_head_repo pr \<noteq> FORK_REPO
      then [''PR head repo '' @ pi_head_repo pr @ '' is not the fork (no cross-fork PRs)''] else []) @
     (case claimed_url of
        None \<Rightarrow> []
      | Some u \<Rightarrow> if rstrip_char CHR ''/'' u \<noteq> rstrip_char CHR ''/'' (pi_url pr)
                 then [''structured_output.pr_url '' @ u @ '' != session PR '' @ pi_url pr] else [])"

text \<open>
  \<open>parse_pr_url\<close>: the groups of \<open>PR_URL_RE\<close>. No part of a match contains a slash of its own, so
  the groups are the parts between the slashes after the host.
\<close>

definition parse_pr_url :: "str \<Rightarrow> (str \<times> nat) option" where
  "parse_pr_url url =
     (let u = rstrip_char CHR ''/'' (strip url) in
      if re_full PR_URL_RE u
      then (case split_on CHR ''/'' (drop (length ''https://github.com/'') u) of
              [owner, name, pull, number] \<Rightarrow> Some (owner @ ''/'' @ name, read_nat (takeWhile is_digit number))
            | _ \<Rightarrow> None)
      else None)"

definition DEFAULT_DISPATCH_SEVERITIES :: "Severity list" where
  [enum_defs]: "DEFAULT_DISPATCH_SEVERITIES = [SEV_high, SEV_critical]"

definition dispatch_allowed :: "Severity \<Rightarrow> str list \<Rightarrow> bool" where
  "dispatch_allowed severity labels \<longleftrightarrow>
     severity \<in> set DEFAULT_DISPATCH_SEVERITIES \<or> human_label_value HL_dispatch_approved \<in> set labels"

section \<open>Facts about the checks\<close>

lemma diff_policy_clean_iff:
  "diff_policy_violations files kind = [] \<longleftrightarrow>
     kind \<noteq> K_scanner_disagreement \<and>
     list_all (\<lambda>f. name_violations (df_filename f) = []) files \<and>
     (kind = K_dependency_upgrade \<or> list_all (\<lambda>f. \<not> is_generated_requirement (df_filename f)) files \<or>
        list_ex (\<lambda>f. is_requirement_source (df_filename f)) files) \<and>
     (kind = K_no_fix_reachability \<longrightarrow>
        list_all (\<lambda>f. is_vex_proposed (df_filename f) \<or> starts_with (df_filename f) ''security/analysis/'') files)"
  by (auto simp: diff_policy_violations_def Let_def list_all_iff list_ex_iff filter_empty_conv split: if_splits)

lemma name_violations_clean:
  "name_violations n = [] \<Longrightarrow>
     after_last CHR ''/'' n \<notin> set IGNORE_FILE_NAMES \<and> n \<notin> set PROTECTED_PATHS \<and> \<not> is_vex_approved n \<and>
     (starts_with n ''security/vex/'' \<longrightarrow> is_vex_proposed n)"
  by (auto simp: name_violations_def split: if_splits)

lemma verify_pull_request_clean:
  "verify_pull_request pr claimed = [] \<longleftrightarrow>
     pi_repo pr = FORK_REPO \<and> pi_base_ref pr = REMEDIATION_BRANCH \<and> pi_head_repo pr = FORK_REPO \<and>
     (case claimed of None \<Rightarrow> True | Some u \<Rightarrow> rstrip_char CHR ''/'' u = rstrip_char CHR ''/'' (pi_url pr))"
  by (auto simp: verify_pull_request_def REPO_ALLOWLIST_def split: option.splits if_splits)

end
