(* ===== verification/Dispatch.thy ===== *)
theory Dispatch
  imports Grouping Policy
begin

text \<open>
  Issues and dispatch, from \<^verbatim>\<open>orchestrator/engine.py\<close>: filing or adopting the tracking issue of a queued
  item, and the reserve-reconcile-create protocol that gives an item exactly one Devin session. The
  attachment is kept as the JSON value that is serialised.
\<close>

definition nl :: str where "nl = ''\<newline>''"

definition SESSION_TAG :: str where "SESSION_TAG = ''hl''"
definition CONTROLLER_LABEL :: str where "CONTROLLER_LABEL = ''hardening-loop''"
definition AWAITING_DISPATCH_LABEL :: str where "AWAITING_DISPATCH_LABEL = ''awaiting-dispatch-approval''"

fun KIND_LABELS :: "Kind \<Rightarrow> str" where
  "KIND_LABELS K_dependency_upgrade = ''kind:dependency-upgrade''"
| "KIND_LABELS K_no_fix_reachability = ''kind:no-fix-reachability''"
| "KIND_LABELS K_container_hardening = ''kind:container-hardening''"
| "KIND_LABELS K_scanner_disagreement = ''kind:scanner-disagreement''"
| "KIND_LABELS K_helm_deploy_config = ''kind:helm-deploy-config''"

section \<open>The issue\<close>

definition issue_title :: "WorkItem \<Rightarrow> str" where
  "issue_title wi = ''[hardening-loop] '' @ wi_title wi"

definition opt_text :: "str option \<Rightarrow> str" where
  "opt_text x = or_str x []"

definition issue_row :: "Finding \<Rightarrow> str" where
  "issue_row f =
     ''| '' @ fd_vuln_id f @ '' | '' @ or_str (fd_pkg_name f) (opt_text (fd_resource f)) @ '' | '' @
     opt_text (fd_pkg_version f) @ '' | '' @ layer_value (fd_layer f) @ '' | '' @ severity_value (fd_severity f) @
     '' | '' @ (if fd_reported_by_trivy f then ''x'' else []) @ '' | '' @
     (if fd_reported_by_grype f then ''x'' else []) @ '' | '' @
     join '', '' (sorted_set (concat (map snd (fd_fix_versions_by_scanner f)))) @ '' |''"

definition issue_body :: "Env \<Rightarrow> WorkItem \<Rightarrow> Finding list \<Rightarrow> str" where
  "issue_body E wi members = join nl
     ([''**Kind '' @ show_nat (kind_value (wi_kind wi)) @ ''** `'' @ PLAYBOOK_SLUGS (wi_kind wi) @ ''` - group `'' @
         wi_group_key wi @ ''` - ACU cap '' @ fmt_fixed 0 (wi_acu_cap wi) @ '' - risk '' @ risk_value (wi_risk wi),
       [],
       ''Base branch: `'' @ REMEDIATION_BRANCH @ ''` in `'' @ repo_of E @
         ''`. Approvals and merges happen in GitHub only; the controller never merges.'',
       [],
       ''| id | package | version | layer | severity | trivy | grype | fix versions |'',
       ''|---|---|---|---|---|---|---|---|''] @
      map issue_row (sort_key (\<lambda>m. (- int (severity_rank (fd_severity m)), fd_vuln_id m)) members) @
      [[],
       ''_Managed by superset-hardening-loop. Labels: `retry`, `disposition:approved`, `disagreement:resolved`, `dispatch:approved`; closing this issue abandons the work item._''])"

definition open_controller_issues :: "Env \<Rightarrow> (str, Issue) dict option M" where
  "open_controller_issues E =
     bnd (try_except (bnd (gh_find_issues E CONTROLLER_LABEL ''open'') (\<lambda>xs. ret (Some xs))) (\<lambda>e. ret None)) (\<lambda>r.
     case r of
       None \<Rightarrow> ret None
     | Some issues \<Rightarrow>
         bnd (query (\<lambda>d. map wi_issue_number (db_work_items d))) (\<lambda>bound.
         ret (Some (foldl (\<lambda>by_title issue.
               if Some (is_number issue) \<notin> set bound \<and> dict_get by_title (is_title issue) = None
               then dict_set (is_title issue) issue by_title else by_title) []
             (sort_key is_number issues)))))"

definition issue_bound :: "nat \<Rightarrow> Db \<Rightarrow> bool" where
  "issue_bound number d \<longleftrightarrow> list_ex (\<lambda>w. wi_issue_number w = Some number) (db_work_items d)"

definition bind_issue :: "Env \<Rightarrow> nat \<Rightarrow> Issue \<Rightarrow> str \<Rightarrow> bool M" where
  "bind_issue E wid issue reason =
     bnd (now E) (\<lambda>t.
     bnd (edit_wi wid (\<lambda>w. w\<lparr>wi_issue_number := Some (is_number issue), wi_issue_url := Some (is_url issue),
                              wi_issue_opened_at := Some t\<rparr>)) (\<lambda>_.
     bnd (wi_event E wid E_issue_created reason ''controller'') (\<lambda>_. ret True)))"

definition issue_labels :: "WorkItem \<Rightarrow> str list" where
  "issue_labels wi =
     [CONTROLLER_LABEL, KIND_LABELS (wi_kind wi), ''severity:'' @ severity_value (wi_severity wi)] @
     (if wi_risk wi = RK_high then [''risk:high''] else []) @
     (if \<not> dispatch_allowed (wi_severity wi) [] then [AWAITING_DISPATCH_LABEL] else [])"

definition open_issue :: "Env \<Rightarrow> nat \<Rightarrow> (str, Issue) dict option \<Rightarrow> bool M" where
  "open_issue E wid existing0 =
     bnd (wi_row wid) (\<lambda>wi.
     bnd (case existing0 of None \<Rightarrow> open_controller_issues E | Some d \<Rightarrow> ret (Some d)) (\<lambda>existing.
     bnd (query (\<lambda>d. case existing of
            None \<Rightarrow> None
          | Some dict \<Rightarrow>
              (case dict_get dict (issue_title wi) of
                 None \<Rightarrow> None
               | Some i \<Rightarrow> if issue_bound (is_number i) d then None else Some i))) (\<lambda>found.
     case found of
       Some i \<Rightarrow> bind_issue E wid i (''adopted existing '' @ is_url i)
     | None \<Rightarrow>
         bnd (query (members_of wid)) (\<lambda>members.
         bnd (try_except
                (bnd (gh_create_issue E (issue_title wi) (issue_body E wi members) (issue_labels wi)) (\<lambda>i. ret (Inr i)))
                (\<lambda>e. ret (Inl e))) (\<lambda>r.
         case r of
           Inl e \<Rightarrow> bnd (wi_note E wi ''issue_create_failed'' (take 300 (exn_msg e)) ''controller'') (\<lambda>_. ret False)
         | Inr i \<Rightarrow> bind_issue E wid i (is_url i))))))"

definition items_in :: "WorkItemState \<Rightarrow> Db \<Rightarrow> nat list" where
  "items_in s d = map wi_id (filter (\<lambda>w. wi_state w = s) (db_work_items d))"

definition wi_get :: "nat \<Rightarrow> WorkItem option M" where
  "wi_get wid = query (\<lambda>d. get_row wi_id wid (db_work_items d))"

definition open_queued :: "Env \<Rightarrow> (str, Issue) dict option \<Rightarrow> nat \<Rightarrow> nat \<Rightarrow> nat M" where
  "open_queued E existing n wid =
     write_scope (bnd (wi_get wid) (\<lambda>r.
       case r of
         None \<Rightarrow> ret n
       | Some wi \<Rightarrow>
           if wi_state wi \<noteq> W_queued then ret n
           else bnd (open_issue E wid existing) (\<lambda>ok. ret (if ok then Suc n else n))))"

definition open_issues :: "Env \<Rightarrow> nat M" where
  "open_issues E =
     bnd (session_scope (bnd (query (items_in W_queued)) (\<lambda>queued.
            if queued = [] then ret None
            else bnd (open_controller_issues E) (\<lambda>existing. ret (Some (queued, existing)))))) (\<lambda>r.
     case r of
       None \<Rightarrow> ret 0
     | Some (queued, existing) \<Rightarrow> loop (open_queued E existing) 0 queued)"

section \<open>One session per item\<close>

definition dispatch_failed :: "Env \<Rightarrow> nat \<Rightarrow> str \<Rightarrow> str M" where
  "dispatch_failed E wid reason =
     bnd (edit_wi wid (\<lambda>w. w\<lparr>wi_dispatch_failures := Suc (wi_dispatch_failures w)\<rparr>)) (\<lambda>_.
     bnd (wi_row wid) (\<lambda>wi.
     bnd (if st_max_dispatch_failures (en_settings E) \<le> wi_dispatch_failures wi
          then wi_event E wid E_blocked (''dispatch_failed_repeatedly:'' @ take 200 reason) ''controller''
          else wi_event E wid E_dispatch_failed (take 300 reason) ''controller'') (\<lambda>_.
     ret ''failed'')))"

definition add_session :: "(nat \<Rightarrow> DevinSession) \<Rightarrow> Db \<Rightarrow> Db" where
  "add_session mk d = d\<lparr>db_sessions := db_sessions d @ [mk (next_id se_id (db_sessions d))]\<rparr>"

definition new_session :: "Env \<Rightarrow> WorkItem \<Rightarrow> SessionSnapshot \<Rightarrow> int \<Rightarrow> nat \<Rightarrow> DevinSession" where
  "new_session E wi snap t i =
     \<lparr>se_id = i, se_devin_id = ss_session_id snap, se_work_item_id = wi_id wi, se_url = ss_url snap,
      se_playbook_id = dict_get (en_playbook_ids E) (wi_kind wi), se_max_acu_limit = wi_acu_cap wi,
      se_status = devin_status_value (ss_status snap),
      se_status_detail = map_option devin_detail_value (ss_status_detail snap),
      se_acus_consumed = ss_acus_consumed snap, se_structured_output = None, se_pull_requests = [],
      se_messages_sent = 0, se_created_at = t, se_last_polled_at = None, se_finished_at = None\<rparr>"

definition record_session :: "Env \<Rightarrow> nat \<Rightarrow> SessionSnapshot \<Rightarrow> bool \<Rightarrow> unit M" where
  "record_session E wid snap adopted =
     bnd (wi_row wid) (\<lambda>wi.
     bnd (query (session_by_devin_id (Some (ss_session_id snap)))) (\<lambda>row.
     bnd (case row of
            Some s \<Rightarrow> ret (se_id s)
          | None \<Rightarrow>
              bnd (now E) (\<lambda>t. bnd (query (\<lambda>d. next_id se_id (db_sessions d))) (\<lambda>i.
              bnd (write_db (add_session (new_session E wi snap t))) (\<lambda>_. ret i)))) (\<lambda>sid.
     blk [edit_wi wid (\<lambda>w. w\<lparr>wi_active_session_id := Some (ss_session_id snap), wi_budget_warning_sent := False\<rparr>),
          log_event E ''session'' sid (if adopted then ''adopted'' else ''created'') None
            (Some (devin_status_value (ss_status snap)))
            (''work_item='' @ show_nat wid @ '' cap='' @ show_rat (wi_acu_cap wi)) ''controller'' []])))"

definition wi_tag :: "nat \<Rightarrow> str" where "wi_tag wid = ''wi-'' @ show_nat wid"

definition adopt_tagged_session :: "Env \<Rightarrow> nat \<Rightarrow> str option M" where
  "adopt_tagged_session E wid =
     bnd (query (\<lambda>d. map se_devin_id (filter (\<lambda>s. se_work_item_id s = wid) (db_sessions d)))) (\<lambda>known.
     bnd commit (\<lambda>_.
     bnd (try_except (bnd (dv_list_sessions E [wi_tag wid]) (\<lambda>xs. ret (Inr xs))) (\<lambda>e. ret (Inl e))) (\<lambda>r.
     case r of
       Inl e \<Rightarrow> bnd (dispatch_failed E wid (''list_sessions:'' @ exn_msg e)) (\<lambda>out. ret (Some out))
     | Inr remote_sessions \<Rightarrow>
         (case filter (\<lambda>s. is_active s \<or> ss_session_id s \<notin> set known) remote_sessions of
            [] \<Rightarrow> ret None
          | s # ss \<Rightarrow>
              let snap = max_by (\<lambda>s. (is_active s, ss_created_at s)) s ss in
              bnd (record_session E wid snap True) (\<lambda>_.
              bnd (wi_event E wid E_session_adopted (ss_session_id snap) ''controller'') (\<lambda>_.
              ret (Some ''adopted'')))))))"

definition json_opt :: "str option \<Rightarrow> json" where
  "json_opt x = (case x of None \<Rightarrow> JNull | Some s \<Rightarrow> JStr s)"

definition finding_json :: "Finding \<Rightarrow> json" where
  "finding_json f = JObj
     [(''id'', JStr (fd_vuln_id f)), (''dedupe_key'', JStr (fd_dedupe_key f)),
      (''package'', json_opt (fd_pkg_name f)), (''version'', json_opt (fd_pkg_version f)),
      (''purl'', json_opt (fd_purl f)), (''ecosystem'', JStr (ecosystem_value (fd_ecosystem f))),
      (''layer'', JStr (layer_value (fd_layer f))), (''resource'', json_opt (fd_resource f)),
      (''severity'', JStr (severity_value (fd_severity f))),
      (''severity_by_scanner'', JObj (map (\<lambda>(k, v). (k, JStr v)) (fd_severity_by_scanner f))),
      (''fix_versions_by_scanner'', JObj (map (\<lambda>(k, vs). (k, JArr (map JStr vs))) (fd_fix_versions_by_scanner f))),
      (''reported_by'', JArr (map JStr ((if fd_reported_by_trivy f then [''trivy''] else []) @
                                       (if fd_reported_by_grype f then [''grype''] else [])))),
      (''bound_blocked'', JBool (fd_bound_blocked f)), (''title'', json_opt (fd_title f))]"

definition findings_attachment :: "WorkItem \<Rightarrow> Finding list \<Rightarrow> json" where
  "findings_attachment wi members = JObj
     [(''work_item_id'', JInt (int (wi_id wi))), (''kind'', JInt (int (kind_value (wi_kind wi)))),
      (''playbook'', JStr (PLAYBOOK_SLUGS (wi_kind wi))), (''group_key'', JStr (wi_group_key wi)),
      (''acu_cap'', JFloat (wi_acu_cap wi)), (''findings'', JArr (map finding_json members))]"

definition prompt_for :: "Env \<Rightarrow> WorkItem \<Rightarrow> Finding list \<Rightarrow> str \<Rightarrow> str" where
  "prompt_for E wi members attachment_url = join nl
     [''Follow playbook `'' @ PLAYBOOK_SLUGS (wi_kind wi) @ ''` for work item wi-'' @ show_nat (wi_id wi) @ '' ('' @
        wi_title wi @ '') in '' @ repo_of E @ ''.'',
      ''Base branch: `'' @ REMEDIATION_BRANCH @ ''`. Never touch apache/superset or other branches.'',
      ''Tracking issue: '' @ show_opt_str (wi_issue_url wi),
      ''Findings ('' @ show_nat (length members) @ ''): '' @ join '', '' (take 12 (sorted_set (map fd_vuln_id members))),
      ''Machine-readable findings: '' @ attachment_url,
      ''Rules: never edit generated requirements files by hand (use ./scripts/uv-pip-compile.sh); never add scanner ignore files; never claim tests you did not run; open at most one PR; finish with the structured output.'',
      ''ACU cap for this session: '' @ fmt_fixed 0 (wi_acu_cap wi) @ ''.'']"

definition session_request :: "Env \<Rightarrow> WorkItem \<Rightarrow> Finding list \<Rightarrow> str \<Rightarrow> CreateSessionRequest" where
  "session_request E wi members attachment =
     \<lparr>csr_prompt = prompt_for E wi members attachment, csr_repos = [''github.com/'' @ repo_of E],
      csr_title = take 120 (''[hl wi-'' @ show_nat (wi_id wi) @ ''] '' @ wi_title wi),
      csr_tags = [SESSION_TAG, wi_tag (wi_id wi), ''kind-'' @ show_nat (kind_value (wi_kind wi))],
      csr_max_acu_limit = wi_acu_cap wi, csr_structured_output_schema = schema_for (wi_kind wi),
      csr_structured_output_required = True, csr_playbook_id = dict_get (en_playbook_ids E) (wi_kind wi),
      csr_knowledge_ids = en_knowledge_ids E, csr_attachment_urls = [attachment], csr_resumable = True\<rparr>"

definition session_started :: "Env \<Rightarrow> nat \<Rightarrow> nat \<Rightarrow> Finding list \<Rightarrow> SessionSnapshot \<Rightarrow> unit M" where
  "session_started E wid issue members snap = blk
     [record_session E wid snap False,
      bnd (wi_event E wid E_session_created (ss_session_id snap) ''controller'') (\<lambda>_. skip),
      for_each members (\<lambda>f.
        bnd (finding_event E (fd_id f) FE_remediation_started (ss_session_id snap) ''controller'' None) (\<lambda>_. skip)),
      bnd (wi_row wid) (\<lambda>wi.
        try_except
          (gh_comment_issue E issue (''Devin session started: '' @ or_str (Some (ss_url snap)) (ss_session_id snap) @
             '' (cap '' @ fmt_fixed 0 (wi_acu_cap wi) @ '' ACU)''))
          (\<lambda>e. wi_note E wi ''issue_comment_failed'' (take 300 (exn_msg e)) ''controller''))]"

text \<open>The Devin calls of a dispatch; the outcome or the exception they raised.\<close>

definition create_remote_session :: "Env \<Rightarrow> WorkItem \<Rightarrow> Finding list \<Rightarrow> (exn + SessionSnapshot) M" where
  "create_remote_session E wi members =
     try_except
       (bnd (dv_upload_attachment E (''findings-wi-'' @ show_nat (wi_id wi) @ ''.json'') (findings_attachment wi members))
          (\<lambda>attachment.
        bnd (dv_create_session E (session_request E wi members attachment)) (\<lambda>s. ret (Inr s))))
       (\<lambda>e. ret (Inl e))"

definition dispatch_one :: "Env \<Rightarrow> nat \<Rightarrow> str M" where
  "dispatch_one E wid =
     bnd (wi_row wid) (\<lambda>wi0.
     case wi_issue_number wi0 of
       None \<Rightarrow> raise (Exn ''AssertionError'' [])
     | Some issue \<Rightarrow>
         bnd (wi_event E wid E_dispatch_started ''capacity available'' ''controller'') (\<lambda>_.
         bnd commit (\<lambda>_.
         bnd (adopt_tagged_session E wid) (\<lambda>outcome.
         case outcome of
           Some out \<Rightarrow> ret out
         | None \<Rightarrow>
             bnd (query (members_of wid)) (\<lambda>members.
             bnd (wi_row wid) (\<lambda>wi.
             bnd commit (\<lambda>_.
             bnd (create_remote_session E wi members) (\<lambda>r.
             case r of
               Inl e \<Rightarrow> dispatch_failed E wid (''create_session:'' @ exn_msg e)
             | Inr snap \<Rightarrow> bnd (session_started E wid issue members snap) (\<lambda>_. ret ''created'')))))))))"

section \<open>The dispatch loop\<close>

definition recover_one :: "Env \<Rightarrow> nat list \<Rightarrow> nat \<Rightarrow> nat list M" where
  "recover_one E adopted wid =
     write_scope (bnd (wi_get wid) (\<lambda>r.
       case r of
         None \<Rightarrow> ret adopted
       | Some wi \<Rightarrow>
           if wi_state wi \<noteq> W_dispatching then ret adopted
           else
             bnd (wi_note E wi ''dispatch_recovery'' ''found in dispatching at tick start'' ''controller'') (\<lambda>_.
             bnd (adopt_tagged_session E wid) (\<lambda>outcome.
             bnd (case outcome of
                    Some out \<Rightarrow> ret out
                  | None \<Rightarrow> dispatch_failed E wid ''dispatching_recovered:no_session_at_devin'') (\<lambda>out.
             ret (if out = ''adopted'' then adopted @ [wid] else adopted))))))"

definition recover_dispatching :: "Env \<Rightarrow> nat list M" where
  "recover_dispatching E =
     bnd (session_scope (query (items_in W_dispatching))) (\<lambda>stuck. loop (recover_one E) [] stuck)"

definition dispatch_targets :: "Db \<Rightarrow> (nat \<times> nat \<times> Severity) list" where
  "dispatch_targets d =
     map (\<lambda>w. (wi_id w, the (wi_issue_number w), wi_severity w))
       (sort_key (\<lambda>w. (- int (severity_rank (wi_severity w)), wi_id w))
          (filter (\<lambda>w. wi_state w = W_issue_open \<and> wi_issue_number w \<noteq> None) (db_work_items d)))"

definition at_capacity :: "Env \<Rightarrow> Db \<Rightarrow> bool" where
  "at_capacity E d \<longleftrightarrow> st_max_concurrent_sessions (en_settings E) \<le> active_session_count d"

definition over_budget :: "Env \<Rightarrow> WorkItem \<Rightarrow> Db \<Rightarrow> bool" where
  "over_budget E wi d \<longleftrightarrow>
     st_global_acu_budget (en_settings E) < ab_committed (acu_budget_position d) + wi_acu_cap wi"

definition budget_text :: "Env \<Rightarrow> WorkItem \<Rightarrow> Db \<Rightarrow> str" where
  "budget_text E wi d =
     (let b = acu_budget_position d in
      ''consumed='' @ fmt_fixed 2 (ab_consumed b) @ ''+outstanding='' @ fmt_fixed 2 (ab_outstanding b) @ ''+cap='' @
      fmt_fixed 0 (wi_acu_cap wi) @ ''>budget='' @ fmt_fixed 0 (st_global_acu_budget (en_settings E)))"

text \<open>
  The write transaction of one candidate: None breaks out of the loop (capacity), otherwise the
  counters go on.
\<close>

definition dispatch_candidate :: "Env \<Rightarrow> nat \<Rightarrow> nat \<Rightarrow> nat \<times> nat list \<Rightarrow> (nat \<times> nat list) option M" where
  "dispatch_candidate E wid issue_number acc =
     write_scope (
       bnd (query (at_capacity E)) (\<lambda>full.
       if full then ret None
       else
         bnd (wi_get wid) (\<lambda>r.
         case r of
           None \<Rightarrow> ret (Some acc)
         | Some wi \<Rightarrow>
             if wi_state wi \<noteq> W_issue_open \<or> wi_issue_number wi \<noteq> Some issue_number then ret (Some acc)
             else
               bnd (query (\<lambda>d. (over_budget E wi d, budget_text E wi d))) (\<lambda>(over, why).
               if over then bnd (wi_note E wi ''budget_deferred'' why ''controller'') (\<lambda>_. ret (Some acc))
               else
                 bnd (dispatch_one E wid) (\<lambda>out.
                 ret (Some (if out = ''created'' then (Suc (fst acc), snd acc)
                            else if out = ''adopted'' then (fst acc, snd acc @ [wid])
                            else acc)))))))"

fun dispatch_loop :: "Env \<Rightarrow> (nat \<times> nat \<times> Severity) list \<Rightarrow> nat \<times> nat list \<Rightarrow> (nat \<times> nat list) M" where
  "dispatch_loop E [] acc = ret acc"
| "dispatch_loop E ((wid, issue_number, severity) # targets) acc =
     bnd (session_scope (query (at_capacity E))) (\<lambda>full.
     if full then ret acc
     else
       bnd (gh_get_issue E issue_number) (\<lambda>issue.
       if \<not> dispatch_allowed severity (is_labels issue) then dispatch_loop E targets acc
       else
         bnd (dispatch_candidate E wid issue_number acc) (\<lambda>r.
         case r of None \<Rightarrow> ret acc | Some acc' \<Rightarrow> dispatch_loop E targets acc')))"

definition dispatch :: "Env \<Rightarrow> (nat \<times> nat list \<times> nat) M" where
  "dispatch E =
     bnd (open_issues E) (\<lambda>issues.
     bnd (recover_dispatching E) (\<lambda>adopted.
     bnd (session_scope (query dispatch_targets)) (\<lambda>targets.
     bnd (dispatch_loop E targets (0, adopted)) (\<lambda>(created, adopted').
     ret (created, adopted', issues)))))"

section \<open>Preservation\<close>

lemmas note_simps = note_event_def wi_event_names_def finding_event_names_def wi_edit_def

context controller_invariant
begin

lemma wi_get_keeps [keeps_intros]: "keeps P (wi_get wid)"
  by (simp add: wi_get_def keeps_query)

lemma open_controller_issues_keeps [keeps_intros]: "keeps P (open_controller_issues E)"
  unfolding open_controller_issues_def by (intro keeps_intros)

lemma bind_issue_keeps [keeps_intros]: "keeps P (bind_issue E wid i reason)"
  unfolding bind_issue_def by (intro keeps_intros) (simp add: note_simps)

lemma open_issue_keeps [keeps_intros]: "keeps P (open_issue E wid existing)"
  unfolding open_issue_def by (intro keeps_intros) (simp add: note_simps)

lemma open_queued_keeps [keeps_intros]: "keeps P (open_queued E existing n wid)"
  unfolding open_queued_def by (intro keeps_intros)

lemma open_issues_keeps [keeps_intros]: "keeps P (open_issues E)"
  unfolding open_issues_def by (intro keeps_intros)

lemma dispatch_failed_keeps [keeps_intros]: "keeps P (dispatch_failed E wid reason)"
  unfolding dispatch_failed_def by (intro keeps_intros) (simp add: note_simps)

lemma add_session_keeps [keeps_intros]: "keeps P (write_db (add_session mk))"
  by (auto simp: add_session_def intro!: keeps_write_db sessions)

lemma record_session_keeps [keeps_intros]: "keeps P (record_session E wid snap adopted)"
  unfolding record_session_def by (intro keeps_intros) (simp_all add: note_simps)

lemma adopt_tagged_session_keeps [keeps_intros]: "keeps P (adopt_tagged_session E wid)"
  unfolding adopt_tagged_session_def by (intro keeps_intros)

lemma session_started_keeps [keeps_intros]: "keeps P (session_started E wid issue members snap)"
  unfolding session_started_def by (intro keeps_intros) (simp_all add: note_simps enum_defs)

lemma create_remote_session_keeps [keeps_intros]: "keeps P (create_remote_session E wi members)"
  unfolding create_remote_session_def by (intro keeps_intros)

lemma dispatch_one_keeps [keeps_intros]: "keeps P (dispatch_one E wid)"
  unfolding dispatch_one_def by (intro keeps_intros)

lemma recover_one_keeps [keeps_intros]: "keeps P (recover_one E adopted wid)"
  unfolding recover_one_def by (intro keeps_intros) (simp add: note_simps)

lemma recover_dispatching_keeps [keeps_intros]: "keeps P (recover_dispatching E)"
  unfolding recover_dispatching_def by (intro keeps_intros)

lemma dispatch_candidate_keeps [keeps_intros]: "keeps P (dispatch_candidate E wid n acc)"
  unfolding dispatch_candidate_def by (intro keeps_intros) (simp add: note_simps)

lemma dispatch_loop_keeps [keeps_intros]: "keeps P (dispatch_loop E targets acc)"
  by (induction E targets acc rule: dispatch_loop.induct) (auto intro!: keeps_intros)

lemma dispatch_keeps [keeps_intros]: "keeps P (dispatch E)"
  unfolding dispatch_def by (intro keeps_intros)

end

end
