(* ===== verification/Launch.thy ===== *)
theory Launch
  imports Policy
begin

text \<open>
  \<^verbatim>\<open>orchestrator/launch.py\<close>: the operator's launch and cancel previews, pure functions of the work
  item's state and of the shared capacity and budget figures.
\<close>

datatype LaunchAction =
    LA_launch
  | LA_relaunch

datatype LaunchBlock =
    LB_dispatch_in_progress
  | LB_session_in_flight
  | LB_awaiting_human_merge
  | LB_awaiting_rescan
  | LB_closed
  | LB_at_capacity
  | LB_over_budget
  | LB_scan_pending

fun launch_block_value :: "LaunchBlock \<Rightarrow> str" where
  "launch_block_value LB_dispatch_in_progress = ''dispatch_in_progress''"
| "launch_block_value LB_session_in_flight = ''session_in_flight''"
| "launch_block_value LB_awaiting_human_merge = ''awaiting_human_merge''"
| "launch_block_value LB_awaiting_rescan = ''awaiting_rescan''"
| "launch_block_value LB_closed = ''closed''"
| "launch_block_value LB_at_capacity = ''at_capacity''"
| "launch_block_value LB_over_budget = ''over_budget''"
| "launch_block_value LB_scan_pending = ''scan_pending''"

record LaunchPreview =
  lp_work_item_id :: nat
  lp_state :: WorkItemState
  lp_action :: "LaunchAction option"
  lp_block :: "LaunchBlock option"
  lp_needs_issue :: bool
  lp_needs_dispatch_approval :: bool
  lp_acu_cap :: rat
  lp_active_sessions :: nat
  lp_max_concurrent_sessions :: nat
  lp_acu_consumed :: rat
  lp_acu_outstanding :: rat
  lp_global_acu_budget :: rat
  lp_repo :: str
  lp_branch :: str
  lp_pending_scans :: nat

definition lp_eligible :: "LaunchPreview \<Rightarrow> bool" where
  "lp_eligible p \<longleftrightarrow> lp_action p \<noteq> None \<and> lp_block p = None"

definition acu_committed_after :: "LaunchPreview \<Rightarrow> rat" where
  "acu_committed_after p = lp_acu_consumed p + lp_acu_outstanding p + lp_acu_cap p"

record LaunchResult =
  lr_outcome :: str
  lr_work_item_id :: nat
  lr_reason :: str
  lr_session_id :: "str option"
  lr_session_url :: "str option"
  lr_issue_url :: "str option"

definition lr_ok :: "LaunchResult \<Rightarrow> bool" where
  "lr_ok r \<longleftrightarrow> lr_outcome r \<in> set [''created'', ''adopted'']"

definition action_for :: "WorkItemState \<Rightarrow> LaunchAction option \<times> LaunchBlock option" where
  "action_for state =
     (if state \<in> set [W_queued, W_issue_open] then (Some LA_launch, None)
      else if state \<in> set [W_needs_human, W_failed] then (Some LA_relaunch, None)
      else if state = W_dispatching then (None, Some LB_dispatch_in_progress)
      else if state \<in> set ACTIVE_WORK_ITEM_STATES then (None, Some LB_session_in_flight)
      else if state = W_ready_for_human then (None, Some LB_awaiting_human_merge)
      else if state \<in> set [W_merged, W_awaiting_rescan] then (None, Some LB_awaiting_rescan)
      else if state \<in> set TERMINAL_WORK_ITEM_STATES then (None, Some LB_closed)
      else (None, Some LB_closed))"

definition preview ::
    "nat \<Rightarrow> WorkItemState \<Rightarrow> Severity \<Rightarrow> bool \<Rightarrow> rat \<Rightarrow> nat \<Rightarrow> nat \<Rightarrow> rat \<Rightarrow> rat \<Rightarrow> rat \<Rightarrow> str \<Rightarrow> str \<Rightarrow> nat
       \<Rightarrow> LaunchPreview" where
  "preview work_item_id state severity has_issue acu_cap active_sessions max_concurrent_sessions
     acu_consumed acu_outstanding global_acu_budget repo branch pending_scans =
     (let (action, block0) = action_for state;
          block = (if action \<noteq> None \<and> block0 = None then
                     (if pending_scans \<noteq> 0 then Some LB_scan_pending
                      else if max_concurrent_sessions \<le> active_sessions then Some LB_at_capacity
                      else if global_acu_budget < acu_consumed + acu_outstanding + acu_cap then Some LB_over_budget
                      else block0)
                   else block0)
      in \<lparr>lp_work_item_id = work_item_id, lp_state = state, lp_action = action, lp_block = block,
          lp_needs_issue = (\<not> has_issue),
          lp_needs_dispatch_approval = (severity \<notin> set DEFAULT_DISPATCH_SEVERITIES),
          lp_acu_cap = acu_cap, lp_active_sessions = active_sessions,
          lp_max_concurrent_sessions = max_concurrent_sessions, lp_acu_consumed = acu_consumed,
          lp_acu_outstanding = acu_outstanding, lp_global_acu_budget = global_acu_budget,
          lp_repo = repo, lp_branch = branch, lp_pending_scans = pending_scans\<rparr>)"

datatype CancelBlock =
    CB_no_session
  | CB_pr_recorded
  | CB_not_active

fun cancel_block_value :: "CancelBlock \<Rightarrow> str" where
  "cancel_block_value CB_no_session = ''no_session''"
| "cancel_block_value CB_pr_recorded = ''pr_recorded''"
| "cancel_block_value CB_not_active = ''not_active''"

record CancelPreview =
  cp_work_item_id :: nat
  cp_state :: WorkItemState
  cp_block :: "CancelBlock option"
  cp_session_id :: "str option"
  cp_session_url :: "str option"
  cp_acus_consumed :: rat
  cp_acu_cap :: rat

definition cp_eligible :: "CancelPreview \<Rightarrow> bool" where
  "cp_eligible p \<longleftrightarrow> cp_block p = None"

record CancelResult =
  cn_outcome :: str
  cn_work_item_id :: nat
  cn_reason :: str
  cn_session_id :: "str option"
  cn_session_url :: "str option"
  cn_acus_consumed :: "rat option"

definition cn_ok :: "CancelResult \<Rightarrow> bool" where
  "cn_ok r \<longleftrightarrow> cn_outcome r = ''cancelled''"

definition cancel_block_for :: "WorkItemState \<Rightarrow> bool \<Rightarrow> bool \<Rightarrow> CancelBlock option" where
  "cancel_block_for state has_session has_pr =
     (if state \<noteq> W_session_active then Some CB_not_active
      else if \<not> has_session then Some CB_no_session
      else if has_pr then Some CB_pr_recorded
      else None)"

section \<open>Facts about the previews\<close>

lemma action_for_launch: "fst (action_for s) = Some LA_launch \<longleftrightarrow> s = W_queued \<or> s = W_issue_open"
  by (cases s) (simp_all add: action_for_def enum_defs)

lemma action_for_relaunch: "fst (action_for s) = Some LA_relaunch \<longleftrightarrow> s = W_needs_human \<or> s = W_failed"
  by (cases s) (simp_all add: action_for_def enum_defs)

lemma action_for_exclusive: "(fst (action_for s) = None) \<noteq> (snd (action_for s) = None)"
  by (cases s) (simp_all add: action_for_def enum_defs)

lemma preview_sel:
  "lp_action (preview w s sev hi cap act mx con out bud r b pend) = fst (action_for s)"
  "lp_eligible (preview w s sev hi cap act mx con out bud r b pend) \<longleftrightarrow>
     fst (action_for s) \<noteq> None \<and> pend = 0 \<and> act < mx \<and> con + out + cap \<le> bud"
  "lp_needs_dispatch_approval (preview w s sev hi cap act mx con out bud r b pend) \<longleftrightarrow>
     sev \<notin> set DEFAULT_DISPATCH_SEVERITIES"
  using action_for_exclusive [of s]
  by (auto simp: preview_def Let_def lp_eligible_def split: prod.splits)

lemma cancel_block_for_None:
  "cancel_block_for s has_session has_pr = None \<longleftrightarrow> s = W_session_active \<and> has_session \<and> \<not> has_pr"
  by (simp add: cancel_block_for_def)

end
