(* ===== verification/Operate.thy ===== *)
theory Operate
  imports Dispatch Launch
begin

text \<open>
  The operator's actions of \<^verbatim>\<open>orchestrator/engine.py\<close>: launching one work item and stopping the one
  session that works on an item. Each runs in one write transaction; a refusal is recorded too.
\<close>

section \<open>Previews\<close>

definition not_found :: "nat \<Rightarrow> exn" where
  "not_found wid = lookup_error (''work item '' @ show_nat wid @ '' not found'')"

definition launch_preview_of :: "Env \<Rightarrow> WorkItem \<Rightarrow> Db \<Rightarrow> LaunchPreview" where
  "launch_preview_of E wi d =
     (let budget = acu_budget_position d in
      preview (wi_id wi) (wi_state wi) (wi_severity wi) (wi_issue_number wi \<noteq> None) (wi_acu_cap wi)
        (active_session_count d) (st_max_concurrent_sessions (en_settings E)) (ab_consumed budget)
        (ab_outstanding budget) (st_global_acu_budget (en_settings E)) (repo_of E) REMEDIATION_BRANCH
        (pending_scan_run_count d))"

definition launch_preview :: "Env \<Rightarrow> nat \<Rightarrow> LaunchPreview M" where
  "launch_preview E wid = session_scope (bnd (wi_get wid) (\<lambda>r.
     case r of None \<Rightarrow> raise (not_found wid) | Some wi \<Rightarrow> query (launch_preview_of E wi)))"

definition launch_previews :: "Env \<Rightarrow> nat list \<Rightarrow> (nat, LaunchPreview) dict M" where
  "launch_previews E wids = session_scope (query (\<lambda>d.
     map (\<lambda>wi. (wi_id wi, launch_preview_of E wi d)) (filter (\<lambda>wi. wi_id wi \<in> set wids) (db_work_items d))))"

definition active_session_row :: "WorkItem \<Rightarrow> Db \<Rightarrow> DevinSession option" where
  "active_session_row wi d =
     (if truthy_str (wi_active_session_id wi) then session_by_devin_id (wi_active_session_id wi) d else None)"

definition cancel_preview_of :: "WorkItem \<Rightarrow> Db \<Rightarrow> CancelPreview" where
  "cancel_preview_of wi d =
     (let row = active_session_row wi d in
      \<lparr>cp_work_item_id = wi_id wi, cp_state = wi_state wi,
       cp_block = cancel_block_for (wi_state wi) (row \<noteq> None) (wi_pr_number wi \<noteq> None),
       cp_session_id = map_option se_devin_id row, cp_session_url = map_option se_url row,
       cp_acus_consumed = (case row of None \<Rightarrow> 0 | Some s \<Rightarrow> se_acus_consumed s), cp_acu_cap = wi_acu_cap wi\<rparr>)"

definition cancel_preview :: "nat \<Rightarrow> CancelPreview M" where
  "cancel_preview wid = session_scope (bnd (wi_get wid) (\<lambda>r.
     case r of None \<Rightarrow> raise (not_found wid) | Some wi \<Rightarrow> query (cancel_preview_of wi)))"

section \<open>Stopping a session\<close>

text \<open>What a snapshot writes into its session row.\<close>

definition seen_snapshot :: "SessionSnapshot \<Rightarrow> int \<Rightarrow> DevinSession \<Rightarrow> DevinSession" where
  "seen_snapshot snap t s =
     s\<lparr>se_status := devin_status_value (ss_status snap),
       se_status_detail := map_option devin_detail_value (ss_status_detail snap),
       se_acus_consumed := ss_acus_consumed snap, se_structured_output := ss_structured_output snap,
       se_pull_requests := ss_pull_requests snap, se_last_polled_at := Some t\<rparr>"

definition add_poll :: "nat \<Rightarrow> SessionSnapshot \<Rightarrow> int \<Rightarrow> str \<Rightarrow> str \<Rightarrow> unit M" where
  "add_poll sid snap t decision reason =
     write_db (\<lambda>d. d\<lparr>db_polls := db_polls d @
       [\<lparr>sp_id = next_id sp_id (db_polls d), sp_session_id = sid, sp_polled_at = t,
         sp_status = devin_status_value (ss_status snap),
         sp_status_detail = map_option devin_detail_value (ss_status_detail snap),
         sp_acus_consumed = ss_acus_consumed snap, sp_decision = decision, sp_reason = reason\<rparr>]\<rparr>)"

definition cancel_rejected :: "Env \<Rightarrow> WorkItem \<Rightarrow> CancelPreview \<Rightarrow> str \<Rightarrow> CancelResult M" where
  "cancel_rejected E wi pv operator =
     (let reason = (case cp_block pv of Some b \<Rightarrow> cancel_block_value b | None \<Rightarrow> ''ineligible'') in
      bnd (wi_note E wi ''operator_cancel_refused'' (reason @ ''; operator='' @ operator) ''operator'') (\<lambda>_.
      ret \<lparr>cn_outcome = ''rejected'', cn_work_item_id = wi_id wi, cn_reason = reason, cn_session_id = None,
           cn_session_url = None, cn_acus_consumed = None\<rparr>))"

definition cancel_recorded :: "Env \<Rightarrow> WorkItem \<Rightarrow> DevinSession \<Rightarrow> CancelPreview \<Rightarrow> str \<Rightarrow> SessionSnapshot \<Rightarrow> CancelResult M" where
  "cancel_recorded E wi row pv operator snap =
     (let acus = fmt_fixed 2 (ss_acus_consumed snap); wid = wi_id wi in
      bnd (now E) (\<lambda>t.
      bnd (blk
        [edit_session (se_id row) (\<lambda>s. (seen_snapshot snap t s)
           \<lparr>se_finished_at := (case se_finished_at s of None \<Rightarrow> Some t | Some f \<Rightarrow> Some f)\<rparr>),
         add_poll (se_id row) snap t ''terminated''
           (''operator '' @ operator @ '' stopped the session from the dashboard''),
         log_event E ''session'' (se_id row) ''operator_cancelled'' (Some (work_item_state_value W_session_active))
           (Some (devin_status_value (ss_status snap))) (''operator='' @ operator @ ''; acus='' @ acus) ''operator'' [],
         bnd (wi_event E wid E_operator_cancelled
           (''operator_cancelled:'' @ operator @ '' stopped the Devin session after '' @ acus @ '' ACU'') ''operator'')
           (\<lambda>_. skip),
         case wi_issue_number wi of
           None \<Rightarrow> skip
         | Some n \<Rightarrow>
             try_except (gh_comment_issue E n
               (''Operator `'' @ operator @ ''` stopped the Devin session from the dashboard after '' @ acus @
                '' ACU. Relaunch from the dashboard or add the `'' @ human_label_value HL_retry @ ''` label to try again.''))
               (\<lambda>e. skip)]) (\<lambda>_.
      bnd (wi_row wid) (\<lambda>wi'.
      ret \<lparr>cn_outcome = ''cancelled'', cn_work_item_id = wid,
           cn_reason = or_str (wi_blocked_reason wi') ''operator_cancelled'', cn_session_id = cp_session_id pv,
           cn_session_url = cp_session_url pv, cn_acus_consumed = Some (ss_acus_consumed snap)\<rparr>))))"

definition cancel :: "Env \<Rightarrow> nat \<Rightarrow> str \<Rightarrow> CancelResult M" where
  "cancel E wid operator = write_scope (bnd (wi_get wid) (\<lambda>r.
     case r of
       None \<Rightarrow> raise (not_found wid)
     | Some wi \<Rightarrow>
         bnd (query (\<lambda>d. (cancel_preview_of wi d, active_session_row wi d))) (\<lambda>(pv, found).
         case (cp_eligible pv, found) of
           (True, Some row) \<Rightarrow>
             bnd (wi_note E wi ''operator_cancel_requested''
                    (''session='' @ se_devin_id row @ ''; operator='' @ operator) ''operator'') (\<lambda>_.
             bnd commit (\<lambda>_.
             bnd (try_except (bnd (dv_terminate_session E (se_devin_id row)) (\<lambda>s. ret (Inr s))) (\<lambda>e. ret (Inl e))) (\<lambda>t.
             case t of
               Inl e \<Rightarrow>
                 bnd (wi_note E wi ''operator_cancel_failed''
                        (take 500 (''devin:'' @ exn_msg e @ ''; operator='' @ operator)) ''operator'') (\<lambda>_.
                 ret \<lparr>cn_outcome = ''failed'', cn_work_item_id = wid,
                      cn_reason = take 300 (''terminate_session failed: '' @ exn_msg e),
                      cn_session_id = cp_session_id pv, cn_session_url = cp_session_url pv, cn_acus_consumed = None\<rparr>)
             | Inr snap \<Rightarrow> cancel_recorded E wi row pv operator snap)))
         | _ \<Rightarrow> cancel_rejected E wi pv operator)))"

section \<open>Launching an item\<close>

definition launch_result :: "str \<Rightarrow> nat \<Rightarrow> str \<Rightarrow> str option \<Rightarrow> LaunchResult" where
  "launch_result outcome wid reason issue_url =
     \<lparr>lr_outcome = outcome, lr_work_item_id = wid, lr_reason = reason, lr_session_id = None,
      lr_session_url = None, lr_issue_url = issue_url\<rparr>"

definition relaunch_reset :: "Env \<Rightarrow> nat \<Rightarrow> str \<Rightarrow> unit M" where
  "relaunch_reset E wid operator =
     bnd (wi_row wid) (\<lambda>wi. blk
       [case wi_issue_number wi of
          None \<Rightarrow> skip
        | Some n \<Rightarrow> try_except (gh_remove_label E n (human_label_value HL_retry)) (\<lambda>e. skip),
        edit_wi wid (\<lambda>w. w\<lparr>wi_retries_used := 0, wi_active_session_id := None, wi_blocked_reason := None\<rparr>),
        bnd (wi_event E wid E_human_retry (''operator='' @ operator) ''operator'') (\<lambda>_. skip)])"

definition revoke_dispatch_approval :: "Env \<Rightarrow> nat \<Rightarrow> unit M" where
  "revoke_dispatch_approval E n =
     try_except (blk [gh_remove_label E n (human_label_value HL_dispatch_approved),
                      gh_add_labels E n [AWAITING_DISPATCH_LABEL]]) (\<lambda>e. skip)"

definition launch_failed :: "Env \<Rightarrow> nat \<Rightarrow> str \<Rightarrow> LaunchResult M" where
  "launch_failed E wid reason =
     bnd (wi_row wid) (\<lambda>wi.
     bnd (wi_note E wi ''operator_launch_failed'' (take 300 reason) ''operator'') (\<lambda>_.
     ret (launch_result ''failed'' wid (take 300 reason) (wi_issue_url wi))))"

text \<open>
  The approval label and the comment: whether the approval was granted here, and the exception
  that ended the attempt, if any.
\<close>

definition approve_on_issue :: "Env \<Rightarrow> WorkItem \<Rightarrow> nat \<Rightarrow> bool \<Rightarrow> str \<Rightarrow> (bool \<times> exn option) M" where
  "approve_on_issue E wi n needs_approval operator =
     bnd (if needs_approval
          then try_except (bnd (gh_add_labels E n [human_label_value HL_dispatch_approved]) (\<lambda>_. ret None)) (\<lambda>e. ret (Some e))
          else ret None) (\<lambda>r.
     case r of
       Some e \<Rightarrow> ret (False, Some e)
     | None \<Rightarrow>
         bnd (when_ok needs_approval (try_except (gh_remove_label E n AWAITING_DISPATCH_LABEL) (\<lambda>e. skip))) (\<lambda>_.
         try_except
           (bnd (gh_comment_issue E n (''Operator `'' @ operator @ ''` launched Devin from the dashboard (cap '' @
                   fmt_fixed 0 (wi_acu_cap wi) @ '' ACU, base `'' @ REMEDIATION_BRANCH @ ''`).''))
              (\<lambda>_. ret (needs_approval, None)))
           (\<lambda>e. ret (needs_approval, Some e))))"

definition last_event_reason :: "nat \<Rightarrow> Db \<Rightarrow> str option" where
  "last_event_reason wid d =
     (case filter (\<lambda>e. el_entity_type e = ''work_item'' \<and> el_entity_id e = wid) (db_events d) of
        [] \<Rightarrow> None
      | e # es \<Rightarrow> el_reason (max_by el_id e es))"

definition launch_outcome :: "nat \<Rightarrow> str \<Rightarrow> LaunchResult M" where
  "launch_outcome wid outcome =
     bnd (wi_row wid) (\<lambda>wi.
     bnd (query (\<lambda>d. (active_session_row wi d, last_event_reason wid d))) (\<lambda>(row, last_reason).
     let reason = (if outcome = ''failed''
                   then take 300 (or_str (wi_blocked_reason wi) (or_str last_reason ''dispatch_failed''))
                   else outcome) in
     ret \<lparr>lr_outcome = outcome, lr_work_item_id = wid, lr_reason = reason,
          lr_session_id = map_option se_devin_id row, lr_session_url = map_option se_url row,
          lr_issue_url = wi_issue_url wi\<rparr>))"

definition launch_on_issue :: "Env \<Rightarrow> nat \<Rightarrow> nat \<Rightarrow> LaunchPreview \<Rightarrow> str \<Rightarrow> LaunchResult M" where
  "launch_on_issue E wid n pv operator =
     bnd (wi_row wid) (\<lambda>wi.
     bnd (approve_on_issue E wi n (lp_needs_dispatch_approval pv) operator) (\<lambda>(approved_here, failure).
     case failure of
       Some e \<Rightarrow>
         bnd (when_ok approved_here (revoke_dispatch_approval E n)) (\<lambda>_.
         launch_failed E wid (''github:'' @ exn_msg e))
     | None \<Rightarrow>
         bnd (wi_note E wi ''operator_launch'' (''operator='' @ operator @ ''; cap='' @ fmt_fixed 0 (wi_acu_cap wi)) ''operator'') (\<lambda>_.
         bnd (gh_get_issue E n) (\<lambda>issue.
         if \<not> dispatch_allowed (wi_severity wi) (is_labels issue)
         then launch_failed E wid ''dispatch_not_allowed_after_labeling''
         else bnd (dispatch_one E wid) (launch_outcome wid)))))"

definition launch :: "Env \<Rightarrow> nat \<Rightarrow> str \<Rightarrow> LaunchResult M" where
  "launch E wid operator = write_scope (bnd (wi_get wid) (\<lambda>r.
     case r of
       None \<Rightarrow> raise (not_found wid)
     | Some wi \<Rightarrow>
         bnd (query (launch_preview_of E wi)) (\<lambda>pv.
         if \<not> lp_eligible pv then
           (let reason = (case lp_block pv of Some b \<Rightarrow> launch_block_value b | None \<Rightarrow> ''ineligible'') in
            bnd (wi_note E wi ''operator_launch_refused'' (reason @ ''; operator='' @ operator) ''operator'') (\<lambda>_.
            ret (launch_result ''rejected'' wid reason (wi_issue_url wi))))
         else
           bnd (when_ok (lp_action pv = Some LA_relaunch) (relaunch_reset E wid operator)) (\<lambda>_.
           bnd (wi_row wid) (\<lambda>wi1.
           bnd (if wi_state wi1 = W_queued then open_issue E wid None else ret True) (\<lambda>opened.
           if \<not> opened then ret (launch_result ''failed'' wid ''issue_create_failed'' None)
           else
             bnd (wi_row wid) (\<lambda>wi2.
             case (wi_state wi2 = W_issue_open, wi_issue_number wi2) of
               (True, Some n) \<Rightarrow> launch_on_issue E wid n pv operator
             | _ \<Rightarrow> ret (launch_result ''rejected'' wid
                        (''unexpected_state:'' @ work_item_state_value (wi_state wi2)) (wi_issue_url wi2)))))))))"

definition launch_work_item :: "Env \<Rightarrow> nat \<Rightarrow> str \<Rightarrow> LaunchResult M" where
  "launch_work_item E wid operator_actor = launch E wid operator_actor"

section \<open>Preservation\<close>

lemma keeps_case_bool [keeps_intros]:
  "(b \<Longrightarrow> keeps P m) \<Longrightarrow> (\<not> b \<Longrightarrow> keeps P m') \<Longrightarrow> keeps P (case b of True \<Rightarrow> m | False \<Rightarrow> m')"
  by (cases b) auto

context controller_invariant
begin

lemma launch_preview_keeps [keeps_intros]: "keeps P (launch_preview E wid)"
  unfolding launch_preview_def by (intro keeps_intros)

lemma launch_previews_keeps [keeps_intros]: "keeps P (launch_previews E wids)"
  unfolding launch_previews_def by (intro keeps_intros)

lemma cancel_preview_keeps [keeps_intros]: "keeps P (cancel_preview wid)"
  unfolding cancel_preview_def by (intro keeps_intros)

lemma add_poll_keeps [keeps_intros]: "keeps P (add_poll sid snap t dec r)"
  by (auto simp: add_poll_def intro!: keeps_write_db polls)

lemma cancel_rejected_keeps [keeps_intros]: "keeps P (cancel_rejected E wi pv op)"
  unfolding cancel_rejected_def by (intro keeps_intros) (simp add: note_simps)

lemma cancel_recorded_keeps [keeps_intros]: "keeps P (cancel_recorded E wi row pv op snap)"
  unfolding cancel_recorded_def by (intro keeps_intros) (simp add: note_simps)

lemma cancel_keeps [keeps_intros]: "keeps P (cancel E wid op)"
  unfolding cancel_def by (intro keeps_intros) (simp_all add: note_simps)

lemma relaunch_reset_keeps [keeps_intros]: "keeps P (relaunch_reset E wid op)"
  unfolding relaunch_reset_def by (intro keeps_intros) (simp add: note_simps)

lemma revoke_keeps [keeps_intros]: "keeps P (revoke_dispatch_approval E n)"
  unfolding revoke_dispatch_approval_def by (intro keeps_intros)

lemma launch_failed_keeps [keeps_intros]: "keeps P (launch_failed E wid reason)"
  unfolding launch_failed_def by (intro keeps_intros) (simp add: note_simps)

lemma approve_on_issue_keeps [keeps_intros]: "keeps P (approve_on_issue E wi n needs op)"
  unfolding approve_on_issue_def by (intro keeps_intros)

lemma launch_outcome_keeps [keeps_intros]: "keeps P (launch_outcome wid out)"
  unfolding launch_outcome_def by (intro keeps_intros)

lemma launch_on_issue_keeps [keeps_intros]: "keeps P (launch_on_issue E wid n pv op)"
  unfolding launch_on_issue_def by (intro keeps_intros) (simp add: note_simps)

lemma launch_keeps [keeps_intros]: "keeps P (launch E wid op)"
  unfolding launch_def by (intro keeps_intros) (simp add: note_simps)

end

end
