(* ===== verification/Assess.thy ===== *)
theory Assess
  imports Regex Protocol
begin

text \<open>
  \<^verbatim>\<open>orchestrator/assess.py\<close>: what the controller does with a polled Devin session snapshot, a pure
  function of the snapshot, the caller's facts and the pending question.
\<close>

datatype Decision =
    D_continue_polling
  | D_answer_question
  | D_budget_warning
  | D_ready_for_verification
  | D_needs_human

fun decision_value :: "Decision \<Rightarrow> str" where
  "decision_value D_continue_polling = ''continue_polling''"
| "decision_value D_answer_question = ''answer_question''"
| "decision_value D_budget_warning = ''budget_warning''"
| "decision_value D_ready_for_verification = ''ready_for_verification''"
| "decision_value D_needs_human = ''needs_human''"

record Assessment =
  as_decision :: Decision
  as_reason :: str
  as_reply :: "str option"

record SessionFacts =
  sf_acu_cap :: rat
  sf_schema_valid :: bool
  sf_pr_verified :: bool
  sf_diff_policy_ok :: bool
  sf_wall_clock_exceeded :: bool
  sf_budget_warning_sent :: bool

definition re_may_can_should :: regex where
  "re_may_can_should = RAlt (re_lit_ci ''may'') (RAlt (re_lit_ci ''can'') (re_lit_ci ''should''))"

definition QUESTION_WHITELIST :: "(regex \<times> str) list" where
  "QUESTION_WHITELIST =
     [(re_seqs [re_lit_ci ''which '', re_opt (re_lit_ci ''base ''), re_lit_ci ''branch''],
       ''Use `main` (the 6.1.0 remediation branch) as the base branch.''),
      (re_seqs [re_may_can_should, re_lit_ci '' i '', RAlt (re_lit_ci ''open'') (re_lit_ci ''create''), re_lit_ci '' '',
         RAlt (re_lit_ci ''the'') (re_lit_ci ''a''), re_lit_ci '' '', RAlt (re_lit_ci ''pull request'') (re_lit_ci ''pr'')],
       ''Yes. Open the PR against `main` in Hunter-1298/superset only.''),
      (re_seqs [re_may_can_should, re_lit_ci '' i '', RAlt (re_lit_ci ''run'') (re_lit_ci ''execute''), re_lit_ci '' '',
         re_opt (re_lit_ci ''the ''), re_lit_ci ''tests''],
       ''Yes. Run the tests and attach the logs; never report tests you did not run.'')]"

definition BUDGET_WARNING_FRACTION :: rat where "BUDGET_WARNING_FRACTION = 9 / 10"

fun first_reply :: "(regex \<times> str) list \<Rightarrow> str \<Rightarrow> str option" where
  "first_reply [] q = None"
| "first_reply ((pattern, reply) # rest) q = (if re_search pattern q then Some reply else first_reply rest q)"

definition whitelisted_reply :: "str option \<Rightarrow> str option" where
  "whitelisted_reply question =
     (case question of
        None \<Rightarrow> None
      | Some q \<Rightarrow> if q = [] then None else first_reply QUESTION_WHITELIST q)"

definition mk_assessment :: "Decision \<Rightarrow> str \<Rightarrow> Assessment" where
  "mk_assessment d r = \<lparr>as_decision = d, as_reason = r, as_reply = None\<rparr>"

definition detail_text :: "SessionSnapshot \<Rightarrow> str" where
  "detail_text s = show_opt_str (map_option devin_detail_value (ss_status_detail s))"

definition assess :: "SessionSnapshot \<Rightarrow> SessionFacts \<Rightarrow> str option \<Rightarrow> Assessment" where
  "assess snapshot facts pending_question =
     (if is_budget_stop snapshot then
        mk_assessment D_needs_human (''devin_budget_stop:'' @ detail_text snapshot)
      else if is_error snapshot then mk_assessment D_needs_human ''devin_error''
      else if sf_acu_cap facts < ss_acus_consumed snapshot then
        mk_assessment D_needs_human
          (''acu_cap_exceeded:'' @ fmt_fixed 2 (ss_acus_consumed snapshot) @ ''>'' @ fmt_fixed 2 (sf_acu_cap facts))
      else if sf_wall_clock_exceeded facts \<and> \<not> is_final_report snapshot then
        mk_assessment D_needs_human ''session_wall_clock_exceeded''
      else if is_waiting_for_approval snapshot then
        mk_assessment D_needs_human ''devin_action_approval_required''
      else if is_waiting_for_user snapshot \<and> \<not> is_final_report snapshot then
        (case whitelisted_reply pending_question of
           None \<Rightarrow> mk_assessment D_needs_human
             (''devin_question_not_whitelisted:'' @ take 200 (or_str pending_question []))
         | Some reply \<Rightarrow>
             \<lparr>as_decision = D_answer_question, as_reason = ''whitelisted_question'', as_reply = Some reply\<rparr>)
      else if is_final_report snapshot then
        (if \<not> sf_schema_valid facts then mk_assessment D_needs_human ''final_output_missing_or_invalid''
         else (case ss_outcome snapshot of
             Some O_blocked \<Rightarrow>
               mk_assessment D_needs_human (''blocked_reason:'' @ or_str (ss_blocked_reason snapshot) ''missing'')
           | Some O_no_change_needed \<Rightarrow>
               mk_assessment D_needs_human ''no_change_needed_requires_human_verification''
           | Some O_pr_opened \<Rightarrow>
               (if ss_pull_requests snapshot = [] then
                  mk_assessment D_needs_human ''pr_opened_claimed_but_no_pull_request''
                else if \<not> sf_pr_verified facts then
                  mk_assessment D_needs_human ''pull_request_failed_verification''
                else if \<not> sf_diff_policy_ok facts then mk_assessment D_needs_human ''diff_policy_violation''
                else mk_assessment D_ready_for_verification ''pr_opened'')
           | None \<Rightarrow> mk_assessment D_needs_human ''unknown_outcome''))
      else if \<not> sf_budget_warning_sent facts \<and>
              BUDGET_WARNING_FRACTION * sf_acu_cap facts \<le> ss_acus_consumed snapshot then
        mk_assessment D_budget_warning ''acu_budget_90pct''
      else mk_assessment D_continue_polling
             (devin_status_value (ss_status snapshot) @ '':'' @ detail_text snapshot))"

section \<open>Facts about the decision\<close>

lemma mk_assessment_sel [simp]:
  "as_decision (mk_assessment d r) = d" "as_reason (mk_assessment d r) = r" "as_reply (mk_assessment d r) = None"
  by (simp_all add: mk_assessment_def)

lemma assess_ready_iff:
  "as_decision (assess s f q) = D_ready_for_verification \<longleftrightarrow>
     \<not> is_budget_stop s \<and> \<not> is_error s \<and> ss_acus_consumed s \<le> sf_acu_cap f \<and>
     is_final_report s \<and> sf_schema_valid f \<and> ss_outcome s = Some O_pr_opened \<and>
     ss_pull_requests s \<noteq> [] \<and> sf_pr_verified f \<and> sf_diff_policy_ok f"
proof -
  have "\<not> (is_final_report s \<and> is_waiting_for_approval s)" if "\<not> is_error s"
    using that by (auto simp: snapshot_defs)
  then show ?thesis
    by (auto simp: assess_def split: option.splits Outcome.splits)
qed

lemma assess_answer_iff:
  "as_decision (assess s f q) = D_answer_question \<longleftrightarrow>
     \<not> is_budget_stop s \<and> \<not> is_error s \<and> ss_acus_consumed s \<le> sf_acu_cap f \<and>
     \<not> sf_wall_clock_exceeded f \<and> is_waiting_for_user s \<and> \<not> is_final_report s \<and> whitelisted_reply q \<noteq> None"
  by (auto simp: assess_def snapshot_defs split: option.splits Outcome.splits)

lemma assess_reply:
  "as_reply (assess s f q) \<noteq> None \<longleftrightarrow> as_decision (assess s f q) = D_answer_question"
  by (auto simp: assess_def split: option.splits Outcome.splits)

lemma assess_reply_whitelisted:
  "as_reply (assess s f q) = Some r \<Longrightarrow> whitelisted_reply q = Some r"
  by (auto simp: assess_def split: option.splits Outcome.splits if_splits)

lemma first_reply_mem: "first_reply ps q = Some r \<Longrightarrow> \<exists>p. (p, r) \<in> set ps \<and> re_search p q"
  by (induction ps q rule: first_reply.induct) (auto split: if_splits)

end
