(* ===== verification/Sessions.thy ===== *)
theory Sessions
  imports Operate Assess
begin

text \<open>
  Polling Devin sessions, from \<^verbatim>\<open>orchestrator/engine.py\<close>: each snapshot is fetched without a transaction and
  applied in one of its own, where \<open>assess\<close> decides what it means for the work item.
\<close>

section \<open>The pull request a session claims\<close>

definition claimed_pr_url :: "SessionSnapshot \<Rightarrow> str option" where
  "claimed_pr_url snap =
     (case ss_structured_output snap of
        None \<Rightarrow> None
      | Some out \<Rightarrow> if out = [] then None else jstr (map_of out ''pr_url''))"

definition session_pr_urls :: "SessionSnapshot \<Rightarrow> str list" where
  "session_pr_urls snap = remdups
     (map (\<lambda>p. rstrip_char CHR ''/'' (spr_url p)) (ss_pull_requests snap) @
      (case claimed_pr_url snap of
         None \<Rightarrow> [] | Some u \<Rightarrow> if u = [] then [] else [rstrip_char CHR ''/'' u]))"

definition resolve_pr :: "Env \<Rightarrow> SessionSnapshot \<Rightarrow> (PullRequestInfo option \<times> str list) M" where
  "resolve_pr E snap =
     (let urls = session_pr_urls snap in
      case urls of
        [url] \<Rightarrow>
          (case parse_pr_url url of
             None \<Rightarrow> ret (None, [''unparseable PR url '' @ url])
           | Some (repo, number) \<Rightarrow>
               if repo \<noteq> repo_of E then ret (None, [''PR repo '' @ repo @ '' is not '' @ repo_of E])
               else
                 try_except
                   (bnd (gh_get_pull_request E repo number) (\<lambda>pr.
                      ret (Some pr, verify_pull_request pr (claimed_pr_url snap))))
                   (\<lambda>e. ret (None, [''get_pull_request failed: '' @ exn_msg e])))
      | _ \<Rightarrow> ret (None, [''expected exactly one PR, got '' @ repr_str_list (sort urls)]))"

definition pr_by_number :: "str \<Rightarrow> nat \<Rightarrow> Db \<Rightarrow> PullRequest option" where
  "pr_by_number repo number d = find (\<lambda>p. pr_repo p = repo \<and> pr_number p = number) (db_prs d)"

definition new_pr :: "nat \<Rightarrow> PullRequestInfo \<Rightarrow> int \<Rightarrow> int \<Rightarrow> nat \<Rightarrow> PullRequest" where
  "new_pr wid pr t1 t2 i =
     \<lparr>pr_id = i, pr_work_item_id = wid, pr_repo = pi_repo pr, pr_number = pi_number pr, pr_url = pi_url pr,
      pr_base_branch = pi_base_ref pr, pr_head_branch = pi_head_ref pr, pr_head_sha = pi_head_sha pr,
      pr_state = ''open'', pr_merge_sha = None, pr_first_head_sha = Some (pi_head_sha pr),
      pr_first_head_checks_green = None, pr_diff_policy_ok = Some True, pr_diff_policy_violations = [],
      pr_lifecycle_level = LL_pr_opened, pr_verification_depth = None, pr_depth_rungs = [],
      pr_review_status = None, pr_review_id = None, pr_review_head_sha = None,
      pr_review_comment_count = 0, pr_approved_by = None, pr_opened_at = t1, pr_merged_at = None,
      pr_updated_at = t2\<rparr>"

definition add_pr :: "(nat \<Rightarrow> PullRequest) \<Rightarrow> Db \<Rightarrow> Db" where
  "add_pr mk d = d\<lparr>db_prs := db_prs d @ [mk (next_id pr_id (db_prs d))]\<rparr>"

definition record_pr :: "Env \<Rightarrow> nat \<Rightarrow> PullRequestInfo \<Rightarrow> nat M" where
  "record_pr E wid pr =
     bnd (query (pr_by_number (pi_repo pr) (pi_number pr))) (\<lambda>found.
     bnd (case found of
            Some row \<Rightarrow> ret (pr_id row)
          | None \<Rightarrow>
              bnd (now E) (\<lambda>t1. bnd (now E) (\<lambda>t2.
              bnd (query (\<lambda>d. next_id pr_id (db_prs d))) (\<lambda>i.
              bnd (write_db (add_pr (new_pr wid pr t1 t2))) (\<lambda>_. ret i))))) (\<lambda>prid.
     bnd (wi_row wid) (\<lambda>wi.
     bnd (case wi_pr_opened_at wi of Some t \<Rightarrow> ret t | None \<Rightarrow> now E) (\<lambda>opened.
     bnd (edit_wi wid (\<lambda>w. w\<lparr>wi_pr_number := Some (pi_number pr), wi_pr_url := Some (pi_url pr),
                              wi_pr_head_sha := Some (pi_head_sha pr), wi_pr_opened_at := Some opened\<rparr>)) (\<lambda>_.
     bnd (raise_level E wid prid LL_pr_opened ''pr_opened'') (\<lambda>_.
     ret prid))))))"

section \<open>Applying a snapshot\<close>

definition out_text :: "(str \<times> json) list \<Rightarrow> str \<Rightarrow> str \<Rightarrow> str" where
  "out_text out k d = (case map_of out k of None \<Rightarrow> d | Some j \<Rightarrow> py_str j)"

definition post_disagreement_verdict :: "Env \<Rightarrow> WorkItem \<Rightarrow> SessionSnapshot \<Rightarrow> unit M" where
  "post_disagreement_verdict E wi snap =
     (case (wi_issue_number wi, ss_structured_output snap) of
        (Some n, Some out) \<Rightarrow>
          when_ok (out \<noteq> []) (gh_comment_issue E n
            (''Scanner-disagreement analysis finished: verdict=`'' @ out_text out ''verdict'' ''None'' @
             ''`, recommended_action=`'' @ out_text out ''recommended_action'' ''None'' @ ''`.'' @ nl @ nl @
             out_text out ''reason'' [] @ nl @ nl @
             ''Apply label `disagreement:resolved` to accept this verdict; the finding closes only '' @
             ''after the next successful scan of `main` still shows it in exactly one scanner.''))
      | _ \<Rightarrow> skip)"

text \<open>What the snapshot's pull request turned out to be: (info, verified, violations, problems).\<close>

definition examine_pr ::
    "Env \<Rightarrow> Kind \<Rightarrow> SessionSnapshot \<Rightarrow> bool \<Rightarrow> (PullRequestInfo option \<times> bool \<times> str list \<times> str list) M" where
  "examine_pr E kind snap wanted =
     (if \<not> wanted then ret (None, False, [], [])
      else
        bnd (resolve_pr E snap) (\<lambda>(info, problems).
        case (info, problems) of
          (Some pr, []) \<Rightarrow>
            bnd (gh_list_pr_files E (pi_number pr)) (\<lambda>files.
            ret (Some pr, True, diff_policy_violations files kind, problems))
        | _ \<Rightarrow> ret (info, False, [], problems)))"

definition wall_clock_exceeded :: "Env \<Rightarrow> int \<Rightarrow> int \<Rightarrow> bool" where
  "wall_clock_exceeded E t created \<longleftrightarrow>
     st_session_wall_clock_max_hours (en_settings E) * 3600000000 < of_int (t - created)"

definition decision_detail :: "Assessment \<Rightarrow> str list \<Rightarrow> str list \<Rightarrow> str list \<Rightarrow> str" where
  "decision_detail result schema_errors problems violations =
     (let add = (\<lambda>xs. if xs \<noteq> [] \<and> as_decision result = D_needs_human then '' | '' @ join ''; '' (take 5 xs) else [])
      in as_reason result @ add schema_errors @ add problems @ add violations)"

definition act_on :: "Env \<Rightarrow> nat \<Rightarrow> nat \<Rightarrow> SessionSnapshot \<Rightarrow> Assessment \<Rightarrow> str \<Rightarrow> PullRequestInfo option \<Rightarrow> unit M" where
  "act_on E wid sid snap result detail pr_info =
     bnd (wi_row wid) (\<lambda>wi.
     let sent = edit_session sid (\<lambda>s. s\<lparr>se_messages_sent := Suc (se_messages_sent s)\<rparr>) in
     case as_decision result of
       D_continue_polling \<Rightarrow> skip
     | D_answer_question \<Rightarrow>
         (case as_reply result of
            None \<Rightarrow> raise (Exn ''AssertionError'' [])
          | Some reply \<Rightarrow> blk [dv_send_message E (ss_session_id snap) reply, sent])
     | D_budget_warning \<Rightarrow> blk
         [dv_send_message E (ss_session_id snap)
            (''You have used '' @ fmt_fixed 1 (ss_acus_consumed snap) @ '' of '' @ fmt_fixed 0 (wi_acu_cap wi) @
             '' ACU. Wrap up: either open the PR now or finish with outcome=blocked and a blocked_reason.''),
          sent, edit_wi wid (\<lambda>w. w\<lparr>wi_budget_warning_sent := True\<rparr>)]
     | D_needs_human \<Rightarrow>
         bnd (wi_event E wid E_blocked (take 500 detail) ''controller'') (\<lambda>_.
         when_ok (is_done snap \<and> no_change_needed snap \<and> wi_kind wi = K_scanner_disagreement)
           (post_disagreement_verdict E wi snap))
     | D_ready_for_verification \<Rightarrow>
         (case pr_info of
            None \<Rightarrow> raise (Exn ''AssertionError'' [])
          | Some pr \<Rightarrow>
              bnd (record_pr E wid pr) (\<lambda>_.
              bnd (wi_event E wid E_pr_opened (pi_url pr) ''controller'') (\<lambda>_.
              bnd (wi_event E wid E_checks_started (pi_head_sha pr) ''controller'') (\<lambda>_.
              case wi_issue_number wi of
                None \<Rightarrow> skip
              | Some n \<Rightarrow> gh_comment_issue E n (''PR opened: '' @ pi_url pr))))))"

definition facts_of :: "Env \<Rightarrow> WorkItem \<Rightarrow> DevinSession \<Rightarrow> int \<Rightarrow> bool \<Rightarrow> bool \<Rightarrow> bool \<Rightarrow> SessionFacts" where
  "facts_of E wi row t schema_valid pr_verified diff_ok =
     \<lparr>sf_acu_cap = wi_acu_cap wi, sf_schema_valid = schema_valid, sf_pr_verified = pr_verified,
      sf_diff_policy_ok = diff_ok, sf_wall_clock_exceeded = wall_clock_exceeded E t (se_created_at row),
      sf_budget_warning_sent = wi_budget_warning_sent wi\<rparr>"

definition apply_snapshot :: "Env \<Rightarrow> nat \<Rightarrow> DevinSession \<Rightarrow> SessionSnapshot \<Rightarrow> Assessment M" where
  "apply_snapshot E wid row snap =
     bnd (wi_row wid) (\<lambda>wi.
     bnd (now E) (\<lambda>t.
     bnd (edit_session (se_id row) (\<lambda>s. (seen_snapshot snap t s)
       \<lparr>se_finished_at := (if is_done snap \<and> se_finished_at s = None then Some t else se_finished_at s)\<rparr>)) (\<lambda>_.
     let final = is_final_report snap;
         schema_errors = (if final then validate_output (en_iter_errors E) (wi_kind wi) (ss_structured_output snap) else [])
     in
     bnd (examine_pr E (wi_kind wi) snap (final \<and> schema_errors = [] \<and> ss_outcome snap = Some O_pr_opened))
       (\<lambda>(pr_info, pr_verified, violations, problems).
     bnd (if is_waiting_for_user snap then dv_last_question E (ss_session_id snap) else ret None) (\<lambda>question.
     let result = assess snap (facts_of E wi row t (final \<and> schema_errors = []) pr_verified (pr_verified \<and> violations = []))
                    question;
         detail = decision_detail result schema_errors problems violations
     in
     bnd (add_poll (se_id row) snap t (decision_value (as_decision result)) (take 500 detail)) (\<lambda>_.
     bnd (act_on E wid (se_id row) snap result detail pr_info) (\<lambda>_.
     ret result)))))))"

section \<open>Polling\<close>

definition session_targets :: "nat list option \<Rightarrow> Db \<Rightarrow> (nat \<times> str) list" where
  "session_targets only d =
     List.map_filter (\<lambda>w. map_option (Pair (wi_id w)) (wi_active_session_id w))
       (filter (\<lambda>w. wi_state w = W_session_active \<and> (case only of None \<Rightarrow> True | Some ids \<Rightarrow> wi_id w \<in> set ids))
          (db_work_items d))"

definition poll_session :: "Env \<Rightarrow> nat \<Rightarrow> nat \<times> str \<Rightarrow> nat M" where
  "poll_session E polled target =
     (case target of (wid, sid) \<Rightarrow>
        bnd (try_except (bnd (dv_get_session E sid) (\<lambda>s. ret (Some s))) (\<lambda>e. ret None)) (\<lambda>r.
        case r of
          None \<Rightarrow> ret polled
        | Some snap \<Rightarrow>
            write_scope (bnd (wi_get wid) (\<lambda>r.
              case r of
                None \<Rightarrow> ret polled
              | Some wi \<Rightarrow>
                  if wi_state wi \<noteq> W_session_active \<or> wi_active_session_id wi \<noteq> Some sid then ret polled
                  else
                    bnd (query (session_by_devin_id (Some sid))) (\<lambda>row.
                    case row of
                      None \<Rightarrow>
                        bnd (wi_event E wid E_blocked ''session_row_missing'' ''controller'') (\<lambda>_. ret polled)
                    | Some s \<Rightarrow> bnd (apply_snapshot E wid s snap) (\<lambda>_. ret (Suc polled)))))))"

definition poll_sessions :: "Env \<Rightarrow> nat list option \<Rightarrow> nat M" where
  "poll_sessions E only =
     bnd (session_scope (query (session_targets only))) (\<lambda>targets. loop (poll_session E) 0 targets)"

definition reconcile_sessions :: "Env \<Rightarrow> str list M" where
  "reconcile_sessions E =
     bnd (dv_list_sessions E [SESSION_TAG]) (\<lambda>remote_sessions.
     bnd (session_scope (query (\<lambda>d. map se_devin_id (db_sessions d)))) (\<lambda>known.
     ret (sort (map ss_session_id (filter (\<lambda>s. ss_session_id s \<notin> set known) remote_sessions)))))"

section \<open>Preservation\<close>

lemma keeps_case_Decision [keeps_intros]:
  "keeps P a \<Longrightarrow> keeps P b \<Longrightarrow> keeps P c \<Longrightarrow> keeps P d \<Longrightarrow> keeps P e \<Longrightarrow>
     keeps P (case x of D_continue_polling \<Rightarrow> a | D_answer_question \<Rightarrow> b | D_budget_warning \<Rightarrow> c
        | D_ready_for_verification \<Rightarrow> d | D_needs_human \<Rightarrow> e)"
  by (cases x) auto

context controller_invariant
begin

lemma resolve_pr_keeps [keeps_intros]: "keeps P (resolve_pr E snap)"
  unfolding resolve_pr_def by (intro keeps_intros)

lemma add_pr_keeps [keeps_intros]: "keeps P (write_db (add_pr mk))"
  by (auto simp: add_pr_def intro!: keeps_write_db prs)

lemma record_pr_keeps [keeps_intros]: "keeps P (record_pr E wid pr)"
  unfolding record_pr_def by (intro keeps_intros) (simp add: note_simps)

lemma post_disagreement_verdict_keeps [keeps_intros]: "keeps P (post_disagreement_verdict E wi snap)"
  unfolding post_disagreement_verdict_def by (intro keeps_intros)

lemma examine_pr_keeps [keeps_intros]: "keeps P (examine_pr E k snap wanted)"
  unfolding examine_pr_def by (intro keeps_intros)

lemma act_on_keeps [keeps_intros]: "keeps P (act_on E wid sid snap result detail pr)"
  unfolding act_on_def Let_def by (intro keeps_intros) (simp add: note_simps)

lemma apply_snapshot_keeps [keeps_intros]: "keeps P (apply_snapshot E wid row snap)"
  unfolding apply_snapshot_def by (intro keeps_intros)

lemma poll_session_keeps [keeps_intros]: "keeps P (poll_session E n target)"
  unfolding poll_session_def by (intro keeps_intros)

lemma poll_sessions_keeps [keeps_intros]: "keeps P (poll_sessions E only)"
  unfolding poll_sessions_def by (intro keeps_intros)

lemma reconcile_sessions_keeps [keeps_intros]: "keeps P (reconcile_sessions E)"
  unfolding reconcile_sessions_def by (intro keeps_intros)

end

end
