(* ===== verification/Closure.thy ===== *)
theory Closure
  imports Dispatch
begin

text \<open>
  Closing evidence, from \<^verbatim>\<open>orchestrator/engine.py\<close>: an ingested run is weighed once against every merged
  work item, against the closed findings it may show again, and against the ungrouped findings it no
  longer shows. A set of ids is visited in the order its members were added.
\<close>

section \<open>What the database says about a run and a finding\<close>

definition finished_after :: "ScanRun \<Rightarrow> ScanRun \<Rightarrow> bool" where
  "finished_after a b =
     (case (sr_finished_at a, sr_finished_at b) of (Some x, Some y) \<Rightarrow> y < x | _ \<Rightarrow> False)"

fun pick_latest :: "ScanRun option \<Rightarrow> ScanRun list \<Rightarrow> ScanRun option" where
  "pick_latest latest [] = latest"
| "pick_latest latest (r # rs) =
     pick_latest (case latest of None \<Rightarrow> Some r | Some l \<Rightarrow> if finished_after r l then Some r else latest) rs"

definition later_run_saw :: "ScanRun \<Rightarrow> Finding \<Rightarrow> Db \<Rightarrow> ScanRun option" where
  "later_run_saw run f d =
     (if sr_finished_at run = None then None
      else
        let rids = remdups (fd_last_seen_run_id f # (case fd_closed_by_run_id f of None \<Rightarrow> [] | Some c \<Rightarrow> [c]))
        in pick_latest None
             (filter (\<lambda>r. finished_after r run)
               (List.map_filter (\<lambda>i. get_row sr_id i (db_runs d)) (filter (\<lambda>i. i \<noteq> sr_id run) rids))))"

definition present_families :: "Sighting list \<Rightarrow> Db \<Rightarrow> family list" where
  "present_families sightings d =
     (let ids = map sg_finding_id (filter sg_present sightings)
      in map family_key (filter (\<lambda>f. fd_id f \<in> set ids) (db_findings d)))"

definition family_ids :: "Finding \<Rightarrow> Db \<Rightarrow> nat list" where
  "family_ids f d =
     map fd_id (filter (\<lambda>g. fd_vuln_id g = fd_vuln_id f \<and> fd_ecosystem g = fd_ecosystem f \<and>
                           fd_pkg_name g = fd_pkg_name f \<and> fd_layer g = fd_layer f) (db_findings d))"

definition is_ancestor :: "Env \<Rightarrow> str \<Rightarrow> str \<Rightarrow> bool M" where
  "is_ancestor E base head =
     (if base = head then ret True
      else try_except (bnd (gh_compare E base head) (\<lambda>c. ret (cmp_status c \<in> set [''ahead'', ''identical'']))) (\<lambda>e. ret False))"

text \<open>
  \<open>validate_closing_run\<close> asks its ancestry function at most once, about the merge commit and the
  run's commit; the answer is obtained first.
\<close>

definition ancestry :: "Env \<Rightarrow> str option \<Rightarrow> ScanRun \<Rightarrow> bool M" where
  "ancestry E merge_sha run =
     (case merge_sha of None \<Rightarrow> ret True | Some m \<Rightarrow> is_ancestor E m (sr_source_sha run))"

definition validity_of ::
    "Env \<Rightarrow> ScanRun \<Rightarrow> ScanJob list \<Rightarrow> Finding \<Rightarrow> str option \<Rightarrow> bool \<Rightarrow> RunValidity M" where
  "validity_of E run jobs f merge_sha require_policy =
     bnd (query (later_run_saw run f)) (\<lambda>later.
     bnd (ancestry E merge_sha run) (\<lambda>anc.
     ret (validate_closing_run (en_version_ge E) run jobs f merge_sha (\<lambda>_ _. anc) require_policy later)))"

section \<open>Closing a work item\<close>

type_synonym counts = "(str, nat) dict"

definition requires_policy :: "WorkItem \<Rightarrow> bool" where
  "requires_policy wi \<longleftrightarrow> wi_kind wi = K_no_fix_reachability \<or>
     wi_human_resolution wi = Some (human_label_value HL_disposition_approved)"

definition resolved_by_human :: "WorkItem \<Rightarrow> bool" where
  "resolved_by_human wi \<longleftrightarrow> wi_human_resolution wi = Some (human_label_value HL_disagreement_resolved)"

definition record_outcome :: "Env \<Rightarrow> ScanRun \<Rightarrow> nat \<Rightarrow> ClosingOutcome \<Rightarrow> unit M" where
  "record_outcome E run fid out =
     (case out of
        CO_fixed \<Rightarrow>
          bnd (finding_event E fid FE_closing_absent (''absent in run '' @ sr_external_run_id run) ''scanner''
                 (Some (sr_id run))) (\<lambda>_. skip)
      | CO_approved_disposition \<Rightarrow>
          bnd (finding_event E fid FE_closing_vex (''approved VEX in run '' @ sr_external_run_id run) ''scanner''
                 (Some (sr_id run))) (\<lambda>_. skip)
      | CO_scanner_disagreement_resolved \<Rightarrow>
          bnd (finding_event E fid FE_disagreement_resolved (''single-scanner in run '' @ sr_external_run_id run)
                 ''human'' (Some (sr_id run))) (\<lambda>_. skip)
      | _ \<Rightarrow> skip)"

definition judge_member ::
    "Env \<Rightarrow> WorkItem \<Rightarrow> ScanRun \<Rightarrow> ScanJob list \<Rightarrow> Sighting list \<Rightarrow> nat \<Rightarrow> (ClosingOutcome \<times> str list) M" where
  "judge_member E wi run jobs sightings fid =
     bnd (fd_row fid) (\<lambda>f.
     bnd (validity_of E run jobs f (wi_merge_sha wi) (requires_policy wi)) (\<lambda>validity.
     bnd (query (family_ids f)) (\<lambda>fam.
     bnd (lift_exn (decide_outcome f run (sightings_for f run sightings fam) validity (resolved_by_human wi)
                      (wi_issue_url wi) (fd_state f \<in> set CLOSING_FINDING_STATES))) (\<lambda>out.
     bnd (record_outcome E run fid out) (\<lambda>_.
     ret (out, if out = CO_not_applicable then rv_reasons validity else []))))))"

definition judge_step ::
    "Env \<Rightarrow> WorkItem \<Rightarrow> ScanRun \<Rightarrow> ScanJob list \<Rightarrow> Sighting list \<Rightarrow>
       (nat \<times> ClosingOutcome) list \<times> str list \<times> counts \<Rightarrow> nat \<Rightarrow> ((nat \<times> ClosingOutcome) list \<times> str list \<times> counts) M" where
  "judge_step E wi run jobs sightings acc fid =
     (case acc of (outcomes, reasons, counts) \<Rightarrow>
        bnd (judge_member E wi run jobs sightings fid) (\<lambda>(out, why).
        ret (outcomes @ [(fid, out)], reasons @ why, counter_add (closing_outcome_value out) counts)))"

definition state_counts :: "FindingState list \<Rightarrow> counts" where
  "state_counts states = foldl (\<lambda>c s. counter_add (finding_state_value s) c) [] states"

definition verify_item :: "Env \<Rightarrow> WorkItem \<Rightarrow> ScanRun \<Rightarrow> FindingState list \<Rightarrow> unit M" where
  "verify_item E wi run states =
     (let wid = wi_id wi in
      bnd (now E) (\<lambda>t.
      bnd (edit_wi wid (\<lambda>w. w\<lparr>wi_verified_at := Some t\<rparr>)) (\<lambda>_.
      bnd (wi_event E wid E_rescan_verified (''run '' @ sr_external_run_id run) ''scanner'') (\<lambda>_.
      bnd (query (\<lambda>d. find (\<lambda>p. pr_work_item_id p = wid) (db_prs d))) (\<lambda>row.
      bnd (case row of
             Some p \<Rightarrow> raise_level E wid (pr_id p) LL_rescan_verified (sr_external_run_id run)
           | None \<Rightarrow> edit_wi wid (\<lambda>w. w\<lparr>wi_lifecycle_level := max (wi_lifecycle_level w) LL_rescan_verified\<rparr>)) (\<lambda>_.
      case wi_issue_number wi of
        None \<Rightarrow> skip
      | Some n \<Rightarrow> blk
          [gh_comment_issue E n
             (''Verified by scan run `'' @ sr_external_run_id run @ ''` of `'' @ sr_source_branch run @ ''` @ `'' @
              take 12 (sr_source_sha run) @ ''` (lean '' @ show_opt_str (sr_lean_digest run) @ ''); outcomes: '' @
              repr_counts (state_counts states) @ ''. Tools: '' @ py_repr (JObj (sr_tools run)) @ ''. Closing.''),
           gh_close_issue E n]))))))"

definition show_present :: "Env \<Rightarrow> WorkItem \<Rightarrow> ScanRun \<Rightarrow> (nat \<times> str) list \<Rightarrow> unit M" where
  "show_present E wi run still =
     bnd (wi_event E (wi_id wi) E_rescan_shows_present
            (''still present in run '' @ sr_external_run_id run @ '': '' @ join '', '' (take 8 (sort (map snd still))))
            ''scanner'') (\<lambda>_.
     for_each (map fst still) (\<lambda>fid.
       bnd (finding_event E fid FE_human_blocked (''present after merge in run '' @ sr_external_run_id run) ''scanner'' None)
         (\<lambda>_. skip)))"

definition conclude_item ::
    "Env \<Rightarrow> WorkItem \<Rightarrow> ScanRun \<Rightarrow> Finding list \<Rightarrow> (nat \<times> ClosingOutcome) list \<Rightarrow> str list \<Rightarrow> unit M" where
  "conclude_item E wi run members outcomes reasons =
     (if list_ex (\<lambda>(i, out). out = CO_not_applicable) outcomes then
        bnd (wi_event E (wi_id wi) E_rescan_started
               (''run '' @ sr_external_run_id run @ '' not a valid closing run: '' @
                join ''; '' (take 6 (sorted_set reasons))) ''controller'') (\<lambda>_. skip)
      else
        bnd (wi_row (wi_id wi)) (\<lambda>w.
        bnd (when_ok (wi_state w = W_merged)
               (bnd (wi_event E (wi_id wi) E_rescan_started (''run '' @ sr_external_run_id run @ '' evaluated'') ''controller'')
                  (\<lambda>_. skip))) (\<lambda>_.
        bnd (query (\<lambda>d. map fd_state (List.map_filter (\<lambda>f. get_row fd_id (fd_id f) (db_findings d)) members))) (\<lambda>states.
        if issue_may_close states then verify_item E wi run states
        else
          let still = map (\<lambda>(f, _). (fd_id f, fd_vuln_id f))
                (filter (\<lambda>(f, out). out = CO_still_present) (zip members (map snd outcomes))) in
          when_ok (still \<noteq> []) (show_present E wi run still)))))"

definition close_work_item ::
    "Env \<Rightarrow> nat \<Rightarrow> ScanRun \<Rightarrow> ScanJob list \<Rightarrow> Sighting list \<Rightarrow> counts \<Rightarrow> counts M" where
  "close_work_item E wid run jobs sightings counts =
     bnd (wi_row wid) (\<lambda>wi.
     bnd (query (members_of wid)) (\<lambda>members.
     bnd (loop (judge_step E wi run jobs sightings) ([], [], counts) (map fd_id members))
       (\<lambda>(outcomes, reasons, counts').
     bnd (conclude_item E wi run members outcomes reasons) (\<lambda>_. ret counts'))))"

section \<open>Regressions and drift\<close>

definition still_suppressed :: "Finding \<Rightarrow> SightingView \<Rightarrow> bool" where
  "still_suppressed f view \<longleftrightarrow> fd_state f = F_approved_disposition \<and>
     list_all (\<lambda>(s, b). \<not> b) (sv_policy_present view) \<and> sv_policy_present view \<noteq> []"

definition reopen_item :: "Env \<Rightarrow> ScanRun \<Rightarrow> Finding \<Rightarrow> unit M" where
  "reopen_item E run f =
     bnd (query (\<lambda>d. case fd_work_item_id f of None \<Rightarrow> None | Some w \<Rightarrow> get_row wi_id w (db_work_items d))) (\<lambda>r.
     blk [case r of
            None \<Rightarrow> skip
          | Some wi \<Rightarrow>
              (case wi_issue_number wi of
                 None \<Rightarrow> skip
               | Some n \<Rightarrow> blk
                   [gh_reopen_issue E n,
                    gh_comment_issue E n (''Regression: '' @ fd_vuln_id f @ '' reappeared in run `'' @
                      sr_external_run_id run @ ''` @ `'' @ take 12 (sr_source_sha run) @
                      ''`. A new work item will be created.'')]),
          set_owner (fd_id f) None])"

definition regression_step :: "Env \<Rightarrow> ScanRun \<Rightarrow> ScanJob list \<Rightarrow> Sighting list \<Rightarrow> family list \<Rightarrow> counts \<Rightarrow> Finding \<Rightarrow> counts M" where
  "regression_step E run jobs sightings present counts f =
     (if family_key f \<notin> set present then ret counts
      else
        bnd (query (\<lambda>d. case fd_closed_by_run_id f of None \<Rightarrow> None | Some c \<Rightarrow> get_row sr_id c (db_runs d))) (\<lambda>closing_run.
        bnd (validity_of E run jobs f (map_option sr_source_sha closing_run) False) (\<lambda>validity.
        if \<not> rv_valid validity then ret counts
        else
          bnd (query (family_ids f)) (\<lambda>fam.
          if still_suppressed f (sightings_for f run sightings fam) then ret counts
          else
            bnd (finding_event E (fd_id f) FE_reappeared (''present again in run '' @ sr_external_run_id run) ''scanner''
                   (Some (sr_id run))) (\<lambda>changed.
            if changed then bnd (reopen_item E run f) (\<lambda>_. ret (counter_add ''regression'' counts))
            else ret counts)))))"

definition regressions :: "Env \<Rightarrow> ScanRun \<Rightarrow> ScanJob list \<Rightarrow> Sighting list \<Rightarrow> counts \<Rightarrow> counts M" where
  "regressions E run jobs sightings counts =
     bnd (query (present_families sightings)) (\<lambda>present.
     if present = [] then ret counts
     else
       bnd (query (\<lambda>d. filter (\<lambda>f. fd_state f \<in> set CLOSING_FINDING_STATES) (db_findings d))) (\<lambda>closed.
       loop (regression_step E run jobs sightings present) counts closed))"

definition DRIFT_STATES :: "FindingState list" where
  [enum_defs]: "DRIFT_STATES = [F_open, F_unclassified, F_grouped]"

text \<open>
  The work item that holds a grouped finding: None when the finding must be skipped, otherwise the
  item to look at afterwards, if there is one.
\<close>

definition drift_owner :: "Finding \<Rightarrow> Db \<Rightarrow> nat option option" where
  "drift_owner f d =
     (case (fd_state f = F_grouped, fd_work_item_id f) of
        (True, Some w) \<Rightarrow>
          (case get_row wi_id w (db_work_items d) of
             None \<Rightarrow> None
           | Some wi \<Rightarrow> if wi_state wi \<in> set [W_queued, W_issue_open] then Some (Some w) else None)
      | _ \<Rightarrow> Some None)"

definition drift_step ::
    "Env \<Rightarrow> ScanRun \<Rightarrow> ScanJob list \<Rightarrow> family list \<Rightarrow> nat list \<times> counts \<Rightarrow> Finding \<Rightarrow> (nat list \<times> counts) M" where
  "drift_step E run jobs present acc f =
     (case acc of (touched, counts) \<Rightarrow>
        if family_key f \<in> set present then ret acc
        else
          bnd (query (drift_owner f)) (\<lambda>own.
          case own of
            None \<Rightarrow> ret acc
          | Some w \<Rightarrow>
              let touched' = (case w of Some i \<Rightarrow> if i \<in> set touched then touched else touched @ [i] | None \<Rightarrow> touched) in
              bnd (validity_of E run jobs f None False) (\<lambda>validity.
              if \<not> rv_valid validity then ret (touched', counts)
              else
                bnd (finding_event E (fd_id f) FE_closing_absent
                       (''absent in run '' @ sr_external_run_id run @ '' (no remediation)'') ''scanner'' (Some (sr_id run)))
                  (\<lambda>changed. ret (touched', if changed then counter_add ''fixed_by_drift'' counts else counts)))))"

definition supersede_item :: "Env \<Rightarrow> ScanRun \<Rightarrow> nat \<Rightarrow> unit M" where
  "supersede_item E run wid =
     bnd (wi_get wid) (\<lambda>r.
     case r of
       None \<Rightarrow> skip
     | Some wi \<Rightarrow>
         bnd (query (\<lambda>d. map fd_state (members_of wid d))) (\<lambda>states.
         when_ok (issue_may_close states)
           (bnd (wi_event E wid E_superseded (''all members absent in run '' @ sr_external_run_id run) ''controller'') (\<lambda>_.
            case wi_issue_number wi of
              None \<Rightarrow> skip
            | Some n \<Rightarrow> blk
                [gh_comment_issue E n (''All findings absent in run `'' @ sr_external_run_id run @
                   ''` before any session ran; closing.''),
                 gh_close_issue E n]))))"

definition drift :: "Env \<Rightarrow> ScanRun \<Rightarrow> ScanJob list \<Rightarrow> Sighting list \<Rightarrow> counts \<Rightarrow> counts M" where
  "drift E run jobs sightings counts =
     bnd (query (present_families sightings)) (\<lambda>present.
     bnd (query (\<lambda>d. filter (\<lambda>f. fd_state f \<in> set DRIFT_STATES \<and> fd_last_seen_run_id f \<noteq> sr_id run) (db_findings d)))
       (\<lambda>candidates.
     bnd (loop (drift_step E run jobs present) ([], counts) candidates) (\<lambda>(touched, counts').
     bnd (for_each touched (supersede_item E run)) (\<lambda>_. ret counts'))))"

section \<open>Applying runs\<close>

definition jobs_of :: "nat \<Rightarrow> Db \<Rightarrow> ScanJob list" where
  "jobs_of run_id d = filter (\<lambda>j. sj_scan_run_id j = run_id) (db_jobs d)"

definition sightings_of :: "nat \<Rightarrow> Db \<Rightarrow> Sighting list" where
  "sightings_of run_id d = filter (\<lambda>s. sg_scan_run_id s = run_id) (db_sightings d)"

definition closing_items :: "Db \<Rightarrow> nat list" where
  "closing_items d = map wi_id (filter (\<lambda>w. wi_state w \<in> set [W_merged, W_awaiting_rescan]) (db_work_items d))"

definition evaluate_run :: "Env \<Rightarrow> ScanRun \<Rightarrow> counts M" where
  "evaluate_run E run =
     bnd (query (\<lambda>d. (jobs_of (sr_id run) d, sightings_of (sr_id run) d, closing_items d))) (\<lambda>(jobs, sightings, items).
     bnd (loop (\<lambda>counts wid. close_work_item E wid run jobs sightings counts) [] items) (\<lambda>c1.
     bnd (regressions E run jobs sightings c1) (\<lambda>c2.
     bnd (drift E run jobs sightings c2) (\<lambda>c3.
     bnd (now E) (\<lambda>t.
     bnd (write_db (stamp_run (sr_id run) t)) (\<lambda>_. ret c3))))))"

definition apply_scan_run :: "Env \<Rightarrow> nat \<Rightarrow> counts M" where
  "apply_scan_run E run_id = write_scope (bnd (query (\<lambda>d. get_row sr_id run_id (db_runs d))) (\<lambda>r.
     case r of
       None \<Rightarrow> raise (Exn ''ValueError'' (''scan run '' @ show_nat run_id @ '' not found''))
     | Some run \<Rightarrow> if sr_closure_applied_at run \<noteq> None then ret [] else evaluate_run E run))"

definition pending_scan_runs :: "Db \<Rightarrow> nat list" where
  "pending_scan_runs d = map sr_id (sort_key recency (filter (\<lambda>r. sr_closure_applied_at r = None) (db_runs d)))"

definition apply_pending_scan_runs :: "Env \<Rightarrow> (nat \<times> counts) list M" where
  "apply_pending_scan_runs E =
     bnd (session_scope (query pending_scan_runs)) (\<lambda>pending.
     loop (\<lambda>acc i. bnd (apply_scan_run E i) (\<lambda>c. ret (acc @ [(i, c)]))) [] pending)"

definition applied_since :: "int \<Rightarrow> Db \<Rightarrow> ScanRun list" where
  "applied_since merged_at d =
     sort_key (\<lambda>r. (the (sr_finished_at r), sr_id r))
       (filter (\<lambda>r. sr_closure_applied_at r \<noteq> None \<and>
                    (case sr_finished_at r of None \<Rightarrow> False | Some t \<Rightarrow> merged_at \<le> t)) (db_runs d))"

definition close_from_run :: "Env \<Rightarrow> nat \<Rightarrow> ScanRun \<Rightarrow> unit M" where
  "close_from_run E wid run =
     bnd (wi_row wid) (\<lambda>wi.
     when_ok (wi_state wi \<in> set [W_merged, W_awaiting_rescan])
       (bnd (query (\<lambda>d. (jobs_of (sr_id run) d, sightings_of (sr_id run) d))) (\<lambda>(jobs, sightings).
        bnd (close_work_item E wid run jobs sightings []) (\<lambda>_. skip))))"

definition close_from_applied_runs :: "Env \<Rightarrow> nat \<Rightarrow> unit M" where
  "close_from_applied_runs E wid =
     bnd (wi_row wid) (\<lambda>wi.
     case wi_merged_at wi of
       None \<Rightarrow> skip
     | Some t \<Rightarrow> bnd (query (applied_since t)) (\<lambda>runs. for_each runs (close_from_run E wid)))"

section \<open>Preservation\<close>

lemma rv_valid_closing_run:
  "rv_valid (validate_closing_run vg run jobs f m anc rp later) \<Longrightarrow> closing_run_ok run"
  by (simp add: rv_valid_iff run_reasons_Nil closing_run_ok_def)

lemma decide_outcome_applicable:
  "decide_outcome f run view v hr u wc = Inr out \<Longrightarrow> out \<noteq> CO_not_applicable \<Longrightarrow> rv_valid v"
  by (cases "rv_valid v") (simp_all add: decide_outcome_def)

lemma keeps_bnd_lift: "(\<And>a. r = Inr a \<Longrightarrow> keeps P (f a)) \<Longrightarrow> keeps P (bnd (lift_exn r) f)"
  by (cases r) (simp_all add: keeps_def bnd_def lift_exn_def)

text \<open>\<open>validity_of\<close> changes no row and returns the verdict of the closure rules.\<close>

lemma keeps_bnd_validity:
  assumes "keeps P (query (later_run_saw run f))" "keeps P (ancestry E m run)"
    and "\<And>v. (rv_valid v \<Longrightarrow> closing_run_ok run) \<Longrightarrow> keeps P (k v)"
  shows "keeps P (bnd (validity_of E run jobs f m rp) k)"
proof -
  have "bnd (ret v) k = k v" for v by (rule ext) (simp add: run_simps)
  then show ?thesis
    unfolding validity_of_def bnd_assoc
    by (auto intro!: keeps_bnd [OF assms(1)] keeps_bnd [OF assms(2)] assms(3) dest: rv_valid_closing_run)
qed

context controller_invariant
begin

lemma is_ancestor_keeps [keeps_intros]: "keeps P (is_ancestor E b h)"
  unfolding is_ancestor_def by (intro keeps_intros)

lemma ancestry_keeps [keeps_intros]: "keeps P (ancestry E m run)"
  unfolding ancestry_def by (intro keeps_intros)

lemma record_outcome_keeps:
  assumes "out \<in> {CO_fixed, CO_approved_disposition, CO_scanner_disagreement_resolved} \<Longrightarrow> V (sr_id run)"
  shows "keeps P (record_outcome E run fid out)"
  using assms by (cases out) (auto simp: record_outcome_def intro!: keeps_intros)

lemma judge_member_keeps:
  assumes "closing_run_ok run \<Longrightarrow> V (sr_id run)"
  shows "keeps P (judge_member E wi run jobs sightings fid)"
  unfolding judge_member_def
  by (intro keeps_bnd [OF fd_row_keeps] keeps_bnd_validity keeps_query ancestry_keeps keeps_bnd [OF keeps_query]
      keeps_bnd_lift keeps_bnd [OF record_outcome_keeps] keeps_ret)
     (auto dest: decide_outcome_applicable intro!: assms)

lemma judge_step_keeps:
  assumes "closing_run_ok run \<Longrightarrow> V (sr_id run)"
  shows "keeps P (judge_step E wi run jobs sightings acc fid)"
  unfolding judge_step_def by (intro keeps_intros judge_member_keeps assms)

lemma verify_item_keeps [keeps_intros]: "keeps P (verify_item E wi run states)"
  unfolding verify_item_def by (intro keeps_intros) (simp_all add: note_simps)

lemma show_present_keeps [keeps_intros]: "keeps P (show_present E wi run still)"
  unfolding show_present_def by (intro keeps_intros) (simp add: enum_defs)

lemma conclude_item_keeps [keeps_intros]: "keeps P (conclude_item E wi run members outcomes reasons)"
  unfolding conclude_item_def by (intro keeps_intros)

lemma close_work_item_keeps:
  assumes "closing_run_ok run \<Longrightarrow> V (sr_id run)"
  shows "keeps P (close_work_item E wid run jobs sightings counts)"
  unfolding close_work_item_def by (intro keeps_intros judge_step_keeps assms)

lemma reopen_item_keeps [keeps_intros]: "keeps P (reopen_item E run f)"
  unfolding reopen_item_def by (intro keeps_intros)

lemma regression_step_keeps [keeps_intros]: "keeps P (regression_step E run jobs sightings present counts f)"
  unfolding regression_step_def
  by (intro keeps_if keeps_ret keeps_bnd [OF keeps_query] keeps_bnd_validity keeps_query ancestry_keeps
      keeps_bnd [OF finding_event_keeps] keeps_bnd [OF reopen_item_keeps]) (simp add: enum_defs)

lemma regressions_keeps [keeps_intros]: "keeps P (regressions E run jobs sightings counts)"
  unfolding regressions_def by (intro keeps_intros)

lemma drift_step_keeps:
  assumes "closing_run_ok run \<Longrightarrow> V (sr_id run)"
  shows "keeps P (drift_step E run jobs present acc f)"
  unfolding drift_step_def Let_def
  by (intro keeps_case_prod keeps_case_option keeps_if keeps_ret keeps_bnd [OF keeps_query] keeps_bnd_validity
      keeps_query ancestry_keeps keeps_bnd [OF finding_event_keeps]) (use assms in simp)

lemma supersede_item_keeps [keeps_intros]: "keeps P (supersede_item E run wid)"
  unfolding supersede_item_def by (intro keeps_intros)

lemma drift_keeps:
  assumes "closing_run_ok run \<Longrightarrow> V (sr_id run)"
  shows "keeps P (drift E run jobs sightings counts)"
  unfolding drift_def by (intro keeps_intros drift_step_keeps assms)

lemma stamp_run_keeps [keeps_intros]: "keeps P (write_db (stamp_run rid t))"
  by (intro keeps_write_db stamp)

lemma evaluate_run_keeps:
  assumes "closing_run_ok run \<Longrightarrow> V (sr_id run)"
  shows "keeps P (evaluate_run E run)"
  unfolding evaluate_run_def by (intro keeps_intros close_work_item_keeps drift_keeps assms)

lemma run_row_valid: "P d \<Longrightarrow> get_row sr_id i (db_runs d) = Some run \<Longrightarrow> closing_run_ok run \<Longrightarrow> V (sr_id run)"
  by (auto dest!: get_row_SomeD intro: valid_run)

lemma apply_scan_run_keeps [keeps_intros]: "keeps P (apply_scan_run E i)"
  unfolding apply_scan_run_def
  by (intro keeps_write_scope keeps_bnd_query keeps_case_option keeps_raise keeps_if keeps_ret evaluate_run_keeps)
     (rule run_row_valid)

lemma apply_pending_scan_runs_keeps [keeps_intros]: "keeps P (apply_pending_scan_runs E)"
  unfolding apply_pending_scan_runs_def by (intro keeps_intros)

lemma close_from_run_keeps:
  assumes "closing_run_ok run \<Longrightarrow> V (sr_id run)"
  shows "keeps P (close_from_run E wid run)"
  unfolding close_from_run_def by (intro keeps_intros close_work_item_keeps assms)

lemma close_from_applied_runs_keeps [keeps_intros]: "keeps P (close_from_applied_runs E wid)"
  unfolding close_from_applied_runs_def
  by (intro keeps_bnd [OF wi_row_keeps] keeps_case_option keeps_skip keeps_bnd_query keeps_for_each close_from_run_keeps)
     (auto simp: applied_since_def intro: valid_run)

end

end
