(* ===== verification/PullRequests.thy ===== *)
theory PullRequests
  imports Sessions Closure
begin

text \<open>
  Polling pull requests, from \<^verbatim>\<open>orchestrator/engine.py\<close>: head changes, merges and closures, the check runs
  and the verification ladder of the head, CI retries, Devin Review and the human approval.
\<close>

definition PR_STATES :: "WorkItemState list" where
  [enum_defs]: "PR_STATES = [W_pr_open, W_checks_running, W_review_pending, W_ready_for_human, W_needs_human]"

section \<open>Checks of a head\<close>

definition check_red :: "CheckRun \<Rightarrow> bool" where
  "check_red c \<longleftrightarrow> cr_status c = ''completed'' \<and> cr_conclusion c \<noteq> Some ''success''"

definition check_green :: "CheckRun \<Rightarrow> bool" where
  "check_green c \<longleftrightarrow> cr_status c = ''completed'' \<and> cr_conclusion c = Some ''success''"

definition checks_verdict :: "Env \<Rightarrow> CheckRun list \<Rightarrow> str" where
  "checks_verdict E checks =
     (let required = st_required_check_names (en_settings E);
          relevant = filter (\<lambda>c. required = [] \<or> cr_name c \<in> set required) checks
      in if required \<noteq> [] \<and> \<not> list_all (\<lambda>n. n \<in> set (map cr_name relevant)) required then ''running''
         else if relevant = [] then ''running''
         else if list_ex check_red relevant then ''red''
         else if list_all check_green relevant then ''green''
         else ''running'')"

definition put_check :: "nat \<Rightarrow> str \<Rightarrow> CheckRun \<Rightarrow> int \<Rightarrow> Db \<Rightarrow> Db" where
  "put_check prid head c t d =
     (let same = (\<lambda>x. pc_pull_request_id x = prid \<and> pc_head_sha x = head \<and> pc_name x = cr_name c);
          upd = (\<lambda>x. x\<lparr>pc_status := cr_status c, pc_conclusion := cr_conclusion c, pc_url := cr_url c, pc_observed_at := t\<rparr>)
      in d\<lparr>db_pr_checks :=
        (case find same (db_pr_checks d) of
           Some r \<Rightarrow> update_row pc_id (pc_id r) upd (db_pr_checks d)
         | None \<Rightarrow> db_pr_checks d @
             [\<lparr>pc_id = next_id pc_id (db_pr_checks d), pc_pull_request_id = prid, pc_head_sha = head,
               pc_name = cr_name c, pc_status = cr_status c, pc_conclusion = cr_conclusion c, pc_url = cr_url c,
               pc_observed_at = t\<rparr>])\<rparr>)"

definition record_checks :: "Env \<Rightarrow> nat \<Rightarrow> str \<Rightarrow> CheckRun list \<Rightarrow> unit M" where
  "record_checks E prid head checks =
     for_each checks (\<lambda>c. bnd (now E) (\<lambda>t. write_db (put_check prid head c t)))"

definition put_ver_check :: "nat \<Rightarrow> str \<Rightarrow> CheckRecord \<Rightarrow> int \<Rightarrow> Db \<Rightarrow> Db" where
  "put_ver_check prid head rec t d =
     (let same = (\<lambda>x. vc_pull_request_id x = prid \<and> vc_head_sha x = head \<and> vc_source x = rec_source rec \<and>
                      vc_name x = rec_name rec);
          upd = (\<lambda>x. x\<lparr>vc_status := rec_status rec, vc_detail := rec_detail rec, vc_url := rec_url rec, vc_observed_at := t\<rparr>)
      in d\<lparr>db_ver_checks :=
        (case find same (db_ver_checks d) of
           Some r \<Rightarrow> update_row vc_id (vc_id r) upd (db_ver_checks d)
         | None \<Rightarrow> db_ver_checks d @
             [\<lparr>vc_id = next_id vc_id (db_ver_checks d), vc_pull_request_id = prid, vc_head_sha = head,
               vc_depth = rec_depth rec, vc_name = rec_name rec, vc_source = rec_source rec,
               vc_status = rec_status rec, vc_detail = rec_detail rec, vc_url = rec_url rec,
               vc_observed_at = t\<rparr>])\<rparr>)"

definition rungs_text :: "DepthEvaluation \<Rightarrow> str" where
  "rungs_text ev = join '', '' (map (\<lambda>(d, s). ''L'' @ show_nat (depth_value d) @ ''='' @ check_status_value s) (ev_rungs ev))"

definition record_depth :: "Env \<Rightarrow> nat \<Rightarrow> nat \<Rightarrow> str \<Rightarrow> CheckRun list \<Rightarrow> unit M" where
  "record_depth E wid prid head checks =
     bnd (wi_row wid) (\<lambda>wi.
     bnd (query (active_session_row wi)) (\<lambda>sess.
     let ev = evaluate checks DEFAULT_LADDER;
         records = ev_records ev @ claims_from_output (case sess of None \<Rightarrow> None | Some s \<Rightarrow> se_structured_output s);
         highest = highest_passed ev in
     bnd (for_each records (\<lambda>r. bnd (now E) (\<lambda>t. write_db (put_ver_check prid head r t)))) (\<lambda>_.
     bnd (pr_row prid) (\<lambda>row.
     blk [when_ok (highest \<noteq> pr_verification_depth row)
            (log_event E ''work_item'' wid ''verification_depth'' (map_option depth_name (pr_verification_depth row))
               (map_option depth_name highest) (''head '' @ take 12 head @ '': '' @ rungs_text ev) ''controller'' []),
          edit_pr prid (\<lambda>p. p\<lparr>pr_depth_rungs := rung_summary ev, pr_verification_depth := highest\<rparr>),
          edit_wi wid (\<lambda>w. w\<lparr>wi_verification_depth := highest\<rparr>)]))))"

definition reverify_new_head :: "Env \<Rightarrow> nat \<Rightarrow> nat \<Rightarrow> str \<Rightarrow> unit M" where
  "reverify_new_head E wid prid head =
     bnd (wi_row wid) (\<lambda>wi. blk
       [when_ok (wi_state wi \<in> set [W_review_pending, W_ready_for_human])
          (bnd (wi_event E wid E_new_head_pushed (''new head '' @ take 12 head) ''controller'') (\<lambda>_. skip)),
        reset_level E wid prid LL_pr_opened (''new head '' @ take 12 head),
        edit_pr prid (\<lambda>p. p\<lparr>pr_verification_depth := None, pr_depth_rungs := []\<rparr>),
        edit_wi wid (\<lambda>w. w\<lparr>wi_verification_depth := None\<rparr>)])"

section \<open>Failed checks\<close>

definition rstrip :: "str \<Rightarrow> str" where
  "rstrip s = rev (dropWhile is_space (rev s))"

definition mark_first_head :: "PullRequestInfo \<Rightarrow> bool \<Rightarrow> PullRequest \<Rightarrow> PullRequest" where
  "mark_first_head pr green p =
     (if pr_first_head_checks_green p = None \<and> Some (pi_head_sha pr) = pr_first_head_sha p
      then p\<lparr>pr_first_head_checks_green := Some green\<rparr> else p)"

definition retry_text :: "Env \<Rightarrow> nat \<Rightarrow> PullRequestInfo \<Rightarrow> CheckRun list \<Rightarrow> str" where
  "retry_text E used pr failed = join nl
     ([''CI failed on '' @ pi_url pr @ '' (head '' @ take 12 (pi_head_sha pr) @
         ''). Fix it in this same PR/branch (retry '' @ show_nat used @ ''/'' @
         show_nat (st_retries_per_work_item (en_settings E)) @ ''):''] @
      map (\<lambda>c. rstrip (''- '' @ cr_name c @ '': '' @ show_opt_str (cr_conclusion c) @ '' '' @ opt_text (cr_url c))) failed @
      [''Push the fix, then update the structured output. Do not open another PR.''])"

definition reopen_session :: "str \<Rightarrow> unit M" where
  "reopen_session sid =
     bnd (query (session_by_devin_id (Some sid))) (\<lambda>r.
       case r of
         None \<Rightarrow> skip
       | Some s \<Rightarrow> edit_session (se_id s)
           (\<lambda>x. x\<lparr>se_messages_sent := Suc (se_messages_sent x), se_finished_at := None\<rparr>))"

definition retry_or_fail :: "Env \<Rightarrow> nat \<Rightarrow> nat \<Rightarrow> PullRequestInfo \<Rightarrow> CheckRun list \<Rightarrow> unit M" where
  "retry_or_fail E wid prid pr checks =
     bnd (edit_pr prid (mark_first_head pr False)) (\<lambda>_.
     bnd (wi_row wid) (\<lambda>wi.
     let failed = filter check_red checks; limit = st_retries_per_work_item (en_settings E);
         names = join '', '' (map cr_name failed) in
     case (wi_retries_used wi < limit, wi_active_session_id wi) of
       (True, Some sid) \<Rightarrow>
         (let used = Suc (wi_retries_used wi) in
          blk [edit_wi wid (\<lambda>w. w\<lparr>wi_retries_used := used\<rparr>),
               dv_send_message E sid (retry_text E used pr failed),
               reopen_session sid,
               bnd (wi_event E wid E_retry_sent (''retry '' @ show_nat used) ''controller'') (\<lambda>_. skip),
               case wi_issue_number wi of
                 None \<Rightarrow> skip
               | Some n \<Rightarrow> gh_comment_issue E n
                   (''Checks failed on '' @ take 12 (pi_head_sha pr) @ '' ('' @ names @
                    ''); asked the same session to fix (retry '' @ show_nat used @ '').'')])
     | _ \<Rightarrow>
         bnd (wi_event E wid E_retries_exhausted
                (show_nat (wi_retries_used wi) @ ''/'' @ show_nat limit @ '' retries used; failed: '' @ names) ''controller'')
           (\<lambda>_. skip)))"

section \<open>Review and approval\<close>

definition review_retriggered :: "nat \<Rightarrow> str \<Rightarrow> Db \<Rightarrow> bool" where
  "review_retriggered prid head d \<longleftrightarrow>
     list_ex (\<lambda>e. el_entity_type e = ''pull_request'' \<and> el_entity_id e = prid \<and> el_event e = ''review_triggered'' \<and>
                  el_to_state e = Some head \<and> starts_with (opt_text (el_reason e)) ''review errored'') (db_events d)"

definition review_timeout :: "Env \<Rightarrow> nat \<Rightarrow> str \<Rightarrow> str \<Rightarrow> unit M" where
  "review_timeout E wid head why =
     bnd (query (last_event_ts wid E_checks_green)) (\<lambda>green_at.
     case green_at of
       None \<Rightarrow> skip
     | Some g \<Rightarrow>
         bnd (now E) (\<lambda>t.
         when_ok (int (st_review_timeout_minutes (en_settings E)) * 60000000 < t - g)
           (bnd (wi_event E wid E_review_not_observed
              (why @ '' after '' @ show_nat (st_review_timeout_minutes (en_settings E)) @ '' min on '' @ take 12 head)
              ''controller'') (\<lambda>_. skip))))"

text \<open>
  The block that asks Devin for the review of the head: None when it already handed the item to a
  human, otherwise the review to judge.
\<close>

definition trigger_review :: "Env \<Rightarrow> nat \<Rightarrow> PullRequestInfo \<Rightarrow> str \<Rightarrow> ReviewSnapshot option M" where
  "trigger_review E prid pr reason =
     bnd (dv_trigger_review E (pi_url pr)) (\<lambda>snap.
     bnd (log_event E ''pull_request'' prid ''review_triggered'' None (Some (rs_commit_sha snap)) reason ''controller'' [])
       (\<lambda>_. ret (Some snap)))"

definition observe_review :: "Env \<Rightarrow> nat \<Rightarrow> nat \<Rightarrow> PullRequestInfo \<Rightarrow> ReviewSnapshot option M" where
  "observe_review E wid prid pr =
     (let head = pi_head_sha pr; h = take 12 head in
      bnd (dv_get_review E (pi_url pr) head) (\<lambda>r.
      case r of
        None \<Rightarrow> trigger_review E prid pr (''triggered for '' @ h)
      | Some snap \<Rightarrow>
          if \<not> (review_is_terminal (rs_status snap) \<and> rs_status snap \<noteq> RS_completed) then ret (Some snap)
          else if rs_status snap = RS_errored then
            bnd (query (review_retriggered prid head)) (\<lambda>again.
            if again then
              bnd (wi_event E wid E_review_not_observed (''devin review errored twice on '' @ h) ''controller'') (\<lambda>_. ret None)
            else trigger_review E prid pr (''review errored on '' @ h @ '', re-triggered''))
          else
            bnd (wi_event E wid E_review_not_observed
                   (''devin review '' @ review_status_value (rs_status snap) @ '' on '' @ h) ''controller'') (\<lambda>_. ret None)))"

definition review_id_of :: "ReviewSnapshot \<Rightarrow> str" where
  "review_id_of snap = rs_repo_path snap @ ''#'' @ show_nat (rs_pr_number snap) @ ''@'' @ rs_commit_sha snap"

definition check_review :: "Env \<Rightarrow> nat \<Rightarrow> nat \<Rightarrow> PullRequestInfo \<Rightarrow> unit M" where
  "check_review E wid prid pr =
     (let head = pi_head_sha pr in
      bnd (try_except (observe_review E wid prid pr)
             (\<lambda>e. bnd (review_timeout E wid head (''devin review API error: '' @ exn_msg e)) (\<lambda>_. ret None))) (\<lambda>r.
      case r of
        None \<Rightarrow> skip
      | Some snap \<Rightarrow>
          if rs_commit_sha snap \<noteq> head then
            review_timeout E wid head (''devin review names different commit '' @ take 12 (rs_commit_sha snap))
          else
            bnd (edit_pr prid (\<lambda>p. p\<lparr>pr_review_id := Some (review_id_of snap),
                   pr_review_head_sha := Some (rs_commit_sha snap),
                   pr_review_status := Some (review_status_value (rs_status snap))\<rparr>)) (\<lambda>_.
            if rs_status snap = RS_completed then
              bnd (wi_event E wid E_review_completed (review_id_of snap) ''devin'') (\<lambda>_.
              raise_level E wid prid LL_review_completed ''review_completed'')
            else review_timeout E wid head (''devin review still '' @ review_status_value (rs_status snap)))))"

definition approving :: "Env \<Rightarrow> PullRequestInfo \<Rightarrow> Review \<Rightarrow> bool" where
  "approving E pr r \<longleftrightarrow> rv_state r = ''APPROVED'' \<and> rv_author r \<in> set (st_approver_logins (en_settings E)) \<and>
     rv_commit_sha r = pi_head_sha pr"

definition check_approval :: "Env \<Rightarrow> nat \<Rightarrow> nat \<Rightarrow> PullRequestInfo \<Rightarrow> unit M" where
  "check_approval E wid prid pr =
     bnd (gh_list_pr_reviews E (pi_number pr)) (\<lambda>reviews.
     case find (approving E pr) reviews of
       None \<Rightarrow> skip
     | Some r \<Rightarrow>
         bnd (pr_row prid) (\<lambda>row.
         when_ok (pr_approved_by row \<noteq> Some (rv_author r)) (blk
           [edit_pr prid (\<lambda>p. p\<lparr>pr_approved_by := Some (rv_author r)\<rparr>),
            raise_level E wid prid LL_human_approved (''approved_by:'' @ rv_author r)])))"

section \<open>Applying what GitHub shows\<close>

definition or_time :: "int option \<Rightarrow> int \<Rightarrow> int" where
  "or_time x d = (case x of Some t \<Rightarrow> t | None \<Rightarrow> d)"

definition apply_head_change :: "Env \<Rightarrow> nat \<Rightarrow> nat \<Rightarrow> PullRequestInfo \<Rightarrow> unit M" where
  "apply_head_change E wid prid pr =
     bnd (pr_row prid) (\<lambda>row.
     when_ok (pi_head_sha pr \<noteq> pr_head_sha row) (blk
       [log_event E ''pull_request'' prid ''head_changed'' (Some (pr_head_sha row)) (Some (pi_head_sha pr)) ''new push''
          ''controller'' [],
        edit_pr prid (\<lambda>p. p\<lparr>pr_head_sha := pi_head_sha pr, pr_review_status := None, pr_approved_by := None\<rparr>),
        edit_wi wid (\<lambda>w. w\<lparr>wi_pr_head_sha := Some (pi_head_sha pr)\<rparr>),
        when_ok (\<not> pi_merged pr \<and> pi_state pr \<noteq> ''closed'') (reverify_new_head E wid prid (pi_head_sha pr))]))"

definition apply_merged :: "Env \<Rightarrow> nat \<Rightarrow> nat \<Rightarrow> PullRequestInfo \<Rightarrow> int \<Rightarrow> unit M" where
  "apply_merged E wid prid pr t =
     (let merged = Some (or_time (pi_merged_at pr) t); sha = opt_text (pi_merge_commit_sha pr);
          owned = [W_ready_for_human, W_needs_human] in
      bnd (edit_pr prid (\<lambda>p. p\<lparr>pr_state := ''merged'', pr_merge_sha := pi_merge_commit_sha pr, pr_merged_at := merged\<rparr>)) (\<lambda>_.
      bnd (edit_wi wid (\<lambda>w. w\<lparr>wi_merge_sha := pi_merge_commit_sha pr, wi_merged_at := merged\<rparr>)) (\<lambda>_.
      bnd (wi_row wid) (\<lambda>wi.
      bnd (when_ok (wi_state wi \<notin> set owned)
             (bnd (wi_event E wid E_blocked (''merged_before_verification:'' @ work_item_state_value (wi_state wi)) ''controller'')
                (\<lambda>_. skip))) (\<lambda>_.
      bnd (wi_row wid) (\<lambda>wi.
      when_ok (wi_state wi \<in> set owned)
        (bnd (wi_event E wid E_human_merged sha ''human'') (\<lambda>_.
         bnd (raise_level E wid prid LL_merged ''merged'') (\<lambda>_.
         bnd (query (members_of wid)) (\<lambda>members.
         bnd (for_each members (\<lambda>f. bnd (finding_event E (fd_id f) FE_pr_merged sha ''controller'' None) (\<lambda>_. skip))) (\<lambda>_.
         close_from_applied_runs E wid)))))))))))"

definition apply_closed :: "Env \<Rightarrow> nat \<Rightarrow> nat \<Rightarrow> PullRequestInfo \<Rightarrow> unit M" where
  "apply_closed E wid prid pr =
     bnd (edit_pr prid (\<lambda>p. p\<lparr>pr_state := ''closed''\<rparr>)) (\<lambda>_.
     bnd (wi_row wid) (\<lambda>wi.
     when_ok (wi_state wi \<noteq> W_needs_human)
       (bnd (wi_event E wid E_pr_closed_unmerged (pi_url pr) ''human'') (\<lambda>_. skip))))"

definition apply_green :: "Env \<Rightarrow> nat \<Rightarrow> nat \<Rightarrow> PullRequestInfo \<Rightarrow> unit M" where
  "apply_green E wid prid pr = blk
     [bnd (wi_row wid) (\<lambda>wi. when_ok (wi_state wi = W_checks_running) (blk
        [edit_pr prid (mark_first_head pr True),
         bnd (wi_event E wid E_checks_green (pi_head_sha pr) ''ci'') (\<lambda>_. skip),
         raise_level E wid prid LL_ci_green ''ci_green''])),
      bnd (wi_row wid) (\<lambda>wi. when_ok (wi_state wi = W_review_pending) (check_review E wid prid pr)),
      bnd (wi_row wid) (\<lambda>wi. when_ok (wi_state wi = W_ready_for_human) (check_approval E wid prid pr))]"

definition apply_red :: "Env \<Rightarrow> nat \<Rightarrow> nat \<Rightarrow> PullRequestInfo \<Rightarrow> CheckRun list \<Rightarrow> unit M" where
  "apply_red E wid prid pr checks =
     bnd (wi_row wid) (\<lambda>wi.
     when_ok (wi_state wi \<in> set [W_checks_running, W_review_pending, W_ready_for_human]) (blk
       [bnd (wi_event E wid E_checks_red (join '', '' (map cr_name (filter check_red checks))) ''ci'') (\<lambda>_. skip),
        retry_or_fail E wid prid pr checks]))"

definition apply_open :: "Env \<Rightarrow> nat \<Rightarrow> nat \<Rightarrow> PullRequestInfo \<Rightarrow> CheckRun list \<Rightarrow> unit M" where
  "apply_open E wid prid pr checks =
     (let verdict = checks_verdict E checks in blk
       [record_checks E prid (pi_head_sha pr) checks,
        record_depth E wid prid (pi_head_sha pr) checks,
        bnd (wi_row wid) (\<lambda>wi. when_ok (wi_state wi = W_pr_open)
          (bnd (wi_event E wid E_checks_started (pi_head_sha pr) ''controller'') (\<lambda>_. skip))),
        if verdict = ''red'' then apply_red E wid prid pr checks
        else when_ok (verdict = ''green'') (apply_green E wid prid pr)])"

definition apply_pr :: "Env \<Rightarrow> nat \<Rightarrow> nat \<Rightarrow> PullRequestInfo \<Rightarrow> CheckRun list \<Rightarrow> unit M" where
  "apply_pr E wid prid pr checks =
     bnd (now E) (\<lambda>t.
     bnd (edit_pr prid (\<lambda>p. p\<lparr>pr_updated_at := t\<rparr>)) (\<lambda>_.
     bnd (apply_head_change E wid prid pr) (\<lambda>_.
     if pi_merged pr then apply_merged E wid prid pr t
     else if pi_state pr = ''closed'' then apply_closed E wid prid pr
     else
       bnd (wi_row wid) (\<lambda>wi.
       when_ok (wi_state wi \<noteq> W_needs_human) (apply_open E wid prid pr checks)))))"

section \<open>Polling\<close>

definition checks_wanted :: "WorkItemState \<Rightarrow> PullRequestInfo \<Rightarrow> bool" where
  "checks_wanted state pr \<longleftrightarrow> \<not> pi_merged pr \<and> pi_state pr \<noteq> ''closed'' \<and> state \<noteq> W_needs_human"

definition pr_targets :: "Db \<Rightarrow> (nat \<times> nat \<times> WorkItemState) list" where
  "pr_targets d =
     List.map_filter (\<lambda>w. map_option (\<lambda>n. (wi_id w, n, wi_state w)) (wi_pr_number w))
       (filter (\<lambda>w. wi_state w \<in> set PR_STATES) (db_work_items d))"

definition fetch_pr :: "Env \<Rightarrow> nat \<Rightarrow> WorkItemState \<Rightarrow> (PullRequestInfo \<times> CheckRun list) option M" where
  "fetch_pr E number state =
     try_except
       (bnd (gh_get_pull_request E (repo_of E) number) (\<lambda>pr.
        bnd (if checks_wanted state pr then gh_list_check_runs E (pi_head_sha pr) else ret []) (\<lambda>checks.
        ret (Some (pr, checks)))))
       (\<lambda>e. ret None)"

definition poll_pull_request :: "Env \<Rightarrow> nat \<Rightarrow> nat \<times> nat \<times> WorkItemState \<Rightarrow> nat M" where
  "poll_pull_request E n target =
     (case target of (wid, number, state) \<Rightarrow>
        bnd (fetch_pr E number state) (\<lambda>r.
        case r of
          None \<Rightarrow> ret n
        | Some (pr, checks) \<Rightarrow>
            write_scope (bnd (wi_get wid) (\<lambda>r.
              case r of
                None \<Rightarrow> ret n
              | Some wi \<Rightarrow>
                  if wi_state wi \<notin> set PR_STATES \<or> wi_pr_number wi \<noteq> Some number then ret n
                  else
                    bnd (query (pr_by_number (repo_of E) number)) (\<lambda>row.
                    case row of
                      None \<Rightarrow> ret n
                    | Some p \<Rightarrow> bnd (apply_pr E wid (pr_id p) pr checks) (\<lambda>_. ret (Suc n)))))))"

definition poll_pull_requests :: "Env \<Rightarrow> nat M" where
  "poll_pull_requests E =
     bnd (session_scope (query pr_targets)) (\<lambda>targets. loop (poll_pull_request E) 0 targets)"

section \<open>Preservation\<close>

context controller_invariant
begin

lemma put_check_keeps [keeps_intros]: "keeps P (write_db (put_check prid head c t))"
  by (auto simp: put_check_def Let_def intro!: keeps_write_db pr_checks)

lemma put_ver_check_keeps [keeps_intros]: "keeps P (write_db (put_ver_check prid head r t))"
  by (auto simp: put_ver_check_def Let_def intro!: keeps_write_db ver_checks)

lemma record_checks_keeps [keeps_intros]: "keeps P (record_checks E prid head checks)"
  unfolding record_checks_def by (intro keeps_intros)

lemma record_depth_keeps [keeps_intros]: "keeps P (record_depth E wid prid head checks)"
  unfolding record_depth_def by (intro keeps_intros) (simp_all add: note_simps)

lemma reverify_new_head_keeps [keeps_intros]: "keeps P (reverify_new_head E wid prid head)"
  unfolding reverify_new_head_def by (intro keeps_intros) (simp add: note_simps)

lemma reopen_session_keeps [keeps_intros]: "keeps P (reopen_session sid)"
  unfolding reopen_session_def by (intro keeps_intros)

lemma retry_or_fail_keeps [keeps_intros]: "keeps P (retry_or_fail E wid prid pr checks)"
  unfolding retry_or_fail_def by (intro keeps_intros) (simp add: note_simps)

lemma review_timeout_keeps [keeps_intros]: "keeps P (review_timeout E wid head why)"
  unfolding review_timeout_def by (intro keeps_intros)

lemma trigger_review_keeps [keeps_intros]: "keeps P (trigger_review E prid pr reason)"
  unfolding trigger_review_def by (intro keeps_intros) (simp add: note_simps)

lemma observe_review_keeps [keeps_intros]: "keeps P (observe_review E wid prid pr)"
  unfolding observe_review_def by (intro keeps_intros)

lemma check_review_keeps [keeps_intros]: "keeps P (check_review E wid prid pr)"
  unfolding check_review_def by (intro keeps_intros)

lemma check_approval_keeps [keeps_intros]: "keeps P (check_approval E wid prid pr)"
  unfolding check_approval_def by (intro keeps_intros)

lemma apply_head_change_keeps [keeps_intros]: "keeps P (apply_head_change E wid prid pr)"
  unfolding apply_head_change_def by (intro keeps_intros) (simp_all add: note_simps)

lemma apply_merged_keeps [keeps_intros]: "keeps P (apply_merged E wid prid pr t)"
  unfolding apply_merged_def by (intro keeps_intros) (simp_all add: note_simps enum_defs)

lemma apply_closed_keeps [keeps_intros]: "keeps P (apply_closed E wid prid pr)"
  unfolding apply_closed_def by (intro keeps_intros)

lemma apply_green_keeps [keeps_intros]: "keeps P (apply_green E wid prid pr)"
  unfolding apply_green_def by (intro keeps_intros)

lemma apply_red_keeps [keeps_intros]: "keeps P (apply_red E wid prid pr checks)"
  unfolding apply_red_def by (intro keeps_intros)

lemma apply_open_keeps [keeps_intros]: "keeps P (apply_open E wid prid pr checks)"
  unfolding apply_open_def by (intro keeps_intros)

lemma apply_pr_keeps [keeps_intros]: "keeps P (apply_pr E wid prid pr checks)"
  unfolding apply_pr_def by (intro keeps_intros)

lemma fetch_pr_keeps [keeps_intros]: "keeps P (fetch_pr E number state)"
  unfolding fetch_pr_def by (intro keeps_intros)

lemma poll_pull_request_keeps [keeps_intros]: "keeps P (poll_pull_request E n target)"
  unfolding poll_pull_request_def by (intro keeps_intros)

lemma poll_pull_requests_keeps [keeps_intros]: "keeps P (poll_pull_requests E)"
  unfolding poll_pull_requests_def by (intro keeps_intros)

end

end
