(* ===== verification/Controller.thy ===== *)
theory Controller
  imports PullRequests
begin

text \<open>
  Human labels and the control loop, from \<^verbatim>\<open>orchestrator/engine.py\<close>: \<^verbatim>\<open>poll_human_labels\<close> and \<^verbatim>\<open>tick\<close>. The
  scan intake of a tick (\<^verbatim>\<open>ingest/intake.py\<close>) is an argument of \<open>tick\<close>. The controller as a whole is the
  step relation \<open>controller_step\<close>: one operation run to its end, or cut short by a crash in one of its
  remote calls, which leaves the database as last committed.
\<close>

section \<open>Human labels\<close>

definition HUMAN_LABEL_STATES :: "WorkItemState list" where
  [enum_defs]: "HUMAN_LABEL_STATES = [W_needs_human, W_failed, W_issue_open, W_ready_for_human]"

definition abandon_item :: "Env \<Rightarrow> nat \<Rightarrow> unit M" where
  "abandon_item E wid =
     bnd (wi_event E wid E_human_abandoned ''issue closed by human'' ''human'') (\<lambda>_.
     bnd (query (members_of wid)) (\<lambda>members.
     for_each members (\<lambda>f.
       bnd (finding_event E (fd_id f) FE_human_blocked ''issue closed'' ''human'' None) (\<lambda>_. skip))))"

definition retry_item :: "Env \<Rightarrow> nat \<Rightarrow> nat \<Rightarrow> unit M" where
  "retry_item E wid number = blk
     [gh_remove_label E number (human_label_value HL_retry),
      edit_wi wid (\<lambda>w. w\<lparr>wi_retries_used := 0, wi_active_session_id := None, wi_blocked_reason := None\<rparr>),
      bnd (wi_event E wid E_human_retry ''retry label'' ''human'') (\<lambda>_. skip)]"

definition resolve_item :: "Env \<Rightarrow> nat \<Rightarrow> str \<Rightarrow> unit M" where
  "resolve_item E wid resolution = blk
     [edit_wi wid (\<lambda>w. w\<lparr>wi_human_resolution := Some resolution\<rparr>),
      bnd (wi_event E wid E_human_resolved resolution ''human'') (\<lambda>_. skip)]"

definition label_present :: "HumanLabel \<Rightarrow> Issue \<Rightarrow> bool" where
  "label_present l issue \<longleftrightarrow> human_label_value l \<in> set (is_labels issue)"

definition apply_labels :: "Env \<Rightarrow> WorkItem \<Rightarrow> nat \<Rightarrow> Issue \<Rightarrow> nat \<Rightarrow> nat M" where
  "apply_labels E wi number issue n =
     (let wid = wi_id wi in
      if is_state issue = ''closed'' \<and> wi_state wi \<noteq> W_verified then
        bnd (abandon_item E wid) (\<lambda>_. ret (Suc n))
      else if wi_state wi \<in> set [W_needs_human, W_failed] then
        (if label_present HL_retry issue then bnd (retry_item E wid number) (\<lambda>_. ret (Suc n))
         else if label_present HL_disposition_approved issue \<and> wi_kind wi = K_no_fix_reachability \<and>
                 wi_human_resolution wi = None then
           bnd (resolve_item E wid (human_label_value HL_disposition_approved)) (\<lambda>_. ret (Suc n))
         else if label_present HL_disagreement_resolved issue \<and> wi_kind wi = K_scanner_disagreement \<and>
                 wi_human_resolution wi = None then
           bnd (resolve_item E wid (human_label_value HL_disagreement_resolved)) (\<lambda>_. ret (Suc n))
         else ret n)
      else ret n)"

definition label_targets :: "Db \<Rightarrow> (nat \<times> nat) list" where
  "label_targets d =
     List.map_filter (\<lambda>w. map_option (Pair (wi_id w)) (wi_issue_number w))
       (filter (\<lambda>w. wi_state w \<in> set HUMAN_LABEL_STATES) (db_work_items d))"

definition poll_human_label :: "Env \<Rightarrow> nat \<Rightarrow> nat \<times> nat \<Rightarrow> nat M" where
  "poll_human_label E n target =
     (case target of (wid, number) \<Rightarrow>
        bnd (try_except (bnd (gh_get_issue E number) (\<lambda>i. ret (Some i))) (\<lambda>e. ret None)) (\<lambda>r.
        case r of
          None \<Rightarrow> ret n
        | Some issue \<Rightarrow>
            write_scope (bnd (wi_get wid) (\<lambda>r.
              case r of
                None \<Rightarrow> ret n
              | Some wi \<Rightarrow>
                  if wi_state wi \<notin> set HUMAN_LABEL_STATES \<or> wi_issue_number wi \<noteq> Some number then ret n
                  else apply_labels E wi number issue n))))"

definition poll_human_labels :: "Env \<Rightarrow> nat M" where
  "poll_human_labels E =
     bnd (session_scope (query label_targets)) (\<lambda>targets. loop (poll_human_label E) 0 targets)"

section \<open>The tick\<close>

record TickReport =
  tk_scans_ingested :: nat
  tk_scans_rejected :: nat
  tk_scans_applied :: nat
  tk_work_items_created :: nat
  tk_issues_created :: nat
  tk_sessions_created :: nat
  tk_sessions_adopted :: nat
  tk_sessions_polled :: nat
  tk_prs_polled :: nat
  tk_labels_applied :: nat
  tk_scan_intake_error :: "str option"
  tk_scan_apply_error :: "str option"

definition exn_text :: "exn \<Rightarrow> str" where
  "exn_text e = exn_type e @ '': '' @ exn_msg e"

text \<open>\<open>try: ... except Exception as exc: error = ...\<close>: the value, or the text of the exception.\<close>

definition guarded :: "'a M \<Rightarrow> (str + 'a) M" where
  "guarded m = try_except (bnd m (\<lambda>a. ret (Inr a))) (\<lambda>e. ret (Inl (exn_text e)))"

text \<open>What follows the application of the pending runs: (created, adopted, issues).\<close>

definition tick_dispatch :: "Env \<Rightarrow> bool \<Rightarrow> bool \<Rightarrow> (nat \<times> nat list \<times> nat) M" where
  "tick_dispatch E auto_dispatch recover_only =
     (if auto_dispatch \<and> \<not> recover_only then dispatch E
      else
        bnd (if st_auto_open_issues (en_settings E) \<and> \<not> recover_only then open_issues E else ret 0) (\<lambda>issues.
        bnd (recover_dispatching E) (\<lambda>adopted. ret (0, adopted, issues))))"

text \<open>Everything a tick does after its scan intake; the report's intake fields are still empty.\<close>

definition tick_work :: "Env \<Rightarrow> bool \<Rightarrow> TickReport M" where
  "tick_work E auto_dispatch =
     bnd (poll_sessions E None) (\<lambda>polled.
     bnd (poll_pull_requests E) (\<lambda>prs.
     bnd (poll_human_labels E) (\<lambda>labels.
     bnd (guarded (apply_pending_scan_runs E)) (\<lambda>applied.
     let recover_only = (case applied of Inl _ \<Rightarrow> True | Inr _ \<Rightarrow> False) in
     bnd (if recover_only then ret [] else create_work_items E None) (\<lambda>items.
     bnd (tick_dispatch E auto_dispatch recover_only) (\<lambda>(created, adopted, issues).
     bnd (if adopted = [] then ret 0 else poll_sessions E (Some adopted)) (\<lambda>again.
     ret \<lparr>tk_scans_ingested = 0, tk_scans_rejected = 0,
          tk_scans_applied = (case applied of Inl _ \<Rightarrow> 0 | Inr xs \<Rightarrow> length xs),
          tk_work_items_created = length items, tk_issues_created = issues, tk_sessions_created = created,
          tk_sessions_adopted = length adopted, tk_sessions_polled = polled + again, tk_prs_polled = prs,
          tk_labels_applied = labels, tk_scan_intake_error = None,
          tk_scan_apply_error = (case applied of Inl t \<Rightarrow> Some t | Inr _ \<Rightarrow> None)\<rparr>)))))))"

definition report_intake :: "str + nat \<times> nat \<Rightarrow> TickReport \<Rightarrow> TickReport" where
  "report_intake scans r =
     (case scans of
        Inl t \<Rightarrow> r\<lparr>tk_scan_intake_error := Some t\<rparr>
      | Inr (ingested, rejected) \<Rightarrow> r\<lparr>tk_scans_ingested := ingested, tk_scans_rejected := rejected\<rparr>)"

definition tick :: "Env \<Rightarrow> (nat \<times> nat) M \<Rightarrow> bool \<Rightarrow> TickReport M" where
  "tick E poll_scans auto_dispatch =
     bnd (guarded poll_scans) (\<lambda>scans.
     bnd (tick_work E auto_dispatch) (\<lambda>report. ret (report_intake scans report)))"

section \<open>The controller as a step relation\<close>

datatype Op =
    OpTick bool
  | OpLaunch nat str
  | OpCancel nat str
  | OpApplyScanRun nat
  | OpCreateWorkItems "nat option"
  | OpDispatch
  | OpPollSessions "nat list option"
  | OpPollPullRequests
  | OpPollHumanLabels
  | OpReconcile

definition void :: "'a M \<Rightarrow> unit M" where
  "void m = bnd m (\<lambda>_. skip)"

text \<open>A tick without its intake, which is a step of its own (\<open>tick_intake\<close> below).\<close>

fun run_op :: "Env \<Rightarrow> Op \<Rightarrow> unit M" where
  "run_op E (OpTick auto) = void (tick E (ret (0, 0)) auto)"
| "run_op E (OpLaunch wid op) = void (launch E wid op)"
| "run_op E (OpCancel wid op) = void (cancel E wid op)"
| "run_op E (OpApplyScanRun i) = void (apply_scan_run E i)"
| "run_op E (OpCreateWorkItems i) = void (create_work_items E i)"
| "run_op E OpDispatch = void (dispatch E)"
| "run_op E (OpPollSessions only) = void (poll_sessions E only)"
| "run_op E OpPollPullRequests = void (poll_pull_requests E)"
| "run_op E OpPollHumanLabels = void (poll_human_labels E)"
| "run_op E OpReconcile = void (reconcile_sessions E)"

inductive controller_step :: "(Db \<Rightarrow> Db \<Rightarrow> bool) \<Rightarrow> Db \<Rightarrow> Db \<Rightarrow> bool" for intake where
  completed: "controller_step intake d (w_db (snd (run_op E op (fresh_world d))))"
| crashed: "(c, d') \<in> set (w_calls (snd (run_op E op (fresh_world d)))) \<Longrightarrow> controller_step intake d d'"
| ingested: "intake d d' \<Longrightarrow> controller_step intake d d'"

inductive reachable :: "(Db \<Rightarrow> Db \<Rightarrow> bool) \<Rightarrow> Db \<Rightarrow> Db \<Rightarrow> bool" for intake d0 where
  start: "reachable intake d0 d0"
| step: "reachable intake d0 d \<Longrightarrow> controller_step intake d d' \<Longrightarrow> reachable intake d0 d'"

inductive_cases controller_stepE: "controller_step intake d d'"

text \<open>The intake of a tick only contributes its two counters and its effects.\<close>

lemma guarded_run: "bnd (guarded m) f w = (case m w of (Inl e, w') \<Rightarrow> f (Inl (exn_text e)) w' | (Inr a, w') \<Rightarrow> f (Inr a) w')"
  by (simp add: guarded_def bnd_def ret_def try_except_def split: prod.split sum.split)

lemma snd_bnd_ret: "snd (bnd m (\<lambda>a. ret (h a)) w) = snd (m w)"
  by (simp add: bnd_def ret_def split: prod.split sum.split)

lemma tick_intake: "snd (tick E intake auto w) = snd (tick E (ret x) auto (snd (intake w)))"
proof -
  obtain r w' where m: "intake w = (r, w')" by (cases "intake w") auto
  show ?thesis
    by (cases r) (simp_all add: tick_def guarded_run m snd_bnd_ret, simp_all add: ret_def snd_bnd_ret [unfolded ret_def])
qed

section \<open>Preservation\<close>

context controller_invariant
begin

lemma abandon_item_keeps [keeps_intros]: "keeps P (abandon_item E wid)"
  unfolding abandon_item_def by (intro keeps_intros) (simp add: enum_defs)

lemma retry_item_keeps [keeps_intros]: "keeps P (retry_item E wid number)"
  unfolding retry_item_def by (intro keeps_intros) (simp add: note_simps)

lemma resolve_item_keeps [keeps_intros]: "keeps P (resolve_item E wid r)"
  unfolding resolve_item_def by (intro keeps_intros) (simp add: note_simps)

lemma apply_labels_keeps [keeps_intros]: "keeps P (apply_labels E wi number issue n)"
  unfolding apply_labels_def by (intro keeps_intros)

lemma poll_human_label_keeps [keeps_intros]: "keeps P (poll_human_label E n target)"
  unfolding poll_human_label_def by (intro keeps_intros)

lemma poll_human_labels_keeps [keeps_intros]: "keeps P (poll_human_labels E)"
  unfolding poll_human_labels_def by (intro keeps_intros)

lemma guarded_keeps [keeps_intros]: "keeps P m \<Longrightarrow> keeps P (guarded m)"
  unfolding guarded_def by (intro keeps_intros)

lemma tick_dispatch_keeps [keeps_intros]: "keeps P (tick_dispatch E auto ro)"
  unfolding tick_dispatch_def by (intro keeps_intros)

lemma tick_work_keeps [keeps_intros]: "keeps P (tick_work E auto)"
  unfolding tick_work_def by (intro keeps_intros)

lemma tick_keeps [keeps_intros]: "keeps P poll_scans \<Longrightarrow> keeps P (tick E poll_scans auto)"
  unfolding tick_def by (intro keeps_intros)

lemma void_keeps [keeps_intros]: "keeps P m \<Longrightarrow> keeps P (void m)"
  unfolding void_def by (intro keeps_intros)

lemma run_op_keeps: "keeps P (run_op E op)"
  by (cases op) (auto intro!: keeps_intros)

lemma controller_step_keeps:
  "controller_step intake d d' \<Longrightarrow> P d \<Longrightarrow> (intake d d' \<Longrightarrow> P d') \<Longrightarrow> P d'"
  by (erule controller_stepE) (auto dest: keeps_result [OF run_op_keeps])

end

end
