(* ===== verification/Invariants.thy ===== *)
theory Invariants
  imports Controller
begin

text \<open>
  What every operation of the controller keeps: the event log replays to the current states, scan
  evidence and the identity of work items and findings are never rewritten, and a closed finding
  names a run that was entitled to close it. Each is an interpretation of \<open>controller_invariant\<close>.
\<close>

section \<open>Replaying a log\<close>

text \<open>
  The state after a list of logged transitions: each must parse, be a row of the table, and name
  the states it goes from and to.
\<close>

fun replay :: "(str \<Rightarrow> 'e option) \<Rightarrow> ('s \<Rightarrow> 'e \<Rightarrow> 'x + 's) \<Rightarrow> ('s \<Rightarrow> str) \<Rightarrow> 's \<Rightarrow> Event list \<Rightarrow> 's option" where
  "replay parse nxt name s [] = Some s"
| "replay parse nxt name s (e # es) =
     (case parse (el_event e) of
        None \<Rightarrow> None
      | Some ev \<Rightarrow>
          (case nxt s ev of
             Inl _ \<Rightarrow> None
           | Inr s' \<Rightarrow>
               if el_from_state e = Some (name s) \<and> el_to_state e = Some (name s')
               then replay parse nxt name s' es else None))"

definition all_wi_events :: "WorkItemEvent list" where
  "all_wi_events =
     [E_dispatch_approved, E_issue_created, E_dispatch_started, E_session_created, E_session_adopted,
      E_dispatch_failed, E_pr_opened, E_checks_started, E_checks_green, E_checks_red, E_retry_sent,
      E_retries_exhausted, E_new_head_pushed, E_review_completed, E_review_not_observed, E_human_merged,
      E_pr_closed_unmerged, E_rescan_started, E_rescan_verified, E_rescan_shows_present, E_blocked,
      E_human_retry, E_operator_cancelled, E_human_abandoned, E_human_resolved, E_superseded]"

definition all_finding_events :: "FindingEvent list" where
  "all_finding_events =
     [FE_classified, FE_unclassifiable, FE_grouped, FE_remediation_started, FE_pr_merged, FE_closing_absent,
      FE_closing_vex, FE_disagreement_resolved, FE_reappeared, FE_human_blocked, FE_human_reopened, FE_reclassified]"

definition wi_event_of_value :: "str \<Rightarrow> WorkItemEvent option" where
  "wi_event_of_value s = find (\<lambda>e. wi_event_value e = s) all_wi_events"

definition finding_event_of_value :: "str \<Rightarrow> FindingEvent option" where
  "finding_event_of_value s = find (\<lambda>e. finding_event_value e = s) all_finding_events"

lemma wi_event_of_value [simp]: "wi_event_of_value (wi_event_value e) = Some e"
  by (cases e; hypsubst; code_simp)

lemma finding_event_of_value [simp]: "finding_event_of_value (finding_event_value e) = Some e"
  by (cases e; hypsubst; code_simp)

definition replay_wi :: "WorkItemState \<Rightarrow> Event list \<Rightarrow> WorkItemState option" where
  "replay_wi s es = replay wi_event_of_value next_work_item_state work_item_state_value s es"

definition replay_finding :: "FindingState \<Rightarrow> Event list \<Rightarrow> FindingState option" where
  "replay_finding s es = replay finding_event_of_value next_finding_state finding_state_value s es"

definition entity_log :: "str \<Rightarrow> str list \<Rightarrow> nat \<Rightarrow> Event list \<Rightarrow> Event list" where
  "entity_log entity names i es =
     filter (\<lambda>e. el_entity_type e = entity \<and> el_event e \<in> set names \<and> el_entity_id e = i) es"

definition start_state :: "('r \<Rightarrow> nat) \<Rightarrow> ('r \<Rightarrow> 's) \<Rightarrow> 's \<Rightarrow> 'r list \<Rightarrow> nat \<Rightarrow> 's" where
  "start_state rid st init rows i = (case get_row rid i rows of None \<Rightarrow> init | Some r \<Rightarrow> st r)"

text \<open>
  A table is tracked by the events logged since it had the rows \<open>rows0\<close>: keys are unique and only
  added, every transition logged is of a row, and each row's state is the replay of its log.
\<close>

definition tracked ::
    "('s \<Rightarrow> Event list \<Rightarrow> 's option) \<Rightarrow> str \<Rightarrow> str list \<Rightarrow> ('r \<Rightarrow> nat) \<Rightarrow> ('r \<Rightarrow> 's) \<Rightarrow> 's \<Rightarrow> 'r list \<Rightarrow>
       Event list \<Rightarrow> 'r list \<Rightarrow> bool" where
  "tracked rep entity names rid st init rows0 es rows \<longleftrightarrow>
     distinct (map rid rows) \<and> (\<exists>new. map rid rows = map rid rows0 @ new) \<and>
     (\<forall>e \<in> set es. el_entity_type e = entity \<and> el_event e \<in> set names \<longrightarrow> el_entity_id e \<in> rid ` set rows) \<and>
     (\<forall>r \<in> set rows. rep (start_state rid st init rows0 (rid r)) (entity_log entity names (rid r) es) = Some (st r))"

locale log_machine =
  fixes rep :: "'s \<Rightarrow> Event list \<Rightarrow> 's option" and entity :: str and names :: "str list"
  assumes rep_Nil: "rep s [] = Some s"
    and rep_append: "rep s (xs @ ys) = Option.bind (rep s xs) (\<lambda>s'. rep s' ys)"
begin

lemma tracked_start: "distinct (map rid rows) \<Longrightarrow> tracked rep entity names rid st init rows [] rows"
proof -
  assume d: "distinct (map rid rows)"
  have "get_row rid (rid r) rows = Some r" if "r \<in> set rows" for r
    using that d by (induction rows) (auto simp: get_row_Cons rev_image_eqI)
  with d show ?thesis by (auto simp: tracked_def entity_log_def rep_Nil start_state_def)
qed

lemma tracked_note:
  "tracked rep entity names rid st init rows0 es rows \<Longrightarrow> \<not> (el_entity_type e = entity \<and> el_event e \<in> set names) \<Longrightarrow>
     tracked rep entity names rid st init rows0 (es @ [e]) rows"
  by (auto simp: tracked_def entity_log_def)

lemma tracked_edit:
  assumes "tracked rep entity names rid st init rows0 es rows" "\<And>r. rid (g r) = rid r" "\<And>r. st (g r) = st r"
  shows "tracked rep entity names rid st init rows0 es (update_row rid i g rows)"
proof -
  have "map rid (update_row rid i g rows) = map rid rows" using assms(2) by (rule map_update_row)
  moreover from this have "rid ` set (update_row rid i g rows) = rid ` set rows" by (metis list.set_map)
  moreover have "\<forall>r \<in> set (update_row rid i g rows).
      rep (start_state rid st init rows0 (rid r)) (entity_log entity names (rid r) es) = Some (st r)"
    using assms by (auto simp: tracked_def update_row_def)
  ultimately show ?thesis using assms(1) by (simp add: tracked_def)
qed

lemma tracked_transition:
  assumes tr: "tracked rep entity names rid st init rows0 es rows"
    and row: "get_row rid i rows = Some r"
    and e: "el_entity_type e = entity" "el_entity_id e = i" "el_event e \<in> set names"
    and s': "rep (st r) [e] = Some s'"
    and g: "\<And>r. rid (g r) = rid r" "\<And>r. st (g r) = s'"
  shows "tracked rep entity names rid st init rows0 (es @ [e]) (update_row rid i g rows)"
proof -
  have ids: "map rid (update_row rid i g rows) = map rid rows" using g(1) by (rule map_update_row)
  then have img: "rid ` set (update_row rid i g rows) = rid ` set rows" by (metis list.set_map)
  have r: "r \<in> set rows" "rid r = i" using row by (auto dest: get_row_SomeD)
  have uniq: "x = r" if "x \<in> set rows" "rid x = i" for x
    using tr r that by (auto simp: tracked_def distinct_map inj_on_def)
  have "rep (start_state rid st init rows0 (rid x)) (entity_log entity names (rid x) (es @ [e])) = Some (st x)"
    if x: "x \<in> set (update_row rid i g rows)" for x
  proof -
    obtain y where y: "y \<in> set rows" "x = (if rid y = i then g y else y)" using x by (auto simp: update_row_def)
    have old: "rep (start_state rid st init rows0 (rid y)) (entity_log entity names (rid y) es) = Some (st y)"
      using tr y(1) by (simp add: tracked_def)
    show ?thesis
    proof (cases "rid y = i")
      case True
      then have "y = r" using uniq y(1) by blast
      then show ?thesis using True y old e s' g by (simp add: entity_log_def rep_append)
    next
      case False
      then show ?thesis using y old e by (simp add: entity_log_def)
    qed
  qed
  moreover have "i \<in> rid ` set rows" using r by blast
  ultimately show ?thesis using tr ids img e by (simp add: tracked_def)
qed

lemma tracked_new:
  assumes tr: "tracked rep entity names rid st init rows0 es rows" and new: "rid r \<notin> rid ` set rows" "st r = init"
  shows "tracked rep entity names rid st init rows0 es (rows @ [r])"
proof -
  obtain ext where "map rid rows = map rid rows0 @ ext" using tr by (auto simp: tracked_def)
  then have "rid ` set rows0 \<subseteq> rid ` set rows" by (metis list.set_map set_append sup_ge1)
  with new have "get_row rid (rid r) rows0 = None" by (auto simp: get_row_None)
  moreover have "entity_log entity names (rid r) es = []"
  proof -
    have "\<forall>e \<in> set es. el_entity_type e = entity \<and> el_event e \<in> set names \<longrightarrow> el_entity_id e \<in> rid ` set rows"
      using tr by (simp add: tracked_def)
    then have "\<forall>e \<in> set es. el_entity_type e = entity \<and> el_event e \<in> set names \<longrightarrow> el_entity_id e \<noteq> rid r"
      using new(1) by metis
    then show ?thesis by (simp add: entity_log_def filter_empty_conv)
  qed
  ultimately show ?thesis
    using tr new by (auto simp: tracked_def start_state_def rep_Nil)
qed

end

lemma replay_append:
  "replay parse nxt name s (xs @ ys) = Option.bind (replay parse nxt name s xs) (\<lambda>s'. replay parse nxt name s' ys)"
  by (induction parse nxt name s xs rule: replay.induct) (auto split: option.split sum.split)

interpretation wi_log: log_machine replay_wi "''work_item''" wi_event_names
  by unfold_locales (simp_all add: replay_wi_def replay_append)

interpretation finding_log: log_machine replay_finding "''finding''" finding_event_names
  by unfold_locales (simp_all add: replay_finding_def replay_append)

section \<open>The log replays to the current states\<close>

definition log_ok :: "Db \<Rightarrow> Db \<Rightarrow> bool" where
  "log_ok d0 d \<longleftrightarrow> (\<exists>es. db_events d = db_events d0 @ es \<and>
     tracked replay_wi ''work_item'' wi_event_names wi_id wi_state W_queued (db_work_items d0) es (db_work_items d) \<and>
     tracked replay_finding ''finding'' finding_event_names fd_id fd_state F_open (db_findings d0) es (db_findings d))"

definition keys_ok :: "Db \<Rightarrow> bool" where
  "keys_ok d \<longleftrightarrow> distinct (map wi_id (db_work_items d)) \<and> distinct (map fd_id (db_findings d))"

lemma log_ok_start: "keys_ok d \<Longrightarrow> log_ok d d"
  by (auto simp: log_ok_def keys_ok_def wi_log.tracked_start finding_log.tracked_start)

lemma log_ok_wi_transition:
  assumes "log_ok d0 d" "get_row wi_id wid (db_work_items d) = Some wi"
    and "next_work_item_state (wi_state wi) event = Inr s'"
  shows "log_ok d0 (do_wi_transition wid event (wi_state wi) s' reason actor t1 t2 d)"
proof -
  let ?e = "\<lparr>el_id = next_id el_id (db_events d), el_ts = t2, el_actor = actor, el_entity_type = ''work_item'',
        el_entity_id = wid, el_event = wi_event_value event,
        el_from_state = Some (work_item_state_value (wi_state wi)), el_to_state = Some (work_item_state_value s'),
        el_reason = Some reason, el_evidence_ids = []\<rparr>"
  let ?g = "\<lambda>w. w\<lparr>wi_state := s', wi_updated_at := t1,
                   wi_blocked_reason := (if event = E_blocked \<or> s' = W_needs_human then Some reason
                                         else wi_blocked_reason w)\<rparr>"
  obtain es where es: "db_events d = db_events d0 @ es"
    and w: "tracked replay_wi ''work_item'' wi_event_names wi_id wi_state W_queued (db_work_items d0) es (db_work_items d)"
    and f: "tracked replay_finding ''finding'' finding_event_names fd_id fd_state F_open (db_findings d0) es (db_findings d)"
    using assms(1) by (auto simp: log_ok_def)
  have "tracked replay_wi ''work_item'' wi_event_names wi_id wi_state W_queued (db_work_items d0) (es @ [?e])
      (update_row wi_id wid ?g (db_work_items d))"
    by (rule wi_log.tracked_transition [OF w assms(2), where s' = s'])
       (simp_all add: replay_wi_def assms(3))
  moreover have "tracked replay_finding ''finding'' finding_event_names fd_id fd_state F_open (db_findings d0) (es @ [?e])
      (db_findings d)"
    by (rule finding_log.tracked_note [OF f]) simp
  ultimately show ?thesis by (auto simp: log_ok_def do_wi_transition_def push_event_def es)
qed

lemma log_ok_finding_transition:
  assumes "log_ok d0 d" "get_row fd_id fid (db_findings d) = Some f"
    and "next_finding_state (fd_state f) event = Inr s'"
  shows "log_ok d0 (do_finding_transition fid event (fd_state f) s' reason actor run_id t1 t2 d)"
proof -
  let ?e = "\<lparr>el_id = next_id el_id (db_events d), el_ts = t2, el_actor = actor, el_entity_type = ''finding'',
        el_entity_id = fid, el_event = finding_event_value event,
        el_from_state = Some (finding_state_value (fd_state f)), el_to_state = Some (finding_state_value s'),
        el_reason = Some reason, el_evidence_ids = (case run_id of None \<Rightarrow> [] | Some r \<Rightarrow> [r])\<rparr>"
  let ?g = "\<lambda>f. f\<lparr>fd_state := s', fd_updated_at := t1,
                   fd_closed_by_run_id := (if s' \<in> set CLOSING_FINDING_STATES \<and> run_id \<noteq> None then run_id
                                           else fd_closed_by_run_id f)\<rparr>"
  obtain es where es: "db_events d = db_events d0 @ es"
    and w: "tracked replay_wi ''work_item'' wi_event_names wi_id wi_state W_queued (db_work_items d0) es (db_work_items d)"
    and f: "tracked replay_finding ''finding'' finding_event_names fd_id fd_state F_open (db_findings d0) es (db_findings d)"
    using assms(1) by (auto simp: log_ok_def)
  have "tracked replay_finding ''finding'' finding_event_names fd_id fd_state F_open (db_findings d0) (es @ [?e])
      (update_row fd_id fid ?g (db_findings d))"
    by (rule finding_log.tracked_transition [OF f assms(2), where s' = s'])
       (simp_all add: replay_finding_def assms(3))
  moreover have "tracked replay_wi ''work_item'' wi_event_names wi_id wi_state W_queued (db_work_items d0) (es @ [?e])
      (db_work_items d)"
    by (rule wi_log.tracked_note [OF w]) simp
  ultimately show ?thesis by (auto simp: log_ok_def do_finding_transition_def push_event_def es)
qed

lemma log_ok_note:
  assumes "log_ok d0 d" "note_event (el_entity_type ev) (el_event ev)"
  shows "log_ok d0 (push_event ev d)"
  using assms wi_log.tracked_note finding_log.tracked_note
  by (fastforce simp: log_ok_def push_event_def note_event_def)

interpretation log_inv: controller_invariant "log_ok d0" "\<lambda>_. True" for d0
proof (unfold_locales, goal_cases)
  case (1 d ev)
  then show ?case by (rule log_ok_note)
next
  case (2 d wid wi event s' reason actor t1 t2)
  then show ?case by (rule log_ok_wi_transition)
next
  case (3 d fid f fevent fs' run_id reason actor t1 t2)
  then show ?case by (intro log_ok_finding_transition)
next
  case (4 d g wid)
  then show ?case by (auto simp: log_ok_def wi_edit_def intro!: wi_log.tracked_edit)
next
  case (5 d fid own)
  then show ?case by (auto simp: log_ok_def intro!: finding_log.tracked_edit)
next
  case (6 d w)
  then show ?case
    using wi_log.tracked_new [where r = w and rid = wi_id and rows = "db_work_items d"]
      next_id_fresh [of wi_id "db_work_items d"]
    by (simp add: log_ok_def) blast
qed (simp_all add: log_ok_def stamp_run_def)

section \<open>Evidence and identities are never rewritten\<close>

text \<open>A run without its stamp, a finding without its lifecycle columns, the fixed columns of an item.\<close>

definition run_core :: "ScanRun \<Rightarrow> ScanRun" where
  "run_core r = r\<lparr>sr_closure_applied_at := None\<rparr>"

definition finding_core :: "Finding \<Rightarrow> Finding" where
  "finding_core f = f\<lparr>fd_state := F_open, fd_updated_at := 0, fd_closed_by_run_id := None, fd_work_item_id := None\<rparr>"

definition item_core :: "WorkItem \<Rightarrow> nat \<times> Kind \<times> str \<times> str \<times> str \<times> Severity \<times> Risk \<times> rat \<times> int \<times> nat option" where
  "item_core w = (wi_id w, wi_kind w, wi_group_key w, wi_title w, wi_source_branch w, wi_severity w, wi_risk w,
     wi_acu_cap w, wi_created_at w, wi_regression_of_work_item_id w)"

definition evidence_ok :: "Db \<Rightarrow> Db \<Rightarrow> bool" where
  "evidence_ok d0 d \<longleftrightarrow>
     map run_core (db_runs d) = map run_core (db_runs d0) \<and> db_jobs d = db_jobs d0 \<and>
     db_sightings d = db_sightings d0 \<and> map finding_core (db_findings d) = map finding_core (db_findings d0) \<and>
     (\<exists>new. map item_core (db_work_items d) = map item_core (db_work_items d0) @ new)"

lemma evidence_ok_start: "evidence_ok d d"
  by (simp add: evidence_ok_def)

lemma run_core_stamp: "map run_core (update_row sr_id rid (\<lambda>r. r\<lparr>sr_closure_applied_at := Some t\<rparr>) rows) = map run_core rows"
  by (rule map_update_row) (simp add: run_core_def)

interpretation evidence_inv: controller_invariant "evidence_ok d0" "\<lambda>_. True" for d0
proof (unfold_locales, goal_cases)
  case (2 d wid wi event s' reason actor t1 t2)
  then show ?case
    by (simp add: evidence_ok_def do_wi_transition_def push_event_def map_update_row item_core_def [abs_def])
next
  case (3 d fid f fevent fs' run_id reason actor t1 t2)
  then show ?case
    by (simp add: evidence_ok_def do_finding_transition_def push_event_def map_update_row finding_core_def [abs_def])
next
  case (4 d g wid)
  then have "map item_core (update_row wi_id wid g (db_work_items d)) = map item_core (db_work_items d)"
    by (intro map_update_row) (simp add: wi_edit_def item_core_def)
  with 4 show ?case by (simp add: evidence_ok_def)
next
  case (5 d fid own)
  then show ?case by (simp add: evidence_ok_def map_update_row finding_core_def [abs_def])
next
  case (6 d w)
  then show ?case by (auto simp: evidence_ok_def)
qed (simp_all add: evidence_ok_def push_event_def stamp_run_def run_core_stamp)

section \<open>A closed finding names a run entitled to close it\<close>

definition closed_by_one_of :: "ScanRun list \<Rightarrow> Finding \<Rightarrow> bool" where
  "closed_by_one_of runs f \<longleftrightarrow>
     (fd_state f \<in> set CLOSING_FINDING_STATES \<longrightarrow>
        (\<exists>r \<in> set runs. fd_closed_by_run_id f = Some (sr_id r) \<and> closing_run_ok r))"

definition closed_ok :: "Db \<Rightarrow> bool" where
  "closed_ok d \<longleftrightarrow> list_all (closed_by_one_of (db_runs d)) (db_findings d)"

definition closed_in :: "ScanRun list \<Rightarrow> Db \<Rightarrow> bool" where
  "closed_in runs d \<longleftrightarrow> map run_core (db_runs d) = runs \<and> list_all (closed_by_one_of runs) (db_findings d)"

definition entitled :: "ScanRun list \<Rightarrow> nat \<Rightarrow> bool" where
  "entitled runs i \<longleftrightarrow> list_ex (\<lambda>r. sr_id r = i \<and> closing_run_ok r) runs"

lemma run_core_sel [simp]: "sr_id (run_core r) = sr_id r" "closing_run_ok (run_core r) = closing_run_ok r"
  by (simp_all add: run_core_def closing_run_ok_def)

lemma closed_in_iff: "closed_ok d \<longleftrightarrow> closed_in (map run_core (db_runs d)) d"
proof -
  have "closed_by_one_of (map run_core (db_runs d)) = closed_by_one_of (db_runs d)"
    by (simp add: fun_eq_iff closed_by_one_of_def)
  then show ?thesis by (simp add: closed_ok_def closed_in_def)
qed

lemma closed_in_ok: "closed_in runs d \<Longrightarrow> closed_ok d"
  using closed_in_iff [of d] by (auto simp: closed_in_def)

interpretation closed_inv: controller_invariant "closed_in runs" "entitled runs" for runs
proof (unfold_locales, goal_cases)
  case (3 d fid f fevent fs' run_id reason actor t1 t2)
  let ?g = "\<lambda>f. f\<lparr>fd_state := fs', fd_updated_at := t1,
                   fd_closed_by_run_id := (if fs' \<in> set CLOSING_FINDING_STATES \<and> run_id \<noteq> None then run_id
                                           else fd_closed_by_run_id f)\<rparr>"
  have "closed_by_one_of runs (?g x)" for x
    using 3(4) closing_state_event [OF 3(3)] by (auto simp: closed_by_one_of_def entitled_def list_ex_iff)
  with 3 show ?case
    by (auto simp: closed_in_def do_finding_transition_def push_event_def list_all_iff update_row_def)
next
  case (5 d fid own)
  then show ?case by (auto simp: closed_in_def list_all_iff update_row_def closed_by_one_of_def)
next
  case (13 d r)
  then show ?case by (auto simp: closed_in_def entitled_def list_ex_iff)
qed (simp_all add: closed_in_def do_wi_transition_def push_event_def stamp_run_def run_core_stamp)

section \<open>Across steps\<close>

lemma step_closed_ok:
  assumes "controller_step intake d d'" "closed_ok d" "intake d d' \<Longrightarrow> closed_ok d'"
  shows "closed_ok d'"
  using assms(1)
proof (cases rule: controller_step.cases)
  case (completed E op)
  then show ?thesis
    using keeps_result(1) [OF closed_inv.run_op_keeps] assms(2) closed_in_ok unfolding closed_in_iff [of d] by blast
next
  case (crashed c E op)
  then show ?thesis
    using keeps_result(3) [OF closed_inv.run_op_keeps] assms(2) closed_in_ok unfolding closed_in_iff [of d] by blast
qed (use assms in auto)

lemma wi_event_of_value_Some: "wi_event_of_value v = Some e \<Longrightarrow> wi_event_value e = v"
  by (auto simp: wi_event_of_value_def dest: find_SomeD)

text \<open>A log that leads into a set of states has an event that crosses into it.\<close>

lemma replay_crosses:
  assumes "replay_wi s es = Some s'" "s \<notin> S" "s' \<in> S"
  shows "\<exists>e \<in> set es. \<exists>s1 ev s2. el_event e = wi_event_value ev \<and> next_work_item_state s1 ev = Inr s2 \<and> s1 \<notin> S \<and> s2 \<in> S"
  using assms
proof (induction es arbitrary: s)
  case (Cons e es)
  from Cons.prems(1) obtain ev s1 where ev: "wi_event_of_value (el_event e) = Some ev" "next_work_item_state s ev = Inr s1"
    and rest: "replay_wi s1 es = Some s'"
    by (auto simp: replay_wi_def split: option.splits sum.splits if_splits)
  show ?case
  proof (cases "s1 \<in> S")
    case True
    then show ?thesis using ev Cons.prems(2) by (metis list.set_intros(1) wi_event_of_value_Some)
  next
    case False
    from Cons.IH [OF rest this Cons.prems(3)] show ?thesis by auto
  qed
qed (simp add: replay_wi_def)

lemma replay_terminal:
  assumes "replay_wi s es = Some s'" "s \<in> set TERMINAL_WORK_ITEM_STATES"
  shows "s' = s"
proof (cases es)
  case Nil
  with assms show ?thesis by (simp add: replay_wi_def)
next
  case (Cons e rest)
  have "\<exists>x. next_work_item_state s ev = Inl x" for ev
  proof (cases "next_work_item_state s ev")
    case (Inr t)
    have "list_all (\<lambda>((s, e), s'). s \<notin> set TERMINAL_WORK_ITEM_STATES) WORK_ITEM_TRANSITIONS"
      by (simp add: WORK_ITEM_TRANSITIONS_def enum_defs)
    from wi_transition_rule [OF this Inr] assms(2) show ?thesis by simp
  qed auto
  then show ?thesis
    using assms(1) Cons by (auto simp: replay_wi_def split: option.splits sum.splits if_splits) (metis Inl_Inr_False)
qed

lemma log_ok_reachable:
  assumes "reachable (\<lambda>_ _. False) d0 d" "keys_ok d0"
  shows "log_ok d0 d"
  using assms(1) by (induction rule: reachable.induct) (auto intro: log_ok_start [OF assms(2)] log_inv.controller_step_keeps)

section \<open>The states behind a human decision\<close>

definition remediated :: "WorkItemState list" where
  "remediated = [W_merged, W_awaiting_rescan, W_verified]"

lemma entering_remediated:
  "next_work_item_state s ev = Inr s' \<Longrightarrow> s \<notin> set remediated \<Longrightarrow> s' \<in> set remediated \<Longrightarrow>
     ev = E_human_merged \<or> ev = E_human_resolved"
  by (drule wi_transition_rule [rotated, where P = "\<lambda>s e s'. s \<notin> set remediated \<longrightarrow> s' \<in> set remediated \<longrightarrow>
        e = E_human_merged \<or> e = E_human_resolved"])
     (auto simp: WORK_ITEM_TRANSITIONS_def remediated_def)

end
