(* ===== verification/Effects.thy ===== *)
theory Effects
  imports Invariants
begin

text \<open>
  What single operations do: the exact effect of a guarded state change, which remote calls an
  operation can make, and the reserve-before-create discipline of a dispatch.
\<close>

section \<open>Effects\<close>

text \<open>
  An effect is a preorder on worlds that the clock respects; an operation has it when it relates the
  world before to the world after, whether the operation returned or raised.
\<close>

definition eff :: "(World \<Rightarrow> World \<Rightarrow> bool) \<Rightarrow> 'a M \<Rightarrow> bool" where
  "eff R m \<longleftrightarrow> (\<forall>w. R w (snd (m w)))"

lemma effD: "eff R m \<Longrightarrow> m w = (r, w') \<Longrightarrow> R w w'"
  by (metis eff_def snd_conv)

named_theorems eff_intros \<open>effects of the combinators and of the operations\<close>

locale uncommitted_effect =
  fixes R :: "World \<Rightarrow> World \<Rightarrow> bool"
  assumes R_refl: "R w w"
    and R_trans: "R w1 w2 \<Longrightarrow> R w2 w3 \<Longrightarrow> R w1 w3"
    and R_reads: "R w (w\<lparr>w_reads := n\<rparr>)"
begin

lemma eff_prims:
  "eff R (ret a)" "eff R skip" "eff R (raise e)" "eff R (query f)" "eff R (now E)" "eff R (lift_exn r)"
  by (simp_all add: eff_def ret_def skip_def raise_def query_def now_def lift_exn_def R_refl R_reads)

lemma eff_bnd:
  assumes m: "eff R m" and f: "\<And>a. eff R (f a)"
  shows "eff R (bnd m f)"
  unfolding eff_def
proof
  fix w
  obtain r w' where mw: "m w = (r, w')" by (cases "m w") auto
  have "R w w'" by (rule effD [OF m mw])
  moreover have "R w' (snd (f a w'))" for a using f by (simp add: eff_def)
  ultimately show "R w (snd (bnd m f w))" by (cases r) (auto simp: bnd_def mw intro: R_trans)
qed

lemma eff_try_except:
  assumes m: "eff R m" and h: "\<And>e. eff R (h e)"
  shows "eff R (try_except m h)"
  unfolding eff_def
proof
  fix w
  obtain r w' where mw: "m w = (r, w')" by (cases "m w") auto
  have "R w w'" by (rule effD [OF m mw])
  moreover have "R w' (snd (h e w'))" for e using h by (simp add: eff_def)
  ultimately show "R w (snd (try_except m h w))" by (cases r) (auto simp: try_except_def mw intro: R_trans)
qed

lemma eff_blk: "list_all (eff R) ms \<Longrightarrow> eff R (blk ms)"
  by (induction ms) (auto intro: eff_prims eff_bnd)

lemma eff_for_each: "(\<And>x. eff R (f x)) \<Longrightarrow> eff R (for_each xs f)"
  by (induction xs) (auto intro: eff_prims eff_bnd)

lemma eff_loop: "(\<And>s x. eff R (f s x)) \<Longrightarrow> eff R (loop f s xs)"
  by (induction xs arbitrary: s) (auto intro: eff_prims eff_bnd)

lemma eff_when_ok: "eff R m \<Longrightarrow> eff R (when_ok b m)"
  by (simp add: when_ok_def eff_prims)

lemmas eff_control = eff_prims eff_bnd eff_try_except eff_blk eff_for_each eff_loop eff_when_ok

end

text \<open>An effect that commits have too.\<close>

locale effect = uncommitted_effect +
  assumes R_saved: "R w (w\<lparr>w_saved := d\<rparr>)"
begin

lemma eff_commit: "eff R commit"
  by (simp add: eff_def commit_def R_saved)

lemmas eff_monad = eff_control eff_commit

end

lemma eff_if [eff_intros]: "eff R m \<Longrightarrow> eff R m' \<Longrightarrow> eff R (if b then m else m')"
  by simp

lemma eff_case_option [eff_intros]:
  "eff R m \<Longrightarrow> (\<And>a. eff R (g a)) \<Longrightarrow> eff R (case x of None \<Rightarrow> m | Some a \<Rightarrow> g a)"
  by (simp split: option.split)

lemma eff_case_sum [eff_intros]:
  "(\<And>a. eff R (l a)) \<Longrightarrow> (\<And>b. eff R (r b)) \<Longrightarrow> eff R (case y of Inl a \<Rightarrow> l a | Inr b \<Rightarrow> r b)"
  by (simp split: sum.split)

lemma eff_case_prod [eff_intros]: "(\<And>a b. eff R (h a b)) \<Longrightarrow> eff R (case z of (a, b) \<Rightarrow> h a b)"
  by (simp split: prod.split)

lemma eff_case_list [eff_intros]:
  "eff R m \<Longrightarrow> (\<And>a as. eff R (h a as)) \<Longrightarrow> eff R (case xs of [] \<Rightarrow> m | a # as \<Rightarrow> h a as)"
  by (simp split: list.split)

lemma eff_case_bool [eff_intros]: "eff R m \<Longrightarrow> eff R m' \<Longrightarrow> eff R (case b of True \<Rightarrow> m | False \<Rightarrow> m')"
  by (simp split: bool.split)

lemma eff_Let [eff_intros]: "eff R (f a) \<Longrightarrow> eff R (Let a f)"
  by simp

lemma eff_all [eff_intros]: "list_all (eff R) []" "eff R m \<Longrightarrow> list_all (eff R) ms \<Longrightarrow> list_all (eff R) (m # ms)"
  by simp_all

text \<open>An effect that the database does not matter to: it also goes through transactions.\<close>

locale call_effect = effect +
  assumes R_db: "R w (w\<lparr>w_db := d\<rparr>)"
begin

lemma eff_write_db: "eff R (write_db g)"
  by (simp add: eff_def write_db_def R_db)

lemma eff_session_scope:
  assumes "eff R m"
  shows "eff R (session_scope m)"
  unfolding eff_def
proof
  fix w
  obtain r w' where mw: "m (w\<lparr>w_saved := w_db w\<rparr>) = (r, w')" by (cases "m (w\<lparr>w_saved := w_db w\<rparr>)") auto
  have "R w w'" by (rule R_trans [OF R_saved effD [OF assms mw]])
  then show "R w (snd (session_scope m w))"
    by (cases r) (auto simp: session_scope_def mw intro: R_trans R_saved R_db)
qed

lemma eff_write_scope: "eff R m \<Longrightarrow> eff R (write_scope m)"
  by (simp add: write_scope_eq eff_session_scope)

lemmas eff_transactions = eff_write_db eff_session_scope eff_write_scope

end

section \<open>Which calls an operation makes\<close>

definition calls_rel :: "(Call \<Rightarrow> bool) \<Rightarrow> World \<Rightarrow> World \<Rightarrow> bool" where
  "calls_rel C w w' \<longleftrightarrow> (\<exists>cs. w_calls w' = cs @ w_calls w \<and> (\<forall>(c, d) \<in> set cs. C c))"

interpretation calls: call_effect "calls_rel C" for C
proof (unfold_locales, goal_cases)
  case (2 w1 w2 w3)
  then obtain cs ds where "w_calls w2 = cs @ w_calls w1" "w_calls w3 = ds @ w_calls w2"
    "\<forall>(c, d) \<in> set cs. C c" "\<forall>(c, d) \<in> set ds. C c" by (auto simp: calls_rel_def)
  then show ?case by (auto simp: calls_rel_def intro!: exI [of _ "ds @ cs"])
qed (simp_all add: calls_rel_def)

lemmas calls_monad [eff_intros] = calls.eff_monad calls.eff_transactions

lemma calls_remote: "C c \<Longrightarrow> eff (calls_rel C) (remote c a)"
  by (auto simp: eff_def calls_rel_def remote_def Let_def)

fun creates_session :: "Call \<Rightarrow> bool" where
  "creates_session (CreateSession req) = True"
| "creates_session _ = False"

abbreviation no_create :: "'a M \<Rightarrow> bool" where
  "no_create \<equiv> eff (calls_rel (\<lambda>c. \<not> creates_session c))"

lemma remotes_no_create [eff_intros]:
  "no_create (gh_get_issue E n)" "no_create (gh_create_issue E t b ls)" "no_create (gh_find_issues E l s)"
  "no_create (gh_comment_issue E n t)" "no_create (gh_add_labels E n ls)" "no_create (gh_remove_label E n l)"
  "no_create (gh_close_issue E n)" "no_create (gh_reopen_issue E n)" "no_create (gh_get_pull_request E r n)"
  "no_create (gh_list_pr_files E n)" "no_create (gh_list_pr_reviews E n)" "no_create (gh_list_check_runs E s)"
  "no_create (gh_compare E s s')" "no_create (dv_get_session E s)" "no_create (dv_terminate_session E s)"
  "no_create (dv_list_sessions E ls)" "no_create (dv_send_message E s t)" "no_create (dv_upload_attachment E s j)"
  "no_create (dv_last_question E s)" "no_create (dv_get_review E s s')" "no_create (dv_trigger_review E s)"
  by (simp_all add: remote_defs calls_remote)

lemma core_no_create [eff_intros]:
  "no_create (log_event E et i ev f t r a es)" "no_create (wi_row wid)" "no_create (fd_row fid)"
  "no_create (edit_wi wid g)" "no_create (wi_note E wi ev r a)"
  unfolding log_event_def wi_row_def fd_row_def edit_wi_def wi_note_def by (intro eff_intros)+

lemma sync_no_create [eff_intros]: "no_create (sync_human_label E wid b a)"
  unfolding sync_human_label_def by (intro eff_intros)

lemma wi_apply_no_create [eff_intros]: "(\<And>s. no_create (k s)) \<Longrightarrow> no_create (wi_apply E wid ev r a k)"
  unfolding wi_apply_def wi_commit_def by (intro eff_intros)

lemma wi_event_no_create [eff_intros]: "no_create (wi_event E wid ev r a)"
  unfolding wi_event_def by (intro eff_intros)

lemma finding_event_no_create [eff_intros]: "no_create (finding_event E fid ev r a run)"
  unfolding finding_event_def by (intro eff_intros)

lemma dispatch_failed_no_create [eff_intros]: "no_create (dispatch_failed E wid reason)"
  unfolding dispatch_failed_def by (intro eff_intros)

lemma record_session_no_create [eff_intros]: "no_create (record_session E wid snap ad)"
  unfolding record_session_def by (intro eff_intros)

lemma adopt_no_create [eff_intros]: "no_create (adopt_tagged_session E wid)"
  unfolding adopt_tagged_session_def by (intro eff_intros)

lemma session_started_no_create [eff_intros]: "no_create (session_started E wid n members snap)"
  unfolding session_started_def by (intro eff_intros)

section \<open>The effect of a guarded state change\<close>

text \<open>An operation that leaves the database, open and committed, alone.\<close>

definition quiet :: "'a M \<Rightarrow> bool" where
  "quiet m \<longleftrightarrow> (\<forall>w. w_db (snd (m w)) = w_db w \<and> w_saved (snd (m w)) = w_saved w)"

lemma quiet_prims: "quiet (ret a)" "quiet skip" "quiet (query f)" "quiet (remote c r)" "quiet (now E)" "quiet (raise e)"
  by (simp_all add: quiet_def ret_def skip_def query_def remote_def now_def raise_def Let_def)

lemma quiet_bnd: "quiet m \<Longrightarrow> (\<And>a. quiet (f a)) \<Longrightarrow> quiet (bnd m f)"
  by (simp add: quiet_def bnd_def split: prod.split sum.split) (metis prod.sel(2))

lemma quiet_try: "quiet m \<Longrightarrow> (\<And>e. quiet (h e)) \<Longrightarrow> quiet (try_except m h)"
  by (simp add: quiet_def try_except_def split: prod.split sum.split) (metis prod.sel(2))

lemma quiet_blk: "list_all quiet ms \<Longrightarrow> quiet (blk ms)"
  by (induction ms) (auto intro: quiet_prims quiet_bnd)

lemma quiet_wi_row: "quiet (wi_row wid)"
  by (simp add: quiet_def wi_row_def bnd_def query_def ret_def raise_def split: option.split)

lemma quiet_control:
  "quiet m \<Longrightarrow> quiet m' \<Longrightarrow> quiet (if b then m else m')"
  "quiet m \<Longrightarrow> (\<And>a. quiet (g a)) \<Longrightarrow> quiet (case x of None \<Rightarrow> m | Some a \<Rightarrow> g a)"
  by (simp_all split: option.split)

lemma quiet_remotes: "quiet (gh_add_labels E n ls)" "quiet (gh_comment_issue E n t)" "quiet (gh_remove_label E n l)"
  by (simp_all add: remote_defs quiet_prims)

lemma quiet_sync: "quiet (sync_human_label E wid b a)"
  unfolding sync_human_label_def
  by (intro quiet_bnd quiet_wi_row quiet_control(2) quiet_prims quiet_try quiet_control(1) quiet_blk quiet_remotes)
     (simp add: quiet_remotes)

lemma sync_returns: "get_row wi_id wid (db_work_items (w_db w)) \<noteq> None \<Longrightarrow> fst (sync_human_label E wid b a w) = Inr ()"
  by (auto simp: sync_human_label_def bnd_wi_row skip_def ret_def try_except_def split: option.split prod.split sum.split)

lemma get_do_wi_transition:
  "get_row wi_id i (db_work_items (do_wi_transition wid ev b s' r a t1 t2 d)) =
     (if i = wid then map_option (\<lambda>w. w\<lparr>wi_state := s', wi_updated_at := t1,
         wi_blocked_reason := (if ev = E_blocked \<or> s' = W_needs_human then Some r else wi_blocked_reason w)\<rparr>)
        (get_row wi_id wid (db_work_items d)) else get_row wi_id i (db_work_items d))"
  by (simp add: do_wi_transition_def push_event_def get_row_update)

lemma bnd_Inr: "m w = (Inr a, w') \<Longrightarrow> bnd m f w = f a w'"
  by (simp add: bnd_def)

lemma bnd_Inl: "m w = (Inl e, w') \<Longrightarrow> bnd m f w = (Inl e, w')"
  by (simp add: bnd_def)

lemma wi_event_valid:
  assumes row: "get_row wi_id wid (db_work_items (w_db w)) = Some wi"
    and nxt: "next_work_item_state (wi_state wi) ev = Inr s'"
  obtains w' t1 t2 where "wi_event E wid ev reason actor w = (Inr s', w')"
    and "w_db w' = do_wi_transition wid ev (wi_state wi) s' reason actor t1 t2 (w_db w)"
    and "w_saved w' = w_saved w"
proof -
  define t1 where "t1 = en_clock E (w_reads w)"
  define t2 where "t2 = en_clock E (Suc (w_reads w))"
  let ?d = "do_wi_transition wid ev (wi_state wi) s' reason actor t1 t2 (w_db w)"
  let ?w = "w\<lparr>w_reads := Suc (Suc (w_reads w)), w_db := ?d\<rparr>"
  obtain r w'' where s: "sync_human_label E wid (wi_state wi) s' ?w = (r, w'')"
    by (cases "sync_human_label E wid (wi_state wi) s' ?w") auto
  have r: "r = Inr ()" using sync_returns [of wid ?w E "wi_state wi" s'] row s by (simp add: get_do_wi_transition)
  have "w_db (snd (sync_human_label E wid (wi_state wi) s' ?w)) = ?d \<and>
      w_saved (snd (sync_human_label E wid (wi_state wi) s' ?w)) = w_saved w"
    using quiet_sync [of E wid "wi_state wi" s'] by (simp add: quiet_def)
  then have q: "w_db w'' = ?d" "w_saved w'' = w_saved w" using s by simp_all
  have step: "bnd (sync_human_label E wid (wi_state wi) s') (\<lambda>_. ret s') ?w = ret s' w''"
    by (simp add: bnd_def s r)
  have "wi_event E wid ev reason actor w = (Inr s', w'')"
    using step by (simp add: wi_event_def wi_apply_def bnd_wi_row row nxt wi_commit_def run_simps t1_def t2_def)
  then show thesis using that q by blast
qed

lemma wi_event_state:
  assumes "get_row wi_id wid (db_work_items (w_db w)) = Some wi" "next_work_item_state (wi_state wi) ev = Inr s'"
  obtains w' wi' where "wi_event E wid ev reason actor w = (Inr s', w')" "w_saved w' = w_saved w"
    and "get_row wi_id wid (db_work_items (w_db w')) = Some wi'" "wi_state wi' = s'"
    and "wi_issue_number wi' = wi_issue_number wi" "wi_active_session_id wi' = wi_active_session_id wi"
    and "\<And>i. i \<noteq> wid \<Longrightarrow> get_row wi_id i (db_work_items (w_db w')) = get_row wi_id i (db_work_items (w_db w))"
    and "db_findings (w_db w') = db_findings (w_db w)"
proof -
  obtain w' t1 t2 where r: "wi_event E wid ev reason actor w = (Inr s', w')" "w_saved w' = w_saved w"
    and d: "w_db w' = do_wi_transition wid ev (wi_state wi) s' reason actor t1 t2 (w_db w)"
    by (rule wi_event_valid [OF assms])
  have f: "db_findings (w_db w') = db_findings (w_db w)" by (simp add: d do_wi_transition_def push_event_def)
  let ?wi = "wi\<lparr>wi_state := s', wi_updated_at := t1,
      wi_blocked_reason := (if ev = E_blocked \<or> s' = W_needs_human then Some reason else wi_blocked_reason wi)\<rparr>"
  have g: "get_row wi_id wid (db_work_items (w_db w')) = Some ?wi" by (simp add: d get_do_wi_transition assms(1))
  show thesis by (rule that [OF r g]) (simp_all add: d get_do_wi_transition f [unfolded d])
qed

section \<open>Reserve, then create\<close>

definition creates :: "World \<Rightarrow> (Call \<times> Db) list" where
  "creates w = filter (\<lambda>(c, d). creates_session c) (w_calls w)"

lemma no_create_creates: "no_create m \<Longrightarrow> m w = (r, w') \<Longrightarrow> creates w' = creates w"
  by (drule (1) effD) (auto simp: creates_def calls_rel_def filter_empty_conv)

lemma create_remote_creates:
  assumes "create_remote_session E wi members w = (r, w')" "x \<in> set (creates w')"
  shows "x \<in> set (creates w) \<or> (\<exists>att. x = (CreateSession (session_request E wi members att), w_saved w))"
  using assms
  by (auto simp: create_remote_session_def dv_upload_attachment_def dv_create_session_def try_except_def bnd_def
      remote_def ret_def creates_def Let_def split: sum.splits prod.splits)

lemma adopt_None_db: "adopt_tagged_session E wid w = (Inr None, w') \<Longrightarrow> w_db w' = w_db w"
proof -
  assume a: "adopt_tagged_session E wid w = (Inr None, w')"
  let ?w = "w\<lparr>w_saved := w_db w\<rparr>"
  let ?list = "try_except (bnd (dv_list_sessions E [wi_tag wid]) (\<lambda>xs. ret (Inr xs))) (\<lambda>e. ret (Inl e))"
  obtain t w2 where t: "?list ?w = (t, w2)" by (cases "?list ?w") auto
  have t2: "\<exists>x. t = Inr x" "w_db w2 = w_db w"
    using t by (auto simp: try_except_def bnd_def dv_list_sessions_def remote_def ret_def Let_def split: sum.splits)
  then obtain x where x: "t = Inr x" by blast
  show ?thesis
  proof (cases x)
    case (Inl e)
    then show ?thesis using a t x
      by (simp add: adopt_tagged_session_def run_simps bnd_Inr [where m = ?list, OF t [unfolded x]])
         (simp add: bnd_def ret_def split: prod.splits sum.splits)
  next
    case (Inr ss)
    then show ?thesis using a t2 x
      by (simp add: adopt_tagged_session_def run_simps bnd_Inr [where m = ?list, OF t [unfolded x]] Let_def split: list.splits)
         (simp_all add: bnd_def ret_def split: prod.splits sum.splits)
  qed
qed

text \<open>Every session a dispatch creates is created while its item is committed as dispatching.\<close>

definition reserved :: "nat \<Rightarrow> Call \<times> Db \<Rightarrow> bool" where
  "reserved wid x \<longleftrightarrow> (case x of
     (CreateSession req, d) \<Rightarrow>
       wi_tag wid \<in> set (csr_tags req) \<and>
       (case get_row wi_id wid (db_work_items d) of Some wi \<Rightarrow> wi_state wi = W_dispatching | None \<Rightarrow> False)
   | _ \<Rightarrow> False)"

lemma dispatch_one_reserved:
  assumes row: "get_row wi_id wid (db_work_items (w_db w)) = Some wi" "wi_state wi = W_issue_open"
    and run: "dispatch_one E wid w = (r, w')" and x: "x \<in> set (creates w')"
  shows "x \<in> set (creates w) \<or> reserved wid x"
proof (cases "wi_issue_number wi")
  case None
  then show ?thesis using row run x by (simp add: dispatch_one_def bnd_wi_row raise_def)
next
  case (Some n)
  have nxt: "next_work_item_state (wi_state wi) E_dispatch_started = Inr W_dispatching"
    using row by (simp add: next_work_item_state_iff WORK_ITEM_TRANSITIONS_def)
  obtain w1 wi1 where w1: "wi_event E wid E_dispatch_started ''capacity available'' ''controller'' w = (Inr W_dispatching, w1)"
    and wi1: "get_row wi_id wid (db_work_items (w_db w1)) = Some wi1" "wi_state wi1 = W_dispatching"
    by (rule wi_event_state [OF row(1) nxt, where E = E and reason = "''capacity available''" and actor = "''controller''"])
  have c1: "creates w1 = creates w" by (rule no_create_creates [OF wi_event_no_create w1])
  let ?w1 = "w1\<lparr>w_saved := w_db w1\<rparr>"
  obtain r2 w2 where w2: "adopt_tagged_session E wid ?w1 = (r2, w2)" by (cases "adopt_tagged_session E wid ?w1") auto
  have "creates w2 = creates ?w1" by (rule no_create_creates [OF adopt_no_create w2])
  with c1 have c2: "creates w2 = creates w" by (simp add: creates_def)
  note start = dispatch_one_def bnd_wi_row row(1) Some bnd_Inr [where m = "wi_event E wid E_dispatch_started ''capacity available'' ''controller''", OF w1] run_simps
  show ?thesis
  proof (cases r2)
    case (Inl e)
    then show ?thesis using run x c2 w2 by (simp add: start bnd_Inl)
  next
    case (Inr out)
    show ?thesis
    proof (cases out)
      case (Some a)
      then show ?thesis using run x c2 by (simp add: start bnd_Inr [where m = "adopt_tagged_session E wid", OF w2 [unfolded Inr]] run_simps)
    next
      case None
      have db2: "w_db w2 = w_db w1" using adopt_None_db [OF w2 [unfolded Inr None]] by simp
      let ?w2 = "w2\<lparr>w_saved := w_db w1\<rparr>"
      let ?members = "members_of wid (w_db w1)"
      obtain r3 w3 where w3: "create_remote_session E wi1 ?members ?w2 = (r3, w3)"
        by (cases "create_remote_session E wi1 ?members ?w2") auto
      have c3: "y \<in> set (creates w) \<or> reserved wid y" if "y \<in> set (creates w3)" for y
      proof -
        have "creates ?w2 = creates w" using c2 by (simp add: creates_def)
        then show ?thesis using create_remote_creates [OF w3 that] wi1 get_row_SomeD [OF wi1(1)]
          by (auto simp: reserved_def session_request_def)
      qed
      have rest: "dispatch_one E wid w = bnd (create_remote_session E wi1 ?members) (\<lambda>r.
          case r of Inl e \<Rightarrow> dispatch_failed E wid (''create_session:'' @ exn_msg e)
            | Inr snap \<Rightarrow> bnd (session_started E wid n ?members snap) (\<lambda>_. ret ''created'')) ?w2"
        by (simp add: start bnd_Inr [where m = "adopt_tagged_session E wid", OF w2 [unfolded Inr None]] db2 wi1 cong del: sum.case_cong_weak)
      have "creates w' = creates w3"
      proof (cases r3)
        case (Inl e)
        then show ?thesis using run rest w3 by (simp add: bnd_Inl)
      next
        case (Inr a)
        have "no_create (case a of Inl e \<Rightarrow> dispatch_failed E wid (''create_session:'' @ exn_msg e)
            | Inr snap \<Rightarrow> bnd (session_started E wid n ?members snap) (\<lambda>_. ret ''created''))"
          by (intro eff_intros)
        moreover have "(case a of Inl e \<Rightarrow> dispatch_failed E wid (''create_session:'' @ exn_msg e)
            | Inr snap \<Rightarrow> bnd (session_started E wid n ?members snap) (\<lambda>_. ret ''created'')) w3 = (r, w')"
          using run rest w3 Inr by (simp add: bnd_def)
        ultimately show ?thesis by (rule no_create_creates)
      qed
      with x c3 show ?thesis by simp
    qed
  qed
qed

end
