(* ===== verification/Reservation.thy ===== *)
theory Reservation
  imports Effects
begin

text \<open>
  Reserve before create, for the whole controller: whatever operation runs, a Devin session is only
  ever created while the work item it is tagged with is committed as dispatching, so that a crash
  during the call leaves a row for \<open>recover_dispatching\<close> to find.
\<close>

section \<open>Operations that create no session\<close>

lemma grouping_no_create [eff_intros]:
  "no_create (bump_messages sid)" "no_create (create_work_items E run_id)"
  unfolding bump_messages_def edit_session_def create_work_items_def group_one_def work_item_for_group_def
    create_group_item_def Let_def members_joined_def join_item_def set_owner_def
  by (intro eff_intros)+

lemma issues_no_create [eff_intros]:
  "no_create (wi_get wid)" "no_create (open_issue E wid existing)" "no_create (open_issues E)"
  unfolding wi_get_def open_issues_def open_queued_def open_issue_def open_controller_issues_def bind_issue_def
  by (intro eff_intros)+

lemma recover_no_create [eff_intros]: "no_create (recover_dispatching E)"
  unfolding recover_dispatching_def recover_one_def by (intro eff_intros)

lemma levels_no_create [eff_intros]:
  "no_create (pr_row i)" "no_create (edit_pr i g)" "no_create (edit_session i h)"
  "no_create (raise_level E wid i l why)" "no_create (reset_level E wid i l why)"
  unfolding raise_level_def reset_level_def pr_row_def edit_pr_def edit_session_def
  by (intro eff_intros)+

lemma operate_no_create [eff_intros]:
  "no_create (cancel E wid op)" "no_create (relaunch_reset E wid op)"
  "no_create (approve_on_issue E wi n b op)" "no_create (revoke_dispatch_approval E n)"
  "no_create (launch_failed E wid why)" "no_create (launch_outcome wid out)"
  unfolding cancel_def cancel_rejected_def cancel_recorded_def add_poll_def Let_def relaunch_reset_def
    approve_on_issue_def revoke_dispatch_approval_def launch_failed_def launch_outcome_def
  by (intro eff_intros)+

lemma eff_case_Decision [eff_intros]:
  "eff R a \<Longrightarrow> eff R b \<Longrightarrow> eff R c \<Longrightarrow> eff R d \<Longrightarrow> eff R e \<Longrightarrow>
     eff R (case x of D_continue_polling \<Rightarrow> a | D_answer_question \<Rightarrow> b | D_budget_warning \<Rightarrow> c
        | D_ready_for_verification \<Rightarrow> d | D_needs_human \<Rightarrow> e)"
  by (cases x) auto

lemma eff_case_ClosingOutcome [eff_intros]:
  "eff R a \<Longrightarrow> eff R b \<Longrightarrow> eff R c \<Longrightarrow> eff R d \<Longrightarrow> eff R (case x of CO_fixed \<Rightarrow> a | CO_approved_disposition \<Rightarrow> b
        | CO_scanner_disagreement_resolved \<Rightarrow> c | _ \<Rightarrow> d)"
  by (cases x) auto

lemma sessions_no_create [eff_intros]:
  "no_create (poll_sessions E only)" "no_create (reconcile_sessions E)"
  unfolding poll_sessions_def poll_session_def apply_snapshot_def add_poll_def Let_def examine_pr_def resolve_pr_def
    act_on_def post_disagreement_verdict_def record_pr_def reconcile_sessions_def
  by (intro eff_intros)+

lemma closing_no_create [eff_intros]:
  "no_create (close_work_item E wid run jobs ss counts)" "no_create (supersede_item E run wid)"
  "no_create (regressions E run jobs ss counts)" "no_create (drift E run jobs ss counts)"
  unfolding close_work_item_def judge_step_def judge_member_def validity_of_def ancestry_def is_ancestor_def
    record_outcome_def conclude_item_def verify_item_def show_present_def Let_def supersede_item_def
    regressions_def regression_step_def reopen_item_def set_owner_def drift_def drift_step_def
  by (intro eff_intros)+

lemma applying_no_create [eff_intros]:
  "no_create (apply_scan_run E i)" "no_create (apply_pending_scan_runs E)" "no_create (close_from_applied_runs E wid)"
  unfolding apply_pending_scan_runs_def apply_scan_run_def evaluate_run_def close_from_applied_runs_def close_from_run_def
  by (intro eff_intros)+

lemma checks_no_create [eff_intros]:
  "no_create (record_checks E prid h cs)" "no_create (record_depth E wid prid h cs)"
  "no_create (retry_or_fail E wid prid pr cs)" "no_create (check_review E wid prid pr)"
  "no_create (check_approval E wid prid pr)"
  unfolding record_checks_def record_depth_def Let_def retry_or_fail_def reopen_session_def check_review_def
    observe_review_def trigger_review_def review_timeout_def check_approval_def
  by (intro eff_intros)+

lemma pull_requests_no_create [eff_intros]: "no_create (poll_pull_requests E)"
  unfolding poll_pull_requests_def poll_pull_request_def fetch_pr_def apply_pr_def apply_head_change_def
    reverify_new_head_def apply_merged_def apply_closed_def apply_open_def apply_red_def apply_green_def Let_def
  by (intro eff_intros)

lemma labels_no_create [eff_intros]: "no_create (poll_human_labels E)"
  unfolding poll_human_labels_def poll_human_label_def apply_labels_def abandon_item_def retry_item_def resolve_item_def Let_def
  by (intro eff_intros)

section \<open>Every creation is reserved\<close>

definition reserved_call :: "Call \<times> Db \<Rightarrow> bool" where
  "reserved_call x \<longleftrightarrow> (case x of
     (CreateSession req, d) \<Rightarrow>
       list_ex (\<lambda>wi. wi_state wi = W_dispatching \<and> wi_tag (wi_id wi) \<in> set (csr_tags req)) (db_work_items d)
   | _ \<Rightarrow> False)"

lemma reserved_reserved_call: "reserved wid x \<Longrightarrow> reserved_call x"
proof -
  assume "reserved wid x"
  then obtain req d wi where x: "x = (CreateSession req, d)" "wi_tag wid \<in> set (csr_tags req)"
    and row: "get_row wi_id wid (db_work_items d) = Some wi" "wi_state wi = W_dispatching"
    by (cases x; cases "fst x") (auto simp: reserved_def split: option.splits)
  from get_row_SomeD [OF row(1)] x row(2) show ?thesis by (auto simp: reserved_call_def list_ex_iff)
qed

definition creates_rel :: "World \<Rightarrow> World \<Rightarrow> bool" where
  "creates_rel w w' \<longleftrightarrow> set (creates w') \<subseteq> set (creates w) \<union> {x. reserved_call x}"

interpretation creation: call_effect creates_rel
  by unfold_locales (auto simp: creates_rel_def creates_def)

lemmas creation_monad [eff_intros] = creation.eff_monad creation.eff_transactions

lemma creation_no_create: "no_create m \<Longrightarrow> eff creates_rel m"
proof -
  assume m: "no_create m"
  have "creates_rel w (snd (m w))" for w
    using no_create_creates [OF m, of w "fst (m w)" "snd (m w)"] by (simp add: creates_rel_def)
  then show ?thesis by (simp add: eff_def)
qed

section \<open>Operations that leave the work items alone\<close>

definition items_rel :: "World \<Rightarrow> World \<Rightarrow> bool" where
  "items_rel w w' \<longleftrightarrow> db_work_items (w_db w') = db_work_items (w_db w)"

interpretation items: effect items_rel
  by unfold_locales (auto simp: items_rel_def)

lemmas items_monad [eff_intros] = items.eff_monad

lemma items_remotes [eff_intros]:
  "eff items_rel (gh_get_issue E n)" "eff items_rel (gh_comment_issue E n t)" "eff items_rel (gh_add_labels E n ls)"
  "eff items_rel (gh_remove_label E n l)"
  by (simp_all add: eff_def items_rel_def remote_defs remote_def Let_def)

lemma items_log [eff_intros]: "eff items_rel (log_event E et i ev f t r a es)" "eff items_rel (wi_note E wi ev r a)"
  by (simp_all add: eff_def items_rel_def wi_note_def log_event_def run_simps push_event_def)

lemma items_approve [eff_intros]: "eff items_rel (approve_on_issue E wi n b op)"
  unfolding approve_on_issue_def by (intro eff_intros)

section \<open>Dispatching from an open issue\<close>

definition issue_is_open :: "nat \<Rightarrow> World \<Rightarrow> bool" where
  "issue_is_open wid w \<longleftrightarrow>
     (case get_row wi_id wid (db_work_items (w_db w)) of None \<Rightarrow> False | Some wi \<Rightarrow> wi_state wi = W_issue_open)"

lemma dispatch_one_creation: "issue_is_open wid w \<Longrightarrow> creates_rel w (snd (dispatch_one E wid w))"
proof -
  assume "issue_is_open wid w"
  then obtain wi where row: "get_row wi_id wid (db_work_items (w_db w)) = Some wi" "wi_state wi = W_issue_open"
    by (auto simp: issue_is_open_def split: option.splits)
  obtain r w' where run: "dispatch_one E wid w = (r, w')" by (cases "dispatch_one E wid w") auto
  show ?thesis
    unfolding creates_rel_def run snd_conv using dispatch_one_reserved [OF row run] reserved_reserved_call by blast
qed

text \<open>An operation after others that keep the items: the issue is still open when it starts.\<close>

definition from_open :: "nat \<Rightarrow> 'a M \<Rightarrow> bool" where
  "from_open wid m \<longleftrightarrow> (\<forall>w. issue_is_open wid w \<longrightarrow> creates_rel w (snd (m w)))"

lemma from_open_eff: "eff creates_rel m \<Longrightarrow> from_open wid m"
  by (simp add: eff_def from_open_def)

lemma from_open_bnd:
  assumes m: "no_create m" "eff items_rel m" and f: "\<And>a. from_open wid (f a)"
  shows "from_open wid (bnd m f)"
  unfolding from_open_def
proof (intro allI impI)
  fix w
  assume w: "issue_is_open wid w"
  obtain r w' where mw: "m w = (r, w')" by (cases "m w") auto
  have c: "creates_rel w w'" by (rule effD [OF creation_no_create [OF m(1)] mw])
  have "issue_is_open wid w'" using w effD [OF m(2) mw] by (simp add: issue_is_open_def items_rel_def)
  then have "creates_rel w' (snd (f a w'))" for a using f by (simp add: from_open_def)
  with c show "creates_rel w (snd (bnd m f w))" by (cases r) (auto simp: bnd_def mw intro: creation.R_trans)
qed

lemma from_open_dispatch: "(\<And>out. no_create (k out)) \<Longrightarrow> from_open wid (bnd (dispatch_one E wid) k)"
  unfolding from_open_def
proof (intro allI impI)
  fix w
  assume k: "\<And>out. no_create (k out)" and "issue_is_open wid w"
  obtain r w' where run: "dispatch_one E wid w = (r, w')" by (cases "dispatch_one E wid w") auto
  have c: "creates_rel w w'" using dispatch_one_creation [OF \<open>issue_is_open wid w\<close>, of E] by (simp add: run)
  have "creates_rel w' (snd (k out w'))" for out using creation_no_create [OF k] by (simp add: eff_def)
  with c show "creates_rel w (snd (bnd (dispatch_one E wid) k w))"
    by (cases r) (auto simp: bnd_def run intro: creation.R_trans)
qed

lemma launch_on_issue_from_open: "from_open wid (launch_on_issue E wid n pv op)"
proof -
  have row: "no_create (wi_row wid)" "eff items_rel (wi_row wid)"
    by (rule eff_intros) (unfold wi_row_def, intro eff_intros)
  have "from_open wid (if \<not> dispatch_allowed (wi_severity wi) (is_labels issue)
      then launch_failed E wid ''dispatch_not_allowed_after_labeling''
      else bnd (dispatch_one E wid) (launch_outcome wid))" for wi issue
    by (simp add: from_open_dispatch from_open_eff creation_no_create operate_no_create)
  then have go: "from_open wid (bnd (wi_note E wi ev r a) (\<lambda>_. bnd (gh_get_issue E n) (\<lambda>issue.
      if \<not> dispatch_allowed (wi_severity wi) (is_labels issue)
      then launch_failed E wid ''dispatch_not_allowed_after_labeling''
      else bnd (dispatch_one E wid) (launch_outcome wid))))" for wi ev r a
    by (intro from_open_bnd eff_intros)
  have stop: "from_open wid (bnd (when_ok b (revoke_dispatch_approval E n)) (\<lambda>_. launch_failed E wid why))" for b why
    by (intro from_open_eff creation_no_create eff_intros)
  have "from_open wid (case r of (approved_here, failure) \<Rightarrow> (case failure of
       Some e \<Rightarrow> bnd (when_ok approved_here (revoke_dispatch_approval E n)) (\<lambda>_. launch_failed E wid (''github:'' @ exn_msg e))
     | None \<Rightarrow> bnd (wi_note E wi ev (f wi) a) (\<lambda>_. bnd (gh_get_issue E n) (\<lambda>issue.
         if \<not> dispatch_allowed (wi_severity wi) (is_labels issue)
         then launch_failed E wid ''dispatch_not_allowed_after_labeling''
         else bnd (dispatch_one E wid) (launch_outcome wid)))))" for wi ev f a and r :: "bool \<times> exn option"
    using go stop by (simp split: prod.split option.split)
  then show ?thesis
    unfolding launch_on_issue_def by (intro from_open_bnd row eff_intros)
qed

lemma dispatch_candidate_creation [eff_intros]: "eff creates_rel (dispatch_candidate E wid n acc)"
proof -
  let ?body = "bnd (query (at_capacity E)) (\<lambda>full.
       if full then ret None
       else
         bnd (wi_get wid) (\<lambda>r.
         case r of
           None \<Rightarrow> ret (Some acc)
         | Some wi \<Rightarrow>
             if wi_state wi \<noteq> W_issue_open \<or> wi_issue_number wi \<noteq> Some n then ret (Some acc)
             else
               bnd (query (\<lambda>d. (over_budget E wi d, budget_text E wi d))) (\<lambda>(over, why).
               if over then bnd (wi_note E wi ''budget_deferred'' why ''controller'') (\<lambda>_. ret (Some acc))
               else
                 bnd (dispatch_one E wid) (\<lambda>out.
                 ret (Some (if out = ''created'' then (Suc (fst acc), snd acc)
                            else if out = ''adopted'' then (fst acc, snd acc @ [wid])
                            else acc))))))"
  have "creates_rel w (snd (?body w))" for w
  proof (cases "get_row wi_id wid (db_work_items (w_db w))")
    case None
    then show ?thesis by (simp add: wi_get_def run_simps creation.R_refl)
  next
    case (Some wi)
    have d: "creates_rel w (snd (bnd (dispatch_one E wid) (\<lambda>out. ret (k out)) w))"
      if "wi_state wi = W_issue_open" for k :: "str \<Rightarrow> (nat \<times> nat list) option"
    proof -
      have "issue_is_open wid w" using Some that by (simp add: issue_is_open_def)
      moreover have "from_open wid (bnd (dispatch_one E wid) (\<lambda>out. ret (k out)))"
        by (intro from_open_dispatch eff_intros)
      ultimately show ?thesis by (simp add: from_open_def)
    qed
    have b: "creates_rel w (snd (bnd (wi_note E wi ''budget_deferred'' why ''controller'') (\<lambda>_. ret (Some acc)) w))" for why
    proof -
      have "no_create (bnd (wi_note E wi ''budget_deferred'' why ''controller'') (\<lambda>_. ret (Some acc)))"
        by (intro eff_intros)
      then show ?thesis using creation_no_create by (auto simp: eff_def)
    qed
    show ?thesis using b d by (simp add: wi_get_def bnd_run run_end creation.R_refl Some)
  qed
  then have "eff creates_rel ?body" by (simp add: eff_def)
  then show ?thesis unfolding dispatch_candidate_def by (rule creation.eff_write_scope)
qed

lemma creation_of [eff_intros]:
  "eff creates_rel (gh_get_issue E n)" "eff creates_rel (open_issue E wid existing)" "eff creates_rel (open_issues E)"
  "eff creates_rel (recover_dispatching E)" "eff creates_rel (poll_sessions E only)" "eff creates_rel (poll_pull_requests E)"
  "eff creates_rel (poll_human_labels E)" "eff creates_rel (apply_pending_scan_runs E)" "eff creates_rel (create_work_items E run_id)"
  "eff creates_rel (relaunch_reset E wid op)" "eff creates_rel (wi_note E wi ev r a)" "eff creates_rel (wi_row wid)"
  "eff creates_rel (wi_get wid)" "eff creates_rel (cancel E wid op)" "eff creates_rel (apply_scan_run E i)"
  "eff creates_rel (reconcile_sessions E)"
  by (intro creation_no_create eff_intros)+

lemma dispatch_loop_creation [eff_intros]: "eff creates_rel (dispatch_loop E targets acc)"
proof (induction targets arbitrary: acc)
  case (Cons t targets)
  obtain wid n sev where "t = (wid, n, sev)" by (cases t) auto
  then show ?case by (simp only: dispatch_loop.simps) (intro eff_intros Cons.IH)
next
  case Nil
  show ?case by (simp only: dispatch_loop.simps) (intro eff_intros)
qed

lemma dispatch_creation [eff_intros]: "eff creates_rel (dispatch E)"
  unfolding dispatch_def by (intro eff_intros)

lemma launch_tail_creation:
  "eff creates_rel (bnd (wi_row wid) (\<lambda>wi. case (wi_state wi = W_issue_open, wi_issue_number wi) of
      (True, Some n) \<Rightarrow> launch_on_issue E wid n pv op | _ \<Rightarrow> ret (f wi)))"
  unfolding eff_def
proof
  fix w
  show "creates_rel w (snd (bnd (wi_row wid) (\<lambda>wi. case (wi_state wi = W_issue_open, wi_issue_number wi) of
      (True, Some n) \<Rightarrow> launch_on_issue E wid n pv op | _ \<Rightarrow> ret (f wi)) w))"
  proof (cases "get_row wi_id wid (db_work_items (w_db w))")
    case None
    then show ?thesis by (simp add: bnd_wi_row creation.R_refl)
  next
    case (Some wi)
    have "creates_rel w (snd (launch_on_issue E wid n pv op w))" if "wi_state wi = W_issue_open" for n
      using launch_on_issue_from_open [of wid E n pv op] that Some by (simp add: from_open_def issue_is_open_def)
    then show ?thesis
      by (cases "wi_state wi = W_issue_open"; cases "wi_issue_number wi")
         (simp_all add: bnd_wi_row Some run_end creation.R_refl)
  qed
qed

lemma launch_creation [eff_intros]: "eff creates_rel (launch E wid op)"
  unfolding launch_def Let_def by (intro eff_intros launch_tail_creation)

lemma tick_creation [eff_intros]: "eff creates_rel m \<Longrightarrow> eff creates_rel (tick E m auto)"
  unfolding tick_def tick_work_def tick_dispatch_def guarded_def Let_def by (intro eff_intros)

lemma run_op_creation: "eff creates_rel (run_op E op)"
  by (cases op) (auto simp: void_def intro!: eff_intros)

lemma run_op_reserved: "set (creates (snd (run_op E op (fresh_world d)))) \<subseteq> {x. reserved_call x}"
proof -
  have "creates_rel (fresh_world d) (snd (run_op E op (fresh_world d)))"
    using run_op_creation [of E op] by (simp only: eff_def)
  moreover have "creates (fresh_world d) = []" by (simp add: creates_def fresh_world_def)
  ultimately show ?thesis by (simp add: creates_rel_def)
qed

end
