(* ===== verification/Guards.thy ===== *)
theory Guards
  imports Reservation
begin

text \<open>
  What single operations leave behind: the verdict on a run changes no row, an accepted closure is
  not reopened by a scan, a blocked dispatch touches nothing, a recovered item is no longer
  dispatching, a run is weighed once, an item is verified only when every member is closed.
\<close>

section \<open>The verdict changes no row\<close>

definition db_rel :: "World \<Rightarrow> World \<Rightarrow> bool" where
  "db_rel w w' \<longleftrightarrow> w_db w' = w_db w"

interpretation same_db: effect db_rel
  by unfold_locales (auto simp: db_rel_def)

lemmas same_db_monad [eff_intros] = same_db.eff_monad

lemma validity_of_run:
  obtains v w' where "validity_of E run jobs f m rp w = (Inr v, w')" "w_db w' = w_db w"
proof -
  have anc: "\<exists>b. fst (ancestry E m run w) = Inr b"
    by (auto simp: ancestry_def is_ancestor_def gh_compare_def try_except_def bnd_def remote_def ret_def Let_def
        split: option.split sum.split prod.split)
  have "eff db_rel (gh_compare E b h)" for b h by (simp add: gh_compare_def eff_def remote_def db_rel_def Let_def)
  then have "eff db_rel (ancestry E m run)" unfolding ancestry_def is_ancestor_def by (intro eff_intros)
  then have db: "w_db (snd (ancestry E m run w)) = w_db w" by (simp add: eff_def db_rel_def)
  obtain b w' where b: "ancestry E m run w = (Inr b, w')" "w_db w' = w_db w"
    using anc db by (cases "ancestry E m run w") auto
  show thesis
    by (rule that [OF _ b(2)]) (simp add: validity_of_def bnd_run, simp add: bnd_def b ret_def)
qed

lemma finding_event_invalid:
  assumes "get_row fd_id fid (db_findings (w_db w)) = Some f" "next_finding_state (fd_state f) ev = Inl x"
  obtains w' where "finding_event E fid ev why actor run w = (Inr False, w')" "db_findings (w_db w') = db_findings (w_db w)"
proof -
  obtain w' where "finding_event E fid ev why actor run w = (Inr False, w')" "db_findings (w_db w') = db_findings (w_db w)"
    by (simp add: finding_event_def bnd_fd_row assms Let_def log_event_def run_simps push_event_def)
  then show thesis by (rule that)
qed

section \<open>An accepted closure is not reopened\<close>

lemma no_reappearance:
  "s \<in> set [F_approved_disposition, F_scanner_disagreement_resolved] \<Longrightarrow> \<exists>x. next_finding_state s FE_reappeared = Inl x"
  by (auto simp: next_finding_state_def FINDING_TRANSITIONS_def)

lemma accepted_closure_kept:
  assumes row: "get_row fd_id (fd_id f) (db_findings (w_db w)) = Some f"
    and st: "fd_state f \<in> set [F_approved_disposition, F_scanner_disagreement_resolved]"
  shows "\<exists>w'. regression_step E run jobs ss present counts f w = (Inr counts, w') \<and> db_findings (w_db w') = db_findings (w_db w)"
proof (cases "family_key f \<in> set present")
  case False
  then show ?thesis by (simp add: regression_step_def run_end)
next
  case True
  define m where "m = map_option sr_source_sha
    (case fd_closed_by_run_id f of None \<Rightarrow> None | Some c \<Rightarrow> get_row sr_id c (db_runs (w_db w)))"
  obtain v w1 where v: "validity_of E run jobs f m False w = (Inr v, w1)" and d1: "w_db w1 = w_db w"
    by (rule validity_of_run)
  obtain x where x: "next_finding_state (fd_state f) FE_reappeared = Inl x" using no_reappearance [OF st] by blast
  obtain w2 where e: "finding_event E (fd_id f) FE_reappeared (''present again in run '' @ sr_external_run_id run) ''scanner''
        (Some (sr_id run)) w1 = (Inr False, w2)" and d2: "db_findings (w_db w2) = db_findings (w_db w1)"
    by (rule finding_event_invalid [of "fd_id f" w1 f FE_reappeared x]) (simp_all add: d1 row x)
  have e': "bnd (finding_event E (fd_id f) FE_reappeared (''present again in run '' @ sr_external_run_id run) ''scanner''
        (Some (sr_id run))) k w1 = k False w2" for k :: "bool \<Rightarrow> counts M"
    by (simp add: bnd_def e [simplified append_Cons append_Nil])
  show ?thesis
    using True d1 d2
    by (simp add: regression_step_def bnd_run m_def [symmetric] bnd_Inr [where m = "validity_of E run jobs f m False", OF v]
        e' [simplified append_Cons append_Nil] run_end)
qed

section \<open>Capacity and budget\<close>

lemma dispatch_candidate_full:
  "at_capacity E (w_db w) \<Longrightarrow> dispatch_candidate E wid n acc w = (Inr None, w\<lparr>w_saved := w_db w\<rparr>)"
  by (simp add: dispatch_candidate_def write_scope_def bnd_run run_end)

lemma dispatch_candidate_created:
  assumes run: "dispatch_candidate E wid n acc w = (r, w')" and new: "x \<in> set (creates w') - set (creates w)"
  shows "\<not> at_capacity E (w_db w) \<and> reserved wid x \<and>
    (\<exists>wi. get_row wi_id wid (db_work_items (w_db w)) = Some wi \<and> wi_state wi = W_issue_open \<and>
       wi_issue_number wi = Some n \<and> \<not> over_budget E wi (w_db w))"
proof -
  let ?w = "w\<lparr>w_saved := w_db w\<rparr>"
  have cr: "creates ?w = creates w" by (simp add: creates_def)
  have ended: "creates (snd (case p of (Inl e, w') \<Rightarrow> (Inl e, w'\<lparr>w_db := w_saved w'\<rparr>)
      | (Inr a, w') \<Rightarrow> (Inr a, w'\<lparr>w_saved := w_db w'\<rparr>))) = creates (snd p)" for p :: "(exn + 'c) \<times> World"
    by (simp add: creates_def split: prod.split sum.split)
  have x: "x \<in> set (creates (snd (dispatch_candidate E wid n acc w)))" "x \<notin> set (creates w)"
    using run new by auto
  show ?thesis
  proof (cases "at_capacity E (w_db w)")
    case True
    then show ?thesis using x cr by (simp add: dispatch_candidate_full)
  next
    case open_slot: False
    show ?thesis
    proof (cases "get_row wi_id wid (db_work_items (w_db w))")
      case None
      then show ?thesis using x cr open_slot
        by (simp add: dispatch_candidate_def write_scope_def wi_get_def bnd_run run_end)
    next
      case (Some wi)
      note start = dispatch_candidate_def write_scope_def wi_get_def bnd_run run_end ended open_slot Some
      have note_quiet: "creates (snd (bnd (wi_note E wi ev r a) (\<lambda>_. ret k) ?w)) = creates w" for ev r a and k :: "'d"
      proof -
        have "no_create (bnd (wi_note E wi ev r a) (\<lambda>_. ret k))" by (intro eff_intros)
        from no_create_creates [OF this prod.collapse [symmetric]] show ?thesis by (simp add: cr)
      qed
      show ?thesis
      proof (cases "wi_state wi = W_issue_open \<and> wi_issue_number wi = Some n \<and> \<not> over_budget E wi (w_db w)")
        case False
        then show ?thesis using x cr by (auto simp: start note_quiet split: if_splits)
      next
        case True
        have one: "creates (snd (bnd (dispatch_one E wid) (\<lambda>out. ret (k out)) ?w)) = creates (snd (dispatch_one E wid ?w))"
          for k :: "str \<Rightarrow> (nat \<times> nat list) option"
          by (simp add: snd_bnd_ret)
        have "x \<in> set (creates (snd (dispatch_one E wid ?w)))" using x True by (simp add: start one)
        then have "x \<in> set (creates ?w) \<or> reserved wid x"
          using dispatch_one_reserved [of wid ?w wi E "fst (dispatch_one E wid ?w)" "snd (dispatch_one E wid ?w)" x]
            Some True by simp
        then show ?thesis using x cr open_slot Some True by simp
      qed
    qed
  qed
qed

section \<open>Recovery releases the lock\<close>

definition row_in :: "nat \<Rightarrow> WorkItemState list \<Rightarrow> World \<Rightarrow> bool" where
  "row_in wid states w \<longleftrightarrow>
     (case get_row wi_id wid (db_work_items (w_db w)) of None \<Rightarrow> False | Some wi \<Rightarrow> wi_state wi \<in> set states)"

lemma row_inE:
  assumes "row_in wid [s] w"
  obtains wi where "get_row wi_id wid (db_work_items (w_db w)) = Some wi" "wi_state wi = s"
  using assms by (auto simp: row_in_def split: option.splits)

lemma wi_event_row_in:
  assumes "row_in wid [s] w" "next_work_item_state s ev = Inr s'"
  obtains w' where "wi_event E wid ev why actor w = (Inr s', w')" "row_in wid [s'] w'"
proof -
  obtain wi where wi: "get_row wi_id wid (db_work_items (w_db w)) = Some wi" "wi_state wi = s"
    using assms(1) by (rule row_inE)
  have n: "next_work_item_state (wi_state wi) ev = Inr s'" using assms(2) wi by simp
  obtain w' wi' where "wi_event E wid ev why actor w = (Inr s', w')"
    and "get_row wi_id wid (db_work_items (w_db w')) = Some wi'" "wi_state wi' = s'"
    by (rule wi_event_state [OF wi(1) n])
  then show thesis using that by (simp add: row_in_def)
qed

lemma edit_wi_row_in:
  assumes "row_in wid states w" "\<And>x. wi_id (g x) = wi_id x" "\<And>x. wi_state (g x) = wi_state x"
  shows "row_in wid states (w\<lparr>w_db := (w_db w)\<lparr>db_work_items := update_row wi_id wid g (db_work_items (w_db w))\<rparr>\<rparr>)"
  using assms by (simp add: row_in_def get_row_update split: option.splits)

lemma items_row_in: "eff items_rel m \<Longrightarrow> m w = (r, w') \<Longrightarrow> row_in wid states w' = row_in wid states w"
  by (drule (1) effD) (simp add: items_rel_def row_in_def)

lemma dispatch_failed_releases:
  assumes "row_in wid [W_dispatching] w"
  obtains w' where "dispatch_failed E wid why w = (Inr ''failed'', w')" "row_in wid [W_issue_open, W_needs_human] w'"
proof -
  let ?g = "\<lambda>w. w\<lparr>wi_dispatch_failures := Suc (wi_dispatch_failures w)\<rparr>"
  let ?w = "w\<lparr>w_db := (w_db w)\<lparr>db_work_items := update_row wi_id wid ?g (db_work_items (w_db w))\<rparr>\<rparr>"
  have w1: "row_in wid [W_dispatching] ?w" by (rule edit_wi_row_in [OF assms]) simp_all
  then obtain wi where wi: "get_row wi_id wid (db_work_items (w_db ?w)) = Some wi" by (rule row_inE)
  have b: "next_work_item_state W_dispatching E_blocked = Inr W_needs_human"
    "next_work_item_state W_dispatching E_dispatch_failed = Inr W_issue_open"
    by (simp_all add: next_work_item_state_iff WORK_ITEM_TRANSITIONS_def)
  obtain wb where wb: "wi_event E wid E_blocked (''dispatch_failed_repeatedly:'' @ take 200 why) ''controller'' ?w = (Inr W_needs_human, wb)"
    "row_in wid [W_needs_human] wb" by (rule wi_event_row_in [OF w1 b(1)])
  obtain wf where wf: "wi_event E wid E_dispatch_failed (take 300 why) ''controller'' ?w = (Inr W_issue_open, wf)"
    "row_in wid [W_issue_open] wf" by (rule wi_event_row_in [OF w1 b(2)])
  let ?w' = "if st_max_dispatch_failures (en_settings E) \<le> wi_dispatch_failures wi then wb else wf"
  have "dispatch_failed E wid why w = (Inr ''failed'', ?w')"
    using wi wb(1) [simplified append_Cons append_Nil] wf(1)
    by (simp add: dispatch_failed_def edit_wi_def bnd_run bnd_wi_row, simp add: bnd_def ret_def)
  moreover have "row_in wid [W_issue_open, W_needs_human] ?w'"
    using wb(2) wf(2) by (auto simp: row_in_def split: option.splits)
  ultimately show thesis by (rule that)
qed

lemma record_session_row_in:
  assumes "row_in wid [s] w"
  obtains w' where "record_session E wid snap ad w = (Inr (), w')" "row_in wid [s] w'"
proof -
  obtain wi where wi: "get_row wi_id wid (db_work_items (w_db w)) = Some wi" "wi_state wi = s"
    using assms by (rule row_inE)
  have "\<exists>w'. record_session E wid snap ad w = (Inr (), w') \<and> row_in wid [s] w'"
    using wi
    by (simp add: record_session_def bnd_wi_row bnd_run edit_wi_def log_event_def run_simps add_session_def push_event_def
        row_in_def get_row_update split: option.split)
  then show thesis using that by blast
qed

lemma adopt_releases:
  assumes "row_in wid [W_dispatching] w"
  obtains out w' where "adopt_tagged_session E wid w = (Inr out, w')"
    "row_in wid (if out = None then [W_dispatching] else [W_session_active, W_issue_open, W_needs_human]) w'"
proof -
  let ?w = "w\<lparr>w_saved := w_db w\<rparr>"
  let ?list = "try_except (bnd (dv_list_sessions E [wi_tag wid]) (\<lambda>xs. ret (Inr xs))) (\<lambda>e. ret (Inl e))"
  obtain t w1 where t: "?list ?w = (t, w1)" by (cases "?list ?w") auto
  have "\<exists>x. t = Inr x" "w_db w1 = w_db w"
    using t by (auto simp: try_except_def bnd_def dv_list_sessions_def remote_def ret_def Let_def split: sum.splits)
  then obtain x where x: "t = Inr x" and w1: "row_in wid [W_dispatching] w1" using assms by (auto simp: row_in_def)
  note start = adopt_tagged_session_def run_simps bnd_Inr [where m = ?list, OF t [unfolded x]]
  show thesis
  proof (cases x)
    case (Inl e)
    obtain w2 where "dispatch_failed E wid (''list_sessions:'' @ exn_msg e) w1 = (Inr ''failed'', w2)"
      and r: "row_in wid [W_issue_open, W_needs_human] w2" by (rule dispatch_failed_releases [OF w1])
    then have "adopt_tagged_session E wid w = (Inr (Some ''failed''), w2)"
      by (simp add: start Inl, simp add: bnd_def ret_def)
    moreover have "row_in wid [W_session_active, W_issue_open, W_needs_human] w2"
      using r by (auto simp: row_in_def split: option.splits)
    ultimately show thesis using that by simp
  next
    case (Inr ss)
    show thesis
    proof (cases "filter (\<lambda>s. is_active s \<or> ss_session_id s \<notin> set (map se_devin_id
        (filter (\<lambda>s. se_work_item_id s = wid) (db_sessions (w_db w))))) ss")
      case Nil
      then have "adopt_tagged_session E wid w = (Inr None, w1)"
        by (simp add: start Inr)
      with that w1 show thesis by simp
    next
      case (Cons s rest)
      let ?snap = "max_by (\<lambda>s. (is_active s, ss_created_at s)) s rest"
      obtain w2 where r: "record_session E wid ?snap True w1 = (Inr (), w2)" "row_in wid [W_dispatching] w2"
        by (rule record_session_row_in [OF w1])
      have "next_work_item_state W_dispatching E_session_adopted = Inr W_session_active"
        by (simp add: next_work_item_state_iff WORK_ITEM_TRANSITIONS_def)
      then obtain w3 where e: "wi_event E wid E_session_adopted (ss_session_id ?snap) ''controller'' w2 = (Inr W_session_active, w3)"
        "row_in wid [W_session_active] w3" by (rule wi_event_row_in [OF r(2)])
      have "adopt_tagged_session E wid w = (Inr (Some ''adopted''), w3)"
        using Cons by (simp add: start Inr Let_def, simp add: bnd_def r e ret_def)
      moreover have "row_in wid [W_session_active, W_issue_open, W_needs_human] w3"
        using e(2) by (auto simp: row_in_def split: option.splits)
      ultimately show thesis using that by simp
    qed
  qed
qed

lemma recover_one_releases:
  assumes "row_in wid [W_dispatching] w"
  shows "\<exists>ids w'. recover_one E ids0 wid w = (Inr ids, w') \<and> w_saved w' = w_db w' \<and>
    row_in wid [W_session_active, W_issue_open, W_needs_human] w'"
proof -
  let ?w = "w\<lparr>w_saved := w_db w\<rparr>"
  obtain wi where wi: "get_row wi_id wid (db_work_items (w_db w)) = Some wi" "wi_state wi = W_dispatching"
    using assms by (rule row_inE)
  let ?note = "wi_note E wi ''dispatch_recovery'' ''found in dispatching at tick start'' ''controller''"
  obtain w1 where n: "?note ?w = (Inr (), w1)" by (simp add: wi_note_def log_event_def run_simps)
  have "row_in wid [W_dispatching] w1"
    using items_row_in [OF items_log(2) n] assms by (simp add: row_in_def)
  then obtain out w2 where a: "adopt_tagged_session E wid w1 = (Inr out, w2)"
    and r: "row_in wid (if out = None then [W_dispatching] else [W_session_active, W_issue_open, W_needs_human]) w2"
    by (rule adopt_releases)
  note start = recover_one_def write_scope_def wi_get_def bnd_run wi bnd_Inr [where m = ?note, OF n]
    bnd_Inr [where m = "adopt_tagged_session E wid", OF a]
  show ?thesis
  proof (cases out)
    case (Some o')
    then show ?thesis using r by (simp add: start run_end, simp add: row_in_def)
  next
    case None
    then have r: "row_in wid [W_dispatching] w2" using r by simp
    obtain w3 where f: "dispatch_failed E wid ''dispatching_recovered:no_session_at_devin'' w2 = (Inr ''failed'', w3)"
      "row_in wid [W_issue_open, W_needs_human] w3" by (rule dispatch_failed_releases [OF r])
    have "row_in wid [W_session_active, W_issue_open, W_needs_human] w3"
      using f(2) by (auto simp: row_in_def split: option.splits)
    then show ?thesis using None
      by (simp add: start, simp add: bnd_def f(1) ret_def, simp add: row_in_def)
  qed
qed

end
