(* ===== verification/Handlers.thy ===== *)
theory Handlers
  imports Guards
begin

text \<open>
  Functional behaviour of the controller's handlers: what must hold for a session's pull request to
  be taken up, for an item to be verified and for a run to count, and what a human retry resets.
\<close>

section \<open>Taking a run apart\<close>

lemma bnd_InrE:
  assumes "bnd m f w = (Inr b, w')"
  obtains a w1 where "m w = (Inr a, w1)" "f a w1 = (Inr b, w')"
  using assms by (auto simp: bnd_def split: prod.splits sum.splits)

lemma items_remote [eff_intros]: "eff items_rel (remote c a)"
  by (simp add: eff_def items_rel_def remote_def Let_def)

lemma items_edits [eff_intros]:
  "eff items_rel (edit_session i g)" "eff items_rel (edit_pr i h)" "eff items_rel (wi_row wid)" "eff items_rel (fd_row fid)"
  "eff items_rel (add_poll i snap t dec why)" "eff items_rel (pr_row i)"
  by (simp_all add: eff_def items_rel_def edit_session_def edit_pr_def add_poll_def run_simps wi_row_def fd_row_def pr_row_def
      split: option.split)

lemma items_finding_event [eff_intros]: "eff items_rel (finding_event E fid ev why actor run)"
proof -
  have "eff items_rel (write_db (do_finding_transition fid ev s s' why actor run t1 t2))" for s s' t1 t2
    by (simp add: eff_def items_rel_def write_db_def do_finding_transition_def push_event_def)
  then show ?thesis unfolding finding_event_def by (intro eff_intros)
qed

text \<open>An operation that changes no item's state.\<close>

definition states_rel :: "World \<Rightarrow> World \<Rightarrow> bool" where
  "states_rel w w' \<longleftrightarrow> (\<forall>wid. map_option wi_state (get_row wi_id wid (db_work_items (w_db w'))) =
     map_option wi_state (get_row wi_id wid (db_work_items (w_db w))))"

interpretation states: effect states_rel
  by unfold_locales (auto simp: states_rel_def)

lemmas states_monad [eff_intros] = states.eff_monad

lemma states_items: "eff items_rel m \<Longrightarrow> eff states_rel m"
  by (simp add: eff_def items_rel_def states_rel_def)

lemma states_edit_wi:
  "(\<And>x. wi_id (g x) = wi_id x) \<Longrightarrow> (\<And>x. wi_state (g x) = wi_state x) \<Longrightarrow> eff states_rel (edit_wi wid g)"
  by (simp add: eff_def states_rel_def edit_wi_def run_end get_row_update option.map_comp o_def)

lemma states_row_in: "eff states_rel m \<Longrightarrow> m w = (r, w') \<Longrightarrow> row_in wid states w' = row_in wid states w"
proof -
  assume "eff states_rel m" "m w = (r, w')"
  then have "states_rel w w'" by (rule effD)
  then have "map_option wi_state (get_row wi_id wid (db_work_items (w_db w'))) =
      map_option wi_state (get_row wi_id wid (db_work_items (w_db w)))" by (simp add: states_rel_def)
  then show ?thesis
    by (cases "get_row wi_id wid (db_work_items (w_db w'))"; cases "get_row wi_id wid (db_work_items (w_db w))")
       (simp_all add: row_in_def)
qed

section \<open>A session's pull request\<close>

lemma resolve_pr_clean:
  assumes "resolve_pr E snap w = (Inr (Some pr, []), w')"
  obtains calls where "en_pr E calls = Inr pr" "verify_pull_request pr (claimed_pr_url snap) = []"
  using assms
  by (auto simp: resolve_pr_def Let_def ret_def try_except_def bnd_def gh_get_pull_request_def remote_def
      split: list.splits option.splits prod.splits if_splits sum.splits)

definition acceptable_pr :: "Env \<Rightarrow> Kind \<Rightarrow> str option \<Rightarrow> PullRequestInfo \<Rightarrow> bool" where
  "acceptable_pr E kind claimed pr \<longleftrightarrow>
     (\<exists>calls. en_pr E calls = Inr pr) \<and> verify_pull_request pr claimed = [] \<and>
     (\<exists>calls files. en_files E calls = Inr files \<and> diff_policy_violations files kind = [])"

lemma examine_pr_verified:
  assumes "examine_pr E kind snap wanted w = (Inr (info, True, [], problems), w')"
  shows "\<exists>pr. info = Some pr \<and> acceptable_pr E kind (claimed_pr_url snap) pr"
proof -
  obtain info0 p0 w1 where r: "resolve_pr E snap w = (Inr (info0, p0), w1)"
    and k: "(case (info0, p0) of
          (Some pr, []) \<Rightarrow> bnd (gh_list_pr_files E (pi_number pr)) (\<lambda>files.
            ret (Some pr, True, diff_policy_violations files kind, p0))
        | _ \<Rightarrow> ret (info0, False, [], p0)) w1 = (Inr (info, True, [], problems), w')"
    using assms by (auto simp: examine_pr_def ret_def elim!: bnd_InrE split: if_splits)
  then obtain pr where pr: "info0 = Some pr" "p0 = []"
    by (auto simp: ret_def split: option.splits list.splits)
  obtain c where "en_pr E c = Inr pr" "verify_pull_request pr (claimed_pr_url snap) = []"
    using resolve_pr_clean r pr by blast
  moreover have "info = Some pr \<and> (\<exists>c files. en_files E c = Inr files \<and> diff_policy_violations files kind = [])"
    using k pr by (auto simp: bnd_def gh_list_pr_files_def remote_def ret_def Let_def split: sum.splits)
  ultimately show ?thesis by (auto simp: acceptable_pr_def)
qed

lemma items_examine [eff_intros]: "eff items_rel (examine_pr E kind snap wanted)"
  unfolding examine_pr_def resolve_pr_def Let_def remote_defs by (intro eff_intros)

lemma act_on_opens:
  assumes row: "row_in wid [W_session_active] w" and run: "act_on E wid sid snap res detail info w = (r, w')"
    and opened: "row_in wid [W_pr_open, W_checks_running] w'"
  shows "as_decision res = D_ready_for_verification"
proof (rule ccontr)
  assume other: "as_decision res \<noteq> D_ready_for_verification"
  obtain wi where wi: "get_row wi_id wid (db_work_items (w_db w)) = Some wi" "wi_state wi = W_session_active"
    using row by (rule row_inE)
  have keep: False if "eff states_rel m" "m w = (r, w')" for m :: "unit M"
    using states_row_in [OF that] row opened by (auto simp: row_in_def split: option.splits)
  let ?sent = "edit_session sid (\<lambda>s. s\<lparr>se_messages_sent := Suc (se_messages_sent s)\<rparr>)"
  show False
  proof (cases "as_decision res")
    case D_continue_polling
    then show False using keep [of skip] run wi by (simp add: act_on_def bnd_wi_row states.eff_prims)
  next
    case D_answer_question
    have "eff items_rel (case as_reply res of None \<Rightarrow> raise (Exn ''AssertionError'' [])
        | Some reply \<Rightarrow> blk [dv_send_message E (ss_session_id snap) reply, ?sent])"
      unfolding remote_defs by (intro eff_intros)
    from keep [OF states_items [OF this]] D_answer_question run wi show False by (simp add: act_on_def bnd_wi_row Let_def)
  next
    case D_budget_warning
    have "eff states_rel (blk [dv_send_message E (ss_session_id snap) msg, ?sent,
        edit_wi wid (\<lambda>w. w\<lparr>wi_budget_warning_sent := True\<rparr>)])" for msg
      unfolding remote_defs
      by (intro eff_intros states_items [OF items_edits(1)] states_items [OF items_remote] states_edit_wi) simp_all
    from keep [OF this] D_budget_warning run wi show False by (simp add: act_on_def bnd_wi_row Let_def)
  next
    case D_needs_human
    have "next_work_item_state W_session_active E_blocked = Inr W_needs_human"
      by (simp add: next_work_item_state_iff WORK_ITEM_TRANSITIONS_def)
    then obtain w1 where e: "wi_event E wid E_blocked (take 500 detail) ''controller'' w = (Inr W_needs_human, w1)"
      "row_in wid [W_needs_human] w1" by (rule wi_event_row_in [OF row])
    let ?rest = "when_ok (is_done snap \<and> no_change_needed snap \<and> wi_kind wi = K_scanner_disagreement)
        (post_disagreement_verdict E wi snap)"
    have "eff items_rel ?rest" unfolding post_disagreement_verdict_def remote_defs by (intro eff_intros)
    moreover have "?rest w1 = (r, w')"
      using run D_needs_human wi e(1)
      by (simp add: act_on_def bnd_wi_row Let_def bnd_Inr [where m = "wi_event E wid E_blocked (take 500 detail) ''controller''"])
    ultimately have "row_in wid [W_needs_human] w'" using items_row_in e(2) by blast
    then show False using opened by (auto simp: row_in_def split: option.splits)
  qed (use other in simp)
qed

lemma apply_snapshot_opens:
  assumes row: "get_row wi_id wid (db_work_items (w_db w)) = Some wi" "wi_state wi = W_session_active"
    and run: "apply_snapshot E wid srow snap w = (r, w')" and opened: "row_in wid [W_pr_open, W_checks_running] w'"
  shows "\<exists>pr. acceptable_pr E (wi_kind wi) (claimed_pr_url snap) pr" and "is_final_report snap"
    and "validate_output (en_iter_errors E) (wi_kind wi) (ss_structured_output snap) = []"
    and "ss_outcome snap = Some O_pr_opened" and "ss_acus_consumed snap \<le> wi_acu_cap wi"
proof -
  define final where "final = is_final_report snap"
  define errs where "errs = (if final then validate_output (en_iter_errors E) (wi_kind wi) (ss_structured_output snap) else [])"
  define t where "t = en_clock E (w_reads w)"
  define m0 where "m0 = edit_session (se_id srow) (\<lambda>s. (seen_snapshot snap t s)
       \<lparr>se_finished_at := (if is_done snap \<and> se_finished_at s = None then Some t else se_finished_at s)\<rparr>)"
  define m1 where "m1 = examine_pr E (wi_kind wi) snap (final \<and> errs = [] \<and> ss_outcome snap = Some O_pr_opened)"
  define m2 where "m2 = (if is_waiting_for_user snap then dv_last_question E (ss_session_id snap) else ret None)"
  define res where "res = (\<lambda>ok (v :: str list) q. assess snap (facts_of E wi srow t (final \<and> errs = []) ok (ok \<and> v = [])) q)"
  have row0: "row_in wid [W_session_active] (w\<lparr>w_reads := Suc (w_reads w)\<rparr>)" using row by (simp add: row_in_def)
  obtain w1 where w1: "m0 (w\<lparr>w_reads := Suc (w_reads w)\<rparr>) = (Inr (), w1)" by (simp add: m0_def edit_session_def write_db_def)
  have e0: "eff items_rel m0" "eff items_rel m1" "eff items_rel m2"
    unfolding m0_def m1_def m2_def remote_defs by (intro eff_intros)+
  have row1: "row_in wid [W_session_active] w1" using items_row_in [OF e0(1) w1] row0 by simp
  have "bnd m0 (\<lambda>_. bnd m1 (\<lambda>(info, ok, v, p). bnd m2 (\<lambda>q. bnd (add_poll (se_id srow) snap t
        (decision_value (as_decision (res ok v q))) (take 500 (decision_detail (res ok v q) errs p v)))
        (\<lambda>_. bnd (act_on E wid (se_id srow) snap (res ok v q) (decision_detail (res ok v q) errs p v) info)
        (\<lambda>_. ret (res ok v q)))))) (w\<lparr>w_reads := Suc (w_reads w)\<rparr>) = (r, w')"
    using run unfolding apply_snapshot_def Let_def t_def m0_def final_def errs_def m1_def m2_def res_def
    by (simp only: bnd_wi_row row(1) option.case bnd_run)
  then have run1: "bnd m1 (\<lambda>(info, ok, v, p). bnd m2 (\<lambda>q. bnd (add_poll (se_id srow) snap t
        (decision_value (as_decision (res ok v q))) (take 500 (decision_detail (res ok v q) errs p v)))
        (\<lambda>_. bnd (act_on E wid (se_id srow) snap (res ok v q) (decision_detail (res ok v q) errs p v) info)
        (\<lambda>_. ret (res ok v q))))) w1 = (r, w')"
    by (simp add: bnd_def [of m0] w1)
  have stuck: False if "row_in wid [W_session_active] w'"
    using that opened by (auto simp: row_in_def split: option.splits)
  obtain x w2 where m1: "m1 w1 = (x, w2)" by (cases "m1 w1") auto
  have row2: "row_in wid [W_session_active] w2" using items_row_in [OF e0(2) m1] row1 by simp
  obtain info ok v p where x: "x = Inr (info, ok, v, p)"
    using run1 m1 row2 stuck by (cases x) (auto simp: bnd_def)
  obtain y w3 where m2: "m2 w2 = (y, w3)" by (cases "m2 w2") auto
  have row3: "row_in wid [W_session_active] w3" using items_row_in [OF e0(3) m2] row2 by simp
  obtain q where y: "y = Inr q" using run1 m1 m2 x row3 stuck by (cases y) (auto simp: bnd_def)
  let ?poll = "add_poll (se_id srow) snap t (decision_value (as_decision (res ok v q)))
      (take 500 (decision_detail (res ok v q) errs p v))"
  obtain w4 where w4: "?poll w3 = (Inr (), w4)" by (simp add: add_poll_def write_db_def)
  have row4: "row_in wid [W_session_active] w4" using items_row_in [OF items_edits(5) w4] row3 by simp
  let ?act = "act_on E wid (se_id srow) snap (res ok v q) (decision_detail (res ok v q) errs p v) info"
  obtain z w5 where w5: "?act w4 = (z, w5)" by (cases "?act w4") auto
  have "w' = w5" using run1 m1 x m2 y w4 w5 by (cases z) (auto simp: bnd_def ret_def)
  then have ready: "as_decision (res ok v q) = D_ready_for_verification"
    using act_on_opens [OF row4 w5] opened by simp
  then have facts: "ok" "v = []" "final" "errs = []" "ss_outcome snap = Some O_pr_opened" "ss_acus_consumed snap \<le> wi_acu_cap wi"
    by (auto simp: res_def assess_ready_iff facts_of_def final_def)
  then show "is_final_report snap" "ss_outcome snap = Some O_pr_opened" "ss_acus_consumed snap \<le> wi_acu_cap wi"
    "validate_output (en_iter_errors E) (wi_kind wi) (ss_structured_output snap) = []"
    by (simp_all add: final_def errs_def)
  show "\<exists>pr. acceptable_pr E (wi_kind wi) (claimed_pr_url snap) pr"
  proof -
    have "m1 w1 = (Inr (info, True, [], p), w2)" using m1 x facts(1,2) by simp
    from examine_pr_verified [OF this [unfolded m1_def]] show ?thesis by blast
  qed
qed

section \<open>A human retry\<close>

lemma retry_item_resets:
  assumes row: "get_row wi_id wid (db_work_items (w_db w)) = Some wi" "wi_state wi \<in> set HUMAN_ATTENTION_STATES"
    and run: "retry_item E wid n w = (Inr (), w')"
  shows "\<exists>wi'. get_row wi_id wid (db_work_items (w_db w')) = Some wi' \<and> wi_state wi' = W_issue_open \<and>
    wi_active_session_id wi' = None \<and> wi_issue_number wi' = wi_issue_number wi"
proof -
  let ?g = "\<lambda>w. w\<lparr>wi_retries_used := 0, wi_active_session_id := None, wi_blocked_reason := None\<rparr>"
  obtain w1 where w1: "gh_remove_label E n (human_label_value HL_retry) w = (Inr (), w1)" and db: "w_db w1 = w_db w"
    using run by (auto simp: retry_item_def gh_remove_label_def remote_def Let_def elim!: bnd_InrE)
  let ?w = "w1\<lparr>w_db := (w_db w1)\<lparr>db_work_items := update_row wi_id wid ?g (db_work_items (w_db w1))\<rparr>\<rparr>"
  have row1: "get_row wi_id wid (db_work_items (w_db ?w)) = Some (?g wi)" by (simp add: db row get_row_update)
  have nxt: "next_work_item_state (wi_state (?g wi)) E_human_retry = Inr W_issue_open"
    using row(2) by (auto simp: next_work_item_state_iff WORK_ITEM_TRANSITIONS_def enum_defs)
  obtain w2 wi' where w2: "wi_event E wid E_human_retry ''retry label'' ''human'' ?w = (Inr W_issue_open, w2)"
    and wi': "get_row wi_id wid (db_work_items (w_db w2)) = Some wi'" "wi_state wi' = W_issue_open"
      "wi_issue_number wi' = wi_issue_number (?g wi)" "wi_active_session_id wi' = wi_active_session_id (?g wi)"
    by (rule wi_event_state [OF row1 nxt])
  have "w' = w2"
    using run by (simp add: retry_item_def edit_wi_def bnd_assoc bnd_run skip_def run_end
        bnd_Inr [where m = "gh_remove_label E n ''retry''", OF w1 [unfolded human_label_value.simps]]
        bnd_Inr [where m = "wi_event E wid E_human_retry ''retry label'' ''human''", OF w2])
  with wi' show ?thesis by simp
qed

section \<open>Verification of an item\<close>

definition findings_rel :: "World \<Rightarrow> World \<Rightarrow> bool" where
  "findings_rel w w' \<longleftrightarrow> db_findings (w_db w') = db_findings (w_db w)"

interpretation findings: effect findings_rel
  by unfold_locales (auto simp: findings_rel_def)

lemmas findings_monad [eff_intros] = findings.eff_monad

lemma findings_writes [eff_intros]:
  "eff findings_rel (remote c a)" "eff findings_rel (edit_wi wid g)" "eff findings_rel (edit_pr i h)"
  "eff findings_rel (wi_row wid)" "eff findings_rel (pr_row i)" "eff findings_rel (log_event E et i ev f t r a' es)"
  "eff findings_rel (write_db (do_wi_transition wid event b s' why a'' t1 t2))"
  by (simp_all add: eff_def findings_rel_def remote_def Let_def edit_wi_def edit_pr_def wi_row_def pr_row_def log_event_def
      run_simps push_event_def do_wi_transition_def split: option.split)

lemma findings_wi_event [eff_intros]: "eff findings_rel (wi_event E wid ev why actor)"
  unfolding wi_event_def wi_apply_def wi_commit_def sync_human_label_def Let_def remote_defs by (intro eff_intros)

lemma findings_verify_item: "eff findings_rel (verify_item E wi run states)"
  unfolding verify_item_def raise_level_def Let_def remote_defs by (intro eff_intros)

lemma items_show_present:
  assumes "row_in wid [W_awaiting_rescan] w" "wid = wi_id wi" "show_present E wi run still w = (r, w')"
  shows "row_in wid [W_needs_human] w'"
proof -
  let ?why = "''still present in run '' @ sr_external_run_id run @ '': '' @ join '', '' (take 8 (sort (map snd still)))"
  let ?rest = "for_each (map fst still) (\<lambda>fid. bnd (finding_event E fid FE_human_blocked
      (''present after merge in run '' @ sr_external_run_id run) ''scanner'' None) (\<lambda>_. skip))"
  have "next_work_item_state W_awaiting_rescan E_rescan_shows_present = Inr W_needs_human"
    by (simp add: next_work_item_state_iff WORK_ITEM_TRANSITIONS_def)
  then obtain w1 where e: "wi_event E wid E_rescan_shows_present ?why ''scanner'' w = (Inr W_needs_human, w1)"
    "row_in wid [W_needs_human] w1" by (rule wi_event_row_in [OF assms(1)])
  have "show_present E wi run still w = ?rest w1"
    unfolding show_present_def using bnd_Inr [where m = "wi_event E wid E_rescan_shows_present ?why ''scanner''", OF e(1)]
    by (simp only: assms(2))
  then have "?rest w1 = (r, w')" using assms(3) by simp
  moreover have "eff items_rel ?rest" by (intro eff_intros)
  ultimately have "row_in wid [W_needs_human] w' = row_in wid [W_needs_human] w1" by (intro items_row_in)
  then show ?thesis using e(2) by simp
qed

definition member_states :: "Finding list \<Rightarrow> Db \<Rightarrow> FindingState list" where
  "member_states members d = map fd_state (List.map_filter (\<lambda>f. get_row fd_id (fd_id f) (db_findings d)) members)"

lemma member_states_findings: "db_findings d' = db_findings d \<Longrightarrow> member_states members d' = member_states members d"
  by (simp add: member_states_def)

lemma conclude_item_verifies:
  assumes row: "row_in (wi_id wi) [W_merged] w \<or> row_in (wi_id wi) [W_awaiting_rescan] w"
    and run: "conclude_item E wi run members outcomes reasons w = (r, w')" and v: "row_in (wi_id wi) [W_verified] w'"
  shows "issue_may_close (member_states members (w_db w'))" and "CO_not_applicable \<notin> set (map snd outcomes)"
proof -
  let ?wid = "wi_id wi"
  have nxt: "next_work_item_state W_merged E_rescan_started = Inr W_awaiting_rescan"
    "next_work_item_state W_awaiting_rescan E_rescan_started = Inr W_awaiting_rescan"
    by (simp_all add: next_work_item_state_iff WORK_ITEM_TRANSITIONS_def)
  have clash: False if "row_in ?wid [W_awaiting_rescan] w' \<or> row_in ?wid [W_needs_human] w'"
    using that v by (auto simp: row_in_def split: option.splits)
  have started: "\<exists>w1. wi_event E ?wid E_rescan_started why actor w = (Inr W_awaiting_rescan, w1) \<and>
      row_in ?wid [W_awaiting_rescan] w1 \<and> db_findings (w_db w1) = db_findings (w_db w)" for why actor
  proof -
    obtain w0 where w0: "get_row wi_id ?wid (db_work_items (w_db w)) = Some w0"
      "next_work_item_state (wi_state w0) E_rescan_started = Inr W_awaiting_rescan"
      using row nxt by (auto simp: row_in_def split: option.splits)
    obtain w1 w1' where "wi_event E ?wid E_rescan_started why actor w = (Inr W_awaiting_rescan, w1)"
      "get_row wi_id ?wid (db_work_items (w_db w1)) = Some w1'" "wi_state w1' = W_awaiting_rescan"
      "db_findings (w_db w1) = db_findings (w_db w)" by (rule wi_event_state [OF w0])
    then show ?thesis by (auto simp: row_in_def)
  qed
  have "issue_may_close (member_states members (w_db w')) \<and> CO_not_applicable \<notin> set (map snd outcomes)"
  proof (cases "list_ex (\<lambda>(i, out). out = CO_not_applicable) outcomes")
    case True
    let ?why = "''run '' @ sr_external_run_id run @ '' not a valid closing run: '' @ join ''; '' (take 6 (sorted_set reasons))"
    obtain w1 where s: "wi_event E ?wid E_rescan_started ?why ''controller'' w = (Inr W_awaiting_rescan, w1)"
      and p: "row_in ?wid [W_awaiting_rescan] w1" using started by blast
    have "conclude_item E wi run members outcomes reasons w = (Inr (), w1)"
      unfolding conclude_item_def if_P [OF True] bnd_def s skip_def ret_def by simp
    then show ?thesis using run p clash by simp
  next
    case valid: False
    define again where "again = (\<lambda>st. when_ok (st = W_merged) (bnd (wi_event E ?wid E_rescan_started
        (''run '' @ sr_external_run_id run @ '' evaluated'') ''controller'') (\<lambda>_. skip)))"
    obtain w0 where w0: "get_row wi_id ?wid (db_work_items (w_db w)) = Some w0" "wi_state w0 = W_merged \<or> wi_state w0 = W_awaiting_rescan"
      using row by (auto simp: row_in_def split: option.splits)
    obtain w1 where w1: "again (wi_state w0) w = (Inr (), w1)" "row_in ?wid [W_awaiting_rescan] w1"
      "db_findings (w_db w1) = db_findings (w_db w)"
    proof (cases "wi_state w0 = W_merged")
      case True
      obtain w1 where s: "wi_event E ?wid E_rescan_started (''run '' @ sr_external_run_id run @ '' evaluated'') ''controller'' w =
          (Inr W_awaiting_rescan, w1)" and p: "row_in ?wid [W_awaiting_rescan] w1" "db_findings (w_db w1) = db_findings (w_db w)"
        using started by blast
      have "again (wi_state w0) w = (Inr (), w1)"
        unfolding again_def when_ok_def if_P [OF True] bnd_def s skip_def ret_def by simp
      then show thesis using p by (rule that)
    next
      case False
      have "again (wi_state w0) w = (Inr (), w)" using False by (simp add: again_def when_ok_def skip_def ret_def)
      moreover have "row_in ?wid [W_awaiting_rescan] w" using w0 False by (simp add: row_in_def)
      ultimately show thesis using refl by (rule that)
    qed
    let ?still = "map (\<lambda>(f, _). (fd_id f, fd_vuln_id f)) (filter (\<lambda>(f, out). out = CO_still_present) (zip members (map snd outcomes)))"
    have rest: "(if issue_may_close (member_states members (w_db w1)) then verify_item E wi run (member_states members (w_db w1))
        else when_ok (?still \<noteq> []) (show_present E wi run ?still)) w1 = (r, w')"
    proof -
      have "bnd (again (wi_state w0)) (\<lambda>_. bnd (query (member_states members)) (\<lambda>states.
          if issue_may_close states then verify_item E wi run states
          else when_ok (?still \<noteq> []) (show_present E wi run ?still))) w = (r, w')"
        using run valid unfolding conclude_item_def Let_def again_def member_states_def [abs_def]
        by (simp only: if_False bnd_wi_row w0(1) option.case)
      then show ?thesis by (simp add: bnd_Inr [where m = "again (wi_state w0)", OF w1(1)] bnd_run)
    qed
    have may: "issue_may_close (member_states members (w_db w1))"
    proof (rule ccontr)
      assume "\<not> ?thesis"
      then have "when_ok (?still \<noteq> []) (show_present E wi run ?still) w1 = (r, w')" using rest by simp
      then show False
        using clash w1(2) items_show_present [OF w1(2) refl] by (cases "?still = []") (auto simp: when_ok_def skip_def ret_def)
    qed
    then have "verify_item E wi run (member_states members (w_db w1)) w1 = (r, w')" using rest by simp
    then have "findings_rel w1 w'" by (rule effD [OF findings_verify_item])
    then show ?thesis
      using valid may member_states_findings [of "w_db w'" "w_db w1" members] by (auto simp: list_ex_iff findings_rel_def)
  qed
  then show "issue_may_close (member_states members (w_db w'))" "CO_not_applicable \<notin> set (map snd outcomes)" by simp_all
qed

lemma items_judge [eff_intros]: "eff items_rel (judge_step E wi run jobs ss acc fid)"
  unfolding judge_step_def judge_member_def validity_of_def ancestry_def is_ancestor_def record_outcome_def remote_defs
  by (intro eff_intros)

lemma close_work_item_verifies:
  assumes row: "row_in wid [W_merged] w \<or> row_in wid [W_awaiting_rescan] w"
    and run: "close_work_item E wid run jobs ss counts w = (r, w')" and v: "row_in wid [W_verified] w'"
  shows "issue_may_close (member_states (members_of wid (w_db w)) (w_db w'))"
proof -
  obtain wi where wi: "get_row wi_id wid (db_work_items (w_db w)) = Some wi"
    using row by (auto simp: row_in_def split: option.splits)
  then have id: "wi_id wi = wid" by (auto dest: get_row_SomeD)
  let ?ms = "members_of wid (w_db w)"
  let ?loop = "loop (judge_step E wi run jobs ss) ([], [], counts) (map fd_id ?ms)"
  obtain x w1 where x: "?loop w = (x, w1)" by (cases "?loop w") auto
  have "eff items_rel ?loop" by (intro eff_intros)
  from items_row_in [OF this x] row have row1: "row_in wid [W_merged] w1 \<or> row_in wid [W_awaiting_rescan] w1" by simp
  have rest: "bnd ?loop (\<lambda>(outcomes, reasons, counts'). bnd (conclude_item E wi run ?ms outcomes reasons) (\<lambda>_. ret counts')) w = (r, w')"
    using run by (simp add: close_work_item_def bnd_wi_row wi bnd_run)
  have open1: "\<not> row_in wid [W_verified] w1" using row1 by (auto simp: row_in_def split: option.splits)
  obtain os rs cs where "x = Inr (os, rs, cs)" using rest x v open1 by (cases x) (auto simp: bnd_def)
  then have rest1: "bnd (conclude_item E wi run ?ms os rs) (\<lambda>_. ret cs) w1 = (r, w')" using rest x by (simp add: bnd_def)
  obtain y w2 where y: "conclude_item E wi run ?ms os rs w1 = (y, w2)" by (cases "conclude_item E wi run ?ms os rs w1") auto
  then have "w2 = w'" using rest1 by (cases y) (auto simp: bnd_def ret_def)
  then show ?thesis using conclude_item_verifies(1) y row1 v id by blast
qed

section \<open>A run is weighed once\<close>

lemma evaluate_run_stamps:
  assumes "evaluate_run E run w = (Inr c, w')" "holds (evidence_ok d) w"
  obtains t d' where "w_db w' = stamp_run (sr_id run) t d'" "evidence_ok d d'"
proof -
  let ?q = "query (\<lambda>d. (jobs_of (sr_id run) d, sightings_of (sr_id run) d, closing_items d))"
  obtain jobs ss items where q: "?q w = (Inr (jobs, ss, items), w)" by (simp add: query_def)
  then have "bnd (loop (\<lambda>counts wid. close_work_item E wid run jobs ss counts) [] items) (\<lambda>c1.
     bnd (regressions E run jobs ss c1) (\<lambda>c2. bnd (drift E run jobs ss c2) (\<lambda>c3.
     bnd (now E) (\<lambda>t. bnd (write_db (stamp_run (sr_id run) t)) (\<lambda>_. ret c3))))) w = (Inr c, w')"
    using assms(1) by (simp add: evaluate_run_def bnd_def [of ?q])
  then obtain c1 w1 c2 w2 c3 w3 t w4 u w5 where
    w1: "loop (\<lambda>counts wid. close_work_item E wid run jobs ss counts) [] items w = (Inr c1, w1)"
    and w2: "regressions E run jobs ss c1 w1 = (Inr c2, w2)" and w3: "drift E run jobs ss c2 w2 = (Inr c3, w3)"
    and e: "now E w3 = (Inr t, w4)" "write_db (stamp_run (sr_id run) t) w4 = (Inr u, w5)" "ret c3 w5 = (Inr c, w')"
    by (elim bnd_InrE)
  have k1: "keeps (evidence_ok d) (loop (\<lambda>counts wid. close_work_item E wid run jobs ss counts) [] items)"
    by (intro keeps_loop evidence_inv.close_work_item_keeps TrueI)
  have k3: "keeps (evidence_ok d) (drift E run jobs ss c2)" by (intro evidence_inv.drift_keeps TrueI)
  have "holds (evidence_ok d) w3"
    by (rule keepsD [OF k3 keepsD [OF evidence_inv.regressions_keeps keepsD [OF k1 assms(2) w1] w2] w3])
  then have "evidence_ok d (w_db w3)" by (simp add: holds_def)
  moreover have "w_db w' = stamp_run (sr_id run) t (w_db w3)"
    using e by (auto simp: now_def write_db_def ret_def)
  ultimately show thesis using that by blast
qed

lemma run_ids_evidence: "evidence_ok d d' \<Longrightarrow> map sr_id (db_runs d') = map sr_id (db_runs d)"
proof -
  assume "evidence_ok d d'"
  then have "map (sr_id \<circ> run_core) (db_runs d') = map (sr_id \<circ> run_core) (db_runs d)"
    by (simp add: evidence_ok_def) (metis map_map)
  then show ?thesis by (simp add: o_def)
qed

lemma apply_scan_run_once:
  assumes run: "apply_scan_run E i (fresh_world d) = (Inr c, w')"
  shows "apply_scan_run E' i (fresh_world (w_db w')) = (Inr [], fresh_world (w_db w'))"
proof -
  have w: "(fresh_world d)\<lparr>w_saved := w_db (fresh_world d)\<rparr> = fresh_world d" by (simp add: fresh_world_def)
  obtain r where r: "get_row sr_id i (db_runs d) = Some r"
  proof (cases "get_row sr_id i (db_runs d)")
    case None
    then show thesis using run by (simp add: apply_scan_run_def write_scope_def w bnd_run raise_def fresh_world_def)
  qed (rule that)
  have "\<exists>r'. get_row sr_id i (db_runs (w_db w')) = Some r' \<and> sr_closure_applied_at r' \<noteq> None"
  proof (cases "sr_closure_applied_at r")
    case (Some t)
    then have "w_db w' = d"
      using run r by (auto simp: apply_scan_run_def write_scope_def fresh_world_def bnd_run run_end)
    then show ?thesis using r Some by auto
  next
    case None
    obtain x w1 where x: "evaluate_run E r (fresh_world d) = (x, w1)" by (cases "evaluate_run E r (fresh_world d)") auto
    have d: "w_db (fresh_world d) = d" by (simp add: fresh_world_def)
    have "x = Inr c \<and> w_db w' = w_db w1"
      using run None x by (cases x) (auto simp: apply_scan_run_def write_scope_def w [unfolded d] bnd_run d r)
    moreover have "holds (evidence_ok d) (fresh_world d)" by (simp add: holds_def fresh_world_def evidence_ok_start)
    ultimately obtain t d' where s: "w_db w' = stamp_run (sr_id r) t d'" and e: "evidence_ok d d'"
      using evaluate_run_stamps x by metis
    have i: "sr_id r = i" using r by (auto dest: get_row_SomeD)
    have "get_row sr_id i (db_runs d') \<noteq> None"
      using r run_ids_evidence [OF e] get_row_None [of sr_id i "db_runs d'"] get_row_None [of sr_id i "db_runs d"]
      by (metis list.set_map option.distinct(1))
    then show ?thesis by (auto simp: s i stamp_run_def get_row_update)
  qed
  then show ?thesis
    by (auto simp: apply_scan_run_def write_scope_def fresh_world_def bnd_run run_end)
qed

section \<open>A run that fails to apply leaves nothing behind\<close>

text \<open>No commit inside the evaluation of a run: a failure rolls all of it back.\<close>

definition saved_rel :: "World \<Rightarrow> World \<Rightarrow> bool" where
  "saved_rel w w' \<longleftrightarrow> w_saved w' = w_saved w"

interpretation saved: uncommitted_effect saved_rel
  by unfold_locales (auto simp: saved_rel_def)

lemmas saved_control [eff_intros] = saved.eff_control

lemma saved_writes [eff_intros]: "eff saved_rel (write_db g)" "eff saved_rel (remote c a)"
  by (simp_all add: eff_def saved_rel_def write_db_def remote_def Let_def)

lemma saved_core [eff_intros]:
  "eff saved_rel (log_event E et i ev f t r a es)" "eff saved_rel (wi_row wid)" "eff saved_rel (fd_row fid)"
  "eff saved_rel (pr_row i)" "eff saved_rel (wi_get wid)" "eff saved_rel (set_owner fid own)"
  unfolding log_event_def wi_row_def fd_row_def pr_row_def wi_get_def set_owner_def by (intro eff_intros)+

lemma saved_events [eff_intros]:
  "eff saved_rel (wi_event E wid ev why actor)" "eff saved_rel (finding_event E fid ev' why actor run)"
  unfolding wi_event_def wi_apply_def wi_commit_def sync_human_label_def edit_wi_def Let_def remote_defs finding_event_def
  by (intro eff_intros)+

lemma saved_closing [eff_intros]:
  "eff saved_rel (close_work_item E wid run jobs ss counts)" "eff saved_rel (supersede_item E run wid)"
  "eff saved_rel (regressions E run jobs ss counts)" "eff saved_rel (drift E run jobs ss counts)"
  unfolding close_work_item_def judge_step_def judge_member_def validity_of_def ancestry_def is_ancestor_def
    record_outcome_def conclude_item_def verify_item_def show_present_def raise_level_def edit_wi_def edit_pr_def Let_def
    supersede_item_def regressions_def regression_step_def reopen_item_def drift_def drift_step_def remote_defs
  by (intro eff_intros)+

lemma apply_scan_run_failed:
  assumes "apply_scan_run E i (fresh_world d) = (Inl e, w')"
  shows "w_db w' = d \<and> w_saved w' = d"
proof -
  let ?body = "bnd (query (\<lambda>d. get_row sr_id i (db_runs d))) (\<lambda>r.
     case r of
       None \<Rightarrow> raise (Exn ''ValueError'' (''scan run '' @ show_nat i @ '' not found''))
     | Some run \<Rightarrow> if sr_closure_applied_at run \<noteq> None then ret [] else evaluate_run E run)"
  have w: "(fresh_world d)\<lparr>w_saved := w_db (fresh_world d)\<rparr> = fresh_world d" by (simp add: fresh_world_def)
  obtain r w1 where b: "?body (fresh_world d) = (r, w1)" by (cases "?body (fresh_world d)") auto
  have "eff saved_rel ?body" unfolding evaluate_run_def by (intro eff_intros)
  from effD [OF this b] have "w_saved w1 = d" by (simp add: saved_rel_def fresh_world_def)
  moreover have "(case (r, w1) of (Inl e, w') \<Rightarrow> (Inl e, w'\<lparr>w_db := w_saved w'\<rparr>)
      | (Inr a, w') \<Rightarrow> (Inr a, w'\<lparr>w_saved := w_db w'\<rparr>)) = (Inl e, w')"
    using assms unfolding apply_scan_run_def write_scope_def w b .
  ultimately show ?thesis by (cases r) auto
qed

section \<open>A held tick\<close>

text \<open>While a run could not be applied, the rest of the tick only recovers: it creates no session.\<close>

lemma recover_only_creates_none: "no_create (tick_dispatch E auto True)"
  unfolding tick_dispatch_def by (simp, intro eff_intros)

end
