(* ===== verification/Samples.thy ===== *)
theory Samples
  imports Handlers
begin

text \<open>
  One small concrete repository: settings, services that answer, a finished scan of the remediation
  branch, a finding it no longer shows and its work item. The witnesses of the properties are
  evaluated on it.
\<close>

definition sample_issue :: Issue where
  "sample_issue = \<lparr>is_repo = ''r'', is_number = 7, is_url = ''u'', is_title = ''t'', is_state = ''open'', is_labels = []\<rparr>"

definition sample_snapshot :: SessionSnapshot where
  "sample_snapshot = \<lparr>ss_session_id = ''s1'', ss_url = ''u'', ss_status = DS_running, ss_status_detail = None,
     ss_acus_consumed = 0, ss_pull_requests = [], ss_structured_output = None, ss_tags = [], ss_created_at = 0,
     ss_updated_at = 0\<rparr>"

definition sample_env :: Env where
  "sample_env =
     \<lparr>en_settings = default_settings, en_playbook_ids = [], en_knowledge_ids = [], en_clock = int,
      en_iter_errors = (\<lambda>_ _. []), en_version_ge = (\<lambda>_ _. Some True), en_issue = (\<lambda>_. Inr sample_issue),
      en_issues = (\<lambda>_. Inr []), en_unit = (\<lambda>_. Inr ()), en_pr = (\<lambda>_. Inl (Exn ''HTTPError'' ''404'')),
      en_files = (\<lambda>_. Inr []), en_reviews = (\<lambda>_. Inr []), en_checks = (\<lambda>_. Inr []),
      en_compare = (\<lambda>_. Inr \<lparr>cmp_status = ''ahead'', cmp_ahead_by = 1, cmp_behind_by = 0\<rparr>), en_session = (\<lambda>_. Inr sample_snapshot),
      en_sessions = (\<lambda>_. Inr []), en_text = (\<lambda>_. Inr ''a''), en_question = (\<lambda>_. Inr None),
      en_review = (\<lambda>_. Inl (Exn ''HTTPError'' ''404'')), en_review_opt = (\<lambda>_. Inr None),
      en_workflow_runs = (\<lambda>_. Inr []), en_artifacts = (\<lambda>_. Inr []), en_download = (\<lambda>_. Inl (Exn ''ArtifactError'' ''none'')),
      en_file = (\<lambda>_. Inr None), en_disk = (\<lambda>_ _. None)\<rparr>"

definition sample_run :: ScanRun where
  "sample_run =
     \<lparr>sr_id = 2, sr_external_run_id = ''r2'', sr_run_attempt = 1, sr_trigger = TR_push, sr_source_repo = FORK_REPO,
      sr_source_branch = REMEDIATION_BRANCH, sr_source_sha = ''b'', sr_platform = ''p'', sr_lean_digest = None,
      sr_ci_digest = None, sr_ci_layer_delta = None, sr_tools = [], sr_scan_gate_mode = GM_report, sr_vex_documents = [],
      sr_status = SR_complete, sr_started_at = None, sr_finished_at = Some 9, sr_ingested_at = 9,
      sr_is_baseline = False, sr_workflow = None, sr_closure_applied_at = None\<rparr>"

definition sample_job :: ScanJob where
  "sample_job =
     \<lparr>sj_id = 1, sj_scan_run_id = 2, sj_name = ''config-raw'', sj_scanner = Some SC_trivy, sj_mode = Some SM_raw,
      sj_image_target = None, sj_layer_scope = ''config'', sj_success = True, sj_tool_version = None,
      sj_db_built_at = None, sj_started_at = None, sj_finished_at = None, sj_artifact_path = None,
      sj_artifact_sha256 = None, sj_counts = []\<rparr>"

definition sample_finding :: "FindingState \<Rightarrow> Finding" where
  "sample_finding s =
     \<lparr>fd_id = 3, fd_dedupe_key = ''k'', fd_vuln_id = ''DS001'', fd_purl = None, fd_pkg_name = None, fd_pkg_version = None,
      fd_ecosystem = EC_config, fd_layer = LY_dockerfile, fd_image_target = None, fd_platform = ''p'', fd_resource = None,
      fd_title = None, fd_severity = SEV_high, fd_severity_by_scanner = [], fd_severity_disagreement = False,
      fd_fix_versions_by_scanner = [], fd_reported_by_trivy = True, fd_reported_by_grype = False,
      fd_opened_by_trivy = True, fd_opened_by_grype = False, fd_kind = Some K_container_hardening, fd_risk = RK_normal,
      fd_bound_blocked = False, fd_classification_trace = None, fd_unclassified_reason = None, fd_state = s,
      fd_first_seen_run_id = 1, fd_last_seen_run_id = 1, fd_opening_db_built_at = None, fd_work_item_id = Some 5,
      fd_closed_by_run_id = None, fd_created_at = 0, fd_updated_at = 0\<rparr>"

definition sample_item :: "WorkItemState \<Rightarrow> WorkItem" where
  "sample_item s =
     (new_work_item K_container_hardening ''g'' ''t'' SEV_high RK_normal None 0 0 5)
       \<lparr>wi_state := s, wi_active_session_id := (if s = W_session_active then Some ''s1'' else None),
        wi_issue_number := (if s = W_merged then None else Some 7)\<rparr>"

definition sample_db :: "WorkItemState \<Rightarrow> FindingState \<Rightarrow> Db" where
  "sample_db s f = empty_db\<lparr>db_runs := [sample_run], db_jobs := [sample_job], db_findings := [sample_finding f],
     db_work_items := [sample_item s]\<rparr>"

lemmas sample_defs = sample_db_def sample_item_def sample_finding_def sample_job_def sample_run_def sample_env_def
  sample_snapshot_def sample_issue_def new_work_item_def empty_db_def fresh_world_def

section \<open>The repository in motion\<close>

text \<open>The sample after its scan was applied: the finding is fixed and the item verified.\<close>

definition verified_db :: Db where
  "verified_db = w_db (snd (apply_scan_run sample_env 2 (fresh_world (sample_db W_merged F_awaiting_rescan))))"

lemma verified_db_reachable: "reachable intake (sample_db W_merged F_awaiting_rescan) verified_db"
proof -
  have "verified_db = w_db (snd (run_op sample_env (OpApplyScanRun 2) (fresh_world (sample_db W_merged F_awaiting_rescan))))"
    by (simp add: verified_db_def void_def skip_def snd_bnd_ret)
  then show ?thesis by (metis reachable.start reachable.step controller_step.completed)
qed

lemma verified_db_states:
  "map wi_state (db_work_items verified_db) = [W_verified]" "map fd_state (db_findings verified_db) = [F_fixed]"
  unfolding verified_db_def by code_simp+

lemma sample_keys: "keys_ok (sample_db s f)"
  by (simp add: keys_ok_def sample_defs)

lemma sample_rows:
  "get_row wi_id 5 (db_work_items (sample_db s f)) = Some (sample_item s)"
  "get_row fd_id 3 (db_findings (sample_db s f)) = Some (sample_finding f)"
  "wi_state (sample_item s) = s" "fd_state (sample_finding f) = f"
  by (simp_all add: sample_defs get_row_Cons)

text \<open>A session that reports one pull request, and the pull request it reports.\<close>

definition sample_pr_url :: str where
  "sample_pr_url = ''https://github.com/Hunter-1298/superset/pull/4''"

definition reporting_snapshot :: SessionSnapshot where
  "reporting_snapshot = sample_snapshot
     \<lparr>ss_status := DS_exit, ss_status_detail := Some DD_finished,
      ss_structured_output := Some [(''outcome'', JStr ''pr_opened''), (''pr_url'', JStr sample_pr_url)],
      ss_pull_requests := [\<lparr>spr_url = sample_pr_url, spr_state = None\<rparr>]\<rparr>"

definition sample_pr :: "bool \<Rightarrow> PullRequestInfo" where
  "sample_pr merged = \<lparr>pi_repo = FORK_REPO, pi_number = 4, pi_url = sample_pr_url, pi_title = ''t'',
     pi_state = (if merged then ''closed'' else ''open''), pi_merged = merged, pi_merge_commit_sha = (if merged then Some ''b'' else None),
     pi_base_ref = REMEDIATION_BRANCH, pi_head_ref = ''h'', pi_head_repo = FORK_REPO, pi_head_sha = ''c'', pi_author = ''a'',
     pi_merged_at = None\<rparr>"

definition pr_env :: "bool \<Rightarrow> Env" where
  "pr_env merged = sample_env\<lparr>en_pr := (\<lambda>_. Inr (sample_pr merged))\<rparr>"

definition sample_session :: DevinSession where
  "sample_session = new_session sample_env (sample_item W_session_active) sample_snapshot 0 1"

definition active_world :: World where
  "active_world = fresh_world ((sample_db W_session_active F_grouped)\<lparr>db_sessions := [sample_session]\<rparr>)"

text \<open>The item waits on its pull request; the next poll finds it merged.\<close>

definition review_db :: Db where
  "review_db = (sample_db W_ready_for_human F_in_remediation)
     \<lparr>db_work_items := [(sample_item W_ready_for_human)\<lparr>wi_pr_number := Some 4\<rparr>],
      db_prs := [new_pr 5 (sample_pr False) 0 0 1]\<rparr>"

definition merged_db :: Db where
  "merged_db = w_db (snd (poll_pull_requests (pr_env True) (fresh_world review_db)))"

lemma merged_db_reachable: "reachable intake review_db merged_db"
proof -
  have "merged_db = w_db (snd (run_op (pr_env True) OpPollPullRequests (fresh_world review_db)))"
    by (simp add: merged_db_def void_def skip_def snd_bnd_ret)
  then show ?thesis by (metis reachable.start reachable.step controller_step.completed)
qed

lemma merged_db_item: "get_row wi_id 5 (db_work_items merged_db) \<noteq> None" "map wi_state (db_work_items merged_db) = [W_merged]"
  unfolding merged_db_def by code_simp+

text \<open>A finding a scanner reported, ready to be classified, and a session that asks a question.\<close>

definition waiting_snapshot :: SessionSnapshot where
  "waiting_snapshot = sample_snapshot\<lparr>ss_status_detail := Some DD_waiting_for_user\<rparr>"

definition fresh_facts :: SessionFacts where
  "fresh_facts = \<lparr>sf_acu_cap = 5, sf_schema_valid = False, sf_pr_verified = False, sf_diff_policy_ok = False,
     sf_wall_clock_exceeded = False, sf_budget_warning_sent = False\<rparr>"

text \<open>A Trivy report with one vulnerability.\<close>

definition sample_trivy_report :: json where
  "sample_trivy_report = JObj [(''SchemaVersion'', JInt 2),
     (''Results'', JArr [JObj [(''Class'', JStr ''lang-pkgs''), (''Type'', JStr ''pip''), (''Target'', JStr ''r''),
        (''Vulnerabilities'', JArr [JObj [(''VulnerabilityID'', JStr ''CVE-1''), (''PkgName'', JStr ''flask''),
           (''Severity'', JStr ''HIGH'')]])]])]"

end
