(* ===== verification/Gate.thy ===== *)
theory Gate
  imports Domain
begin

text \<open>\<^verbatim>\<open>gate.py\<close>: the rule that decides whether a scan run's policy results fail CI.\<close>

definition GATED_SEVERITIES :: "Severity list" where
  [enum_defs]: "GATED_SEVERITIES = [SEV_critical, SEV_high]"

record GateVerdict =
  gv_mode :: GateMode
  gv_policy_high :: int
  gv_policy_critical :: int
  gv_passed :: bool
  gv_reason :: str

definition gated_count :: "GateVerdict \<Rightarrow> int" where
  "gated_count v = gv_policy_high v + gv_policy_critical v"

definition ready_for_enforce :: "GateVerdict \<Rightarrow> bool" where
  "ready_for_enforce v \<longleftrightarrow> gated_count v = 0"

definition count_of :: "(str, int) dict \<Rightarrow> Severity \<Rightarrow> int" where
  "count_of counts s = (case dict_get counts (severity_value s) of None \<Rightarrow> 0 | Some n \<Rightarrow> n)"

definition gate_verdict :: "GateMode \<Rightarrow> (str, int) dict \<Rightarrow> GateVerdict" where
  "gate_verdict mode policy_counts_by_severity =
     (let high = count_of policy_counts_by_severity SEV_high;
          critical = count_of policy_counts_by_severity SEV_critical;
          gated = high + critical;
          (passed, reason) =
            (if mode = GM_enforce then
               (gated = 0,
                if gated = 0 then ''no policy HIGH/CRITICAL findings''
                else show_int critical @ '' CRITICAL + '' @ show_int high
                       @ '' HIGH policy findings (fix availability ignored)'')
             else
               (True, ''report mode: '' @ show_int critical @ '' CRITICAL + '' @ show_int high
                        @ '' HIGH policy findings recorded, not gated''))
      in \<lparr>gv_mode = mode, gv_policy_high = high, gv_policy_critical = critical, gv_passed = passed, gv_reason = reason\<rparr>)"

lemma gate_verdict_sel:
  "gv_policy_high (gate_verdict m c) = count_of c SEV_high"
  "gv_policy_critical (gate_verdict m c) = count_of c SEV_critical"
  "gv_passed (gate_verdict m c) \<longleftrightarrow> m = GM_report \<or> count_of c SEV_high + count_of c SEV_critical = 0"
  by (cases m; simp add: gate_verdict_def Let_def)+

end
