(* ===== verification/Lineage.thy ===== *)
theory Lineage
  imports Tables
begin

text \<open>
  \<^verbatim>\<open>models/lineage.py\<close>: the package a group key names, the regression descendants of a work item
  (a queue walk over \<open>regression_of_work_item_id\<close>, which need not end on a cyclic table) and the
  findings an item or any of its descendants owns.
\<close>

text \<open>\<^verbatim>\<open>#r\d+$\<close> removed; \<^verbatim>\<open>$\<close> also matches before one trailing newline.\<close>

definition strip_regression_suffix :: "str \<Rightarrow> str" where
  "strip_regression_suffix s =
     (let nl = s \<noteq> [] \<and> last s = CHR ''\<newline>''; body = (if nl then butlast s else s);
          digits = takeWhile is_digit (rev body); rest = dropWhile is_digit (rev body)
      in (case rest of
            c # h # pre \<Rightarrow>
              if digits \<noteq> [] \<and> c = CHR ''r'' \<and> h = CHR ''#''
              then rev pre @ (if nl then [CHR ''\<newline>''] else []) else s
          | _ \<Rightarrow> s))"

definition package_of_group_key :: "str \<Rightarrow> str" where
  "package_of_group_key group_key =
     (let key = strip_regression_suffix group_key
      in if CHR '':'' \<in> set key then after_first CHR '':'' key else key)"

definition children_of :: "WorkItem list \<Rightarrow> nat \<Rightarrow> nat list" where
  "children_of items p = map wi_id (filter (\<lambda>w. wi_regression_of_work_item_id w = Some p) items)"

partial_function (option) walk_descendants :: "WorkItem list \<Rightarrow> nat list \<Rightarrow> nat list \<Rightarrow> nat list option" where
  "walk_descendants items queue out =
     (case queue of
        [] \<Rightarrow> Some out
      | w # rest \<Rightarrow> walk_descendants items (rest @ children_of items w) (out @ [w]))"

declare walk_descendants.simps [code]

definition regression_descendants :: "WorkItem list \<Rightarrow> nat \<Rightarrow> nat list option" where
  "regression_descendants items root_id = map_option sort (walk_descendants items (children_of items root_id) [])"

definition parent_map :: "WorkItem list \<Rightarrow> (nat, nat) dict" where
  "parent_map items =
     foldl (\<lambda>d w. case wi_regression_of_work_item_id w of Some p \<Rightarrow> dict_set (wi_id w) p d | None \<Rightarrow> d) [] items"

text \<open>The chain of owners of one finding, cut at the first repetition; the bound is the table's size.\<close>

fun owner_chain :: "nat \<Rightarrow> (nat, nat) dict \<Rightarrow> nat option \<Rightarrow> nat list \<Rightarrow> nat list" where
  "owner_chain n par None seen = []"
| "owner_chain 0 par (Some w) seen = []"
| "owner_chain (Suc n) par (Some w) seen =
     (if w \<in> set seen then [] else w # owner_chain n par (dict_get par w) (w # seen))"

definition members_with_lineage :: "WorkItem list \<Rightarrow> Finding list \<Rightarrow> (nat, Finding list) dict" where
  "members_with_lineage items findings =
     (let par = parent_map items in
      foldl (\<lambda>d f. foldl (\<lambda>d w. bucket_add w f d) d (owner_chain (length par + 2) par (fd_work_item_id f) [])) [] findings)"

section \<open>The walk ends on a table where regressions point back\<close>

definition points_back :: "WorkItem list \<Rightarrow> bool" where
  "points_back items \<longleftrightarrow> (\<forall>w \<in> set items. \<forall>p. wi_regression_of_work_item_id w = Some p \<longrightarrow> p < wi_id w)"

inductive descends :: "WorkItem list \<Rightarrow> nat \<Rightarrow> nat \<Rightarrow> bool" for items where
  child: "c \<in> set (children_of items p) \<Longrightarrow> descends items p c"
| step: "descends items p c \<Longrightarrow> d \<in> set (children_of items c) \<Longrightarrow> descends items p d"

definition id_bound :: "WorkItem list \<Rightarrow> nat" where
  "id_bound items = Suc (Max (insert 0 (wi_id ` set items)))"

definition weight :: "WorkItem list \<Rightarrow> nat \<Rightarrow> nat" where
  "weight items w = Suc (length items) ^ (id_bound items - w)"

lemma id_lt_bound: "w \<in> set items \<Longrightarrow> wi_id w < id_bound items"
  by (auto simp: id_bound_def less_Suc_eq_le intro!: Max_ge)

lemma children_weight:
  assumes "points_back items"
  shows "sum_list (map (weight items) (children_of items p)) < weight items p \<or> id_bound items \<le> p \<and> children_of items p = []"
proof -
  let ?K = "Suc (length items)" and ?B = "id_bound items"
  have each: "x \<in> set (children_of items p) \<Longrightarrow> p < x \<and> x < ?B" for x
    using assms id_lt_bound by (fastforce simp: children_of_def points_back_def)
  show ?thesis
  proof (cases "children_of items p = []")
    case True
    then show ?thesis by (simp add: weight_def)
  next
    case False
    then obtain x where "x \<in> set (children_of items p)" by (cases "children_of items p") auto
    with each have pB: "p < ?B" by fastforce
    have "sum_list (map (weight items) (children_of items p)) \<le> length (children_of items p) * ?K ^ (?B - Suc p)"
    proof -
      have "weight items x \<le> ?K ^ (?B - Suc p)" if "x \<in> set (children_of items p)" for x
        using each [OF that] by (auto simp: weight_def intro!: power_increasing)
      then have "sum_list (map (weight items) (children_of items p)) \<le> sum_list (map (\<lambda>_. ?K ^ (?B - Suc p)) (children_of items p))"
        by (intro sum_list_mono) auto
      then show ?thesis by (simp add: sum_list_const_mult [where f = "\<lambda>_. 1", simplified] map_replicate_const sum_list_replicate)
    qed
    also have "\<dots> \<le> length items * ?K ^ (?B - Suc p)"
      by (simp add: children_of_def)
    also have "\<dots> < ?K * ?K ^ (?B - Suc p)" by simp
    also have "\<dots> = weight items p"
      using pB by (simp add: weight_def Suc_diff_Suc flip: power_Suc)
    finally show ?thesis by blast
  qed
qed

lemma descends_first:
  "descends items w d \<longleftrightarrow> d \<in> set (children_of items w) \<or> (\<exists>q \<in> set (children_of items w). descends items q d)"
proof
  show "d \<in> set (children_of items w) \<or> (\<exists>q \<in> set (children_of items w). descends items q d)" if "descends items w d"
    using that by (induction rule: descends.induct) (auto intro: descends.intros)
  have "descends items q d \<Longrightarrow> q \<in> set (children_of items w) \<Longrightarrow> descends items w d" for q
    by (induction rule: descends.induct) (auto intro: descends.intros)
  then show "descends items w d" if "d \<in> set (children_of items w) \<or> (\<exists>q \<in> set (children_of items w). descends items q d)"
    using that by (auto intro: descends.intros)
qed

lemma walk_descendants_ends:
  assumes pb: "points_back items"
  shows "\<exists>r. walk_descendants items queue out = Some r \<and>
    set r = set out \<union> set queue \<union> {d. \<exists>q \<in> set queue. descends items q d}"
proof (induction "sum_list (map (weight items) queue)" arbitrary: queue out rule: less_induct)
  case less
  show ?case
  proof (cases queue)
    case Nil
    then show ?thesis by (simp add: walk_descendants.simps)
  next
    case (Cons w rest)
    have "sum_list (map (weight items) (rest @ children_of items w)) < sum_list (map (weight items) queue)"
      using children_weight [OF pb, of w] Cons by (auto simp: weight_def)
    from less.hyps [OF this, of "out @ [w]"] obtain r where
      r: "walk_descendants items (rest @ children_of items w) (out @ [w]) = Some r"
      and set: "set r = set (out @ [w]) \<union> set (rest @ children_of items w) \<union>
        {d. \<exists>q \<in> set (rest @ children_of items w). descends items q d}"
      by auto
    have "walk_descendants items queue out = Some r"
      using r Cons by (subst walk_descendants.simps) simp
    moreover have "set r = set out \<union> set queue \<union> {d. \<exists>q \<in> set queue. descends items q d}"
      using set Cons descends_first [of items w] by auto
    ultimately show ?thesis by blast
  qed
qed

lemma owner_chain_set:
  "set (owner_chain n par w seen) \<inter> set seen = {} \<and> distinct (owner_chain n par w seen)"
  by (induction n par w seen rule: owner_chain.induct) auto

end
