(* ===== verification/Dynamic.thy ===== *)
theory Dynamic
  imports Vex
begin

text \<open>
  Access to a JSON value of unknown shape the way Python does it: \<open>x[k]\<close>, \<open>x.get(k)\<close>, iteration,
  \<open>x or y\<close>, \<open>dict(x)\<close>, and the fields of the pydantic models. An operation the value does not
  support is an exception, with Python's class; the parsers of scan reports are written with these.
\<close>

section \<open>Exceptions\<close>

fun py_type :: "json \<Rightarrow> str" where
  "py_type JNull = ''NoneType''"
| "py_type (JBool _) = ''bool''"
| "py_type (JInt _) = ''int''"
| "py_type (JFloat _) = ''float''"
| "py_type (JStr _) = ''str''"
| "py_type (JArr _) = ''list''"
| "py_type (JObj _) = ''dict''"

definition key_error :: "str \<Rightarrow> exn" where
  "key_error k = Exn ''KeyError'' (repr_str k)"

definition attribute_error :: "json \<Rightarrow> str \<Rightarrow> exn" where
  "attribute_error j attr = Exn ''AttributeError''
     (repr_str (py_type j) @ '' object has no attribute '' @ repr_str attr)"

definition subscript_error :: "json \<Rightarrow> exn" where
  "subscript_error j = Exn ''TypeError''
     (case j of
        JArr _ \<Rightarrow> ''list indices must be integers or slices, not str''
      | JStr _ \<Rightarrow> ''string indices must be integers, not '' @ repr_str ''str''
      | _ \<Rightarrow> repr_str (py_type j) @ '' object is not subscriptable'')"

definition iteration_error :: "json \<Rightarrow> exn" where
  "iteration_error j = Exn ''TypeError'' (repr_str (py_type j) @ '' object is not iterable'')"

text \<open>The classes a caller that guards against malformed evidence catches.\<close>

definition EVIDENCE_ERRORS :: "str list" where
  "EVIDENCE_ERRORS = [''KeyError'', ''TypeError'', ''AttributeError'', ''ValueError'', ''ValidationError'',
     ''JSONDecodeError'', ''FileNotFoundError'', ''EvidenceError'', ''TrivyParseError'', ''GrypeParseError'',
     ''SbomParseError'', ''VexEvidenceError'']"

section \<open>Access\<close>

text \<open>\<open>x[k]\<close>, \<open>x.get(k)\<close> and \<open>x.get(k, d)\<close> for a string key.\<close>

definition item_of :: "json \<Rightarrow> str \<Rightarrow> exn + json" where
  "item_of j k =
     (case j of
        JObj fs \<Rightarrow> (case map_of fs k of Some v \<Rightarrow> Inr v | None \<Rightarrow> Inl (key_error k))
      | _ \<Rightarrow> Inl (subscript_error j))"

definition get_of :: "json \<Rightarrow> str \<Rightarrow> exn + json" where
  "get_of j k =
     (case j of
        JObj fs \<Rightarrow> Inr (case map_of fs k of Some v \<Rightarrow> v | None \<Rightarrow> JNull)
      | _ \<Rightarrow> Inl (attribute_error j ''get''))"

definition get_or :: "json \<Rightarrow> str \<Rightarrow> json \<Rightarrow> exn + json" where
  "get_or j k d =
     (case j of
        JObj fs \<Rightarrow> Inr (case map_of fs k of Some v \<Rightarrow> v | None \<Rightarrow> d)
      | _ \<Rightarrow> Inl (attribute_error j ''get''))"

definition or_else :: "json \<Rightarrow> json \<Rightarrow> json" where
  "or_else j d = (if jtruthy j then j else d)"

definition iter_of :: "json \<Rightarrow> exn + json list" where
  "iter_of j =
     (case j of
        JArr xs \<Rightarrow> Inr xs
      | JObj fs \<Rightarrow> Inr (map JStr (fromkeys (map fst fs)))
      | JStr s \<Rightarrow> Inr (map (\<lambda>c. JStr [c]) s)
      | _ \<Rightarrow> Inl (iteration_error j))"

text \<open>\<open>for x in v or []\<close>.\<close>

definition iter_or_empty :: "json \<Rightarrow> exn + json list" where
  "iter_or_empty j = (if jtruthy j then iter_of j else Inr [])"

text \<open>
  \<open>dict(x)\<close>: of an object, or of a sequence of pairs. A key that is not a string fails in every use
  the parsers make of the result; here it fails at once.
\<close>

definition pair_length_error :: exn where
  "pair_length_error = Exn ''ValueError'' ''dictionary update sequence element has the wrong length''"

definition pair_of :: "json \<Rightarrow> exn + str \<times> json" where
  "pair_of j =
     (case j of
        JArr [JStr k, v] \<Rightarrow> Inr (k, v)
      | JArr [_, _] \<Rightarrow> Inl (Exn ''TypeError'' ''keys must be strings'')
      | JStr [a, b] \<Rightarrow> Inr ([a], JStr [b])
      | JObj [(a, _), (b, _)] \<Rightarrow> Inr (a, JStr b)
      | JArr _ \<Rightarrow> Inl pair_length_error
      | JStr _ \<Rightarrow> Inl pair_length_error
      | JObj _ \<Rightarrow> Inl pair_length_error
      | _ \<Rightarrow> Inl (Exn ''TypeError'' ''cannot convert dictionary update sequence element to a sequence''))"

definition dict_of_pairs :: "(str \<times> json) list \<Rightarrow> (str, json) dict" where
  "dict_of_pairs ps = foldl (\<lambda>d (k, v). dict_set k v d) [] ps"

definition dict_of :: "json \<Rightarrow> exn + (str, json) dict" where
  "dict_of j =
     (case j of
        JObj fs \<Rightarrow> Inr fs
      | _ \<Rightarrow> ebind (iter_of j) (\<lambda>items. ebind (emap (\<lambda>_. pair_of) 0 items) (\<lambda>ps. Inr (dict_of_pairs ps))))"

text \<open>\<open>x == n\<close> for an int literal: an equal float or bool is equal too.\<close>

fun jeq_int :: "json \<Rightarrow> int \<Rightarrow> bool" where
  "jeq_int (JInt i) n = (i = n)"
| "jeq_int (JFloat q) n = (q = of_int n)"
| "jeq_int (JBool b) n = (n = (if b then 1 else 0))"
| "jeq_int _ n = False"

section \<open>Fields of pydantic models\<close>

definition validation_error :: "str \<Rightarrow> exn" where
  "validation_error field = Exn ''ValidationError'' field"

definition str_field :: "str \<Rightarrow> json \<Rightarrow> exn + str" where
  "str_field field j = (case j of JStr s \<Rightarrow> Inr s | _ \<Rightarrow> Inl (validation_error field))"

definition opt_str_field :: "str \<Rightarrow> json \<Rightarrow> exn + str option" where
  "opt_str_field field j =
     (case j of JNull \<Rightarrow> Inr None | JStr s \<Rightarrow> Inr (Some s) | _ \<Rightarrow> Inl (validation_error field))"

text \<open>A method of \<open>str\<close> called on a value: \<open>x.split\<close>, \<open>x.upper\<close>, \<open>x.startswith\<close>.\<close>

definition as_str :: "str \<Rightarrow> json \<Rightarrow> exn + str" where
  "as_str method j = (case j of JStr s \<Rightarrow> Inr s | _ \<Rightarrow> Inl (attribute_error j method))"

lemma if_Inl_iff: "(if b then Inl e else m) = Inr x \<longleftrightarrow> \<not> b \<and> m = Inr x"
  by simp

section \<open>What can go wrong\<close>

text \<open>The exceptions of a computation are among the classes the guards catch.\<close>

definition evidence_safe :: "exn + 'a \<Rightarrow> bool" where
  "evidence_safe r = (case r of Inl e \<Rightarrow> exn_type e \<in> set EVIDENCE_ERRORS | Inr _ \<Rightarrow> True)"

named_theorems safe_intros \<open>computations whose exceptions are caught\<close>

lemma safe_Inr [safe_intros]: "evidence_safe (Inr a)"
  by (simp add: evidence_safe_def)

lemma safe_Inl: "exn_type e \<in> set EVIDENCE_ERRORS \<Longrightarrow> evidence_safe (Inl e)"
  by (simp add: evidence_safe_def)

lemma safe_ebind [safe_intros]:
  "evidence_safe m \<Longrightarrow> (\<And>a. evidence_safe (f a)) \<Longrightarrow> evidence_safe (ebind m f)"
  by (cases m) (auto simp: evidence_safe_def)

lemma safe_emap [safe_intros]: "(\<And>i x. evidence_safe (f i x)) \<Longrightarrow> evidence_safe (emap f i xs)"
  by (induction xs arbitrary: i) (auto intro!: safe_intros)

lemma safe_if [safe_intros]: "evidence_safe a \<Longrightarrow> evidence_safe b \<Longrightarrow> evidence_safe (if c then a else b)"
  by simp

lemma safe_option [safe_intros]:
  "evidence_safe m \<Longrightarrow> (\<And>a. evidence_safe (f a)) \<Longrightarrow> evidence_safe (case x of None \<Rightarrow> m | Some a \<Rightarrow> f a)"
  by (cases x) auto

lemma safe_prod [safe_intros]: "(\<And>a b. evidence_safe (f a b)) \<Longrightarrow> evidence_safe (case p of (a, b) \<Rightarrow> f a b)"
  by (cases p) auto

lemma safe_Let [safe_intros]: "evidence_safe (f a) \<Longrightarrow> evidence_safe (Let a f)"
  by simp

lemmas error_defs = pair_length_error_def key_error_def attribute_error_def subscript_error_def iteration_error_def validation_error_def
  EVIDENCE_ERRORS_def

lemma safe_access [safe_intros]:
  "evidence_safe (item_of j k)" "evidence_safe (get_of j k)" "evidence_safe (get_or j k d)"
  "evidence_safe (iter_of j)" "evidence_safe (iter_or_empty j)" "evidence_safe (pair_of j)"
  "evidence_safe (str_field f j)" "evidence_safe (opt_str_field f j)" "evidence_safe (as_str f j)"
  by (auto simp: evidence_safe_def item_of_def get_of_def get_or_def iter_of_def iter_or_empty_def pair_of_def
      str_field_def opt_str_field_def as_str_def error_defs split: json.splits option.splits list.splits)

lemma safe_dict_of [safe_intros]: "evidence_safe (dict_of j)"
  unfolding dict_of_def by (cases j) (auto intro!: safe_intros)

end
