(* ===== verification/Scanners.thy ===== *)
theory Scanners
  imports Dynamic Records
begin

text \<open>
  \<^verbatim>\<open>ingest/trivy.py\<close>, \<^verbatim>\<open>ingest/grype.py\<close> and \<^verbatim>\<open>ingest/sbom.py\<close>: the parsers of the scanners' JSON
  reports, on JSON values of any shape. Each loop body is a definition; what a malformed report
  raises is a value.
\<close>

section \<open>Shared helpers\<close>

text \<open>\<open>ecosystem_from_purl(purl)\<close> and \<open>Severity.parse(raw)\<close> on a value of any type.\<close>

definition purl_ecosystem :: "json \<Rightarrow> exn + Ecosystem" where
  "purl_ecosystem purl =
     (if \<not> jtruthy purl then Inr EC_unknown
      else ebind (as_str ''startswith'' purl) (\<lambda>p. Inr (ecosystem_from_purl (Some p))))"

definition parse_severity :: "json \<Rightarrow> exn + Severity" where
  "parse_severity raw =
     (if raw = JNull then Inr SEV_unknown else ebind (as_str ''upper'' raw) (\<lambda>s. Inr (severity_parse (Some s))))"

definition strs_of :: "json list \<Rightarrow> str list" where
  "strs_of js = map py_str js"

section \<open>Trivy\<close>

definition TYPE_TO_ECOSYSTEM :: "(str \<times> Ecosystem) list" where
  "TYPE_TO_ECOSYSTEM =
     [(''pip'', EC_pypi), (''python-pkg'', EC_pypi), (''pipenv'', EC_pypi), (''poetry'', EC_pypi), (''uv'', EC_pypi),
      (''debian'', EC_deb), (''ubuntu'', EC_deb), (''npm'', EC_npm), (''node-pkg'', EC_npm), (''yarn'', EC_npm),
      (''pnpm'', EC_npm), (''gomod'', EC_golang), (''gobinary'', EC_golang)]"

definition CONFIG_TYPE_TO_LAYER :: "(str \<times> Layer) list" where
  "CONFIG_TYPE_TO_LAYER =
     [(''dockerfile'', LY_dockerfile), (''helm'', LY_helm), (''kubernetes'', LY_helm), (''dockercompose'', LY_compose),
      (''docker-compose'', LY_compose), (''yaml'', LY_compose)]"

definition require_schema :: "json \<Rightarrow> exn + unit" where
  "require_schema report =
     ebind (get_of report ''SchemaVersion'') (\<lambda>v.
       if \<not> jeq_int v 2 then Inl (Exn ''TrivyParseError'' (''unsupported Trivy SchemaVersion '' @ py_repr v)) else Inr ())"

definition split_versions :: "json \<Rightarrow> exn + str list" where
  "split_versions raw =
     (if \<not> jtruthy raw then Inr []
      else ebind (as_str ''split'' raw) (\<lambda>s. Inr (filter (\<lambda>p. p \<noteq> []) (map strip (split_on CHR '','' s)))))"

definition trivy_ecosystem :: "str \<Rightarrow> bool \<Rightarrow> json \<Rightarrow> exn + Ecosystem" where
  "trivy_ecosystem rtype os_pkgs purl =
     ebind (case map_of TYPE_TO_ECOSYSTEM rtype of Some e \<Rightarrow> Inr e | None \<Rightarrow> purl_ecosystem purl) (\<lambda>e.
       Inr (if e = EC_unknown \<and> os_pkgs
            then (if rtype \<in> set [''debian'', ''ubuntu''] then EC_deb else EC_unknown) else e))"

definition trivy_vuln :: "str \<Rightarrow> bool \<Rightarrow> str \<Rightarrow> json \<Rightarrow> exn + RawVuln" where
  "trivy_vuln rtype os_pkgs target v =
     ebind (get_of v ''PkgIdentifier'') (\<lambda>ident.
     ebind (get_of (or_else ident (JObj [])) ''PURL'') (\<lambda>purl.
     ebind (trivy_ecosystem rtype os_pkgs purl) (\<lambda>ecosystem.
     ebind (get_of v ''FixedVersion'') (\<lambda>fixed_raw.
     ebind (split_versions fixed_raw) (\<lambda>fixed.
     ebind (item_of v ''VulnerabilityID'') (\<lambda>vid.
     ebind (get_of v ''VendorIDs'') (\<lambda>vendors.
     ebind (iter_or_empty vendors) (\<lambda>aliases.
     ebind (item_of v ''PkgName'') (\<lambda>name.
     ebind (get_or v ''InstalledVersion'' (JStr [])) (\<lambda>installed.
     ebind (get_of v ''Severity'') (\<lambda>sev_raw.
     ebind (parse_severity sev_raw) (\<lambda>sev.
     ebind (get_of v ''Status'') (\<lambda>status.
     ebind (get_of v ''Title'') (\<lambda>title_raw.
     ebind (opt_str_field ''purl'' purl) (\<lambda>purl'.
     ebind (opt_str_field ''title'' title_raw) (\<lambda>title.
     Inr \<lparr>rw_scanner = SC_trivy, rw_primary_id = py_str vid, rw_aliases = strs_of aliases,
          rw_pkg_name = py_str name, rw_pkg_version = py_str installed, rw_purl = purl',
          rw_ecosystem = ecosystem, rw_layer = layer_for ecosystem, rw_severity = sev,
          rw_fixed_versions = fixed,
          rw_fix_state = py_str (or_else status (JStr (if fixed \<noteq> [] then ''fixed'' else ''unknown''))),
          rw_title = title, rw_location = Some target, rw_record = v\<rparr>))))))))))))))))"

definition trivy_result :: "json \<Rightarrow> exn + RawVuln list" where
  "trivy_result r =
     ebind (get_of r ''Class'') (\<lambda>cls.
       if cls \<notin> set [JStr ''lang-pkgs'', JStr ''os-pkgs''] then Inr []
       else
         ebind (get_or r ''Type'' (JStr [])) (\<lambda>ty.
         ebind (get_or r ''Target'' (JStr [])) (\<lambda>target.
         ebind (get_of r ''Vulnerabilities'') (\<lambda>vs_raw.
         ebind (iter_or_empty vs_raw) (\<lambda>vs.
         emap (\<lambda>_. trivy_vuln (py_str ty) (cls = JStr ''os-pkgs'') (py_str target)) 0 vs)))))"

definition parse_trivy_vulns :: "json \<Rightarrow> exn + RawVuln list" where
  "parse_trivy_vulns report =
     ebind (require_schema report) (\<lambda>_.
     ebind (get_of report ''Results'') (\<lambda>rs_raw.
     ebind (iter_or_empty rs_raw) (\<lambda>rs.
     ebind (emap (\<lambda>_. trivy_result) 0 rs) (\<lambda>vss. Inr (concat vss)))))"

definition layer_from_target :: "str \<Rightarrow> Layer" where
  "layer_from_target target =
     (let t = lower target in
      if contains_str t ''dockerfile'' then LY_dockerfile
      else if contains_str t ''helm'' \<or> ends_with t ''.tpl'' \<or> contains_str t ''/templates/'' then LY_helm
      else LY_compose)"

definition config_layer :: "str \<Rightarrow> str \<Rightarrow> Layer" where
  "config_layer rtype target =
     (let layer = (case map_of CONFIG_TYPE_TO_LAYER rtype of Some l \<Rightarrow> l | None \<Rightarrow> layer_from_target target)
      in if layer = LY_compose \<and> contains_str (lower target) ''helm'' then LY_helm else layer)"

text \<open>\<open>_resource\<close>: the start line tells the containers of one file apart.\<close>

definition resource_of :: "str \<Rightarrow> json \<Rightarrow> exn + str" where
  "resource_of target m =
     ebind (get_of m ''CauseMetadata'') (\<lambda>cause.
     ebind (get_of (or_else cause (JObj [])) ''StartLine'') (\<lambda>start.
     Inr (if jtruthy start then target @ '':'' @ py_str start else target)))"

definition misconfig :: "Layer \<Rightarrow> str \<Rightarrow> json \<Rightarrow> exn + RawConfigFinding list" where
  "misconfig layer resource m =
     ebind (get_of m ''Status'') (\<lambda>status.
       if status \<noteq> JStr ''FAIL'' then Inr []
       else
         ebind (get_of m ''AVDID'') (\<lambda>avd.
         ebind (if jtruthy avd then Inr avd else item_of m ''ID'') (\<lambda>rule.
         ebind (resource_of resource m) (\<lambda>res.
         ebind (get_of m ''Message'') (\<lambda>message_raw.
         ebind (get_of m ''Severity'') (\<lambda>sev_raw.
         ebind (parse_severity sev_raw) (\<lambda>sev.
         ebind (get_of m ''Title'') (\<lambda>title_raw.
         ebind (get_of m ''Resolution'') (\<lambda>resolution.
         ebind (opt_str_field ''title'' title_raw) (\<lambda>title.
         ebind (opt_str_field ''message'' message_raw) (\<lambda>message.
         Inr [\<lparr>rf_scanner = SC_trivy, rf_rule_id = py_str rule, rf_resource = res, rf_layer = layer,
              rf_severity = sev, rf_title = title, rf_message = message,
              rf_fix_available = jtruthy resolution, rf_record = m\<rparr>])))))))))))"

definition config_result :: "str option \<Rightarrow> json \<Rightarrow> exn + RawConfigFinding list" where
  "config_result image_ref r =
     ebind (get_of r ''Class'') (\<lambda>cls.
       if cls \<noteq> JStr ''config'' then Inr []
       else
         ebind (get_or r ''Type'' (JStr [])) (\<lambda>ty.
         ebind (get_or r ''Target'' (JStr [])) (\<lambda>target_raw.
         let target = py_str target_raw;
             layer = config_layer (lower (py_str ty)) target;
             resource = (case image_ref of Some i \<Rightarrow> if i \<noteq> [] \<and> target = i then i else target | None \<Rightarrow> target)
         in
         ebind (get_of r ''Misconfigurations'') (\<lambda>ms_raw.
         ebind (iter_or_empty ms_raw) (\<lambda>ms.
         ebind (emap (\<lambda>_. misconfig layer resource) 0 ms) (\<lambda>fss. Inr (concat fss)))))))"

definition parse_trivy_misconfigs :: "json \<Rightarrow> str option \<Rightarrow> exn + RawConfigFinding list" where
  "parse_trivy_misconfigs report image_ref =
     ebind (require_schema report) (\<lambda>_.
     ebind (get_of report ''Results'') (\<lambda>rs_raw.
     ebind (iter_or_empty rs_raw) (\<lambda>rs.
     ebind (emap (\<lambda>_. config_result image_ref) 0 rs) (\<lambda>fss. Inr (concat fss)))))"

section \<open>Grype\<close>

definition ARTIFACT_TYPE_TO_ECOSYSTEM :: "(str \<times> Ecosystem) list" where
  "ARTIFACT_TYPE_TO_ECOSYSTEM =
     [(''python'', EC_pypi), (''deb'', EC_deb), (''npm'', EC_npm), (''go-module'', EC_golang), (''binary'', EC_binary)]"

definition has_key :: "str \<Rightarrow> json \<Rightarrow> bool" where
  "has_key k j = (case j of JObj fs \<Rightarrow> map_of fs k \<noteq> None | _ \<Rightarrow> False)"

text \<open>\<open>";".join(p for p in locations if p) or None\<close>.\<close>

definition join_locations :: "json list \<Rightarrow> exn + str option" where
  "join_locations locs =
     ebind (emap (\<lambda>_ p. case p of JStr s \<Rightarrow> Inr s | _ \<Rightarrow> Inl (Exn ''TypeError'' ''sequence item: expected str instance''))
             0 (filter jtruthy locs))
       (\<lambda>ps. Inr (let s = join '';'' ps in if s = [] then None else Some s))"

definition grype_match :: "json \<Rightarrow> exn + RawVuln" where
  "grype_match m =
     ebind (item_of m ''vulnerability'') (\<lambda>vuln.
     ebind (item_of m ''artifact'') (\<lambda>art.
     ebind (get_of art ''purl'') (\<lambda>purl.
     ebind (get_or art ''type'' (JStr [])) (\<lambda>ty.
     ebind (case map_of ARTIFACT_TYPE_TO_ECOSYSTEM (py_str ty) of Some e \<Rightarrow> Inr e | None \<Rightarrow> purl_ecosystem purl) (\<lambda>ecosystem.
     ebind (get_of vuln ''fix'') (\<lambda>fix_raw.
     let fx = or_else fix_raw (JObj []) in
     ebind (get_of fx ''versions'') (\<lambda>versions_raw.
     ebind (iter_or_empty versions_raw) (\<lambda>versions.
     let fixed = strs_of (filter jtruthy versions) in
     ebind (get_of m ''relatedVulnerabilities'') (\<lambda>related_raw.
     ebind (iter_or_empty related_raw) (\<lambda>related.
     ebind (emap (\<lambda>_ r. ebind (get_of r ''id'') (\<lambda>i. Inr (if jtruthy i then [py_str i] else []))) 0 related) (\<lambda>aliases.
     ebind (get_of art ''locations'') (\<lambda>locs_raw.
     ebind (iter_or_empty locs_raw) (\<lambda>locs.
     ebind (emap (\<lambda>_ l. get_or l ''path'' (JStr [])) 0 locs) (\<lambda>locations.
     ebind (item_of vuln ''id'') (\<lambda>vid.
     ebind (item_of art ''name'') (\<lambda>name.
     ebind (get_or art ''version'' (JStr [])) (\<lambda>version.
     ebind (get_of vuln ''severity'') (\<lambda>sev_raw.
     ebind (parse_severity sev_raw) (\<lambda>sev.
     ebind (get_of fx ''state'') (\<lambda>state.
     ebind (join_locations locations) (\<lambda>location.
     ebind (opt_str_field ''purl'' purl) (\<lambda>purl'.
     Inr \<lparr>rw_scanner = SC_grype, rw_primary_id = py_str vid, rw_aliases = concat aliases,
          rw_pkg_name = py_str name, rw_pkg_version = py_str version, rw_purl = purl',
          rw_ecosystem = ecosystem, rw_layer = layer_for ecosystem, rw_severity = sev,
          rw_fixed_versions = fixed,
          rw_fix_state = py_str (or_else state (JStr (if fixed \<noteq> [] then ''fixed'' else ''unknown''))),
          rw_title = None, rw_location = location, rw_record = m\<rparr>))))))))))))))))))))))"

definition parse_grype_vulns :: "json \<Rightarrow> exn + RawVuln list" where
  "parse_grype_vulns report =
     (if \<not> has_key ''matches'' report \<or> \<not> has_key ''descriptor'' report
      then Inl (Exn ''GrypeParseError'' ''not a grype JSON report (missing matches/descriptor)'')
      else
        ebind (item_of report ''matches'') (\<lambda>ms_raw.
        ebind (iter_of ms_raw) (\<lambda>ms. emap (\<lambda>_. grype_match) 0 ms)))"

definition grype_db_built_at :: "json \<Rightarrow> exn + str option" where
  "grype_db_built_at report =
     ebind (get_of report ''descriptor'') (\<lambda>descriptor.
     ebind (get_of (or_else descriptor (JObj [])) ''db'') (\<lambda>db_raw.
     let db = or_else db_raw (JObj []) in
     ebind (get_of db ''status'') (\<lambda>status_raw.
     ebind (get_of (or_else status_raw db) ''built'') (\<lambda>built.
     Inr (if jtruthy built then Some (py_str built) else None)))))"

section \<open>SBOM\<close>

record SbomComponent =
  sb_name :: str
  sb_version :: str
  sb_purl :: "str option"
  sb_component_type :: str
  sb_ecosystem :: Ecosystem

definition sbom_component :: "json \<Rightarrow> exn + SbomComponent" where
  "sbom_component c =
     ebind (get_of c ''purl'') (\<lambda>purl.
     ebind (get_or c ''name'' (JStr [])) (\<lambda>name.
     ebind (get_or c ''version'' (JStr [])) (\<lambda>version.
     ebind (get_or c ''type'' (JStr [])) (\<lambda>ty.
     ebind (purl_ecosystem purl) (\<lambda>ecosystem.
     ebind (opt_str_field ''purl'' purl) (\<lambda>purl'.
     Inr \<lparr>sb_name = py_str name, sb_version = py_str version, sb_purl = purl', sb_component_type = py_str ty,
          sb_ecosystem = ecosystem\<rparr>))))))"

definition parse_cyclonedx :: "json \<Rightarrow> exn + SbomComponent list" where
  "parse_cyclonedx doc =
     ebind (get_of doc ''bomFormat'') (\<lambda>fmt.
       if fmt \<noteq> JStr ''CycloneDX'' then Inl (Exn ''SbomParseError'' (''unsupported bomFormat '' @ py_repr fmt))
       else
         ebind (get_of doc ''components'') (\<lambda>cs_raw.
         ebind (iter_or_empty cs_raw) (\<lambda>cs. emap (\<lambda>_. sbom_component) 0 cs)))"

fun syft_version :: "json list \<Rightarrow> exn + str option" where
  "syft_version [] = Inr None"
| "syft_version (t # ts) =
     ebind (get_of t ''name'') (\<lambda>name.
       if name = JStr ''syft'' then ebind (get_of t ''version'') (\<lambda>v. Inr (Some (py_str v)))
       else syft_version ts)"

definition sbom_tool_version :: "json \<Rightarrow> exn + str option" where
  "sbom_tool_version doc =
     ebind (get_of doc ''metadata'') (\<lambda>meta.
     ebind (get_of (or_else meta (JObj [])) ''tools'') (\<lambda>tools_raw.
     let tools = or_else tools_raw (JObj []) in
     ebind (case tools of JObj _ \<Rightarrow> get_of tools ''components'' | _ \<Rightarrow> Inr tools) (\<lambda>components.
     ebind (iter_or_empty components) syft_version)))"

section \<open>Every failure is an evidence error\<close>

lemma safe_scanner_errors [safe_intros]:
  "evidence_safe (Inl (Exn ''TrivyParseError'' m))" "evidence_safe (Inl (Exn ''GrypeParseError'' m))"
  "evidence_safe (Inl (Exn ''SbomParseError'' m))" "evidence_safe (Inl (Exn ''TypeError'' m))"
  by (simp_all add: evidence_safe_def EVIDENCE_ERRORS_def)

lemma safe_case_str [safe_intros]:
  "(\<And>s. evidence_safe (f s)) \<Longrightarrow> evidence_safe (g j) \<Longrightarrow> evidence_safe (case j of JStr s \<Rightarrow> f s | _ \<Rightarrow> g j)"
  by (cases j) auto

lemma safe_case_obj [safe_intros]:
  "(\<And>s. evidence_safe (f s)) \<Longrightarrow> evidence_safe (g j) \<Longrightarrow> evidence_safe (case j of JObj s \<Rightarrow> f s | _ \<Rightarrow> g j)"
  by (cases j) auto

lemma safe_purl_ecosystem [safe_intros]: "evidence_safe (purl_ecosystem p)"
  unfolding purl_ecosystem_def by (intro safe_intros)

lemma safe_parse_severity [safe_intros]: "evidence_safe (parse_severity p)"
  unfolding parse_severity_def by (intro safe_intros)

lemma safe_trivy_vuln [safe_intros]: "evidence_safe (trivy_vuln a b c v)"
  unfolding trivy_vuln_def trivy_ecosystem_def split_versions_def by (intro safe_intros)

lemma safe_parse_trivy_vulns [safe_intros]: "evidence_safe (parse_trivy_vulns r)"
  unfolding parse_trivy_vulns_def trivy_result_def require_schema_def by (intro safe_intros)

lemma safe_misconfig [safe_intros]: "evidence_safe (misconfig l s m)"
  unfolding misconfig_def resource_of_def by (intro safe_intros)

lemma safe_parse_trivy_misconfigs [safe_intros]: "evidence_safe (parse_trivy_misconfigs r i)"
  unfolding parse_trivy_misconfigs_def config_result_def require_schema_def by (intro safe_intros)

lemma safe_join_locations [safe_intros]: "evidence_safe (join_locations ls)"
  unfolding join_locations_def by (intro safe_intros)

lemma safe_parse_grype_vulns [safe_intros]: "evidence_safe (parse_grype_vulns r)"
  unfolding parse_grype_vulns_def grype_match_def by (intro safe_intros)

lemma safe_grype_db_built_at [safe_intros]: "evidence_safe (grype_db_built_at r)"
  unfolding grype_db_built_at_def by (intro safe_intros)

lemma safe_parse_cyclonedx [safe_intros]: "evidence_safe (parse_cyclonedx d)"
  unfolding parse_cyclonedx_def sbom_component_def by (intro safe_intros)

lemma safe_syft_version [safe_intros]: "evidence_safe (syft_version ts)"
  by (induction ts) (auto intro!: safe_intros)

lemma safe_sbom_tool_version [safe_intros]: "evidence_safe (sbom_tool_version d)"
  unfolding sbom_tool_version_def by (intro safe_intros)

section \<open>No reported vulnerability is dropped\<close>

text \<open>The elements a report lists, read off without any check: a missing or null list is empty.\<close>

definition elements :: "json \<Rightarrow> json list" where
  "elements j = (if jtruthy j then (case iter_of j of Inr xs \<Rightarrow> xs | Inl _ \<Rightarrow> []) else [])"

definition member_of :: "str \<Rightarrow> json \<Rightarrow> json" where
  "member_of k j = (case jget j k of Some v \<Rightarrow> v | None \<Rightarrow> JNull)"

definition package_results :: "json \<Rightarrow> json list" where
  "package_results report =
     filter (\<lambda>r. member_of ''Class'' r \<in> {JStr ''lang-pkgs'', JStr ''os-pkgs''}) (elements (member_of ''Results'' report))"

definition trivy_listed :: "json \<Rightarrow> json list" where
  "trivy_listed report = concat (map (\<lambda>r. elements (member_of ''Vulnerabilities'' r)) (package_results report))"

definition grype_listed :: "json \<Rightarrow> json list" where
  "grype_listed report = elements (member_of ''matches'' report)"

lemma get_of_Inr: "get_of j k = Inr v \<Longrightarrow> v = member_of k j"
  by (auto simp: get_of_def member_of_def split: json.splits option.splits)

lemma item_of_Inr: "item_of j k = Inr v \<Longrightarrow> v = member_of k j"
  by (auto simp: item_of_def member_of_def split: json.splits option.splits)

lemma iter_or_empty_Inr: "iter_or_empty j = Inr xs \<Longrightarrow> xs = elements j"
  by (auto simp: iter_or_empty_def elements_def split: if_splits)

lemma iter_of_Inr: "iter_of j = Inr xs \<Longrightarrow> xs = elements j"
  by (auto simp: iter_of_def elements_def fromkeys_def split: json.splits)

lemma emap_map:
  assumes "emap (\<lambda>_. f) i xs = Inr ys" and "\<And>x y. f x = Inr y \<Longrightarrow> g y = h x"
  shows "map g ys = map h xs"
  using assms(1) by (induction xs arbitrary: i ys) (auto simp: ebind_Inr_iff assms(2))

lemma trivy_vuln_record: "trivy_vuln a b c v = Inr w \<Longrightarrow> rw_record w = v \<and> rw_scanner w = SC_trivy"
  by (auto simp: trivy_vuln_def ebind_Inr_iff)

lemma grype_match_record: "grype_match m = Inr w \<Longrightarrow> rw_record w = m \<and> rw_scanner w = SC_grype"
  by (auto simp: grype_match_def ebind_Inr_iff Let_def)

lemma trivy_result_listed:
  assumes "trivy_result r = Inr vs"
  shows "map rw_record vs =
    (if member_of ''Class'' r \<in> {JStr ''lang-pkgs'', JStr ''os-pkgs''} then elements (member_of ''Vulnerabilities'' r) else [])"
proof -
  obtain cls where cls: "get_of r ''Class'' = Inr cls" using assms by (auto simp: trivy_result_def ebind_Inr_iff)
  show ?thesis
  proof (cases "cls \<in> {JStr ''lang-pkgs'', JStr ''os-pkgs''}")
    case False
    with assms cls get_of_Inr [OF cls] show ?thesis by (auto simp: trivy_result_def)
  next
    case True
    with assms cls obtain ty tg raw xs where x: "get_of r ''Vulnerabilities'' = Inr raw" "iter_or_empty raw = Inr xs"
      "emap (\<lambda>_. trivy_vuln ty (cls = JStr ''os-pkgs'') tg) 0 xs = Inr vs"
      by (auto simp: trivy_result_def ebind_Inr_iff)
    have "map rw_record vs = map (\<lambda>v. v) xs" using x(3) trivy_vuln_record by (rule emap_map [OF _ conjunct1])
    with True get_of_Inr [OF cls] get_of_Inr [OF x(1)] iter_or_empty_Inr [OF x(2)] show ?thesis by simp
  qed
qed

lemma concat_map_filter: "concat (map (\<lambda>x. if P x then f x else []) xs) = concat (map f (filter P xs))"
  by (induction xs) auto

end
