(* ===== verification/Contracts.thy ===== *)
theory Contracts
  imports Samples Gate Lineage Scanners
begin

text \<open>
  The contracts of single components: what a closing verdict means, what a report, a pull request,
  a diff, a check result or a launch must satisfy, how findings are merged, classified and grouped,
  and that the walks and searches of the code return what they look for. Each is one theorem over
  the component's definitions; the lemmas behind it are in the component's theory.
\<close>

section \<open>Closing\<close>

text \<open>C2. A finding is judged fixed by a scan run exactly when the run proves its absence: it is a
  complete run of the fork's remediation branch by a trigger that may close, no later run saw the
  finding, it contains the merge, every job succeeded, every detector that opened the finding scanned it
  with the pinned version and a database at least as fresh, and none of them saw it.\<close>

theorem fixed_iff_absence_proved:
  "decide_outcome f run (sightings_for f run ss ids) (validate_closing_run vg run jobs f m anc rp later) hr u wc =
     Inr CO_fixed \<longleftrightarrow> absence_proved vg f run jobs ss ids m anc rp later"
  unfolding decide_fixed_iff absence_proved_def rv_valid_iff run_reasons_Nil layer_reasons_Nil raw_present_iff
    detector_reasons_Nil closing_run_ok_def list_ex_iff
  by (auto split: option.splits)

text \<open>C27. A finding that is still seen is closed as an approved disposition only by an entitled
  run that carries an OpenVEX document whose approval names the work item's own issue and an approver,
  and whose structurally valid statement suppresses that very vulnerability. Configuration findings are
  never closed this way.\<close>

theorem disposition_needs_approved_vex:
  assumes "decide_outcome f run (sightings_for f run ss ids) (validate_closing_run vg run jobs f m anc rp later) hr u wc =
     Inr CO_approved_disposition"
  shows "closing_run_ok run \<and> later = None \<and> fd_layer f \<notin> set CONFIG_LAYERS \<and>
    (\<exists>url doc a sts s loc. u = Some url \<and> doc \<in> set (sr_vex_documents run) \<and> approval_of doc = Some a \<and>
       va_issue_url a = url \<and> re_full ISSUE_URL url \<and> strip (va_approved_by a) \<noteq> [] \<and>
       validate_openvex doc loc = Inr sts \<and> s \<in> set sts \<and> vs_vulnerability s = fd_vuln_id f \<and>
       vs_status s \<in> set SUPPRESSING_STATUSES)"
proof -
  have v: "run_reasons run f m anc later = []" and l: "fd_layer f \<notin> set CONFIG_LAYERS"
    and x: "vex_approved_for_issue run u (fd_vuln_id f) = Inr True"
    using assms by (auto simp: decide_outcome_def Let_def ebind_Inr_iff rv_valid_iff split: if_splits)
  obtain url where u: "u = Some url" "vex_approved_docs (sr_vex_documents run) url (fd_vuln_id f) = Inr True"
    using x by (auto simp: vex_approved_for_issue_def split: option.splits)
  obtain doc a sts s loc where d: "doc \<in> set (sr_vex_documents run)" "approval_of doc = Some a" "va_issue_url a = url"
    "validate_openvex doc loc = Inr sts" "s \<in> set sts" "vs_vulnerability s = fd_vuln_id f"
    using vex_approved_docs_True [OF u(2)] by blast
  show ?thesis
    using v l u d approval_of_SomeD [OF d(2)] validate_openvex_Inr(2) [OF d(4,5)]
    by (simp add: run_reasons_Nil closing_run_ok_def) blast
qed

definition sample_vex :: vex_doc where
  "sample_vex = [(''@context'', JStr ''https://openvex.dev/ns/v0.2.0''),
     (''x-approval'', JObj [(''issue_url'', JStr ''https://github.com/o/r/issues/7''), (''approved_by'', JStr ''h'')]),
     (''statements'', JArr [JObj [(''vulnerability'', JObj [(''name'', JStr ''CVE-1'')]), (''status'', JStr ''not_affected''),
        (''products'', JArr [JObj [(''@id'', JStr ''p'')]])]])]"

definition suppressed_run :: ScanRun where
  "suppressed_run = sample_run\<lparr>sr_lean_digest := Some ''d'', sr_vex_documents := [sample_vex]\<rparr>"

definition suppressed_finding :: Finding where
  "suppressed_finding = (sample_finding F_awaiting_rescan)\<lparr>fd_vuln_id := ''CVE-1'', fd_layer := LY_python\<rparr>"

definition suppressed_jobs :: "ScanJob list" where
  "suppressed_jobs = [sample_job\<lparr>sj_name := ''trivy-raw'', sj_tool_version := Some TRIVY_VERSION\<rparr>,
     sample_job\<lparr>sj_id := 2, sj_name := ''trivy-policy'', sj_mode := Some SM_policy, sj_tool_version := Some TRIVY_VERSION\<rparr>]"

definition suppressed_sightings :: "Sighting list" where
  "suppressed_sightings = [\<lparr>sg_id = 1, sg_finding_id = 3, sg_scan_run_id = 2, sg_scanner = SC_trivy, sg_mode = SM_raw, sg_present = True, sg_severity = None, sg_fixed_versions = [], sg_record = None\<rparr>,
     \<lparr>sg_id = 2, sg_finding_id = 3, sg_scan_run_id = 2, sg_scanner = SC_trivy, sg_mode = SM_policy, sg_present = False, sg_severity = None, sg_fixed_versions = [], sg_record = None\<rparr>]"

theorem disposition_needs_approved_vex_witness:
  "\<exists>doc. doc \<in> set (sr_vex_documents suppressed_run) \<and> (\<exists>a. approval_of doc = Some a \<and> va_issue_url a = ''https://github.com/o/r/issues/7'')"
proof -
  have "decide_outcome suppressed_finding suppressed_run (sightings_for suppressed_finding suppressed_run suppressed_sightings [])
      (validate_closing_run (\<lambda>_ _. Some True) suppressed_run suppressed_jobs suppressed_finding None (\<lambda>_ _. True) True None)
      False (Some ''https://github.com/o/r/issues/7'') False = Inr CO_approved_disposition"
    by code_simp
  from disposition_needs_approved_vex [OF this] show ?thesis by auto
qed
section \<open>Scanner reports\<close>

text \<open>C32. A Trivy report that parses yields one record per entry of the vulnerability lists of
  its package results, in order and unchanged: no reported vulnerability is dropped, merged or
  invented.\<close>

theorem trivy_reports_every_vulnerability:
  assumes "parse_trivy_vulns report = Inr vs"
  shows "map rw_record vs = trivy_listed report"
proof -
  from assms obtain raw rs vss where x: "get_of report ''Results'' = Inr raw" "iter_or_empty raw = Inr rs"
    "emap (\<lambda>_. trivy_result) 0 rs = Inr vss" "vs = concat vss"
    by (auto simp: parse_trivy_vulns_def ebind_Inr_iff)
  have "map (map rw_record) vss = map (\<lambda>r. if member_of ''Class'' r \<in> {JStr ''lang-pkgs'', JStr ''os-pkgs''}
      then elements (member_of ''Vulnerabilities'' r) else []) rs"
    using x(3) trivy_result_listed by (rule emap_map)
  with get_of_Inr [OF x(1)] iter_or_empty_Inr [OF x(2)] x(4) show ?thesis
    by (simp add: map_concat concat_map_filter trivy_listed_def package_results_def)
qed

theorem trivy_reports_every_vulnerability_witness:
  "map_option (map rw_record) (case parse_trivy_vulns sample_trivy_report of Inr vs \<Rightarrow> Some vs | Inl e \<Rightarrow> None) =
     Some (trivy_listed sample_trivy_report) \<and> length (trivy_listed sample_trivy_report) = 1"
proof
  have "isl (parse_trivy_vulns sample_trivy_report) = False" by code_simp
  then obtain vs where vs: "parse_trivy_vulns sample_trivy_report = Inr vs" by (cases "parse_trivy_vulns sample_trivy_report") auto
  with trivy_reports_every_vulnerability [OF vs]
  show "map_option (map rw_record) (case parse_trivy_vulns sample_trivy_report of Inr vs \<Rightarrow> Some vs | Inl e \<Rightarrow> None) =
     Some (trivy_listed sample_trivy_report)" by simp
  show "length (trivy_listed sample_trivy_report) = 1" by code_simp
qed

section \<open>Sessions and pull requests\<close>

text \<open>A session is handed to verification exactly when it neither stopped for budget nor failed,
  stayed within its cap, made a final report that satisfies the schema and claims an opened pull
  request, and that pull request passed the repository and the diff checks.\<close>

theorem ready_for_verification_iff:
  "as_decision (assess s f q) = D_ready_for_verification \<longleftrightarrow>
     \<not> is_budget_stop s \<and> \<not> is_error s \<and> ss_acus_consumed s \<le> sf_acu_cap f \<and> is_final_report s \<and>
     sf_schema_valid f \<and> ss_outcome s = Some O_pr_opened \<and> ss_pull_requests s \<noteq> [] \<and> sf_pr_verified f \<and>
     sf_diff_policy_ok f"
  by (rule assess_ready_iff)

text \<open>C31. The controller answers a session only while it waits for the user within its budget,
  and only with the canned reply of a whitelisted pattern that occurs in the question.\<close>

theorem replies_come_from_whitelist:
  assumes "as_reply (assess s f question) = Some r"
  shows "is_waiting_for_user s \<and> \<not> is_final_report s \<and> ss_acus_consumed s \<le> sf_acu_cap f \<and>
    (\<exists>pattern q. question = Some q \<and> (pattern, r) \<in> set QUESTION_WHITELIST \<and> re_search pattern q)"
proof -
  have d: "as_decision (assess s f question) = D_answer_question" using assms assess_reply [of s f question] by simp
  have "whitelisted_reply question = Some r" by (rule assess_reply_whitelisted [OF assms])
  then show ?thesis
    using d first_reply_mem unfolding assess_answer_iff whitelisted_reply_def by (auto split: option.splits if_splits)
qed

theorem replies_come_from_whitelist_witness:
  "\<exists>pattern r. as_reply (assess waiting_snapshot fresh_facts (Some ''Which branch'')) = Some r \<and>
     (pattern, r) \<in> set QUESTION_WHITELIST \<and> re_search pattern ''Which branch''"
proof -
  have "rlang (fst (hd QUESTION_WHITELIST)) (''Which '' @ [] @ ''branch'' @ [])"
    unfolding QUESTION_WHITELIST_def list.sel fst_conv re_seqs.simps re_opt_def
    by (intro rlang.sq rlang.altl rlang.eps rlang_lit_ci [THEN iffD2]) code_simp+
  then have "re_search (fst (hd QUESTION_WHITELIST)) ''Which branch''"
    unfolding re_search_iff by (intro exI [of _ "[]"] exI [of _ "''Which branch''"]) simp
  then have w: "whitelisted_reply (Some ''Which branch'') \<noteq> None"
    by (simp add: whitelisted_reply_def QUESTION_WHITELIST_def)
  have "is_waiting_for_user waiting_snapshot" "\<not> is_final_report waiting_snapshot" "\<not> is_budget_stop waiting_snapshot"
    "\<not> is_error waiting_snapshot" "ss_acus_consumed waiting_snapshot \<le> sf_acu_cap fresh_facts"
    by code_simp+
  then have "as_decision (assess waiting_snapshot fresh_facts (Some ''Which branch'')) = D_answer_question"
    using w by (simp add: assess_answer_iff fresh_facts_def)
  then obtain r where r: "as_reply (assess waiting_snapshot fresh_facts (Some ''Which branch'')) = Some r"
    using assess_reply [of waiting_snapshot fresh_facts "Some ''Which branch''"] by blast
  then show ?thesis using replies_come_from_whitelist [OF r] by auto
qed

text \<open>A pull request is accepted exactly when it is on the fork, targets the remediation branch,
  comes from the fork itself and is the one the session claimed, up to trailing slashes.\<close>

theorem accepted_pull_request_iff:
  "verify_pull_request pr claimed = [] \<longleftrightarrow>
     pi_repo pr = FORK_REPO \<and> pi_base_ref pr = REMEDIATION_BRANCH \<and> pi_head_repo pr = FORK_REPO \<and>
     (case claimed of None \<Rightarrow> True | Some u \<Rightarrow> rstrip_char CHR ''/'' u = rstrip_char CHR ''/'' (pi_url pr))"
  by (rule verify_pull_request_clean)

text \<open>A diff is within policy exactly when the work item may have a diff at all, no file is an
  ignore file, a protected path or a VEX document outside the proposals, generated requirements come
  with their source or belong to a dependency upgrade, and a no-fix analysis adds only proposals and
  analysis files.\<close>

theorem clean_diff_iff:
  "diff_policy_violations files kind = [] \<longleftrightarrow>
     kind \<noteq> K_scanner_disagreement \<and> list_all (\<lambda>f. name_violations (df_filename f) = []) files \<and>
     (if list_ex (\<lambda>f. is_generated_requirement (df_filename f)) files
      then kind = K_dependency_upgrade \<or> list_ex (\<lambda>f. is_requirement_source (df_filename f)) files else True) \<and>
     (if kind = K_no_fix_reachability
      then list_all (\<lambda>f. is_vex_proposed (df_filename f) \<or> starts_with (df_filename f) ''security/analysis/'') files
      else True)"
  by (auto simp: diff_policy_clean_iff list_all_iff list_ex_iff)

text \<open>The canonical URL of a pull request.\<close>

definition pr_url :: "str \<Rightarrow> str \<Rightarrow> nat \<Rightarrow> str" where
  "pr_url owner name n = ''https://github.com/'' @ owner @ ''/'' @ name @ ''/pull/'' @ show_nat n"

text \<open>C40. Parsing the URL of a pull request gives back its repository and number.\<close>

theorem pr_url_roundtrip:
  assumes "owner \<noteq> []" "name \<noteq> []" "CHR ''/'' \<notin> set owner" "CHR ''/'' \<notin> set name"
  shows "parse_pr_url (pr_url owner name n) = Some (owner @ ''/'' @ name, n)"
proof -
  let ?u = "pr_url owner name n"
  have "last ?u = last (show_nat n)" using show_nat_digits [of n] by (simp add: pr_url_def)
  then have l: "is_digit (last ?u)" using last_show_nat by simp
  have h: "hd ?u = CHR ''h''" by (simp add: pr_url_def)
  have tw: "takeWhile is_digit (show_nat n) = show_nat n"
    using show_nat_digits [of n] by (simp add: takeWhile_eq_all_conv list_all_iff)
  have parts: "rlang not_slash_plus owner" "rlang not_slash_plus name" "rlang re_digits (show_nat n)"
    using assms show_nat_digits [of n] by (auto simp: not_slash_plus_def re_digits_def rlang_plus_char list_all_iff)
  have "rlang PR_URL_RE (''https://github.com/'' @ owner @ ''/'' @ name @ ''/pull/'' @ show_nat n @ [] @ [])"
    unfolding PR_URL_RE_def re_seqs.simps re_end_def
    by (intro rlang.sq parts rlang.altl rlang.eps rlang_lit [THEN iffD2] refl)
  then have m: "rlang PR_URL_RE ?u" by (simp only: pr_url_def append_Nil2)
  have "strip ?u = ?u"
    using l h by (intro strip_id) (auto simp: is_space_def is_digit_def Let_def)
  moreover have "rstrip_char CHR ''/'' ?u = ?u"
    using l by (cases "rev ?u") (auto simp: rstrip_char_def is_digit_def hd_rev [symmetric])
  moreover have "re_full PR_URL_RE ?u"
    using m by (simp only: re_full_iff)
  moreover have "CHR ''/'' \<notin> set (show_nat n)"
    using show_nat_digits [of n] by (auto simp: list_all_iff is_digit_def)
  moreover have "read_nat (takeWhile is_digit (show_nat n)) = n" by (simp only: tw read_show_nat)
  ultimately show ?thesis
    using assms by (simp add: parse_pr_url_def pr_url_def split_on_def split_on_acc_part)
qed

theorem pr_url_roundtrip_witness:
  "parse_pr_url (pr_url ''Hunter-1298'' ''superset'' 42) = Some (''Hunter-1298/superset'', 42)"
  using pr_url_roundtrip [of "''Hunter-1298''" "''superset''" 42] by simp

section \<open>Findings\<close>

text \<open>The merge of the scanners' reports has one finding per dedupe key, in key order, for exactly
  the keys that were reported, and each finding names the scanners that reported it once, with a
  severity for each.\<close>

theorem merge_is_by_key:
  "distinct (map nf_dedupe_key (normalize vulns configs)) \<and> sorted (map nf_dedupe_key (normalize vulns configs)) \<and>
   nf_dedupe_key ` set (normalize vulns configs) = rw_dedupe_key ` set vulns \<union> rf_dedupe_key ` set configs \<and>
   list_all finding_ok (normalize vulns configs)"
proof (intro conjI)
  have "nf_dedupe_key ` snd ` set (merge_all vulns configs) = fst ` set (merge_all vulns configs)"
    using arg_cong [OF map_key_merge_all, of set vulns configs] by (simp add: image_image)
  then show "nf_dedupe_key ` set (normalize vulns configs) = rw_dedupe_key ` set vulns \<union> rf_dedupe_key ` set configs"
    by (simp add: set_normalize keys_merge_all)
  show "distinct (map nf_dedupe_key (normalize vulns configs))"
  proof -
    have "distinct (map nf_dedupe_key (map snd (merge_all vulns configs)))"
      unfolding map_key_merge_all using merge_all_ok [of vulns configs] by (simp add: merged_ok_def)
    then show ?thesis
      by (metis mset_eq_imp_distinct_iff mset_map mset_sort normalize_def)
  qed
  show "sorted (map nf_dedupe_key (normalize vulns configs))" by (simp add: normalize_def)
  show "list_all finding_ok (normalize vulns configs)" by (simp add: list_all_iff normalize_finding_ok)
qed

text \<open>C34. The rule chain assigns the kind its specification gives: a configuration finding by its
  layer, then a disagreement between comparable scanners, then a fix by ecosystem, then no fix from any
  reporter, else nothing.\<close>

theorem classification_follows_rules: "cl_kind (classify pk f ctx) = kind_spec f ctx"
  by (rule classify_kind_eq)

text \<open>C33. Grouping loses and duplicates no finding: the candidates' members and the unclassified
  findings are together the findings given, candidates have distinct kind and key, and exactly the
  findings without a kind stay out.\<close>

theorem grouping_partitions_findings:
  "mset (map fst fcs) =
     mset (map fst (snd (group_findings fcs))) + mset (concat (map wc_members (fst (group_findings fcs)))) \<and>
   distinct (map (\<lambda>c. (wc_kind c, wc_group_key c)) (fst (group_findings fcs))) \<and>
   snd (group_findings fcs) = filter (\<lambda>fc. cl_kind (snd fc) = None) fcs"
proof -
  obtain bs where ok: "buckets_ok bs fcs"
    and g: "group_findings fcs = (map candidate_of (sort_key fst bs), filter (\<lambda>fc. bucket_key fc = None) fcs)"
    by (rule group_findings_buckets)
  have items: "map snd bs = map (\<lambda>k. filter (\<lambda>fc. bucket_key fc = Some k) fcs) (map fst bs)"
    using ok by (auto simp: buckets_ok_def)
  have "list_all (\<lambda>x. case bucket_key x of None \<Rightarrow> True | Some k \<Rightarrow> k \<in> set (map fst bs)) fcs"
    using ok by (auto simp: buckets_ok_def list_all_iff split: option.splits)
  then have "mset fcs = mset (filter (\<lambda>fc. bucket_key fc = None) fcs) + mset (concat (map snd bs))"
    unfolding items using ok by (intro mset_partition) (simp_all add: buckets_ok_def)
  then have "mset (map fst fcs) = mset (map fst (filter (\<lambda>fc. bucket_key fc = None) fcs)) +
      mset (map fst (concat (map snd bs)))"
    by (simp only: mset_map image_mset_union)
  moreover have "map fst (concat (map snd bs)) = concat (map (\<lambda>b. map fst (snd b)) bs)"
    by (simp add: map_concat o_def)
  moreover have "mset (concat (map (\<lambda>b. map fst (snd b)) (sort_key fst bs))) = mset (concat (map (\<lambda>b. map fst (snd b)) bs))"
    by (simp add: mset_concat flip: sum_mset_sum_list)
  moreover have "map (\<lambda>c. (wc_kind c, wc_group_key c)) (map candidate_of (sort_key fst bs)) = map fst (sort_key fst bs)"
    by (simp add: candidate_key)
  moreover have "distinct (map fst (sort_key fst bs))"
    using ok mset_eq_imp_distinct_iff [of "map fst (sort_key fst bs)" "map fst bs"] by (simp add: buckets_ok_def)
  moreover have "bucket_key fc = None \<longleftrightarrow> cl_kind (snd fc) = None" for fc
    by (simp add: bucket_key_def split: option.split)
  ultimately show ?thesis by (simp add: g candidate_key o_def)
qed

text \<open>The search for a free regression suffix returns, and returns the least number from its start
  on whose key is unused.\<close>

theorem suffix_is_least_free:
  "free_suffix keys key n = (LEAST m. n \<le> m \<and> suffixed key m \<notin> set keys)"
proof (rule Least_equality [symmetric], intro conjI)
  show "n \<le> free_suffix keys key n"
    by (induction keys key n rule: free_suffix.induct) (metis Suc_leD free_suffix.simps order_refl)
  show "suffixed key (free_suffix keys key n) \<notin> set keys" by (rule free_suffix_free)
  show "free_suffix keys key n \<le> m" if "n \<le> m \<and> suffixed key m \<notin> set keys" for m
    using free_suffix_least that by (meson leI)
qed

text \<open>C35. On a table where a regression always points back to an older item, the walk over
  regressions returns, sorted, exactly the items that descend from the root.\<close>

theorem descendants_found:
  assumes "points_back items"
  shows "\<exists>r. regression_descendants items root_id = Some r \<and> sorted r \<and> set r = {d. descends items root_id d}"
proof -
  obtain r where "walk_descendants items (children_of items root_id) [] = Some r"
    and "set r = set (children_of items root_id) \<union> {d. \<exists>q \<in> set (children_of items root_id). descends items q d}"
    using walk_descendants_ends [OF assms, of "children_of items root_id" "[]"] by auto
  moreover have "set (children_of items root_id) \<union> {d. \<exists>q \<in> set (children_of items root_id). descends items q d} =
      {d. descends items root_id d}"
    by (simp only: set_eq_iff Un_iff mem_Collect_eq descends_first [of items root_id] simp_thms)
  ultimately show ?thesis by (auto simp: regression_descendants_def)
qed

theorem descendants_found_witness:
  "\<exists>r. regression_descendants [sample_item W_queued, (sample_item W_queued)\<lparr>wi_id := 6, wi_regression_of_work_item_id := Some 5\<rparr>] 5 = Some r \<and> 6 \<in> set r"
proof -
  let ?items = "[sample_item W_queued, (sample_item W_queued)\<lparr>wi_id := 6, wi_regression_of_work_item_id := Some 5\<rparr>]"
  have "points_back ?items" by (simp add: points_back_def sample_defs)
  from descendants_found [OF this, of 5] obtain r
    where r: "regression_descendants ?items 5 = Some r" "set r = {d. descends ?items 5 d}" by blast
  have "descends ?items 5 6" by (rule descends.child) (simp add: children_of_def sample_defs)
  with r show ?thesis by auto
qed
section \<open>Checks, gates and launches\<close>

text \<open>A rung of the verification ladder passes exactly when it has components, each has a check,
  and each check has runs which all completed with success: a missing, skipped or pending run never
  passes a rung.\<close>

theorem rung_passed_iff:
  "map_of (ev_rungs (evaluate runs ladder)) d = Some CK_passed \<longleftrightarrow>
     ladder d \<noteq> [] \<and>
     list_all (\<lambda>co. case co_check co of
         None \<Rightarrow> False
       | Some check \<Rightarrow> matching_runs check runs \<noteq> [] \<and> list_all check_green (matching_runs check runs)) (ladder d)"
  unfolding rung_of_evaluate
  by (auto simp: rung_status_passed rung_records_def list_all_iff eval_component_passed component_status_passed
      check_green_def split: option.splits)

text \<open>The depth recorded for a pull request is the greatest rung that passed, and none when none
  passed.\<close>

theorem highest_passed_is_max:
  "highest_passed ev =
     (let passed = {d. (d, CK_passed) \<in> set (ev_rungs ev)} in if passed = {} then None else Some (Max passed))"
proof (cases "highest_passed ev")
  case None
  then show ?thesis by (auto simp: highest_passed_None Let_def image_iff)
next
  case (Some d)
  have fin: "finite {d. (d, CK_passed) \<in> set (ev_rungs ev)}"
    by (rule finite_subset [of _ "fst ` set (ev_rungs ev)"]) force+
  have "Max {d. (d, CK_passed) \<in> set (ev_rungs ev)} = d"
    by (rule Max_eqI [OF fin]) (auto intro: highest_passed_Some [OF Some])
  then show ?thesis using Some highest_passed_Some(1) [OF Some] by (auto simp: Let_def)
qed

text \<open>The checks of a head are green exactly when there is a relevant check, every required check
  is present, and every relevant check completed with success.\<close>

theorem checks_green_iff:
  "checks_verdict E checks = ''green'' \<longleftrightarrow>
     (let required = st_required_check_names (en_settings E);
          relevant = filter (\<lambda>c. required = [] \<or> cr_name c \<in> set required) checks
      in relevant \<noteq> [] \<and> set required \<subseteq> set (map cr_name checks) \<and> list_all check_green relevant)"
proof -
  have "\<not> list_ex check_red cs \<and> list_all check_green cs \<longleftrightarrow> list_all check_green cs" for cs
    by (induction cs) (auto simp: check_red_def check_green_def)
  moreover have "list_all (\<lambda>n. n \<in> set (map cr_name (filter (\<lambda>c. required = [] \<or> cr_name c \<in> set required) checks))) required
      \<longleftrightarrow> set required \<subseteq> set (map cr_name checks)" for required
    by (auto simp: list_all_iff)
  ultimately show ?thesis by (simp add: checks_verdict_def Let_def) blast
qed

text \<open>The pending scan runs are exactly the runs not yet applied, each once, in the order of their
  recency.\<close>

theorem pending_runs_in_order:
  "\<exists>rs. pending_scan_runs d = map sr_id rs \<and> sorted (map recency rs) \<and>
     mset rs = filter_mset (\<lambda>r. sr_closure_applied_at r = None) (mset (db_runs d))"
  by (intro exI [of _ "sort_key recency (filter (\<lambda>r. sr_closure_applied_at r = None) (db_runs d))"])
     (simp add: pending_scan_runs_def)

text \<open>A launch is offered exactly for an item that waits or needs attention, when no scan is
  pending, a session slot is free, and its cap fits the budget beside what is consumed and
  outstanding.\<close>

theorem launch_eligible_iff:
  "lp_eligible (preview wid state sev has_issue cap active mx consumed outstanding budget repo branch pending) \<longleftrightarrow>
     state \<in> {W_queued, W_issue_open, W_needs_human, W_failed} \<and> pending = 0 \<and> active < mx \<and>
     consumed + outstanding + cap \<le> budget"
  by (cases state) (simp_all add: preview_sel action_for_def HUMAN_ATTENTION_STATES_def)

text \<open>A cancellation is offered exactly for an active session without a pull request.\<close>

theorem cancel_allowed_iff:
  "cancel_block_for s has_session has_pr = None \<longleftrightarrow> s = W_session_active \<and> has_session \<and> \<not> has_pr"
  by (rule cancel_block_for_None)

end
