(* ===== verification/Files.thy ===== *)
theory Files
  imports Dynamic Classify
begin

text \<open>
  What the intake needs from the operating system and from libraries: paths as \<^verbatim>\<open>pathlib\<close> builds them,
  a disk (the content of every regular file), text files, and a record of the functions that are not
  part of the repository (SHA-256, the JSON, TOML and ISO-8601 parsers, \<^verbatim>\<open>packaging\<close>). Theorems
  hold for every disk and every such record. Files hold ASCII text.
\<close>

section \<open>Libraries\<close>

text \<open>
  \<open>lb_json\<close> is \<open>json.loads\<close> (None where it raises JSONDecodeError); \<open>lb_fromiso\<close> is
  \<open>datetime.fromisoformat\<close>: the clock reading in microseconds since the epoch and the UTC offset,
  None for a text without one; \<open>lb_toml\<close> gives the dependencies and the optional dependencies of the
  \<^verbatim>\<open>[project]\<close> table, or what \<open>tomllib.loads(text)["project"]\<close> raises.
\<close>

record 'spec Lib =
  lb_sha256 :: "str \<Rightarrow> str"
  lb_json :: "str \<Rightarrow> json option"
  lb_fromiso :: "str \<Rightarrow> (int \<times> int option) option"
  lb_toml :: "str \<Rightarrow> exn + (str list option \<times> (str, str list) dict option)"
  lb_packaging :: "'spec packaging"

section \<open>Strings\<close>

text \<open>\<open>s.split(sep, 1)\<close>: the parts before and after the first occurrence, None where there is none.\<close>

fun partition_str :: "str \<Rightarrow> str \<Rightarrow> (str \<times> str) option" where
  "partition_str sep s =
     (if starts_with s sep then Some ([], drop (length sep) s)
      else (case s of [] \<Rightarrow> None
            | c # r \<Rightarrow> (case partition_str sep r of None \<Rightarrow> None | Some (a, b) \<Rightarrow> Some (c # a, b))))"

declare partition_str.simps [simp del]

text \<open>\<open>s.rsplit(sep, 1)[-1]\<close>, \<open>s.replace(c, r)\<close> for a single character, and \<open>s.isdigit()\<close>.\<close>

definition replace_char :: "char \<Rightarrow> str \<Rightarrow> str \<Rightarrow> str" where
  "replace_char c r s = concat (map (\<lambda>x. if x = c then r else [x]) s)"

definition str_isdigit :: "str \<Rightarrow> bool" where
  "str_isdigit s \<longleftrightarrow> s \<noteq> [] \<and> list_all is_digit s"

text \<open>\<open>s.splitlines()\<close> and \<open>s.split()\<close>.\<close>

definition is_line_break :: "char \<Rightarrow> bool" where
  "is_line_break c \<longleftrightarrow> (let n = (of_char c :: nat) in (10 \<le> n \<and> n \<le> 13) \<or> (28 \<le> n \<and> n \<le> 30))"

fun splitlines_acc :: "str \<Rightarrow> str \<Rightarrow> str list" where
  "splitlines_acc acc [] = (if acc = [] then [] else [rev acc])"
| "splitlines_acc acc (c # s) =
     (if is_line_break c then rev acc # splitlines_acc [] (if c = CHR 0x0D \<and> starts_with s [CHR 0x0A] then tl s else s)
      else splitlines_acc (c # acc) s)"

definition splitlines :: "str \<Rightarrow> str list" where
  "splitlines s = splitlines_acc [] s"

fun split_ws_acc :: "str \<Rightarrow> str \<Rightarrow> str list" where
  "split_ws_acc acc [] = (if acc = [] then [] else [rev acc])"
| "split_ws_acc acc (c # s) =
     (if is_space c then (if acc = [] then [] else [rev acc]) @ split_ws_acc [] s else split_ws_acc (c # acc) s)"

definition split_ws :: "str \<Rightarrow> str list" where
  "split_ws s = split_ws_acc [] s"

section \<open>Paths\<close>

text \<open>\<open>Path(s).as_posix()\<close>: the root, then the components without empty ones and dots.\<close>

definition path_root :: "str \<Rightarrow> str" where
  "path_root s =
     (if starts_with s ''//'' \<and> \<not> starts_with s ''///'' then ''//'' else if starts_with s ''/'' then ''/'' else [])"

definition path_parts :: "str \<Rightarrow> str list" where
  "path_parts s = filter (\<lambda>p. p \<noteq> [] \<and> p \<noteq> ''.'') (split_on CHR ''/'' s)"

definition path_text :: "str \<Rightarrow> str list \<Rightarrow> str" where
  "path_text anchor parts = (if anchor = [] \<and> parts = [] then ''.'' else anchor @ join ''/'' parts)"

definition as_posix :: "str \<Rightarrow> str" where
  "as_posix s = path_text (path_root s) (path_parts s)"

text \<open>\<open>dir / name\<close>: an absolute name replaces the directory.\<close>

definition path_join :: "str \<Rightarrow> str \<Rightarrow> str" where
  "path_join dir name = (if path_root name \<noteq> [] then as_posix name else as_posix (dir @ ''/'' @ name))"

definition path_parent :: "str \<Rightarrow> str" where
  "path_parent s = path_text (path_root s) (butlast (path_parts s))"

definition path_name :: "str \<Rightarrow> str" where
  "path_name s = (if path_parts s = [] then [] else last (path_parts s))"

text \<open>\<open>p.suffix\<close>: from the last dot of the name, unless it begins or ends the name.\<close>

definition path_suffix :: "str \<Rightarrow> str" where
  "path_suffix s =
     (let name = path_name s; ext = after_last CHR ''.'' name in
      if CHR ''.'' \<in> set name \<and> ext \<noteq> [] \<and> Suc (length ext) < length name then ''.'' @ ext else [])"

text \<open>\<open>p.with_suffix(suffix)\<close> on a path with a name.\<close>

definition with_suffix :: "str \<Rightarrow> str \<Rightarrow> str" where
  "with_suffix s suffix = take (length s - length (path_suffix s)) s @ suffix"

section \<open>Files\<close>

type_synonym disk = "str \<Rightarrow> str option"

definition file_not_found :: "str \<Rightarrow> exn" where
  "file_not_found path = Exn ''FileNotFoundError'' (''[Errno 2] No such file or directory: '' @ repr_str path)"

definition is_file :: "disk \<Rightarrow> str \<Rightarrow> bool" where
  "is_file fs path \<longleftrightarrow> fs path \<noteq> None"

definition read_bytes :: "disk \<Rightarrow> str \<Rightarrow> exn + str" where
  "read_bytes fs path = (case fs path of Some s \<Rightarrow> Inr s | None \<Rightarrow> Inl (file_not_found path))"

text \<open>Text mode translates every line ending to a newline.\<close>

fun universal_newlines :: "str \<Rightarrow> str" where
  "universal_newlines [] = []"
| "universal_newlines (c # s) =
     (if c = CHR 0x0D then CHR 0x0A # universal_newlines (if starts_with s [CHR 0x0A] then tl s else s)
      else c # universal_newlines s)"

definition read_text :: "disk \<Rightarrow> str \<Rightarrow> exn + str" where
  "read_text fs path = ebind (read_bytes fs path) (\<lambda>s. Inr (universal_newlines s))"

definition json_loads :: "'spec Lib \<Rightarrow> str \<Rightarrow> exn + json" where
  "json_loads L s =
     (case lb_json L s of Some j \<Rightarrow> Inr j | None \<Rightarrow> Inl (Exn ''JSONDecodeError'' ''not a JSON document''))"

section \<open>Instants\<close>

text \<open>An aware datetime: the instant in microseconds since the epoch and its UTC offset.\<close>

type_synonym stamp = "int \<times> int"

definition iso_offset :: "int \<Rightarrow> str" where
  "iso_offset off =
     (let a = \<bar>off\<bar> div 1000000; us = \<bar>off\<bar> mod 1000000 in
      (if off < 0 then ''-'' else ''+'') @ pad_zeros 2 (show_int (a div 3600)) @ '':'' @ pad_zeros 2 (show_int (a div 60 mod 60)) @
      (if a mod 60 = 0 \<and> us = 0 then [] else '':'' @ pad_zeros 2 (show_int (a mod 60))) @
      (if us = 0 then [] else ''.'' @ pad_zeros 6 (show_int us)))"

section \<open>What can go wrong\<close>

lemma safe_read_bytes [safe_intros]: "evidence_safe (read_bytes fs p)"
  by (auto simp: read_bytes_def evidence_safe_def file_not_found_def EVIDENCE_ERRORS_def split: option.split)

lemma safe_read_text [safe_intros]: "evidence_safe (read_text fs p)"
  unfolding read_text_def by (intro safe_intros)

lemma safe_json_loads [safe_intros]: "evidence_safe (json_loads L s)"
  by (auto simp: json_loads_def evidence_safe_def EVIDENCE_ERRORS_def split: option.split)

lemma read_bytes_Inr: "read_bytes fs p = Inr s \<longleftrightarrow> fs p = Some s"
  by (auto simp: read_bytes_def split: option.splits)

lemma partition_str_Some: "partition_str sep s = Some (a, b) \<Longrightarrow> s = a @ sep @ b"
proof (induction s arbitrary: a b)
  case Nil
  then show ?case by (auto simp: partition_str.simps starts_with_def split: if_splits)
next
  case (Cons c s)
  then show ?case
    by (subst (asm) partition_str.simps) (auto simp: starts_with_iff split: if_splits option.splits)
qed

lemma path_examples:
  "path_join ''/d/x'' ''vex/a.json'' = ''/d/x/vex/a.json''" "path_join ''/d'' ''/etc/p'' = ''/etc/p''"
  "path_join ''/d'' ''./a//b'' = ''/d/a/b''" "path_parent ''config/vex/a.json'' = ''config/vex''"
  "path_suffix ''config/vex/a.tar.json'' = ''.json''" "path_suffix ''a/.json'' = []" "with_suffix ''/runs/12/1'' ''.zip'' = ''/runs/12/1.zip''"
  "as_posix [] = ''.''" "path_parent ''a'' = ''.''"
  by code_simp+

end
