(* ===== verification/Evidence.thy ===== *)
theory Evidence
  imports Files Scanners Tables
begin

text \<open>
  \<^verbatim>\<open>ingest/evidence.py\<close> and \<open>load_vex_documents\<close> of \<^verbatim>\<open>ingest/vex.py\<close>: loading one downloaded evidence
  tree. Every file is checked against its recorded SHA-256 before it is parsed; what is wrong with a
  tree is the exception the loader raises. The record fields of the pydantic models carry the types
  their validation enforces.
\<close>

section \<open>Constants\<close>

definition JOB_SCHEMA :: str where "JOB_SCHEMA = ''hardening-loop/scan-job/v1''"
definition MANIFEST_SCHEMA :: str where "MANIFEST_SCHEMA = ''hardening-loop/baseline-manifest/v1''"
definition SCAN_MANIFEST_SCHEMA :: str where "SCAN_MANIFEST_SCHEMA = ''hardening-loop/scan-manifest/v1''"
definition MANIFEST_SCHEMAS :: "str list" where "MANIFEST_SCHEMAS = [MANIFEST_SCHEMA, SCAN_MANIFEST_SCHEMA]"

definition APPROVED_DIR :: str where "APPROVED_DIR = ''security/vex/approved''"
definition VEX_EVIDENCE_DIR :: str where "VEX_EVIDENCE_DIR = ''vex''"

definition evidence_error :: "str \<Rightarrow> exn" where
  "evidence_error m = Exn ''EvidenceError'' m"

section \<open>Approved VEX documents\<close>

record ApprovedVexDocument =
  ad_source_path :: str
  ad_evidence_file :: str
  ad_sha256 :: str
  ad_approval :: VexApproval
  ad_statements :: "VexStatementSummary list"
  ad_document :: vex_doc

text \<open>The body of the loop of \<open>load_vex_documents\<close>: entry \<open>i\<close> of the job's list.\<close>

definition vex_entry_error :: "str \<Rightarrow> nat \<Rightarrow> str \<Rightarrow> exn" where
  "vex_entry_error job_dir i m = vex_error (job_dir @ ''/job.json vex_documents['' @ show_nat i @ '']'') m"

definition approved_path :: "str \<Rightarrow> bool" where
  "approved_path src_path \<longleftrightarrow>
     \<not> (path_parent src_path \<noteq> APPROVED_DIR \<or> path_suffix src_path \<noteq> ''.json'' \<or> ''..'' \<in> set (path_parts src_path))"

definition approved_document :: "str \<Rightarrow> nat \<Rightarrow> str \<Rightarrow> str \<Rightarrow> str \<Rightarrow> json \<Rightarrow> exn + ApprovedVexDocument" where
  "approved_document job_dir i src_path evidence_file digest document =
     (case document of
        JObj doc \<Rightarrow>
          ebind (validate_openvex doc (job_dir @ ''/job.json vex_documents['' @ show_nat i @ '']'')) (\<lambda>statements.
          case approval_of doc of
            None \<Rightarrow> Inl (vex_entry_error job_dir i ''approved document lacks a valid x-approval'')
          | Some approval \<Rightarrow>
              Inr \<lparr>ad_source_path = src_path, ad_evidence_file = evidence_file, ad_sha256 = digest,
                   ad_approval = approval, ad_statements = statements, ad_document = doc\<rparr>)
      | _ \<Rightarrow> Inl (vex_entry_error job_dir i (evidence_file @ '' is not a JSON object'')))"

definition load_vex_document ::
    "'spec Lib \<Rightarrow> disk \<Rightarrow> str \<Rightarrow> (str, json) dict \<Rightarrow> nat \<Rightarrow> json \<Rightarrow> exn + ApprovedVexDocument" where
  "load_vex_document L fs job_dir files i entry =
     (let err = vex_entry_error job_dir i in
     ebind (get_of entry ''path'') (\<lambda>source_path.
     ebind (get_of entry ''evidence_file'') (\<lambda>evidence_file.
     ebind (get_of entry ''sha256'') (\<lambda>sha.
     case (source_path, evidence_file) of
       (JStr sp, JStr ef) \<Rightarrow>
         (case sha of
            JStr digest \<Rightarrow>
              if dict_get files ef \<noteq> Some (JStr digest)
              then Inl (err (''sha256 is not the checksummed evidence file '' @ repr_str ef))
              else let src_path = as_posix sp in
                if \<not> approved_path src_path
                then Inl (err (repr_str sp @ '' is not directly under '' @ APPROVED_DIR @ ''/''))
                else if path_parent ef \<noteq> VEX_EVIDENCE_DIR
                then Inl (err (''evidence copy '' @ repr_str ef @ '' not under vex/''))
                else
                  ebind (read_bytes fs (path_join job_dir ef)) (\<lambda>text.
                  ebind (json_loads L text) (\<lambda>document.
                  approved_document job_dir i src_path ef digest document))
          | _ \<Rightarrow> Inl (err (''sha256 is not the checksummed evidence file '' @ repr_str ef)))
     | _ \<Rightarrow> Inl (err ''missing path/evidence_file'')))))"

definition load_vex_documents ::
    "'spec Lib \<Rightarrow> disk \<Rightarrow> str \<Rightarrow> json list \<Rightarrow> (str, json) dict \<Rightarrow> exn + ApprovedVexDocument list" where
  "load_vex_documents L fs job_dir entries files = emap (load_vex_document L fs job_dir files) 0 entries"

section \<open>Scan jobs\<close>

record ToolVersions =
  tv_syft :: str
  tv_trivy :: str
  tv_grype :: str
  tv_trivy_db_updated_at :: "stamp option"
  tv_grype_db_built_at :: "stamp option"

record ScanJobEvidence =
  je_path :: str
  je_mode :: ScanMode
  je_image_ref :: str
  je_image_target :: ImageTarget
  je_platform :: str
  je_layer_scope :: str
  je_started_at :: stamp
  je_finished_at :: int
  je_files :: "(str, str) dict"
  je_vex_documents :: "(str, json) dict list"
  je_vex_evidence :: "ApprovedVexDocument list"
  je_tools :: ToolVersions
  je_sbom :: "SbomComponent list"
  je_trivy_vulns :: "RawVuln list"
  je_grype_vulns :: "RawVuln list"
  je_image_config :: "RawConfigFinding list"
  je_iac_config :: "RawConfigFinding list"
  je_raw_reports :: "(str, json) dict"
  je_job_success :: "(str, bool) dict"

definition je_all_jobs_succeeded :: "ScanJobEvidence \<Rightarrow> bool" where
  "je_all_jobs_succeeded j \<longleftrightarrow> list_all snd (je_job_success j)"

definition je_vulns :: "ScanJobEvidence \<Rightarrow> RawVuln list" where
  "je_vulns j = je_trivy_vulns j @ je_grype_vulns j"

definition je_configs :: "ScanJobEvidence \<Rightarrow> RawConfigFinding list" where
  "je_configs j = je_image_config j @ je_iac_config j"

definition job_succeeded :: "ScanJobEvidence \<Rightarrow> str \<Rightarrow> bool" where
  "job_succeeded j k = (case dict_get (je_job_success j) k of Some b \<Rightarrow> b | None \<Rightarrow> False)"

definition je_scanners_present :: "ScanJobEvidence \<Rightarrow> Scanner list" where
  "je_scanners_present j = filter (\<lambda>s. job_succeeded j (scanner_value s)) [SC_trivy, SC_grype]"

definition evidence_ref :: "ScanJobEvidence \<Rightarrow> str \<Rightarrow> exn + str" where
  "evidence_ref j name =
     (case dict_get (je_files j) name of
        None \<Rightarrow> Inl (key_error name)
      | Some d \<Rightarrow> Inr (path_name (je_path j) @ ''/'' @ name @ ''@sha256:'' @ d))"

text \<open>\<open>_parse_ts\<close>, and \<open>isoformat()\<close> of what it returns.\<close>

definition parse_ts :: "'spec Lib \<Rightarrow> json \<Rightarrow> exn + stamp" where
  "parse_ts L v =
     ebind (as_str ''replace'' v) (\<lambda>s.
       case lb_fromiso L (replace_char CHR ''Z'' ''+00:00'' s) of
         None \<Rightarrow> Inl (Exn ''ValueError'' (''Invalid isoformat string: '' @ repr_str s))
       | Some (local, Some off) \<Rightarrow> Inr (local - off, off)
       | Some (local, None) \<Rightarrow> Inr (local, 0))"

definition parse_ts_opt :: "'spec Lib \<Rightarrow> json \<Rightarrow> exn + stamp option" where
  "parse_ts_opt L v = (if jtruthy v then ebind (parse_ts L v) (\<lambda>t. Inr (Some t)) else Inr None)"

definition iso_datetime :: "stamp \<Rightarrow> str" where
  "iso_datetime t =
     (case t of (instant, off) \<Rightarrow>
        let s = show_datetime (instant + off)
        in replace_char CHR '' '' ''T'' (take (length s - 6) s) @ iso_offset off)"

text \<open>\<open>t.isoformat(timespec="seconds")\<close> of a UTC instant.\<close>

definition iso_seconds :: "int \<Rightarrow> str" where
  "iso_seconds t = replace_char CHR '' '' ''T'' (take 19 (show_datetime t)) @ ''+00:00''"

definition load_json :: "'spec Lib \<Rightarrow> disk \<Rightarrow> str \<Rightarrow> exn + json" where
  "load_json L fs path =
     ebind (read_bytes fs path) (\<lambda>text.
     ebind (json_loads L text) (\<lambda>data.
       case data of JObj _ \<Rightarrow> Inr data | _ \<Rightarrow> Inl (evidence_error (path @ '': expected a JSON object''))))"

fun verify_files :: "'spec Lib \<Rightarrow> disk \<Rightarrow> str \<Rightarrow> (str, json) dict \<Rightarrow> exn + unit" where
  "verify_files L fs dir [] = Inr ()"
| "verify_files L fs dir ((name, digest) # rest) =
     (let p = path_join dir name in
      case fs p of
        None \<Rightarrow> Inl (evidence_error (''missing evidence file '' @ p))
      | Some content \<Rightarrow>
          if JStr (lb_sha256 L content) \<noteq> digest
          then Inl (evidence_error (''checksum mismatch for '' @ p @ '': '' @ lb_sha256 L content @ '' != '' @ py_str digest))
          else verify_files L fs dir rest)"

definition scan_mode_of :: "json \<Rightarrow> exn + ScanMode" where
  "scan_mode_of j =
     (case find (\<lambda>m. j = JStr (scan_mode_value m)) [SM_raw, SM_policy] of
        Some m \<Rightarrow> Inr m
      | None \<Rightarrow> Inl (Exn ''ValueError'' (py_repr j @ '' is not a valid ScanMode'')))"

definition image_target_of :: "json \<Rightarrow> exn + ImageTarget" where
  "image_target_of j =
     (case find (\<lambda>t. j = JStr (image_target_value t)) [IT_lean, IT_ci] of
        Some t \<Rightarrow> Inr t
      | None \<Rightarrow> Inl (Exn ''ValueError'' (py_repr j @ '' is not a valid ImageTarget'')))"

text \<open>A field of type \<open>dict[str, str]\<close>.\<close>

definition str_values :: "str \<Rightarrow> (str, json) dict \<Rightarrow> exn + (str, str) dict" where
  "str_values field d =
     emap (\<lambda>_ (k, v). ebind (str_field field v) (\<lambda>s. Inr (k, s))) 0 d"

definition with_evidence :: "ApprovedVexDocument \<Rightarrow> (str, json) dict" where
  "with_evidence d =
     dict_set ''x-evidence''
       (JObj [(''source_path'', JStr (ad_source_path d)), (''evidence_file'', JStr (ad_evidence_file d)),
              (''sha256'', JStr (ad_sha256 d))])
       (ad_document d)"

definition load_tools :: "'spec Lib \<Rightarrow> json \<Rightarrow> json \<Rightarrow> exn + ToolVersions" where
  "load_tools L tools grype_report =
     ebind (item_of tools ''trivy'') (\<lambda>trivy.
     ebind (get_of trivy ''vuln_db'') (\<lambda>db.
     ebind (get_of (or_else db (JObj [])) ''UpdatedAt'') (\<lambda>trivy_db.
     ebind (grype_db_built_at grype_report) (\<lambda>grype_built.
     ebind (ebind (item_of tools ''syft'') (\<lambda>t. item_of t ''version'')) (\<lambda>syft_v.
     ebind (item_of trivy ''version'') (\<lambda>trivy_v.
     ebind (ebind (item_of tools ''grype'') (\<lambda>t. item_of t ''version'')) (\<lambda>grype_v.
     ebind (parse_ts_opt L trivy_db) (\<lambda>trivy_at.
     ebind (case grype_built of None \<Rightarrow> Inr None | Some b \<Rightarrow> parse_ts_opt L (JStr b)) (\<lambda>grype_at.
     ebind (str_field ''syft'' syft_v) (\<lambda>syft.
     ebind (str_field ''trivy'' trivy_v) (\<lambda>trivy'.
     ebind (str_field ''grype'' grype_v) (\<lambda>grype.
     Inr \<lparr>tv_syft = syft, tv_trivy = trivy', tv_grype = grype, tv_trivy_db_updated_at = trivy_at,
          tv_grype_db_built_at = grype_at\<rparr>))))))))))))"

text \<open>The report files of a job directory, in the order they are read.\<close>

definition load_scan_job :: "'spec Lib \<Rightarrow> disk \<Rightarrow> str \<Rightarrow> exn + ScanJobEvidence" where
  "load_scan_job L fs path =
     ebind (load_json L fs (path_join path ''job.json'')) (\<lambda>job.
     ebind (get_of job ''schema'') (\<lambda>schema.
     if schema \<noteq> JStr JOB_SCHEMA then Inl (evidence_error (path @ '': unexpected job schema '' @ py_repr schema)) else
     ebind (item_of job ''files'') (\<lambda>files_raw.
     ebind (dict_of files_raw) (\<lambda>files.
     ebind (verify_files L fs path files) (\<lambda>_.
     ebind (item_of job ''tools'') (\<lambda>tools_raw.
     ebind (load_json L fs (path_join path ''grype-vuln.json'')) (\<lambda>grype_report.
     ebind (load_tools L tools_raw grype_report) (\<lambda>tools.
     ebind (load_json L fs (path_join path ''sbom.cdx.json'')) (\<lambda>sbom_doc.
     ebind (load_json L fs (path_join path ''trivy-vuln.json'')) (\<lambda>trivy_vuln_doc.
     ebind (load_json L fs (path_join path ''trivy-image-config.json'')) (\<lambda>trivy_image_config.
     ebind (load_json L fs (path_join path ''trivy-config.json'')) (\<lambda>trivy_config.
     ebind (item_of job ''mode'') (\<lambda>mode_raw.
     ebind (scan_mode_of mode_raw) (\<lambda>mode.
     ebind (get_of job ''vex_documents'') (\<lambda>vex_raw.
     ebind (iter_or_empty vex_raw) (\<lambda>vex_entries.
     if mode = SM_raw \<and> vex_entries \<noteq> []
     then Inl (evidence_error (path @ '': raw scan lists VEX documents; raw evidence is never suppressed'')) else
     ebind (load_vex_documents L fs path vex_entries files) (\<lambda>vex.
     ebind (item_of job ''image_ref'') (\<lambda>ref_raw.
     ebind (ebind (item_of job ''image_target'') image_target_of) (\<lambda>target.
     ebind (item_of job ''platform'') (\<lambda>platform_raw.
     ebind (item_of job ''layer_scope'') (\<lambda>scope_raw.
     ebind (ebind (item_of job ''started_at'') (parse_ts L)) (\<lambda>started.
     ebind (ebind (item_of job ''finished_at'') (parse_ts L)) (\<lambda>finished.
     ebind (parse_cyclonedx sbom_doc) (\<lambda>sbom.
     ebind (parse_trivy_vulns trivy_vuln_doc) (\<lambda>trivy_vs.
     ebind (parse_grype_vulns grype_report) (\<lambda>grype_vs.
     ebind (parse_trivy_misconfigs trivy_image_config (case ref_raw of JStr s \<Rightarrow> Some s | _ \<Rightarrow> None)) (\<lambda>image_config.
     ebind (parse_trivy_misconfigs trivy_config None) (\<lambda>iac_config.
     ebind (str_field ''image_ref'' ref_raw) (\<lambda>image_ref.
     ebind (str_field ''platform'' platform_raw) (\<lambda>platform.
     ebind (str_field ''layer_scope'' scope_raw) (\<lambda>layer_scope.
     ebind (str_values ''files'' files) (\<lambda>digests.
     Inr \<lparr>je_path = path, je_mode = mode, je_image_ref = image_ref, je_image_target = target,
          je_platform = platform, je_layer_scope = layer_scope, je_started_at = started,
          je_finished_at = fst finished, je_files = digests, je_vex_documents = map with_evidence vex,
          je_vex_evidence = vex, je_tools = tools, je_sbom = sbom, je_trivy_vulns = trivy_vs,
          je_grype_vulns = grype_vs, je_image_config = image_config, je_iac_config = iac_config,
          je_raw_reports = [(''trivy-vuln.json'', trivy_vuln_doc), (''grype-vuln.json'', grype_report),
            (''trivy-image-config.json'', trivy_image_config), (''trivy-config.json'', trivy_config)],
          je_job_success = [(''trivy'', True), (''grype'', True), (''config'', True)]\<rparr>))))))))))))))))))))))))))))))))"

section \<open>Runtime verdicts\<close>

definition RUNTIME_RECORDS :: "(str, str \<times> ImageTarget) dict" where
  "RUNTIME_RECORDS =
     [(''lean-smoke'', (''runtime/lean-smoke/lean-smoke.json'', IT_lean)),
      (''app-runs'', (''runtime/app-runs/app-runs.json'', IT_ci))]"

record RuntimeRecord =
  rr_job :: str
  rr_path :: str
  rr_image_ref :: str
  rr_passed :: bool
  rr_failed_step :: "str option"
  rr_checks :: "(str, str) dict"

definition rr_digest :: "RuntimeRecord \<Rightarrow> str" where
  "rr_digest r = after_last CHR ''@'' (rr_image_ref r)"

definition check_results :: "json \<Rightarrow> (str, str) dict option" where
  "check_results j =
     (case j of
        JObj fs \<Rightarrow>
          if list_all (\<lambda>(k, v). case v of JStr _ \<Rightarrow> True | _ \<Rightarrow> False) fs
          then Some (map (\<lambda>(k, v). (k, py_str v)) fs) else None
      | _ \<Rightarrow> None)"

definition check_runtime_doc :: "str \<Rightarrow> str \<Rightarrow> json \<Rightarrow> exn + RuntimeRecord" where
  "check_runtime_doc job rel doc =
     (if (case doc of JObj _ \<Rightarrow> False | _ \<Rightarrow> True) then Inl (evidence_error (rel @ '': not a JSON object'')) else
      ebind (get_of doc ''image_ref'') (\<lambda>image_ref.
      ebind (get_of doc ''passed'') (\<lambda>passed.
      ebind (get_of doc ''checks'') (\<lambda>checks.
      case image_ref of
        JStr ref \<Rightarrow>
          if \<not> contains_str ref ''@sha256:'' then Inl (evidence_error (rel @ '': image_ref is not a digest reference''))
          else (case passed of
             JBool ok \<Rightarrow>
               (case check_results checks of
                  None \<Rightarrow> Inl (evidence_error (rel @ '': checks is not a name -> result map''))
                | Some results \<Rightarrow>
                    ebind (get_of doc ''failed_step'') (\<lambda>step_raw.
                    ebind (case step_raw of JNull \<Rightarrow> Inr None | JStr s \<Rightarrow> Inr (Some s)
                           | _ \<Rightarrow> Inl (evidence_error (rel @ '': failed_step is not a string''))) (\<lambda>step.
                    if ok \<and> step \<noteq> None
                    then Inl (evidence_error (rel @ '': passed=true with failed_step''))
                    else if \<not> ok \<and> or_str step [] = []
                    then Inl (evidence_error (rel @ '': passed=false without a failed_step''))
                    else Inr \<lparr>rr_job = job, rr_path = rel, rr_image_ref = ref, rr_passed = ok,
                              rr_failed_step = step, rr_checks = results\<rparr>)))
           | _ \<Rightarrow> Inl (evidence_error (rel @ '': passed is not a boolean'')))
      | _ \<Rightarrow> Inl (evidence_error (rel @ '': image_ref is not a digest reference''))))))"

definition load_runtime_record :: "'spec Lib \<Rightarrow> disk \<Rightarrow> str \<Rightarrow> str \<Rightarrow> exn + RuntimeRecord" where
  "load_runtime_record L fs dir job =
     (case dict_get RUNTIME_RECORDS job of
        None \<Rightarrow> Inl (key_error job)
      | Some (rel, _) \<Rightarrow>
          if \<not> is_file fs (path_join dir rel) then Inl (evidence_error (job @ '': no runtime record at '' @ rel))
          else ebind (read_text fs (path_join dir rel)) (\<lambda>text.
            case lb_json L text of
              None \<Rightarrow> Inl (evidence_error (rel @ '': not JSON''))
            | Some doc \<Rightarrow> check_runtime_doc job rel doc))"

section \<open>The manifest\<close>

record BaselineManifest =
  bm_path :: str
  bm_source_repo :: str
  bm_source_branch :: str
  bm_source_sha :: str
  bm_trigger :: str
  bm_platform :: str
  bm_built_at :: int
  bm_captured_at :: int
  bm_images :: "(str, (str, json) dict) dict"
  bm_ci_layer_delta :: "(str, json) dict"
  bm_jobs :: "(str, ScanJobEvidence) dict"
  bm_run :: "(str, json) dict"
  bm_gates :: "(str, json) dict"
  bm_runtime :: "(str, RuntimeRecord) dict"

text \<open>\<open>manifest.images[target]["image_id"]\<close> of a loaded manifest.\<close>

definition bm_image_id :: "BaselineManifest \<Rightarrow> str \<Rightarrow> exn + json" where
  "bm_image_id m target =
     (case dict_get (bm_images m) target of
        None \<Rightarrow> Inl (key_error target)
      | Some img \<Rightarrow> item_of (JObj img) ''image_id'')"

definition lean_image_id :: "BaselineManifest \<Rightarrow> exn + str" where
  "lean_image_id m = ebind (bm_image_id m ''lean'') (\<lambda>i. Inr (py_str i))"

text \<open>The checksum list: \<open>{name: digest}\<close> of its lines.\<close>

definition sums_line :: "str \<Rightarrow> (str \<times> str) list" where
  "sums_line line = (case partition_str ''  '' line of None \<Rightarrow> [] | Some (digest, name) \<Rightarrow> [(name, digest)])"

definition listed_sums :: "str \<Rightarrow> (str, str) dict" where
  "listed_sums text = foldl (\<lambda>d (k, v). dict_set k v d) [] (concat (map sums_line (splitlines text)))"

definition check_manifest_sum :: "'spec Lib \<Rightarrow> disk \<Rightarrow> str \<Rightarrow> exn + unit" where
  "check_manifest_sum L fs path =
     ebind (read_text fs (path_join path ''SHA256SUMS'')) (\<lambda>listing.
     ebind (read_bytes fs (path_join path ''manifest.json'')) (\<lambda>content.
       if dict_get (listed_sums listing) ''manifest.json'' \<noteq> Some (lb_sha256 L content)
       then Inl (evidence_error (path @ '': manifest.json does not match SHA256SUMS''))
       else Inr ()))"

text \<open>The job scanned the image the manifest names for its target.\<close>

definition check_job_image :: "str \<Rightarrow> json \<Rightarrow> ScanJobEvidence \<Rightarrow> exn + unit" where
  "check_job_image name image_id job =
     (if je_image_ref job = ''docker:'' @ py_str image_id then Inr ()
      else (case image_id of
              JStr i \<Rightarrow>
                if ends_with (je_image_ref job) i then Inr ()
                else Inl (evidence_error (name @ '': scanned '' @ je_image_ref job))
            | _ \<Rightarrow> Inl (Exn ''TypeError'' ''endswith first arg must be str or a tuple of str'')))"

definition load_manifest_job :: "'spec Lib \<Rightarrow> disk \<Rightarrow> str \<Rightarrow> json \<Rightarrow> json \<Rightarrow> exn + (str \<times> ScanJobEvidence)" where
  "load_manifest_job L fs path manifest name_raw =
     ebind (as_str ''split'' name_raw) (\<lambda>name.
     case partition_str ''-'' name of
       None \<Rightarrow> Inl (Exn ''ValueError'' ''not enough values to unpack (expected 2, got 1)'')
     | Some (target, mode) \<Rightarrow>
         ebind (load_scan_job L fs (path_join (path_join path target) mode)) (\<lambda>job.
         ebind (item_of manifest ''images'') (\<lambda>images.
         ebind (item_of images target) (\<lambda>img.
         ebind (item_of img ''image_id'') (\<lambda>image_id.
         ebind (check_job_image name image_id job) (\<lambda>_. Inr (name, job)))))))"

text \<open>\<open>rel in manifest["files"]\<close>.\<close>

definition py_in :: "str \<Rightarrow> json \<Rightarrow> exn + bool" where
  "py_in k j =
     (case j of
        JObj fs \<Rightarrow> Inr (map_of fs k \<noteq> None)
      | JArr xs \<Rightarrow> Inr (JStr k \<in> set xs)
      | JStr s \<Rightarrow> Inr (contains_str s k)
      | _ \<Rightarrow> Inl (Exn ''TypeError'' (''argument of type '' @ repr_str (py_type j) @ '' is not iterable'')))"

definition load_runtime :: "'spec Lib \<Rightarrow> disk \<Rightarrow> str \<Rightarrow> json \<Rightarrow> exn + (str, RuntimeRecord) dict" where
  "load_runtime L fs path files_raw =
     ebind (emap (\<lambda>_ (job, rel, target).
              ebind (py_in rel files_raw) (\<lambda>listed.
                if listed then ebind (load_runtime_record L fs path job) (\<lambda>r. Inr [(job, r)]) else Inr []))
            0 RUNTIME_RECORDS)
       (\<lambda>rs. Inr (concat rs))"

definition obj_field :: "str \<Rightarrow> json \<Rightarrow> exn + (str, json) dict" where
  "obj_field field j = (case j of JObj fs \<Rightarrow> Inr fs | _ \<Rightarrow> Inl (validation_error field))"

definition images_field :: "json \<Rightarrow> exn + (str, (str, json) dict) dict" where
  "images_field j =
     ebind (obj_field ''images'' j)
       (emap (\<lambda>_ (k, v). ebind (obj_field ''images'' v) (\<lambda>d. Inr (k, d))) 0)"

definition load_baseline :: "'spec Lib \<Rightarrow> disk \<Rightarrow> str \<Rightarrow> exn + BaselineManifest" where
  "load_baseline L fs path =
     ebind (load_json L fs (path_join path ''manifest.json'')) (\<lambda>manifest.
     ebind (get_of manifest ''schema'') (\<lambda>schema.
     if \<not> hashable schema then Inl (Exn ''TypeError'' ''unhashable type'')
     else if schema \<notin> JStr ` set MANIFEST_SCHEMAS
     then Inl (evidence_error (path @ '': unexpected manifest schema '' @ py_repr schema)) else
     ebind (item_of manifest ''files'') (\<lambda>files_raw.
     ebind (dict_of files_raw) (\<lambda>files.
     ebind (verify_files L fs path files) (\<lambda>_.
     ebind (check_manifest_sum L fs path) (\<lambda>_.
     ebind (ebind (item_of manifest ''jobs'') iter_of) (\<lambda>names.
     ebind (emap (\<lambda>_. load_manifest_job L fs path manifest) 0 names) (\<lambda>jobs.
     ebind (load_runtime L fs path files_raw) (\<lambda>runtime.
     ebind (item_of manifest ''source_repo'') (\<lambda>repo_raw.
     ebind (item_of manifest ''source_branch'') (\<lambda>branch_raw.
     ebind (item_of manifest ''source_sha'') (\<lambda>sha_raw.
     ebind (item_of manifest ''trigger'') (\<lambda>trigger_raw.
     ebind (item_of manifest ''platform'') (\<lambda>platform_raw.
     ebind (ebind (item_of manifest ''built_at'') (parse_ts L)) (\<lambda>built.
     ebind (ebind (item_of manifest ''captured_at'') (parse_ts L)) (\<lambda>captured.
     ebind (item_of manifest ''images'') (\<lambda>images_raw.
     ebind (item_of manifest ''ci_layer_delta'') (\<lambda>delta_raw.
     ebind (get_of manifest ''run'') (\<lambda>run_raw.
     ebind (dict_of (or_else run_raw (JObj []))) (\<lambda>run.
     ebind (get_of manifest ''gates'') (\<lambda>gates_raw.
     ebind (dict_of (or_else gates_raw (JObj []))) (\<lambda>gates.
     ebind (str_field ''source_repo'' repo_raw) (\<lambda>repo.
     ebind (str_field ''source_branch'' branch_raw) (\<lambda>branch.
     ebind (str_field ''source_sha'' sha_raw) (\<lambda>sha.
     ebind (str_field ''trigger'' trigger_raw) (\<lambda>trigger.
     ebind (str_field ''platform'' platform_raw) (\<lambda>platform.
     ebind (images_field images_raw) (\<lambda>images.
     ebind (obj_field ''ci_layer_delta'' delta_raw) (\<lambda>delta.
     Inr \<lparr>bm_path = path, bm_source_repo = repo, bm_source_branch = branch, bm_source_sha = sha,
          bm_trigger = trigger, bm_platform = platform, bm_built_at = fst built, bm_captured_at = fst captured,
          bm_images = images, bm_ci_layer_delta = delta,
          bm_jobs = foldl (\<lambda>d (k, j). dict_set k j d) [] jobs,
          bm_run = run, bm_gates = gates, bm_runtime = runtime\<rparr>)))))))))))))))))))))))))))))"

section \<open>Source files and requirement pins\<close>

fun every_other :: "'a list \<Rightarrow> 'a list" where
  "every_other [] = []"
| "every_other [x] = [x]"
| "every_other (x # _ # xs) = x # every_other xs"

definition load_source_file :: "'spec Lib \<Rightarrow> disk \<Rightarrow> str \<Rightarrow> str \<Rightarrow> str \<Rightarrow> exn + str" where
  "load_source_file L fs dir sha name =
     (let path = path_join (path_join (path_join (path_join dir ''fixtures'') ''source'') sha) name in
      ebind (read_text fs (path_join (path_parent path) ''SHA256SUMS'')) (\<lambda>text.
      let toks = split_ws text; names = every_other (tl toks); digests = every_other toks in
      if length names \<noteq> length digests then Inl (Exn ''ValueError'' ''zip() argument 2 is longer than argument 1'')
      else
        ebind (read_bytes fs path) (\<lambda>content.
        if dict_get (dict_of_pairs (zip names (map JStr digests))) name \<noteq> Some (JStr (lb_sha256 L content))
        then Inl (evidence_error (path @ '': checksum mismatch ('' @ lb_sha256 L content @ '')''))
        else read_text fs path)))"

definition load_source_pyproject :: "'spec Lib \<Rightarrow> disk \<Rightarrow> str \<Rightarrow> str \<Rightarrow> exn + str" where
  "load_source_pyproject L fs dir sha = load_source_file L fs dir sha ''pyproject.toml''"

text \<open>One line of a pip-compile output: the pin it adds.\<close>

definition pin_of_line :: "str \<Rightarrow> exn + (str \<times> str) option" where
  "pin_of_line raw =
     (let line = strip (before_first CHR ''#'' raw) in
      if line = [] \<or> starts_with line ''-'' then Inr None
      else (case partition_str ''=='' line of
         None \<Rightarrow> Inr None
       | Some (name, version) \<Rightarrow>
           (case split_ws (strip (before_first CHR '';'' version)) of
              [] \<Rightarrow> Inl (Exn ''IndexError'' ''list index out of range'')
            | v # _ \<Rightarrow>
                Inr (Some (replace_char CHR ''_'' ''-'' (lower (strip (before_first CHR ''['' name))), v)))))"

definition parse_requirements_pins :: "str \<Rightarrow> exn + (str, str) dict" where
  "parse_requirements_pins text =
     ebind (emap (\<lambda>_. pin_of_line) 0 (splitlines text))
       (\<lambda>pins. Inr (foldl (\<lambda>d p. case p of None \<Rightarrow> d | Some (k, v) \<Rightarrow> dict_set k v d) [] pins))"

section \<open>What can go wrong\<close>

lemma safe_evidence_errors [safe_intros]:
  "evidence_safe (Inl (Exn ''ValueError'' m))" "evidence_safe (Inl (evidence_error m))"
  "evidence_safe (Inl (vex_error w m))" "evidence_safe (Inl (vex_entry_error w i m))"
  "evidence_safe (Inl (key_error m))" "evidence_safe (Inl (validation_error m))"
  by (simp_all add: evidence_safe_def EVIDENCE_ERRORS_def evidence_error_def vex_error_def vex_entry_error_def
      key_error_def validation_error_def)

lemma safe_case_json [safe_intros]:
  assumes "evidence_safe a" "\<And>b. evidence_safe (f b)" "\<And>i. evidence_safe (g i)" "\<And>q. evidence_safe (h q)"
    "\<And>s. evidence_safe (k s)" "\<And>xs. evidence_safe (l xs)" "\<And>fs. evidence_safe (m fs)"
  shows "evidence_safe (case j of JNull \<Rightarrow> a | JBool b \<Rightarrow> f b | JInt i \<Rightarrow> g i | JFloat q \<Rightarrow> h q | JStr s \<Rightarrow> k s
           | JArr xs \<Rightarrow> l xs | JObj fs \<Rightarrow> m fs)"
  using assms by (cases j) auto

lemma safe_validate_openvex [safe_intros]: "evidence_safe (validate_openvex d w)"
  unfolding validate_openvex_def check_statement_def check_product_def Let_def
  by (intro safe_intros)

lemma safe_load_vex [safe_intros]: "evidence_safe (load_vex_documents L fs p es files)"
  unfolding load_vex_documents_def load_vex_document_def approved_document_def Let_def by (intro safe_intros)

lemma safe_parse_ts [safe_intros]: "evidence_safe (parse_ts L v)" "evidence_safe (parse_ts_opt L v)"
  unfolding parse_ts_def parse_ts_opt_def by (intro safe_intros)+

lemma safe_load_json [safe_intros]: "evidence_safe (load_json L fs p)"
  unfolding load_json_def by (intro safe_intros)

lemma safe_verify_files [safe_intros]: "evidence_safe (verify_files L fs p d)"
  by (induction L fs p d rule: verify_files.induct)
     (auto simp: Let_def evidence_safe_def evidence_error_def EVIDENCE_ERRORS_def split: option.split)

lemma safe_enum_fields [safe_intros]: "evidence_safe (scan_mode_of j)" "evidence_safe (image_target_of j)"
  unfolding scan_mode_of_def image_target_of_def by (intro safe_intros)+

lemma safe_str_values [safe_intros]: "evidence_safe (str_values f d)"
  unfolding str_values_def by (intro safe_intros)

lemma safe_load_tools [safe_intros]: "evidence_safe (load_tools L t g)"
  unfolding load_tools_def by (intro safe_intros)

lemma safe_load_scan_job [safe_intros]: "evidence_safe (load_scan_job L fs p)"
  unfolding load_scan_job_def by (intro safe_intros)

lemma safe_load_runtime_record [safe_intros]: "evidence_safe (load_runtime_record L fs p job)"
  unfolding load_runtime_record_def check_runtime_doc_def by (intro safe_intros)

lemma safe_load_baseline [safe_intros]: "evidence_safe (load_baseline L fs p)"
  unfolding load_baseline_def check_manifest_sum_def load_manifest_job_def check_job_image_def py_in_def
    load_runtime_def images_field_def obj_field_def Let_def
  by (intro safe_intros)

section \<open>What a loaded tree has proved\<close>

definition files_match :: "'spec Lib \<Rightarrow> disk \<Rightarrow> str \<Rightarrow> (str, str) dict \<Rightarrow> bool" where
  "files_match L fs dir files \<longleftrightarrow>
     list_all (\<lambda>(name, digest). map_option (lb_sha256 L) (fs (path_join dir name)) = Some digest) files"

lemma verify_files_str:
  assumes "verify_files L fs dir files = Inr u" and "str_values f files = Inr ds"
  shows "files_match L fs dir ds"
proof -
  have "verify_files L fs dir files = Inr u \<Longrightarrow>
      emap (\<lambda>_ (k, v). ebind (str_field f v) (\<lambda>s. Inr (k, s))) i files = Inr ds \<Longrightarrow> files_match L fs dir ds" for i
    by (induction files arbitrary: i ds)
       (auto simp: files_match_def Let_def ebind_Inr_iff str_field_def split: option.splits if_splits json.splits)
  with assms show ?thesis by (simp add: str_values_def)
qed

text \<open>A loaded job: all its files are as recorded, both scanners ran, and a raw scan suppresses nothing.\<close>

definition job_genuine :: "'spec Lib \<Rightarrow> disk \<Rightarrow> ScanJobEvidence \<Rightarrow> bool" where
  "job_genuine L fs j \<longleftrightarrow>
     files_match L fs (je_path j) (je_files j) \<and>
     je_job_success j = [(''trivy'', True), (''grype'', True), (''config'', True)] \<and>
     (je_mode j = SM_raw \<longrightarrow> je_vex_evidence j = []) \<and>
     (\<forall>d \<in> set (je_vex_evidence j). (ad_evidence_file d, ad_sha256 d) \<in> set (je_files j) \<and>
        path_parent (ad_source_path d) = APPROVED_DIR \<and> approval_of (ad_document d) = Some (ad_approval d) \<and>
        (\<exists>loc. validate_openvex (ad_document d) loc = Inr (ad_statements d)))"

lemma str_values_mem:
  assumes "str_values f files = Inr ds" and "dict_get files k = Some (JStr v)"
  shows "(k, v) \<in> set ds"
proof -
  have "emap (\<lambda>_ (k, v). ebind (str_field f v) (\<lambda>s. Inr (k, s))) i files = Inr ds \<Longrightarrow>
      dict_get files k = Some (JStr v) \<Longrightarrow> (k, v) \<in> set ds" for i
    by (induction files arbitrary: i ds)
       (auto simp: ebind_Inr_iff str_field_def dict_get_def split: if_splits json.splits)
  with assms show ?thesis by (simp add: str_values_def)
qed

lemma load_vex_document_Inr:
  assumes "load_vex_document L fs dir files i entry = Inr d"
  shows "dict_get files (ad_evidence_file d) = Some (JStr (ad_sha256 d))"
    and "path_parent (ad_source_path d) = APPROVED_DIR" and "approval_of (ad_document d) = Some (ad_approval d)"
    and "\<exists>loc. validate_openvex (ad_document d) loc = Inr (ad_statements d)"
proof -
  obtain a b c where abc: "get_of entry ''path'' = Inr a" "get_of entry ''evidence_file'' = Inr b" "get_of entry ''sha256'' = Inr c"
    using assms by (auto simp: load_vex_document_def ebind_Inr_iff Let_def)
  note run = assms [unfolded load_vex_document_def Let_def abc ebind_simps]
  obtain sp where a: "a = JStr sp" using run by (cases a) auto
  note run = run [unfolded a prod.case json.case]
  obtain ef where b: "b = JStr ef" using run by (cases b) auto
  note run = run [unfolded b prod.case json.case]
  obtain digest where c: "c = JStr digest" using run by (cases c) auto
  note run = run [unfolded c prod.case json.case]
  from run have ok: "dict_get files ef = Some (JStr digest)" "approved_path (as_posix sp)"
    by (auto split: if_splits)
  from run obtain document where doc: "approved_document dir i (as_posix sp) ef digest document = Inr d"
    by (auto simp: ebind_Inr_iff split: if_splits)
  from doc ok show "dict_get files (ad_evidence_file d) = Some (JStr (ad_sha256 d))"
    "path_parent (ad_source_path d) = APPROVED_DIR" "approval_of (ad_document d) = Some (ad_approval d)"
    "\<exists>loc. validate_openvex (ad_document d) loc = Inr (ad_statements d)"
    by (auto simp: approved_document_def ebind_Inr_iff approved_path_def split: option.splits json.splits intro!: exI)
qed

lemma load_vex_documents_nil: "load_vex_documents L fs dir [] files = Inr ds \<longleftrightarrow> ds = []"
  by (auto simp: load_vex_documents_def)

lemma load_scan_job_genuine:
  assumes "load_scan_job L fs path = Inr j"
  shows "job_genuine L fs j" and "je_path j = path"
proof -
  from assms obtain files u mode vex_entries vex digests where
    x: "verify_files L fs path files = Inr u" "\<not> (mode = SM_raw \<and> vex_entries \<noteq> [])"
      "load_vex_documents L fs path vex_entries files = Inr vex" "str_values ''files'' files = Inr digests"
    and j: "je_path j = path" "je_mode j = mode" "je_files j = digests" "je_vex_evidence j = vex"
      "je_job_success j = [(''trivy'', True), (''grype'', True), (''config'', True)]"
    unfolding load_scan_job_def ebind_Inr_iff if_Inl_iff
    by (elim exE conjE) (rule that, assumption+, auto)
  show "je_path j = path" by (rule j)
  have d: "(ad_evidence_file d, ad_sha256 d) \<in> set digests \<and> path_parent (ad_source_path d) = APPROVED_DIR \<and>
      approval_of (ad_document d) = Some (ad_approval d) \<and>
      (\<exists>loc. validate_openvex (ad_document d) loc = Inr (ad_statements d))" if "d \<in> set vex" for d
    using emap_Inr_inv [OF x(3) [unfolded load_vex_documents_def] that]
    by (metis load_vex_document_Inr str_values_mem x(4))
  have "je_mode j = SM_raw \<longrightarrow> vex = []" using x(2,3) j(2) by (auto simp: load_vex_documents_nil)
  with d j verify_files_str [OF x(1,4)] show "job_genuine L fs j" by (simp add: job_genuine_def)
qed

lemma load_baseline_jobs:
  assumes "load_baseline L fs path = Inr m" and "dict_get (bm_jobs m) name = Some j"
  shows "job_genuine L fs j"
proof -
  from assms(1) obtain manifest names jobs where
    x: "emap (\<lambda>_. load_manifest_job L fs path manifest) 0 names = Inr jobs"
      "bm_jobs m = foldl (\<lambda>d (k, j). dict_set k j d) [] jobs"
    unfolding load_baseline_def ebind_Inr_iff if_Inl_iff
    by (elim exE conjE) (rule that, assumption, auto)
  have mem: "dict_get (foldl (\<lambda>d (k, j). dict_set k j d) d0 js) name = Some j \<Longrightarrow>
      dict_get d0 name = Some j \<or> (name, j) \<in> set js" for d0 :: "(str, ScanJobEvidence) dict" and js
  proof (induction js arbitrary: d0)
    case (Cons kj js)
    then show ?case using Cons.IH [of "dict_set (fst kj) (snd kj) d0"]
      by (cases kj) (simp add: dict_get_set split: if_splits, blast)
  qed simp
  have "(name, j) \<in> set jobs" using mem [of "[]" jobs] assms(2) x(2) by (auto simp: dict_get_def)
  from emap_Inr_inv [OF x(1) this] obtain nm where "load_manifest_job L fs path manifest nm = Inr (name, j)" by blast
  then obtain p where "load_scan_job L fs p = Inr j"
    by (auto simp: load_manifest_job_def ebind_Inr_iff split: option.splits)
  then show ?thesis by (rule load_scan_job_genuine)
qed

end
