(* ===== verification/Persist.thy ===== *)
theory Persist
  imports Core Evidence
begin

text \<open>
  \<^verbatim>\<open>ingest/persist.py\<close>: one verified scan becomes rows. A \<open>ScanRun\<close>, its jobs and evidence, a finding
  per merged key (opened or refreshed) and the sightings of both scanners, in the state monad of
  \<open>Store\<close>. The unique key of scan jobs is checked as SQLite does.
\<close>

section \<open>What is persisted\<close>

record IngestResult =
  ig_scan_run_id :: nat
  ig_created :: bool
  ig_findings_total :: nat
  ig_findings_new :: nat
  ig_findings_by_kind :: "(str, nat) dict"
  ig_findings_by_severity :: "(str, nat) dict"
  ig_unclassified :: nat
  ig_policy_suppressed :: nat

definition ingest_result :: "nat \<Rightarrow> bool \<Rightarrow> IngestResult" where
  "ingest_result run_id created =
     \<lparr>ig_scan_run_id = run_id, ig_created = created, ig_findings_total = 0, ig_findings_new = 0,
      ig_findings_by_kind = [], ig_findings_by_severity = [], ig_unclassified = 0, ig_policy_suppressed = 0\<rparr>"

definition ingest_summary :: "IngestResult \<Rightarrow> str" where
  "ingest_summary r =
     ''run='' @ show_nat (ig_scan_run_id r) @ '' created='' @ (if ig_created r then ''True'' else ''False'') @
     '' findings='' @ show_nat (ig_findings_total r) @ '' new='' @ show_nat (ig_findings_new r) @
     '' by_kind='' @ repr_counts (ig_findings_by_kind r) @ '' by_severity='' @ repr_counts (ig_findings_by_severity r) @
     '' unclassified='' @ show_nat (ig_unclassified r) @ '' policy_suppressed='' @ show_nat (ig_policy_suppressed r)"

record RunMeta =
  rm_external_run_id :: str
  rm_trigger :: Trigger
  rm_source_repo :: str
  rm_source_branch :: str
  rm_source_sha :: str
  rm_platform :: str
  rm_lean_digest :: "str option"
  rm_ci_digest :: "str option"
  rm_ci_layer_delta :: "(str, json) dict option"
  rm_started_at :: "int option"
  rm_finished_at :: "int option"
  rm_is_baseline :: bool
  rm_run_attempt :: nat
  rm_scan_gate_mode :: GateMode
  rm_primary_target :: ImageTarget
  rm_job_results :: "(str, json) dict"
  rm_workflow :: "(str, json) dict option"

definition trigger_of_value :: "str \<Rightarrow> exn + Trigger" where
  "trigger_of_value s =
     (case find (\<lambda>t. trigger_value t = s)
             [TR_push, TR_pull_request, TR_schedule, TR_workflow_dispatch, TR_replay, TR_fixture] of
        Some t \<Rightarrow> Inr t
      | None \<Rightarrow> Inl (Exn ''ValueError'' (repr_str s @ '' is not a valid Trigger'')))"

definition job_result_ok :: "json \<Rightarrow> bool" where
  "job_result_ok r \<longleftrightarrow> r = JStr ''success''"

section \<open>The jobs of a run\<close>

record JobSelection =
  jb_primary :: "ScanJobEvidence list"
  jb_secondary :: "ScanJobEvidence list"
  jb_raw :: ScanJobEvidence
  jb_policy :: "ScanJobEvidence option"

definition value_error :: "str \<Rightarrow> exn" where
  "value_error m = Exn ''ValueError'' m"

definition scan_subject :: "ScanJobEvidence \<Rightarrow> str \<times> ImageTarget \<times> str \<times> str" where
  "scan_subject j = (je_image_ref j, je_image_target j, je_platform j, je_layer_scope j)"

definition select_jobs :: "RunMeta \<Rightarrow> (str, ScanJobEvidence) dict \<Rightarrow> exn + JobSelection" where
  "select_jobs meta jobs =
     (let primary = filter (\<lambda>j. je_image_target j = rm_primary_target meta) (map snd jobs);
          secondary = filter (\<lambda>j. je_image_target j \<noteq> rm_primary_target meta) (map snd jobs);
          raw_jobs = filter (\<lambda>j. je_mode j = SM_raw) primary;
          policy_jobs = filter (\<lambda>j. je_mode j = SM_policy) primary
      in case raw_jobs of
           [raw] \<Rightarrow>
             if 1 < length policy_jobs
             then Inl (value_error (''expected at most one policy job per run, got '' @ show_nat (length policy_jobs)))
             else if list_ex (\<lambda>j. je_mode j \<noteq> SM_raw) secondary
             then Inl (value_error ''policy scans of a non-primary image target have no consumer'')
             else (case find (\<lambda>j. je_platform j \<noteq> rm_platform meta) secondary of
               Some j \<Rightarrow> Inl (value_error (image_target_value (je_image_target j) @ '' job platform '' @ je_platform j @
                 '' != '' @ rm_platform meta))
             | None \<Rightarrow>
                 if je_platform raw \<noteq> rm_platform meta
                 then Inl (value_error (''raw job platform '' @ je_platform raw @ '' != run platform '' @ rm_platform meta))
                 else let policy = (case policy_jobs of p # _ \<Rightarrow> Some p | [] \<Rightarrow> None) in
                   if (case policy of Some p \<Rightarrow> scan_subject p \<noteq> scan_subject raw | None \<Rightarrow> False)
                   then Inl (value_error ''suppressions of one image cannot speak for another'')
                   else Inr \<lparr>jb_primary = primary, jb_secondary = secondary, jb_raw = raw, jb_policy = policy\<rparr>)
         | _ \<Rightarrow> Inl (value_error (''expected exactly one raw job for '' @ image_target_value (rm_primary_target meta) @
                  '', got '' @ show_nat (length raw_jobs))))"

definition run_succeeded :: "RunMeta \<Rightarrow> (str, ScanJobEvidence) dict \<Rightarrow> bool" where
  "run_succeeded meta jobs \<longleftrightarrow>
     list_all (\<lambda>(name, j). je_all_jobs_succeeded j) jobs \<and> list_all (\<lambda>(name, r). job_result_ok r) (rm_job_results meta)"

definition stamp_json :: "stamp option \<Rightarrow> json" where
  "stamp_json t = (case t of None \<Rightarrow> JNull | Some x \<Rightarrow> JStr (iso_datetime x))"

definition run_tools :: "ToolVersions \<Rightarrow> (str, json) dict" where
  "run_tools t =
     [(''syft'', JStr (tv_syft t)), (''trivy'', JStr (tv_trivy t)), (''grype'', JStr (tv_grype t)),
      (''trivy_db_updated_at'', stamp_json (tv_trivy_db_updated_at t)),
      (''grype_db_built_at'', stamp_json (tv_grype_db_built_at t))]"

definition new_scan_run :: "RunMeta \<Rightarrow> JobSelection \<Rightarrow> bool \<Rightarrow> int \<Rightarrow> nat \<Rightarrow> ScanRun" where
  "new_scan_run meta js succeeded ts run_id =
     \<lparr>sr_id = run_id, sr_external_run_id = rm_external_run_id meta, sr_run_attempt = rm_run_attempt meta,
      sr_trigger = rm_trigger meta, sr_source_repo = rm_source_repo meta, sr_source_branch = rm_source_branch meta,
      sr_source_sha = rm_source_sha meta, sr_platform = rm_platform meta, sr_lean_digest = rm_lean_digest meta,
      sr_ci_digest = rm_ci_digest meta, sr_ci_layer_delta = rm_ci_layer_delta meta,
      sr_tools = run_tools (je_tools (jb_raw js)), sr_scan_gate_mode = rm_scan_gate_mode meta,
      sr_vex_documents = (case jb_policy js of Some p \<Rightarrow> je_vex_documents p | None \<Rightarrow> []),
      sr_status = (if succeeded then SR_complete else SR_incomplete), sr_started_at = rm_started_at meta,
      sr_finished_at = rm_finished_at meta, sr_ingested_at = ts, sr_is_baseline = rm_is_baseline meta,
      sr_workflow = rm_workflow meta, sr_closure_applied_at = None\<rparr>"

section \<open>Job rows\<close>

definition evidence_kind :: "str \<Rightarrow> str" where
  "evidence_kind name =
     (if starts_with name ''sbom'' then ''sbom'' else if starts_with name ''vex/'' then ''vex'' else ''scanner_output'')"

definition add_evidence :: "Env \<Rightarrow> nat \<Rightarrow> str \<Rightarrow> str \<times> str \<Rightarrow> unit M" where
  "add_evidence E run_id dir file =
     bnd (now E) (\<lambda>t. write_db (\<lambda>d. d\<lparr>db_evidence := db_evidence d @
       [\<lparr>er_id = next_id er_id (db_evidence d), er_scan_run_id = Some run_id, er_kind = evidence_kind (fst file),
         er_path = path_join dir (fst file), er_sha256 = snd file, er_created_at = t\<rparr>]\<rparr>))"

text \<open>A second job of one name in one run violates \<open>uq_scan_job_run_name\<close>.\<close>

definition integrity_error :: exn where
  "integrity_error = Exn ''IntegrityError'' ''UNIQUE constraint failed: scan_jobs.scan_run_id, scan_jobs.name''"

definition add_scan_job :: "ScanJob \<Rightarrow> unit M" where
  "add_scan_job j =
     bnd (query (\<lambda>d. list_ex (\<lambda>k. sj_scan_run_id k = sj_scan_run_id j \<and> sj_name k = sj_name j) (db_jobs d))) (\<lambda>taken.
       if taken then raise integrity_error
       else write_db (\<lambda>d. d\<lparr>db_jobs := db_jobs d @ [j\<lparr>sj_id := next_id sj_id (db_jobs d)\<rparr>]\<rparr>))"

definition severity_counts :: "Severity list \<Rightarrow> (str, nat) dict" where
  "severity_counts sevs = foldl (\<lambda>d s. counter_add (severity_value s) d) [] sevs"

definition scanner_job ::
    "nat \<Rightarrow> ScanJobEvidence \<Rightarrow> str \<Rightarrow> str \<Rightarrow> Scanner \<Rightarrow> str \<Rightarrow> str \<Rightarrow> int option \<Rightarrow> str \<Rightarrow> (str, nat) dict \<Rightarrow> ScanJob" where
  "scanner_job run_id job suffix prefix scanner scope version built report counts =
     \<lparr>sj_id = 0, sj_scan_run_id = run_id, sj_name = prefix @ ''-'' @ scan_mode_value (je_mode job) @ suffix,
      sj_scanner = Some scanner, sj_mode = Some (je_mode job), sj_image_target = Some (je_image_target job),
      sj_layer_scope = scope, sj_success = job_succeeded job prefix, sj_tool_version = Some version,
      sj_db_built_at = built, sj_started_at = Some (fst (je_started_at job)), sj_finished_at = Some (je_finished_at job),
      sj_artifact_path = Some (path_join (je_path job) report),
      sj_artifact_sha256 = dict_get (je_files job) report, sj_counts = counts\<rparr>"

definition persist_job_rows :: "Env \<Rightarrow> nat \<Rightarrow> str \<Rightarrow> ScanJobEvidence \<Rightarrow> unit M" where
  "persist_job_rows E run_id suffix job =
     (let t = je_tools job in blk
       [for_each (je_files job) (add_evidence E run_id (je_path job)),
        add_scan_job (scanner_job run_id job suffix ''trivy'' SC_trivy (je_layer_scope job) (tv_trivy t)
          (map_option fst (tv_trivy_db_updated_at t)) ''trivy-vuln.json''
          (severity_counts (map rw_severity (je_trivy_vulns job)))),
        add_scan_job (scanner_job run_id job suffix ''grype'' SC_grype (je_layer_scope job) (tv_grype t)
          (map_option fst (tv_grype_db_built_at t)) ''grype-vuln.json''
          (severity_counts (map rw_severity (je_grype_vulns job)))),
        add_scan_job (scanner_job run_id job suffix ''config'' SC_trivy ''config'' (tv_trivy t) None ''trivy-config.json''
          (dict_set ''iac_config'' (length (je_iac_config job))
            (dict_set ''image_config'' (length (je_image_config job))
              (severity_counts (map rf_severity (je_configs job))))))])"

definition runtime_job :: "nat \<Rightarrow> RunMeta \<Rightarrow> str \<times> json \<Rightarrow> ScanJob" where
  "runtime_job run_id meta r =
     \<lparr>sj_id = 0, sj_scan_run_id = run_id, sj_name = fst r, sj_scanner = None, sj_mode = None, sj_image_target = None,
      sj_layer_scope = ''runtime'', sj_success = job_result_ok (snd r), sj_tool_version = None, sj_db_built_at = None,
      sj_started_at = rm_started_at meta, sj_finished_at = rm_finished_at meta, sj_artifact_path = None,
      sj_artifact_sha256 = None, sj_counts = []\<rparr>"

section \<open>Findings\<close>

text \<open>\<open>_finished_before\<close>: scan chronology; unknown timestamps never reorder.\<close>

definition finished_before :: "ScanRun \<Rightarrow> nat \<Rightarrow> Db \<Rightarrow> bool" where
  "finished_before run other_id d =
     (case sr_finished_at run of
        None \<Rightarrow> False
      | Some t \<Rightarrow>
          other_id \<noteq> sr_id run \<and>
          (case get_row sr_id other_id (db_runs d) of
             None \<Rightarrow> False
           | Some other \<Rightarrow> (case sr_finished_at other of None \<Rightarrow> False | Some t' \<Rightarrow> t < t')))"

definition opening_db :: "ToolVersions \<Rightarrow> int option" where
  "opening_db t =
     (case (tv_trivy_db_updated_at t, tv_grype_db_built_at t) of
        (None, None) \<Rightarrow> None
      | (Some a, None) \<Rightarrow> Some (fst a)
      | (None, Some b) \<Rightarrow> Some (fst b)
      | (Some a, Some b) \<Rightarrow> Some (min (fst a) (fst b)))"

definition new_finding :: "nat \<Rightarrow> ScanJobEvidence \<Rightarrow> NormalizedFinding \<Rightarrow> int \<Rightarrow> nat \<Rightarrow> Finding" where
  "new_finding run_id raw nf ts i =
     \<lparr>fd_id = i, fd_dedupe_key = nf_dedupe_key nf, fd_vuln_id = nf_vuln_id nf, fd_purl = None, fd_pkg_name = None,
      fd_pkg_version = None, fd_ecosystem = EC_unknown, fd_layer = nf_layer nf, fd_image_target = None,
      fd_platform = ''linux/amd64'', fd_resource = None, fd_title = None, fd_severity = SEV_unknown,
      fd_severity_by_scanner = [], fd_severity_disagreement = False, fd_fix_versions_by_scanner = [],
      fd_reported_by_trivy = False, fd_reported_by_grype = False,
      fd_opened_by_trivy = (SC_trivy \<in> set (nf_reported_by nf)),
      fd_opened_by_grype = (SC_grype \<in> set (nf_reported_by nf)), fd_kind = None, fd_risk = RK_normal,
      fd_bound_blocked = False, fd_classification_trace = None, fd_unclassified_reason = None, fd_state = F_open,
      fd_first_seen_run_id = run_id, fd_last_seen_run_id = run_id, fd_opening_db_built_at = opening_db (je_tools raw),
      fd_work_item_id = None, fd_closed_by_run_id = None, fd_created_at = ts, fd_updated_at = ts\<rparr>"

text \<open>
  The description of the run that finished last, and the state: a closed finding stays closed here
  (a reappearance is the controller's to record), an open one follows its classification.
\<close>

definition ingest_state :: "Classification \<Rightarrow> FindingState \<Rightarrow> FindingState" where
  "ingest_state cls s =
     (if s \<in> set CLOSING_FINDING_STATES then s
      else if cl_kind cls = None then F_unclassified
      else if s = F_unclassified then F_open else s)"

definition refresh_finding :: "nat \<Rightarrow> ScanJobEvidence \<Rightarrow> NormalizedFinding \<Rightarrow> Classification \<Rightarrow> int \<Rightarrow> Finding \<Rightarrow> Finding" where
  "refresh_finding run_id raw nf cls ts f =
     f\<lparr>fd_purl := nf_purl nf, fd_pkg_name := nf_pkg_name nf, fd_pkg_version := nf_pkg_version nf,
       fd_ecosystem := nf_ecosystem nf, fd_image_target := Some (je_image_target raw), fd_platform := je_platform raw,
       fd_resource := nf_resource nf, fd_title := nf_title nf, fd_severity := nf_severity nf,
       fd_severity_by_scanner := nf_severity_by_scanner nf, fd_severity_disagreement := severity_disagreement nf,
       fd_fix_versions_by_scanner := nf_fix_versions_by_scanner nf,
       fd_reported_by_trivy := (SC_trivy \<in> set (nf_reported_by nf)),
       fd_reported_by_grype := (SC_grype \<in> set (nf_reported_by nf)), fd_kind := cl_kind cls, fd_risk := cl_risk cls,
       fd_bound_blocked := cl_bound_blocked cls, fd_classification_trace := Some (cl_trace cls),
       fd_unclassified_reason := cl_unclassified_reason cls, fd_last_seen_run_id := run_id, fd_updated_at := ts,
       fd_state := ingest_state cls (fd_state f)\<rparr>"

definition first_seen_in :: "nat \<Rightarrow> Finding \<Rightarrow> Finding" where
  "first_seen_in run_id f = f\<lparr>fd_first_seen_run_id := run_id\<rparr>"

text \<open>\<open>_upsert_finding\<close>: the finding's id, and whether it is new.\<close>

definition upsert_finding ::
    "ScanRun \<Rightarrow> ScanJobEvidence \<Rightarrow> NormalizedFinding \<Rightarrow> Classification \<Rightarrow> int \<Rightarrow> (nat \<times> bool) M" where
  "upsert_finding run raw nf cls ts =
     (let run_id = sr_id run in
      bnd (query (\<lambda>d. find (\<lambda>f. fd_dedupe_key f = nf_dedupe_key nf) (db_findings d))) (\<lambda>r.
      case r of
        None \<Rightarrow>
          bnd (query (\<lambda>d. next_id fd_id (db_findings d))) (\<lambda>i.
          bnd (write_db (\<lambda>d. d\<lparr>db_findings := db_findings d @
                 [refresh_finding run_id raw nf cls ts (new_finding run_id raw nf ts i)]\<rparr>)) (\<lambda>_.
          ret (i, True)))
      | Some f \<Rightarrow>
          bnd (query (finished_before run (fd_first_seen_run_id f))) (\<lambda>earlier.
          bnd (query (finished_before run (fd_last_seen_run_id f))) (\<lambda>stale.
          bnd (write_db (\<lambda>d. d\<lparr>db_findings := update_row fd_id (fd_id f)
                 ((if stale then id else refresh_finding run_id raw nf cls ts) \<circ> (if earlier then first_seen_in run_id else id))
                 (db_findings d)\<rparr>)) (\<lambda>_.
          ret (fd_id f, False))))))"

definition sighting_severity :: "NormalizedFinding \<Rightarrow> Scanner \<Rightarrow> exn + Severity" where
  "sighting_severity nf s =
     (case dict_get (nf_severity_by_scanner nf) (scanner_value s) of
        None \<Rightarrow> Inl (key_error (scanner_value s))
      | Some v \<Rightarrow>
          (case severity_of_value v of
             Some sev \<Rightarrow> Inr sev
           | None \<Rightarrow> Inl (value_error (repr_str v @ '' is not a valid Severity''))))"

definition fix_versions_of :: "NormalizedFinding \<Rightarrow> Scanner \<Rightarrow> str list" where
  "fix_versions_of nf s =
     (case dict_get (nf_fix_versions_by_scanner nf) (scanner_value s) of Some vs \<Rightarrow> vs | None \<Rightarrow> [])"

definition add_sighting ::
    "nat \<Rightarrow> nat \<Rightarrow> Scanner \<Rightarrow> ScanMode \<Rightarrow> bool \<Rightarrow> Severity option \<Rightarrow> str list \<Rightarrow> json option \<Rightarrow> unit M" where
  "add_sighting finding_id run_id scanner mode present severity fixed record' =
     write_db (\<lambda>d. d\<lparr>db_sightings := db_sightings d @
       [\<lparr>sg_id = next_id sg_id (db_sightings d), sg_finding_id = finding_id, sg_scan_run_id = run_id,
         sg_scanner = scanner, sg_mode = mode, sg_present = present, sg_severity = severity,
         sg_fixed_versions = fixed, sg_record = record'\<rparr>]\<rparr>)"

text \<open>
  The sightings of one finding by one scanner: the raw one where it reports it, and with a policy
  scan whether the suppression took it away.
\<close>

definition raw_sighting :: "nat \<Rightarrow> nat \<Rightarrow> NormalizedFinding \<Rightarrow> Scanner \<Rightarrow> unit M" where
  "raw_sighting run_id finding_id nf scanner =
     bnd (lift_exn (sighting_severity nf scanner)) (\<lambda>sev.
       add_sighting finding_id run_id scanner SM_raw True (Some sev) (fix_versions_of nf scanner)
         (dict_get (nf_records nf) (scanner_value scanner)))"

definition policy_sighting :: "nat \<Rightarrow> nat \<Rightarrow> NormalizedFinding option \<Rightarrow> Scanner \<Rightarrow> unit M" where
  "policy_sighting run_id finding_id pnf scanner =
     (case pnf of
        Some p \<Rightarrow>
          if scanner \<in> set (nf_reported_by p)
          then bnd (lift_exn (sighting_severity p scanner)) (\<lambda>sev.
            add_sighting finding_id run_id scanner SM_policy True (Some sev) (fix_versions_of p scanner) None)
          else add_sighting finding_id run_id scanner SM_policy False None [] None
      | None \<Rightarrow> add_sighting finding_id run_id scanner SM_policy False None [] None)"

definition scanner_sightings ::
    "nat \<Rightarrow> nat \<Rightarrow> NormalizedFinding \<Rightarrow> (str, NormalizedFinding) dict option \<Rightarrow> Scanner \<Rightarrow> unit M" where
  "scanner_sightings run_id finding_id nf policy scanner =
     when_ok (scanner \<in> set (nf_reported_by nf))
       (bnd (raw_sighting run_id finding_id nf scanner) (\<lambda>_.
        case policy of
          None \<Rightarrow> skip
        | Some by_key \<Rightarrow> policy_sighting run_id finding_id (dict_get by_key (nf_dedupe_key nf)) scanner))"

section \<open>Ingesting a run\<close>

definition ingest_event :: "str \<Rightarrow> str \<Rightarrow> nat \<Rightarrow> str \<Rightarrow> str \<Rightarrow> str \<Rightarrow> int \<Rightarrow> unit M" where
  "ingest_event actor entity entity_id event to_state reason ts =
     write_db (\<lambda>d. push_event
       \<lparr>el_id = next_id el_id (db_events d), el_ts = ts, el_actor = actor, el_entity_type = entity,
        el_entity_id = entity_id, el_event = event, el_from_state = None, el_to_state = Some to_state,
        el_reason = Some reason, el_evidence_ids = []\<rparr> d)"

definition kind_label :: "Kind option \<Rightarrow> str" where
  "kind_label k = (case k of Some x \<Rightarrow> show_nat (kind_value x) | None \<Rightarrow> ''unclassified'')"

definition count_finding :: "NormalizedFinding \<Rightarrow> Classification \<Rightarrow> bool \<Rightarrow> bool \<Rightarrow> IngestResult \<Rightarrow> IngestResult" where
  "count_finding nf cls is_new suppressed r =
     r\<lparr>ig_findings_new := ig_findings_new r + (if is_new then 1 else 0),
       ig_findings_by_kind := counter_add (kind_label (cl_kind cls)) (ig_findings_by_kind r),
       ig_findings_by_severity := counter_add (severity_value (nf_severity nf)) (ig_findings_by_severity r),
       ig_unclassified := ig_unclassified r + (if cl_kind cls = None then 1 else 0),
       ig_policy_suppressed := ig_policy_suppressed r + (if suppressed then 1 else 0)\<rparr>"

definition ingest_finding ::
    "RunMeta \<Rightarrow> ScanRun \<Rightarrow> ScanJobEvidence \<Rightarrow> (str, NormalizedFinding) dict option \<Rightarrow> int \<Rightarrow> (NormalizedFinding \<Rightarrow> Classification) \<Rightarrow>
       IngestResult \<Rightarrow> NormalizedFinding \<Rightarrow> IngestResult M" where
  "ingest_finding meta run raw policy ts classifier result nf =
     (let cls = classifier nf;
          suppressed = (case policy of None \<Rightarrow> False | Some by_key \<Rightarrow> dict_get by_key (nf_dedupe_key nf) = None) in
      bnd (upsert_finding run raw nf cls ts) (\<lambda>(fid, is_new).
      bnd (for_each [SC_trivy, SC_grype] (scanner_sightings (sr_id run) fid nf policy)) (\<lambda>_.
      bnd (if is_new
           then bnd (fd_row fid) (\<lambda>f. ingest_event ''scanner'' ''finding'' fid ''opened'' (finding_state_value (fd_state f))
                  (''first seen in run '' @ rm_external_run_id meta @ ''; '' @ cl_trace cls) ts)
           else skip) (\<lambda>_.
      ret (count_finding nf cls is_new suppressed result)))))"

definition finding_index :: "ScanJobEvidence \<Rightarrow> (str, NormalizedFinding) dict" where
  "finding_index j = map (\<lambda>nf. (nf_dedupe_key nf, nf)) (normalize (je_vulns j) (je_configs j))"

definition classification_context :: "ScanJobEvidence \<Rightarrow> (str, 'spec) dict \<Rightarrow> 'spec ClassificationContext" where
  "classification_context raw bounds =
     \<lparr>cx_scanner_job_success = [(SC_trivy, job_succeeded raw ''trivy''), (SC_grype, job_succeeded raw ''grype'')],
      cx_upper_bounds = bounds\<rparr>"

definition finish_result :: "nat \<Rightarrow> IngestResult \<Rightarrow> IngestResult" where
  "finish_result n r =
     r\<lparr>ig_findings_total := n, ig_findings_by_kind := sort_key fst (ig_findings_by_kind r),
       ig_findings_by_severity := sort_key fst (ig_findings_by_severity r)\<rparr>"

definition ingest_findings ::
    "'spec packaging \<Rightarrow> RunMeta \<Rightarrow> ScanRun \<Rightarrow> JobSelection \<Rightarrow> (str, 'spec) dict \<Rightarrow> int \<Rightarrow> IngestResult M" where
  "ingest_findings pk meta run js bounds ts =
     (let raw = jb_raw js;
          normalized = normalize (je_vulns raw) (je_configs raw);
          classifier = (\<lambda>nf. classify pk nf (classification_context raw bounds));
          policy = map_option finding_index (jb_policy js) in
      bnd (loop (ingest_finding meta run raw policy ts classifier) (ingest_result (sr_id run) True) normalized) (\<lambda>r.
      let result = finish_result (length normalized) r in
      bnd (ingest_event ''controller'' ''scan_run'' (sr_id run) ''ingested'' (scan_run_status_value (sr_status run))
             (ingest_summary result) ts) (\<lambda>_.
      ret result)))"

definition ingest_run ::
    "Env \<Rightarrow> 'spec packaging \<Rightarrow> RunMeta \<Rightarrow> (str, ScanJobEvidence) dict \<Rightarrow> (str, 'spec) dict \<Rightarrow> int option \<Rightarrow> IngestResult M" where
  "ingest_run E pk meta jobs bounds given_now =
     bnd (case given_now of Some t \<Rightarrow> ret t | None \<Rightarrow> now E) (\<lambda>ts.
     bnd (query (\<lambda>d. find (\<lambda>r. sr_external_run_id r = rm_external_run_id meta) (db_runs d))) (\<lambda>existing.
     case existing of
       Some r \<Rightarrow> ret (ingest_result (sr_id r) False)
     | None \<Rightarrow>
         bnd (lift_exn (select_jobs meta jobs)) (\<lambda>js.
         bnd (query (\<lambda>d. next_id sr_id (db_runs d))) (\<lambda>run_id.
         let run = new_scan_run meta js (run_succeeded meta jobs) ts run_id in
         bnd (write_db (\<lambda>d. d\<lparr>db_runs := db_runs d @ [run]\<rparr>)) (\<lambda>_.
         bnd (for_each (jb_primary js) (persist_job_rows E run_id [])) (\<lambda>_.
         bnd (for_each (jb_secondary js) (\<lambda>j. persist_job_rows E run_id (''@'' @ image_target_value (je_image_target j)) j)) (\<lambda>_.
         bnd (for_each (sort_key fst (rm_job_results meta)) (\<lambda>r. add_scan_job (runtime_job run_id meta r))) (\<lambda>_.
         ingest_findings pk meta run js bounds ts))))))))"

text \<open>The bundled baseline: the same path for a captured manifest.\<close>

definition baseline_meta :: "BaselineManifest \<Rightarrow> exn + RunMeta" where
  "baseline_meta m =
     ebind (trigger_of_value (bm_trigger m)) (\<lambda>trigger.
     ebind (bm_image_id m ''lean'') (\<lambda>lean.
     ebind (bm_image_id m ''ci'') (\<lambda>ci.
     ebind (get_of (JObj (bm_run m)) ''job_results'') (\<lambda>results_raw.
     ebind (dict_of (or_else results_raw (JObj []))) (\<lambda>results.
     Inr \<lparr>rm_external_run_id = ''fixture:'' @ bm_source_sha m, rm_trigger = trigger, rm_source_repo = bm_source_repo m,
          rm_source_branch = bm_source_branch m, rm_source_sha = bm_source_sha m, rm_platform = bm_platform m,
          rm_lean_digest = Some (py_str lean), rm_ci_digest = Some (py_str ci),
          rm_ci_layer_delta = Some (bm_ci_layer_delta m), rm_started_at = Some (bm_built_at m),
          rm_finished_at = Some (bm_captured_at m), rm_is_baseline = True, rm_run_attempt = 1,
          rm_scan_gate_mode = GM_report, rm_primary_target = IT_lean, rm_job_results = results,
          rm_workflow = (if bm_run m = [] then None else Some (bm_run m))\<rparr>)))))"

definition ingest_baseline ::
    "Env \<Rightarrow> 'spec packaging \<Rightarrow> BaselineManifest \<Rightarrow> (str, 'spec) dict \<Rightarrow> IngestResult M" where
  "ingest_baseline E pk m bounds =
     bnd (lift_exn (baseline_meta m)) (\<lambda>meta. write_scope (ingest_run E pk meta (bm_jobs m) bounds None))"

definition kind_counts :: "nat \<Rightarrow> Db \<Rightarrow> (Kind option, nat) dict" where
  "kind_counts run_id d =
     foldl (\<lambda>c f. counter_add (fd_kind f) c) [] (filter (\<lambda>f. fd_last_seen_run_id f = run_id) (db_findings d))"

end
