(* ===== verification/Ci.thy ===== *)
theory Ci
  imports Persist Gate
begin

text \<open>
  \<^verbatim>\<open>ci.py\<close>: what the fork's workflow runs after a scan. The gate of one policy job, the lint of the
  approved VEX documents, the search for scanner ignore files, and the aggregation of the job
  directories into the manifest the intake reads. A source tree is the list of its files; directories
  exist where a file is below them. The aggregation returns the manifest and the tree with the two
  files it writes, or the exception it raises before it writes any.
\<close>

section \<open>Trees\<close>

type_synonym tree = "(str, str) dict"

definition disk_of :: "tree \<Rightarrow> disk" where
  "disk_of t = map_of t"

text \<open>The paths of the files below a directory, relative to it.\<close>

definition files_below :: "tree \<Rightarrow> str \<Rightarrow> str list" where
  "files_below t dir =
     map (\<lambda>p. drop (Suc (length dir)) p) (filter (\<lambda>p. starts_with p (dir @ ''/'')) (fromkeys (map fst t)))"

definition is_dir :: "tree \<Rightarrow> str \<Rightarrow> bool" where
  "is_dir t dir \<longleftrightarrow> files_below t dir \<noteq> []"

text \<open>\<open>sorted(dir.iterdir())\<close>: the names of the entries, files and directories.\<close>

definition dir_entries :: "tree \<Rightarrow> str \<Rightarrow> str list" where
  "dir_entries t dir = sorted_set (map (before_first CHR ''/'') (files_below t dir))"

text \<open>Every file and directory below a directory, relative to it.\<close>

fun prefixes_of :: "str list \<Rightarrow> str list list" where
  "prefixes_of [] = []"
| "prefixes_of (p # ps) = [p] # map ((#) p) (prefixes_of ps)"

definition entries_below :: "tree \<Rightarrow> str \<Rightarrow> str list" where
  "entries_below t dir =
     fromkeys (concat (map (\<lambda>p. map (join ''/'') (prefixes_of (split_on CHR ''/'' p))) (files_below t dir)))"

definition sha256_file :: "'spec Lib \<Rightarrow> disk \<Rightarrow> str \<Rightarrow> exn + str" where
  "sha256_file L fs path = ebind (read_bytes fs path) (\<lambda>c. Inr (lb_sha256 L c))"

text \<open>\<open>p.relative_to(root).as_posix()\<close>.\<close>

definition relative_to :: "str \<Rightarrow> str \<Rightarrow> exn + str" where
  "relative_to p base =
     (if starts_with p (base @ ''/'') then Inr (drop (Suc (length base)) p)
      else Inl (value_error (repr_str p @ '' is not in the subpath of '' @ repr_str base)))"

section \<open>The policy gate of a job\<close>

record GateResult =
  gr_verdict :: GateVerdict
  gr_counts_by_severity :: "(str, int) dict"
  gr_job_dir :: str
  gr_image_ref :: str
  gr_image_target :: str

definition gate_to_dict :: "GateResult \<Rightarrow> (str, json) dict" where
  "gate_to_dict g =
     [(''schema'', JStr ''hardening-loop/gate/v1''), (''mode'', JStr (gate_mode_value (gv_mode (gr_verdict g)))),
      (''passed'', JBool (gv_passed (gr_verdict g))), (''reason'', JStr (gv_reason (gr_verdict g))),
      (''policy_high'', JInt (gv_policy_high (gr_verdict g))),
      (''policy_critical'', JInt (gv_policy_critical (gr_verdict g))),
      (''ready_for_enforce'', JBool (ready_for_enforce (gr_verdict g))),
      (''counts_by_severity'', JObj (map (\<lambda>(k, n). (k, JInt n)) (sort_key fst (gr_counts_by_severity g)))),
      (''job_dir'', JStr (gr_job_dir g)), (''image_ref'', JStr (gr_image_ref g)),
      (''image_target'', JStr (gr_image_target g))]"

definition policy_counts :: "ScanJobEvidence \<Rightarrow> (str, int) dict" where
  "policy_counts job =
     map (\<lambda>(k, n). (k, int n)) (severity_counts (map nf_severity (normalize (je_vulns job) [])))"

definition gate_job :: "'spec Lib \<Rightarrow> disk \<Rightarrow> str \<Rightarrow> GateMode \<Rightarrow> exn + GateResult" where
  "gate_job L fs job_dir mode =
     ebind (load_scan_job L fs job_dir) (\<lambda>job.
     if je_mode job \<noteq> SM_policy
     then Inl (evidence_error (job_dir @ '': gate applies to policy jobs only, this one is '' @ scan_mode_value (je_mode job)))
     else let counts = policy_counts job in
       Inr \<lparr>gr_verdict = gate_verdict mode counts, gr_counts_by_severity = counts, gr_job_dir = job_dir,
            gr_image_ref = je_image_ref job, gr_image_target = image_target_value (je_image_target job)\<rparr>)"

section \<open>The lint of approved VEX documents\<close>

definition NOT_AFFECTED_JUSTIFICATIONS :: "str list" where
  "NOT_AFFECTED_JUSTIFICATIONS =
     [''component_not_present'', ''vulnerable_code_not_present'', ''vulnerable_code_not_in_execute_path'',
      ''vulnerable_code_cannot_be_controlled_by_adversary'', ''inline_mitigations_already_exist'']"

record VexLintReport =
  vl_checked :: "str list"
  vl_problems :: "str list"
  vl_issue_urls :: "(str, str) dict"

definition vl_ok :: "VexLintReport \<Rightarrow> bool" where
  "vl_ok r \<longleftrightarrow> vl_problems r = []"

text \<open>An unambiguous instant: date and time with an explicit UTC offset.\<close>

definition parse_iso :: "'spec Lib \<Rightarrow> str \<Rightarrow> stamp option" where
  "parse_iso L s =
     (if CHR ''T'' \<notin> set s \<and> CHR '' '' \<notin> set s then None
      else (case lb_fromiso L (replace_char CHR ''Z'' ''+00:00'' s) of
              Some (local, Some off) \<Rightarrow> Some (local - off, off)
            | _ \<Rightarrow> None))"

definition nonblank :: "json \<Rightarrow> bool" where
  "nonblank j = (case j of JStr s \<Rightarrow> strip s \<noteq> [] | _ \<Rightarrow> False)"

definition iso_instant :: "'spec Lib \<Rightarrow> json \<Rightarrow> bool" where
  "iso_instant L j = (case j of JStr s \<Rightarrow> parse_iso L s \<noteq> None | _ \<Rightarrow> False)"

definition lint_statement :: "str \<Rightarrow> nat \<Rightarrow> VexStatementSummary \<times> json \<Rightarrow> exn + str list" where
  "lint_statement rel i p =
     (case p of (summary, raw) \<Rightarrow>
        if vs_status summary \<noteq> ''not_affected'' then Inr []
        else
          ebind (get_of raw ''justification'') (\<lambda>justification.
          ebind (get_of raw ''impact_statement'') (\<lambda>impact.
          if \<not> hashable justification then Inl (Exn ''TypeError'' ''unhashable type'')
          else let loc = rel @ '': statement '' @ show_nat i @ '' ('' @ vs_vulnerability summary @ '') not_affected needs a '' in
            Inr ((if justification \<notin> JStr ` set NOT_AFFECTED_JUSTIFICATIONS
                  then [loc @ ''justification from the OpenVEX list, got '' @ py_repr justification] else []) @
                 (if \<not> nonblank impact then [loc @ ''non-empty impact_statement (the reachability argument)''] else [])))))"

text \<open>\<open>m.group(1)\<close> of a URL of the checked shape: the owner and the repository.\<close>

definition issue_repo :: "str \<Rightarrow> str" where
  "issue_repo url =
     (case split_on CHR ''/'' (drop (length ''https://github.com/'') url) of
        owner # name # _ \<Rightarrow> owner @ ''/'' @ name
      | _ \<Rightarrow> [])"

definition lint_header :: "'spec Lib \<Rightarrow> str \<Rightarrow> vex_doc \<Rightarrow> str list" where
  "lint_header L rel doc =
     (if \<not> nonblank (json_or_null (dict_get doc ''author'')) then [rel @ '': OpenVEX `author` is required''] else []) @
     (if \<not> iso_instant L (json_or_null (dict_get doc ''timestamp''))
      then [rel @ '': OpenVEX `timestamp` must be an ISO-8601 timestamp''] else [])"

definition lint_approval ::
    "'spec Lib \<Rightarrow> str \<Rightarrow> vex_doc \<Rightarrow> VexApproval \<Rightarrow> str option \<Rightarrow> str list option \<Rightarrow> str list" where
  "lint_approval L rel doc approval repo approvers =
     (case repo of
        Some r \<Rightarrow>
          if lower (issue_repo (va_issue_url approval)) \<noteq> lower r
          then [rel @ '': x-approval.issue_url points at '' @ issue_repo (va_issue_url approval) @ '', expected '' @ r] else []
      | None \<Rightarrow> []) @
     (case approvers of
        Some xs \<Rightarrow>
          if va_approved_by approval \<notin> set xs
          then [rel @ '': x-approval.approved_by '' @ repr_str (va_approved_by approval) @ '' is not an allowed approver''] else []
      | None \<Rightarrow> []) @
     (if \<not> iso_instant L (json_or_null (jget (json_or_null (dict_get doc ''x-approval'')) ''approved_at''))
      then [rel @ '': x-approval.approved_at must be an ISO-8601 timestamp''] else [])"

definition lint_document ::
    "'spec Lib \<Rightarrow> str \<Rightarrow> vex_doc \<Rightarrow> str option \<Rightarrow> str list option \<Rightarrow> exn + str list \<times> str option" where
  "lint_document L rel doc repo approvers =
     (case validate_openvex doc rel of
        Inl e \<Rightarrow> if exn_type e = ''VexEvidenceError'' then Inr ([exn_msg e], None) else Inl e
      | Inr statements \<Rightarrow>
          let raws = (case json_or_null (dict_get doc ''statements'') of JArr xs \<Rightarrow> xs | _ \<Rightarrow> []) in
          ebind (emap (lint_statement rel) 0 (zip statements raws)) (\<lambda>per_statement.
          let problems = concat per_statement @ lint_header L rel doc in
          case approval_of doc of
            None \<Rightarrow> Inr (problems @ [rel @ '': missing or malformed x-approval '' @
              ''(needs issue_url=https://github.com/<owner>/<repo>/issues/<n>, approved_by)''], None)
          | Some approval \<Rightarrow>
              Inr (problems @ lint_approval L rel doc approval repo approvers, Some (va_issue_url approval))))"

text \<open>The body of the loop of \<open>lint_approved_vex\<close>, on the name of one entry.\<close>

definition lint_entry ::
    "'spec Lib \<Rightarrow> tree \<Rightarrow> str \<Rightarrow> str option \<Rightarrow> str list option \<Rightarrow> VexLintReport \<Rightarrow> str \<Rightarrow> exn + VexLintReport" where
  "lint_entry L t src repo approvers report name =
     (let rel = APPROVED_DIR @ ''/'' @ name; path = src @ ''/'' @ rel;
          checked = report\<lparr>vl_checked := vl_checked report @ [rel]\<rparr>;
          problem = (\<lambda>ps. checked\<lparr>vl_problems := vl_problems checked @ ps\<rparr>) in
      if name \<in> set [''README.md'', ''.gitkeep''] then Inr report
      else if is_dir t path \<or> path_suffix path \<noteq> ''.json''
      then Inr (problem [rel @ '': only *.json OpenVEX documents belong in '' @ APPROVED_DIR @ ''/''])
      else (case ebind (read_bytes (disk_of t) path) (json_loads L) of
          Inl e \<Rightarrow> Inr (problem [rel @ '': not valid JSON ('' @ exn_msg e @ '')''])
        | Inr (JObj doc) \<Rightarrow>
            ebind (lint_document L rel doc repo approvers) (\<lambda>(problems, issue_url).
            Inr ((problem problems)\<lparr>vl_issue_urls :=
              (case issue_url of Some u \<Rightarrow> dict_set rel u (vl_issue_urls report) | None \<Rightarrow> vl_issue_urls report)\<rparr>))
        | Inr _ \<Rightarrow> Inr (problem [rel @ '': expected a JSON object''])))"

fun efold :: "('s \<Rightarrow> 'a \<Rightarrow> exn + 's) \<Rightarrow> 's \<Rightarrow> 'a list \<Rightarrow> exn + 's" where
  "efold f s [] = Inr s"
| "efold f s (x # xs) = ebind (f s x) (\<lambda>s'. efold f s' xs)"

definition lint_approved_vex ::
    "'spec Lib \<Rightarrow> tree \<Rightarrow> str \<Rightarrow> str option \<Rightarrow> str list option \<Rightarrow> exn + VexLintReport" where
  "lint_approved_vex L t src repo approvers =
     (let approved = src @ ''/'' @ APPROVED_DIR; report = \<lparr>vl_checked = [], vl_problems = [], vl_issue_urls = []\<rparr> in
      if \<not> is_dir t approved then Inr report
      else efold (lint_entry L t src repo approvers) report (dir_entries t approved))"

section \<open>Ignore files\<close>

definition FORBIDDEN_IGNORE_FILES :: "str list" where
  "FORBIDDEN_IGNORE_FILES =
     [''.trivyignore'', ''.trivyignore.yaml'', ''.trivyignore.yml'', ''.grype.yaml'', ''.grype.yml'', ''.grype'']"

definition find_ignore_files :: "tree \<Rightarrow> str \<Rightarrow> str list" where
  "find_ignore_files t src =
     sort (concat (map (\<lambda>name. filter (\<lambda>p. path_name p = name \<and> ''node_modules'' \<notin> set (path_parts (src @ ''/'' @ p)))
       (entries_below t src)) FORBIDDEN_IGNORE_FILES))"

section \<open>Registry images\<close>

record RegistryImage =
  ri_target :: ImageTarget
  ri_tag :: str
  ri_digest :: str
  ri_manifest :: "(str, json) dict"
  ri_config :: "(str, json) dict"

text \<open>\<open>int(x)\<close> of a JSON value; a string is an optional sign and digits, which underscores may separate.\<close>

fun int_digits :: "bool \<Rightarrow> str \<Rightarrow> bool" where
  "int_digits after [] = after"
| "int_digits after (c # s) = (if c = CHR ''_'' then after \<and> int_digits False s else is_digit c \<and> int_digits True s)"

definition int_of_str :: "str \<Rightarrow> exn + int" where
  "int_of_str raw =
     (let s = strip raw; neg = starts_with s ''-''; ds = (if neg \<or> starts_with s ''+'' then tl s else s);
          n = int (read_nat (filter (\<lambda>c. c \<noteq> CHR ''_'') ds)) in
      if int_digits False ds then Inr (if neg then - n else n)
      else Inl (value_error (''invalid literal for int() with base 10: '' @ repr_str raw)))"

definition py_int :: "json \<Rightarrow> exn + int" where
  "py_int j =
     (case j of
        JInt i \<Rightarrow> Inr i
      | JBool b \<Rightarrow> Inr (if b then 1 else 0)
      | JFloat q \<Rightarrow> Inr (if q < 0 then - \<lfloor>- q\<rfloor> else \<lfloor>q\<rfloor>)
      | JStr s \<Rightarrow> int_of_str s
      | _ \<Rightarrow> Inl (Exn ''TypeError'' (''int() argument must be a string, a bytes-like object or a real number, not '' @
                  repr_str (py_type j))))"

text \<open>\<open>int(x.get("size") or 0)\<close>, and the layers of the manifest.\<close>

definition size_field :: "json \<Rightarrow> exn + int" where
  "size_field j = ebind (get_of j ''size'') (\<lambda>s. py_int (or_else s (JInt 0)))"

definition config_block :: "RegistryImage \<Rightarrow> json" where
  "config_block img = or_else (json_or_null (dict_get (ri_manifest img) ''config'')) (JObj [])"

definition image_layers :: "RegistryImage \<Rightarrow> exn + json list" where
  "image_layers img = iter_or_empty (json_or_null (dict_get (ri_manifest img) ''layers''))"

definition size_bytes :: "RegistryImage \<Rightarrow> exn + int" where
  "size_bytes img =
     ebind (size_field (config_block img)) (\<lambda>c.
     ebind (image_layers img) (\<lambda>ls.
     ebind (emap (\<lambda>_. size_field) 0 ls) (\<lambda>ns. Inr (c + sum_list ns))))"

definition layer_digests :: "RegistryImage \<Rightarrow> exn + str list" where
  "layer_digests img =
     ebind (image_layers img) (\<lambda>ls. emap (\<lambda>_ l. ebind (item_of l ''digest'') (\<lambda>d. Inr (py_str d))) 0 ls)"

definition registry_to_dict :: "RegistryImage \<Rightarrow> exn + (str, json) dict" where
  "registry_to_dict img =
     (let cfg = or_else (json_or_null (dict_get (ri_config img) ''config'')) (JObj []) in
     ebind (get_of (config_block img) ''digest'') (\<lambda>config_digest.
     ebind (size_bytes img) (\<lambda>size.
     ebind (get_of cfg ''User'') (\<lambda>user.
     ebind (get_of cfg ''Labels'') (\<lambda>labels.
     ebind (layer_digests img) (\<lambda>layers.
     Inr [(''tag'', JStr (ri_tag img)), (''image_id'', JStr (ri_digest img)),
          (''digest_kind'', JStr ''registry_manifest_digest''), (''config_digest'', config_digest),
          (''created'', json_or_null (dict_get (ri_config img) ''created'')), (''size_bytes'', JInt size),
          (''config_user'', user), (''labels'', labels), (''layer_count'', JInt (int (length layers)))]))))))"

definition layer_size :: "json \<Rightarrow> exn + (str \<times> int)" where
  "layer_size l = ebind (item_of l ''digest'') (\<lambda>d. ebind (size_field l) (\<lambda>n. Inr (py_str d, n)))"

definition size_at :: "(str, int) dict \<Rightarrow> str \<Rightarrow> exn + int" where
  "size_at sizes d = (case dict_get sizes d of Some n \<Rightarrow> Inr n | None \<Rightarrow> Inl (key_error d))"

definition layer_delta :: "RegistryImage \<Rightarrow> RegistryImage \<Rightarrow> exn + (str, json) dict" where
  "layer_delta lean ci =
     ebind (layer_digests lean) (\<lambda>lean_layers.
     ebind (layer_digests ci) (\<lambda>ci_layers.
     ebind (ebind (item_of (JObj (ri_manifest ci)) ''layers'') iter_of) (\<lambda>ls.
     ebind (emap (\<lambda>_. layer_size) 0 ls) (\<lambda>sized.
     let ci_sizes = foldl (\<lambda>d (k, v). dict_set k v d) [] sized;
         shared = filter (\<lambda>d. d \<in> set lean_layers) ci_layers;
         ci_only = filter (\<lambda>d. d \<notin> set lean_layers) ci_layers;
         lean_only = filter (\<lambda>d. d \<notin> set ci_layers) lean_layers in
     ebind (emap (\<lambda>_. size_at ci_sizes) 0 ci_only) (\<lambda>extra.
     ebind (size_bytes lean) (\<lambda>lean_size.
     ebind (size_bytes ci) (\<lambda>ci_size.
     Inr [(''layer_digest_kind'', JStr ''registry_compressed''), (''shared_layer_count'', JInt (int (length shared))),
          (''ci_only_layers'', JArr (map JStr ci_only)), (''lean_only_layers'', JArr (map JStr lean_only)),
          (''ci_extra_bytes'', JInt (sum_list extra)), (''lean_size_bytes'', JInt lean_size),
          (''ci_size_bytes'', JInt ci_size),
          (''note'', JStr ''ci = lean + Postgres/DuckDB extras; used only for app-runs integration coverage'')])))))))"

section \<open>The workflow run\<close>

record WorkflowRun =
  wf_run_id :: int
  wf_run_attempt :: int
  wf_event :: str
  wf_workflow_sha :: str
  wf_ref :: str
  wf_gate_mode :: GateMode
  wf_server_url :: str
  wf_head_sha :: "str option"
  wf_job_results :: "(str, str) dict"

definition REQUIRED_RUNTIME_JOBS :: "str list" where "REQUIRED_RUNTIME_JOBS = [''lean-smoke'', ''app-runs'']"
definition DEFAULT_EXPECTED_JOBS :: "str list" where "DEFAULT_EXPECTED_JOBS = [''lean-raw'', ''lean-policy'', ''ci-raw'']"

definition runtime_verified :: "WorkflowRun \<Rightarrow> bool" where
  "runtime_verified run \<longleftrightarrow>
     list_all (\<lambda>j. dict_get (wf_job_results run) j \<noteq> None) REQUIRED_RUNTIME_JOBS \<and>
     list_all (\<lambda>(k, r). r = ''success'') (wf_job_results run)"

definition workflow_url :: "WorkflowRun \<Rightarrow> str \<Rightarrow> str" where
  "workflow_url run repo =
     wf_server_url run @ ''/'' @ repo @ ''/actions/runs/'' @ show_int (wf_run_id run) @ ''/attempts/'' @
     show_int (wf_run_attempt run)"

definition workflow_to_dict :: "WorkflowRun \<Rightarrow> (str, json) dict" where
  "workflow_to_dict run =
     [(''run_id'', JInt (wf_run_id run)), (''run_attempt'', JInt (wf_run_attempt run)), (''event'', JStr (wf_event run)),
      (''workflow_sha'', JStr (wf_workflow_sha run)), (''ref'', JStr (wf_ref run)),
      (''scan_gate_mode'', JStr (gate_mode_value (wf_gate_mode run))),
      (''head_sha'', (case wf_head_sha run of Some s \<Rightarrow> JStr s | None \<Rightarrow> JNull)),
      (''job_results'', JObj (map (\<lambda>(k, r). (k, JStr r)) (sort_key fst (wf_job_results run)))),
      (''runtime_verified'', JBool (runtime_verified run))]"

section \<open>The scan manifest\<close>

type_synonym images = "(ImageTarget, RegistryImage) dict"
type_synonym file_sums = "(str, json) dict"

definition split_name :: "str \<Rightarrow> exn + str \<times> str" where
  "split_name name =
     (case partition_str ''-'' name of
        Some x \<Rightarrow> Inr x
      | None \<Rightarrow> Inl (value_error ''not enough values to unpack (expected 2, got 1)''))"

text \<open>The first loop: one expected job, loaded and compared with what the build pushed.\<close>

definition manifest_job ::
    "'spec Lib \<Rightarrow> disk \<Rightarrow> str \<Rightarrow> str \<Rightarrow> images \<Rightarrow> (str, ScanJobEvidence) dict \<Rightarrow> str \<Rightarrow> exn + (str, ScanJobEvidence) dict" where
  "manifest_job L fs out platform images jobs name =
     ebind (split_name name) (\<lambda>(target, mode).
     let job_dir = path_join (path_join out target) mode in
     if \<not> is_file fs (path_join job_dir ''job.json'')
     then Inl (evidence_error (name @ '': missing evidence at '' @ job_dir @ '' (job failed or not uploaded)''))
     else
       ebind (load_scan_job L fs job_dir) (\<lambda>job.
       ebind (image_target_of (JStr target)) (\<lambda>it.
       case dict_get images it of
         None \<Rightarrow> Inl (evidence_error (name @ '': no registry metadata for image target '' @ target))
       | Some img \<Rightarrow>
           if after_last CHR ''@'' (je_image_ref job) \<noteq> ri_digest img
           then Inl (evidence_error (name @ '': scanned '' @ je_image_ref job @ '', build pushed '' @ ri_digest img))
           else if scan_mode_value (je_mode job) \<noteq> mode \<or> image_target_value (je_image_target job) \<noteq> target
           then Inl (evidence_error (name @ '': job.json says '' @ image_target_value (je_image_target job) @ ''/'' @
             scan_mode_value (je_mode job)))
           else if je_platform job \<noteq> platform
           then Inl (evidence_error (name @ '': platform '' @ je_platform job @ '' != '' @ platform))
           else Inr (dict_set name job jobs))))"

text \<open>The second loop: the job's file digests under its directory, and its \<^verbatim>\<open>job.json\<close> as an entry.\<close>

definition job_file_sums :: "'spec Lib \<Rightarrow> disk \<Rightarrow> ScanJobEvidence \<Rightarrow> str \<Rightarrow> json \<Rightarrow> file_sums \<Rightarrow> exn + file_sums" where
  "job_file_sums L fs job pre raw files =
     ebind (item_of raw ''files'') (\<lambda>raw_files.
     case raw_files of
       JObj ds \<Rightarrow>
         ebind (sha256_file L fs (path_join (je_path job) ''job.json'')) (\<lambda>a.
         ebind (sha256_file L fs (path_join (je_path job) ''SHA256SUMS'')) (\<lambda>b.
         Inr (dict_set (pre @ ''SHA256SUMS'') (JStr b) (dict_set (pre @ ''job.json'') (JStr a)
                (foldl (\<lambda>d (f, digest). dict_set (pre @ f) digest d) files ds)))))
     | _ \<Rightarrow> Inl (attribute_error raw_files ''items''))"

definition job_sums ::
    "'spec Lib \<Rightarrow> disk \<Rightarrow> (str, json) dict \<times> file_sums \<Rightarrow> str \<times> ScanJobEvidence \<Rightarrow> exn + (str, json) dict \<times> file_sums" where
  "job_sums L fs st nj =
     (case (st, nj) of ((entries, files), (name, job)) \<Rightarrow>
       ebind (split_name name) (\<lambda>(target, mode).
       ebind (read_text fs (path_join (je_path job) ''job.json'')) (\<lambda>text.
       ebind (json_loads L text) (\<lambda>raw.
       ebind (job_file_sums L fs job (target @ ''/'' @ mode @ ''/'') raw files) (\<lambda>files'.
       Inr (dict_set name raw entries, files'))))))"

text \<open>A gate verdict must be about the very job it is named for.\<close>

definition gate_entry ::
    "'spec Lib \<Rightarrow> disk \<Rightarrow> str \<Rightarrow> WorkflowRun \<Rightarrow> (str, ScanJobEvidence) dict \<Rightarrow> (str, json) dict \<times> file_sums \<Rightarrow> str \<times> str \<Rightarrow>
       exn + (str, json) dict \<times> file_sums" where
  "gate_entry L fs out run jobs st ng =
     (case (st, ng) of ((gates, files), (name, path)) \<Rightarrow>
       case dict_get jobs name of
         None \<Rightarrow> Inl (evidence_error (''gate '' @ name @ '': no scan job of that name in this run''))
       | Some job \<Rightarrow>
           ebind (read_text fs path) (\<lambda>text.
           ebind (json_loads L text) (\<lambda>gate.
           case gate of
             JObj gs \<Rightarrow>
               let ref = json_or_null (map_of gs ''image_ref''); target = json_or_null (map_of gs ''image_target'');
                   mode = json_or_null (map_of gs ''mode'') in
               if ref \<noteq> JStr (je_image_ref job)
               then Inl (evidence_error (''gate '' @ name @ '': verdict is for '' @ py_str ref @ '', job scanned '' @ je_image_ref job))
               else if target \<noteq> JStr (image_target_value (je_image_target job))
               then Inl (evidence_error (''gate '' @ name @ '': image_target '' @ py_repr target @ '' != '' @ name))
               else if mode \<noteq> JStr (gate_mode_value (wf_gate_mode run))
               then Inl (evidence_error (''gate '' @ name @ '': evaluated in '' @ py_repr mode @ '', run is '' @
                 gate_mode_value (wf_gate_mode run)))
               else
                 ebind (relative_to path out) (\<lambda>rel.
                 ebind (sha256_file L fs path) (\<lambda>digest.
                 Inr (dict_set name gate gates, dict_set rel (JStr digest) files)))
           | _ \<Rightarrow> Inl (evidence_error (''gate '' @ name @ '': '' @ path @ '' is not a JSON object'')))))"

text \<open>The files of an attached directory, in path order.\<close>

definition attach_file ::
    "'spec Lib \<Rightarrow> disk \<Rightarrow> str \<Rightarrow> str \<Rightarrow> str list \<times> file_sums \<Rightarrow> str \<Rightarrow> exn + str list \<times> file_sums" where
  "attach_file L fs out base st f =
     (case st of (listed, files) \<Rightarrow>
       ebind (relative_to (path_join base f) out) (\<lambda>rel.
       ebind (sha256_file L fs (path_join base f)) (\<lambda>digest.
       Inr (listed @ [rel], dict_set rel (JStr digest) files))))"

definition attach_dir ::
    "'spec Lib \<Rightarrow> tree \<Rightarrow> str \<Rightarrow> (str, json) dict \<times> file_sums \<Rightarrow> str \<Rightarrow> exn + (str, json) dict \<times> file_sums" where
  "attach_dir L t out st rel_dir =
     (case st of (attachments, files) \<Rightarrow>
       let base = path_join out rel_dir in
       if \<not> is_dir t base
       then Inl (evidence_error (''attach '' @ rel_dir @ '': '' @ base @ '' is not a directory under '' @ out))
       else
         ebind (efold (attach_file L (disk_of t) out base) ([], files) (sort_key path_parts (files_below t base)))
           (\<lambda>(listed, files').
             if listed = [] then Inl (evidence_error (''attach '' @ rel_dir @ '': no files under '' @ base))
             else Inr (dict_set rel_dir (JArr (map JStr listed)) attachments, files')))"

definition is_full_sha :: "str \<Rightarrow> bool" where
  "is_full_sha s \<longleftrightarrow> length s = 40 \<and>
     list_all (\<lambda>c. is_digit c \<or> (let n = (of_char c :: nat) in 97 \<le> n \<and> n \<le> 102)) s"

text \<open>A runtime job may be recorded as a success only with its own verdict on the image this run built.\<close>

definition check_runtime_claim ::
    "'spec Lib \<Rightarrow> disk \<Rightarrow> str \<Rightarrow> images \<Rightarrow> WorkflowRun \<Rightarrow> file_sums \<Rightarrow> str \<times> str \<times> ImageTarget \<Rightarrow> exn + unit" where
  "check_runtime_claim L fs out images run files claim =
     (case claim of (job, rel, target) \<Rightarrow>
       if dict_get (wf_job_results run) job \<noteq> Some ''success'' then Inr ()
       else if dict_get files rel = None
       then Inl (evidence_error (job @ '': job result is success but '' @ rel @ '' is not attached''))
       else
         ebind (load_runtime_record L fs out job) (\<lambda>record'.
         let pushed = map_option ri_digest (dict_get images target) in
         if pushed \<noteq> Some (rr_digest record')
         then Inl (evidence_error (job @ '': '' @ rel @ '' ran '' @ rr_image_ref record' @ '', build pushed '' @
           (case pushed of Some d \<Rightarrow> d | None \<Rightarrow> ''no '' @ image_target_value target @ '' image'')))
         else if \<not> rr_passed record'
         then Inl (evidence_error (job @ '': job result is success but '' @ rel @ '' reports failed_step='' @
           (case rr_failed_step record' of Some s \<Rightarrow> repr_str s | None \<Rightarrow> ''None'')))
         else Inr ()))"

definition strftime_z :: "stamp \<Rightarrow> str" where
  "strftime_z t = replace_char CHR '' '' ''T'' (take 19 (show_datetime (fst t + snd t))) @ ''Z''"

text \<open>The earliest of a list of instants, the first of equal ones.\<close>

definition min_stamp :: "stamp list \<Rightarrow> exn + stamp" where
  "min_stamp ts =
     (case ts of
        [] \<Rightarrow> Inl (value_error ''min() iterable argument is empty'')
      | t # rest \<Rightarrow> Inr (foldl (\<lambda>a b. if fst b < fst a then b else a) t rest))"

record ManifestRequest =
  mr_source_repo :: str
  mr_source_branch :: str
  mr_source_sha :: str
  mr_platform :: str
  mr_images :: images
  mr_run :: WorkflowRun
  mr_expected_jobs :: "str list"
  mr_gate_files :: "(str, str) dict"
  mr_attach_dirs :: "str list"
  mr_controller_sha :: "str option"

text \<open>Everything before the manifest is put together: the jobs, their entries, the gates, the attachments, the digests.\<close>

record Gathered =
  ga_jobs :: "(str, ScanJobEvidence) dict"
  ga_entries :: "(str, json) dict"
  ga_gates :: "(str, json) dict"
  ga_attachments :: "(str, json) dict"
  ga_files :: file_sums

definition gather :: "'spec Lib \<Rightarrow> tree \<Rightarrow> str \<Rightarrow> ManifestRequest \<Rightarrow> exn + Gathered" where
  "gather L t out q =
     (let fs = disk_of t in
     ebind (efold (manifest_job L fs out (mr_platform q) (mr_images q)) [] (mr_expected_jobs q)) (\<lambda>jobs.
     ebind (efold (job_sums L fs) ([], []) jobs) (\<lambda>(entries, files1).
     ebind (efold (gate_entry L fs out (mr_run q) jobs) ([], files1) (mr_gate_files q)) (\<lambda>(gates, files2).
     ebind (efold (attach_dir L t out) ([], files2) (mr_attach_dirs q)) (\<lambda>(attachments, files3).
     if (case mr_controller_sha q of Some s \<Rightarrow> \<not> is_full_sha s | None \<Rightarrow> False)
     then Inl (evidence_error (''controller sha '' @ show_opt_str (mr_controller_sha q) @ '' is not a full commit sha''))
     else
       ebind (efold (\<lambda>_. check_runtime_claim L fs out (mr_images q) (mr_run q) files3) () RUNTIME_RECORDS) (\<lambda>_.
       Inr \<lparr>ga_jobs = jobs, ga_entries = entries, ga_gates = gates, ga_attachments = attachments,
            ga_files = files3\<rparr>))))))"

definition images_json :: "images \<Rightarrow> exn + json" where
  "images_json images =
     ebind (emap (\<lambda>_ (target, img). ebind (registry_to_dict img) (\<lambda>d. Inr (image_target_value target, JObj d))) 0
              (sort_key (image_target_value \<circ> fst) images))
       (\<lambda>ds. Inr (JObj ds))"

definition delta_json :: "images \<Rightarrow> exn + json" where
  "delta_json images =
     (case (dict_get images IT_lean, dict_get images IT_ci) of
        (Some lean, Some ci) \<Rightarrow> ebind (layer_delta lean ci) (\<lambda>d. Inr (JObj d))
      | _ \<Rightarrow> Inr (JObj []))"

definition manifest_json :: "ManifestRequest \<Rightarrow> Gathered \<Rightarrow> int \<Rightarrow> exn + json" where
  "manifest_json q g t =
     (let run = mr_run q in
     ebind (trigger_of_value (wf_event run)) (\<lambda>trigger.
     ebind (min_stamp (map (je_started_at \<circ> snd) (ga_jobs g))) (\<lambda>built.
     ebind (images_json (mr_images q)) (\<lambda>imgs.
     ebind (delta_json (mr_images q)) (\<lambda>delta.
     Inr (JObj
       [(''schema'', JStr SCAN_MANIFEST_SCHEMA), (''source_repo'', JStr (mr_source_repo q)),
        (''source_branch'', JStr (mr_source_branch q)), (''source_sha'', JStr (mr_source_sha q)),
        (''trigger'', JStr (trigger_value trigger)), (''platform'', JStr (mr_platform q)),
        (''built_at'', JStr (strftime_z built)), (''captured_at'', JStr (strftime_z (t, 0))),
        (''run'', JObj (dict_set ''url'' (JStr (workflow_url run (mr_source_repo q))) (workflow_to_dict run))),
        (''images'', imgs), (''ci_layer_delta'', delta), (''gates'', JObj (ga_gates g)), (''jobs'', JObj (ga_entries g)),
        (''attachments'', JObj (ga_attachments g)),
        (''controller_sha'', (case mr_controller_sha q of Some s \<Rightarrow> JStr s | None \<Rightarrow> JNull)),
        (''files'', JObj (ga_files g))]))))))"

text \<open>
  \<open>write_scan_manifest\<close>: \<open>dumps\<close> is \<open>json.dumps(manifest, indent=2, sort_keys=True)\<close> and \<open>t\<close> the clock.
  The result is the manifest and the tree with \<^verbatim>\<open>manifest.json\<close> and \<^verbatim>\<open>SHA256SUMS\<close> written.
\<close>

definition sums_text :: "file_sums \<Rightarrow> str \<Rightarrow> str" where
  "sums_text files manifest_digest =
     concat (map (\<lambda>(rel, digest). py_str digest @ ''  '' @ rel @ [CHR 0x0A]) (sort_key fst files)) @
     manifest_digest @ ''  manifest.json'' @ [CHR 0x0A]"

definition write_scan_manifest ::
    "'spec Lib \<Rightarrow> (json \<Rightarrow> str) \<Rightarrow> tree \<Rightarrow> str \<Rightarrow> ManifestRequest \<Rightarrow> int \<Rightarrow> exn + json \<times> tree" where
  "write_scan_manifest L dumps t out q time =
     ebind (gather L t out q) (\<lambda>g.
     ebind (manifest_json q g time) (\<lambda>manifest.
     let text = dumps manifest @ [CHR 0x0A] in
     Inr (manifest,
          dict_set (path_join out ''SHA256SUMS'') (sums_text (ga_files g) (lb_sha256 L text))
            (dict_set (path_join out ''manifest.json'') text t))))"

definition is_sha256_digest :: "str \<Rightarrow> bool" where
  "is_sha256_digest s \<longleftrightarrow> starts_with s ''sha256:'' \<and> length s = 71 \<and>
     list_all (\<lambda>c. is_digit c \<or> (let n = (of_char c :: nat) in 97 \<le> n \<and> n \<le> 102)) (drop 7 s)"

definition load_registry_image ::
    "'spec Lib \<Rightarrow> disk \<Rightarrow> ImageTarget \<Rightarrow> str \<Rightarrow> str \<Rightarrow> str \<Rightarrow> str \<Rightarrow> exn + RegistryImage" where
  "load_registry_image L fs target tag digest manifest_path config_path =
     ebind (ebind (read_text fs manifest_path) (json_loads L)) (\<lambda>manifest.
     ebind (ebind (read_text fs config_path) (json_loads L)) (\<lambda>config.
     case manifest of
       JObj m \<Rightarrow>
         if dict_get m ''layers'' = None
         then Inl (evidence_error (manifest_path @ '': not a single-platform image manifest (got an index?)''))
         else (case config of
             JObj c \<Rightarrow>
               if \<not> is_sha256_digest digest
               then Inl (evidence_error (image_target_value target @ '': '' @ repr_str digest @ '' is not a sha256 digest''))
               else Inr \<lparr>ri_target = target, ri_tag = tag, ri_digest = digest, ri_manifest = m, ri_config = c\<rparr>
           | _ \<Rightarrow> Inl (evidence_error (config_path @ '': expected an image config object'')))
     | _ \<Rightarrow> Inl (evidence_error (manifest_path @ '': not a single-platform image manifest (got an index?)''))))"

section \<open>What a written manifest claims\<close>

lemma efold_invariant:
  assumes "efold f s xs = Inr s'" and "P s" and "\<And>s x t. x \<in> set xs \<Longrightarrow> f s x = Inr t \<Longrightarrow> P s \<Longrightarrow> P t"
  shows "P s'"
  using assms by (induction xs arbitrary: s) (auto simp: ebind_Inr_iff)

text \<open>An element's step establishes what later steps keep.\<close>

lemma efold_established:
  assumes "efold f s xs = Inr s'" and "x \<in> set xs" and "\<And>s t. f s x = Inr t \<Longrightarrow> P t"
    and "\<And>s y t. y \<in> set xs \<Longrightarrow> f s y = Inr t \<Longrightarrow> P s \<Longrightarrow> P t"
  shows "P s'"
  using assms
proof (induction xs arbitrary: s)
  case (Cons y ys)
  from Cons.prems(1) obtain t where t: "f s y = Inr t" "efold f t ys = Inr s'" by (auto simp: ebind_Inr_iff)
  show ?case
  proof (cases "x \<in> set ys")
    case True
    show ?thesis
    proof (rule Cons.IH [OF t(2) True])
      show "f s x = Inr t \<Longrightarrow> P t" for s t by (rule Cons.prems(3))
      show "z \<in> set ys \<Longrightarrow> f s z = Inr t \<Longrightarrow> P s \<Longrightarrow> P t" for s z t by (metis Cons.prems(4) list.set_intros(2))
    qed
  next
    case False
    with Cons.prems(2) have "x = y" by simp
    with t Cons.prems(3) have "P t" by blast
    with efold_invariant [OF t(2)] Cons.prems(4) show ?thesis by (metis list.set_intros(2))
  qed
qed simp

text \<open>The named job is loaded evidence of the image that was pushed for its target, in its mode, on the platform.\<close>

definition job_pushed :: "'spec Lib \<Rightarrow> disk \<Rightarrow> str \<Rightarrow> ManifestRequest \<Rightarrow> str \<Rightarrow> ScanJobEvidence \<Rightarrow> bool" where
  "job_pushed L fs out q name job \<longleftrightarrow>
     (\<exists>target mode img. split_name name = Inr (target, mode) \<and>
        load_scan_job L fs (path_join (path_join out target) mode) = Inr job \<and>
        image_target_value (je_image_target job) = target \<and> scan_mode_value (je_mode job) = mode \<and>
        dict_get (mr_images q) (je_image_target job) = Some img \<and>
        after_last CHR ''@'' (je_image_ref job) = ri_digest img \<and> je_platform job = mr_platform q)"

definition claim_proved :: "'spec Lib \<Rightarrow> disk \<Rightarrow> str \<Rightarrow> ManifestRequest \<Rightarrow> file_sums \<Rightarrow> str \<times> str \<times> ImageTarget \<Rightarrow> bool" where
  "claim_proved L fs out q files claim \<longleftrightarrow>
     (case claim of (job, rel, target) \<Rightarrow>
        dict_get (wf_job_results (mr_run q)) job = Some ''success'' \<longrightarrow>
        dict_get files rel \<noteq> None \<and>
        (\<exists>r img. load_runtime_record L fs out job = Inr r \<and> dict_get (mr_images q) target = Some img \<and>
           ri_digest img = rr_digest r \<and> rr_passed r))"

definition gate_matches :: "ManifestRequest \<Rightarrow> ScanJobEvidence \<Rightarrow> json \<Rightarrow> bool" where
  "gate_matches q job gate \<longleftrightarrow>
     jget gate ''image_ref'' = Some (JStr (je_image_ref job)) \<and>
     jget gate ''image_target'' = Some (JStr (image_target_value (je_image_target job))) \<and>
     jget gate ''mode'' = Some (JStr (gate_mode_value (wf_gate_mode (mr_run q))))"

lemma image_target_of_value: "image_target_of (JStr s) = Inr t \<Longrightarrow> image_target_value t = s"
  by (auto simp: image_target_of_def find_Some_iff simp del: find.simps split: option.splits)

lemma image_target_value_inject: "image_target_value a = image_target_value b \<longleftrightarrow> a = b"
  by (cases a; cases b) simp_all

lemma manifest_job_pushed:
  assumes "manifest_job L fs out (mr_platform q) (mr_images q) jobs name = Inr jobs'"
  shows "\<exists>job. jobs' = dict_set name job jobs \<and> job_pushed L fs out q name job"
proof -
  from assms obtain target mode job it where x: "split_name name = Inr (target, mode)"
    "load_scan_job L fs (path_join (path_join out target) mode) = Inr job" "image_target_of (JStr target) = Inr it"
    and rest: "(case dict_get (mr_images q) it of
         None \<Rightarrow> Inl (evidence_error (name @ '': no registry metadata for image target '' @ target))
       | Some img \<Rightarrow>
           if after_last CHR ''@'' (je_image_ref job) \<noteq> ri_digest img
           then Inl (evidence_error (name @ '': scanned '' @ je_image_ref job @ '', build pushed '' @ ri_digest img))
           else if scan_mode_value (je_mode job) \<noteq> mode \<or> image_target_value (je_image_target job) \<noteq> target
           then Inl (evidence_error (name @ '': job.json says '' @ image_target_value (je_image_target job) @ ''/'' @
             scan_mode_value (je_mode job)))
           else if je_platform job \<noteq> mr_platform q
           then Inl (evidence_error (name @ '': platform '' @ je_platform job @ '' != '' @ mr_platform q))
           else Inr (dict_set name job jobs)) = Inr jobs'"
    by (auto simp: manifest_job_def ebind_Inr_iff Let_def split: if_splits)
  from rest image_target_of_value [OF x(3)] show ?thesis
    by (auto simp: job_pushed_def x(1,2) image_target_value_inject split: option.splits if_splits intro!: exI [of _ job])
qed

lemma gather_parts:
  assumes "gather L t out q = Inr g"
  shows "efold (manifest_job L (disk_of t) out (mr_platform q) (mr_images q)) [] (mr_expected_jobs q) = Inr (ga_jobs g)"
    and "\<exists>files1. efold (job_sums L (disk_of t)) ([], []) (ga_jobs g) = Inr (ga_entries g, files1) \<and>
      (\<exists>files2. efold (gate_entry L (disk_of t) out (mr_run q) (ga_jobs g)) ([], files1) (mr_gate_files q) = Inr (ga_gates g, files2) \<and>
         efold (attach_dir L t out) ([], files2) (mr_attach_dirs q) = Inr (ga_attachments g, ga_files g))"
    and "efold (\<lambda>_. check_runtime_claim L (disk_of t) out (mr_images q) (mr_run q) (ga_files g)) () RUNTIME_RECORDS = Inr ()"
  using assms by (auto simp: gather_def Let_def ebind_Inr_iff if_Inl_iff split: prod.splits)

lemma gather_job:
  assumes "gather L t out q = Inr g" and "name \<in> set (mr_expected_jobs q)"
  shows "\<exists>job. dict_get (ga_jobs g) name = Some job \<and> job_pushed L (disk_of t) out q name job"
  by (rule efold_established [OF gather_parts(1) [OF assms(1)] assms(2)])
     (use manifest_job_pushed in \<open>fastforce simp: dict_get_set split: if_splits\<close>)+

lemma check_runtime_claim_proved:
  assumes "check_runtime_claim L fs out (mr_images q) (mr_run q) files claim = Inr u"
  shows "claim_proved L fs out q files claim"
  using assms
  by (auto simp: check_runtime_claim_def claim_proved_def ebind_Inr_iff Let_def split: prod.splits if_splits)

lemma gather_claim:
  assumes "gather L t out q = Inr g" and "claim \<in> set RUNTIME_RECORDS"
  shows "claim_proved L (disk_of t) out q (ga_files g) claim"
  by (rule efold_established [OF gather_parts(3) [OF assms(1)] assms(2)]) (rule check_runtime_claim_proved)

lemma gate_entry_matches:
  assumes "gate_entry L fs out (mr_run q) jobs st ng = Inr st'"
  shows "\<exists>job gate. dict_get jobs (fst ng) = Some job \<and> gate_matches q job gate \<and> fst st' = dict_set (fst ng) gate (fst st)"
proof -
  obtain gates files name path where eqs: "st = (gates, files)" "ng = (name, path)" by (cases st, cases ng) auto
  note run = assms [unfolded gate_entry_def eqs prod.case Let_def]
  obtain job where job: "dict_get jobs name = Some job" using run by (cases "dict_get jobs name") auto
  obtain gate where g: "(case gate of JObj gs \<Rightarrow>
      if json_or_null (map_of gs ''image_ref'') \<noteq> JStr (je_image_ref job)
      then Inl (evidence_error (''gate '' @ name @ '': verdict is for '' @ py_str (json_or_null (map_of gs ''image_ref'')) @ '', job scanned '' @ je_image_ref job))
      else if json_or_null (map_of gs ''image_target'') \<noteq> JStr (image_target_value (je_image_target job))
      then Inl (evidence_error (''gate '' @ name @ '': image_target '' @ py_repr (json_or_null (map_of gs ''image_target'')) @ '' != '' @ name))
      else if json_or_null (map_of gs ''mode'') \<noteq> JStr (gate_mode_value (wf_gate_mode (mr_run q)))
      then Inl (evidence_error (''gate '' @ name @ '': evaluated in '' @ py_repr (json_or_null (map_of gs ''mode'')) @ '', run is '' @
        gate_mode_value (wf_gate_mode (mr_run q))))
      else ebind (relative_to path out) (\<lambda>rel. ebind (sha256_file L fs path) (\<lambda>digest.
             Inr (dict_set name gate gates, dict_set rel (JStr digest) files)))
    | _ \<Rightarrow> Inl (evidence_error (''gate '' @ name @ '': '' @ path @ '' is not a JSON object''))) = Inr st'"
    using run [unfolded job option.case] unfolding ebind_Inr_iff by blast
  obtain gs where gs: "gate = JObj gs" using g by (cases gate) auto
  note g = g [unfolded gs json.case]
  have "gate_matches q job gate" "fst st' = dict_set name gate gates"
    using g by (auto simp: gate_matches_def gs json_or_null_def ebind_Inr_iff split: if_splits option.splits)
  with job show ?thesis by (auto simp: eqs)
qed

lemma gather_gate:
  assumes "gather L t out q = Inr g" and "dict_get (ga_gates g) name = Some gate"
  shows "\<exists>job. dict_get (ga_jobs g) name = Some job \<and> gate_matches q job gate"
proof -
  let ?P = "\<lambda>st. \<forall>gate. dict_get (fst st) name = Some gate \<longrightarrow>
      (\<exists>job. dict_get (ga_jobs g) name = Some job \<and> gate_matches q job gate)"
  obtain files1 files2 where
    "efold (gate_entry L (disk_of t) out (mr_run q) (ga_jobs g)) ([], files1) (mr_gate_files q) = Inr (ga_gates g, files2)"
    using gather_parts(2) [OF assms(1)] by blast
  then have "?P (ga_gates g, files2)"
  proof (rule efold_invariant)
    show "?P st'" if "gate_entry L (disk_of t) out (mr_run q) (ga_jobs g) st ng = Inr st'" "?P st" for st ng st'
      using gate_entry_matches [OF that(1)] that(2) by (auto simp: dict_get_set split: if_splits)
  qed (simp add: dict_get_def)
  with assms(2) show ?thesis by simp
qed

lemma write_scan_manifest_gather:
  "write_scan_manifest L dumps t out q time = Inr (manifest, t') \<Longrightarrow> \<exists>g. gather L t out q = Inr g \<and> manifest_json q g time = Inr manifest"
  by (auto simp: write_scan_manifest_def ebind_Inr_iff Let_def)

end
