(* ===== verification/Negative.thy ===== *)
theory Negative
  imports Ci Protocol
begin

text \<open>
  \<^verbatim>\<open>negative.py\<close>: the operator's negative suite. The mutations of a checkout, the expectation tables, the
  evaluation of check runs, the comparison of raw counts, and the runner that waits for the checks and
  always cleans up. What GitHub answers and what the repository's own generator does are parameters.
\<close>

section \<open>Checks\<close>

definition SCAN_MATRIX_LEGS :: "str list" where
  "SCAN_MATRIX_LEGS = [''scan-lean-raw'', ''scan-lean-policy'', ''scan-ci-raw'']"

definition CHECK_SCAN_MATRIX_TEMPLATE :: str where
  "CHECK_SCAN_MATRIX_TEMPLATE = ''scan-${{ matrix.target }}-${{ matrix.mode }}''"

definition ALL_CHECKS :: "str list" where
  "ALL_CHECKS = [''build-image'', ''forbid-ignore-files'', ''vex-lint'', ''scan-lean-raw'', ''scan-lean-policy'', ''scan-ci-raw'',
     ''policy-gate'', ''lean-smoke'', ''app-runs'', ''scan-manifest'']"

definition MARKER :: str where "MARKER = ''ci-negative''"
definition REGRESSION_PIN :: str where "REGRESSION_PIN = ''urllib3==1.26.4''"
definition BASE_IN_LINE :: str where "BASE_IN_LINE = ''urllib3>=2.6.3,<3.0.0''"

definition mutation_error :: "str \<Rightarrow> exn" where "mutation_error m = Exn ''MutationError'' m"
definition baseline_error :: "str \<Rightarrow> exn" where "baseline_error m = Exn ''BaselineError'' m"

section \<open>Mutations\<close>

text \<open>A mutation edits a tree and returns the paths that changed; \<open>regen\<close> is the requirements generator.\<close>

type_synonym mutation = "(tree \<Rightarrow> exn + tree) \<Rightarrow> str \<Rightarrow> tree \<Rightarrow> exn + tree \<times> str list"

text \<open>\<open>s.splitlines(keepends=True)\<close> of text read with universal newlines.\<close>

fun split_keep_acc :: "str \<Rightarrow> str \<Rightarrow> str list" where
  "split_keep_acc acc [] = (if acc = [] then [] else [rev acc])"
| "split_keep_acc acc (c # s) =
     (if is_line_break c then rev (c # acc) # split_keep_acc [] s else split_keep_acc (c # acc) s)"

definition split_keep :: "str \<Rightarrow> str list" where "split_keep s = split_keep_acc [] s"

text \<open>\<open>s.replace(old, new)\<close> for a nonempty \<open>old\<close>.\<close>

function replace_str :: "str \<Rightarrow> str \<Rightarrow> str \<Rightarrow> str" where
  "replace_str old new s =
     (if s = [] then []
      else if old \<noteq> [] \<and> starts_with s old then new @ replace_str old new (drop (length old) s)
      else hd s # replace_str old new (tl s))"
  by pat_completeness auto
termination
  by (relation "measure (\<lambda>(old, new, s). length s)") (auto simp: neq_Nil_conv)

declare replace_str.simps [simp del]

definition insert_after_stage :: "str list \<Rightarrow> str list option" where
  "insert_after_stage lines =
     (let i = length (takeWhile (\<lambda>l. strip l \<noteq> ''FROM python-common AS lean'') lines) in
      if i = length lines then None
      else Some (take (Suc i) lines @ [''RUN false  # '' @ MARKER @ '': broken-build'' @ [CHR 0x0A]] @ drop (Suc i) lines))"

definition mutate_broken_build :: mutation where
  "mutate_broken_build regen src t =
     ebind (read_text (disk_of t) (path_join src ''Dockerfile'')) (\<lambda>text.
     case insert_after_stage (split_keep text) of
       None \<Rightarrow> Inl (mutation_error ''Dockerfile has no `FROM python-common AS lean` stage'')
     | Some lines \<Rightarrow> Inr (dict_set (path_join src ''Dockerfile'') (concat lines) t, [''Dockerfile'']))"

definition mutate_broken_runtime :: mutation where
  "mutate_broken_runtime regen src t =
     (let config = path_join src ''superset/config.py'' in
      case disk_of t config of
        None \<Rightarrow> Inl (mutation_error ''superset/config.py missing'')
      | Some text \<Rightarrow>
          Inr (dict_set config (text @ [CHR 0x0A] @ ''raise RuntimeError('' @ [CHR 0x22] @ MARKER @ '': broken-runtime'' @
                 [CHR 0x22] @ '')'' @ [CHR 0x0A]) t,
               [''superset/config.py'']))"

definition mutate_dependency_regression :: mutation where
  "mutate_dependency_regression regen src t =
     (let base_in = path_join src ''requirements/base.in''; base_txt = path_join src ''requirements/base.txt'' in
     ebind (read_text (disk_of t) base_in) (\<lambda>text.
     if BASE_IN_LINE \<notin> set (splitlines text)
     then Inl (mutation_error (''requirements/base.in has no `'' @ BASE_IN_LINE @ ''` line to downgrade''))
     else
       let t1 = dict_set base_in (replace_str BASE_IN_LINE REGRESSION_PIN text) t in
       ebind (read_text (disk_of t1) base_txt) (\<lambda>before.
       ebind (regen t1) (\<lambda>t2.
       ebind (read_text (disk_of t2) base_txt) (\<lambda>after.
       if after = before
       then Inl (mutation_error ''scripts/uv-pip-compile.sh did not change requirements/base.txt'')
       else if REGRESSION_PIN \<notin> set (splitlines after)
       then Inl (mutation_error (''regenerated base.txt does not pin '' @ REGRESSION_PIN))
       else Inr (t2, [''requirements/base.in'', ''requirements/base.txt''] @
         (if is_file (disk_of t2) (path_join src ''requirements/development.txt'')
          then [''requirements/development.txt''] else [])))))))"

definition mutate_ignore_file :: mutation where
  "mutate_ignore_file regen src t =
     Inr (dict_set (path_join src ''.trivyignore'')
            (''# '' @ MARKER @ '': forbidden suppression file'' @ [CHR 0x0A] @ ''CVE-2024-0001'' @ [CHR 0x0A]) t,
          [''.trivyignore''])"

definition unapproved_rel :: str where
  "unapproved_rel = ''security/vex/approved/'' @ MARKER @ ''-unapproved.json''"

definition unapproved_doc :: "vex_doc" where
  "unapproved_doc =
     [(''@context'', JStr ''https://openvex.dev/ns/v0.2.0''),
      (''@id'', JStr (''https://github.com/Hunter-1298/superset/'' @ unapproved_rel)),
      (''author'', JStr (MARKER @ '' (nobody approved this)'')), (''timestamp'', JStr ''2026-01-01T00:00:00Z''),
      (''version'', JInt 1),
      (''statements'', JArr [JObj
         [(''vulnerability'', JObj [(''name'', JStr ''CVE-2023-48795'')]),
          (''products'', JArr [JObj [(''@id'', JStr ''pkg:pypi/paramiko@3.5.1'')]]),
          (''status'', JStr ''not_affected''), (''justification'', JStr ''vulnerable_code_not_in_execute_path''),
          (''impact_statement'', JStr (MARKER @ '': placed without an approval issue on purpose''))]])]"

text \<open>\<open>dumps\<close> is \<open>json.dumps(doc, indent=2)\<close>.\<close>

definition mutate_unapproved_vex :: "(json \<Rightarrow> str) \<Rightarrow> mutation" where
  "mutate_unapproved_vex dumps regen src t =
     Inr (dict_set (path_join src unapproved_rel) (dumps (JObj unapproved_doc) @ [CHR 0x0A]) t, [unapproved_rel])"

section \<open>Cases\<close>

record NegativeCase =
  ng_name :: str
  ng_summary :: str
  ng_expect :: "(str, str list) dict"
  ng_mutate :: mutation
  ng_compares_counts :: bool

definition C_SUCCESS :: "str list" where "C_SUCCESS = [''success'']"
definition C_FAILURE :: "str list" where "C_FAILURE = [''failure'']"
definition C_SKIPPED :: "str list" where "C_SKIPPED = [''skipped'']"
definition C_NOT_SUCCESS :: "str list" where "C_NOT_SUCCESS = [''failure'', ''skipped'', ''cancelled'']"

definition case_broken_build :: NegativeCase where
  "case_broken_build =
     \<lparr>ng_name = ''broken-build'',
      ng_summary = ''`RUN false` in the lean stage: build-image must fail and image jobs must skip'',
      ng_expect = [(''build-image'', C_FAILURE), (''forbid-ignore-files'', C_SUCCESS), (''vex-lint'', C_SUCCESS),
        (''scan-lean-raw'', C_SKIPPED), (''scan-lean-policy'', C_SKIPPED), (''scan-ci-raw'', C_SKIPPED),
        (''policy-gate'', C_SKIPPED), (''lean-smoke'', C_SKIPPED), (''app-runs'', C_SKIPPED), (''scan-manifest'', C_NOT_SUCCESS)],
      ng_mutate = mutate_broken_build, ng_compares_counts = False\<rparr>"

definition case_broken_runtime :: NegativeCase where
  "case_broken_runtime =
     \<lparr>ng_name = ''broken-runtime'',
      ng_summary = ''import-time error in superset/config.py: image builds and scans but never starts'',
      ng_expect = [(''build-image'', C_SUCCESS), (''scan-lean-raw'', C_SUCCESS), (''scan-lean-policy'', C_SUCCESS),
        (''scan-ci-raw'', C_SUCCESS), (''lean-smoke'', C_FAILURE), (''app-runs'', C_FAILURE), (''scan-manifest'', C_NOT_SUCCESS)],
      ng_mutate = mutate_broken_runtime, ng_compares_counts = False\<rparr>"

definition case_dependency_regression :: NegativeCase where
  "case_dependency_regression =
     \<lparr>ng_name = ''dependency-regression'',
      ng_summary = REGRESSION_PIN @ '' via requirements/base.in + scripts/uv-pip-compile.sh: report mode '' @
        ''stays green while raw HIGH/CRITICAL counts rise; enforce mode would fail'',
      ng_expect = map (\<lambda>c. (c, C_SUCCESS)) ALL_CHECKS,
      ng_mutate = mutate_dependency_regression, ng_compares_counts = True\<rparr>"

definition case_ignore_file :: NegativeCase where
  "case_ignore_file =
     \<lparr>ng_name = ''ignore-file'', ng_summary = ''.trivyignore at the repo root: forbid-ignore-files and every scan must fail'',
      ng_expect = [(''forbid-ignore-files'', C_FAILURE), (''scan-lean-raw'', C_FAILURE), (''scan-lean-policy'', C_FAILURE),
        (''scan-ci-raw'', C_FAILURE), (''scan-manifest'', C_NOT_SUCCESS)],
      ng_mutate = mutate_ignore_file, ng_compares_counts = False\<rparr>"

definition case_unapproved_vex :: "(json \<Rightarrow> str) \<Rightarrow> NegativeCase" where
  "case_unapproved_vex dumps =
     \<lparr>ng_name = ''unapproved-vex'', ng_summary = ''approved/ OpenVEX without x-approval: vex-lint and the policy scan must fail'',
      ng_expect = [(''vex-lint'', C_FAILURE), (''scan-lean-raw'', C_SUCCESS), (''scan-lean-policy'', C_FAILURE),
        (''policy-gate'', C_NOT_SUCCESS), (''scan-manifest'', C_NOT_SUCCESS)],
      ng_mutate = mutate_unapproved_vex dumps, ng_compares_counts = False\<rparr>"

definition CASES :: "(json \<Rightarrow> str) \<Rightarrow> (str, NegativeCase) dict" where
  "CASES dumps = map (\<lambda>c. (ng_name c, c))
     [case_broken_build, case_broken_runtime, case_dependency_regression, case_ignore_file, case_unapproved_vex dumps]"

definition mutate :: "(json \<Rightarrow> str) \<Rightarrow> str \<Rightarrow> (tree \<Rightarrow> exn + tree) \<Rightarrow> str \<Rightarrow> tree \<Rightarrow> exn + tree \<times> str list" where
  "mutate dumps case_name regen src t =
     (case dict_get (CASES dumps) case_name of
        None \<Rightarrow> Inl (key_error case_name)
      | Some c \<Rightarrow> ng_mutate c regen src t)"

section \<open>Evaluation of the check runs\<close>

definition expand_matrix :: "CheckRun list \<Rightarrow> CheckRun list" where
  "expand_matrix runs =
     concat (map (\<lambda>r. if cr_name r = CHECK_SCAN_MATRIX_TEMPLATE \<and> cr_status r = ''completed'' \<and> cr_conclusion r = Some ''skipped''
       then map (\<lambda>leg. \<lparr>cr_name = leg, cr_status = cr_status r, cr_conclusion = cr_conclusion r, cr_url = None\<rparr>) SCAN_MATRIX_LEGS
       else [r]) runs)"

definition keep_run :: "(str, CheckRun) dict \<Rightarrow> CheckRun \<Rightarrow> (str, CheckRun) dict" where
  "keep_run by_name r =
     (case dict_get by_name (cr_name r) of
        None \<Rightarrow> dict_set (cr_name r) r by_name
      | Some prev \<Rightarrow>
          if cr_status prev \<noteq> ''completed'' \<and> cr_status r = ''completed'' then dict_set (cr_name r) r by_name else by_name)"

definition runs_by_name :: "CheckRun list \<Rightarrow> (str, CheckRun) dict" where
  "runs_by_name runs = foldl keep_run [] (expand_matrix runs)"

definition expectation_failure :: "(str, CheckRun) dict \<Rightarrow> str \<times> str list \<Rightarrow> str list" where
  "expectation_failure by_name e =
     (case e of (name, allowed) \<Rightarrow>
        (case dict_get by_name name of
           None \<Rightarrow> [name @ '': no check run reported'']
         | Some found \<Rightarrow>
             if cr_status found \<noteq> ''completed'' then [name @ '': still '' @ cr_status found]
             else if cr_conclusion found \<notin> Some ` set allowed
             then [name @ '': '' @ (case cr_conclusion found of Some c \<Rightarrow> c | None \<Rightarrow> ''None'') @ '', expected one of '' @
               repr_str_list (sort allowed)]
             else []))"

definition evaluate_case :: "NegativeCase \<Rightarrow> CheckRun list \<Rightarrow> (str, str option) dict \<times> str list" where
  "evaluate_case c runs =
     (let by_name = runs_by_name runs in
      (map (\<lambda>(n, r). (n, cr_conclusion r)) by_name, concat (map (expectation_failure by_name) (ng_expect c))))"

definition all_expected_completed :: "NegativeCase \<Rightarrow> CheckRun list \<Rightarrow> bool" where
  "all_expected_completed c runs \<longleftrightarrow>
     (let names = map cr_name (filter (\<lambda>r. cr_status r = ''completed'') (expand_matrix runs)) in
      list_all (\<lambda>(name, _). name \<in> set names) (ng_expect c))"

section \<open>Counts\<close>

record RawCounts =
  rc_source_sha :: str
  rc_image :: str
  rc_total :: nat
  rc_high_critical :: nat
  rc_by_severity :: "(str, nat) dict"

definition count_at :: "(str, nat) dict \<Rightarrow> str \<Rightarrow> nat" where
  "count_at d k = (case dict_get d k of Some n \<Rightarrow> n | None \<Rightarrow> 0)"

definition raw_counts :: "'spec Lib \<Rightarrow> disk \<Rightarrow> str \<Rightarrow> exn + RawCounts" where
  "raw_counts L fs evidence_root =
     ebind (load_baseline L fs evidence_root) (\<lambda>m.
     case dict_get (bm_jobs m) ''lean-raw'' of
       None \<Rightarrow> Inl (key_error ''lean-raw'')
     | Some job \<Rightarrow>
         let findings = normalize (je_vulns job) []; by_sev = severity_counts (map nf_severity findings) in
         ebind (lean_image_id m) (\<lambda>lean_image.
         Inr \<lparr>rc_source_sha = bm_source_sha m, rc_image = lean_image, rc_total = length findings,
              rc_high_critical = count_at by_sev ''HIGH'' + count_at by_sev ''CRITICAL'',
              rc_by_severity = sort_key fst by_sev\<rparr>))"

definition raw_counts_json :: "RawCounts \<Rightarrow> json" where
  "raw_counts_json c = JObj
     [(''source_sha'', JStr (rc_source_sha c)), (''image'', JStr (rc_image c)), (''total'', JInt (int (rc_total c))),
      (''high_critical'', JInt (int (rc_high_critical c))),
      (''by_severity'', JObj (map (\<lambda>(k, n). (k, JInt (int n))) (rc_by_severity c)))]"

section \<open>GitHub as the runner sees it\<close>

text \<open>
  \<open>ne_check_runs k\<close> is the answer to the k-th listing of the head's check runs, \<open>ne_monotonic k\<close> the k-th
  reading of the monotonic clock; the other answers depend on the request only.
\<close>

record NegEnv =
  ne_create_pr :: "exn + nat \<times> str"
  ne_check_runs :: "nat \<Rightarrow> exn + CheckRun list"
  ne_monotonic :: "nat \<Rightarrow> rat"
  ne_now :: "nat \<Rightarrow> int"
  ne_runs_of_head :: "exn + WorkflowRunInfo list"
  ne_runs_of_base :: "exn + WorkflowRunInfo list"
  ne_artifacts :: "nat \<Rightarrow> exn + ArtifactInfo list"
  ne_download :: "nat \<Rightarrow> str \<Rightarrow> exn + str"
  ne_comment :: "str \<Rightarrow> exn + unit"
  ne_close :: "exn + unit"
  ne_delete :: "exn + unit"
  ne_disk :: disk

record NegRunner =
  nr_base_branch :: str
  nr_timeout_seconds :: rat
  nr_work_dir :: str
  nr_compare_run_id :: "nat option"

definition EVIDENCE_PREFIX :: str where "EVIDENCE_PREFIX = ''scan-evidence-''"

text \<open>The first result of a search through a list that may raise.\<close>

fun first_result :: "('a \<Rightarrow> exn + 'b option) \<Rightarrow> 'a list \<Rightarrow> exn + 'b option" where
  "first_result f [] = Inr None"
| "first_result f (x # xs) = ebind (f x) (\<lambda>r. case r of Some y \<Rightarrow> Inr (Some y) | None \<Rightarrow> first_result f xs)"

definition evidence_of_run :: "NegEnv \<Rightarrow> nat \<Rightarrow> str \<Rightarrow> exn + str option" where
  "evidence_of_run N run_id dest =
     ebind (ne_artifacts N run_id) (first_result (\<lambda>a.
       if starts_with (ai_name a) EVIDENCE_PREFIX
       then ebind (ne_download N (ai_id a) dest) (\<lambda>p. Inr (Some p)) else Inr None))"

definition evidence_for :: "NegEnv \<Rightarrow> NegRunner \<Rightarrow> str \<Rightarrow> exn + str option" where
  "evidence_for N R head_sha =
     ebind (ne_runs_of_head N) (first_result (\<lambda>run.
       if wr_head_sha run \<noteq> head_sha then Inr None
       else evidence_of_run N (wr_id run) (path_join (path_join (nr_work_dir R) ''evidence'') (show_nat (wr_id run)))))"

definition evidence_for_run :: "NegEnv \<Rightarrow> NegRunner \<Rightarrow> nat \<Rightarrow> str \<Rightarrow> exn + str option" where
  "evidence_for_run N R run_id label =
     evidence_of_run N run_id (path_join (path_join (nr_work_dir R) ''evidence'') (label @ ''-'' @ show_nat run_id))"

text \<open>One run of the base branch: None to go on, or the evidence to compare with.\<close>

definition baseline_candidate :: "NegEnv \<Rightarrow> NegRunner \<Rightarrow> WorkflowRunInfo \<Rightarrow> exn + (nat \<times> str option) option" where
  "baseline_candidate N R run =
     (if nr_compare_run_id R \<noteq> None \<and> nr_compare_run_id R \<noteq> Some (wr_id run) then Inr None
      else if wr_conclusion run \<noteq> Some ''success''
      then (if nr_compare_run_id R \<noteq> None
            then Inl (baseline_error (''run '' @ show_nat (wr_id run) @ '' is not a successful security-scan run (conclusion='' @
              (case wr_conclusion run of Some c \<Rightarrow> c | None \<Rightarrow> ''None'') @ '')''))
            else Inr None)
      else
        ebind (evidence_for_run N R (wr_id run) ''main'') (\<lambda>evidence.
        Inr (if evidence \<noteq> None \<or> nr_compare_run_id R \<noteq> None then Some (wr_id run, evidence) else None)))"

definition baseline_evidence :: "NegEnv \<Rightarrow> NegRunner \<Rightarrow> exn + nat option \<times> str option" where
  "baseline_evidence N R =
     ebind (ne_runs_of_base N) (\<lambda>runs.
     ebind (first_result (baseline_candidate N R) runs) (\<lambda>found.
     case found of
       Some (i, evidence) \<Rightarrow> Inr (Some i, evidence)
     | None \<Rightarrow>
         (case nr_compare_run_id R of
            Some i \<Rightarrow> Inl (baseline_error (''run '' @ show_nat i @ '' is not a security-scan run of '' @ nr_base_branch R))
          | None \<Rightarrow> Inr (None, None))))"

definition opt_id_json :: "nat option \<Rightarrow> json" where
  "opt_id_json i = (case i of Some n \<Rightarrow> JInt (int n) | None \<Rightarrow> JNull)"

definition count_failures :: "RawCounts \<Rightarrow> RawCounts \<Rightarrow> str list" where
  "count_failures pr main =
     (if rc_total pr \<le> rc_total main
      then [''raw lean total did not increase: '' @ show_nat (rc_total main) @ '' -> '' @ show_nat (rc_total pr)] else []) @
     (if rc_high_critical pr \<le> rc_high_critical main
      then [''raw lean HIGH+CRITICAL did not increase: '' @ show_nat (rc_high_critical main) @ '' -> '' @
        show_nat (rc_high_critical pr)] else [])"

text \<open>\<open>_compare_counts\<close>: the failures, and the counts that go into the report.\<close>

definition compare_evidence ::
    "'spec Lib \<Rightarrow> NegEnv \<Rightarrow> (str, json) dict \<Rightarrow> str \<Rightarrow> str \<Rightarrow> exn + str list \<times> (str, json) dict" where
  "compare_evidence L N out pr_root main_root =
     (case ebind (raw_counts L (ne_disk N) pr_root) (\<lambda>pr. ebind (raw_counts L (ne_disk N) main_root) (\<lambda>main. Inr (pr, main))) of
        Inl e \<Rightarrow> if exn_type e = ''EvidenceError'' then Inr ([''evidence rejected: '' @ exn_msg e], out) else Inl e
      | Inr (pr, main) \<Rightarrow>
          ebind (gate_job L (ne_disk N) (path_join (path_join pr_root ''lean'') ''policy'') GM_enforce) (\<lambda>enforce.
          Inr (count_failures pr main @
                 (if gv_passed (gr_verdict enforce) then [''enforce-mode gate passed on the regressed policy scan''] else []),
               out @ [(''pr'', raw_counts_json pr), (''main'', raw_counts_json main),
                      (''enforce_verdict'', JObj (gate_to_dict enforce))])))"

definition compare_counts :: "'spec Lib \<Rightarrow> NegEnv \<Rightarrow> NegRunner \<Rightarrow> str \<Rightarrow> exn + str list \<times> (str, json) dict" where
  "compare_counts L N R head_sha =
     ebind (evidence_for N R head_sha) (\<lambda>pr_root.
     case baseline_evidence N R of
       Inl e \<Rightarrow> if exn_type e = ''BaselineError'' then Inr ([''baseline rejected: '' @ exn_msg e], [(''baseline_run_id'', JNull)]) else Inl e
     | Inr (baseline_run_id, main_root) \<Rightarrow>
         let out = [(''baseline_run_id'', opt_id_json baseline_run_id)] in
         (case (pr_root, main_root) of
            (None, _) \<Rightarrow> Inr ([''no scan-evidence artifact for the PR head''], out)
          | (Some p, None) \<Rightarrow>
              Inr ([case nr_compare_run_id R of
                      Some i \<Rightarrow> ''no scan-evidence artifact for run '' @ show_nat i
                    | None \<Rightarrow> ''no successful security-scan run with evidence on '' @ nr_base_branch R], out)
          | (Some p, Some m) \<Rightarrow> compare_evidence L N out p m))"

section \<open>The runner\<close>

record CaseReport =
  rp_case :: str
  rp_summary :: str
  rp_branch :: str
  rp_head_sha :: str
  rp_pr_url :: "str option"
  rp_check_results :: "(str, str option) dict"
  rp_expectation_failures :: "str list"
  rp_counts :: "(str, json) dict"
  rp_passed :: bool
  rp_started_at :: str
  rp_finished_at :: str

definition opt_str_json :: "str option \<Rightarrow> json" where
  "opt_str_json s = (case s of Some x \<Rightarrow> JStr x | None \<Rightarrow> JNull)"

definition report_to_dict :: "CaseReport \<Rightarrow> (str, json) dict" where
  "report_to_dict r =
     [(''schema'', JStr ''hardening-loop/ci-negative-report/v1''), (''case'', JStr (rp_case r)), (''summary'', JStr (rp_summary r)),
      (''branch'', JStr (rp_branch r)), (''head_sha'', JStr (rp_head_sha r)), (''pr_url'', opt_str_json (rp_pr_url r)),
      (''check_results'', JObj (map (\<lambda>(k, v). (k, opt_str_json v)) (sort_key fst (rp_check_results r)))),
      (''expectation_failures'', JArr (map JStr (rp_expectation_failures r))), (''counts'', JObj (rp_counts r)),
      (''passed'', JBool (rp_passed r)), (''started_at'', JStr (rp_started_at r)), (''finished_at'', JStr (rp_finished_at r))]"

datatype NegAction = NA_comment str | NA_close | NA_delete

text \<open>The polling loop, from its k-th listing on; it has no bound but the clock.\<close>

partial_function (option) wait_for_checks :: "NegEnv \<Rightarrow> NegativeCase \<Rightarrow> rat \<Rightarrow> nat \<Rightarrow> (exn + CheckRun list) option" where
  "wait_for_checks N c deadline k =
     (case ne_check_runs N k of
        Inl e \<Rightarrow> Some (Inl e)
      | Inr runs \<Rightarrow>
          if all_expected_completed c runs then Some (Inr runs)
          else if deadline \<le> ne_monotonic N (Suc k) then Some (Inr runs)
          else wait_for_checks N c deadline (Suc k))"

definition verdict_comment :: "CaseReport \<Rightarrow> str" where
  "verdict_comment r =
     ''`'' @ MARKER @ ''` verdict: **'' @ (if rp_passed r then ''PASS'' else ''FAIL'') @ ''**'' @ [CHR 0x0A, CHR 0x0A] @
     join [CHR 0x0A] (map (\<lambda>(k, v). ''- '' @ k @ '': `'' @ (case v of Some x \<Rightarrow> x | None \<Rightarrow> ''None'') @ ''`'')
       (sort_key fst (rp_check_results r))) @
     (if rp_expectation_failures r \<noteq> []
      then [CHR 0x0A, CHR 0x0A] @ join [CHR 0x0A] (map (\<lambda>f. ''- '' @ f) (rp_expectation_failures r)) else [])"

text \<open>The verdict on the check runs the loop ended with, and the comparison of counts where the case has one.\<close>

definition judge_runs :: "'spec Lib \<Rightarrow> NegEnv \<Rightarrow> NegRunner \<Rightarrow> NegativeCase \<Rightarrow> CaseReport \<Rightarrow> CheckRun list \<Rightarrow> exn + CaseReport" where
  "judge_runs L N R c report runs =
     (case evaluate_case c runs of (results, failures) \<Rightarrow>
        ebind (if ng_compares_counts c \<and> failures = [] then compare_counts L N R (rp_head_sha report) else Inr ([], [])) (\<lambda>(more_failures, counts).
        let all = failures @ more_failures in
        Inr (report\<lparr>rp_check_results := results, rp_expectation_failures := all, rp_counts := counts, rp_passed := (all = [])\<rparr>)))"

text \<open>
  \<open>run\<close>: the body, the comment, and what \<open>finally\<close> does whether or not the body raised: the pull request
  is closed and the branch deleted; the exception of the last step that raised is the one that leaves.
  The result is None where the checks are never reported and the clock never reaches the deadline.
\<close>

definition cleaned_up :: "NegEnv \<Rightarrow> (exn + CaseReport) \<times> NegAction list \<Rightarrow> (exn + CaseReport) \<times> NegAction list" where
  "cleaned_up N body =
     (case ne_delete N of
        Inl e \<Rightarrow> Inl e
      | Inr _ \<Rightarrow> (case ne_close N of Inl e \<Rightarrow> Inl e | Inr _ \<Rightarrow> fst body),
      snd body @ [NA_close, NA_delete])"

definition run_case ::
    "'spec Lib \<Rightarrow> NegEnv \<Rightarrow> NegRunner \<Rightarrow> NegativeCase \<Rightarrow> str \<Rightarrow> str \<Rightarrow> ((exn + CaseReport) \<times> NegAction list) option" where
  "run_case L N R c branch head_sha =
     (case ne_create_pr N of
        Inl e \<Rightarrow> Some (Inl e, [])
      | Inr (number, url) \<Rightarrow>
          let report = \<lparr>rp_case = ng_name c, rp_summary = ng_summary c, rp_branch = branch, rp_head_sha = head_sha,
                rp_pr_url = Some url, rp_check_results = [], rp_expectation_failures = [], rp_counts = [], rp_passed = False,
                rp_started_at = iso_seconds (ne_now N 0), rp_finished_at = iso_seconds (ne_now N 1)\<rparr> in
          map_option (\<lambda>waited. cleaned_up N
            (case ebind waited (judge_runs L N R c report) of
               Inl e \<Rightarrow> (Inl e, [])
             | Inr r \<Rightarrow>
                 (case ne_comment N (verdict_comment r) of
                    Inl e \<Rightarrow> (Inl e, [NA_comment (verdict_comment r)])
                  | Inr _ \<Rightarrow> (Inr r, [NA_comment (verdict_comment r)]))))
            (wait_for_checks N c (ne_monotonic N 0 + nr_timeout_seconds R) 0))"

section \<open>The wait ends and the branch goes\<close>

lemma wait_ends:
  assumes "\<exists>j \<ge> k. deadline \<le> ne_monotonic N (Suc j)"
  shows "\<exists>r. wait_for_checks N c deadline k = Some r"
proof -
  obtain j where "k \<le> j" "deadline \<le> ne_monotonic N (Suc j)" using assms by blast
  then show ?thesis
  proof (induction "j - k" arbitrary: k)
    case 0
    then show ?case by (subst wait_for_checks.simps) (auto split: sum.split)
  next
    case (Suc n)
    then have "\<exists>r. wait_for_checks N c deadline (Suc k) = Some r" by (intro Suc.hyps(1)) auto
    then show ?case by (subst wait_for_checks.simps) (auto split: sum.split)
  qed
qed

lemma run_case_cleans_up:
  assumes "run_case L N R c branch head_sha = Some (r, actions)" and "ne_create_pr N = Inr pr"
  shows "\<exists>before. actions = before @ [NA_close, NA_delete]"
  using assms by (auto simp: run_case_def cleaned_up_def Let_def split: prod.splits)

lemma run_case_returns:
  assumes "\<exists>j. ne_monotonic N 0 + nr_timeout_seconds R \<le> ne_monotonic N (Suc j)"
  shows "\<exists>r actions. run_case L N R c branch head_sha = Some (r, actions)"
proof -
  have "\<exists>r. wait_for_checks N c (ne_monotonic N 0 + nr_timeout_seconds R) 0 = Some r"
    by (rule wait_ends) (use assms in auto)
  then obtain r where r: "wait_for_checks N c (ne_monotonic N 0 + nr_timeout_seconds R) 0 = Some r" ..
  show ?thesis
  proof (cases "ne_create_pr N")
    case (Inl e)
    then show ?thesis by (simp add: run_case_def)
  next
    case (Inr pr)
    obtain number url where "pr = (number, url)" by (cases pr)
    with Inr r show ?thesis by (simp add: run_case_def Let_def cleaned_up_def)
  qed
qed

section \<open>A passed case met its expectations\<close>

lemma evaluate_case_nil:
  assumes "snd (evaluate_case c runs) = []" and "(name, allowed) \<in> set (ng_expect c)"
  shows "\<exists>r conclusion. dict_get (runs_by_name runs) name = Some r \<and> cr_status r = ''completed'' \<and>
    cr_conclusion r = Some conclusion \<and> conclusion \<in> set allowed"
proof -
  have "expectation_failure (runs_by_name runs) (name, allowed) = []"
    using assms by (auto simp: evaluate_case_def Let_def)
  then show ?thesis by (auto simp: expectation_failure_def split: option.splits if_splits)
qed

definition named_in :: "CheckRun set \<Rightarrow> (str, CheckRun) dict \<Rightarrow> bool" where
  "named_in A d \<longleftrightarrow> (\<forall>n r. dict_get d n = Some r \<longrightarrow> r \<in> A \<and> cr_name r = n)"

lemma keep_run_named: "named_in A d \<Longrightarrow> r \<in> A \<Longrightarrow> named_in A (keep_run d r)"
  unfolding named_in_def keep_run_def by (simp add: dict_get_set split: option.split if_split)

lemma foldl_keep_run_named: "named_in A d \<Longrightarrow> set rs \<subseteq> A \<Longrightarrow> named_in A (foldl keep_run d rs)"
  by (induction rs arbitrary: d) (auto intro: keep_run_named)

lemma runs_by_name_mem:
  assumes "dict_get (runs_by_name runs) name = Some r"
  shows "r \<in> set (expand_matrix runs) \<and> cr_name r = name"
proof -
  have "named_in (set (expand_matrix runs)) (runs_by_name runs)"
    unfolding runs_by_name_def by (rule foldl_keep_run_named) (simp_all add: named_in_def dict_get_def)
  with assms show ?thesis by (simp add: named_in_def)
qed

end
