(* ===== verification/CiFacts.thy ===== *)
theory CiFacts
  imports Negative
begin

text \<open>
  What the tools of \<^verbatim>\<open>ci.py\<close> and \<^verbatim>\<open>negative.py\<close> establish: a clean lint, the claims of a written manifest, the
  files a mutation leaves for the lint and the ignore-file check to find, and a passed negative case.
\<close>

section \<open>A clean lint\<close>

text \<open>What the lint of one document checks, given that it found nothing wrong.\<close>

definition suppression_argued :: "json \<Rightarrow> bool" where
  "suppression_argued st \<longleftrightarrow>
     jget st ''status'' = Some (JStr ''not_affected'') \<longrightarrow>
     jget st ''justification'' \<in> Some ` JStr ` set NOT_AFFECTED_JUSTIFICATIONS \<and>
     (\<exists>s. jget st ''impact_statement'' = Some (JStr s) \<and> strip s \<noteq> [])"

definition lint_passed :: "str \<Rightarrow> vex_doc \<Rightarrow> str option \<Rightarrow> str list option \<Rightarrow> bool" where
  "lint_passed rel doc repo approvers \<longleftrightarrow>
     (\<exists>approval. approval_of doc = Some approval \<and>
        (\<forall>r. repo = Some r \<longrightarrow> lower (issue_repo (va_issue_url approval)) = lower r) \<and>
        (\<forall>xs. approvers = Some xs \<longrightarrow> va_approved_by approval \<in> set xs)) \<and>
     (\<exists>sts statements. dict_get doc ''statements'' = Some (JArr sts) \<and> validate_openvex doc rel = Inr statements \<and>
        list_all suppression_argued sts)"

lemma emap_silent:
  "emap f i xs = Inr yss \<Longrightarrow> concat yss = [] \<Longrightarrow> x \<in> set xs \<Longrightarrow> \<exists>j. f j x = Inr []"
  by (induction f i xs arbitrary: yss rule: emap.induct) (auto simp: ebind_Inr_iff)

lemma emap_zip:
  "emap f i xs = Inr ys \<Longrightarrow> x \<in> set xs \<Longrightarrow> \<exists>j y. (y, x) \<in> set (zip ys xs) \<and> f j x = Inr y"
  by (induction f i xs arbitrary: ys rule: emap.induct) (auto simp: ebind_Inr_iff, blast+)

lemma check_statement_status:
  assumes "check_statement w i st = Inr s" and "jget st ''status'' = Some (JStr x)"
  shows "vs_status s = x"
  using assms
  by (auto simp: check_statement_def Let_def ebind_Inr_iff json_or_null_def py_str_def split: json.splits option.splits if_splits)

lemma lint_statement_silent:
  assumes "lint_statement rel i (s, st) = Inr []" and "vs_status s = ''not_affected''"
  shows "jget st ''justification'' \<in> Some ` JStr ` set NOT_AFFECTED_JUSTIFICATIONS \<and>
    (\<exists>x. jget st ''impact_statement'' = Some (JStr x) \<and> strip x \<noteq> [])"
  using assms
  by (auto simp: lint_statement_def Let_def ebind_Inr_iff get_of_def nonblank_def split: json.splits option.splits if_splits)

lemma lint_statements_argued:
  assumes "emap (check_statement w) 0 sts = Inr ss" and "emap (lint_statement rel) 0 (zip ss sts) = Inr pss" and "concat pss = []"
  shows "list_all suppression_argued sts"
  unfolding list_all_iff
proof
  fix st assume "st \<in> set sts"
  from emap_zip [OF assms(1) this] obtain i s where s: "(s, st) \<in> set (zip ss sts)" "check_statement w i st = Inr s" by blast
  from emap_silent [OF assms(2,3) s(1)] obtain j where "lint_statement rel j (s, st) = Inr []" by blast
  with lint_statement_silent check_statement_status [OF s(2)] show "suppression_argued st"
    unfolding suppression_argued_def by blast
qed

lemma validate_openvex_statements:
  "validate_openvex doc w = Inr ss \<Longrightarrow> \<exists>sts. dict_get doc ''statements'' = Some (JArr sts) \<and> emap (check_statement w) 0 sts = Inr ss"
  by (auto simp: validate_openvex_def Let_def split: json.splits option.splits if_splits)

lemma lint_document_clean:
  assumes "lint_document L rel doc repo approvers = Inr ([], url)"
  shows "lint_passed rel doc repo approvers"
proof -
  obtain ss where ss: "validate_openvex doc rel = Inr ss"
    using assms by (cases "validate_openvex doc rel") (auto simp: lint_document_def split: if_splits)
  obtain sts where sts: "dict_get doc ''statements'' = Some (JArr sts)" "emap (check_statement rel) 0 sts = Inr ss"
    using validate_openvex_statements [OF ss] by blast
  obtain pss approval where lint: "emap (lint_statement rel) 0 (zip ss sts) = Inr pss" "concat pss = []"
    "approval_of doc = Some approval" "lint_approval L rel doc approval repo approvers = []"
    using assms unfolding lint_document_def ss sum.case sts(1)
    by (auto simp: ebind_Inr_iff Let_def json_or_null_def split: option.splits)
  have "(\<forall>r. repo = Some r \<longrightarrow> lower (issue_repo (va_issue_url approval)) = lower r) \<and>
      (\<forall>xs. approvers = Some xs \<longrightarrow> va_approved_by approval \<in> set xs)"
    using lint(4) by (auto simp: lint_approval_def split: option.splits if_splits)
  with ss sts lint lint_statements_argued [OF sts(2) lint(1,2)] show ?thesis unfolding lint_passed_def by blast
qed

text \<open>Problems are only added.\<close>

lemma lint_entry_clean:
  assumes "lint_entry L t src repo approvers report name = Inr report'" and "vl_ok report'"
  shows "vl_ok report"
    and "name \<notin> set [''README.md'', ''.gitkeep''] \<Longrightarrow>
      \<exists>text doc. disk_of t (src @ ''/'' @ APPROVED_DIR @ ''/'' @ name) = Some text \<and> lb_json L text = Some (JObj doc) \<and>
        lint_passed (APPROVED_DIR @ ''/'' @ name) doc repo approvers"
  using assms
   by (auto simp: lint_entry_def Let_def vl_ok_def ebind_Inr_iff read_bytes_def json_loads_def
      split: if_splits sum.splits json.splits option.splits intro!: lint_document_clean)

lemma lint_entries_clean:
  assumes "efold (lint_entry L t src repo approvers) report names = Inr report'" and "vl_ok report'"
    and "name \<in> set names" and "name \<notin> set [''README.md'', ''.gitkeep'']"
  shows "\<exists>text doc. disk_of t (src @ ''/'' @ APPROVED_DIR @ ''/'' @ name) = Some text \<and> lb_json L text = Some (JObj doc) \<and>
     lint_passed (APPROVED_DIR @ ''/'' @ name) doc repo approvers"
proof -
  let ?P = "\<lambda>r. vl_ok r \<longrightarrow> (\<exists>text doc. disk_of t (src @ ''/'' @ APPROVED_DIR @ ''/'' @ name) = Some text \<and>
     lb_json L text = Some (JObj doc) \<and> lint_passed (APPROVED_DIR @ ''/'' @ name) doc repo approvers)"
  have "?P report'"
    by (rule efold_established [OF assms(1,3)]) (use lint_entry_clean assms(4) in blast)+
  with assms(2) show ?thesis by blast
qed

lemma lint_approved_clean:
  assumes "lint_approved_vex L t src repo approvers = Inr report" and "vl_ok report"
    and "name \<in> set (dir_entries t (src @ ''/'' @ APPROVED_DIR))" and "name \<notin> set [''README.md'', ''.gitkeep'']"
  shows "\<exists>text doc. disk_of t (src @ ''/'' @ APPROVED_DIR @ ''/'' @ name) = Some text \<and> lb_json L text = Some (JObj doc) \<and>
     lint_passed (APPROVED_DIR @ ''/'' @ name) doc repo approvers"
proof -
  have "is_dir t (src @ ''/'' @ APPROVED_DIR)" using assms(3) by (auto simp: is_dir_def dir_entries_def)
  with assms(1) obtain r where "efold (lint_entry L t src repo approvers) r (dir_entries t (src @ ''/'' @ APPROVED_DIR)) = Inr report"
    by (auto simp: lint_approved_vex_def Let_def)
  from lint_entries_clean [OF this assms(2-4)] show ?thesis .
qed

section \<open>The manifest speaks for its evidence\<close>

lemma gather_only_pushed:
  assumes "gather L t out q = Inr g" and "dict_get (ga_jobs g) name = Some job"
  shows "name \<in> set (mr_expected_jobs q) \<and> job_pushed L (disk_of t) out q name job"
proof -
  let ?P = "\<lambda>jobs. \<forall>n j. dict_get jobs n = Some j \<longrightarrow> n \<in> set (mr_expected_jobs q) \<and> job_pushed L (disk_of t) out q n j"
  have "?P (ga_jobs g)"
    by (rule efold_invariant [OF gather_parts(1) [OF assms(1)]])
       (use manifest_job_pushed in \<open>fastforce simp: dict_get_set dict_get_def [of "[]"] split: if_splits\<close>)+
  with assms(2) show ?thesis by blast
qed

lemma job_sums_entry:
  "job_sums L fs st nj = Inr st' \<Longrightarrow> \<exists>raw. fst st' = dict_set (fst nj) raw (fst st)"
  by (cases st, cases nj) (auto simp: job_sums_def ebind_Inr_iff split: prod.splits)

lemma job_sums_all_keys:
  "efold (job_sums L fs) st jobs = Inr st' \<Longrightarrow> fst ` set (fst st') = fst ` set jobs \<union> fst ` set (fst st)"
proof (induction jobs arbitrary: st)
  case (Cons nj jobs)
  then obtain t where t: "job_sums L fs st nj = Inr t" "efold (job_sums L fs) t jobs = Inr st'" by (auto simp: ebind_Inr_iff)
  from job_sums_entry [OF t(1)] have "fst ` set (fst t) = insert (fst nj) (fst ` set (fst st))" using dict_keys_set by metis
  with Cons.IH [OF t(2)] show ?case by (simp add: Un_insert_right)
qed simp

lemma gather_entries:
  assumes "gather L t out q = Inr g"
  shows "fst ` set (ga_entries g) = set (mr_expected_jobs q)"
proof -
  have "fst ` set (ga_jobs g) = set (mr_expected_jobs q)"
  proof (intro equalityI subsetI)
    fix n assume "n \<in> fst ` set (ga_jobs g)"
    then have "dict_get (ga_jobs g) n \<noteq> None" by (simp add: dict_get_def map_of_eq_None_iff)
    with gather_only_pushed [OF assms] show "n \<in> set (mr_expected_jobs q)" by blast
  next
    fix n assume "n \<in> set (mr_expected_jobs q)"
    with gather_job [OF assms] show "n \<in> fst ` set (ga_jobs g)"
      by (force simp: dict_get_def dest: map_of_SomeD)
  qed
  moreover obtain files where "efold (job_sums L (disk_of t)) ([], []) (ga_jobs g) = Inr (ga_entries g, files)"
    using gather_parts(2) [OF assms] by blast
  then have "fst ` set (fst (ga_entries g, files)) = fst ` set (ga_jobs g) \<union> fst ` set (fst ([] :: (str, json) dict, [] :: file_sums))"
    by (rule job_sums_all_keys)
  ultimately show ?thesis by simp
qed

text \<open>The parts of the manifest that claim something.\<close>

lemma manifest_json_parts:
  assumes "manifest_json q g time = Inr manifest"
  shows "jget manifest ''jobs'' = Some (JObj (ga_entries g))"
    and "jget manifest ''gates'' = Some (JObj (ga_gates g))"
    and "jget manifest ''files'' = Some (JObj (ga_files g))"
    and "\<exists>run. jget manifest ''run'' = Some run \<and> jget run ''runtime_verified'' = Some (JBool (runtime_verified (mr_run q)))"
  using assms by (auto simp: manifest_json_def ebind_Inr_iff Let_def workflow_to_dict_def)

definition runtime_attested :: "'spec Lib \<Rightarrow> disk \<Rightarrow> str \<Rightarrow> ManifestRequest \<Rightarrow> file_sums \<Rightarrow> str \<times> str \<times> ImageTarget \<Rightarrow> bool" where
  "runtime_attested L fs out q files claim \<longleftrightarrow>
     (case claim of (job, rel, target) \<Rightarrow>
        dict_get files rel \<noteq> None \<and>
        (\<exists>r img. load_runtime_record L fs out job = Inr r \<and> dict_get (mr_images q) target = Some img \<and>
           ri_digest img = rr_digest r \<and> rr_passed r))"

lemma runtime_verified_claims:
  assumes "runtime_verified run" and "(job, rel, target) \<in> set RUNTIME_RECORDS"
  shows "dict_get (wf_job_results run) job = Some ''success''"
proof -
  have "job \<in> set REQUIRED_RUNTIME_JOBS" using assms(2) by (auto simp: RUNTIME_RECORDS_def REQUIRED_RUNTIME_JOBS_def)
  with assms(1) obtain r where "dict_get (wf_job_results run) job = Some r" by (auto simp: runtime_verified_def list_all_iff)
  moreover from this assms(1) have "r = ''success''"
    by (auto simp: runtime_verified_def list_all_iff dict_get_def dest: map_of_SomeD)
  ultimately show ?thesis by simp
qed

lemma gather_runtime_attested:
  assumes "gather L t out q = Inr g" and "runtime_verified (mr_run q)" and "claim \<in> set RUNTIME_RECORDS"
  shows "runtime_attested L (disk_of t) out q (ga_files g) claim"
proof -
  obtain job rel target where c: "claim = (job, rel, target)" by (cases claim)
  from gather_claim [OF assms(1,3)] runtime_verified_claims [OF assms(2) assms(3) [unfolded c]]
  show ?thesis by (simp add: claim_proved_def runtime_attested_def c)
qed

section \<open>The mutations are found\<close>

lemma disk_of_set: "disk_of (dict_set p c t) p = Some c"
  using dict_get_set [of p c t p] by (simp add: disk_of_def dict_get_def)

lemma files_below_set: "rel \<in> set (files_below (dict_set (dir @ ''/'' @ rel) c t) dir)"
proof -
  have "dir @ ''/'' @ rel \<in> set (map fst (dict_set (dir @ ''/'' @ rel) c t))" by (simp add: dict_keys_set)
  moreover have "starts_with (dir @ ''/'' @ rel) (dir @ ''/'')" by (simp add: starts_with_def)
  moreover have "drop (Suc (length dir)) (dir @ ''/'' @ rel) = rel" by simp
  ultimately show ?thesis unfolding files_below_def by force
qed

lemma prefixes_of_self: "ps \<noteq> [] \<Longrightarrow> ps \<in> set (prefixes_of ps)"
  by (induction ps) (auto simp: neq_Nil_conv)

lemma entries_below_file:
  assumes "rel \<in> set (files_below t dir)" and "split_on CHR ''/'' rel = [rel]"
  shows "rel \<in> set (entries_below t dir)"
  using assms by (auto simp: entries_below_def intro!: bexI [of _ rel])

lemma ignore_file_found:
  assumes "mutate dumps ''ignore-file'' regen src t = Inr (t', changed)"
    and "path_join src ''.trivyignore'' = src @ ''/.trivyignore''"
    and "''node_modules'' \<notin> set (path_parts (src @ ''/.trivyignore''))"
  shows "''.trivyignore'' \<in> set (find_ignore_files t' src)"
proof -
  obtain c where "t' = dict_set (src @ ''/'' @ ''.trivyignore'') c t"
    using assms(1,2) by (auto simp: mutate_def CASES_def dict_get_def case_broken_build_def case_broken_runtime_def
        case_dependency_regression_def case_ignore_file_def mutate_ignore_file_def)
  then have "''.trivyignore'' \<in> set (files_below t' src)" by (simp only: files_below_set)
  moreover have "split_on CHR ''/'' ''.trivyignore'' = [''.trivyignore'']" by code_simp
  ultimately have "''.trivyignore'' \<in> set (entries_below t' src)" by (rule entries_below_file)
  moreover have "path_name ''.trivyignore'' = ''.trivyignore''" by code_simp
  ultimately show ?thesis using assms(3) by (auto simp: find_ignore_files_def FORBIDDEN_IGNORE_FILES_def)
qed

definition unapproved_name :: str where "unapproved_name = ''ci-negative-unapproved.json''"

lemma unapproved_vex_found:
  assumes "mutate dumps ''unapproved-vex'' regen src t = Inr (t', changed)"
    and "path_join src unapproved_rel = src @ ''/'' @ unapproved_rel"
    and "lb_json L (dumps (JObj unapproved_doc) @ [CHR 0x0A]) = Some (JObj unapproved_doc)"
  shows "\<not> (\<exists>report. lint_approved_vex L t' src repo approvers = Inr report \<and> vl_ok report)"
proof
  have rel: "unapproved_rel = APPROVED_DIR @ ''/'' @ unapproved_name"
    by (simp add: unapproved_rel_def APPROVED_DIR_def unapproved_name_def MARKER_def)
  have t': "t' = dict_set ((src @ ''/'' @ APPROVED_DIR) @ ''/'' @ unapproved_name) (dumps (JObj unapproved_doc) @ [CHR 0x0A]) t"
    using assms(1,2) by (auto simp: mutate_def CASES_def dict_get_def case_broken_build_def case_broken_runtime_def
        case_dependency_regression_def case_ignore_file_def case_unapproved_vex_def mutate_unapproved_vex_def rel)
  from files_below_set [of unapproved_name "src @ ''/'' @ APPROVED_DIR"]
  have "before_first CHR ''/'' unapproved_name \<in> set (dir_entries t' (src @ ''/'' @ APPROVED_DIR))"
    unfolding t' dir_entries_def set_sorted_set set_map by (rule imageI)
  moreover have "before_first CHR ''/'' unapproved_name = unapproved_name" unfolding unapproved_name_def by code_simp
  ultimately have listed: "unapproved_name \<in> set (dir_entries t' (src @ ''/'' @ APPROVED_DIR))" by simp
  have skipped: "unapproved_name \<notin> set [''README.md'', ''.gitkeep'']" by (simp add: unapproved_name_def)
  assume "\<exists>report. lint_approved_vex L t' src repo approvers = Inr report \<and> vl_ok report"
  then obtain report where "lint_approved_vex L t' src repo approvers = Inr report" "vl_ok report" by blast
  from lint_approved_clean [OF this listed skipped] obtain content doc where
    doc: "disk_of t' (src @ ''/'' @ APPROVED_DIR @ ''/'' @ unapproved_name) = Some content" "lb_json L content = Some (JObj doc)"
    "lint_passed (APPROVED_DIR @ ''/'' @ unapproved_name) doc repo approvers" by blast
  have "content = dumps (JObj unapproved_doc) @ [CHR 0x0A]" using doc(1) unfolding t' append_assoc by (simp add: disk_of_set)
  with doc(2) assms(3) have "doc = unapproved_doc" by simp
  moreover have "approval_of unapproved_doc = None" by (simp add: approval_of_def unapproved_doc_def dict_get_def)
  ultimately show False using doc(3) by (simp add: lint_passed_def)
qed

section \<open>A passed negative case\<close>

lemma wait_for_checks_listed:
  assumes "wait_for_checks N c deadline k = Some (Inr runs)"
  shows "\<exists>j. ne_check_runs N j = Inr runs"
proof -
  have "r = Inr runs \<longrightarrow> (\<exists>j. ne_check_runs N j = Inr runs)" if "wait_for_checks N c deadline k = Some r" for r
    using that
    by (rule wait_for_checks.raw_induct [of "\<lambda>N c d k r. r = Inr runs \<longrightarrow> (\<exists>j. ne_check_runs N j = Inr runs)", rotated])
      (auto split: sum.splits if_splits)
  with assms show ?thesis by blast
qed

text \<open>What the table asks of the check runs the loop ended with.\<close>

definition expectations_met :: "NegativeCase \<Rightarrow> CheckRun list \<Rightarrow> bool" where
  "expectations_met c runs \<longleftrightarrow>
     (\<forall>(name, allowed) \<in> set (ng_expect c). \<exists>r \<in> set (expand_matrix runs). \<exists>x \<in> set allowed.
        cr_name r = name \<and> cr_status r = ''completed'' \<and> cr_conclusion r = Some x)"

lemma evaluate_case_met: "snd (evaluate_case c runs) = [] \<Longrightarrow> expectations_met c runs"
  unfolding expectations_met_def
  by (clarify, drule (1) evaluate_case_nil, clarify) (metis runs_by_name_mem)

text \<open>The regressed scan against the baseline: the raw counts rise and the gate would fail in enforce mode.\<close>

definition regression_shown :: "'spec Lib \<Rightarrow> disk \<Rightarrow> bool" where
  "regression_shown L fs \<longleftrightarrow>
     (\<exists>pr_root main_root pr main g. raw_counts L fs pr_root = Inr pr \<and> raw_counts L fs main_root = Inr main \<and>
        rc_total main < rc_total pr \<and> rc_high_critical main < rc_high_critical pr \<and>
        gate_job L fs (path_join (path_join pr_root ''lean'') ''policy'') GM_enforce = Inr g \<and> \<not> gv_passed (gr_verdict g))"

lemma compare_evidence_shown:
  "compare_evidence L N out p m = Inr ([], counts) \<Longrightarrow> regression_shown L (ne_disk N)"
  unfolding regression_shown_def
  by (auto simp: compare_evidence_def count_failures_def ebind_Inr_iff not_le split: sum.splits if_splits) blast

lemma compare_counts_shown:
  assumes "compare_counts L N R head_sha = Inr ([], counts)"
  shows "regression_shown L (ne_disk N)"
proof -
  obtain pr_root where pr: "evidence_for N R head_sha = Inr pr_root"
    using assms by (auto simp: compare_counts_def ebind_Inr_iff)
  obtain i main_root where main: "baseline_evidence N R = Inr (i, main_root)"
    using assms by (cases "baseline_evidence N R") (auto simp: compare_counts_def pr split: if_splits)
  obtain p m where "pr_root = Some p" "main_root = Some m"
    "compare_evidence L N [(''baseline_run_id'', opt_id_json i)] p m = Inr ([], counts)"
    using assms by (cases pr_root; cases main_root) (auto simp: compare_counts_def pr main Let_def)
  then show ?thesis by (blast dest: compare_evidence_shown)
qed

lemma judge_runs_passed:
  assumes "judge_runs L N R c report runs = Inr r" and "rp_passed r"
  shows "expectations_met c runs \<and> (ng_compares_counts c \<longrightarrow> regression_shown L (ne_disk N))"
  using assms
  by (auto simp: judge_runs_def ebind_Inr_iff Let_def split: prod.splits if_splits
      intro!: evaluate_case_met dest: compare_counts_shown)

lemma run_case_passed:
  assumes "run_case L N R c branch head_sha = Some (Inr r, actions)" and "rp_passed r"
  shows "\<exists>k runs. ne_check_runs N k = Inr runs \<and> expectations_met c runs \<and>
    (ng_compares_counts c \<longrightarrow> regression_shown L (ne_disk N))"
proof -
  obtain number url where pr: "ne_create_pr N = Inr (number, url)" using assms(1) by (auto simp: run_case_def split: sum.splits)
  let ?wait = "wait_for_checks N c (ne_monotonic N 0 + nr_timeout_seconds R) 0"
  obtain waited where w: "?wait = Some waited"
    using assms(1) by (cases ?wait) (auto simp: run_case_def pr Let_def)
  obtain report where r: "ebind waited (judge_runs L N R c report) = Inr r"
    using assms(1) by (auto simp: run_case_def pr w Let_def cleaned_up_def split: sum.splits)
  then obtain runs where "waited = Inr runs" "judge_runs L N R c report runs = Inr r" by (auto simp: ebind_Inr_iff)
  with w wait_for_checks_listed judge_runs_passed assms(2) show ?thesis by blast
qed

end
