(* ===== verification/Intake.thy ===== *)
theory Intake
  imports Ci
begin

text \<open>
  \<^verbatim>\<open>ingest/intake.py\<close>: discovering completed security scans of the fork, downloading the evidence
  bundle of each, checking it against what the controller expects and persisting it. Every run that
  is looked at is to get one \<open>ScanIntake\<close> row.
\<close>

section \<open>Expectations and outcomes\<close>

definition SECURITY_SCAN_WORKFLOW :: str where "SECURITY_SCAN_WORKFLOW = ''security-scan.yml''"
definition EVIDENCE_ARTIFACT_PREFIX :: str where "EVIDENCE_ARTIFACT_PREFIX = ''scan-evidence-''"
definition DEFAULT_PLATFORM :: str where "DEFAULT_PLATFORM = ''linux/amd64''"

record IntakeExpectation =
  ix_source_repo :: str
  ix_source_branch :: str
  ix_baseline_sha :: str
  ix_platform :: str
  ix_required_jobs :: "str list"
  ix_required_runtime_jobs :: "str list"
  ix_scanners :: "Scanner list"

definition intake_expectation :: "str \<Rightarrow> str \<Rightarrow> IntakeExpectation" where
  "intake_expectation repo branch =
     \<lparr>ix_source_repo = repo, ix_source_branch = branch, ix_baseline_sha = BASELINE_SHA, ix_platform = DEFAULT_PLATFORM,
      ix_required_jobs = DEFAULT_EXPECTED_JOBS, ix_required_runtime_jobs = REQUIRED_RUNTIME_JOBS,
      ix_scanners = [SC_trivy, SC_grype]\<rparr>"

record IntakeOutcome =
  io_external_run_id :: str
  io_status :: IntakeStatus
  io_reasons :: "str list"
  io_scan_run_id :: "nat option"
  io_created :: bool
  io_seen_before :: bool
  io_ingest :: "IngestResult option"

definition new_outcome :: "str \<Rightarrow> IntakeOutcome" where
  "new_outcome ext_id =
     \<lparr>io_external_run_id = ext_id, io_status = IS_rejected, io_reasons = [], io_scan_run_id = None, io_created = False,
      io_seen_before = False, io_ingest = None\<rparr>"

definition external_run_id :: "str \<Rightarrow> WorkflowRunInfo \<Rightarrow> str" where
  "external_run_id repo run = ''gha:'' @ repo @ '':'' @ show_nat (wr_id run) @ '':'' @ show_nat (wr_run_attempt run)"

definition find_evidence_artifact :: "ArtifactInfo list \<Rightarrow> ArtifactInfo option" where
  "find_evidence_artifact artifacts =
     (case filter (\<lambda>a. starts_with (ai_name a) EVIDENCE_ARTIFACT_PREFIX \<and> \<not> ai_expired a) artifacts of
        [a] \<Rightarrow> Some a
      | _ \<Rightarrow> None)"

section \<open>Checking a bundle\<close>

text \<open>\<open>run_metadata_shape_problems\<close>, one definition per field of the \<open>run\<close> block.\<close>

definition whole_number :: "json \<Rightarrow> bool" where
  "whole_number j = (case j of JInt _ \<Rightarrow> True | JStr s \<Rightarrow> str_isdigit s | _ \<Rightarrow> False)"

definition is_jstr :: "json \<Rightarrow> bool" where
  "is_jstr j = (case j of JStr _ \<Rightarrow> True | _ \<Rightarrow> False)"

definition run_get :: "(str, json) dict \<Rightarrow> str \<Rightarrow> json" where
  "run_get run_meta k = json_or_null (dict_get run_meta k)"

definition job_results_problems :: "json \<Rightarrow> str list" where
  "job_results_problems results =
     (case results of
        JNull \<Rightarrow> []
      | JObj rs \<Rightarrow>
          let bad = filter (\<lambda>(k, v). \<not> is_jstr v) rs in
          if bad = [] then [] else [''run.job_results has non-string results: '' @ py_repr (JObj bad)]
      | _ \<Rightarrow> [''run.job_results is '' @ py_type results @ '', expected an object''])"

definition scalar_problem :: "(str, json) dict \<Rightarrow> str \<Rightarrow> str list" where
  "scalar_problem run_meta key =
     (let value = run_get run_meta key in
      case value of
        JNull \<Rightarrow> [] | JStr _ \<Rightarrow> [] | JInt _ \<Rightarrow> [] | JBool _ \<Rightarrow> []
      | _ \<Rightarrow> [''run.'' @ key @ '' is '' @ py_type value @ '', expected a scalar''])"

definition run_metadata_shape_problems :: "(str, json) dict \<Rightarrow> str list" where
  "run_metadata_shape_problems run_meta =
     (let attempt = run_get run_meta ''run_attempt'' in
      (if attempt \<noteq> JNull \<and> \<not> whole_number attempt
       then [''run.run_attempt '' @ py_repr attempt @ '' is not a whole number''] else []) @
      job_results_problems (run_get run_meta ''job_results'') @
      concat (map (scalar_problem run_meta) [''run_id'', ''head_sha'', ''scan_gate_mode'', ''url'']))"

definition image_id_text :: "BaselineManifest \<Rightarrow> str \<Rightarrow> str" where
  "image_id_text m target =
     (let img = (case dict_get (bm_images m) target of Some i \<Rightarrow> i | None \<Rightarrow> []) in
      py_str (or_else (run_get img ''image_id'') (JStr [])))"

definition runtime_record_problems :: "BaselineManifest \<Rightarrow> RuntimeRecord \<Rightarrow> str option \<Rightarrow> exn + str list" where
  "runtime_record_problems m record' claimed =
     (case dict_get RUNTIME_RECORDS (rr_job record') of
        None \<Rightarrow> Inl (key_error (rr_job record'))
      | Some (_, target) \<Rightarrow>
          let expected = image_id_text m (image_target_value target) in
          Inr ((if rr_digest record' \<noteq> expected
                then [''runtime job '' @ repr_str (rr_job record') @ '' ran '' @ rr_image_ref record' @ '', manifest '' @
                  image_target_value target @ '' image is '' @ (if expected = [] then ''absent'' else expected)] else []) @
               (if claimed = Some ''success'' \<and> \<not> rr_passed record'
                then [''runtime job '' @ repr_str (rr_job record') @ '' result claims success but '' @ rr_path record' @
                  '' reports failed_step='' @ (case rr_failed_step record' of None \<Rightarrow> ''None'' | Some s \<Rightarrow> repr_str s)] else [])))"

text \<open>What the manifest says of itself against what GitHub and the controller say.\<close>

definition repo_problems :: "BaselineManifest \<Rightarrow> WorkflowRunInfo \<Rightarrow> IntakeExpectation \<Rightarrow> str list" where
  "repo_problems m run ix =
     (if bm_source_repo m \<notin> set REPO_ALLOWLIST
      then [''source_repo '' @ repr_str (bm_source_repo m) @ '' is outside the allowlist'']
      else if bm_source_repo m \<noteq> ix_source_repo ix
      then [''source_repo '' @ repr_str (bm_source_repo m) @ '' != '' @ repr_str (ix_source_repo ix)] else []) @
     (if bm_source_branch m \<noteq> ix_source_branch ix
      then [''source_branch '' @ repr_str (bm_source_branch m) @ '' != '' @ repr_str (ix_source_branch ix)] else []) @
     (if wr_head_branch run \<noteq> Some (ix_source_branch ix)
      then [''workflow run is for branch '' @ show_opt_str (wr_head_branch run) @ '', expected '' @ repr_str (ix_source_branch ix)]
      else []) @
     (if bm_trigger m \<noteq> wr_event run
      then [''manifest trigger '' @ repr_str (bm_trigger m) @ '' != workflow event '' @ repr_str (wr_event run)] else [])"

definition recorded_head :: "BaselineManifest \<Rightarrow> str" where
  "recorded_head m = py_str (or_else (run_get (bm_run m) ''head_sha'') (JStr (bm_source_sha m)))"

text \<open>\<open>int(run_meta.get("run_attempt") or 0)\<close> on a value of the checked shape.\<close>

definition attempt_number :: "json \<Rightarrow> int" where
  "attempt_number j =
     (case or_else j (JInt 0) of JInt i \<Rightarrow> i | JStr s \<Rightarrow> int (read_nat s) | _ \<Rightarrow> 0)"

definition gate_mode_value_ok :: "json \<Rightarrow> bool" where
  "gate_mode_value_ok j \<longleftrightarrow> j = JNull \<or> j \<in> {JStr (gate_mode_value GM_report), JStr (gate_mode_value GM_enforce)}"

definition identity_problems :: "BaselineManifest \<Rightarrow> WorkflowRunInfo \<Rightarrow> str list" where
  "identity_problems m run =
     (let rm = bm_run m in
      (if wr_head_sha run \<notin> set [bm_source_sha m, recorded_head m]
       then [''evidence is for '' @ take 12 (bm_source_sha m) @ '' (head '' @ take 12 (recorded_head m) @
         ''), workflow run was for '' @ take 12 (wr_head_sha run)] else []) @
      (if py_str (run_get rm ''run_id'') \<noteq> show_nat (wr_id run)
       then [''manifest run_id '' @ py_repr (run_get rm ''run_id'') @ '' != workflow run '' @ show_nat (wr_id run)] else []) @
      (if attempt_number (run_get rm ''run_attempt'') \<noteq> int (wr_run_attempt run)
       then [''manifest run_attempt '' @ py_repr (run_get rm ''run_attempt'') @ '' != attempt '' @ show_nat (wr_run_attempt run)]
       else []) @
      (if \<not> gate_mode_value_ok (run_get rm ''scan_gate_mode'')
       then [''unknown scan_gate_mode '' @ py_repr (run_get rm ''scan_gate_mode'')] else []) @
      (case trigger_of_value (bm_trigger m) of
         Inl _ \<Rightarrow> [''unknown trigger '' @ repr_str (bm_trigger m)] | Inr _ \<Rightarrow> []))"

definition scan_job_problems :: "BaselineManifest \<Rightarrow> IntakeExpectation \<Rightarrow> str \<Rightarrow> str list" where
  "scan_job_problems m ix name =
     (case dict_get (bm_jobs m) name of
        None \<Rightarrow> [''required scan job '' @ repr_str name @ '' missing from bundle'']
      | Some job \<Rightarrow>
          let missing = sort (map scanner_value (filter (\<lambda>s. s \<notin> set (je_scanners_present job)) (ix_scanners ix))) in
          (if missing \<noteq> []
           then [''scan job '' @ repr_str name @ '' lacks scanner results: '' @ join '', '' missing] else []) @
          (if je_platform job \<noteq> ix_platform ix
           then [''scan job '' @ repr_str name @ '' platform '' @ repr_str (je_platform job) @ '' != '' @
             repr_str (ix_platform ix)] else []))"

text \<open>\<open>dict(run_meta.get("job_results") or {})\<close> of a checked run block: names to result strings.\<close>

definition job_results_of :: "BaselineManifest \<Rightarrow> (str, str) dict" where
  "job_results_of m =
     (case run_get (bm_run m) ''job_results'' of JObj rs \<Rightarrow> map (\<lambda>(k, v). (k, py_str v)) rs | _ \<Rightarrow> [])"

definition runtime_job_problems :: "BaselineManifest \<Rightarrow> str \<Rightarrow> exn + str list" where
  "runtime_job_problems m name =
     (let claimed = dict_get (job_results_of m) name;
          unrecorded = (if claimed = None then [''runtime job '' @ repr_str name @ '' has no recorded result''] else []) in
      case dict_get (bm_runtime m) name of
        None \<Rightarrow> Inr (unrecorded @ [''runtime job '' @ repr_str name @ '' has no attached record ('' @
          (case dict_get RUNTIME_RECORDS name of Some (rel, _) \<Rightarrow> rel | None \<Rightarrow> ''<unknown>'') @ '')''])
      | Some record' \<Rightarrow>
          ebind (runtime_record_problems m record' claimed) (\<lambda>problems. Inr (unrecorded @ problems)))"

text \<open>
  \<open>validate_bundle\<close>. What the loader raises is a reason (\<open>Inr (None, [reason])\<close>); \<open>is_ancestor\<close> is the
  answer to the ancestry question, asked where the code asks it.
\<close>

definition exn_repr :: "exn \<Rightarrow> str" where
  "exn_repr e = exn_type e @ ''('' @ (if exn_type e = ''KeyError'' then exn_msg e else repr_str (exn_msg e)) @ '')''"

definition load_bundle :: "'spec Lib \<Rightarrow> disk \<Rightarrow> str \<Rightarrow> exn + (BaselineManifest \<times> json)" where
  "load_bundle L fs dir =
     ebind (load_baseline L fs dir) (\<lambda>m.
     ebind (read_text fs (path_join dir ''manifest.json'')) (\<lambda>text.
     ebind (json_loads L text) (\<lambda>raw. Inr (m, raw))))"

definition ancestry_problems :: "BaselineManifest \<Rightarrow> IntakeExpectation \<Rightarrow> bool \<Rightarrow> str list" where
  "ancestry_problems m ix descends =
     (if \<not> descends
      then [''source_sha '' @ take 12 (bm_source_sha m) @ '' does not descend from baseline '' @ take 12 (ix_baseline_sha ix)]
      else [])"

definition validate_bundle ::
    "'spec Lib \<Rightarrow> disk \<Rightarrow> str \<Rightarrow> WorkflowRunInfo \<Rightarrow> IntakeExpectation \<Rightarrow> (str \<Rightarrow> str \<Rightarrow> bool M) \<Rightarrow>
       (BaselineManifest option \<times> str list) M" where
  "validate_bundle L fs dir run ix is_ancestor =
     (if \<not> is_file fs (path_join dir ''manifest.json'')
      then ret (None, [''bundle has no manifest.json (scan-manifest job did not complete)''])
      else case load_bundle L fs dir of
        Inl e \<Rightarrow> if exn_type e \<in> set EVIDENCE_ERRORS then ret (None, [''evidence failed verification: '' @ exn_repr e]) else raise e
      | Inr (m, raw) \<Rightarrow>
          let schema = json_or_null (jget raw ''schema'');
              bad_schema = (if schema \<noteq> JStr SCAN_MANIFEST_SCHEMA
                then [''manifest schema '' @ py_repr schema @ '' is not a workflow scan manifest''] else []);
              shape = run_metadata_shape_problems (bm_run m)
          in if shape \<noteq> [] then ret (Some m, bad_schema @ shape)
             else
               bnd (is_ancestor (ix_baseline_sha ix) (bm_source_sha m)) (\<lambda>descends.
               bnd (lift_exn (emap (\<lambda>_. runtime_job_problems m) 0 (ix_required_runtime_jobs ix))) (\<lambda>runtime.
               ret (Some m, bad_schema @ repo_problems m run ix @ identity_problems m run @
                 (if bm_platform m \<noteq> ix_platform ix
                  then [''platform '' @ repr_str (bm_platform m) @ '' != '' @ repr_str (ix_platform ix)] else []) @
                 ancestry_problems m ix descends @
                 concat (map (scan_job_problems m ix) (ix_required_jobs ix)) @ concat runtime))))"

section \<open>What the run is recorded as\<close>

definition proven_result :: "BaselineManifest \<Rightarrow> str \<times> str \<Rightarrow> exn + (str \<times> str)" where
  "proven_result m r =
     (case r of (name, result) \<Rightarrow>
        if result \<noteq> ''success'' \<or> dict_get RUNTIME_RECORDS name = None then Inr (name, result)
        else (case dict_get (bm_runtime m) name of
                None \<Rightarrow> Inr (name, ''unproven'')
              | Some record' \<Rightarrow>
                  ebind (runtime_record_problems m record' (Some result)) (\<lambda>problems.
                    Inr (name, if problems = [] then result else ''unproven''))))"

definition proven_job_results :: "BaselineManifest \<Rightarrow> exn + (str, str) dict" where
  "proven_job_results m = emap (\<lambda>_. proven_result m) 0 (job_results_of m)"

definition gate_mode_of :: "BaselineManifest \<Rightarrow> exn + GateMode" where
  "gate_mode_of m =
     (let raw = run_get (bm_run m) ''scan_gate_mode'' in
      if \<not> jtruthy raw then Inr GM_report
      else (case find (\<lambda>g. gate_mode_value g = py_str raw) [GM_report, GM_enforce] of
              Some g \<Rightarrow> Inr g
            | None \<Rightarrow> Inl (value_error (repr_str (py_str raw) @ '' is not a valid GateMode''))))"

definition digest_of :: "BaselineManifest \<Rightarrow> str \<Rightarrow> exn + str option" where
  "digest_of m target =
     (if dict_get (bm_images m) target = None then Inr None
      else ebind (bm_image_id m target) (\<lambda>i. Inr (Some (py_str i))))"

definition workflow_result :: "WorkflowRunInfo \<Rightarrow> str" where
  "workflow_result run = or_str (wr_conclusion run) (or_str (Some (wr_status run)) ''unknown'')"

definition run_meta_for :: "BaselineManifest \<Rightarrow> WorkflowRunInfo \<Rightarrow> str \<Rightarrow> exn + RunMeta" where
  "run_meta_for m run repo =
     ebind (proven_job_results m) (\<lambda>results.
     ebind (trigger_of_value (bm_trigger m)) (\<lambda>trigger.
     ebind (digest_of m ''lean'') (\<lambda>lean.
     ebind (digest_of m ''ci'') (\<lambda>ci.
     ebind (gate_mode_of m) (\<lambda>gate.
     Inr \<lparr>rm_external_run_id = external_run_id repo run, rm_trigger = trigger, rm_source_repo = bm_source_repo m,
          rm_source_branch = bm_source_branch m, rm_source_sha = bm_source_sha m, rm_platform = bm_platform m,
          rm_lean_digest = lean, rm_ci_digest = ci,
          rm_ci_layer_delta = (if bm_ci_layer_delta m = [] then None else Some (bm_ci_layer_delta m)),
          rm_started_at = Some (bm_built_at m), rm_finished_at = Some (bm_captured_at m), rm_is_baseline = False,
          rm_run_attempt = wr_run_attempt run, rm_scan_gate_mode = gate, rm_primary_target = IT_lean,
          rm_job_results = dict_set ''workflow'' (JStr (workflow_result run)) (map (\<lambda>(k, v). (k, JStr v)) results),
          rm_workflow = Some (dict_set ''url'' (or_else (run_get (bm_run m) ''url'') (JStr (wr_url run))) (bm_run m))\<rparr>)))))"

section \<open>Discovery\<close>

definition completed_runs :: "Env \<Rightarrow> IntakeExpectation \<Rightarrow> WorkflowRunInfo list M" where
  "completed_runs E ix =
     bnd (gh_list_workflow_runs E (ix_source_repo ix) SECURITY_SCAN_WORKFLOW (ix_source_branch ix) ''completed'') (\<lambda>runs.
     ret (filter (\<lambda>r. wr_status r = ''completed'') runs))"

definition intake_of :: "str \<Rightarrow> Db \<Rightarrow> ScanIntake option" where
  "intake_of ext_id d = find (\<lambda>i. si_external_run_id i = ext_id) (db_intakes d)"

fun collect_unseen :: "(WorkflowRunInfo \<Rightarrow> bool) \<Rightarrow> nat \<Rightarrow> WorkflowRunInfo list \<Rightarrow> WorkflowRunInfo list \<Rightarrow> WorkflowRunInfo list" where
  "collect_unseen unseen limit out [] = out"
| "collect_unseen unseen limit out (r # rs) =
     (if limit \<le> length out then out
      else collect_unseen unseen limit (if unseen r then out @ [r] else out) rs)"

definition unseen_runs :: "Env \<Rightarrow> IntakeExpectation \<Rightarrow> nat \<Rightarrow> WorkflowRunInfo list M" where
  "unseen_runs E ix limit =
     bnd (completed_runs E ix) (\<lambda>runs.
     query (\<lambda>d. rev (collect_unseen (\<lambda>r. intake_of (external_run_id (ix_source_repo ix) r) d = None) limit [] runs)))"

definition find_run :: "Env \<Rightarrow> IntakeExpectation \<Rightarrow> nat \<Rightarrow> WorkflowRunInfo option M" where
  "find_run E ix run_id =
     bnd (gh_list_workflow_runs E (ix_source_repo ix) SECURITY_SCAN_WORKFLOW [] []) (\<lambda>runs.
     ret (find (\<lambda>r. wr_id r = run_id) runs))"

section \<open>Intake of one run\<close>

definition disk_now :: "Env \<Rightarrow> disk M" where
  "disk_now E = (\<lambda>w. (Inr (en_disk E (map fst (w_calls w))), w))"

definition new_intake :: "str \<Rightarrow> str \<Rightarrow> WorkflowRunInfo \<Rightarrow> int \<Rightarrow> ScanIntake" where
  "new_intake ext_id repo run t =
     \<lparr>si_id = 0, si_external_run_id = ext_id, si_source_repo = repo, si_workflow_run_id = wr_id run,
      si_run_attempt = wr_run_attempt run, si_head_branch = wr_head_branch run, si_head_sha = Some (wr_head_sha run),
      si_conclusion = wr_conclusion run, si_url = Some (wr_url run), si_artifact_id = None, si_artifact_name = None,
      si_artifact_digest = None, si_bundle_sha256 = None, si_bundle_path = None, si_status = IS_rejected,
      si_reasons = [], si_scan_run_id = None, si_observed_at = t\<rparr>"

definition record_intake :: "ScanIntake \<Rightarrow> IntakeOutcome \<Rightarrow> IntakeOutcome M" where
  "record_intake intake outcome =
     bnd (session_scope (write_db (\<lambda>d. d\<lparr>db_intakes := db_intakes d @
            [intake\<lparr>si_id := next_id si_id (db_intakes d), si_status := io_status outcome,
                    si_reasons := io_reasons outcome, si_scan_run_id := io_scan_run_id outcome\<rparr>]\<rparr>))) (\<lambda>_.
     ret outcome)"

definition reject :: "ScanIntake \<Rightarrow> IntakeOutcome \<Rightarrow> str list \<Rightarrow> IntakeOutcome M" where
  "reject intake outcome reasons = record_intake intake (outcome\<lparr>io_reasons := io_reasons outcome @ reasons\<rparr>)"

definition scan_descends :: "Env \<Rightarrow> IntakeExpectation \<Rightarrow> str \<Rightarrow> str \<Rightarrow> bool M" where
  "scan_descends E ix base head =
     (if base = head then ret True
      else try_except
        (bnd (remote (CompareRefs (ix_source_repo ix) base head) (en_compare E)) (\<lambda>c.
           ret (cmp_status c \<in> set [''ahead'', ''identical''])))
        (\<lambda>e. ret False))"

definition OS_OR_EVIDENCE_ERRORS :: "str list" where
  "OS_OR_EVIDENCE_ERRORS = [''FileNotFoundError'', ''EvidenceError'']"

definition bounds_of_text :: "'spec Lib \<Rightarrow> str \<Rightarrow> exn + (str, 'spec) dict" where
  "bounds_of_text L text =
     ebind (lb_toml L text) (\<lambda>(deps, extras). Inr (parse_upper_bounds (lb_packaging L) deps extras))"

definition upper_bounds :: "Env \<Rightarrow> 'spec Lib \<Rightarrow> IntakeExpectation \<Rightarrow> str \<Rightarrow> (str, 'spec) dict option M" where
  "upper_bounds E L ix sha =
     bnd (try_except (gh_get_file E (ix_source_repo ix) ''pyproject.toml'' sha) (\<lambda>e. ret None)) (\<lambda>f.
     case f of
       Some file \<Rightarrow> bnd (lift_exn (bounds_of_text L (bf_content file))) (\<lambda>b. ret (Some b))
     | None \<Rightarrow>
         bnd (disk_now E) (\<lambda>fs.
         try_except
           (bnd (lift_exn (ebind (load_source_pyproject L fs (st_repo_root (en_settings E)) sha) (bounds_of_text L))) (\<lambda>b.
              ret (Some b)))
           (\<lambda>e. if exn_type e \<in> set OS_OR_EVIDENCE_ERRORS then ret None else raise e)))"

text \<open>The classes the guard around the evidence catches: OSError is not among them.\<close>

definition MALFORMED_ERRORS :: "str list" where
  "MALFORMED_ERRORS = [''KeyError'', ''TypeError'', ''AttributeError'', ''ValueError'', ''ValidationError'',
     ''JSONDecodeError'', ''EvidenceError'', ''TrivyParseError'', ''GrypeParseError'', ''SbomParseError'',
     ''VexEvidenceError'', ''TOMLDecodeError'']"

type_synonym 'spec admitted = "BaselineManifest \<times> (str, 'spec) dict \<times> RunMeta"

text \<open>The guarded block: the reasons to reject, or what there is to ingest.\<close>

definition check_bundle ::
    "Env \<Rightarrow> 'spec Lib \<Rightarrow> IntakeExpectation \<Rightarrow> str \<Rightarrow> WorkflowRunInfo \<Rightarrow> (str list + 'spec admitted) M" where
  "check_bundle E L ix dir run =
     bnd (disk_now E) (\<lambda>fs.
     bnd (validate_bundle L fs dir run ix (scan_descends E ix)) (\<lambda>(manifest, reasons).
     case manifest of
       None \<Rightarrow> ret (Inl reasons)
     | Some m \<Rightarrow>
         if reasons \<noteq> [] then ret (Inl reasons)
         else
           bnd (upper_bounds E L ix (bm_source_sha m)) (\<lambda>bounds.
           case bounds of
             None \<Rightarrow> ret (Inl [''pyproject.toml at '' @ take 12 (bm_source_sha m) @
               '' unavailable; cannot classify upper-bound-blocked dependencies''])
           | Some b \<Rightarrow>
               bnd (lift_exn (run_meta_for m run (ix_source_repo ix))) (\<lambda>meta. ret (Inr (m, b, meta))))))"

definition guarded_check ::
    "Env \<Rightarrow> 'spec Lib \<Rightarrow> IntakeExpectation \<Rightarrow> str \<Rightarrow> WorkflowRunInfo \<Rightarrow> (str list + 'spec admitted) M" where
  "guarded_check E L ix dir run =
     try_except (check_bundle E L ix dir run)
       (\<lambda>e. if exn_type e \<in> set MALFORMED_ERRORS then ret (Inl [''malformed evidence bundle: '' @ exn_repr e]) else raise e)"

definition ingest_admitted ::
    "Env \<Rightarrow> 'spec Lib \<Rightarrow> ScanIntake \<Rightarrow> IntakeOutcome \<Rightarrow> 'spec admitted \<Rightarrow> IntakeOutcome M" where
  "ingest_admitted E L intake outcome adm =
     (case adm of (m, bounds, meta) \<Rightarrow>
        bnd (write_scope (ingest_run E (lb_packaging L) meta (bm_jobs m) bounds None)) (\<lambda>result.
        let conclusion = json_or_null (dict_get (rm_job_results meta) ''workflow'') in
        record_intake intake (outcome
          \<lparr>io_status := IS_ingested, io_scan_run_id := Some (ig_scan_run_id result), io_created := ig_created result,
           io_ingest := Some result,
           io_reasons := io_reasons outcome @
             (if \<not> ig_created result then [''scan run already present; no new rows written''] else []) @
             (if conclusion \<noteq> JStr ''success''
              then [''workflow conclusion '' @ py_repr conclusion @ ''; run persisted incomplete''] else [])\<rparr>)))"

text \<open>The downloaded zip against the digest GitHub reports: its checksum, and a reason to reject.\<close>

definition zip_check :: "'spec Lib \<Rightarrow> disk \<Rightarrow> str \<Rightarrow> ArtifactInfo \<Rightarrow> str option \<times> str list" where
  "zip_check L fs dir a =
     (case fs (with_suffix dir ''.zip'') of
        None \<Rightarrow> (None, [])
      | Some content \<Rightarrow>
          let sha = lb_sha256 L content in
          (Some sha,
           case ai_digest a of
             None \<Rightarrow> []
           | Some d \<Rightarrow>
               if d \<noteq> [] \<and> (case partition_str '':'' d of Some (_, r) \<Rightarrow> r | None \<Rightarrow> d) \<noteq> sha
               then [''downloaded zip sha256 '' @ take 12 sha @ '' != GitHub digest '' @ d] else []))"

text \<open>The downloaded bundle: its zip, then the guarded check, then the ingestion.\<close>

definition intake_bundle ::
    "Env \<Rightarrow> 'spec Lib \<Rightarrow> IntakeExpectation \<Rightarrow> WorkflowRunInfo \<Rightarrow> ScanIntake \<Rightarrow> IntakeOutcome \<Rightarrow> ArtifactInfo \<Rightarrow> str \<Rightarrow> IntakeOutcome M" where
  "intake_bundle E L ix run intake0 outcome a dir =
     bnd (disk_now E) (\<lambda>fs.
     case zip_check L fs dir a of (sha, mismatch) \<Rightarrow>
       let intake = intake0\<lparr>si_bundle_path := Some dir, si_bundle_sha256 := sha\<rparr> in
       if mismatch \<noteq> [] then reject intake outcome mismatch
       else
         bnd (guarded_check E L ix dir run) (\<lambda>checked.
         case checked of
           Inl reasons \<Rightarrow> reject intake outcome reasons
         | Inr adm \<Rightarrow> ingest_admitted E L intake outcome adm))"

definition intake_download ::
    "Env \<Rightarrow> 'spec Lib \<Rightarrow> IntakeExpectation \<Rightarrow> WorkflowRunInfo \<Rightarrow> ScanIntake \<Rightarrow> IntakeOutcome \<Rightarrow> ArtifactInfo \<Rightarrow> IntakeOutcome M" where
  "intake_download E L ix run intake0 outcome a =
     (let intake = intake0\<lparr>si_artifact_id := Some (ai_id a), si_artifact_name := Some (ai_name a),
                          si_artifact_digest := ai_digest a\<rparr>;
          dest = path_join (path_join (path_join (st_evidence_dir (en_settings E)) ''runs'') (show_nat (wr_id run)))
                   (show_nat (wr_run_attempt run)) in
      bnd (try_except
             (bnd (gh_download_artifact E (ix_source_repo ix) (ai_id a) dest) (\<lambda>p. ret (Inr p)))
             (\<lambda>e. if exn_type e = ''ArtifactError'' then ret (Inl (exn_msg e)) else raise e)) (\<lambda>r.
      case r of
        Inl msg \<Rightarrow> reject intake outcome [msg]
      | Inr dir \<Rightarrow> intake_bundle E L ix run intake outcome a dir))"

definition ingest_workflow_run :: "Env \<Rightarrow> 'spec Lib \<Rightarrow> IntakeExpectation \<Rightarrow> WorkflowRunInfo \<Rightarrow> IntakeOutcome M" where
  "ingest_workflow_run E L ix run =
     (let repo = ix_source_repo ix; ext_id = external_run_id repo run in
      bnd (session_scope (query (intake_of ext_id))) (\<lambda>prior.
      case prior of
        Some p \<Rightarrow>
          ret ((new_outcome ext_id)\<lparr>io_status := si_status p, io_reasons := si_reasons p,
                 io_scan_run_id := si_scan_run_id p, io_seen_before := True\<rparr>)
      | None \<Rightarrow>
          bnd (now E) (\<lambda>t.
          let intake = new_intake ext_id repo run t; outcome = new_outcome ext_id in
          if wr_status run \<noteq> ''completed''
          then reject intake outcome [''workflow run is '' @ repr_str (wr_status run) @ '', not completed'']
          else
            bnd (gh_list_run_artifacts E repo (wr_id run)) (\<lambda>artifacts.
            case find_evidence_artifact artifacts of
              None \<Rightarrow> reject intake outcome [''expected exactly one unexpired '' @ EVIDENCE_ARTIFACT_PREFIX @
                ''* artifact, run has '' @ (if artifacts = [] then ''none'' else repr_str_list (sort (map ai_name artifacts)))]
            | Some a \<Rightarrow> intake_download E L ix run intake outcome a))))"

section \<open>The poll\<close>

definition intake_poll :: "Env \<Rightarrow> 'spec Lib \<Rightarrow> IntakeExpectation \<Rightarrow> nat \<Rightarrow> IntakeOutcome list M" where
  "intake_poll E L ix limit =
     bnd (unseen_runs E ix limit) (\<lambda>runs.
     loop (\<lambda>outcomes run. bnd (ingest_workflow_run E L ix run) (\<lambda>o'. ret (outcomes @ [o']))) [] runs)"

definition scan_intake :: "Env \<Rightarrow> IntakeExpectation" where
  "scan_intake E = intake_expectation (repo_of E) (st_remediation_branch (en_settings E))"

definition POLL_LIMIT :: nat where "POLL_LIMIT = 10"

text \<open>\<open>Orchestrator.poll_scans\<close>: (ingested, rejected); a run seen before counts as ingested unless it was rejected.\<close>

definition poll_scans :: "Env \<Rightarrow> 'spec Lib \<Rightarrow> (nat \<times> nat) M" where
  "poll_scans E L =
     bnd (intake_poll E L (scan_intake E) POLL_LIMIT) (\<lambda>outcomes.
     ret (foldl (\<lambda>(i, r) o'. if io_status o' = IS_rejected then (i, Suc r) else (Suc i, r)) (0, 0) outcomes))"

end
