(* ===== verification/IntakeFacts.thy ===== *)
theory IntakeFacts
  imports Intake Effects
begin

text \<open>
  What the intake keeps. \<open>intake_invariant\<close> is the counterpart of \<open>controller_invariant\<close>: the writes of
  the ingestion, and every operation of the intake proved once to keep what survives them. A step of
  the whole system is a controller step whose intake is this one.
\<close>

lemma bnd_lift: "bnd (lift_exn (Inl e)) f w = (Inl e, w)" "bnd (lift_exn (Inr a)) f w = f a w"
  by (simp_all add: bnd_def lift_exn_def)

section \<open>The contract of an invariant of the intake\<close>

text \<open>A finding that is seen again keeps its identity, its owner, and its closure.\<close>

definition finding_edit :: "(Finding \<Rightarrow> Finding) \<Rightarrow> bool" where
  "finding_edit g \<longleftrightarrow>
     (\<forall>f. fd_id (g f) = fd_id f \<and> fd_dedupe_key (g f) = fd_dedupe_key f \<and> fd_vuln_id (g f) = fd_vuln_id f \<and>
        fd_layer (g f) = fd_layer f \<and> fd_opened_by_trivy (g f) = fd_opened_by_trivy f \<and>
        fd_opened_by_grype (g f) = fd_opened_by_grype f \<and> fd_opening_db_built_at (g f) = fd_opening_db_built_at f \<and>
        fd_work_item_id (g f) = fd_work_item_id f \<and> fd_closed_by_run_id (g f) = fd_closed_by_run_id f \<and>
        fd_created_at (g f) = fd_created_at f \<and>
        (fd_state f \<in> set CLOSING_FINDING_STATES \<longrightarrow> fd_state (g f) = fd_state f) \<and>
        (fd_state f \<notin> set CLOSING_FINDING_STATES \<longrightarrow> fd_state (g f) \<notin> set CLOSING_FINDING_STATES))"

definition job_key :: "ScanJob \<Rightarrow> nat \<times> str" where
  "job_key j = (sj_scan_run_id j, sj_name j)"

locale intake_invariant =
  fixes P :: "Db \<Rightarrow> bool"
  assumes i_noted: "P d \<Longrightarrow> note_event (el_entity_type ev) (el_event ev) \<Longrightarrow> P (push_event ev d)"
    and i_run: "P d \<Longrightarrow> sr_id r = next_id sr_id (db_runs d) \<Longrightarrow>
      sr_external_run_id r \<notin> sr_external_run_id ` set (db_runs d) \<Longrightarrow> P (d\<lparr>db_runs := db_runs d @ [r]\<rparr>)"
    and i_job: "P d \<Longrightarrow> sj_id j = next_id sj_id (db_jobs d) \<Longrightarrow> job_key j \<notin> job_key ` set (db_jobs d) \<Longrightarrow>
      P (d\<lparr>db_jobs := db_jobs d @ [j]\<rparr>)"
    and i_evidence: "P d \<Longrightarrow> P (d\<lparr>db_evidence := db_evidence d @ [e]\<rparr>)"
    and i_sighting: "P d \<Longrightarrow> P (d\<lparr>db_sightings := db_sightings d @ [s]\<rparr>)"
    and i_intake: "P d \<Longrightarrow> P (d\<lparr>db_intakes := db_intakes d @ [i]\<rparr>)"
    and i_finding: "P d \<Longrightarrow> fd_id f = next_id fd_id (db_findings d) \<Longrightarrow> fd_dedupe_key f \<notin> fd_dedupe_key ` set (db_findings d) \<Longrightarrow>
      fd_state f \<notin> set CLOSING_FINDING_STATES \<Longrightarrow> P (d\<lparr>db_findings := db_findings d @ [f]\<rparr>)"
    and i_edit: "P d \<Longrightarrow> finding_edit g \<Longrightarrow> P (d\<lparr>db_findings := update_row fd_id fid g (db_findings d)\<rparr>)"
begin

lemma add_evidence_keeps [keeps_intros]: "keeps P (add_evidence E run_id dir file)"
  unfolding add_evidence_def by (intro keeps_intros keeps_write_db i_evidence)

lemma add_scan_job_keeps [keeps_intros]: "keeps P (add_scan_job j)"
proof (rule keepsI)
  fix w
  assume w: "holds P w"
  let ?j = "j\<lparr>sj_id := next_id sj_id (db_jobs (w_db w))\<rparr>"
  show "holds P (snd (add_scan_job j w))"
  proof (cases "job_key ?j \<in> job_key ` set (db_jobs (w_db w))")
    case True
    with w show ?thesis by (auto simp: add_scan_job_def run_simps job_key_def list_ex_iff)
  next
    case False
    with w have "P ((w_db w)\<lparr>db_jobs := db_jobs (w_db w) @ [?j]\<rparr>)" by (intro i_job) (simp_all add: holds_def)
    with False w show ?thesis by (auto simp: add_scan_job_def run_simps job_key_def list_ex_iff holds_def image_iff)
  qed
qed

lemma persist_job_rows_keeps [keeps_intros]: "keeps P (persist_job_rows E run_id suffix job)"
  unfolding persist_job_rows_def by (intro keeps_intros)

lemma add_sighting_keeps [keeps_intros]: "keeps P (add_sighting fid run_id sc m p sev fx r)"
  unfolding add_sighting_def by (intro keeps_write_db i_sighting)

lemma scanner_sightings_keeps [keeps_intros]: "keeps P (scanner_sightings run_id fid nf policy sc)"
  unfolding scanner_sightings_def raw_sighting_def policy_sighting_def by (intro keeps_intros)

lemma ingest_event_keeps [keeps_intros]:
  "note_event entity ev \<Longrightarrow> keeps P (ingest_event actor entity eid ev to why ts)"
  unfolding ingest_event_def by (intro keeps_write_db i_noted) simp_all

lemma ingest_state_closing: "ingest_state cls s \<in> set CLOSING_FINDING_STATES \<longleftrightarrow> s \<in> set CLOSING_FINDING_STATES"
  by (auto simp: ingest_state_def enum_defs)

lemma refresh_is_edit: "finding_edit (refresh_finding run_id raw nf cls ts)" "finding_edit (first_seen_in run_id)" "finding_edit id"
  by (auto simp: finding_edit_def refresh_finding_def first_seen_in_def ingest_state_def enum_defs)

lemma edit_comp: "finding_edit g \<Longrightarrow> finding_edit h \<Longrightarrow> finding_edit (g \<circ> h)"
  unfolding finding_edit_def o_def by metis

lemma upsert_finding_keeps [keeps_intros]: "keeps P (upsert_finding run raw nf cls ts)"
proof (rule keepsI)
  fix w
  assume w: "holds P w"
  show "holds P (snd (upsert_finding run raw nf cls ts w))"
  proof (cases "find (\<lambda>f. fd_dedupe_key f = nf_dedupe_key nf) (db_findings (w_db w))")
    case None
    let ?f = "refresh_finding (sr_id run) raw nf cls ts (new_finding (sr_id run) raw nf ts (next_id fd_id (db_findings (w_db w))))"
    have "fd_state ?f \<notin> set CLOSING_FINDING_STATES"
      using ingest_state_closing [of cls F_open] by (simp add: refresh_finding_def new_finding_def enum_defs)
    moreover have "fd_id ?f = next_id fd_id (db_findings (w_db w))" by (simp add: refresh_finding_def new_finding_def)
    moreover have "fd_dedupe_key ?f \<notin> fd_dedupe_key ` set (db_findings (w_db w))"
      using None by (auto simp: refresh_finding_def new_finding_def find_None_iff)
    ultimately have "P ((w_db w)\<lparr>db_findings := db_findings (w_db w) @ [?f]\<rparr>)"
      using w by (intro i_finding) (simp_all add: holds_def)
    with None w show ?thesis by (simp add: upsert_finding_def Let_def run_simps holds_def)
  next
    case (Some f)
    have "finding_edit ((if stale then id else refresh_finding (sr_id run) raw nf cls ts) \<circ> (if earlier then first_seen_in (sr_id run) else id))"
      for stale earlier by (auto intro!: edit_comp refresh_is_edit)
    then have "P ((w_db w)\<lparr>db_findings := update_row fd_id (fd_id f)
        ((if stale then id else refresh_finding (sr_id run) raw nf cls ts) \<circ> (if earlier then first_seen_in (sr_id run) else id))
        (db_findings (w_db w))\<rparr>)" for stale earlier
      using w by (intro i_edit) (simp_all add: holds_def)
    with Some w show ?thesis by (simp add: upsert_finding_def Let_def run_simps holds_def)
  qed
qed

lemma opened_is_note: "note_event ''finding'' ''opened''" "note_event ''scan_run'' ''ingested''"
  by code_simp+

lemma ingest_findings_keeps [keeps_intros]: "keeps P (ingest_findings pk meta run js bounds ts)"
  unfolding ingest_findings_def ingest_finding_def fd_row_def by (intro keeps_intros opened_is_note)

lemma ingest_run_keeps [keeps_intros]: "keeps P (ingest_run E pk meta jobs bounds t)"
proof (rule keepsI)
  fix w0
  assume w0: "holds P w0"
  obtain ts w where ts: "(case t of None \<Rightarrow> now E | Some t \<Rightarrow> ret t) w0 = (Inr ts, w)" and w: "holds P w"
    using w0 by (cases t) (auto simp: ret_def now_def holds_def)
  note start = ingest_run_def bnd_Inr [where m = "case t of None \<Rightarrow> now E | Some t \<Rightarrow> ret t", OF ts] bnd_run Let_def
  let ?i = "next_id sr_id (db_runs (w_db w))"
  show "holds P (snd (ingest_run E pk meta jobs bounds t w0))"
  proof (cases "find (\<lambda>r. sr_external_run_id r = rm_external_run_id meta) (db_runs (w_db w))")
    case (Some r)
    with w show ?thesis by (simp add: start ret_def)
  next
    case None
    show ?thesis
    proof (cases "select_jobs meta jobs")
      case (Inl e)
      with None w show ?thesis by (simp add: start bnd_lift)
    next
      case (Inr js)
      let ?run = "new_scan_run meta js (run_succeeded meta jobs) ts ?i"
      let ?w = "w\<lparr>w_db := (w_db w)\<lparr>db_runs := db_runs (w_db w) @ [?run]\<rparr>\<rparr>"
      let ?rest = "bnd (for_each (jb_primary js) (persist_job_rows E ?i [])) (\<lambda>_.
         bnd (for_each (jb_secondary js) (\<lambda>j. persist_job_rows E ?i (''@'' @ image_target_value (je_image_target j)) j)) (\<lambda>_.
         bnd (for_each (sort_key fst (rm_job_results meta)) (\<lambda>r. add_scan_job (runtime_job ?i meta r))) (\<lambda>_.
         ingest_findings pk meta ?run js bounds ts)))"
      have run: "ingest_run E pk meta jobs bounds t w0 = ?rest ?w" by (simp only: start None option.case Inr bnd_lift)
      have "sr_external_run_id ?run \<notin> sr_external_run_id ` set (db_runs (w_db w))"
        using None by (auto simp: new_scan_run_def find_None_iff)
      then have "P ((w_db w)\<lparr>db_runs := db_runs (w_db w) @ [?run]\<rparr>)"
        using w by (intro i_run) (simp_all add: holds_def new_scan_run_def)
      with w have "holds P ?w" by (simp add: holds_def)
      moreover have "keeps P ?rest" by (intro keeps_intros)
      ultimately show ?thesis by (simp add: run keeps_def)
    qed
  qed
qed

lemma ingest_baseline_keeps [keeps_intros]: "keeps P (ingest_baseline E pk m bounds)"
  unfolding ingest_baseline_def by (intro keeps_intros)

lemma record_intake_keeps [keeps_intros]: "keeps P (record_intake i out)"
  unfolding record_intake_def by (intro keeps_intros keeps_write_db i_intake)

lemma reject_keeps [keeps_intros]: "keeps P (reject i out rs)"
  unfolding reject_def by (intro keeps_intros)

lemma scan_descends_keeps [keeps_intros]: "keeps P (scan_descends E ix base head)"
  unfolding scan_descends_def by (intro keeps_intros)

lemma disk_now_keeps [keeps_intros]: "keeps P (disk_now E)"
  by (simp add: keeps_def disk_now_def)

lemma guarded_check_keeps [keeps_intros]: "keeps P (guarded_check E L ix dir run)"
  unfolding guarded_check_def check_bundle_def validate_bundle_def upper_bounds_def Let_def remote_defs
  by (intro keeps_intros)

lemma ingest_workflow_run_keeps [keeps_intros]: "keeps P (ingest_workflow_run E L ix run)"
  unfolding ingest_workflow_run_def intake_download_def intake_bundle_def ingest_admitted_def Let_def remote_defs
  by (intro keeps_intros)

lemma poll_scans_keeps [keeps_intros]: "keeps P (poll_scans E L)"
  unfolding poll_scans_def intake_poll_def unseen_runs_def completed_runs_def Let_def remote_defs
  by (intro keeps_intros)

end

section \<open>The intake as a step\<close>

inductive intake_step :: "'spec Lib \<Rightarrow> Db \<Rightarrow> Db \<Rightarrow> bool" for L where
  polled: "intake_step L d (w_db (snd (poll_scans E L (fresh_world d))))"
| poll_crashed: "(c, d') \<in> set (w_calls (snd (poll_scans E L (fresh_world d)))) \<Longrightarrow> intake_step L d d'"
| one_run: "intake_step L d (w_db (snd (ingest_workflow_run E L ix run (fresh_world d))))"
| one_run_crashed: "(c, d') \<in> set (w_calls (snd (ingest_workflow_run E L ix run (fresh_world d)))) \<Longrightarrow> intake_step L d d'"
| baseline: "intake_step L d (w_db (snd (ingest_baseline E (lb_packaging L) m bounds (fresh_world d))))"


inductive_cases intake_stepE: "intake_step L d d'"

context intake_invariant
begin

lemma intake_step_keeps: "intake_step L d d' \<Longrightarrow> P d \<Longrightarrow> P d'"
  by (erule intake_stepE)
     (auto dest: keeps_result [OF poll_scans_keeps] keeps_result [OF ingest_workflow_run_keeps]
        keeps_result [OF ingest_baseline_keeps])

end

section \<open>Closed findings\<close>

lemma closed_by_one_of_more: "closed_by_one_of runs f \<Longrightarrow> closed_by_one_of (runs @ rest) f"
  by (auto simp: closed_by_one_of_def)

interpretation closed_intake: intake_invariant closed_ok
proof (unfold_locales, goal_cases)
  case (2 d r)
  then show ?case by (auto simp: closed_ok_def list_all_iff closed_by_one_of_more)
next
  case (8 d g fid)
  then show ?case
    by (auto simp: closed_ok_def list_all_iff update_row_def closed_by_one_of_def finding_edit_def)
qed (simp_all add: closed_ok_def push_event_def closed_by_one_of_def)

section \<open>The log of work items\<close>

text \<open>The intake writes findings without transitions, so across it only the items' half of the log replays.\<close>

definition items_log_ok :: "Db \<Rightarrow> Db \<Rightarrow> bool" where
  "items_log_ok d0 d \<longleftrightarrow> (\<exists>es. db_events d = db_events d0 @ es \<and>
     tracked replay_wi ''work_item'' wi_event_names wi_id wi_state W_queued (db_work_items d0) es (db_work_items d))"

definition item_keys_ok :: "Db \<Rightarrow> bool" where
  "item_keys_ok d \<longleftrightarrow> distinct (map wi_id (db_work_items d))"

lemma items_log_ok_start: "item_keys_ok d \<Longrightarrow> items_log_ok d d"
  by (auto simp: items_log_ok_def item_keys_ok_def wi_log.tracked_start)

lemma items_log_replay:
  assumes "items_log_ok d0 d" "get_row wi_id i (db_work_items d) = Some w"
  shows "\<exists>es. db_events d = db_events d0 @ es \<and>
    replay_wi (start_state wi_id wi_state W_queued (db_work_items d0) i)
      (entity_log ''work_item'' wi_event_names i es) = Some (wi_state w)"
proof -
  obtain es where "db_events d = db_events d0 @ es"
    and "tracked replay_wi ''work_item'' wi_event_names wi_id wi_state W_queued (db_work_items d0) es (db_work_items d)"
    using assms(1) by (auto simp: items_log_ok_def)
  moreover have "w \<in> set (db_work_items d)" "wi_id w = i" using assms(2) by (auto dest: get_row_SomeD)
  ultimately show ?thesis by (auto simp: tracked_def)
qed

lemma items_log_state:
  assumes "items_log_ok d0 d" "get_row wi_id i (db_work_items d0) = Some w" "get_row wi_id i (db_work_items d) = Some w'"
  shows "\<exists>es. replay_wi (wi_state w) es = Some (wi_state w')"
  using items_log_replay [OF assms(1,3)] assms(2) by (auto simp: start_state_def)

lemma items_log_ok_note:
  assumes "items_log_ok d0 d" "\<not> (el_entity_type ev = ''work_item'' \<and> el_event ev \<in> set wi_event_names)"
    and "db_events d' = db_events d @ [ev]" "db_work_items d' = db_work_items d"
  shows "items_log_ok d0 d'"
  using assms wi_log.tracked_note by (fastforce simp: items_log_ok_def)

interpretation items_log: controller_invariant "items_log_ok d0" "\<lambda>_. True" for d0
proof (unfold_locales, goal_cases)
  case (1 d ev)
  then show ?case by (intro items_log_ok_note [OF 1(1)]) (auto simp: note_event_def push_event_def)
next
  case (2 d wid wi event s' reason actor t1 t2)
  let ?e = "\<lparr>el_id = next_id el_id (db_events d), el_ts = t2, el_actor = actor, el_entity_type = ''work_item'',
        el_entity_id = wid, el_event = wi_event_value event,
        el_from_state = Some (work_item_state_value (wi_state wi)), el_to_state = Some (work_item_state_value s'),
        el_reason = Some reason, el_evidence_ids = []\<rparr>"
  obtain es where es: "db_events d = db_events d0 @ es"
    and w: "tracked replay_wi ''work_item'' wi_event_names wi_id wi_state W_queued (db_work_items d0) es (db_work_items d)"
    using 2(1) by (auto simp: items_log_ok_def)
  have "tracked replay_wi ''work_item'' wi_event_names wi_id wi_state W_queued (db_work_items d0) (es @ [?e])
      (update_row wi_id wid (\<lambda>w. w\<lparr>wi_state := s', wi_updated_at := t1,
                   wi_blocked_reason := (if event = E_blocked \<or> s' = W_needs_human then Some reason
                                         else wi_blocked_reason w)\<rparr>) (db_work_items d))"
    by (rule wi_log.tracked_transition [OF w 2(2), where s' = s']) (simp_all add: replay_wi_def 2(3))
  then show ?case by (auto simp: items_log_ok_def do_wi_transition_def push_event_def es)
next
  case (3 d fid f fevent fs' run_id reason actor t1 t2)
  then show ?case by (intro items_log_ok_note [OF 3(1)]) (simp_all add: do_finding_transition_def push_event_def)
next
  case (4 d g wid)
  then show ?case by (auto simp: items_log_ok_def wi_edit_def intro!: wi_log.tracked_edit)
next
  case (6 d w)
  then show ?case
    using wi_log.tracked_new [where r = w and rid = wi_id and rows = "db_work_items d"]
      next_id_fresh [of wi_id "db_work_items d"]
    by (simp add: items_log_ok_def) blast
qed (simp_all add: items_log_ok_def stamp_run_def)

interpretation items_intake: intake_invariant "items_log_ok d0" for d0
proof (unfold_locales, goal_cases)
  case (1 d ev)
  then show ?case by (intro items_log_ok_note [OF 1(1)]) (auto simp: note_event_def push_event_def)
qed (simp_all add: items_log_ok_def)

section \<open>History is append-only\<close>

definition grows :: "('r \<Rightarrow> 'k) \<Rightarrow> 'r list \<Rightarrow> 'r list \<Rightarrow> bool" where
  "grows f old rows \<longleftrightarrow> (\<exists>new. map f rows = map f old @ new)"

lemma grows_refl: "grows f xs xs"
  by (simp add: grows_def)

lemma grows_append: "grows f old rows \<Longrightarrow> grows f old (rows @ [r])"
  by (auto simp: grows_def)

lemma grows_update:
  "grows f old rows \<Longrightarrow> (\<And>r. f (g r) = f r) \<Longrightarrow> grows f old (update_row rid i g rows)"
  by (simp add: grows_def map_update_row)

text \<open>What a finding was when it was opened.\<close>

definition finding_origin :: "Finding \<Rightarrow> nat \<times> str \<times> str \<times> Layer \<times> bool \<times> bool \<times> int option \<times> int" where
  "finding_origin f = (fd_id f, fd_dedupe_key f, fd_vuln_id f, fd_layer f, fd_opened_by_trivy f, fd_opened_by_grype f,
     fd_opening_db_built_at f, fd_created_at f)"

definition history_ok :: "Db \<Rightarrow> Db \<Rightarrow> bool" where
  "history_ok d0 d \<longleftrightarrow>
     grows run_core (db_runs d0) (db_runs d) \<and> grows id (db_jobs d0) (db_jobs d) \<and>
     grows id (db_sightings d0) (db_sightings d) \<and> grows id (db_evidence d0) (db_evidence d) \<and>
     grows id (db_intakes d0) (db_intakes d) \<and> grows id (db_events d0) (db_events d) \<and>
     grows finding_origin (db_findings d0) (db_findings d) \<and> grows item_core (db_work_items d0) (db_work_items d)"

lemma history_ok_start: "history_ok d d"
  by (simp add: history_ok_def grows_refl)

interpretation history: controller_invariant "history_ok d0" "\<lambda>_. True" for d0
proof (unfold_locales, goal_cases)
  case (4 d g wid)
  then show ?case by (auto simp: history_ok_def wi_edit_def item_core_def intro!: grows_update)
qed (auto simp: history_ok_def push_event_def do_wi_transition_def do_finding_transition_def stamp_run_def item_core_def
      finding_origin_def run_core_def intro!: grows_append grows_update)

interpretation history_intake: intake_invariant "history_ok d0" for d0
proof (unfold_locales, goal_cases)
  case (8 d g fid)
  then show ?case by (auto simp: history_ok_def finding_edit_def finding_origin_def intro!: grows_update)
qed (auto simp: history_ok_def push_event_def intro!: grows_append)

section \<open>Unique keys\<close>

text \<open>The identity of every row of a scan, as the tables declare it.\<close>

definition unique_keys :: "Db \<Rightarrow> bool" where
  "unique_keys d \<longleftrightarrow>
     distinct (map sr_id (db_runs d)) \<and> distinct (map sr_external_run_id (db_runs d)) \<and>
     distinct (map sj_id (db_jobs d)) \<and> distinct (map job_key (db_jobs d)) \<and>
     distinct (map fd_id (db_findings d)) \<and> distinct (map fd_dedupe_key (db_findings d)) \<and>
     distinct (map wi_id (db_work_items d))"

interpretation unique_controller: controller_invariant unique_keys "\<lambda>_. True"
proof (unfold_locales, goal_cases)
  case (4 d g wid)
  then show ?case by (simp add: unique_keys_def map_update_row wi_edit_def)
next
  case (6 d w)
  then show ?case using next_id_fresh [of wi_id "db_work_items d"] by (auto simp: unique_keys_def)
qed (simp_all add: unique_keys_def push_event_def do_wi_transition_def do_finding_transition_def stamp_run_def map_update_row)

interpretation unique_intake: intake_invariant unique_keys
proof (unfold_locales, goal_cases)
  case (2 d r)
  then show ?case using next_id_fresh [of sr_id "db_runs d"] by (auto simp: unique_keys_def)
next
  case (3 d j)
  then show ?case using next_id_fresh [of sj_id "db_jobs d"] by (auto simp: unique_keys_def)
next
  case (7 d f)
  then show ?case using next_id_fresh [of fd_id "db_findings d"] by (auto simp: unique_keys_def)
next
  case (8 d g fid)
  then show ?case by (simp add: unique_keys_def map_update_row finding_edit_def)
qed (simp_all add: unique_keys_def push_event_def)

section \<open>The whole system\<close>

abbreviation system_reachable :: "'spec Lib \<Rightarrow> Db \<Rightarrow> Db \<Rightarrow> bool" where
  "system_reachable L \<equiv> reachable (intake_step L)"

lemma system_closed_ok: "system_reachable L d0 d \<Longrightarrow> closed_ok d0 \<Longrightarrow> closed_ok d"
  by (induction rule: reachable.induct) (blast intro: step_closed_ok closed_intake.intake_step_keeps)+

lemma system_items_log_ok: "system_reachable L d0 d \<Longrightarrow> item_keys_ok d0 \<Longrightarrow> items_log_ok d0 d"
  by (induction rule: reachable.induct)
     (blast intro: items_log_ok_start items_log.controller_step_keeps items_intake.intake_step_keeps)+

lemma system_history_ok: "system_reachable L d0 d \<Longrightarrow> history_ok d0 d"
  by (induction rule: reachable.induct)
     (blast intro: history_ok_start history.controller_step_keeps history_intake.intake_step_keeps)+

lemma system_unique_keys: "system_reachable L d0 d \<Longrightarrow> unique_keys d0 \<Longrightarrow> unique_keys d"
  by (induction rule: reachable.induct)
     (blast intro: unique_controller.controller_step_keeps unique_intake.intake_step_keeps)+

end
