(* ===== verification/Bundles.thy ===== *)
theory Bundles
  imports IntakeFacts
begin

text \<open>
  What the intake of one run does: what an accepted bundle has proved, which exceptions can leave
  the check, and how the outcome, the intake row and the scan run belong together.
\<close>

section \<open>An accepted bundle\<close>

text \<open>
  The contract: the manifest is the loaded, checksummed one; it speaks for the expected repository,
  branch, platform and run; every required scan job is genuine and has both scanners; every required
  runtime job has a verdict on the manifest's image, which passed where success is claimed.
\<close>

definition speaks_for :: "BaselineManifest \<Rightarrow> WorkflowRunInfo \<Rightarrow> IntakeExpectation \<Rightarrow> bool" where
  "speaks_for m run ix \<longleftrightarrow>
     bm_source_repo m = ix_source_repo ix \<and> ix_source_repo ix \<in> set REPO_ALLOWLIST \<and>
     bm_source_branch m = ix_source_branch ix \<and> wr_head_branch run = Some (ix_source_branch ix) \<and>
     bm_trigger m = wr_event run \<and> wr_head_sha run \<in> {bm_source_sha m, recorded_head m} \<and>
     py_str (run_get (bm_run m) ''run_id'') = show_nat (wr_id run) \<and>
     attempt_number (run_get (bm_run m) ''run_attempt'') = int (wr_run_attempt run) \<and>
     bm_platform m = ix_platform ix"

definition job_proved :: "'spec Lib \<Rightarrow> disk \<Rightarrow> IntakeExpectation \<Rightarrow> BaselineManifest \<Rightarrow> str \<Rightarrow> bool" where
  "job_proved L fs ix m name \<longleftrightarrow>
     (\<exists>j. dict_get (bm_jobs m) name = Some j \<and> job_genuine L fs j \<and> je_platform j = ix_platform ix \<and>
        set (ix_scanners ix) \<subseteq> set (je_scanners_present j))"

definition runtime_proved :: "BaselineManifest \<Rightarrow> str \<Rightarrow> bool" where
  "runtime_proved m name \<longleftrightarrow>
     (\<exists>r target. dict_get (bm_runtime m) name = Some r \<and> map_option snd (dict_get RUNTIME_RECORDS (rr_job r)) = Some target \<and>
        rr_digest r = image_id_text m (image_target_value target) \<and>
        (dict_get (job_results_of m) name = Some ''success'' \<longrightarrow> rr_passed r))"

lemma repo_problems_nil:
  "repo_problems m run ix = [] \<Longrightarrow> bm_source_repo m = ix_source_repo ix \<and> ix_source_repo ix \<in> set REPO_ALLOWLIST \<and>
     bm_source_branch m = ix_source_branch ix \<and> wr_head_branch run = Some (ix_source_branch ix) \<and> bm_trigger m = wr_event run"
  by (auto simp: repo_problems_def split: if_splits)

lemma identity_problems_nil:
  "identity_problems m run = [] \<Longrightarrow> wr_head_sha run \<in> {bm_source_sha m, recorded_head m} \<and>
     py_str (run_get (bm_run m) ''run_id'') = show_nat (wr_id run) \<and>
     attempt_number (run_get (bm_run m) ''run_attempt'') = int (wr_run_attempt run)"
  by (auto simp: identity_problems_def Let_def split: if_splits)

lemma scan_job_problems_nil:
  assumes "load_baseline L fs dir = Inr m" and "scan_job_problems m ix name = []"
  shows "job_proved L fs ix m name"
proof -
  obtain j where j: "dict_get (bm_jobs m) name = Some j" using assms(2) by (cases "dict_get (bm_jobs m) name") (auto simp: scan_job_problems_def)
  with assms(2) have "je_platform j = ix_platform ix"
    "sort (map scanner_value (filter (\<lambda>s. s \<notin> set (je_scanners_present j)) (ix_scanners ix))) = []"
    by (auto simp: scan_job_problems_def Let_def split: if_splits)
  moreover from this(2) have "set (ix_scanners ix) \<subseteq> set (je_scanners_present j)"
    by (metis (no_types, lifting) filter_empty_conv map_is_Nil_conv set_empty set_sort subsetI)
  ultimately show ?thesis using j load_baseline_jobs [OF assms(1) j] by (auto simp: job_proved_def)
qed

lemma runtime_job_problems_nil: "runtime_job_problems m name = Inr [] \<Longrightarrow> runtime_proved m name"
  by (auto simp: runtime_job_problems_def runtime_record_problems_def runtime_proved_def ebind_Inr_iff Let_def
      split: option.splits if_splits prod.splits)

lemma emap_all_nil:
  "emap (\<lambda>_. f) i xs = Inr yss \<Longrightarrow> concat yss = [] \<Longrightarrow> x \<in> set xs \<Longrightarrow> f x = Inr []"
  by (induction xs arbitrary: i yss) (auto simp: ebind_Inr_iff)

lemma validate_bundle_accepts:
  assumes "validate_bundle L fs dir run ix anc w = (Inr (Some m, []), w')"
  shows "load_baseline L fs dir = Inr m" and "speaks_for m run ix"
    and "\<exists>w0 w1. anc (ix_baseline_sha ix) (bm_source_sha m) w0 = (Inr True, w1)"
    and "name \<in> set (ix_required_jobs ix) \<Longrightarrow> job_proved L fs ix m name"
    and "rname \<in> set (ix_required_runtime_jobs ix) \<Longrightarrow> runtime_proved m rname"
    and "rname \<in> set (ix_required_runtime_jobs ix) \<Longrightarrow> runtime_job_problems m rname = Inr []"
proof -
  obtain m0 raw where load: "load_bundle L fs dir = Inr (m0, raw)"
    using assms by (auto simp: validate_bundle_def ret_def raise_def split: if_splits sum.splits)
  note run = assms [unfolded validate_bundle_def load sum.case prod.case Let_def]
  have shape: "run_metadata_shape_problems (bm_run m0) = []"
    using run by (auto simp: ret_def split: if_splits)
  note run = run [unfolded shape, simplified]
  obtain b w1 where b: "anc (ix_baseline_sha ix) (bm_source_sha m0) w = (Inr b, w1)"
    using run by (auto simp: bnd_def ret_def split: prod.splits sum.splits if_splits)
  obtain runtime where rt: "emap (\<lambda>_. runtime_job_problems m0) 0 (ix_required_runtime_jobs ix) = Inr runtime"
    using run b by (auto simp: bnd_def ret_def lift_exn_def split: prod.splits sum.splits if_splits)
  from run have eqs: "m0 = m" "repo_problems m run ix = []" "identity_problems m run = []" "bm_platform m = ix_platform ix"
    "ancestry_problems m ix b = []" "concat (map (scan_job_problems m ix) (ix_required_jobs ix)) = []" "concat runtime = []"
    by (auto simp: bnd_def b lift_exn_def rt ret_def split: if_splits)
  from load eqs(1) show base: "load_baseline L fs dir = Inr m" by (auto simp: load_bundle_def ebind_Inr_iff)
  show "speaks_for m run ix"
    using repo_problems_nil [OF eqs(2)] identity_problems_nil [OF eqs(3)] eqs(4) by (auto simp: speaks_for_def)
  show "\<exists>w0 w1. anc (ix_baseline_sha ix) (bm_source_sha m) w0 = (Inr True, w1)"
    using b eqs(1,5) by (auto simp: ancestry_problems_def split: if_splits)
  show "job_proved L fs ix m name" if "name \<in> set (ix_required_jobs ix)"
    using eqs(6) that by (intro scan_job_problems_nil [OF base]) auto
  show r: "runtime_job_problems m rname = Inr []" if "rname \<in> set (ix_required_runtime_jobs ix)"
    using emap_all_nil [OF rt eqs(7) that] eqs(1) by simp
  show "runtime_proved m rname" if "rname \<in> set (ix_required_runtime_jobs ix)"
    by (rule runtime_job_problems_nil [OF r [OF that]])
qed

lemma validate_bundle_named:
  assumes "fst (validate_bundle L fs dir run ix anc w) = Inr (m, [])"
  shows "m \<noteq> None"
proof (cases "load_bundle L fs dir")
  case (Inl e)
  then show ?thesis using assms by (auto simp: validate_bundle_def ret_def raise_def split: if_splits)
next
  case (Inr x)
  have some: "fst (bnd a (\<lambda>d. bnd b (\<lambda>r. ret (Some y, f d r))) v) = Inr (m, []) \<Longrightarrow> m \<noteq> None" for a b y f v
    by (auto simp: bnd_def ret_def split: prod.splits sum.splits)
  obtain y z where x: "x = (y, z)" by (cases x)
  show ?thesis using assms some unfolding validate_bundle_def Inr x sum.case prod.case Let_def
    by (auto simp: ret_def split: if_splits)
qed

end
