(* ===== verification/Outcomes.thy ===== *)
theory Outcomes
  imports Bundles
begin

text \<open>
  What the intake of one workflow run leaves behind: the check reads only, the ingestion adds one run
  and no intake row, and every run that is looked at gets exactly one intake row or, where an exception
  escapes, no trace at all.
\<close>

section \<open>The check leaves the database alone\<close>

named_theorems quiet_intros \<open>operations that only read\<close>

lemma quiet_lift [quiet_intros]: "quiet (lift_exn r)"
  by (simp add: quiet_def lift_exn_def)

lemma quiet_if [quiet_intros]: "quiet m \<Longrightarrow> quiet m' \<Longrightarrow> quiet (if b then m else m')"
  by simp

lemma quiet_cases [quiet_intros]:
  "quiet m \<Longrightarrow> (\<And>a. quiet (g a)) \<Longrightarrow> quiet (case x of None \<Rightarrow> m | Some a \<Rightarrow> g a)"
  "(\<And>a. quiet (l a)) \<Longrightarrow> (\<And>b. quiet (r b)) \<Longrightarrow> quiet (case y of Inl a \<Rightarrow> l a | Inr b \<Rightarrow> r b)"
  "(\<And>a b. quiet (h a b)) \<Longrightarrow> quiet (case z of (a, b) \<Rightarrow> h a b)"
  by (simp_all split: option.split sum.split prod.split)

lemma quiet_disk_now: "quiet (disk_now E)"
  by (simp add: quiet_def disk_now_def)

lemmas quiet_all [quiet_intros] = quiet_prims quiet_bnd quiet_try quiet_disk_now

lemma quiet_guarded_check [quiet_intros]: "quiet (guarded_check E L ix dir run)"
  unfolding guarded_check_def check_bundle_def validate_bundle_def upper_bounds_def scan_descends_def Let_def remote_defs
  by (intro quiet_intros)

lemma quiet_result: "quiet m \<Longrightarrow> m w = (r, w') \<Longrightarrow> w_db w' = w_db w \<and> w_saved w' = w_saved w"
  by (metis quiet_def snd_conv)

section \<open>The ingestion adds one run\<close>

text \<open>After the run row is written, the runs, the intake rows and the committed database stay.\<close>

definition same_runs :: "World \<Rightarrow> World \<Rightarrow> bool" where
  "same_runs w w' \<longleftrightarrow> db_runs (w_db w') = db_runs (w_db w) \<and> db_intakes (w_db w') = db_intakes (w_db w) \<and>
     w_saved w' = w_saved w"

interpretation same_runs: uncommitted_effect same_runs
  by unfold_locales (simp_all add: same_runs_def)

lemmas same_runs_monad [eff_intros] = same_runs.eff_control

lemma same_runs_write:
  "(\<And>d. db_runs (g d) = db_runs d \<and> db_intakes (g d) = db_intakes d) \<Longrightarrow> eff same_runs (write_db g)"
  by (simp add: eff_def write_db_def same_runs_def)

lemma same_runs_rows [eff_intros]:
  "eff same_runs (add_evidence E rid dir file)" "eff same_runs (add_scan_job j)"
  "eff same_runs (add_sighting fid run_id sc m p sev fx r)" "eff same_runs (ingest_event actor entity eid ev to why ts)"
  unfolding add_evidence_def add_scan_job_def add_sighting_def ingest_event_def
  by (intro eff_intros same_runs_write; simp add: push_event_def)+

lemma same_runs_persist [eff_intros]: "eff same_runs (persist_job_rows E rid suffix job)"
  unfolding persist_job_rows_def Let_def by (intro eff_intros)

lemma same_runs_upsert [eff_intros]: "eff same_runs (upsert_finding run raw nf cls ts)"
  unfolding upsert_finding_def Let_def by (intro eff_intros same_runs_write) simp_all

lemma same_runs_finding [eff_intros]: "eff same_runs (ingest_finding meta run raw policy ts c res nf)"
  unfolding ingest_finding_def scanner_sightings_def raw_sighting_def policy_sighting_def fd_row_def Let_def
  by (intro eff_intros)

lemma same_runs_findings [eff_intros]: "eff same_runs (ingest_findings pk meta run js bounds ts)"
  unfolding ingest_findings_def Let_def by (intro eff_intros)

text \<open>The result names the run it was made for.\<close>

lemma bnd_Inr_iff: "bnd m f w = (Inr b, w') \<longleftrightarrow> (\<exists>a w1. m w = (Inr a, w1) \<and> f a w1 = (Inr b, w'))"
  by (auto simp: bnd_def split: prod.splits sum.splits)

lemma loop_value:
  assumes "loop f s xs w = (Inr s', w')" and "P s"
    and "\<And>s x w t w'. f s x w = (Inr t, w') \<Longrightarrow> P s \<Longrightarrow> P t"
  shows "P s'"
  using assms(1,2) by (induction xs arbitrary: s w) (auto simp: bnd_Inr_iff ret_def intro: assms(3))

lemma ingest_findings_result:
  assumes "ingest_findings pk meta run js bounds ts w = (Inr res, w')"
  shows "ig_scan_run_id res = sr_id run \<and> ig_created res"
proof -
  let ?step = "ingest_finding meta run (jb_raw js) (map_option finding_index (jb_policy js)) ts
      (\<lambda>nf. classify pk nf (classification_context (jb_raw js) bounds))"
  let ?P = "\<lambda>r. ig_scan_run_id r = sr_id run \<and> ig_created r"
  obtain r w1 n where r: "loop ?step (ingest_result (sr_id run) True) n w = (Inr r, w1)"
    and res: "ig_scan_run_id res = ig_scan_run_id r" "ig_created res = ig_created r"
    using assms unfolding ingest_findings_def Let_def bnd_Inr_iff by (auto simp: ret_def finish_result_def)
  have "?P r"
  proof (rule loop_value [OF r])
    show "?P t" if "?step s x v = (Inr t, v')" "?P s" for s x v t v'
      using that unfolding ingest_finding_def Let_def bnd_Inr_iff
      by (auto simp: bnd_Inr_iff ret_def count_finding_def split: prod.splits)
  qed (simp add: ingest_result_def)
  with res show ?thesis by simp
qed

definition same_saved :: "World \<Rightarrow> World \<Rightarrow> bool" where
  "same_saved w w' \<longleftrightarrow> w_saved w' = w_saved w"

interpretation same_saved: uncommitted_effect same_saved
  by unfold_locales (simp_all add: same_saved_def)

lemma same_saved_write: "eff same_saved (write_db g)"
  by (simp add: eff_def write_db_def same_saved_def)

lemma same_runs_saved: "eff same_runs m \<Longrightarrow> eff same_saved m"
  by (simp add: eff_def same_runs_def same_saved_def)

lemma ingest_run_saved:
  assumes "ingest_run E pk meta jobs bounds t w = (r, w')"
  shows "w_saved w' = w_saved w"
proof -
  have "eff same_saved (ingest_run E pk meta jobs bounds t)"
    unfolding ingest_run_def Let_def
    by (intro same_saved_write same_saved.eff_control eff_intros same_runs_saved)
  from effD [OF this assms] show ?thesis by (simp add: same_saved_def)
qed

text \<open>Either the run was there, and nothing happened; or its row is added, with the selected jobs.\<close>

definition run_added :: "RunMeta \<Rightarrow> (str, ScanJobEvidence) dict \<Rightarrow> IngestResult \<Rightarrow> Db \<Rightarrow> Db \<Rightarrow> bool" where
  "run_added meta jobs res d d' \<longleftrightarrow>
     (\<exists>r \<in> set (db_runs d). sr_external_run_id r = rm_external_run_id meta \<and> res = ingest_result (sr_id r) False \<and>
        db_runs d' = db_runs d) \<or>
     (\<exists>js ts. select_jobs meta jobs = Inr js \<and> ig_created res \<and> ig_scan_run_id res = next_id sr_id (db_runs d) \<and>
        db_runs d' = db_runs d @ [new_scan_run meta js (run_succeeded meta jobs) ts (next_id sr_id (db_runs d))])"

lemma run_added_intakes: "run_added meta jobs res d (d'\<lparr>db_intakes := is\<rparr>) \<longleftrightarrow> run_added meta jobs res d d'"
  by (simp add: run_added_def)

lemma ingest_run_adds:
  assumes "ingest_run E pk meta jobs bounds t w = (Inr res, w')"
  shows "run_added meta jobs res (w_db w) (w_db w') \<and> db_intakes (w_db w') = db_intakes (w_db w) \<and> w_saved w' = w_saved w"
proof -
  obtain ts w0 where ts: "(case t of None \<Rightarrow> now E | Some t \<Rightarrow> ret t) w = (Inr ts, w0)"
    and w0: "w_db w0 = w_db w" "w_saved w0 = w_saved w"
    by (cases t) (auto simp: ret_def now_def)
  note run = assms [unfolded ingest_run_def bnd_Inr [where m = "case t of None \<Rightarrow> now E | Some t \<Rightarrow> ret t", OF ts] bnd_run w0]
  show ?thesis
  proof (cases "find (\<lambda>r. sr_external_run_id r = rm_external_run_id meta) (db_runs (w_db w))")
    case (Some r)
    then have "r \<in> set (db_runs (w_db w)) \<and> sr_external_run_id r = rm_external_run_id meta" by (auto simp: find_Some_iff)
    with Some run w0 show ?thesis by (auto simp: ret_def run_added_def)
  next
    case None
    let ?i = "next_id sr_id (db_runs (w_db w))"
    note run = run [unfolded None option.case]
    obtain js where js: "select_jobs meta jobs = Inr js"
      using run by (cases "select_jobs meta jobs") (auto simp: bnd_def lift_exn_def)
    let ?run = "new_scan_run meta js (run_succeeded meta jobs) ts ?i"
    let ?rest = "bnd (for_each (jb_primary js) (persist_job_rows E ?i [])) (\<lambda>_.
         bnd (for_each (jb_secondary js) (\<lambda>j. persist_job_rows E ?i (''@'' @ image_target_value (je_image_target j)) j)) (\<lambda>_.
         bnd (for_each (sort_key fst (rm_job_results meta)) (\<lambda>r. add_scan_job (runtime_job ?i meta r))) (\<lambda>_.
         ingest_findings pk meta ?run js bounds ts)))"
    let ?w = "w0\<lparr>w_db := (w_db w)\<lparr>db_runs := db_runs (w_db w) @ [?run]\<rparr>\<rparr>"
    have rest: "?rest ?w = (Inr res, w')" using run by (simp only: js bnd_lift bnd_run w0 Let_def)
    have "eff same_runs ?rest" by (intro eff_intros)
    from effD [OF this rest] have same: "same_runs ?w w'" .
    obtain w1 where "ingest_findings pk meta ?run js bounds ts w1 = (Inr res, w')"
      using rest unfolding bnd_Inr_iff by blast
    then have "ig_scan_run_id res = ?i \<and> ig_created res"
      using ingest_findings_result by (fastforce simp: new_scan_run_def)
    with same js w0 show ?thesis by (auto simp: same_runs_def run_added_def)
  qed
qed

section \<open>One run, one intake row\<close>

definition intake_recorded :: "str \<Rightarrow> IntakeOutcome \<Rightarrow> Db \<Rightarrow> Db \<Rightarrow> bool" where
  "intake_recorded ext out d d' \<longleftrightarrow>
     (\<exists>i. db_intakes d' = db_intakes d @ [i] \<and> si_external_run_id i = ext \<and> si_status i = io_status out \<and>
        si_reasons i = io_reasons out \<and> si_scan_run_id i = io_scan_run_id out)"

text \<open>The bundle was accepted by the check, and this is what was ingested.\<close>

definition admitted_as ::
    "Env \<Rightarrow> 'spec Lib \<Rightarrow> IntakeExpectation \<Rightarrow> WorkflowRunInfo \<Rightarrow> 'spec admitted \<Rightarrow> bool" where
  "admitted_as E L ix run adm \<longleftrightarrow> (\<exists>dir w0 w1. guarded_check E L ix dir run w0 = (Inr (Inr adm), w1))"

definition ingested_as ::
    "Env \<Rightarrow> 'spec Lib \<Rightarrow> IntakeExpectation \<Rightarrow> WorkflowRunInfo \<Rightarrow> IntakeOutcome \<Rightarrow> Db \<Rightarrow> Db \<Rightarrow> bool" where
  "ingested_as E L ix run out d d' \<longleftrightarrow>
     (\<exists>m bounds meta res. admitted_as E L ix run (m, bounds, meta) \<and> run_added meta (bm_jobs m) res d d' \<and>
        io_scan_run_id out = Some (ig_scan_run_id res) \<and> io_created out = ig_created res)"

definition looked_at ::
    "Env \<Rightarrow> 'spec Lib \<Rightarrow> IntakeExpectation \<Rightarrow> WorkflowRunInfo \<Rightarrow> str \<Rightarrow> Db \<Rightarrow> exn + IntakeOutcome \<Rightarrow> World \<Rightarrow> bool" where
  "looked_at E L ix run ext d r w' \<longleftrightarrow>
     w_saved w' = w_db w' \<and>
     (case r of
        Inl e \<Rightarrow> w_db w' = d
      | Inr out \<Rightarrow>
          intake_recorded ext out d (w_db w') \<and>
          (case io_status out of
             IS_rejected \<Rightarrow> io_scan_run_id out = None \<and> w_db w' = d\<lparr>db_intakes := db_intakes (w_db w')\<rparr>
           | IS_ingested \<Rightarrow> ingested_as E L ix run out d (w_db w')))"

definition open_outcome :: "IntakeOutcome \<Rightarrow> bool" where
  "open_outcome out \<longleftrightarrow> io_status out = IS_rejected \<and> io_scan_run_id out = None"

definition unread :: "Db \<Rightarrow> World \<Rightarrow> bool" where
  "unread d w \<longleftrightarrow> w_db w = d \<and> w_saved w = d"

lemma unread_quiet: "quiet m \<Longrightarrow> unread d w \<Longrightarrow> m w = (r, w') \<Longrightarrow> unread d w'"
  by (metis quiet_result unread_def)

lemma record_intake_run:
  "record_intake i out w =
     (let d = w_db w; d' = d\<lparr>db_intakes := db_intakes d @ [i\<lparr>si_id := next_id si_id (db_intakes d), si_status := io_status out,
                    si_reasons := io_reasons out, si_scan_run_id := io_scan_run_id out\<rparr>]\<rparr>
      in (Inr out, w\<lparr>w_db := d', w_saved := d'\<rparr>))"
  by (simp add: record_intake_def session_scope_def bnd_def write_db_def ret_def Let_def)

lemma reject_looked_at:
  assumes "unread d w" and "open_outcome out" and "si_external_run_id i = ext" and "reject i out rs w = (r, w')"
  shows "looked_at E L ix run ext d r w'"
  using assms by (auto simp: reject_def record_intake_run Let_def looked_at_def intake_recorded_def
      open_outcome_def unread_def)

lemma ingest_admitted_looked_at:
  assumes w: "unread d w" and adm: "admitted_as E L ix run adm" and i: "si_external_run_id i = ext"
    and run: "ingest_admitted E L i out adm w = (r, w')"
  shows "looked_at E L ix run ext d r w'"
proof -
  obtain m bounds meta where adm_eq: "adm = (m, bounds, meta)" by (cases adm) auto
  let ?m = "ingest_run E (lb_packaging L) meta (bm_jobs m) bounds None"
  obtain q w1 where q: "?m (w\<lparr>w_saved := w_db w\<rparr>) = (q, w1)" by fastforce
  show ?thesis
  proof (cases q)
    case (Inl e)
    have "write_scope ?m w = (Inl e, w1\<lparr>w_db := w_saved w1\<rparr>)" using q Inl by (simp add: write_scope_def)
    with run adm_eq have "r = Inl e" "w' = w1\<lparr>w_db := w_saved w1\<rparr>" by (simp_all add: ingest_admitted_def bnd_def)
    moreover have "w_saved w1 = d" using ingest_run_saved [OF q] w by (simp add: unread_def)
    ultimately show ?thesis by (simp add: looked_at_def)
  next
    case (Inr res)
    from ingest_run_adds [OF q [unfolded Inr]] w
    have added: "run_added meta (bm_jobs m) res d (w_db w1)" "db_intakes (w_db w1) = db_intakes d" by (simp_all add: unread_def)
    have "write_scope ?m w = (Inr res, w1\<lparr>w_saved := w_db w1\<rparr>)" using q Inr by (simp add: write_scope_def)
    note step = run [unfolded adm_eq ingest_admitted_def prod.case bnd_Inr [where m = "write_scope ?m", OF this]]
    from step show ?thesis using added adm [unfolded adm_eq] i
      by (auto simp: record_intake_run Let_def looked_at_def intake_recorded_def ingested_as_def run_added_intakes
          intro!: exI [of _ m] exI [of _ bounds] exI [of _ meta] exI [of _ res])
  qed
qed

lemma try_remote_quiet:
  "quiet (try_except (bnd (gh_download_artifact E repo i dest) (\<lambda>p. ret (Inr p)))
             (\<lambda>e. if exn_type e = ''ArtifactError'' then ret (Inl (exn_msg e)) else raise e))"
  unfolding remote_defs by (intro quiet_intros)

lemma quiet_step:
  assumes "quiet m" and "unread d w" and "bnd m f w = (r, w')"
    and "\<And>e w1. unread d w1 \<Longrightarrow> looked_at E L ix run ext d (Inl e) w1"
    and "\<And>a w1. unread d w1 \<Longrightarrow> m w = (Inr a, w1) \<Longrightarrow> f a w1 = (r, w') \<Longrightarrow> looked_at E L ix run ext d r w'"
  shows "looked_at E L ix run ext d r w'"
proof -
  obtain q w1 where q: "m w = (q, w1)" by (cases "m w") auto
  have u: "unread d w1" by (rule unread_quiet [OF assms(1,2) q])
  show ?thesis using assms(3-5) u q by (cases q) (auto simp: bnd_def)
qed

lemma raised_looked_at: "unread d w \<Longrightarrow> looked_at E L ix run ext d (Inl e) w"
  by (simp add: unread_def looked_at_def)

lemma intake_bundle_looked_at:
  assumes w: "unread d w" and i: "si_external_run_id i = ext" and out: "open_outcome out"
    and run: "intake_bundle E L ix run i out a dir w = (r, w')"
  shows "looked_at E L ix run ext d r w'"
proof (rule quiet_step [OF quiet_disk_now w run [unfolded intake_bundle_def Let_def] raised_looked_at])
  fix fs w2
  obtain sha mismatch where z: "zip_check L fs dir a = (sha, mismatch)" by (cases "zip_check L fs dir a") auto
  let ?i = "i\<lparr>si_bundle_path := Some dir, si_bundle_sha256 := sha\<rparr>"
  assume w2: "unread d w2"
    and "(case zip_check L fs dir a of (sha, mismatch) \<Rightarrow>
        if mismatch \<noteq> [] then reject (i\<lparr>si_bundle_path := Some dir, si_bundle_sha256 := sha\<rparr>) out mismatch
        else bnd (guarded_check E L ix dir run) (\<lambda>checked. case checked of
            Inl reasons \<Rightarrow> reject (i\<lparr>si_bundle_path := Some dir, si_bundle_sha256 := sha\<rparr>) out reasons
          | Inr adm \<Rightarrow> ingest_admitted E L (i\<lparr>si_bundle_path := Some dir, si_bundle_sha256 := sha\<rparr>) out adm)) w2 = (r, w')"
  note go = this(2) [unfolded z prod.case]
  show "looked_at E L ix run ext d r w'"
  proof (cases "mismatch = []")
    case False
    with go i show ?thesis by (intro reject_looked_at [OF w2 out]) auto
  next
    case True
    show ?thesis
    proof (rule quiet_step [OF quiet_guarded_check w2 go [unfolded True, simplified] raised_looked_at])
      fix checked w3
      assume w3: "unread d w3" and c: "guarded_check E L ix dir run w2 = (Inr checked, w3)"
        and last: "(case checked of Inl reasons \<Rightarrow> reject ?i out reasons | Inr adm \<Rightarrow> ingest_admitted E L ?i out adm) w3 = (r, w')"
      show "looked_at E L ix run ext d r w'"
      proof (cases checked)
        case (Inl reasons)
        with last i show ?thesis by (intro reject_looked_at [OF w3 out]) auto
      next
        case (Inr adm)
        have "admitted_as E L ix run adm" using c Inr by (auto simp: admitted_as_def)
        with last Inr i show ?thesis by (intro ingest_admitted_looked_at [OF w3]) auto
      qed
    qed
  qed
qed

lemma intake_download_looked_at:
  assumes w: "unread d w" and i: "si_external_run_id i = ext" and out: "open_outcome out"
    and run: "intake_download E L ix run i out a w = (r, w')"
  shows "looked_at E L ix run ext d r w'"
proof (rule quiet_step [OF try_remote_quiet w run [unfolded intake_download_def Let_def] raised_looked_at])
  fix x w1
  let ?i = "i\<lparr>si_artifact_id := Some (ai_id a), si_artifact_name := Some (ai_name a), si_artifact_digest := ai_digest a\<rparr>"
  assume "unread d w1"
    and "(case x of Inl msg \<Rightarrow> reject ?i out [msg] | Inr dir \<Rightarrow> intake_bundle E L ix run ?i out a dir) w1 = (r, w')"
  moreover have "si_external_run_id ?i = ext" using i by simp
  ultimately show "looked_at E L ix run ext d r w'"
    using out by (cases x) (simp_all add: reject_looked_at [where i = ?i] intake_bundle_looked_at [where i = ?i])
qed

lemma unread_fresh: "unread d (fresh_world d)" "unread d w \<Longrightarrow> unread d (w\<lparr>w_reads := n\<rparr>)"
  by (simp_all add: unread_def fresh_world_def)

text \<open>A run the controller has not seen.\<close>

lemma ingest_workflow_run_looked_at:
  assumes new: "intake_of (external_run_id (ix_source_repo ix) run) d = None"
    and run: "ingest_workflow_run E L ix run (fresh_world d) = (r, w')"
  shows "looked_at E L ix run (external_run_id (ix_source_repo ix) run) d r w' \<and>
    (wr_status run \<noteq> ''completed'' \<longrightarrow> db_runs (w_db w') = db_runs d)"
proof -
  let ?ext = "external_run_id (ix_source_repo ix) run"
  let ?w = "(fresh_world d)\<lparr>w_reads := 1\<rparr>"
  let ?i = "new_intake ?ext (ix_source_repo ix) run (en_clock E 0)"
  have w: "unread d ?w" by (intro unread_fresh)
  have i: "si_external_run_id ?i = ?ext" by (simp add: new_intake_def)
  have out: "open_outcome (new_outcome ?ext)" by (simp add: open_outcome_def new_outcome_def)
  have reads: "w_reads (fresh_world d) = 0" by (simp add: fresh_world_def)
  have "session_scope (query (intake_of ?ext)) (fresh_world d) = (Inr None, fresh_world d)"
    using new by (simp add: session_scope_def query_def fresh_world_def)
  note run = run [unfolded ingest_workflow_run_def Let_def bnd_Inr [where m = "session_scope (query (intake_of ?ext))", OF this]
      option.case bnd_run reads]
  show ?thesis
  proof (cases "wr_status run = ''completed''")
    case False
    with run have rej: "reject ?i (new_outcome ?ext) [''workflow run is '' @ repr_str (wr_status run) @ '', not completed''] ?w = (r, w')"
      by simp
    then have "db_runs (w_db w') = db_runs d" by (auto simp: reject_def record_intake_run Let_def fresh_world_def)
    with reject_looked_at [OF w out i rej] show ?thesis by simp
  next
    case True
    have q: "quiet (gh_list_run_artifacts E (ix_source_repo ix) (wr_id run))" by (simp add: remote_defs quiet_prims)
    have go: "bnd (gh_list_run_artifacts E (ix_source_repo ix) (wr_id run)) (\<lambda>artifacts.
        case find_evidence_artifact artifacts of
          None \<Rightarrow> reject ?i (new_outcome ?ext) [''expected exactly one unexpired '' @ EVIDENCE_ARTIFACT_PREFIX @
            ''* artifact, run has '' @ (if artifacts = [] then ''none'' else repr_str_list (sort (map ai_name artifacts)))]
        | Some a \<Rightarrow> intake_download E L ix run ?i (new_outcome ?ext) a) ?w = (r, w')"
      using run True by simp
    have "looked_at E L ix run ?ext d r w'"
      by (rule quiet_step [OF q w go raised_looked_at])
         (auto split: option.splits intro: reject_looked_at [OF _ out i] intake_download_looked_at [OF _ i out])
    with True show ?thesis by simp
  qed
qed

text \<open>A run the controller has seen: its row answers, nothing is asked and nothing is written.\<close>

lemma ingest_workflow_run_seen:
  assumes "intake_of (external_run_id (ix_source_repo ix) run) d = Some p"
  shows "ingest_workflow_run E L ix run (fresh_world d) =
    (Inr ((new_outcome (external_run_id (ix_source_repo ix) run))\<lparr>io_status := si_status p, io_reasons := si_reasons p,
       io_scan_run_id := si_scan_run_id p, io_seen_before := True\<rparr>), fresh_world d)"
  using assms by (simp add: ingest_workflow_run_def Let_def session_scope_def bnd_def query_def ret_def fresh_world_def)

section \<open>A complete run is a proven one\<close>

lemma guarded_check_admits:
  assumes "guarded_check E L ix dir run w = (Inr (Inr (m, b, meta)), w')"
  shows "\<exists>fs u u'. validate_bundle L fs dir run ix (scan_descends E ix) u = (Inr (Some m, []), u')"
    and "run_meta_for m run (ix_source_repo ix) = Inr meta"
proof -
  have "check_bundle E L ix dir run w = (Inr (Inr (m, b, meta)), w')"
    using assms by (auto simp: guarded_check_def try_except_def ret_def raise_def split: prod.splits sum.splits if_splits)
  then obtain fs m0 reasons w1 w2 where v: "validate_bundle L fs dir run ix (scan_descends E ix) w1 = (Inr (m0, reasons), w2)"
    and rest: "(case m0 of None \<Rightarrow> ret (Inl reasons) | Some m \<Rightarrow>
         if reasons \<noteq> [] then ret (Inl reasons)
         else
           bnd (upper_bounds E L ix (bm_source_sha m)) (\<lambda>bounds.
           case bounds of
             None \<Rightarrow> ret (Inl [''pyproject.toml at '' @ take 12 (bm_source_sha m) @
               '' unavailable; cannot classify upper-bound-blocked dependencies''])
           | Some b \<Rightarrow>
               bnd (lift_exn (run_meta_for m run (ix_source_repo ix))) (\<lambda>meta. ret (Inr (m, b, meta))))) w2 = (Inr (Inr (m, b, meta)), w')"
    unfolding check_bundle_def bnd_Inr_iff by (auto split: prod.splits)
  from rest have "m0 = Some m" "reasons = []" "run_meta_for m run (ix_source_repo ix) = Inr meta"
    by (auto simp: bnd_Inr_iff ret_def lift_exn_def split: option.splits if_splits)
  with v show "\<exists>fs u u'. validate_bundle L fs dir run ix (scan_descends E ix) u = (Inr (Some m, []), u')"
    "run_meta_for m run (ix_source_repo ix) = Inr meta" by blast+
qed

lemma dict_set_mem: "(k, v) \<in> set d \<Longrightarrow> k \<noteq> k' \<Longrightarrow> (k, v) \<in> set (dict_set k' v' d)"
  by (induction d rule: dict_set.induct) auto

lemma emap_Inr_mem: "emap (\<lambda>_. f m) i xs = Inr ys \<Longrightarrow> x \<in> set xs \<Longrightarrow> \<exists>y \<in> set ys. f m x = Inr y"
  by (induction xs arbitrary: i ys) (auto simp: ebind_Inr_iff)

text \<open>The contract of a complete run: an authentic bundle whose runtime jobs all passed on the scanned images.\<close>

definition runtime_passed :: "BaselineManifest \<Rightarrow> str \<Rightarrow> bool" where
  "runtime_passed m name \<longleftrightarrow>
     (\<exists>r target. dict_get (bm_runtime m) name = Some r \<and> map_option snd (dict_get RUNTIME_RECORDS (rr_job r)) = Some target \<and>
        rr_digest r = image_id_text m (image_target_value target) \<and> rr_passed r)"

definition scan_authentic :: "'spec Lib \<Rightarrow> IntakeExpectation \<Rightarrow> WorkflowRunInfo \<Rightarrow> ScanRun \<Rightarrow> bool" where
  "scan_authentic L ix run r \<longleftrightarrow>
     sr_external_run_id r = external_run_id (ix_source_repo ix) run \<and>
     (\<exists>fs dir m. load_baseline L fs dir = Inr m \<and> speaks_for m run ix \<and> sr_source_sha r = bm_source_sha m \<and>
        (\<forall>name \<in> set (ix_required_jobs ix). job_proved L fs ix m name) \<and>
        (sr_status r = SR_complete \<longrightarrow> wr_conclusion run = Some ''success'' \<and>
           (\<forall>name \<in> set (ix_required_runtime_jobs ix). runtime_passed m name)))"

lemma load_runtime_keys:
  assumes "load_runtime L fs path files = Inr rt" and "(k, r) \<in> set rt"
  shows "dict_get RUNTIME_RECORDS k \<noteq> None"
proof -
  obtain rs where rs: "emap (\<lambda>_ (job, rel, target). ebind (py_in rel files) (\<lambda>listed.
      if listed then ebind (load_runtime_record L fs path job) (\<lambda>r. Inr [(job, r)]) else Inr [])) 0 RUNTIME_RECORDS = Inr rs"
    and rt: "rt = concat rs" using assms(1) by (auto simp: load_runtime_def ebind_Inr_iff)
  from rt assms(2) obtain xs where "xs \<in> set rs" "(k, r) \<in> set xs" by auto
  with emap_Inr_inv [OF rs] show ?thesis
    by (fastforce simp: ebind_Inr_iff RUNTIME_RECORDS_def dict_get_def split: prod.splits if_splits)
qed

lemma load_baseline_runtime:
  assumes "load_baseline L fs path = Inr m"
  shows "\<exists>files. load_runtime L fs path files = Inr (bm_runtime m)"
proof -
  from assms obtain files rt where "load_runtime L fs path files = Inr rt" "rt = bm_runtime m"
    unfolding load_baseline_def ebind_Inr_iff if_Inl_iff by (elim exE conjE) (rule that, assumption, auto)
  then show ?thesis by blast
qed

lemma proven_success:
  assumes "run_meta_for m run repo = Inr meta" and "run_succeeded meta jobs"
    and "dict_get (job_results_of m) name = Some s" and "name \<noteq> ''workflow''"
  shows "s = ''success''"
proof -
  obtain results where results: "proven_job_results m = Inr results"
    and rm: "rm_job_results meta = dict_set ''workflow'' (JStr (workflow_result run)) (map (\<lambda>(k, v). (k, JStr v)) results)"
    using assms(1) by (auto simp: run_meta_for_def ebind_Inr_iff)
  have "(name, s) \<in> set (job_results_of m)" using assms(3) by (auto simp: dict_get_def dest: map_of_SomeD)
  then obtain y where y: "y \<in> set results" "proven_result m (name, s) = Inr y"
    using results emap_Inr_mem [of proven_result] unfolding proven_job_results_def by blast
  then have fst: "fst y = name" and snd: "s \<noteq> ''success'' \<Longrightarrow> snd y = s"
    by (auto simp: proven_result_def ebind_Inr_iff split: if_splits option.splits)
  have "(name, JStr (snd y)) \<in> set (map (\<lambda>(k, v). (k, JStr v)) results)" using y(1) fst by force
  then have "(name, JStr (snd y)) \<in> set (rm_job_results meta)" unfolding rm using assms(4) by (rule dict_set_mem)
  with assms(2) have "snd y = ''success''" by (auto simp: run_succeeded_def job_result_ok_def list_all_iff)
  with snd show ?thesis by fastforce
qed

lemma workflow_success:
  assumes "run_meta_for m run repo = Inr meta" and "run_succeeded meta jobs" and "wr_status run = ''completed''"
  shows "wr_conclusion run = Some ''success''"
proof -
  obtain d where "rm_job_results meta = dict_set ''workflow'' (JStr (workflow_result run)) d"
    using assms(1) by (auto simp: run_meta_for_def ebind_Inr_iff)
  then have "(''workflow'', JStr (workflow_result run)) \<in> set (rm_job_results meta)"
    by (metis dict_get_def dict_get_set map_of_SomeD)
  with assms(2) have "workflow_result run = ''success''" by (auto simp: run_succeeded_def job_result_ok_def list_all_iff)
  with assms(3) show ?thesis by (auto simp: workflow_result_def or_str_def split: option.splits if_splits)
qed

lemma runtime_claimed:
  assumes "validate_bundle L fs dir run ix anc w = (Inr (Some m, []), w')" and "name \<in> set (ix_required_runtime_jobs ix)"
  shows "\<exists>s. dict_get (job_results_of m) name = Some s"
proof -
  have "runtime_job_problems m name = Inr []" by (rule validate_bundle_accepts(6) [OF assms])
  then show ?thesis
    by (auto simp: runtime_job_problems_def Let_def ebind_Inr_iff split: option.splits if_splits)
qed

lemma admitted_runtime_passed:
  assumes v: "validate_bundle L fs dir run ix anc u = (Inr (Some m, []), u')"
    and meta: "run_meta_for m run repo = Inr meta" and ok: "run_succeeded meta jobs"
    and name: "name \<in> set (ix_required_runtime_jobs ix)"
  shows "runtime_passed m name"
proof -
  obtain r target where r: "dict_get (bm_runtime m) name = Some r"
    "map_option snd (dict_get RUNTIME_RECORDS (rr_job r)) = Some target" "rr_digest r = image_id_text m (image_target_value target)"
    and p: "dict_get (job_results_of m) name = Some ''success'' \<longrightarrow> rr_passed r"
    using validate_bundle_accepts(5) [OF v name] by (auto simp: runtime_proved_def)
  obtain files where "load_runtime L fs dir files = Inr (bm_runtime m)"
    using load_baseline_runtime [OF validate_bundle_accepts(1) [OF v]] by blast
  moreover have "(name, r) \<in> set (bm_runtime m)" using r(1) by (simp add: dict_get_def map_of_SomeD)
  ultimately have "dict_get RUNTIME_RECORDS name \<noteq> None" by (rule load_runtime_keys)
  then have "name \<noteq> ''workflow''" by (auto simp: dict_get_def RUNTIME_RECORDS_def)
  then show ?thesis
    using proven_success [OF meta ok] runtime_claimed [OF v name] r p by (auto simp: runtime_passed_def)
qed

lemma admitted_authentic:
  assumes adm: "admitted_as E L ix run (m, b, meta)" and js: "select_jobs meta (bm_jobs m) = Inr js"
    and status: "wr_status run = ''completed''"
  shows "scan_authentic L ix run (new_scan_run meta js (run_succeeded meta (bm_jobs m)) ts i)"
proof -
  let ?r = "new_scan_run meta js (run_succeeded meta (bm_jobs m)) ts i"
  obtain dir w0 w1 where g: "guarded_check E L ix dir run w0 = (Inr (Inr (m, b, meta)), w1)" using adm by (auto simp: admitted_as_def)
  obtain fs u u' where v: "validate_bundle L fs dir run ix (scan_descends E ix) u = (Inr (Some m, []), u')"
    using guarded_check_admits(1) [OF g] by blast
  note meta = guarded_check_admits(2) [OF g]
  have "sr_external_run_id ?r = external_run_id (ix_source_repo ix) run \<and> sr_source_sha ?r = bm_source_sha m"
    using meta by (auto simp: run_meta_for_def ebind_Inr_iff new_scan_run_def)
  moreover have "sr_status ?r = SR_complete \<longrightarrow> run_succeeded meta (bm_jobs m)" by (simp add: new_scan_run_def)
  ultimately show ?thesis
    using validate_bundle_accepts(1,2,4) [OF v] workflow_success [OF meta _ status] admitted_runtime_passed [OF v meta]
    unfolding scan_authentic_def by blast
qed

lemma new_run_authentic:
  assumes run: "ingest_workflow_run E L ix run (fresh_world d) = (r, w')"
    and new: "x \<in> set (db_runs (w_db w'))" "x \<notin> set (db_runs d)"
  shows "scan_authentic L ix run x"
proof -
  let ?ext = "external_run_id (ix_source_repo ix) run"
  have unseen: "intake_of ?ext d = None"
    using run new ingest_workflow_run_seen [of ix run d _ E L]
    by (cases "intake_of ?ext d") (auto, simp add: fresh_world_def)
  note look = ingest_workflow_run_looked_at [OF unseen run]
  have status: "wr_status run = ''completed''" using look new by metis
  obtain out where out: "r = Inr out" using look new by (cases r) (auto simp: looked_at_def)
  have "io_status out = IS_ingested"
  proof (cases "io_status out")
    case IS_rejected
    then have "w_db w' = d\<lparr>db_intakes := db_intakes (w_db w')\<rparr>" using look by (simp add: looked_at_def out)
    then have "db_runs (w_db w') = db_runs (d\<lparr>db_intakes := db_intakes (w_db w')\<rparr>)" by (rule arg_cong)
    with new show ?thesis by simp
  qed
  with look have "ingested_as E L ix run out d (w_db w')" by (simp add: looked_at_def out)
  then obtain m b meta res where adm: "admitted_as E L ix run (m, b, meta)" and added: "run_added meta (bm_jobs m) res d (w_db w')"
    by (auto simp: ingested_as_def)
  from added new obtain js ts where js: "select_jobs meta (bm_jobs m) = Inr js"
    and x: "x = new_scan_run meta js (run_succeeded meta (bm_jobs m)) ts (next_id sr_id (db_runs d))"
    by (auto simp: run_added_def)
  show ?thesis unfolding x by (rule admitted_authentic [OF adm js status])
qed

section \<open>No malformed bundle escapes the check\<close>

definition raises_in :: "str list \<Rightarrow> 'a M \<Rightarrow> bool" where
  "raises_in C m \<longleftrightarrow> (\<forall>w e w'. m w = (Inl e, w') \<longrightarrow> exn_type e \<in> set C)"

named_theorems raise_intros \<open>operations whose exceptions are known\<close>

lemma raises_prims [raise_intros]:
  "raises_in C (ret a)" "raises_in C skip" "raises_in C (query f)" "raises_in C (now E)" "raises_in C (disk_now E)"
  by (simp_all add: raises_in_def ret_def skip_def query_def now_def disk_now_def)

lemma raises_raise: "exn_type e \<in> set C \<Longrightarrow> raises_in C (raise e)"
  by (simp add: raises_in_def raise_def)

lemma raises_lift: "(\<And>e. r = Inl e \<Longrightarrow> exn_type e \<in> set C) \<Longrightarrow> raises_in C (lift_exn r)"
  by (simp add: raises_in_def lift_exn_def)

lemma raises_bnd [raise_intros]: "raises_in C m \<Longrightarrow> (\<And>a. raises_in C (f a)) \<Longrightarrow> raises_in C (bnd m f)"
  unfolding raises_in_def bnd_def by (fastforce split: prod.splits sum.splits)

lemma raises_try: "(\<And>e. raises_in C (h e)) \<Longrightarrow> raises_in C (try_except m h)"
  unfolding raises_in_def try_except_def by (fastforce split: prod.splits sum.splits)

lemma raises_control [raise_intros]:
  "raises_in C m \<Longrightarrow> raises_in C m' \<Longrightarrow> raises_in C (if b then m else m')"
  "raises_in C m \<Longrightarrow> (\<And>a. raises_in C (g a)) \<Longrightarrow> raises_in C (case x of None \<Rightarrow> m | Some a \<Rightarrow> g a)"
  "(\<And>a b. raises_in C (k a b)) \<Longrightarrow> raises_in C (case z of (a, b) \<Rightarrow> k a b)"
  by (simp_all split: option.split prod.split)

lemma raises_handled:
  "raises_in C' m \<Longrightarrow> (\<And>e. exn_type e \<in> set C' \<Longrightarrow> raises_in C (h e)) \<Longrightarrow> raises_in C (try_except m h)"
  unfolding raises_in_def try_except_def by (fastforce split: prod.splits sum.splits)

abbreviation malformed_only :: "'a M \<Rightarrow> bool" where
  "malformed_only \<equiv> raises_in MALFORMED_ERRORS"

lemma safe_load_bundle: "evidence_safe (load_bundle L fs dir)"
  unfolding load_bundle_def by (intro safe_intros)

lemma safe_load_source: "evidence_safe (load_source_pyproject L fs dir sha)"
  unfolding load_source_pyproject_def load_source_file_def Let_def by (intro safe_intros)

lemma runtime_problems_error: "runtime_record_problems m r c = Inl e \<Longrightarrow> exn_type e = ''KeyError''"
  by (auto simp: runtime_record_problems_def key_error_def Let_def split: option.splits prod.splits)

lemma emap_error: "emap (\<lambda>_. f) i xs = Inl e \<Longrightarrow> \<exists>x \<in> set xs. f x = Inl e"
proof (induction xs arbitrary: i)
  case (Cons x xs)
  then show ?case by (cases "f x"; cases "emap (\<lambda>_. f) (Suc i) xs") (auto simp: ebind_def)
qed simp

lemma ebind_Inl_iff: "ebind r f = Inl e \<longleftrightarrow> r = Inl e \<or> (\<exists>a. r = Inr a \<and> f a = Inl e)"
  by (cases r) (auto simp: ebind_def)

lemma runtime_jobs_error:
  assumes "emap (\<lambda>_. runtime_job_problems m) 0 names = Inl e"
  shows "exn_type e \<in> set MALFORMED_ERRORS"
proof -
  obtain name where "runtime_job_problems m name = Inl e" using emap_error [OF assms] by blast
  then have "exn_type e = ''KeyError''"
    by (auto simp: runtime_job_problems_def Let_def ebind_Inl_iff dest: runtime_problems_error split: option.splits)
  then show ?thesis by (simp add: MALFORMED_ERRORS_def)
qed

lemma run_meta_error:
  assumes "run_meta_for m run repo = Inl e"
  shows "exn_type e \<in> set MALFORMED_ERRORS"
proof -
  have proven: "exn_type e = ''KeyError''" if "proven_job_results m = Inl e"
  proof -
    note failed = emap_error [OF that [unfolded proven_job_results_def]]
    then obtain x where "proven_result m x = Inl e" by blast
    then show ?thesis
      by (auto simp: proven_result_def ebind_Inl_iff dest: runtime_problems_error split: if_splits option.splits prod.splits)
  qed
  have "exn_type e \<in> {''KeyError'', ''ValueError''}"
    using assms proven
    by (auto simp: run_meta_for_def ebind_Inl_iff trigger_of_value_def digest_of_def bm_image_id_def item_of_def gate_mode_of_def
        key_error_def value_error_def Let_def split: option.splits if_splits)
  then show ?thesis by (auto simp: MALFORMED_ERRORS_def)
qed

lemma validate_bundle_raises: "malformed_only (validate_bundle L fs dir run ix (scan_descends E ix))"
proof -
  have "malformed_only (scan_descends E ix a b)" for a b
    unfolding scan_descends_def by (intro raise_intros raises_try)
  then show ?thesis
    using safe_load_bundle [of L fs dir] runtime_jobs_error
    unfolding validate_bundle_def Let_def
    by (cases "load_bundle L fs dir") (auto simp: evidence_safe_def intro!: raise_intros raises_lift split: prod.splits)
qed

text \<open>What \<open>tomllib\<close> and the lookup of its \<^verbatim>\<open>[project]\<close> table raise is a \<open>ValueError\<close> or a \<open>KeyError\<close>.\<close>

definition toml_documented :: "'spec Lib \<Rightarrow> bool" where
  "toml_documented L \<longleftrightarrow> (\<forall>s e. lb_toml L s = Inl e \<longrightarrow> exn_type e \<in> set MALFORMED_ERRORS)"

lemma bounds_error: "toml_documented L \<Longrightarrow> bounds_of_text L s = Inl e \<Longrightarrow> exn_type e \<in> set MALFORMED_ERRORS"
  by (auto simp: bounds_of_text_def toml_documented_def ebind_Inl_iff)

lemma upper_bounds_raises:
  assumes "toml_documented L"
  shows "malformed_only (upper_bounds E L ix sha)"
proof -
  let ?C = "''FileNotFoundError'' # MALFORMED_ERRORS"
  have "exn_type e \<in> set ?C" if "ebind (load_source_pyproject L fs p sha) (bounds_of_text L) = Inl e" for fs p e
    using that safe_load_source [of L fs p sha] bounds_error [OF assms]
    by (auto simp: ebind_Inl_iff evidence_safe_def EVIDENCE_ERRORS_def MALFORMED_ERRORS_def)
  then have "raises_in ?C (bnd (lift_exn (ebind (load_source_pyproject L fs p sha) (bounds_of_text L))) (\<lambda>b. ret (Some b)))" for fs p
    by (intro raise_intros raises_lift)
  then have handled: "malformed_only (try_except
           (bnd (lift_exn (ebind (load_source_pyproject L fs p sha) (bounds_of_text L))) (\<lambda>b. ret (Some b)))
           (\<lambda>e. if exn_type e \<in> set OS_OR_EVIDENCE_ERRORS then ret None else raise e))" for fs p
    by (rule raises_handled) (auto simp: OS_OR_EVIDENCE_ERRORS_def intro!: raise_intros raises_raise)
  then show ?thesis
    unfolding upper_bounds_def
    by (intro raises_bnd raises_control(2) handled raises_prims raises_try raises_lift bounds_error [OF assms])
qed

lemma guarded_check_total:
  assumes "toml_documented L"
  shows "\<exists>x w'. guarded_check E L ix dir run w = (Inr x, w')"
proof -
  have "malformed_only (check_bundle E L ix dir run)"
    unfolding check_bundle_def
    by (intro raise_intros validate_bundle_raises upper_bounds_raises [OF assms] raises_lift run_meta_error)
  then have "exn_type e \<in> set MALFORMED_ERRORS" if "check_bundle E L ix dir run w = (Inl e, w1)" for e w1
    using that by (simp add: raises_in_def) blast
  then show ?thesis
    by (cases "check_bundle E L ix dir run w"; cases "fst (check_bundle E L ix dir run w)")
       (auto simp: guarded_check_def try_except_def ret_def)
qed

end
