(* ===== verification/BundleSamples.thy ===== *)
theory BundleSamples
  imports Samples Outcomes
begin

text \<open>
  One concrete evidence bundle and the services that deliver it, on which the witnesses of the
  intake's properties are evaluated: two images, their raw and policy scans with nothing to report, runtime
  records. File contents are short tokens whose JSON \<open>sample_json\<close> gives; SHA-256 is taken to be the
  identity, which keeps every checksum comparison meaningful.
\<close>

section \<open>Libraries\<close>

definition sample_job_json :: "str \<Rightarrow> str \<Rightarrow> json" where
  "sample_job_json target mode = JObj
     [(''schema'', JStr JOB_SCHEMA), (''files'', JObj [(''trivy-vuln.json'', JStr ''c'')]),
      (''tools'', JObj [(''trivy'', JObj [(''version'', JStr ''1'')]), (''syft'', JObj [(''version'', JStr ''1'')]),
        (''grype'', JObj [(''version'', JStr ''1'')])]),
      (''mode'', JStr mode), (''image_ref'', JStr ''x@sha256:i''), (''image_target'', JStr target),
      (''platform'', JStr DEFAULT_PLATFORM), (''layer_scope'', JStr ''all''), (''started_at'', JStr ''d''),
      (''finished_at'', JStr ''d'')]"

text \<open>A manifest that lists the given jobs.\<close>

definition sample_manifest_json :: "str list \<Rightarrow> json" where
  "sample_manifest_json jobs = JObj
     [(''schema'', JStr SCAN_MANIFEST_SCHEMA),
      (''files'', JObj (map (\<lambda>(job, rel, target). (rel, JStr job)) RUNTIME_RECORDS)),
      (''jobs'', JArr (map JStr jobs)), (''source_repo'', JStr FORK_REPO), (''source_branch'', JStr REMEDIATION_BRANCH),
      (''source_sha'', JStr BASELINE_SHA), (''trigger'', JStr ''push''), (''platform'', JStr DEFAULT_PLATFORM),
      (''built_at'', JStr ''d''), (''captured_at'', JStr ''d''),
      (''images'', JObj [(''lean'', JObj [(''image_id'', JStr ''sha256:i'')]), (''ci'', JObj [(''image_id'', JStr ''sha256:i'')])]),
      (''ci_layer_delta'', JObj []),
      (''run'', JObj [(''run_id'', JInt 12), (''run_attempt'', JInt 1), (''url'', JStr ''u''),
        (''job_results'', JObj [(''lean-smoke'', JStr ''success''), (''app-runs'', JStr ''success'')])])]"

definition sample_runtime_json :: json where
  "sample_runtime_json = JObj [(''image_ref'', JStr ''x@sha256:i''), (''passed'', JBool True), (''checks'', JObj [])]"

definition sample_json :: "str list \<Rightarrow> str \<Rightarrow> json option" where
  "sample_json jobs = map_of
     [(''m'', sample_manifest_json jobs), (''c'', JObj [(''SchemaVersion'', JInt 2)]), (''s'', JObj [(''bomFormat'', JStr ''CycloneDX'')]),
      (''g'', JObj [(''matches'', JArr []), (''descriptor'', JObj [])]),
      (''lean-raw'', sample_job_json ''lean'' ''raw''), (''lean-policy'', sample_job_json ''lean'' ''policy''),
      (''ci-raw'', sample_job_json ''ci'' ''raw''), (''ci-policy'', sample_job_json ''ci'' ''policy''),
      (''lean-smoke'', sample_runtime_json), (''app-runs'', sample_runtime_json)]"

definition sample_packaging :: "str packaging" where
  "sample_packaging = \<lparr>pk_requirement = (\<lambda>_. None), pk_operators = (\<lambda>_. []), pk_and = (\<lambda>a b. a), pk_contains = (\<lambda>_ _. None),
     pk_text = (\<lambda>s. s)\<rparr>"

definition sample_lib :: "str list \<Rightarrow> str Lib" where
  "sample_lib jobs = \<lparr>lb_sha256 = (\<lambda>s. s), lb_json = sample_json jobs, lb_fromiso = (\<lambda>_. Some (0, Some 0)),
     lb_toml = (\<lambda>_. Inr (None, None)), lb_packaging = sample_packaging\<rparr>"

section \<open>The bundle on disk\<close>

definition sample_bundle :: str where "sample_bundle = ''/b''"

definition job_files :: "str \<Rightarrow> str \<Rightarrow> (str \<times> str) list" where
  "job_files dir job = map (\<lambda>(f, c). (path_join dir f, c))
     [(''job.json'', job), (''SHA256SUMS'', ''s''), (''grype-vuln.json'', ''g''), (''sbom.cdx.json'', ''s''), (''trivy-vuln.json'', ''c''),
      (''trivy-image-config.json'', ''c''), (''trivy-config.json'', ''c'')]"

definition sample_files :: "(str \<times> str) list" where
  "sample_files =
     [(''/b/manifest.json'', ''m''), (''/b/SHA256SUMS'', ''m  manifest.json''),
      (''/b/runtime/lean-smoke/lean-smoke.json'', ''lean-smoke''), (''/b/runtime/app-runs/app-runs.json'', ''app-runs'')] @
     job_files ''/b/lean/raw'' ''lean-raw'' @ job_files ''/b/lean/policy'' ''lean-policy'' @
     job_files ''/b/ci/raw'' ''ci-raw'' @ job_files ''/b/ci/policy'' ''ci-policy''"

definition sample_disk :: disk where
  "sample_disk = map_of sample_files"

definition sample_workflow_run :: WorkflowRunInfo where
  "sample_workflow_run = \<lparr>wr_id = 12, wr_run_attempt = 1, wr_event = ''push'', wr_status = ''completed'',
     wr_conclusion = Some ''success'', wr_head_branch = Some REMEDIATION_BRANCH, wr_head_sha = BASELINE_SHA, wr_url = ''u''\<rparr>"

definition sample_expectation :: IntakeExpectation where
  "sample_expectation = intake_expectation FORK_REPO REMEDIATION_BRANCH"

definition intake_env :: Env where
  "intake_env = sample_env
     \<lparr>en_workflow_runs := (\<lambda>_. Inr [sample_workflow_run]),
      en_artifacts := (\<lambda>_. Inr [\<lparr>ai_id = 5, ai_name = ''scan-evidence-12'', ai_expired = False, ai_digest = None\<rparr>]),
      en_download := (\<lambda>_. Inr sample_bundle), en_file := (\<lambda>_. Inr (Some \<lparr>bf_path = ''p'', bf_sha = ''s'', bf_content = []\<rparr>)),
      en_disk := (\<lambda>_. sample_disk)\<rparr>"

section \<open>The bundle taken in\<close>

definition good_lib :: "str Lib" where "good_lib = sample_lib DEFAULT_EXPECTED_JOBS"

text \<open>The same bundle with one more job: a policy scan of the image that is not the primary one.\<close>

definition extra_lib :: "str Lib" where "extra_lib = sample_lib (DEFAULT_EXPECTED_JOBS @ [''ci-policy''])"

definition ingested_world :: World where
  "ingested_world = snd (ingest_workflow_run intake_env good_lib sample_expectation sample_workflow_run (fresh_world empty_db))"

lemma sample_ingested:
  "map sr_status (db_runs (w_db ingested_world)) = [SR_complete] \<and>
   map si_status (db_intakes (w_db ingested_world)) = [IS_ingested]"
  unfolding ingested_world_def by code_simp

lemma extra_job_accepted:
  "map_option snd (case fst (validate_bundle extra_lib sample_disk sample_bundle sample_workflow_run sample_expectation
     (scan_descends intake_env sample_expectation) (fresh_world empty_db)) of Inr x \<Rightarrow> Some x | Inl e \<Rightarrow> None) = Some []"
  by code_simp

lemma extra_job_raises:
  "fst (poll_scans intake_env extra_lib (fresh_world empty_db)) =
     Inl (value_error ''policy scans of a non-primary image target have no consumer'') \<and>
   db_intakes (w_db (snd (poll_scans intake_env extra_lib (fresh_world empty_db)))) = []"
  by code_simp

lemma ingested_reachable: "system_reachable good_lib empty_db (w_db ingested_world)"
proof -
  have "intake_step good_lib empty_db (w_db ingested_world)" unfolding ingested_world_def by (rule intake_step.one_run)
  then show ?thesis by (metis reachable.start reachable.step controller_step.ingested)
qed

end
