(* ===== verification/Metrics.thy ===== *)
theory Metrics
  imports Store Gate
begin

text \<open>
  \<^verbatim>\<open>metrics.py\<close>: every number the dashboard and the report show, as a function of the database, and the
  persisted snapshots. Floats are exact rationals. A row's id is never 0, so \<open>w.id or -1\<close> is the id.
\<close>

section \<open>Counts of a run\<close>

definition OPEN_FINDING_STATES :: "FindingState list" where
  "OPEN_FINDING_STATES =
     [F_open, F_unclassified, F_grouped, F_in_remediation, F_awaiting_rescan, F_regression, F_human_blocked]"

definition present_sightings :: "Db \<Rightarrow> nat \<Rightarrow> ScanMode \<Rightarrow> Sighting list" where
  "present_sightings d run_id mode =
     filter (\<lambda>g. sg_scan_run_id g = run_id \<and> sg_mode g = mode \<and> sg_present g) (db_sightings d)"

definition sighted_severity :: "Sighting \<Rightarrow> Severity" where
  "sighted_severity g = (case sg_severity g of Some s \<Rightarrow> s | None \<Rightarrow> SEV_unknown)"

definition note_severity :: "(nat, Severity) dict \<Rightarrow> Sighting \<Rightarrow> (nat, Severity) dict" where
  "note_severity highest g =
     (let fid = sg_finding_id g; severity = sighted_severity g in
      case dict_get highest fid of
        None \<Rightarrow> dict_set fid severity highest
      | Some s \<Rightarrow> if severity_rank s < severity_rank severity then dict_set fid severity highest else highest)"

definition highest_severities :: "Db \<Rightarrow> nat \<Rightarrow> ScanMode \<Rightarrow> (nat, Severity) dict" where
  "highest_severities d run_id mode = foldl note_severity [] (present_sightings d run_id mode)"

definition counts_by_severity :: "Db \<Rightarrow> nat \<Rightarrow> ScanMode \<Rightarrow> (str, nat) dict" where
  "counts_by_severity d run_id mode =
     (let found = map snd (highest_severities d run_id mode) in
      map (\<lambda>s. (severity_value s, count_list found s)) all_severities)"

definition raw_counts_by_severity :: "Db \<Rightarrow> nat \<Rightarrow> (str, nat) dict" where
  "raw_counts_by_severity d run_id = counts_by_severity d run_id SM_raw"

definition policy_counts_by_severity :: "Db \<Rightarrow> nat \<Rightarrow> (str, nat) dict" where
  "policy_counts_by_severity d run_id = counts_by_severity d run_id SM_policy"

definition int_counts :: "(str, nat) dict \<Rightarrow> (str, int) dict" where
  "int_counts = map (\<lambda>(k, n). (k, int n))"

definition run_gate :: "Db \<Rightarrow> ScanRun \<Rightarrow> GateVerdict" where
  "run_gate d run = gate_verdict (sr_scan_gate_mode run) (int_counts (policy_counts_by_severity d (sr_id run)))"

record RunSummary =
  ru_id :: nat
  ru_external_run_id :: str
  ru_source_branch :: str
  ru_source_sha :: str
  ru_trigger :: str
  ru_status :: str
  ru_is_baseline :: bool
  ru_ingested_at :: int
  ru_lean_digest :: "str option"
  ru_scan_gate_mode :: str
  ru_tools :: "(str, json) dict"
  ru_raw_by_severity :: "(str, nat) dict"
  ru_policy_by_severity :: "(str, nat) dict"
  ru_raw_total :: nat
  ru_policy_total :: nat
  ru_gate :: "(str, json) dict"

definition summarize_run :: "Db \<Rightarrow> ScanRun \<Rightarrow> RunSummary" where
  "summarize_run d run =
     (let raw = raw_counts_by_severity d (sr_id run); pol = policy_counts_by_severity d (sr_id run);
          gate = gate_verdict (sr_scan_gate_mode run) (int_counts pol) in
      \<lparr>ru_id = sr_id run, ru_external_run_id = sr_external_run_id run, ru_source_branch = sr_source_branch run,
       ru_source_sha = sr_source_sha run, ru_trigger = trigger_value (sr_trigger run),
       ru_status = scan_run_status_value (sr_status run), ru_is_baseline = sr_is_baseline run,
       ru_ingested_at = sr_ingested_at run, ru_lean_digest = sr_lean_digest run,
       ru_scan_gate_mode = gate_mode_value (sr_scan_gate_mode run), ru_tools = sr_tools run,
       ru_raw_by_severity = raw, ru_policy_by_severity = pol,
       ru_raw_total = sum_list (map snd raw), ru_policy_total = sum_list (map snd pol),
       ru_gate = [(''mode'', JStr (gate_mode_value (gv_mode gate))), (''passed'', JBool (gv_passed gate)),
         (''reason'', JStr (gv_reason gate)), (''ready_for_enforce'', JBool (ready_for_enforce gate))]\<rparr>)"

section \<open>Aggregates\<close>

definition hours_between :: "int \<Rightarrow> int option \<Rightarrow> rat option" where
  "hours_between a b = (case b of None \<Rightarrow> None | Some t \<Rightarrow> Some (of_int (max (t - a) 0) / 3600000000))"

definition percentile :: "rat list \<Rightarrow> rat \<Rightarrow> rat option" where
  "percentile values pct =
     (if values = [] then None
      else let ordered = sort values; k = of_nat (length ordered - 1) * pct;
               lo = nat \<lfloor>k\<rfloor>; hi = min (lo + 1) (length ordered - 1) in
        Some (ordered ! lo + (ordered ! hi - ordered ! lo) * (k - of_nat lo)))"

text \<open>\<open>statistics.median\<close>.\<close>

definition median :: "rat list \<Rightarrow> rat option" where
  "median values =
     (let ordered = sort values; n = length ordered in
      if n = 0 then None
      else if odd n then Some (ordered ! (n div 2))
      else Some ((ordered ! (n div 2 - 1) + ordered ! (n div 2)) / 2))"

record Timing =
  ti_verified_count :: nat
  ti_median_hours :: "rat option"
  ti_p90_hours :: "rat option"
  ti_samples_hours :: "rat list"

definition opened_at :: "WorkItem \<Rightarrow> int" where
  "opened_at w = (case wi_issue_opened_at w of Some t \<Rightarrow> t | None \<Rightarrow> wi_created_at w)"

definition timing :: "WorkItem list \<Rightarrow> Timing" where
  "timing items =
     (let samples = List.map_filter (\<lambda>w. hours_between (opened_at w) (wi_verified_at w)) items in
      \<lparr>ti_verified_count = length samples, ti_median_hours = median samples,
       ti_p90_hours = percentile samples (9 / 10), ti_samples_hours = samples\<rparr>)"

record FirstTry =
  ft_attempted :: nat
  ft_succeeded :: nat

definition first_try :: "PullRequest list \<Rightarrow> FirstTry" where
  "first_try prs =
     (let judged = filter (\<lambda>p. pr_first_head_checks_green p \<noteq> None) prs in
      \<lparr>ft_attempted = length judged,
       ft_succeeded = length (filter (\<lambda>p. pr_first_head_checks_green p = Some True) judged)\<rparr>)"

definition first_try_rate :: "FirstTry \<Rightarrow> rat option" where
  "first_try_rate t = (if ft_attempted t = 0 then None else Some (of_nat (ft_succeeded t) / of_nat (ft_attempted t)))"

text \<open>\<open>ts.date().isoformat()\<close>, and \<open>dict(sorted(Counter(...).items()))\<close>.\<close>

definition day_of :: "int \<Rightarrow> str" where
  "day_of t = take 10 (show_datetime t)"

definition counter :: "'k list \<Rightarrow> ('k, nat) dict" where
  "counter = foldl (\<lambda>d k. counter_add k d) []"

definition sorted_counter :: "str list \<Rightarrow> (str, nat) dict" where
  "sorted_counter ks = sort_key fst (counter ks)"

definition per_day :: "int option list \<Rightarrow> (str, nat) dict" where
  "per_day ts = sorted_counter (List.map_filter (map_option day_of) ts)"

section \<open>The metrics of a database\<close>

definition finding_kind :: "Finding \<Rightarrow> str" where
  "finding_kind f = (case fd_kind f of Some k \<Rightarrow> kind_slug k | None \<Rightarrow> ''unclassified'')"

definition finding_scanner :: "Finding \<Rightarrow> str" where
  "finding_scanner f =
     (if fd_reported_by_trivy f \<and> fd_reported_by_grype f then ''both''
      else if fd_reported_by_trivy f then ''trivy_only''
      else if fd_reported_by_grype f then ''grype_only'' else ''config'')"

definition open_high_critical :: "Finding \<Rightarrow> bool" where
  "open_high_critical f \<longleftrightarrow> fd_state f \<in> set OPEN_FINDING_STATES \<and> fd_severity f \<in> {SEV_high, SEV_critical}"

definition all_work_item_states :: "WorkItemState list" where
  "all_work_item_states =
     [W_queued, W_issue_open, W_dispatching, W_session_active, W_pr_open, W_checks_running, W_checks_failed,
      W_review_pending, W_ready_for_human, W_merged, W_awaiting_rescan, W_verified, W_needs_human, W_abandoned, W_failed]"

definition all_kinds :: "Kind list" where
  "all_kinds = [K_dependency_upgrade, K_no_fix_reachability, K_container_hardening, K_scanner_disagreement, K_helm_deploy_config]"

text \<open>\<open>{p.work_item_id: p for p in prs}\<close>: the last pull request of an item.\<close>

definition pr_by_item :: "PullRequest list \<Rightarrow> (nat, PullRequest) dict" where
  "pr_by_item prs = foldl (\<lambda>d p. dict_set (pr_work_item_id p) p d) [] prs"

definition prs_of_kind :: "WorkItem list \<Rightarrow> PullRequest list \<Rightarrow> Kind \<Rightarrow> PullRequest list" where
  "prs_of_kind items prs k =
     List.map_filter (\<lambda>w. dict_get (pr_by_item prs) (wi_id w)) (filter (\<lambda>w. wi_kind w = k) items)"

section \<open>Cost\<close>

definition acu_add :: "(nat, rat) dict \<Rightarrow> DevinSession \<Rightarrow> (nat, rat) dict" where
  "acu_add acc s =
     dict_set (se_work_item_id s) ((case dict_get acc (se_work_item_id s) of Some x \<Rightarrow> x | None \<Rightarrow> 0) + se_acus_consumed s) acc"

definition acu_by_item :: "DevinSession list \<Rightarrow> (nat, rat) dict" where
  "acu_by_item sessions = foldl acu_add [] sessions"

definition acu_of :: "(nat, rat) dict \<Rightarrow> nat \<Rightarrow> rat" where
  "acu_of acc wid = (case dict_get acc wid of Some x \<Rightarrow> x | None \<Rightarrow> 0)"

record Cost =
  co_acu_total :: rat
  co_acu_verified_items :: rat
  co_verified_items :: nat
  co_acu_per_verified_issue :: "rat option"
  co_acu_cost_usd :: "rat option"
  co_estimated_cost_total_usd :: "rat option"
  co_estimated_cost_per_verified_issue_usd :: "rat option"

definition cost_of :: "DevinSession list \<Rightarrow> WorkItem list \<Rightarrow> rat option \<Rightarrow> Cost" where
  "cost_of sessions verified acu_cost_usd =
     (let acc = acu_by_item sessions; total = sum_list (map snd acc);
          of_verified = sum_list (map (\<lambda>w. acu_of acc (wi_id w)) verified);
          per_verified = (if verified = [] then None else Some (of_verified / of_nat (length verified))) in
      \<lparr>co_acu_total = total, co_acu_verified_items = of_verified, co_verified_items = length verified,
       co_acu_per_verified_issue = per_verified, co_acu_cost_usd = acu_cost_usd,
       co_estimated_cost_total_usd = map_option (\<lambda>c. total * c) acu_cost_usd,
       co_estimated_cost_per_verified_issue_usd =
         (case (per_verified, acu_cost_usd) of (Some p, Some c) \<Rightarrow> Some (p * c) | _ \<Rightarrow> None)\<rparr>)"

section \<open>Pull requests and verification depth\<close>

record PRLevel =
  pl_work_item_id :: nat
  pl_kind :: str
  pl_pr_url :: str
  pl_level :: nat
  pl_level_name :: str
  pl_depth :: "nat option"
  pl_depth_name :: "str option"
  pl_depth_rungs :: "(str, str) dict"
  pl_first_head_checks_green :: "bool option"
  pl_retries_used :: nat
  pl_state :: str

definition pr_level :: "WorkItem \<Rightarrow> PullRequest \<Rightarrow> PRLevel" where
  "pr_level w p =
     \<lparr>pl_work_item_id = wi_id w, pl_kind = kind_slug (wi_kind w), pl_pr_url = (case wi_pr_url w of Some u \<Rightarrow> u | None \<Rightarrow> []),
      pl_level = level_value (wi_lifecycle_level w), pl_level_name = level_name (wi_lifecycle_level w),
      pl_depth = map_option depth_value (wi_verification_depth w),
      pl_depth_name = map_option depth_name (wi_verification_depth w), pl_depth_rungs = pr_depth_rungs p,
      pl_first_head_checks_green = pr_first_head_checks_green p, pl_retries_used = wi_retries_used w,
      pl_state = work_item_state_value (wi_state w)\<rparr>"

definition pr_levels :: "WorkItem list \<Rightarrow> PullRequest list \<Rightarrow> PRLevel list" where
  "pr_levels items prs = List.map_filter (\<lambda>w. map_option (pr_level w) (dict_get (pr_by_item prs) (wi_id w))) items"

record DepthSummary =
  ds_highest_by_depth :: "(str, nat) dict"
  ds_prs_without_depth :: nat
  ds_partial_rungs :: nat
  ds_unavailable_rungs :: nat
  ds_failed_rungs :: nat

definition depth_summary :: "PRLevel list \<Rightarrow> DepthSummary" where
  "depth_summary levels =
     (let rung_values = concat (map (\<lambda>l. map snd (pl_depth_rungs l)) levels) in
      \<lparr>ds_highest_by_depth =
         map (\<lambda>d. (depth_name d, length (filter (\<lambda>l. pl_depth_name l = Some (depth_name d)) levels))) all_depths,
       ds_prs_without_depth = length (filter (\<lambda>l. pl_depth l = None) levels),
       ds_partial_rungs = count_list rung_values (check_status_value CK_partial),
       ds_unavailable_rungs = count_list rung_values (check_status_value CK_unavailable),
       ds_failed_rungs = count_list rung_values (check_status_value CK_failed)\<rparr>)"

section \<open>The latest run of the branch\<close>

definition main_runs :: "ScanRun list \<Rightarrow> ScanRun list" where
  "main_runs runs =
     (let proper = filter (\<lambda>r. sr_source_branch r = ''main'' \<and> sr_status r = SR_complete \<and> \<not> sr_is_baseline r) runs in
      if proper \<noteq> [] then proper else filter (\<lambda>r. sr_source_branch r = ''main'') runs)"

definition latest_main :: "ScanRun list \<Rightarrow> ScanRun option" where
  "latest_main runs = (case main_runs runs of [] \<Rightarrow> None | r # rs \<Rightarrow> Some (max_by chronology r rs))"

definition gate_ready :: "RunSummary list \<Rightarrow> ScanRun option \<Rightarrow> bool option" where
  "gate_ready summaries latest =
     (case latest of
        None \<Rightarrow> None
      | Some run \<Rightarrow>
          (case find (\<lambda>s. ru_id s = sr_id run) summaries of
             Some s \<Rightarrow> (case dict_get (ru_gate s) ''ready_for_enforce'' of Some (JBool b) \<Rightarrow> Some b | _ \<Rightarrow> None)
           | None \<Rightarrow> None))"

record Metrics =
  me_generated_at :: int
  me_runs :: "RunSummary list"
  me_findings_by_run :: "(str, (str, nat) dict) dict"
  me_findings_by_kind :: "(str, nat) dict"
  me_findings_by_layer :: "(str, nat) dict"
  me_findings_by_scanner :: "(str, nat) dict"
  me_findings_by_state :: "(str, nat) dict"
  me_open_high_critical :: nat
  me_issues_by_state :: "(str, nat) dict"
  me_first_try_overall :: FirstTry
  me_first_try_by_kind :: "(str, FirstTry) dict"
  me_timing :: Timing
  me_timing_by_kind :: "(str, Timing) dict"
  me_cost :: Cost
  me_pr_levels :: "PRLevel list"
  me_depth :: DepthSummary
  me_verified_per_day :: "(str, nat) dict"
  me_prs_opened_per_day :: "(str, nat) dict"
  me_sessions_started_per_day :: "(str, nat) dict"
  me_retries_total :: nat
  me_active_sessions :: nat
  me_needs_human :: nat
  me_gate_ready_for_enforce :: "bool option"
  me_latest_main_run_id :: "nat option"

definition compute_metrics :: "Db \<Rightarrow> rat option \<Rightarrow> int \<Rightarrow> Metrics" where
  "compute_metrics d acu_cost_usd t =
     (let runs = sort_key chronology (db_runs d); findings = db_findings d; items = sort_key wi_id (db_work_items d);
          prs = db_prs d; summaries = map (summarize_run d) runs;
          verified = filter (\<lambda>w. wi_state w = W_verified) items;
          levels = pr_levels items prs; latest = latest_main runs in
      \<lparr>me_generated_at = t, me_runs = summaries,
       me_findings_by_run = foldl (\<lambda>acc s. dict_set (ru_external_run_id s) (ru_raw_by_severity s) acc) [] summaries,
       me_findings_by_kind = sorted_counter (map finding_kind findings),
       me_findings_by_layer = sorted_counter (map (layer_value \<circ> fd_layer) findings),
       me_findings_by_scanner = sorted_counter (map finding_scanner findings),
       me_findings_by_state = sorted_counter (map (finding_state_value \<circ> fd_state) findings),
       me_open_high_critical = length (filter open_high_critical findings),
       me_issues_by_state =
         map (\<lambda>s. (work_item_state_value s, count_list (map (work_item_state_value \<circ> wi_state) items) (work_item_state_value s)))
           all_work_item_states,
       me_first_try_overall = first_try prs,
       me_first_try_by_kind = map (\<lambda>k. (kind_slug k, first_try (prs_of_kind items prs k))) all_kinds,
       me_timing = timing verified,
       me_timing_by_kind = map (\<lambda>k. (kind_slug k, timing (filter (\<lambda>w. wi_kind w = k) verified))) all_kinds,
       me_cost = cost_of (db_sessions d) verified acu_cost_usd,
       me_pr_levels = levels, me_depth = depth_summary levels,
       me_verified_per_day = per_day (map wi_verified_at verified),
       me_prs_opened_per_day = per_day (map (Some \<circ> pr_opened_at) prs),
       me_sessions_started_per_day = per_day (map (Some \<circ> se_created_at) (db_sessions d)),
       me_retries_total = sum_list (map wi_retries_used items),
       me_active_sessions = length (filter (\<lambda>w. wi_state w \<in> set ACTIVE_WORK_ITEM_STATES) items),
       me_needs_human = length (filter (\<lambda>w. wi_state w \<in> {W_needs_human, W_failed}) items),
       me_gate_ready_for_enforce = gate_ready summaries latest,
       me_latest_main_run_id = map_option sr_id latest\<rparr>)"

section \<open>Snapshots\<close>

record MetricsSnapshot =
  ms_id :: nat
  ms_taken_at :: int
  ms_trigger :: str
  ms_latest_main_run_id :: "nat option"
  ms_open_high_critical :: nat
  ms_needs_human :: nat
  ms_active_sessions :: nat
  ms_verified_prs :: nat
  ms_acus_total :: rat
  ms_cost_usd_total :: "rat option"
  ms_body :: Metrics

text \<open>The row is added to the table of snapshots, which the controller never reads.\<close>

definition snapshot_metrics :: "Db \<Rightarrow> str \<Rightarrow> rat option \<Rightarrow> int \<Rightarrow> MetricsSnapshot list \<Rightarrow> MetricsSnapshot list" where
  "snapshot_metrics d trigger acu_cost_usd t snapshots =
     (let m = compute_metrics d acu_cost_usd t in
      snapshots @ [\<lparr>ms_id = next_id ms_id snapshots, ms_taken_at = t, ms_trigger = trigger,
        ms_latest_main_run_id = me_latest_main_run_id m, ms_open_high_critical = me_open_high_critical m,
        ms_needs_human = me_needs_human m, ms_active_sessions = me_active_sessions m,
        ms_verified_prs = co_verified_items (me_cost m), ms_acus_total = co_acu_total (me_cost m),
        ms_cost_usd_total = co_estimated_cost_total_usd (me_cost m), ms_body = m\<rparr>])"

definition metrics_history :: "nat \<Rightarrow> MetricsSnapshot list \<Rightarrow> MetricsSnapshot list" where
  "metrics_history limit snapshots = take limit (rev (sort_key ms_id snapshots))"

end
