(* ===== verification/Report.thy ===== *)
theory Report
  imports Metrics Lineage Evidence
begin

text \<open>
  \<^verbatim>\<open>report/run_report.py\<close>: the baseline and the latest run, their counts, the dependency upgrades against
  the upstream pins, the work items, and the report as Markdown. \<open>packaging.version\<close> is a parameter:
  how a version parses, the key it is ordered by, and its text.
\<close>

section \<open>Facts of a run\<close>

record JobFacts =
  jf_name :: str
  jf_scanner :: "str option"
  jf_mode :: "str option"
  jf_layer_scope :: str
  jf_success :: bool
  jf_tool_version :: "str option"
  jf_db_built_at :: "str option"
  jf_counts :: "(str, nat) dict"

record RunFacts =
  rf_id :: nat
  rf_external_run_id :: str
  rf_source_branch :: str
  rf_source_sha :: str
  rf_trigger :: str
  rf_status :: str
  rf_is_baseline :: bool
  rf_scan_gate_mode :: str
  rf_lean_digest :: "str option"
  rf_ci_digest :: "str option"
  rf_ci_layer_delta :: "(str, json) dict option"
  rf_platform :: str
  rf_tools :: "(str, json) dict"
  rf_ingested_at :: int
  rf_jobs :: "JobFacts list"
  rf_db_built_at :: "(str, int option) dict"
  rf_raw_by_severity :: "(str, nat) dict"
  rf_policy_by_severity :: "(str, nat) dict"
  rf_raw_total :: nat
  rf_policy_total :: nat
  rf_raw_by_kind :: "(str, nat) dict"
  rf_raw_by_layer :: "(str, nat) dict"
  rf_raw_by_scanner :: "(str, nat) dict"
  rf_policy_by_kind :: "(str, nat) dict"
  rf_gate_mode :: str
  rf_gate_passed :: bool
  rf_gate_reason :: str
  rf_gate_ready_for_enforce :: bool

definition present_ids :: "Db \<Rightarrow> nat \<Rightarrow> ScanMode \<Rightarrow> nat list" where
  "present_ids d run_id mode = fromkeys (map sg_finding_id (present_sightings d run_id mode))"

definition job_facts :: "ScanJob \<Rightarrow> JobFacts" where
  "job_facts j =
     \<lparr>jf_name = sj_name j, jf_scanner = map_option scanner_value (sj_scanner j), jf_mode = map_option scan_mode_value (sj_mode j),
      jf_layer_scope = sj_layer_scope j, jf_success = sj_success j, jf_tool_version = sj_tool_version j,
      jf_db_built_at = map_option (\<lambda>t. iso_datetime (t, 0)) (sj_db_built_at j), jf_counts = sj_counts j\<rparr>"

definition run_facts :: "Db \<Rightarrow> ScanRun \<Rightarrow> (nat, Finding) dict \<Rightarrow> RunFacts" where
  "run_facts d run findings_by_id =
     (let found = (\<lambda>mode. List.map_filter (dict_get findings_by_id) (present_ids d (sr_id run) mode));
          jobs = sort_key sj_id (filter (\<lambda>j. sj_scan_run_id j = sr_id run) (db_jobs d));
          raw = raw_counts_by_severity d (sr_id run); pol = policy_counts_by_severity d (sr_id run); gate = run_gate d run in
      \<lparr>rf_id = sr_id run, rf_external_run_id = sr_external_run_id run, rf_source_branch = sr_source_branch run,
       rf_source_sha = sr_source_sha run, rf_trigger = trigger_value (sr_trigger run),
       rf_status = scan_run_status_value (sr_status run), rf_is_baseline = sr_is_baseline run,
       rf_scan_gate_mode = gate_mode_value (sr_scan_gate_mode run), rf_lean_digest = sr_lean_digest run,
       rf_ci_digest = sr_ci_digest run, rf_ci_layer_delta = sr_ci_layer_delta run, rf_platform = sr_platform run,
       rf_tools = sr_tools run, rf_ingested_at = sr_ingested_at run, rf_jobs = map job_facts jobs,
       rf_db_built_at =
         foldl (\<lambda>acc j. dict_set (sj_name j) (sj_db_built_at j) acc) [] (filter (\<lambda>j. sj_scanner j \<noteq> None) jobs),
       rf_raw_by_severity = raw, rf_policy_by_severity = pol,
       rf_raw_total = sum_list (map snd raw), rf_policy_total = sum_list (map snd pol),
       rf_raw_by_kind = sorted_counter (map finding_kind (found SM_raw)),
       rf_raw_by_layer = sorted_counter (map (layer_value \<circ> fd_layer) (found SM_raw)),
       rf_raw_by_scanner = sorted_counter (map finding_scanner (found SM_raw)),
       rf_policy_by_kind = sorted_counter (map finding_kind (found SM_policy)),
       rf_gate_mode = gate_mode_value (gv_mode gate), rf_gate_passed = gv_passed gate, rf_gate_reason = gv_reason gate,
       rf_gate_ready_for_enforce = ready_for_enforce gate\<rparr>)"

definition closing_candidate :: "ScanRun \<Rightarrow> bool" where
  "closing_candidate r \<longleftrightarrow> sr_status r = SR_complete \<and> sr_trigger r \<in> set CLOSING_TRIGGERS"

definition branch_runs :: "ScanRun list \<Rightarrow> str \<Rightarrow> str \<Rightarrow> ScanRun list" where
  "branch_runs runs fork_repo branch =
     sort_key chronology (filter (\<lambda>r. sr_source_repo r = fork_repo \<and> sr_source_branch r = branch) runs)"

definition last_of :: "'a list \<Rightarrow> 'a option" where
  "last_of xs = (if xs = [] then None else Some (last xs))"

definition select_runs :: "ScanRun list \<Rightarrow> str \<Rightarrow> str \<Rightarrow> ScanRun option \<times> ScanRun option" where
  "select_runs runs fork_repo branch =
     (let on_branch = branch_runs runs fork_repo branch; closing = filter closing_candidate on_branch in
      (case find sr_is_baseline on_branch of
         Some r \<Rightarrow> Some r
       | None \<Rightarrow> (case on_branch of [] \<Rightarrow> None | r # _ \<Rightarrow> Some r),
       if closing \<noteq> [] then last_of closing else last_of on_branch))"

section \<open>Dependencies\<close>

record ('v, 'k) versions =
  vs_parse :: "str \<Rightarrow> 'v option"
  vs_key :: "'v \<Rightarrow> 'k"
  vs_text :: "'v \<Rightarrow> str"

definition parse_version :: "('v, 'k::linorder) versions \<Rightarrow> str \<Rightarrow> 'v option" where
  "parse_version V v = (if v = [] then None else vs_parse V v)"

definition relation_to_upstream :: "('v, 'k::linorder) versions \<Rightarrow> str option \<Rightarrow> str option \<Rightarrow> str" where
  "relation_to_upstream V target upstream =
     (case (target, upstream) of
        (None, _) \<Rightarrow> ''no_target''
      | (Some _, None) \<Rightarrow> ''upstream_unpinned''
      | (Some a, Some b) \<Rightarrow>
          (case (parse_version V a, parse_version V b) of
             (Some t, Some u) \<Rightarrow>
               if vs_key V t = vs_key V u then ''matches'' else if vs_key V u < vs_key V t then ''above'' else ''below''
           | _ \<Rightarrow> ''unparseable''))"

definition min_fixed :: "('v, 'k::linorder) versions \<Rightarrow> Finding list \<Rightarrow> str option" where
  "min_fixed V members =
     (case List.map_filter (parse_version V) (concat (map (\<lambda>f. concat (map snd (fd_fix_versions_by_scanner f))) members)) of
        [] \<Rightarrow> None
      | v # vs \<Rightarrow> Some (vs_text V (max_by (vs_key V) v vs)))"

text \<open>The first package of that name in the newest output that lists packages; its target, if it has one.\<close>

definition package_entry :: "str \<Rightarrow> json \<Rightarrow> bool" where
  "package_entry package p =
     (case p of
        JObj fs \<Rightarrow> lower (py_str (case map_of fs ''name'' of Some j \<Rightarrow> j | None \<Rightarrow> JStr [])) = lower package
      | _ \<Rightarrow> False)"

definition output_packages :: "DevinSession \<Rightarrow> json list" where
  "output_packages s =
     (case se_structured_output s of
        None \<Rightarrow> []
      | Some out \<Rightarrow> (case map_of out ''packages'' of Some (JArr ps) \<Rightarrow> ps | _ \<Rightarrow> []))"

definition target_from_sessions :: "DevinSession list \<Rightarrow> str \<Rightarrow> str option" where
  "target_from_sessions sessions package =
     (case find (package_entry package) (concat (map output_packages (rev sessions))) of
        None \<Rightarrow> None
      | Some p \<Rightarrow> (case jget p ''to'' of None \<Rightarrow> None | Some JNull \<Rightarrow> None | Some j \<Rightarrow> Some (py_str j)))"

record DependencyRow =
  dr_work_item_id :: nat
  dr_package :: str
  dr_baseline_version :: "str option"
  dr_devin_target_version :: "str option"
  dr_upstream_master_version :: "str option"
  dr_relation_to_upstream :: str
  dr_min_fixed_version :: "str option"
  dr_vuln_ids :: "str list"
  dr_bound_blocked :: bool
  dr_state :: str
  dr_lifecycle_level :: nat
  dr_lifecycle_label :: str
  dr_verification_depth :: "nat option"
  dr_depth_label :: str
  dr_outcome_states :: "(str, nat) dict"
  dr_acus :: rat
  dr_retries_used :: nat
  dr_pr_url :: "str option"
  dr_blocked_reason :: "str option"

definition depth_label_opt :: "VerificationDepth option \<Rightarrow> str" where
  "depth_label_opt depth = (case depth of None \<Rightarrow> ''none'' | Some d \<Rightarrow> depth_label d)"

definition members_of_item :: "(nat, 'a list) dict \<Rightarrow> nat \<Rightarrow> 'a list" where
  "members_of_item d w = (case dict_get d w of Some xs \<Rightarrow> xs | None \<Rightarrow> [])"

definition nonempty :: "str \<Rightarrow> str option" where
  "nonempty s = (if s = [] then None else Some s)"

definition dependency_row ::
    "('v, 'k::linorder) versions \<Rightarrow> (nat, Finding list) dict \<Rightarrow> (nat, DevinSession list) dict \<Rightarrow> (str, str) dict option \<Rightarrow>
       WorkItem \<Rightarrow> DependencyRow" where
  "dependency_row V findings_by_wi sessions_by_wi upstream_pins w =
     (let members = members_of_item findings_by_wi (wi_id w); package = package_of_group_key (wi_group_key w);
          sessions = members_of_item sessions_by_wi (wi_id w); target = target_from_sessions sessions package;
          upstream = (case upstream_pins of Some pins \<Rightarrow> dict_get pins (lower package) | None \<Rightarrow> None) in
      \<lparr>dr_work_item_id = wi_id w, dr_package = package,
       dr_baseline_version = nonempty (join '', '' (sorted_set (filter (\<lambda>v. v \<noteq> []) (List.map_filter fd_pkg_version members)))),
       dr_devin_target_version = target, dr_upstream_master_version = upstream,
       dr_relation_to_upstream = relation_to_upstream V target upstream, dr_min_fixed_version = min_fixed V members,
       dr_vuln_ids = sorted_set (map fd_vuln_id members), dr_bound_blocked = list_ex fd_bound_blocked members,
       dr_state = work_item_state_value (wi_state w), dr_lifecycle_level = level_value (wi_lifecycle_level w),
       dr_lifecycle_label = level_name (wi_lifecycle_level w),
       dr_verification_depth = map_option depth_value (wi_verification_depth w),
       dr_depth_label = depth_label_opt (wi_verification_depth w),
       dr_outcome_states = counter (map (finding_state_value \<circ> fd_state) members),
       dr_acus = sum_list (map se_acus_consumed sessions), dr_retries_used = wi_retries_used w, dr_pr_url = wi_pr_url w,
       dr_blocked_reason = wi_blocked_reason w\<rparr>)"

definition dependency_rows ::
    "('v, 'k::linorder) versions \<Rightarrow> WorkItem list \<Rightarrow> (nat, Finding list) dict \<Rightarrow> (nat, DevinSession list) dict \<Rightarrow>
       (str, str) dict option \<Rightarrow> DependencyRow list" where
  "dependency_rows V items findings_by_wi sessions_by_wi upstream_pins =
     map (dependency_row V findings_by_wi sessions_by_wi upstream_pins) (filter (\<lambda>w. wi_kind w = K_dependency_upgrade) items)"

definition upstream_pins_from_fixture :: "'spec Lib \<Rightarrow> disk \<Rightarrow> str \<Rightarrow> str \<Rightarrow> exn + (str, str) dict" where
  "upstream_pins_from_fixture L fs dir upstream_sha =
     ebind (load_source_file L fs dir upstream_sha ''requirements-base.txt'') parse_requirements_pins"

section \<open>The report\<close>

record SeverityDelta =
  sd_severity :: str
  sd_baseline_raw :: nat
  sd_latest_raw :: nat
  sd_raw_delta :: int
  sd_baseline_policy :: nat
  sd_latest_policy :: nat
  sd_policy_delta :: int

definition run_count :: "(RunFacts \<Rightarrow> (str, nat) dict) \<Rightarrow> RunFacts option \<Rightarrow> Severity \<Rightarrow> nat" where
  "run_count sel run s =
     (case run of None \<Rightarrow> 0 | Some r \<Rightarrow> (case dict_get (sel r) (severity_value s) of Some n \<Rightarrow> n | None \<Rightarrow> 0))"

definition severity_delta :: "RunFacts option \<Rightarrow> RunFacts option \<Rightarrow> Severity \<Rightarrow> SeverityDelta" where
  "severity_delta baseline latest s =
     (let b_raw = run_count rf_raw_by_severity baseline s; l_raw = run_count rf_raw_by_severity latest s;
          b_pol = run_count rf_policy_by_severity baseline s; l_pol = run_count rf_policy_by_severity latest s in
      \<lparr>sd_severity = severity_value s, sd_baseline_raw = b_raw, sd_latest_raw = l_raw, sd_raw_delta = int l_raw - int b_raw,
       sd_baseline_policy = b_pol, sd_latest_policy = l_pol, sd_policy_delta = int l_pol - int b_pol\<rparr>)"

record WorkItemRow =
  wr_work_item_id :: nat
  wr_kind :: str
  wr_title :: str
  wr_state :: str
  wr_lifecycle_level :: nat
  wr_lifecycle_label :: str
  wr_verification_depth :: "nat option"
  wr_depth_label :: str
  wr_depth_rungs :: "(str, str) dict"
  wr_acus :: rat
  wr_acu_cap :: rat
  wr_estimated_cost_usd :: "rat option"
  wr_retries_used :: nat
  wr_first_head_checks_green :: "bool option"
  wr_pr_url :: "str option"
  wr_issue_url :: "str option"
  wr_blocked_reason :: "str option"
  wr_member_findings :: nat
  wr_member_outcomes :: "(str, nat) dict"

definition sessions_by_item :: "DevinSession list \<Rightarrow> (nat, DevinSession list) dict" where
  "sessions_by_item sessions = foldl (\<lambda>d s. bucket_add (se_work_item_id s) s d) [] sessions"

definition session_acus :: "(nat, DevinSession list) dict \<Rightarrow> (nat, rat) dict" where
  "session_acus = map (\<lambda>(w, ss). (w, sum_list (map se_acus_consumed ss)))"

definition work_item_row ::
    "(nat, PullRequest) dict \<Rightarrow> (nat, rat) dict \<Rightarrow> (nat, Finding list) dict \<Rightarrow> rat option \<Rightarrow> WorkItem \<Rightarrow> WorkItemRow" where
  "work_item_row pr_by_wi acus findings_by_wi acu_cost_usd w =
     (let pr = dict_get pr_by_wi (wi_id w); members = members_of_item findings_by_wi (wi_id w) in
      \<lparr>wr_work_item_id = wi_id w, wr_kind = kind_slug (wi_kind w), wr_title = wi_title w,
       wr_state = work_item_state_value (wi_state w), wr_lifecycle_level = level_value (wi_lifecycle_level w),
       wr_lifecycle_label = level_name (wi_lifecycle_level w),
       wr_verification_depth = map_option depth_value (wi_verification_depth w),
       wr_depth_label = depth_label_opt (wi_verification_depth w),
       wr_depth_rungs = (case pr of Some p \<Rightarrow> pr_depth_rungs p | None \<Rightarrow> []), wr_acus = acu_of acus (wi_id w),
       wr_acu_cap = wi_acu_cap w, wr_estimated_cost_usd = map_option (\<lambda>c. acu_of acus (wi_id w) * c) acu_cost_usd,
       wr_retries_used = wi_retries_used w,
       wr_first_head_checks_green = (case pr of Some p \<Rightarrow> pr_first_head_checks_green p | None \<Rightarrow> None),
       wr_pr_url = wi_pr_url w, wr_issue_url = wi_issue_url w, wr_blocked_reason = wi_blocked_reason w,
       wr_member_findings = length members, wr_member_outcomes = counter (map (finding_state_value \<circ> fd_state) members)\<rparr>)"

record ReportBody =
  rb_generated_at :: int
  rb_fork_repo :: str
  rb_baseline :: "RunFacts option"
  rb_latest :: "RunFacts option"
  rb_latest_is_closing_candidate :: bool
  rb_severity_deltas :: "SeverityDelta list"
  rb_outcomes :: "(str, nat) dict"
  rb_outcomes_by_kind :: "(str, (str, nat) dict) dict"
  rb_work_items_by_state :: "(str, nat) dict"
  rb_upstream_master_sha :: "str option"
  rb_upstream_pins_source :: "str option"
  rb_dependencies :: "DependencyRow list"
  rb_work_items :: "WorkItemRow list"
  rb_acu_total :: rat
  rb_acu_cost_usd :: "rat option"
  rb_estimated_cost_total_usd :: "rat option"
  rb_verified_items :: nat
  rb_retries_total :: nat
  rb_notes :: "str list"

definition report_notes :: "RunFacts option \<Rightarrow> RunFacts option \<Rightarrow> bool \<Rightarrow> bool \<Rightarrow> str list" where
  "report_notes baseline latest is_closing no_pins =
     (if baseline = None then [''no baseline run ingested''] else []) @
     (case (latest, baseline) of
        (Some l, Some b) \<Rightarrow>
          if rf_id l = rf_id b
          then [''latest run is the baseline run: no closing scan of main has been ingested''] else []
      | _ \<Rightarrow> []) @
     (case latest of
        Some l \<Rightarrow>
          if \<not> is_closing then [''latest run '' @ rf_external_run_id l @ '' is not a valid closing run''] else []
      | None \<Rightarrow> []) @
     (if no_pins then [''upstream-master pins unavailable: dependency comparison is partial''] else [])"

definition outcomes_by_kind :: "Finding list \<Rightarrow> (str, (str, nat) dict) dict" where
  "outcomes_by_kind findings =
     sort_key fst (map (\<lambda>(k, states). (k, sorted_counter states))
       (foldl (\<lambda>d f. bucket_add (finding_kind f) (finding_state_value (fd_state f)) d) [] findings))"

definition build_report ::
    "('v, 'k::linorder) versions \<Rightarrow> Db \<Rightarrow> str \<Rightarrow> str \<Rightarrow> rat option \<Rightarrow> int \<Rightarrow> str option \<Rightarrow> (str, str) dict option \<Rightarrow> str option \<Rightarrow>
       ReportBody" where
  "build_report V d fork_repo branch acu_cost_usd t upstream_master_sha upstream_pins upstream_pins_source =
     (let runs = sort_key chronology (db_runs d); findings = sort_key fd_id (db_findings d);
          items = sort_key wi_id (db_work_items d); prs = db_prs d; sessions = sort_key se_id (db_sessions d);
          findings_by_id = foldl (\<lambda>acc f. dict_set (fd_id f) f acc) [] findings;
          findings_by_wi = members_with_lineage items findings; sessions_by_wi = sessions_by_item sessions;
          pr_by_wi = pr_by_item prs; acus = session_acus sessions_by_wi; total = sum_list (map snd acus) in
      case select_runs runs fork_repo branch of (baseline_run, latest_run) \<Rightarrow>
        let baseline = map_option (\<lambda>r. run_facts d r findings_by_id) baseline_run;
            latest = map_option (\<lambda>r. run_facts d r findings_by_id) latest_run;
            is_closing = (case latest_run of Some r \<Rightarrow> closing_candidate r | None \<Rightarrow> False) in
        \<lparr>rb_generated_at = t, rb_fork_repo = fork_repo, rb_baseline = baseline, rb_latest = latest,
         rb_latest_is_closing_candidate = is_closing, rb_severity_deltas = map (severity_delta baseline latest) all_severities,
         rb_outcomes = sorted_counter (map (finding_state_value \<circ> fd_state) findings),
         rb_outcomes_by_kind = outcomes_by_kind findings,
         rb_work_items_by_state = sorted_counter (map (work_item_state_value \<circ> wi_state) items),
         rb_upstream_master_sha = upstream_master_sha, rb_upstream_pins_source = upstream_pins_source,
         rb_dependencies = dependency_rows V items findings_by_wi sessions_by_wi upstream_pins,
         rb_work_items = map (work_item_row pr_by_wi acus findings_by_wi acu_cost_usd) items,
         rb_acu_total = total, rb_acu_cost_usd = acu_cost_usd,
         rb_estimated_cost_total_usd = map_option (\<lambda>c. total * c) acu_cost_usd,
         rb_verified_items = length (filter (\<lambda>w. wi_state w = W_verified) items),
         rb_retries_total = sum_list (map wi_retries_used items),
         rb_notes = report_notes baseline latest is_closing (upstream_pins = None)\<rparr>)"

section \<open>Markdown\<close>

definition fmt_opt :: "str option \<Rightarrow> str" where
  "fmt_opt v = (case v of None \<Rightarrow> ''-'' | Some s \<Rightarrow> s)"

definition fmt_opt_rat :: "rat option \<Rightarrow> str" where
  "fmt_opt_rat v = (case v of None \<Rightarrow> ''-'' | Some q \<Rightarrow> fmt_fixed 2 q)"

definition fmt_pairs :: "(str \<times> str) list \<Rightarrow> str" where
  "fmt_pairs kvs = or_str (Some (join '', '' (map (\<lambda>(k, v). k @ ''='' @ v) kvs))) ''-''"

definition fmt_counts :: "(str, nat) dict \<Rightarrow> str" where
  "fmt_counts d = fmt_pairs (map (\<lambda>(k, n). (k, show_nat n)) d)"

definition fmt_json_dict :: "(str, json) dict \<Rightarrow> str" where
  "fmt_json_dict d = fmt_pairs (map (\<lambda>(k, j). (k, py_str j)) d)"

definition short_sha :: "str option \<Rightarrow> str" where
  "short_sha sha = (case sha of None \<Rightarrow> ''-'' | Some s \<Rightarrow> if s = [] then ''-'' else take 12 s)"

definition yes_or_no :: "bool \<Rightarrow> str" where
  "yes_or_no b = (if b then ''yes'' else ''no'')"

definition show_signed :: "int \<Rightarrow> str" where
  "show_signed i = (if 0 \<le> i then ''+'' @ show_int i else show_int i)"

definition code_span :: "str \<Rightarrow> str" where
  "code_span s = [CHR 0x60] @ s @ [CHR 0x60]"

definition run_block :: "str \<Rightarrow> RunFacts option \<Rightarrow> str list" where
  "run_block label r =
     (case r of
        None \<Rightarrow> [''**'' @ label @ '':** none'', []]
      | Some r \<Rightarrow>
          [''**'' @ label @ '':** run '' @ code_span (rf_external_run_id r) @ '' (db id '' @ show_nat (rf_id r) @ '') - '' @
             rf_source_branch r @ ''@'' @ short_sha (Some (rf_source_sha r)) @ '' - trigger '' @ code_span (rf_trigger r) @
             '' - status '' @ code_span (rf_status r) @ '' - gate mode '' @ code_span (rf_scan_gate_mode r),
           [],
           ''- lean digest: '' @ code_span (or_str (rf_lean_digest r) ''-'') @ ''; platform '' @ code_span (rf_platform r),
           ''- ci digest: '' @ code_span (or_str (rf_ci_digest r) ''-'') @ ''; ci layer delta: '' @
             (case rf_ci_layer_delta r of None \<Rightarrow> ''-'' | Some d \<Rightarrow> fmt_json_dict d),
           ''- tools: '' @ fmt_json_dict (rf_tools r),
           ''- vulnerability DB built at: '' @
             fmt_pairs (map (\<lambda>(k, v). (k, fmt_opt (map_option iso_seconds v))) (rf_db_built_at r)),
           ''- jobs: '' @ join '', '' (map (\<lambda>j. jf_name j @ ''='' @ (if jf_success j then ''ok'' else ''FAILED'')) (rf_jobs r)),
           ''- raw findings: '' @ show_nat (rf_raw_total r) @ '' ('' @ fmt_counts (rf_raw_by_severity r) @ '')'',
           ''- policy findings: '' @ show_nat (rf_policy_total r) @ '' ('' @ fmt_counts (rf_policy_by_severity r) @ '')'',
           ''- raw by kind: '' @ fmt_counts (rf_raw_by_kind r),
           ''- raw by layer: '' @ fmt_counts (rf_raw_by_layer r),
           ''- raw by scanner: '' @ fmt_counts (rf_raw_by_scanner r),
           ''- gate: '' @ (if rf_gate_passed r then ''PASS'' else ''FAIL'') @ '' - '' @ rf_gate_reason r @
             ''; ready for enforce: '' @ yes_or_no (rf_gate_ready_for_enforce r),
           []])"

text \<open>One row of a table: the cells between bars.\<close>

definition table_row :: "str list \<Rightarrow> str" where
  "table_row cells = ''| '' @ join '' | '' cells @ '' |''"

definition delta_line :: "SeverityDelta \<Rightarrow> str" where
  "delta_line d = table_row
     [sd_severity d, show_nat (sd_baseline_raw d), show_nat (sd_latest_raw d), show_signed (sd_raw_delta d),
      show_nat (sd_baseline_policy d), show_nat (sd_latest_policy d), show_signed (sd_policy_delta d)]"

definition dependency_line :: "DependencyRow \<Rightarrow> str" where
  "dependency_line dep = table_row
     [show_nat (dr_work_item_id dep), dr_package dep, fmt_opt (dr_baseline_version dep), fmt_opt (dr_devin_target_version dep),
      fmt_opt (dr_upstream_master_version dep), dr_relation_to_upstream dep, fmt_opt (dr_min_fixed_version dep),
      yes_or_no (dr_bound_blocked dep), dr_state dep, dr_lifecycle_label dep, dr_depth_label dep, fmt_fixed 2 (dr_acus dep),
      show_nat (dr_retries_used dep), fmt_counts (dr_outcome_states dep)]"

definition rungs_view :: "(str, str) dict \<Rightarrow> str" where
  "rungs_view rungs =
     or_str (Some (join '' '' (List.map_filter (\<lambda>d. map_option (\<lambda>status. ''L'' @ show_nat (depth_value d) @ ''='' @ status)
       (dict_get rungs (depth_name d))) all_depths))) ''-''"

definition show_bool :: "bool \<Rightarrow> str" where
  "show_bool b = (if b then ''True'' else ''False'')"

definition work_item_line :: "WorkItemRow \<Rightarrow> str" where
  "work_item_line w = table_row
     [show_nat (wr_work_item_id w), wr_kind w, wr_state w, wr_lifecycle_label w, wr_depth_label w, rungs_view (wr_depth_rungs w),
      fmt_fixed 2 (wr_acus w) @ '' / '' @ fmt_fixed 0 (wr_acu_cap w), fmt_opt_rat (wr_estimated_cost_usd w),
      show_nat (wr_retries_used w), fmt_opt (map_option show_bool (wr_first_head_checks_green w)),
      show_nat (wr_member_findings w), fmt_counts (wr_member_outcomes w)]"

definition markdown_lines :: "ReportBody \<Rightarrow> str list" where
  "markdown_lines body =
     [''# Hardening run report - '' @ rb_fork_repo body, [], ''Generated '' @ iso_seconds (rb_generated_at body) @ ''.'', []] @
     (if rb_notes body = [] then [] else map (\<lambda>n. ''> '' @ n) (rb_notes body) @ [[]]) @
     [''## Runs'', []] @ run_block ''Baseline'' (rb_baseline body) @ run_block ''Latest'' (rb_latest body) @
     [''## Raw vs policy by severity (baseline -> latest)'', [],
      ''| Severity | Raw baseline | Raw latest | Raw delta | Policy baseline | Policy latest | Policy delta |'',
      ''|---|---:|---:|---:|---:|---:|---:|''] @
     map delta_line (rb_severity_deltas body) @
     [[], ''## Finding outcomes'', [], ''| Outcome | Count |'', ''|---|---:|''] @
     map (\<lambda>(k, n). table_row [k, show_nat n]) (rb_outcomes body) @
     [[], ''| Kind | Outcomes |'', ''|---|---|''] @
     map (\<lambda>(k, v). table_row [k, fmt_counts v]) (rb_outcomes_by_kind body) @
     [[], ''Work items by state: '' @ fmt_counts (rb_work_items_by_state body), [],
      ''## Dependency upgrades vs upstream-master'', [],
      ''upstream-master @ '' @ code_span (short_sha (rb_upstream_master_sha body)) @
        (case rb_upstream_pins_source body of
           Some s \<Rightarrow> if s = [] then [] else '' (pins from '' @ s @ '')''
         | None \<Rightarrow> []),
      [],
      ''| WI | Package | Baseline | Devin target | upstream-master | Relation | Min fixed | '' @
        ''Bound blocked | State | Lifecycle | Depth | ACUs | Retries | Outcomes |'',
      ''|---:|---|---|---|---|---|---|---|---|---|---|---:|---:|---|''] @
     map dependency_line (rb_dependencies body) @
     (if rb_dependencies body = [] then [''| - | no dependency-upgrade work items | | | | | | | | | | | | |''] else []) @
     [[], ''## Work items: ACU, cost, retries, verification'', [],
      ''Total ACUs '' @ fmt_fixed 2 (rb_acu_total body) @ ''; ACU cost USD '' @ fmt_opt_rat (rb_acu_cost_usd body) @
        ''; estimated total cost '' @ fmt_opt_rat (rb_estimated_cost_total_usd body) @ ''; verified items '' @
        show_nat (rb_verified_items body) @ ''; retries '' @ show_nat (rb_retries_total body) @ ''.'',
      [],
      ''| WI | Kind | State | Lifecycle | Depth | Rungs | ACUs / cap | Cost USD | Retries | '' @
        ''First-try CI | Members | Outcomes |'',
      ''|---:|---|---|---|---|---|---|---:|---:|---|---:|---|''] @
     map work_item_line (rb_work_items body)"

definition render_markdown :: "ReportBody \<Rightarrow> str" where
  "render_markdown body = join [CHR 0x0A] (markdown_lines body) @ [CHR 0x0A]"

section \<open>Persisted reports\<close>

record RunReport =
  rr_id :: nat
  rr_generated_at :: int
  rr_baseline_run_id :: "nat option"
  rr_latest_run_id :: "nat option"
  rr_upstream_master_sha :: "str option"
  rr_body :: ReportBody
  rr_markdown :: str

definition persist_report :: "ReportBody \<Rightarrow> str \<Rightarrow> RunReport list \<Rightarrow> RunReport list" where
  "persist_report body markdown reports =
     reports @ [\<lparr>rr_id = next_id rr_id reports, rr_generated_at = rb_generated_at body,
       rr_baseline_run_id = map_option rf_id (rb_baseline body), rr_latest_run_id = map_option rf_id (rb_latest body),
       rr_upstream_master_sha = rb_upstream_master_sha body, rr_body = body, rr_markdown = markdown\<rparr>]"

definition latest_persisted_report :: "RunReport list \<Rightarrow> RunReport option" where
  "latest_persisted_report reports = (case rev (sort_key rr_id reports) of [] \<Rightarrow> None | r # _ \<Rightarrow> Some r)"

section \<open>The report agrees with the metrics\<close>

lemma sum_bucket_add:
  fixes f :: "'v \<Rightarrow> rat"
  shows "sum_list (map (\<lambda>(k, vs). sum_list (map f vs)) (bucket_add k v d)) =
     sum_list (map (\<lambda>(k, vs). sum_list (map f vs)) d) + f v"
proof -
  have "sum_list (map (\<lambda>(k, vs). sum_list (map f vs)) (dict_set k ws d)) + (case dict_get d k of Some vs \<Rightarrow> sum_list (map f vs) | None \<Rightarrow> 0) =
      sum_list (map (\<lambda>(k, vs). sum_list (map f vs)) d) + sum_list (map f ws)" for ws
    by (induction k ws d rule: dict_set.induct) (auto simp: dict_get_def ac_simps)
  from this [of "(case dict_get d k of None \<Rightarrow> [] | Some vs \<Rightarrow> vs) @ [v]"] show ?thesis
    by (auto simp: bucket_add_def split: option.splits)
qed

lemma session_acus_total: "sum_list (map snd (session_acus (sessions_by_item sessions))) = sum_list (map se_acus_consumed sessions)"
proof -
  have "sum_list (map (\<lambda>(k, vs). sum_list (map se_acus_consumed vs)) (foldl (\<lambda>d s. bucket_add (se_work_item_id s) s d) d sessions)) =
      sum_list (map (\<lambda>(k, vs). sum_list (map se_acus_consumed vs)) d) + sum_list (map se_acus_consumed sessions)" for d
    by (induction sessions arbitrary: d) (simp_all add: sum_bucket_add)
  from this [of "[]"] show ?thesis by (simp add: session_acus_def sessions_by_item_def case_prod_beta' comp_def)
qed

end
