(* ===== verification/MetricsFacts.thy ===== *)
theory MetricsFacts
  imports Metrics
begin

text \<open>
  What the numbers of \<^verbatim>\<open>metrics.py\<close> mean: counters lose nothing, a run's counts have every finding once at
  its highest severity, the percentile interpolates monotonically and the median is its midpoint.
\<close>

section \<open>Counters\<close>

lemma sum_dict_set:
  fixes v :: "'v::comm_monoid_add"
  shows "sum_list (map snd (dict_set k v d)) + (case dict_get d k of Some x \<Rightarrow> x | None \<Rightarrow> 0) = sum_list (map snd d) + v"
  by (induction k v d rule: dict_set.induct) (auto simp: dict_get_def ac_simps)

lemma sum_counter_add: "sum_list (map snd (counter_add k d)) = Suc (sum_list (map snd d))"
  using sum_dict_set [of k "Suc (case dict_get d k of None \<Rightarrow> 0 | Some n \<Rightarrow> n)" d]
  by (auto simp: counter_add_def split: option.splits)

lemma sum_counter: "sum_list (map snd (counter ks)) = length ks"
proof -
  have "sum_list (map snd (foldl (\<lambda>d k. counter_add k d) d ks)) = sum_list (map snd d) + length ks" for d
    by (induction ks arbitrary: d) (simp_all add: sum_counter_add)
  from this [of "[]"] show ?thesis by (simp add: counter_def)
qed

lemma sum_sorted_counter: "sum_list (map snd (sorted_counter ks)) = length ks"
proof -
  have "mset (map snd (sort_key fst (counter ks))) = mset (map snd (counter ks))" by simp
  then have "sum_list (map snd (sort_key fst (counter ks))) = sum_list (map snd (counter ks))"
    by (metis sum_mset_sum_list)
  then show ?thesis by (simp add: sorted_counter_def sum_counter)
qed

lemma dict_get_counter: "dict_get (counter ks) k = (if k \<in> set ks then Some (count_list ks k) else None)"
proof -
  have "dict_get (foldl (\<lambda>d k. counter_add k d) d ks) k =
      (if k \<in> set ks then Some ((case dict_get d k of Some n \<Rightarrow> n | None \<Rightarrow> 0) + count_list ks k) else dict_get d k)" for d
    by (induction ks arbitrary: d) (auto simp: counter_add_def dict_get_set split: option.splits)
  from this [of "[]"] show ?thesis by (simp add: counter_def dict_get_def)
qed

text \<open>Counting at each of a list of distinct values that cover the counted ones.\<close>

lemma sum_count_list:
  "distinct ks \<Longrightarrow> set xs \<subseteq> set ks \<Longrightarrow> sum_list (map (count_list xs) ks) = length xs"
  by (simp add: sum_list_distinct_conv_sum_set sum_count_set)

section \<open>The counts of a run\<close>

lemma severity_rank_inject: "severity_rank a = severity_rank b \<longleftrightarrow> a = b"
  by (cases a; cases b) simp_all

definition worst_in :: "Sighting list \<Rightarrow> nat \<Rightarrow> Severity \<Rightarrow> bool" where
  "worst_in gs f s \<longleftrightarrow>
     (\<exists>g \<in> set gs. sg_finding_id g = f \<and> sighted_severity g = s) \<and>
     (\<forall>g \<in> set gs. sg_finding_id g = f \<longrightarrow> severity_rank (sighted_severity g) \<le> severity_rank s)"

lemma worst_in_unique: "worst_in gs f a \<Longrightarrow> worst_in gs f b \<Longrightarrow> a = b"
  unfolding worst_in_def by (metis le_antisym severity_rank_inject)

lemma highest_get: "dict_get (foldl note_severity [] gs) f = Some s \<longleftrightarrow> worst_in gs f s"
proof (induction gs arbitrary: f s rule: rev_induct)
  case Nil
  then show ?case by (simp add: dict_get_def worst_in_def)
next
  case (snoc g gs)
  let ?h = "foldl note_severity [] gs"
  show ?case
  proof (cases "sg_finding_id g = f")
    case False
    then have "dict_get (note_severity ?h g) f = dict_get ?h f"
      by (auto simp: note_severity_def Let_def dict_get_set split: option.split)
    with False snoc show ?thesis by (auto simp: worst_in_def)
  next
    case True
    show ?thesis
    proof (cases "dict_get ?h f")
      case None
      then have "\<not> worst_in gs f x" for x using snoc [of f x] by simp
      then have none: "\<forall>g' \<in> set gs. sg_finding_id g' \<noteq> f"
      proof -
        { assume ex: "\<exists>g' \<in> set gs. sg_finding_id g' = f"
          let ?R = "severity_rank ` sighted_severity ` {g' \<in> set gs. sg_finding_id g' = f}"
          have "Max ?R \<in> ?R" using ex by (intro Max_in) auto
          then obtain g' where g': "g' \<in> set gs" "sg_finding_id g' = f" "severity_rank (sighted_severity g') = Max ?R" by auto
          have "worst_in gs f (sighted_severity g')" unfolding worst_in_def using g' by (auto intro!: Max_ge)
          with \<open>\<And>x. \<not> worst_in gs f x\<close> have False by blast }
        then show ?thesis by blast
      qed
      from None True have "dict_get (note_severity ?h g) f = Some (sighted_severity g)"
        by (simp add: note_severity_def Let_def dict_get_set)
      with none True show ?thesis by (auto simp: worst_in_def)
    next
      case (Some x)
      then have w: "worst_in gs f x" using snoc by simp
      let ?y = "if severity_rank x < severity_rank (sighted_severity g) then sighted_severity g else x"
      have y: "dict_get (note_severity ?h g) f = Some ?y"
        using Some True by (simp add: note_severity_def Let_def dict_get_set)
      have "worst_in (gs @ [g]) f ?y" using w True by (auto simp: worst_in_def)
      with y worst_in_unique [of "gs @ [g]" f] show ?thesis by (auto simp del: if_split)
    qed
  qed
qed

lemma note_severity_distinct: "distinct (map fst h) \<Longrightarrow> distinct (map fst (note_severity h g))"
  by (auto simp: note_severity_def Let_def intro: dict_set_distinct split: option.split)

lemma highest_distinct: "distinct (map fst (foldl note_severity [] gs))"
  by (induction gs rule: rev_induct) (simp_all add: note_severity_distinct)

text \<open>The findings a run shows in a mode, and the severity it shows them at.\<close>

definition shown :: "Db \<Rightarrow> nat \<Rightarrow> ScanMode \<Rightarrow> nat set" where
  "shown d run_id mode = sg_finding_id ` set (present_sightings d run_id mode)"

definition shown_at :: "Db \<Rightarrow> nat \<Rightarrow> ScanMode \<Rightarrow> Severity \<Rightarrow> nat set" where
  "shown_at d run_id mode s = {f. worst_in (present_sightings d run_id mode) f s}"

lemma count_dict_values: "distinct (map fst h) \<Longrightarrow> count_list (map snd h) v = card {k. dict_get h k = Some v}"
proof (induction h)
  case (Cons kv h)
  obtain k x where kv: "kv = (k, x)" by (cases kv)
  have "dict_get h k = None" using Cons.prems kv by (auto simp: dict_get_def map_of_eq_None_iff)
  then have eq: "{k'. dict_get (kv # h) k' = Some v} = (if x = v then insert k {k'. dict_get h k' = Some v} else {k'. dict_get h k' = Some v})"
    and notin: "k \<notin> {k'. dict_get h k' = Some v}"
    by (auto simp: dict_get_def kv)
  have "{k'. dict_get h k' = Some v} \<subseteq> fst ` set h" by (force simp: dict_get_def dest: map_of_SomeD)
  then have "finite {k'. dict_get h k' = Some v}" by (rule finite_subset) simp
  with Cons eq notin show ?case by (simp add: kv)
qed (simp add: dict_get_def)

lemma counts_at: "dict_get (counts_by_severity d run_id mode) (severity_value s) = Some (card (shown_at d run_id mode s))"
proof -
  have "count_list (map snd (highest_severities d run_id mode)) s = card (shown_at d run_id mode s)"
    using count_dict_values [of "highest_severities d run_id mode" s] highest_distinct
    by (simp add: highest_severities_def shown_at_def highest_get)
  then show ?thesis by (cases s) (simp_all add: counts_by_severity_def all_severities_def dict_get_def Let_def)
qed

lemma highest_keys: "fst ` set (foldl note_severity [] gs) = sg_finding_id ` set gs"
proof (induction gs rule: rev_induct)
  case (snoc g gs)
  have "fst ` set (note_severity h g) = insert (sg_finding_id g) (fst ` set h)" for h
  proof (cases "dict_get h (sg_finding_id g)")
    case (Some x)
    then have "sg_finding_id g \<in> fst ` set h" by (force simp: dict_get_def dest: map_of_SomeD)
    with Some show ?thesis by (auto simp: note_severity_def Let_def dict_keys_set)
  qed (simp add: note_severity_def Let_def dict_keys_set)
  with snoc show ?case by simp
qed simp

lemma counts_total: "sum_list (map snd (counts_by_severity d run_id mode)) = card (shown d run_id mode)"
proof -
  let ?h = "highest_severities d run_id mode"
  have "set (map snd ?h) \<subseteq> set all_severities"
  proof
    fix s show "s \<in> set all_severities" by (cases s) (simp_all add: all_severities_def)
  qed
  moreover have "distinct all_severities" by (simp add: all_severities_def)
  ultimately have "sum_list (map snd (counts_by_severity d run_id mode)) = length ?h"
    using sum_count_list [of all_severities "map snd ?h"] by (simp add: counts_by_severity_def Let_def comp_def)
  also have "\<dots> = card (fst ` set ?h)"
    using distinct_card [of "map fst ?h"] highest_distinct by (simp add: highest_severities_def)
  finally show ?thesis by (simp add: highest_severities_def highest_keys shown_def)
qed

lemma finite_shown_at: "finite (shown_at d run_id mode s)"
proof (rule finite_subset)
  show "shown_at d run_id mode s \<subseteq> shown d run_id mode" by (auto simp: shown_at_def shown_def worst_in_def)
qed (simp add: shown_def)

section \<open>The gate of a run\<close>

lemma count_of_int: "count_of (int_counts c) s = int (case dict_get c (severity_value s) of None \<Rightarrow> 0 | Some n \<Rightarrow> n)"
proof -
  have "dict_get (int_counts c) k = map_option int (dict_get c k)" for k
    by (induction c) (auto simp: int_counts_def dict_get_def)
  then show ?thesis by (simp add: count_of_def split: option.split)
qed

lemma ready_iff:
  "ready_for_enforce (gate_verdict mode (int_counts (policy_counts_by_severity d run_id))) \<longleftrightarrow>
     shown_at d run_id SM_policy SEV_high = {} \<and> shown_at d run_id SM_policy SEV_critical = {}"
  using counts_at [of d run_id SM_policy SEV_high] counts_at [of d run_id SM_policy SEV_critical]
  by (simp add: ready_for_enforce_def gated_count_def gate_verdict_sel count_of_int policy_counts_by_severity_def
      finite_shown_at card_eq_0_iff add_nonneg_eq_0_iff)

lemma summary_gate: "dict_get (ru_gate (summarize_run d run)) ''ready_for_enforce'' = Some (JBool (ready_for_enforce (run_gate d run)))"
  by (simp add: summarize_run_def run_gate_def Let_def dict_get_def)

lemma gate_ready_summaries:
  assumes "run \<in> set runs"
  shows "gate_ready (map (summarize_run d) runs) (Some run) =
    Some (shown_at d (sr_id run) SM_policy SEV_high = {} \<and> shown_at d (sr_id run) SM_policy SEV_critical = {})"
proof -
  have id: "ru_id (summarize_run d r) = sr_id r" for r by (simp add: summarize_run_def Let_def)
  obtain s where s: "find (\<lambda>s. ru_id s = sr_id run) (map (summarize_run d) runs) = Some s"
    using assms id by (cases "find (\<lambda>s. ru_id s = sr_id run) (map (summarize_run d) runs)") (auto simp: find_None_iff)
  then obtain r where r: "s = summarize_run d r" "sr_id r = sr_id run" using id by (auto dest!: find_SomeD)
  have "ready_for_enforce (run_gate d r) \<longleftrightarrow>
      shown_at d (sr_id run) SM_policy SEV_high = {} \<and> shown_at d (sr_id run) SM_policy SEV_critical = {}"
    unfolding run_gate_def ready_iff r(2) ..
  with s r show ?thesis by (simp add: gate_ready_def summary_gate)
qed

lemma latest_main_Some:
  assumes "latest_main runs = Some run"
  shows "run \<in> set runs" and "sr_source_branch run = ''main''"
    and "r \<in> set (main_runs runs) \<Longrightarrow> chronology r \<le> chronology run"
proof -
  obtain r0 rs where rs: "main_runs runs = r0 # rs" "run = max_by chronology r0 rs"
    using assms by (auto simp: latest_main_def split: list.splits)
  then have "run \<in> set (main_runs runs)" using max_by_mem [of chronology r0 rs] by simp
  then show "run \<in> set runs" "sr_source_branch run = ''main''" by (auto simp: main_runs_def Let_def split: if_splits)
  show "chronology r \<le> chronology run" if "r \<in> set (main_runs runs)" using that rs max_by_ge [of r r0 rs chronology] by simp
qed

section \<open>Percentiles\<close>

definition interpolate :: "rat list \<Rightarrow> rat \<Rightarrow> rat" where
  "interpolate xs k =
     (let lo = nat \<lfloor>k\<rfloor>; hi = min (lo + 1) (length xs - 1) in xs ! lo + (xs ! hi - xs ! lo) * (k - of_nat lo))"

lemma percentile_interpolate:
  "values \<noteq> [] \<Longrightarrow> percentile values pct = Some (interpolate (sort values) (of_nat (length values - 1) * pct))"
  by (simp add: percentile_def interpolate_def Let_def)

lemma sort_Nil: "sort xs = [] \<longleftrightarrow> xs = []"
  by (metis length_0_conv length_sort)

lemma floor_index:
  assumes "0 \<le> k" and "k \<le> of_nat n"
  shows "nat \<lfloor>k :: rat\<rfloor> \<le> n"
  using assms by (metis floor_mono floor_of_nat nat_int nat_mono)

text \<open>The place above an index of the list, and the order of the two.\<close>

lemma next_place:
  assumes "sorted xs" and "xs \<noteq> []" and "i \<le> length xs - 1"
  shows "xs ! i \<le> xs ! min (i + 1) (length xs - 1)"
proof (rule sorted_nth_mono [OF assms(1)])
  have "0 < length xs" using assms(2) by simp
  then show "min (i + 1) (length xs - 1) < length xs" by (simp add: min_less_iff_disj)
  show "i \<le> min (i + 1) (length xs - 1)" using assms(3) by simp
qed

lemma of_nat_floor: "0 \<le> (k :: rat) \<Longrightarrow> of_nat (nat \<lfloor>k\<rfloor>) = of_int \<lfloor>k\<rfloor>"
  by simp

lemma interpolate_between:
  assumes "sorted xs" and "xs \<noteq> []" and "0 \<le> k" and "k \<le> of_nat (length xs - 1)"
  shows "xs ! nat \<lfloor>k\<rfloor> \<le> interpolate xs k \<and> interpolate xs k \<le> xs ! min (nat \<lfloor>k\<rfloor> + 1) (length xs - 1)"
proof -
  let ?lo = "nat \<lfloor>k\<rfloor>" let ?hi = "min (?lo + 1) (length xs - 1)"
  have lo: "?lo \<le> length xs - 1" by (rule floor_index [OF assms(3,4)])
  have frac: "0 \<le> k - of_nat ?lo" "k - of_nat ?lo \<le> 1" using assms(3) by (simp_all add: of_nat_floor) linarith+
  have "xs ! ?lo \<le> xs ! ?hi" by (rule next_place [OF assms(1,2) lo])
  then have d: "0 \<le> xs ! ?hi - xs ! ?lo" by simp
  have "(xs ! ?hi - xs ! ?lo) * (k - of_nat ?lo) \<le> (xs ! ?hi - xs ! ?lo) * 1" by (rule mult_left_mono [OF frac(2) d])
  moreover have "0 \<le> (xs ! ?hi - xs ! ?lo) * (k - of_nat ?lo)" by (rule mult_nonneg_nonneg [OF d frac(1)])
  ultimately show ?thesis by (simp add: interpolate_def Let_def)
qed

lemma interpolate_mono:
  assumes "sorted xs" and "xs \<noteq> []" and "0 \<le> k" and "k \<le> k'" and "k' \<le> of_nat (length xs - 1)"
  shows "interpolate xs k \<le> interpolate xs k'"
proof (cases "nat \<lfloor>k\<rfloor> = nat \<lfloor>k'\<rfloor>")
  case True
  let ?lo = "nat \<lfloor>k\<rfloor>" let ?hi = "min (?lo + 1) (length xs - 1)"
  have "?lo \<le> length xs - 1" by (rule floor_index [OF assms(3)]) (use assms(4,5) in linarith)
  then have "xs ! ?lo \<le> xs ! ?hi" by (rule next_place [OF assms(1,2)])
  then have "(xs ! ?hi - xs ! ?lo) * (k - of_nat ?lo) \<le> (xs ! ?hi - xs ! ?lo) * (k' - of_nat ?lo)"
    using assms(4) by (intro mult_left_mono) auto
  then show ?thesis by (simp add: interpolate_def Let_def True)
next
  case False
  have "\<lfloor>k\<rfloor> \<le> \<lfloor>k'\<rfloor>" by (rule floor_mono [OF assms(4)])
  moreover have "0 \<le> \<lfloor>k\<rfloor>" using assms(3) by simp
  ultimately have lt: "nat \<lfloor>k\<rfloor> + 1 \<le> nat \<lfloor>k'\<rfloor>" using False by linarith
  have lo': "nat \<lfloor>k'\<rfloor> \<le> length xs - 1" by (rule floor_index [OF _ assms(5)]) (use assms(3,4) in linarith)
  have "interpolate xs k \<le> xs ! min (nat \<lfloor>k\<rfloor> + 1) (length xs - 1)"
    using interpolate_between [OF assms(1-3)] assms(4,5) by simp
  also have "\<dots> \<le> xs ! nat \<lfloor>k'\<rfloor>"
  proof (rule sorted_nth_mono [OF assms(1)])
    show "min (nat \<lfloor>k\<rfloor> + 1) (length xs - 1) \<le> nat \<lfloor>k'\<rfloor>" using lt by simp
    have "0 < length xs" using assms(2) by simp
    then show "nat \<lfloor>k'\<rfloor> < length xs" using lo' by linarith
  qed
  also have "\<dots> \<le> interpolate xs k'" using interpolate_between [OF assms(1,2) _ assms(5)] assms(3,4) by simp
  finally show ?thesis .
qed

lemma percentile_mono:
  assumes "values \<noteq> []" and "0 \<le> p" and "p \<le> q" and "q \<le> 1"
  shows "\<exists>x y. percentile values p = Some x \<and> percentile values q = Some y \<and> x \<le> y"
proof -
  let ?n = "of_nat (length values - 1) :: rat"
  have "interpolate (sort values) (?n * p) \<le> interpolate (sort values) (?n * q)"
    using assms by (intro interpolate_mono) (auto simp: sort_Nil intro!: mult_left_mono mult_left_le mult_nonneg_nonneg)
  with assms(1) show ?thesis by (simp add: percentile_interpolate)
qed

lemma percentile_ends:
  assumes "values \<noteq> []"
  shows "percentile values 0 = Some (Min (set values))" and "percentile values 1 = Some (Max (set values))"
proof -
  let ?s = "sort values"
  have ne: "?s \<noteq> []" using assms by (simp add: sort_Nil)
  have "?s ! 0 = Min (set values)"
  proof (rule Min_eqI [symmetric])
    show "?s ! 0 \<in> set values" using ne by (metis length_greater_0_conv nth_mem set_sort)
    show "?s ! 0 \<le> x" if "x \<in> set values" for x
      using that by (metis in_set_conv_nth le0 set_sort sorted_nth_mono sorted_sort)
  qed simp
  then show "percentile values 0 = Some (Min (set values))"
    using assms by (simp add: percentile_interpolate interpolate_def Let_def)
  have last: "?s ! (length values - 1) = Max (set values)"
  proof (rule Max_eqI [symmetric])
    show "?s ! (length values - 1) \<in> set values" using ne by (metis One_nat_def diff_Suc_less length_greater_0_conv length_sort nth_mem set_sort)
    show "x \<le> ?s ! (length values - 1)" if "x \<in> set values" for x
    proof -
      from that have "x \<in> set ?s" by simp
      then obtain i where "i < length ?s" "x = ?s ! i" unfolding in_set_conv_nth by blast
      then show ?thesis by (simp add: sorted_nth_mono)
    qed
  qed simp
  then show "percentile values 1 = Some (Max (set values))"
    using assms by (simp add: percentile_interpolate interpolate_def Let_def)
qed

text \<open>The two ways the code takes a middle agree.\<close>

lemma median_percentile: "median values = percentile values (1 / 2)"
proof (cases "values = []")
  case False
  let ?n = "length values"
  show ?thesis
  proof (cases "odd ?n")
    case True
    then obtain m where m: "?n = 2 * m + 1" by (elim oddE)
    then have "(of_nat (?n - 1) * (1 / 2) :: rat) = of_nat m" by simp
    with m False show ?thesis by (simp add: median_def percentile_interpolate interpolate_def Let_def sort_Nil)
  next
    case False': False
    then have "even ?n" by simp
    then obtain m where m: "?n = 2 * m" by (elim evenE)
    with False have m0: "0 < m" by (cases m) auto
    have k: "(of_nat (?n - 1) * (1 / 2) :: rat) = of_nat (m - 1) + 1 / 2"
      using m m0 by (simp add: of_nat_diff field_simps)
    have "\<lfloor>of_nat (m - 1) + 1 / 2 :: rat\<rfloor> = int (m - 1)" by (simp add: floor_eq_iff)
    then have lo: "nat \<lfloor>of_nat (m - 1) + 1 / 2 :: rat\<rfloor> = m - 1" by simp
    have hi: "min (m - 1 + 1) (length (sort values) - 1) = m" using m m0 by simp
    have "interpolate (sort values) (of_nat (m - 1) + 1 / 2) =
        sort values ! (m - 1) + (sort values ! m - sort values ! (m - 1)) * (1 / 2)"
      unfolding interpolate_def Let_def lo hi by (simp only: add_diff_cancel_left')
    also have "\<dots> = (sort values ! (m - 1) + sort values ! m) / 2" by (simp add: field_simps)
    finally show ?thesis using m m0 False unfolding percentile_interpolate [OF False] k by (simp add: median_def Let_def sort_Nil)
  qed
qed (simp add: median_def percentile_def)

section \<open>Cost\<close>

lemma acu_fold_total: "sum_list (map snd (foldl acu_add acc sessions)) = sum_list (map snd acc) + sum_list (map se_acus_consumed sessions)"
proof (induction sessions arbitrary: acc)
  case (Cons s sessions)
  have "sum_list (map snd (acu_add acc s)) = sum_list (map snd acc) + se_acus_consumed s"
    using sum_dict_set [of "se_work_item_id s" "(case dict_get acc (se_work_item_id s) of Some x \<Rightarrow> x | None \<Rightarrow> 0) + se_acus_consumed s" acc]
    by (simp add: acu_add_def algebra_simps)
  with Cons show ?case by simp
qed simp

lemma acu_fold_of:
  "acu_of (foldl acu_add acc sessions) w =
     acu_of acc w + sum_list (map se_acus_consumed (filter (\<lambda>s. se_work_item_id s = w) sessions))"
  by (induction sessions arbitrary: acc) (auto simp: acu_of_def acu_add_def dict_get_set split: option.splits)

lemma acu_by_item_sums:
  "sum_list (map snd (acu_by_item sessions)) = sum_list (map se_acus_consumed sessions)"
  "acu_of (acu_by_item sessions) w = sum_list (map se_acus_consumed (filter (\<lambda>s. se_work_item_id s = w) sessions))"
  using acu_fold_total [of "[]"] acu_fold_of [of "[]"] by (simp_all add: acu_by_item_def acu_of_def dict_get_def)

end
