(* ===== verification/ReportFacts.thy ===== *)
theory ReportFacts
  imports Report MetricsFacts
begin

text \<open>
  The report and the metrics count the same rows: a sorted counter depends only on the multiset it counts,
  and the run the report calls latest is the newest closing one.
\<close>

lemma counter_distinct: "distinct (map fst (counter ks))"
proof -
  have "distinct (map fst d) \<Longrightarrow> distinct (map fst (foldl (\<lambda>d k. counter_add k d) d ks))" for d
    by (induction ks arbitrary: d) (simp_all add: counter_add_def dict_set_distinct)
  from this [of "[]"] show ?thesis by (simp add: counter_def)
qed

text \<open>A sorted counter is its keys in order, each with its number of occurrences.\<close>

lemma sorted_counter_eq: "sorted_counter ks = map (\<lambda>k. (k, count_list ks k)) (sorted_set ks)"
proof (rule map_sorted_distinct_set_unique [of fst])
  have keys: "fst ` set (counter ks) = set ks"
  proof -
    have "k \<in> fst ` set (counter ks) \<longleftrightarrow> k \<in> set ks" for k
      using dict_get_counter [of ks k] map_of_eq_None_iff [of "counter ks" k] by (auto simp: dict_get_def split: if_splits)
    then show ?thesis by blast
  qed
  have "(k, n) \<in> set (counter ks) \<longleftrightarrow> k \<in> set ks \<and> n = count_list ks k" for k n
    using map_of_eq_Some_iff [OF counter_distinct, of ks k n] dict_get_counter [of ks k] by (auto simp: dict_get_def split: if_splits)
  then show "set (sorted_counter ks) = set (map (\<lambda>k. (k, count_list ks k)) (sorted_set ks))"
    by (auto simp: sorted_counter_def)
  show "inj_on fst (set (sorted_counter ks) \<union> set (map (\<lambda>k. (k, count_list ks k)) (sorted_set ks)))"
    using \<open>set (sorted_counter ks) = _\<close> by (auto simp: inj_on_def)
  show "sorted (map fst (sorted_counter ks))" by (simp add: sorted_counter_def)
  show "distinct (map fst (sorted_counter ks))"
  proof -
    have "mset (map fst (sorted_counter ks)) = mset (map fst (counter ks))" by (simp add: sorted_counter_def)
    then show ?thesis using counter_distinct [of ks] by (metis mset_eq_imp_distinct_iff)
  qed
  show "sorted (map fst (map (\<lambda>k. (k, count_list ks k)) (sorted_set ks)))" by (simp add: sorted_set_def comp_def)
  show "distinct (map fst (map (\<lambda>k. (k, count_list ks k)) (sorted_set ks)))" by (simp add: sorted_set_def comp_def)
qed

lemma sorted_counter_mset: "mset xs = mset ys \<Longrightarrow> sorted_counter xs = sorted_counter ys"
proof -
  assume eq: "mset xs = mset ys"
  then have "set xs = set ys" by (rule mset_eq_setD)
  then have "sorted_set xs = sorted_set ys"
    unfolding sorted_set_def by (metis sorted_list_of_set_sort_remdups)
  moreover have "count_list xs k = count_list ys k" for k using eq by (metis count_mset)
  ultimately show ?thesis by (simp add: sorted_counter_eq)
qed

lemma sum_sort_key: "sum_list (map f (sort_key k xs)) = sum_list (map f xs)" for f :: "'a \<Rightarrow> 'b::comm_monoid_add"
proof -
  have "mset (map f (sort_key k xs)) = mset (map f xs)" by simp
  then show ?thesis by (metis sum_mset_sum_list)
qed

lemma branch_runs_mem: "r \<in> set (branch_runs runs repo branch) \<longleftrightarrow> r \<in> set runs \<and> sr_source_repo r = repo \<and> sr_source_branch r = branch"
  by (auto simp: branch_runs_def)

lemma last_of_sorted:
  assumes "sorted (map f xs)" and "last_of xs = Some l"
  shows "l \<in> set xs" and "x \<in> set xs \<Longrightarrow> f x \<le> f l"
proof -
  have ne: "xs \<noteq> []" "l = last xs" using assms(2) by (auto simp: last_of_def split: if_splits)
  then show "l \<in> set xs" by simp
  show "f x \<le> f l" if "x \<in> set xs"
  proof -
    from that obtain i where i: "i < length xs" "x = xs ! i" by (auto simp: in_set_conv_nth)
    have "map f xs ! i \<le> map f xs ! (length xs - 1)" using i by (intro sorted_nth_mono [OF assms(1)]) auto
    with i ne show ?thesis by (simp add: last_conv_nth)
  qed
qed

lemma branch_runs_sorted: "sorted (map chronology (filter P (branch_runs runs repo branch)))"
  by (simp add: branch_runs_def sorted_filter)

lemma select_latest_None: "snd (select_runs runs repo branch) = None \<longleftrightarrow> branch_runs runs repo branch = []"
  by (auto simp: select_runs_def Let_def last_of_def)

lemma select_latest:
  assumes "snd (select_runs runs repo branch) = Some l"
  shows "l \<in> set (branch_runs runs repo branch)"
    and "closing_candidate l \<longleftrightarrow> (\<exists>r \<in> set (branch_runs runs repo branch). closing_candidate r)"
    and "r \<in> set (branch_runs runs repo branch) \<Longrightarrow> closing_candidate r = closing_candidate l \<Longrightarrow> chronology r \<le> chronology l"
proof -
  let ?b = "branch_runs runs repo branch" let ?c = "filter closing_candidate ?b"
  have all: "sorted (map chronology ?b)" using branch_runs_sorted [of "\<lambda>_. True" runs repo branch] by simp
  consider (closing) "?c \<noteq> []" "last_of ?c = Some l" | (other) "?c = []" "last_of ?b = Some l"
    using assms by (auto simp: select_runs_def Let_def split: if_splits)
  then have "l \<in> set ?b \<and> (closing_candidate l \<longleftrightarrow> (\<exists>r \<in> set ?b. closing_candidate r)) \<and>
      (\<forall>r \<in> set ?b. closing_candidate r = closing_candidate l \<longrightarrow> chronology r \<le> chronology l)"
  proof cases
    case closing
    from last_of_sorted [OF branch_runs_sorted closing(2)] show ?thesis by auto
  next
    case other
    then have none: "\<not> closing_candidate r" if "r \<in> set ?b" for r using that by (auto simp: filter_empty_conv)
    from last_of_sorted [OF all other(2)] none show ?thesis by auto
  qed
  then show "l \<in> set ?b" "closing_candidate l \<longleftrightarrow> (\<exists>r \<in> set ?b. closing_candidate r)"
    "r \<in> set ?b \<Longrightarrow> closing_candidate r = closing_candidate l \<Longrightarrow> chronology r \<le> chronology l" by blast+
qed

end
