(* ===== verification/Labels.thy ===== *)
theory Labels
  imports Metrics Files
begin

text \<open>
  \<^verbatim>\<open>dashboard/labels.py\<close>: the labels and badge tones of the values the dashboard shows, the coarse stages
  the work item states collapse onto, the sort keys, and the sentence that tells a person what to do.
  A value a view passes in is None, a text (an enum with text values is its value), a number, or a
  member of one of the integer enums.
\<close>

section \<open>Labels\<close>

datatype Tone = T_neutral | T_info | T_success | T_warning | T_danger

datatype Label = Label (la_text: str) (la_tone: Tone) (la_hint: str)

datatype obj = O_none | O_text str | O_num int | O_kind Kind | O_level LifecycleLevel | O_depth VerificationDepth

definition obj_str :: "obj \<Rightarrow> str" where
  "obj_str v = (case v of O_none \<Rightarrow> ''None'' | O_text s \<Rightarrow> s | O_num i \<Rightarrow> show_int i | O_kind k \<Rightarrow> show_nat (kind_value k)
     | O_level l \<Rightarrow> show_nat (level_value l) | O_depth d \<Rightarrow> show_nat (depth_value d))"

text \<open>\<open>E(s)\<close> or \<open>E[s]\<close>: the member with that value or name, None where Python raises.\<close>

definition member_with :: "'a list \<Rightarrow> ('a \<Rightarrow> 'b) \<Rightarrow> 'b \<Rightarrow> 'a option" where
  "member_with members value s = find (\<lambda>m. value m = s) members"

definition all_levels :: "LifecycleLevel list" where
  "all_levels = [LL_none, LL_pr_opened, LL_ci_green, LL_review_completed, LL_human_approved, LL_merged, LL_rescan_verified]"

definition all_finding_states :: "FindingState list" where
  "all_finding_states = [F_open, F_unclassified, F_grouped, F_in_remediation, F_awaiting_rescan, F_fixed, F_approved_disposition,
     F_scanner_disagreement_resolved, F_regression, F_human_blocked]"

definition all_check_statuses :: "CheckStatus list" where
  "all_check_statuses = [CK_pending, CK_passed, CK_failed, CK_partial, CK_unavailable]"

definition all_triggers :: "Trigger list" where
  "all_triggers = [TR_push, TR_pull_request, TR_schedule, TR_workflow_dispatch, TR_replay, TR_fixture]"

definition work_item_state_of :: "str \<Rightarrow> WorkItemState option" where
  "work_item_state_of = member_with all_work_item_states work_item_state_value"

text \<open>\<open>raw.isdigit()\<close>, and the member of an integer enum by number or by name.\<close>

definition all_digits :: "str \<Rightarrow> bool" where
  "all_digits s \<longleftrightarrow> s \<noteq> [] \<and> list_all is_digit s"

definition numbered :: "'a list \<Rightarrow> ('a \<Rightarrow> nat) \<Rightarrow> ('a \<Rightarrow> str) \<Rightarrow> str \<Rightarrow> 'a option" where
  "numbered members value name raw =
     (if all_digits raw then member_with members value (read_nat raw) else member_with members name raw)"

text \<open>An em dash in UTF-8.\<close>

definition EM_DASH :: str where "EM_DASH = [CHR 0xE2, CHR 0x80, CHR 0x94]"

definition fallback :: "obj \<Rightarrow> Label" where
  "fallback value =
     (let text' = strip (replace_char CHR ''_'' '' '' (obj_str value)) in
      Label (if text' = [] then EM_DASH else upper (take 1 text') @ drop 1 text') T_neutral [])"

definition label_or :: "'a option \<Rightarrow> ('a \<Rightarrow> Label) \<Rightarrow> obj \<Rightarrow> Label" where
  "label_or m table value = (case m of Some x \<Rightarrow> table x | None \<Rightarrow> fallback value)"

section \<open>Stages\<close>

fun WORK_ITEM_STATE_LABELS :: "WorkItemState \<Rightarrow> Label" where
  "WORK_ITEM_STATE_LABELS W_queued = Label ''Queued'' T_neutral ''Waiting for dispatch''"
| "WORK_ITEM_STATE_LABELS W_issue_open = Label ''Issue open'' T_neutral ''GitHub issue created''"
| "WORK_ITEM_STATE_LABELS W_dispatching = Label ''Dispatching'' T_info ''Starting a Devin session''"
| "WORK_ITEM_STATE_LABELS W_session_active = Label ''Devin working'' T_info ''Session in progress''"
| "WORK_ITEM_STATE_LABELS W_pr_open = Label ''PR open'' T_info ''Pull request opened''"
| "WORK_ITEM_STATE_LABELS W_checks_running = Label ''Checks running'' T_info ''CI in progress''"
| "WORK_ITEM_STATE_LABELS W_checks_failed = Label ''Checks failed'' T_warning ''Retrying in session''"
| "WORK_ITEM_STATE_LABELS W_review_pending = Label ''Review pending'' T_info ''Waiting for Devin Review''"
| "WORK_ITEM_STATE_LABELS W_ready_for_human = Label ''Ready for review'' T_warning ''Needs a human approval and merge in GitHub''"
| "WORK_ITEM_STATE_LABELS W_merged = Label ''Merged'' T_info ''Waiting for a confirming scan''"
| "WORK_ITEM_STATE_LABELS W_awaiting_rescan = Label ''Awaiting rescan'' T_info ''Merged; waiting for the next scan of the branch''"
| "WORK_ITEM_STATE_LABELS W_verified = Label ''Verified'' T_success ''Absent from a later successful scan''"
| "WORK_ITEM_STATE_LABELS W_needs_human = Label ''Needs attention'' T_danger ''Blocked on a person''"
| "WORK_ITEM_STATE_LABELS W_abandoned = Label ''Abandoned'' T_neutral ''Closed without remediation''"
| "WORK_ITEM_STATE_LABELS W_failed = Label ''Failed'' T_danger ''Remediation failed''"

definition HUMAN_ACTION_STATES :: "WorkItemState list" where
  "HUMAN_ACTION_STATES = [W_needs_human, W_ready_for_human, W_failed]"

datatype Stage = ST_ready | ST_devin | ST_pr | ST_review | ST_merged | ST_verified | ST_attention | ST_closed

definition all_stages :: "Stage list" where
  "all_stages = [ST_ready, ST_devin, ST_pr, ST_review, ST_merged, ST_verified, ST_attention, ST_closed]"

fun stage_value :: "Stage \<Rightarrow> str" where
  "stage_value ST_ready = ''ready''"
| "stage_value ST_devin = ''devin''"
| "stage_value ST_pr = ''pr''"
| "stage_value ST_review = ''review''"
| "stage_value ST_merged = ''merged''"
| "stage_value ST_verified = ''verified''"
| "stage_value ST_attention = ''attention''"
| "stage_value ST_closed = ''closed''"

fun STAGE_LABELS :: "Stage \<Rightarrow> Label" where
  "STAGE_LABELS ST_ready = Label ''Ready to fix'' T_neutral ''Queued; launch Devin to start''"
| "STAGE_LABELS ST_devin = Label ''Devin working'' T_info ''A Devin session is on it''"
| "STAGE_LABELS ST_pr = Label ''PR in CI'' T_info ''Pull request open; CI and review running''"
| "STAGE_LABELS ST_review = Label ''Awaiting your review'' T_warning ''Approve and merge in GitHub''"
| "STAGE_LABELS ST_merged = Label ''Merged, awaiting rescan'' T_info ''A later scan must confirm''"
| "STAGE_LABELS ST_verified = Label ''Verified'' T_success ''Absent from a later successful scan''"
| "STAGE_LABELS ST_attention = Label ''Needs attention'' T_danger ''Blocked on a person''"
| "STAGE_LABELS ST_closed = Label ''Closed'' T_neutral ''Abandoned without remediation''"

fun STAGE_STATES :: "Stage \<Rightarrow> WorkItemState list" where
  "STAGE_STATES ST_ready = [W_queued, W_issue_open]"
| "STAGE_STATES ST_devin = [W_dispatching, W_session_active, W_checks_failed]"
| "STAGE_STATES ST_pr = [W_pr_open, W_checks_running, W_review_pending]"
| "STAGE_STATES ST_review = [W_ready_for_human]"
| "STAGE_STATES ST_merged = [W_merged, W_awaiting_rescan]"
| "STAGE_STATES ST_verified = [W_verified]"
| "STAGE_STATES ST_attention = [W_needs_human, W_failed]"
| "STAGE_STATES ST_closed = [W_abandoned]"

definition PIPELINE :: "Stage list" where
  "PIPELINE = [ST_ready, ST_devin, ST_pr, ST_review, ST_merged, ST_verified]"

definition IN_FLIGHT_STAGES :: "Stage list" where
  "IN_FLIGHT_STAGES = [ST_devin, ST_pr, ST_review]"

text \<open>\<open>{s: stage for stage, states in STAGE_STATES.items() for s in states}\<close>: later entries win.\<close>

definition STAGE_OF_STATE :: "(WorkItemState, Stage) dict" where
  "STAGE_OF_STATE = foldl (\<lambda>d (s, stage). dict_set s stage d) []
     (concat (map (\<lambda>stage. map (\<lambda>s. (s, stage)) (STAGE_STATES stage)) all_stages))"

text \<open>An unknown value counts as attention; a state missing from the table would be a KeyError, and none is.\<close>

definition stage_of :: "obj \<Rightarrow> Stage" where
  "stage_of state =
     (case work_item_state_of (obj_str state) of
        None \<Rightarrow> ST_attention
      | Some s \<Rightarrow> the (dict_get STAGE_OF_STATE s))"

definition parse_stage :: "str option \<Rightarrow> Stage option" where
  "parse_stage value = (case value of None \<Rightarrow> None | Some s \<Rightarrow> if s = [] then None else member_with all_stages stage_value s)"

definition stage_label :: "obj \<Rightarrow> Label" where
  "stage_label value =
     (case (if value = O_none then None else parse_stage (Some (obj_str value))) of
        Some s \<Rightarrow> STAGE_LABELS s
      | None \<Rightarrow> STAGE_LABELS (stage_of value))"

definition add_count :: "Stage \<Rightarrow> nat \<Rightarrow> (Stage, nat) dict \<Rightarrow> (Stage, nat) dict" where
  "add_count s n = map (\<lambda>(k, m). (k, if k = s then m + n else m))"

definition stage_counts :: "(str, nat) dict \<Rightarrow> (Stage, nat) dict" where
  "stage_counts by_state =
     foldl (\<lambda>counts (raw, n). add_count (stage_of (O_text raw)) n counts) (map (\<lambda>s. (s, 0)) all_stages) by_state"

section \<open>Fixability and the sort keys\<close>

datatype Fixability = FX_upgrade | FX_hardening | FX_assessment | FX_triage

fun fixability_value :: "Fixability \<Rightarrow> str" where
  "fixability_value FX_upgrade = ''upgrade''"
| "fixability_value FX_hardening = ''hardening''"
| "fixability_value FX_assessment = ''assessment''"
| "fixability_value FX_triage = ''triage''"

fun FIXABILITY_LABELS :: "Fixability \<Rightarrow> Label" where
  "FIXABILITY_LABELS FX_upgrade = Label ''Fix available'' T_success ''A fixed version exists; Devin bumps the pin''"
| "FIXABILITY_LABELS FX_hardening = Label ''Config change'' T_info ''Image or deployment hardening, not a version bump''"
| "FIXABILITY_LABELS FX_assessment = Label ''No fix yet'' T_neutral ''No upstream fix; Devin assesses reachability and drafts OpenVEX''"
| "FIXABILITY_LABELS FX_triage = Label ''Needs triage'' T_warning ''Scanners disagree; decide which is right first''"

fun FIXABILITY_OF_KIND :: "Kind \<Rightarrow> Fixability" where
  "FIXABILITY_OF_KIND K_dependency_upgrade = FX_upgrade"
| "FIXABILITY_OF_KIND K_container_hardening = FX_hardening"
| "FIXABILITY_OF_KIND K_helm_deploy_config = FX_hardening"
| "FIXABILITY_OF_KIND K_no_fix_reachability = FX_assessment"
| "FIXABILITY_OF_KIND K_scanner_disagreement = FX_triage"

definition FIXABILITY_ORDER :: "Fixability list" where
  "FIXABILITY_ORDER = [FX_upgrade, FX_hardening, FX_assessment, FX_triage]"

fun STAGE_ORDER :: "Stage \<Rightarrow> nat" where
  "STAGE_ORDER ST_devin = 0"
| "STAGE_ORDER ST_pr = 1"
| "STAGE_ORDER ST_review = 2"
| "STAGE_ORDER ST_ready = 3"
| "STAGE_ORDER ST_attention = 4"
| "STAGE_ORDER ST_merged = 5"
| "STAGE_ORDER ST_verified = 6"
| "STAGE_ORDER ST_closed = 7"

definition kind_numbered :: "str \<Rightarrow> Kind option" where
  "kind_numbered = numbered all_kinds kind_value kind_slug"

definition fixability_of :: "obj \<Rightarrow> Fixability" where
  "fixability_of kind =
     (case kind of
        O_kind k \<Rightarrow> FIXABILITY_OF_KIND k
      | _ \<Rightarrow> (case kind_numbered (obj_str kind) of Some k \<Rightarrow> FIXABILITY_OF_KIND k | None \<Rightarrow> FX_triage))"

definition parse_fixability :: "str option \<Rightarrow> Fixability option" where
  "parse_fixability value =
     (case value of None \<Rightarrow> None | Some s \<Rightarrow> if s = [] then None else member_with FIXABILITY_ORDER fixability_value s)"

definition fixability_label :: "obj \<Rightarrow> Label" where
  "fixability_label value =
     FIXABILITY_LABELS (case (if value = O_none then None else parse_fixability (Some (obj_str value))) of
        Some f \<Rightarrow> f | None \<Rightarrow> fixability_of value)"

text \<open>In the order of the table, as \<open>.items()\<close> visits it.\<close>

definition kinds_for_fixability :: "Fixability \<Rightarrow> Kind list" where
  "kinds_for_fixability fix' = filter (\<lambda>k. FIXABILITY_OF_KIND k = fix')
     [K_dependency_upgrade, K_container_hardening, K_helm_deploy_config, K_no_fix_reachability, K_scanner_disagreement]"

definition index_of :: "'a list \<Rightarrow> 'a \<Rightarrow> nat" where
  "index_of xs x = length (takeWhile (\<lambda>y. y \<noteq> x) xs)"

definition fixability_rank :: "obj \<Rightarrow> bool option \<Rightarrow> nat \<times> nat" where
  "fixability_rank kind launchable =
     (if launchable \<in> {None, Some True} then 0 else 1, index_of FIXABILITY_ORDER (fixability_of kind))"

definition work_item_sort_key :: "obj \<Rightarrow> obj \<Rightarrow> nat \<Rightarrow> nat \<Rightarrow> bool option \<Rightarrow> nat \<times> nat \<times> nat \<times> int \<times> nat" where
  "work_item_sort_key state kind severity_rank' item_id launchable =
     (let st = stage_of state; (launch_rank, fix_rank) = (if st = ST_ready then fixability_rank kind launchable else (0, 0)) in
      (STAGE_ORDER st, launch_rank, fix_rank, - int severity_rank', item_id))"

definition pipeline_position :: "obj \<Rightarrow> nat option" where
  "pipeline_position state =
     (let s = stage_of state in if s \<in> set PIPELINE then Some (index_of PIPELINE s) else None)"

section \<open>Labels of single values\<close>

fun FINDING_STATE_LABELS :: "FindingState \<Rightarrow> Label" where
  "FINDING_STATE_LABELS F_open = Label ''Open'' T_neutral []"
| "FINDING_STATE_LABELS F_unclassified = Label ''Unclassified'' T_warning ''Not dispatched''"
| "FINDING_STATE_LABELS F_grouped = Label ''Grouped'' T_neutral ''Attached to a work item''"
| "FINDING_STATE_LABELS F_in_remediation = Label ''In remediation'' T_info []"
| "FINDING_STATE_LABELS F_awaiting_rescan = Label ''Awaiting rescan'' T_info []"
| "FINDING_STATE_LABELS F_fixed = Label ''Fixed'' T_success ''Confirmed absent by a later scan''"
| "FINDING_STATE_LABELS F_approved_disposition = Label ''Approved disposition'' T_success ''Human-approved OpenVEX''"
| "FINDING_STATE_LABELS F_scanner_disagreement_resolved = Label ''Disagreement resolved'' T_success ''Scanner disagreement resolved by a human''"
| "FINDING_STATE_LABELS F_regression = Label ''Regression'' T_danger ''Reappeared after verification''"
| "FINDING_STATE_LABELS F_human_blocked = Label ''Blocked'' T_danger ''Waiting on a person''"

fun KIND_BADGES :: "Kind \<Rightarrow> Label" where
  "KIND_BADGES K_dependency_upgrade = Label ''Dependency upgrade'' T_neutral []"
| "KIND_BADGES K_no_fix_reachability = Label ''No fix / reachability'' T_neutral []"
| "KIND_BADGES K_container_hardening = Label ''Container hardening'' T_neutral []"
| "KIND_BADGES K_scanner_disagreement = Label ''Scanner disagreement'' T_neutral []"
| "KIND_BADGES K_helm_deploy_config = Label ''Deployment config'' T_neutral []"

definition UNCLASSIFIED_LABEL :: Label where
  "UNCLASSIFIED_LABEL = Label ''Unclassified'' T_warning ''Visible but never dispatched''"

fun SEVERITY_LABELS :: "Severity \<Rightarrow> Label" where
  "SEVERITY_LABELS SEV_critical = Label ''Critical'' T_danger []"
| "SEVERITY_LABELS SEV_high = Label ''High'' T_danger []"
| "SEVERITY_LABELS SEV_medium = Label ''Medium'' T_warning []"
| "SEVERITY_LABELS SEV_low = Label ''Low'' T_neutral []"
| "SEVERITY_LABELS SEV_unknown = Label ''Unknown'' T_neutral []"

fun LIFECYCLE_LABELS :: "LifecycleLevel \<Rightarrow> Label" where
  "LIFECYCLE_LABELS LL_none = Label ''Not started'' T_neutral []"
| "LIFECYCLE_LABELS LL_pr_opened = Label ''PR opened'' T_neutral []"
| "LIFECYCLE_LABELS LL_ci_green = Label ''CI green'' T_info []"
| "LIFECYCLE_LABELS LL_review_completed = Label ''Review completed'' T_info []"
| "LIFECYCLE_LABELS LL_human_approved = Label ''Human approved'' T_info []"
| "LIFECYCLE_LABELS LL_merged = Label ''Merged'' T_info []"
| "LIFECYCLE_LABELS LL_rescan_verified = Label ''Rescan verified'' T_success []"

fun DEPTH_LABELS :: "VerificationDepth \<Rightarrow> Label" where
  "DEPTH_LABELS VD_requirements_pip = Label ''L0 Requirements and pip'' T_neutral []"
| "DEPTH_LABELS VD_import_migrations = Label ''L1 Import and migrations'' T_neutral []"
| "DEPTH_LABELS VD_targeted_unit = Label ''L2 Targeted and unit tests'' T_info []"
| "DEPTH_LABELS VD_immutable_image_runtime = Label ''L3 Immutable-image runtime'' T_info []"
| "DEPTH_LABELS VD_db_subset = Label ''L4 Database subset'' T_info []"
| "DEPTH_LABELS VD_playwright = Label ''L5 Playwright'' T_success []"
| "DEPTH_LABELS VD_canary = Label ''L6 Canary'' T_success []"

fun CHECK_STATUS_LABELS :: "CheckStatus \<Rightarrow> Label" where
  "CHECK_STATUS_LABELS CK_pending = Label ''Running'' T_info []"
| "CHECK_STATUS_LABELS CK_passed = Label ''Passed'' T_success []"
| "CHECK_STATUS_LABELS CK_failed = Label ''Failed'' T_danger []"
| "CHECK_STATUS_LABELS CK_partial = Label ''Partial'' T_warning []"
| "CHECK_STATUS_LABELS CK_unavailable = Label ''No evidence'' T_neutral []"

fun RISK_LABELS :: "Risk \<Rightarrow> Label" where
  "RISK_LABELS RK_normal = Label ''Normal risk'' T_neutral []"
| "RISK_LABELS RK_high = Label ''High risk'' T_warning ''Upper bound or major upgrade''"

fun RUN_STATUS_LABELS :: "ScanRunStatus \<Rightarrow> Label" where
  "RUN_STATUS_LABELS SR_complete = Label ''Complete'' T_success []"
| "RUN_STATUS_LABELS SR_incomplete = Label ''Incomplete'' T_warning ''A detector did not finish''"
| "RUN_STATUS_LABELS SR_failed = Label ''Failed'' T_danger []"

fun TRIGGER_LABELS :: "Trigger \<Rightarrow> str" where
  "TRIGGER_LABELS TR_push = ''Push''"
| "TRIGGER_LABELS TR_pull_request = ''Pull request''"
| "TRIGGER_LABELS TR_schedule = ''Scheduled''"
| "TRIGGER_LABELS TR_workflow_dispatch = ''Manual''"
| "TRIGGER_LABELS TR_replay = ''Replay''"
| "TRIGGER_LABELS TR_fixture = ''Fixture''"

definition PR_STATE_LABELS :: "(str, Label) dict" where
  "PR_STATE_LABELS =
     [(''open'', Label ''Open'' T_info []),
      (''closed'', Label ''Closed'' T_neutral []),
      (''merged'', Label ''Merged'' T_success [])]"

definition CHECK_CONCLUSION_LABELS :: "(str, Label) dict" where
  "CHECK_CONCLUSION_LABELS =
     [(''success'', Label ''Passed'' T_success []),
      (''failure'', Label ''Failed'' T_danger []),
      (''cancelled'', Label ''Cancelled'' T_neutral []),
      (''timed_out'', Label ''Timed out'' T_danger []),
      (''action_required'', Label ''Action required'' T_warning []),
      (''neutral'', Label ''Neutral'' T_neutral []),
      (''skipped'', Label ''Skipped'' T_neutral [])]"

definition CHECK_PENDING_LABEL :: Label where "CHECK_PENDING_LABEL = Label ''Pending'' T_info []"

definition OUTCOME_LABELS :: "(str, str) dict" where
  "OUTCOME_LABELS =
     [(''fixed'', ''Fixed''),
      (''approved_disposition'', ''Approved disposition''),
      (''scanner_disagreement_resolved'', ''Disagreement resolved''),
      (''regression'', ''Regression''),
      (''human_blocked'', ''Blocked'')]"

definition SCANNER_GROUP_LABELS :: "(str, str) dict" where
  "SCANNER_GROUP_LABELS =
     [(''both'', ''Trivy + Grype''),
      (''trivy_only'', ''Trivy only''),
      (''grype_only'', ''Grype only''),
      (''config'', ''Config scan'')]"

definition LAYER_LABELS :: "(str, str) dict" where
  "LAYER_LABELS =
     [(''python'', ''Python''),
      (''os'', ''OS packages''),
      (''binary'', ''Binaries''),
      (''dockerfile'', ''Dockerfile''),
      (''helm'', ''Helm''),
      (''compose'', ''Compose'')]"

definition RELATION_LABELS :: "(str, Label) dict" where
  "RELATION_LABELS =
     [(''matches'', Label ''Same as upstream'' T_success (''Devin'' @ [CHR 0x27] @ ''s target equals the upstream pin'')),
      (''above'', Label ''Newer than upstream'' T_info (''Devin'' @ [CHR 0x27] @ ''s target is above the upstream pin'')),
      (''below'', Label ''Older than upstream'' T_warning (''Devin'' @ [CHR 0x27] @ ''s target is below the upstream pin'')),
      (''upstream_unpinned'', Label ''Not pinned upstream'' T_neutral []),
      (''no_target'', Label ''No target yet'' T_neutral ''Devin has not proposed a version''),
      (''unparseable'', Label ''Version unparseable'' T_warning [])]"

definition plain_label :: "obj \<Rightarrow> Label" where
  "plain_label value =
     Label (la_text (fallback value)) (la_tone (fallback value)) (if value = O_none then [] else obj_str value)"

definition work_item_state_label :: "obj \<Rightarrow> Label" where
  "work_item_state_label value =
     (case work_item_state_of (obj_str value) of
        Some s \<Rightarrow> WORK_ITEM_STATE_LABELS s
      | None \<Rightarrow> label_or (member_with all_levels level_name (obj_str value)) LIFECYCLE_LABELS value)"

definition finding_state_label :: "obj \<Rightarrow> Label" where
  "finding_state_label value = label_or (member_with all_finding_states finding_state_value (obj_str value)) FINDING_STATE_LABELS value"

definition kind_badge :: "obj \<Rightarrow> Label" where
  "kind_badge value =
     (if value \<in> {O_none, O_text ''unclassified''} then UNCLASSIFIED_LABEL
      else case value of
          O_kind k \<Rightarrow> KIND_BADGES k
        | _ \<Rightarrow> label_or (kind_numbered (obj_str value)) KIND_BADGES value)"

definition severity_label :: "obj \<Rightarrow> Label" where
  "severity_label value = label_or (severity_of_value (upper (obj_str value))) SEVERITY_LABELS value"

definition lifecycle_label :: "obj \<Rightarrow> Label" where
  "lifecycle_label value =
     (case value of
        O_none \<Rightarrow> Label EM_DASH T_neutral []
      | O_level l \<Rightarrow> LIFECYCLE_LABELS l
      | _ \<Rightarrow> label_or (numbered all_levels level_value level_name (obj_str value)) LIFECYCLE_LABELS value)"

definition depth_badge :: "obj \<Rightarrow> Label" where
  "depth_badge value =
     (case value of
        O_depth d \<Rightarrow> DEPTH_LABELS d
      | _ \<Rightarrow>
          if value \<in> {O_none, O_text []} then Label ''Nothing proven yet'' T_neutral []
          else
            let raw = obj_str value; raw' = (if take 1 raw \<in> {''L'', ''l''} \<and> all_digits (drop 1 raw) then drop 1 raw else raw) in
            label_or (numbered all_depths depth_value depth_name raw') DEPTH_LABELS value)"

definition check_status_label :: "obj \<Rightarrow> Label" where
  "check_status_label value = label_or (member_with all_check_statuses check_status_value (obj_str value)) CHECK_STATUS_LABELS value"

definition risk_label :: "obj \<Rightarrow> Label" where
  "risk_label value = label_or (member_with [RK_normal, RK_high] risk_value (obj_str value)) RISK_LABELS value"

definition run_status_label :: "obj \<Rightarrow> Label" where
  "run_status_label value =
     label_or (member_with [SR_complete, SR_incomplete, SR_failed] scan_run_status_value (obj_str value)) RUN_STATUS_LABELS value"

definition trigger_label :: "obj \<Rightarrow> str" where
  "trigger_label value =
     (case member_with all_triggers trigger_value (obj_str value) of Some t \<Rightarrow> TRIGGER_LABELS t | None \<Rightarrow> la_text (fallback value))"

definition dict_or :: "(str, 'a) dict \<Rightarrow> str \<Rightarrow> 'a \<Rightarrow> 'a" where
  "dict_or d k x = (case dict_get d k of Some y \<Rightarrow> y | None \<Rightarrow> x)"

definition pr_state_label :: "obj \<Rightarrow> Label" where
  "pr_state_label value = dict_or PR_STATE_LABELS (obj_str value) (fallback value)"

definition check_conclusion_label :: "obj \<Rightarrow> Label" where
  "check_conclusion_label value =
     (if value \<in> {O_none, O_text []} then CHECK_PENDING_LABEL
      else dict_or CHECK_CONCLUSION_LABELS (obj_str value) (fallback value))"

definition outcome_label :: "obj \<Rightarrow> str" where
  "outcome_label value = dict_or OUTCOME_LABELS (obj_str value) (la_text (finding_state_label value))"

definition scanner_group_label :: "obj \<Rightarrow> str" where
  "scanner_group_label value = dict_or SCANNER_GROUP_LABELS (obj_str value) (la_text (fallback value))"

definition layer_label :: "obj \<Rightarrow> str" where
  "layer_label value = dict_or LAYER_LABELS (obj_str value) (la_text (fallback value))"

definition relation_label :: "obj \<Rightarrow> Label" where
  "relation_label value = dict_or RELATION_LABELS (obj_str value) (fallback value)"

definition gate_label :: "bool \<Rightarrow> obj \<Rightarrow> Label" where
  "gate_label passed mode =
     (if passed then Label (''Gate passed ('' @ obj_str mode @ '')'') T_success []
      else Label (''Gate failed ('' @ obj_str mode @ '')'') T_danger [])"

definition yes_no_label :: "bool option \<Rightarrow> Label" where
  "yes_no_label value =
     (case value of None \<Rightarrow> Label ''Not judged'' T_neutral [] | Some b \<Rightarrow> if b then Label ''Yes'' T_success [] else Label ''No'' T_danger [])"

definition EVENT_LABELS :: "(str, Label) dict" where
  "EVENT_LABELS =
     [(''created'', Label ''Created'' T_neutral []),
      (''issue_created'', Label ''GitHub issue opened'' T_neutral []),
      (''dispatch_started'', Label ''Dispatch started'' T_info []),
      (''dispatch_failed'', Label ''Dispatch failed'' T_warning []),
      (''session_created'', Label ''Devin session started'' T_info []),
      (''session_recovered'', Label ''Session recovered'' T_info []),
      (''pr_opened'', Label ''Pull request opened'' T_info []),
      (''checks_started'', Label ''CI checks started'' T_info []),
      (''checks_green'', Label ''CI checks passed'' T_success []),
      (''checks_red'', Label ''CI checks failed'' T_danger []),
      (''retry_sent'', Label ''Retry sent to the same session'' T_warning []),
      (''review_completed'', Label ''Devin Review completed'' T_success []),
      (''human_approved'', Label ''Approved by a person'' T_success []),
      (''human_merged'', Label ''Merged by a person'' T_success []),
      (''human_resolved'', Label ''Resolved by a person'' T_success []),
      (''rescan_started'', Label ''Confirming scan evaluated'' T_info []),
      (''rescan_verified'', Label ''Verified by rescan'' T_success []),
      (''blocked'', Label ''Blocked'' T_danger []),
      (''failed'', Label ''Failed'' T_danger []),
      (''abandoned'', Label ''Abandoned'' T_neutral []),
      (''budget_warning'', Label ''ACU budget warning'' T_warning []),
      (''lifecycle_level'', Label ''Lifecycle level changed'' T_neutral []),
      (''verification_depth'', Label ''Verification depth changed'' T_neutral []),
      (''head_changed'', Label ''PR head changed'' T_neutral []),
      (''regression'', Label ''Regression detected'' T_danger []),
      (''reappeared'', Label ''Finding reappeared'' T_danger []),
      (''opened'', Label ''Finding opened'' T_neutral []),
      (''grouped'', Label ''Finding grouped'' T_neutral []),
      (''remediation_started'', Label ''Remediation started'' T_info []),
      (''pr_merged'', Label ''Fix merged'' T_success []),
      (''closing_absent'', Label ''Closed: absent from rescan'' T_success []),
      (''closing_vex'', Label ''Closed: approved disposition'' T_success []),
      (''ingested'', Label ''Scan ingested'' T_neutral [])]"

definition ACTOR_LABELS :: "(str, str) dict" where
  "ACTOR_LABELS =
     [(''controller'', ''Controller''),
      (''devin'', ''Devin''),
      (''ci'', ''CI''),
      (''scanner'', ''Scanner''),
      (''human'', ''Person'')]"

definition event_label :: "obj \<Rightarrow> Label" where
  "event_label value = dict_or EVENT_LABELS (obj_str value) (fallback value)"

definition actor_label :: "obj \<Rightarrow> str" where
  "actor_label value =
     (let s = obj_str value in
      if starts_with s ''human:'' then after_first CHR '':'' s else dict_or ACTOR_LABELS s (la_text (fallback (O_text s))))"

section \<open>What a person must do\<close>

definition BLOCKED_REASON_PREFIXES :: "(str, str) dict" where
  "BLOCKED_REASON_PREFIXES =
     [(''blocked_reason'', ''Devin reported a blocker''),
      (''invalid_transition'', ''The controller refused a state transition''),
      (''acu_cap_exceeded'', ''ACU cap exceeded''),
      (''retries_exhausted'', ''Retries exhausted''),
      (''operator_cancelled'', ''Stopped by an operator'')]"

definition is_alnum :: "char \<Rightarrow> bool" where
  "is_alnum c \<longleftrightarrow> is_digit c \<or> (let l = (of_char (lower_char c) :: nat) in 97 \<le> l \<and> l \<le> 122)"

definition is_code :: "str \<Rightarrow> bool" where
  "is_code code \<longleftrightarrow> (let bare = filter (\<lambda>c. c \<noteq> CHR ''_'') code in bare \<noteq> [] \<and> list_all is_alnum bare) \<and> code = lower code"

definition blocked_reason_text :: "str option \<Rightarrow> str" where
  "blocked_reason_text value =
     (let s = strip (case value of Some v \<Rightarrow> v | None \<Rightarrow> []) in
      if s = [] then []
      else if CHR '':'' \<in> set s \<and> is_code (before_first CHR '':'' s) then
        let code = before_first CHR '':'' s; detail = strip (after_first CHR '':'' s);
            lead = dict_or BLOCKED_REASON_PREFIXES code (la_text (fallback (O_text code))) in
        if detail \<noteq> [] then lead @ '': '' @ detail else lead
      else if CHR ''_'' \<in> set s \<and> CHR '' '' \<notin> set s then la_text (fallback (O_text s)) else s)"

definition next_human_action :: "obj \<Rightarrow> str option \<Rightarrow> str option \<Rightarrow> str option" where
  "next_human_action state blocked_reason url =
     (case work_item_state_of (obj_str state) of
        None \<Rightarrow> None
      | Some s \<Rightarrow>
          let reason = blocked_reason_text blocked_reason in
          if s = W_needs_human
          then Some (if reason \<noteq> [] then reason
            else ''Resolve the blocker in GitHub, then add the '' @ [CHR 0x60] @ ''retry'' @ [CHR 0x60] @ '' label.'')
          else if s = W_failed
          then Some (if reason \<noteq> [] then reason else ''Remediation failed; review the session and decide on a retry.'')
          else if s = W_ready_for_human
          then Some (if url = None then ''Approve the disposition on the GitHub issue so the loop can continue.''
            else ''Review and approve the pull request in GitHub; merging lets the loop continue.'')
          else None)"

section \<open>The stages mirror the states\<close>

lemma work_item_state_of_value: "work_item_state_of (work_item_state_value s) = Some s"
  by (cases s) (simp_all add: work_item_state_of_def member_with_def all_work_item_states_def)

lemma STAGE_OF_STATE_get: "dict_get STAGE_OF_STATE s = Some st \<longleftrightarrow> s \<in> set (STAGE_STATES st)"
  by (cases s; cases st) (simp_all add: STAGE_OF_STATE_def all_stages_def dict_get_def)

lemma STAGE_OF_STATE_total: "\<exists>st. dict_get STAGE_OF_STATE s = Some st"
  by (cases s) (simp_all add: STAGE_OF_STATE_def all_stages_def dict_get_def)

lemma stage_of_state: "stage_of (O_text (work_item_state_value s)) = st \<longleftrightarrow> s \<in> set (STAGE_STATES st)"
proof -
  have "stage_of (O_text (work_item_state_value s)) = the (dict_get STAGE_OF_STATE s)"
    unfolding stage_of_def obj_str_def obj.case work_item_state_of_value option.case ..
  moreover obtain st' where "dict_get STAGE_OF_STATE s = Some st'" using STAGE_OF_STATE_total by blast
  ultimately show ?thesis by (simp flip: STAGE_OF_STATE_get)
qed

lemma active_stage: "s \<in> set ACTIVE_WORK_ITEM_STATES \<longleftrightarrow> stage_of (O_text (work_item_state_value s)) \<in> {ST_devin, ST_pr}"
  unfolding insert_iff empty_iff stage_of_state
  by (cases s) (simp_all add: ACTIVE_WORK_ITEM_STATES_def)

lemma human_action_iff:
  "next_human_action (O_text (work_item_state_value s)) reason url \<noteq> None \<longleftrightarrow> s \<in> set HUMAN_ACTION_STATES"
  unfolding next_human_action_def obj_str_def obj.case work_item_state_of_value option.case Let_def
  by (cases s) (simp_all add: HUMAN_ACTION_STATES_def)

lemma sum_add_count: "distinct (map fst d) \<Longrightarrow> s \<in> fst ` set d \<Longrightarrow> sum_list (map snd (add_count s n d)) = sum_list (map snd d) + n"
proof (induction d)
  case (Cons km d)
  obtain k m where km: "km = (k, m)" by (cases km)
  show ?case
  proof (cases "k = s")
    case True
    then have "s \<notin> fst ` set d" using Cons.prems(1) km by auto
    then have "\<And>k' m'. (k', m') \<in> set d \<Longrightarrow> k' \<noteq> s" by force
    then have "add_count s n d = d" by (auto simp: add_count_def intro!: map_idI)
    with True km show ?thesis by (simp add: add_count_def)
  next
    case False
    with Cons km show ?thesis by (auto simp: add_count_def)
  qed
qed simp

lemma stage_counts_keys: "map fst (stage_counts by_state) = all_stages"
proof -
  have "map fst (add_count s n d) = map fst d" for s n d by (simp add: add_count_def case_prod_beta' comp_def)
  then have "map fst (foldl (\<lambda>counts (raw, n). add_count (stage_of (O_text raw)) n counts) d by_state) = map fst d" for d
    by (induction by_state arbitrary: d) auto
  then show ?thesis by (simp add: stage_counts_def comp_def)
qed

lemma stage_counts_total: "sum_list (map snd (stage_counts by_state)) = sum_list (map snd by_state)"
proof (induction by_state rule: rev_induct)
  case Nil
  then show ?case by (simp add: stage_counts_def all_stages_def)
next
  case (snoc rn by_state)
  obtain raw n where rn: "rn = (raw, n)" by (cases rn)
  have "stage_of (O_text raw) \<in> set all_stages" by (cases "stage_of (O_text raw)") (simp_all add: all_stages_def)
  then have "stage_of (O_text raw) \<in> fst ` set (stage_counts by_state)" using stage_counts_keys by (metis set_map)
  moreover have "distinct (map fst (stage_counts by_state))" unfolding stage_counts_keys by (simp add: all_stages_def)
  moreover have "stage_counts (by_state @ [rn]) = add_count (stage_of (O_text raw)) n (stage_counts by_state)"
    by (simp add: stage_counts_def rn)
  ultimately show ?case using snoc rn by (simp add: sum_add_count)
qed

end
