(* ===== verification/Vuln.thy ===== *)
theory Vuln
  imports Dynamic
begin

text \<open>
  \<^verbatim>\<open>dashboard/vuln.py\<close>: the details of a vulnerability, put together from the raw records of the two
  scanners. \<open>str_float\<close> is \<open>float\<close> of a text, None where it raises ValueError; floats are rationals. The
  character tests of Python are taken on ASCII.
\<close>

section \<open>The view\<close>

record CvssEntry =
  cv_scanner :: str
  cv_source :: str
  cv_version :: str
  cv_vector :: "str option"
  cv_base_score :: "rat option"
  cv_exploitability_score :: "rat option"
  cv_impact_score :: "rat option"

record EpssEntry =
  ep_score :: rat
  ep_percentile :: "rat option"
  ep_date :: "str option"

record Reference =
  rx_url :: str
  rx_scanners :: "str list"

record ScannerView =
  sv_scanner :: str
  sv_severity :: "str option"
  sv_fixed_versions :: "str list"
  sv_fix_state :: "str option"
  sv_data_source :: "str option"
  sv_data_source_url :: "str option"
  sv_namespace :: "str option"
  sv_fingerprint :: "str option"
  sv_matched_by :: "str option"
  sv_version_constraint :: "str option"
  sv_layer_id :: "str option"
  sv_locations :: "str list"
  sv_risk :: "rat option"
  sv_purl :: "str option"

record VulnDetail =
  vd_description :: "str option"
  vd_title :: "str option"
  vd_cwes :: "str list"
  vd_cvss :: "CvssEntry list"
  vd_epss :: "EpssEntry option"
  vd_published :: "str option"
  vd_modified :: "str option"
  vd_primary_url :: "str option"
  vd_references :: "Reference list"
  vd_scanners :: "ScannerView list"
  vd_message :: "str option"
  vd_resolution :: "str option"
  vd_cause :: "(str, json) dict"
  vd_synthetic :: bool

definition no_detail :: VulnDetail where
  "no_detail = \<lparr>vd_description = None, vd_title = None, vd_cwes = [], vd_cvss = [], vd_epss = None, vd_published = None,
     vd_modified = None, vd_primary_url = None, vd_references = [], vd_scanners = [], vd_message = None, vd_resolution = None,
     vd_cause = [], vd_synthetic = False\<rparr>"

definition version_key :: "str \<Rightarrow> nat list" where
  "version_key version =
     map (\<lambda>piece. let digits = filter is_digit piece in if digits = [] then 0 else read_nat digits) (split_on CHR ''.'' version)"

definition cvss_key :: "CvssEntry \<Rightarrow> nat list \<times> rat" where
  "cvss_key c = (version_key (cv_version c), case cv_base_score c of Some q \<Rightarrow> q | None \<Rightarrow> 0)"

definition best_cvss :: "VulnDetail \<Rightarrow> CvssEntry option" where
  "best_cvss d =
     (case filter (\<lambda>c. cv_base_score c \<noteq> None) (vd_cvss d) of
        [] \<Rightarrow> None
      | c # cs \<Rightarrow> Some (max_by cvss_key c cs))"

section \<open>Reading a record\<close>

definition text_value :: "json \<Rightarrow> str option" where
  "text_value v = (if v = JNull then None else let t = strip (py_str v) in if t = [] then None else Some t)"

definition url_value :: "json \<Rightarrow> str option" where
  "url_value v =
     (case text_value v of
        Some t \<Rightarrow> if starts_with t ''http://'' \<or> starts_with t ''https://'' then Some t else None
      | None \<Rightarrow> None)"

definition float_value :: "(str \<Rightarrow> rat option) \<Rightarrow> json \<Rightarrow> rat option" where
  "float_value str_float v =
     (case v of JInt i \<Rightarrow> Some (of_int i) | JFloat q \<Rightarrow> Some q | JStr s \<Rightarrow> str_float s | _ \<Rightarrow> None)"

definition as_fields :: "json \<Rightarrow> (str \<times> json) list" where
  "as_fields v = (case v of JObj fs \<Rightarrow> fs | _ \<Rightarrow> [])"

definition as_items :: "json \<Rightarrow> json list" where
  "as_items v = (case v of JArr xs \<Rightarrow> xs | _ \<Rightarrow> [])"

text \<open>\<open>fields.get(k)\<close>.\<close>

definition field_at :: "(str \<times> json) list \<Rightarrow> str \<Rightarrow> json" where
  "field_at fs k = (case map_of fs k of Some v \<Rightarrow> v | None \<Rightarrow> JNull)"

definition text_at :: "(str \<times> json) list \<Rightarrow> str \<Rightarrow> str option" where
  "text_at fs k = text_value (field_at fs k)"

text \<open>\<open>a or b\<close> of two optional texts.\<close>

definition or_text :: "str option \<Rightarrow> str option \<Rightarrow> str option" where
  "or_text a b = (if a = None \<or> a = Some [] then b else a)"

section \<open>Merging two views\<close>

definition longest :: "str option \<Rightarrow> str option \<Rightarrow> str option" where
  "longest a b =
     (case (a, b) of
        (None, _) \<Rightarrow> b
      | (_, None) \<Rightarrow> a
      | (Some x, Some y) \<Rightarrow> if length y \<le> length x then Some x else Some y)"

definition add_reference :: "(str, str list) dict \<Rightarrow> Reference \<Rightarrow> (str, str list) dict" where
  "add_reference refs r =
     dict_set (rx_url r) ((case dict_get refs (rx_url r) of Some s \<Rightarrow> s | None \<Rightarrow> []) @ rx_scanners r) refs"

definition merge_references :: "Reference list \<Rightarrow> Reference list" where
  "merge_references rs =
     map (\<lambda>(u, s). \<lparr>rx_url = u, rx_scanners = sorted_set s\<rparr>) (sort_key fst (foldl add_reference [] rs))"

definition merge_detail :: "VulnDetail \<Rightarrow> VulnDetail \<Rightarrow> VulnDetail" where
  "merge_detail base extra =
     \<lparr>vd_description = longest (vd_description base) (vd_description extra),
      vd_title = or_text (vd_title base) (vd_title extra),
      vd_cwes = fromkeys (vd_cwes base @ vd_cwes extra),
      vd_cvss = vd_cvss base @ vd_cvss extra,
      vd_epss = (if vd_epss base \<noteq> None then vd_epss base else vd_epss extra),
      vd_published = or_text (vd_published base) (vd_published extra),
      vd_modified = or_text (vd_modified base) (vd_modified extra),
      vd_primary_url = or_text (vd_primary_url base) (vd_primary_url extra),
      vd_references = merge_references (vd_references base @ vd_references extra),
      vd_scanners = vd_scanners base @ vd_scanners extra,
      vd_message = or_text (vd_message base) (vd_message extra),
      vd_resolution = or_text (vd_resolution base) (vd_resolution extra),
      vd_cause = foldl (\<lambda>d (k, v). dict_set k v d) (vd_cause base) (vd_cause extra),
      vd_synthetic = (vd_synthetic base \<or> vd_synthetic extra)\<rparr>"

section \<open>The records of the scanners\<close>

text \<open>A vector that names its version wins over the version of the field.\<close>

definition vector_version :: "str option \<Rightarrow> str \<Rightarrow> str" where
  "vector_version vector version =
     (case vector of
        Some v \<Rightarrow> if starts_with v ''CVSS:'' then drop 5 (takeWhile (\<lambda>c. c \<noteq> CHR ''/'') v) else version
      | None \<Rightarrow> version)"

definition trivy_cvss :: "(str \<Rightarrow> rat option) \<Rightarrow> str \<times> json \<Rightarrow> CvssEntry list" where
  "trivy_cvss str_float entry =
     (case entry of (source, block) \<Rightarrow>
      List.map_filter (\<lambda>(ver, vec_key, score_key).
        let b = as_fields block; vector = text_at b vec_key; score = float_value str_float (field_at b score_key) in
        if vector = None \<and> score = None then None
        else Some \<lparr>cv_scanner = ''trivy'', cv_source = source, cv_version = vector_version vector ver, cv_vector = vector,
               cv_base_score = score, cv_exploitability_score = None, cv_impact_score = None\<rparr>)
      [(''4.0'', ''V40Vector'', ''V40Score''), (''3.x'', ''V3Vector'', ''V3Score''), (''2.0'', ''V2Vector'', ''V2Score'')])"

definition references_of :: "str \<Rightarrow> json \<Rightarrow> Reference list" where
  "references_of scanner v = map (\<lambda>u. \<lparr>rx_url = py_str u, rx_scanners = [scanner]\<rparr>) (filter jtruthy (as_items v))"

definition CAUSE_KEYS :: "str list" where
  "CAUSE_KEYS = [''Provider'', ''Service'', ''Resource'', ''StartLine'', ''EndLine'']"

definition trivy_view :: "(str \<times> json) list \<Rightarrow> ScannerView" where
  "trivy_view r =
     (let data_source = as_fields (field_at r ''DataSource''); layer = as_fields (field_at r ''Layer'') in
      \<lparr>sv_scanner = ''trivy'', sv_severity = text_at r ''Severity'',
       sv_fixed_versions = (case text_at r ''FixedVersion'' of
           Some fixed \<Rightarrow> filter (\<lambda>v. v \<noteq> []) (map strip (split_on CHR '','' fixed))
         | None \<Rightarrow> []),
       sv_fix_state = text_at r ''Status'',
       sv_data_source = text_value (or_else (field_at data_source ''Name'') (field_at data_source ''ID'')),
       sv_data_source_url = url_value (field_at data_source ''URL''), sv_namespace = text_at r ''SeveritySource'',
       sv_fingerprint = text_at r ''Fingerprint'', sv_matched_by = None, sv_version_constraint = None,
       sv_layer_id = text_value (or_else (field_at layer ''DiffID'') (field_at layer ''Digest'')), sv_locations = [], sv_risk = None,
       sv_purl = text_at (as_fields (field_at r ''PkgIdentifier'')) ''PURL''\<rparr>)"

definition from_trivy :: "(str \<Rightarrow> rat option) \<Rightarrow> (str \<times> json) list \<Rightarrow> VulnDetail" where
  "from_trivy str_float r =
     (let cause = as_fields (field_at r ''CauseMetadata'') in
      no_detail\<lparr>vd_description := text_at r ''Description'', vd_title := text_at r ''Title'',
        vd_cwes := map py_str (filter jtruthy (as_items (field_at r ''CweIDs''))),
        vd_cvss := concat (map (trivy_cvss str_float) (sort_key fst (as_fields (field_at r ''CVSS'')))),
        vd_published := text_at r ''PublishedDate'', vd_modified := text_at r ''LastModifiedDate'',
        vd_primary_url := text_at r ''PrimaryURL'', vd_references := references_of ''trivy'' (field_at r ''References''),
        vd_scanners := [trivy_view r], vd_message := text_at r ''Message'', vd_resolution := text_at r ''Resolution'',
        vd_cause := List.map_filter (\<lambda>k. case map_of cause k of
            Some v \<Rightarrow> if v = JNull \<or> v = JStr [] \<or> jeq_zero v then None else Some (k, v)
          | None \<Rightarrow> None) CAUSE_KEYS\<rparr>)"

definition grype_cvss :: "(str \<Rightarrow> rat option) \<Rightarrow> json \<Rightarrow> CvssEntry" where
  "grype_cvss str_float entry =
     (let e = as_fields entry; metrics = as_fields (field_at e ''metrics''); vector = text_at e ''vector'' in
      \<lparr>cv_scanner = ''grype'', cv_source = or_str (or_text (text_at e ''source'') (text_at e ''type'')) ''grype'',
       cv_version = vector_version vector (or_str (text_at e ''version'') ''?''), cv_vector = vector,
       cv_base_score = float_value str_float (field_at metrics ''baseScore''),
       cv_exploitability_score = float_value str_float (field_at metrics ''exploitabilityScore''),
       cv_impact_score = float_value str_float (field_at metrics ''impactScore'')\<rparr>)"

definition take_epss :: "(str \<Rightarrow> rat option) \<Rightarrow> EpssEntry option \<Rightarrow> json \<Rightarrow> EpssEntry option" where
  "take_epss str_float epss entry =
     (let e = as_fields entry in
      case float_value str_float (field_at e ''epss'') of
        None \<Rightarrow> epss
      | Some score \<Rightarrow>
          let candidate = \<lparr>ep_score = score, ep_percentile = float_value str_float (field_at e ''percentile''), ep_date = text_at e ''date''\<rparr> in
          (case epss of
             None \<Rightarrow> Some candidate
           | Some old \<Rightarrow> if or_str (ep_date old) [] < or_str (ep_date candidate) [] then Some candidate else epss))"

definition match_text_of :: "(str \<times> json) list \<Rightarrow> str" where
  "match_text_of d =
     (if jtruthy (field_at d ''matcher'') then py_str (field_at d ''type'') @ ''/'' @ py_str (field_at d ''matcher'')
      else py_str (field_at d ''type''))"

definition found_constraint :: "(str \<times> json) list \<Rightarrow> json" where
  "found_constraint d = field_at (as_fields (field_at d ''found'')) ''versionConstraint''"

definition grype_view :: "(str \<Rightarrow> rat option) \<Rightarrow> (str \<times> json) list \<Rightarrow> ScannerView" where
  "grype_view str_float r =
     (let vuln = as_fields (field_at r ''vulnerability''); artifact = as_fields (field_at r ''artifact'');
          details = map as_fields (as_items (field_at r ''matchDetails'')); fix' = as_fields (field_at vuln ''fix'');
          locations = map as_fields (as_items (field_at artifact ''locations''));
          matched_by = join '', '' (fromkeys (map match_text_of (filter (\<lambda>d. jtruthy (field_at d ''type'')) details))) in
      \<lparr>sv_scanner = ''grype'', sv_severity = text_at vuln ''severity'',
       sv_fixed_versions = map py_str (filter jtruthy (as_items (field_at fix' ''versions''))), sv_fix_state = text_at fix' ''state'',
       sv_data_source = text_at vuln ''dataSource'', sv_data_source_url = url_value (field_at vuln ''dataSource''),
       sv_namespace = text_at vuln ''namespace'', sv_fingerprint = None,
       sv_matched_by = (if matched_by = [] then None else Some matched_by),
       sv_version_constraint = (case filter (\<lambda>d. jtruthy (found_constraint d)) details of
           d # _ \<Rightarrow> text_value (found_constraint d)
         | [] \<Rightarrow> None),
       sv_layer_id = (case List.map_filter (\<lambda>l. text_at l ''layerID'') locations of i # _ \<Rightarrow> Some i | [] \<Rightarrow> None),
       sv_locations = map (\<lambda>l. py_str (field_at l ''path'')) (filter (\<lambda>l. jtruthy (field_at l ''path'')) locations),
       sv_risk = float_value str_float (field_at vuln ''risk''), sv_purl = text_at artifact ''purl''\<rparr>)"

definition from_grype :: "(str \<Rightarrow> rat option) \<Rightarrow> (str \<times> json) list \<Rightarrow> VulnDetail" where
  "from_grype str_float r =
     (let vuln = as_fields (field_at r ''vulnerability'');
          cwes = map (\<lambda>c. field_at (as_fields c) ''cwe'') (as_items (field_at vuln ''cwes'')) in
      no_detail\<lparr>vd_description := text_at vuln ''description'', vd_cwes := fromkeys (map py_str (filter jtruthy cwes)),
        vd_cvss := map (grype_cvss str_float) (as_items (field_at vuln ''cvss'')),
        vd_epss := foldl (take_epss str_float) None (as_items (field_at vuln ''epss'')),
        vd_primary_url := text_at vuln ''dataSource'', vd_references := references_of ''grype'' (field_at vuln ''urls''),
        vd_scanners := [grype_view str_float r]\<rparr>)"

text \<open>A record that is missing, None or empty contributes nothing.\<close>

definition record_of :: "(str, (str \<times> json) list option) dict \<Rightarrow> str \<Rightarrow> (str \<times> json) list" where
  "record_of records scanner = (case dict_get records scanner of Some (Some fs) \<Rightarrow> fs | _ \<Rightarrow> [])"

definition vuln_detail :: "(str \<Rightarrow> rat option) \<Rightarrow> (str, (str \<times> json) list option) dict \<Rightarrow> VulnDetail" where
  "vuln_detail str_float records =
     (let trivy = record_of records ''trivy''; grype = record_of records ''grype'';
          d1 = (if trivy \<noteq> [] then merge_detail no_detail (from_trivy str_float trivy) else no_detail);
          d2 = (if grype \<noteq> [] then merge_detail d1 (from_grype str_float grype) else d1) in
      if field_at trivy ''synthetic'' = JBool True \<or> field_at grype ''synthetic'' = JBool True then d2\<lparr>vd_synthetic := True\<rparr> else d2)"

section \<open>What a merge keeps\<close>

lemma best_cvss_greatest:
  assumes "best_cvss d = Some c"
  shows "c \<in> set (vd_cvss d)" "cv_base_score c \<noteq> None"
    and "c' \<in> set (vd_cvss d) \<Longrightarrow> cv_base_score c' \<noteq> None \<Longrightarrow> cvss_key c' \<le> cvss_key c"
proof -
  obtain x xs where f: "filter (\<lambda>c. cv_base_score c \<noteq> None) (vd_cvss d) = x # xs" and c: "c = max_by cvss_key x xs"
    using assms by (auto simp: best_cvss_def split: list.splits)
  have "c \<in> set (x # xs)" using max_by_mem [of cvss_key x xs] c by simp
  then show "c \<in> set (vd_cvss d)" "cv_base_score c \<noteq> None" unfolding f [symmetric] by simp_all
  show "cvss_key c' \<le> cvss_key c" if "c' \<in> set (vd_cvss d)" "cv_base_score c' \<noteq> None"
  proof -
    have "c' \<in> set (x # xs)" using that unfolding f [symmetric] by simp
    then show ?thesis using max_by_ge [of c' x xs cvss_key] c by simp
  qed
qed

definition refers :: "Reference list \<Rightarrow> str \<Rightarrow> str \<Rightarrow> bool" where
  "refers rs u s \<longleftrightarrow> (\<exists>r\<in>set rs. rx_url r = u \<and> s \<in> set (rx_scanners r))"

lemma add_reference_distinct: "distinct (map fst (foldl add_reference [] rs))"
  by (induction rs rule: rev_induct) (simp_all add: add_reference_def dict_set_distinct)

lemma references_collected:
  "(\<exists>ss. dict_get (foldl add_reference [] rs) u = Some ss \<and> s \<in> set ss) \<longleftrightarrow> refers rs u s"
proof (induction rs rule: rev_induct)
  case (snoc r rs)
  then show ?case by (cases "rx_url r = u") (auto simp: add_reference_def refers_def dict_get_set split: option.splits)
qed (simp add: dict_get_def refers_def)

text \<open>Merging keeps every reference with the scanners that gave it, once per address and sorted.\<close>

lemma merged_references:
  "refers (merge_references rs) u s \<longleftrightarrow> refers rs u s" "sorted (map rx_url (merge_references rs))"
  "distinct (map rx_url (merge_references rs))"
proof -
  let ?d = "foldl add_reference [] rs"
  have urls: "map rx_url (merge_references rs) = map fst (sort_key fst ?d)"
    by (simp add: merge_references_def comp_def case_prod_beta')
  show "sorted (map rx_url (merge_references rs))" unfolding urls by simp
  show "distinct (map rx_url (merge_references rs))"
    unfolding urls using add_reference_distinct [of rs] by (simp add: distinct_map)
  have "refers (merge_references rs) u s \<longleftrightarrow> (\<exists>ss. (u, ss) \<in> set ?d \<and> s \<in> set ss)"
    by (force simp: refers_def merge_references_def)
  also have "\<dots> \<longleftrightarrow> (\<exists>ss. dict_get ?d u = Some ss \<and> s \<in> set ss)"
    using add_reference_distinct [of rs] by (simp add: dict_get_def)
  also have "\<dots> \<longleftrightarrow> refers rs u s" by (rule references_collected)
  finally show "refers (merge_references rs) u s \<longleftrightarrow> refers rs u s" .
qed

end
