(* ===== verification/Assets.thy ===== *)
theory Assets
  imports Files Schemas
begin

text \<open>
  \<^verbatim>\<open>devin/assets.py\<close> and the asset records of \<^verbatim>\<open>devin/protocol.py\<close>: reading the committed playbooks and
  notes, reconciling Devin with them, and what the live orchestrator may use. A committed tree is a
  dictionary from paths to text; Devin's asset API is a record of operations on a service state.
\<close>

section \<open>JSON text and equality\<close>

definition json_char :: "char \<Rightarrow> str" where
  "json_char c =
     (let n = (of_char c :: nat); bs = CHR 0x5C in
      if c = CHR 0x22 \<or> c = bs then [bs, c]
      else if n = 10 then [bs, CHR ''n''] else if n = 13 then [bs, CHR ''r''] else if n = 9 then [bs, CHR ''t'']
      else if n = 8 then [bs, CHR ''b''] else if n = 12 then [bs, CHR ''f'']
      else if n < 32 \<or> 127 < n then bs # ''u00'' @ [hex_digit (n div 16), hex_digit (n mod 16)]
      else [c])"

definition json_str :: "str \<Rightarrow> str" where
  "json_str s = CHR 0x22 # concat (map json_char s) @ [CHR 0x22]"

text \<open>\<open>json.dumps(j, sort_keys=srt, separators=(item, key))\<close>.\<close>

fun json_dumps :: "bool \<Rightarrow> str \<Rightarrow> str \<Rightarrow> json \<Rightarrow> str" where
  "json_dumps srt item key JNull = ''null''"
| "json_dumps srt item key (JBool b) = (if b then ''true'' else ''false'')"
| "json_dumps srt item key (JInt i) = show_int i"
| "json_dumps srt item key (JFloat q) = show_rat q"
| "json_dumps srt item key (JStr s) = json_str s"
| "json_dumps srt item key (JArr xs) = ''['' @ join item (map (json_dumps srt item key) xs) @ '']''"
| "json_dumps srt item key (JObj fs) =
     (let texts = map (\<lambda>(k, v). (k, json_dumps srt item key v)) fs in
      ''{'' @ join item (map (\<lambda>(k, t). json_str k @ key @ t) (if srt then sort_key fst texts else texts)) @ ''}'')"

text \<open>\<open>a == b\<close> on decoded JSON: numbers by value, objects as dictionaries.\<close>

fun json_number :: "json \<Rightarrow> rat option" where
  "json_number (JBool b) = Some (if b then 1 else 0)"
| "json_number (JInt i) = Some (of_int i)"
| "json_number (JFloat q) = Some q"
| "json_number _ = None"

fun py_eq :: "json \<Rightarrow> json \<Rightarrow> bool"
  and py_eq_list :: "json list \<Rightarrow> json list \<Rightarrow> bool"
  and py_eq_fields :: "(str \<times> json) list \<Rightarrow> (str \<times> json) list \<Rightarrow> bool" where
  "py_eq JNull b = (b = JNull)"
| "py_eq (JBool x) b = (json_number b = json_number (JBool x))"
| "py_eq (JInt x) b = (json_number b = json_number (JInt x))"
| "py_eq (JFloat x) b = (json_number b = json_number (JFloat x))"
| "py_eq (JStr s) b = (b = JStr s)"
| "py_eq (JArr xs) b = (case b of JArr ys \<Rightarrow> py_eq_list xs ys | _ \<Rightarrow> False)"
| "py_eq (JObj fs) b = (case b of JObj gs \<Rightarrow> length fs = length gs \<and> py_eq_fields fs gs | _ \<Rightarrow> False)"
| "py_eq_list [] ys = (ys = [])"
| "py_eq_list (x # xs) ys = (case ys of [] \<Rightarrow> False | y # ys' \<Rightarrow> py_eq x y \<and> py_eq_list xs ys')"
| "py_eq_fields [] gs = True"
| "py_eq_fields ((k, v) # fs) gs =
     (case map_of gs k of None \<Rightarrow> False | Some v' \<Rightarrow> py_eq v v' \<and> py_eq_fields fs gs)"

section \<open>What Devin stores\<close>

record PlaybookUpsert =
  pu_title :: str
  pu_body :: str
  pu_macro :: "str option"
  pu_schema :: "(str \<times> json) list option"

record PlaybookRecord =
  pb_playbook_id :: str
  pb_title :: str
  pb_body :: str
  pb_macro :: "str option"
  pb_schema :: "(str \<times> json) list option"

record NoteUpsert =
  nu_name :: str
  nu_body :: str
  nu_trigger :: str
  nu_pinned_repo :: "str option"
  nu_is_enabled :: bool

record NoteRecord =
  nt_note_id :: str
  nt_name :: str
  nt_body :: str
  nt_trigger :: str
  nt_pinned_repo :: "str option"
  nt_is_enabled :: bool

text \<open>\<open>x or None\<close> for a sequence.\<close>

definition or_none :: "'a list option \<Rightarrow> 'a list option" where
  "or_none v = (if v = Some [] then None else v)"

definition same_dict :: "(str \<times> json) list option \<Rightarrow> (str \<times> json) list option \<Rightarrow> bool" where
  "same_dict a b =
     (case (a, b) of (None, None) \<Rightarrow> True | (Some x, Some y) \<Rightarrow> py_eq (JObj x) (JObj y) | _ \<Rightarrow> False)"

definition playbook_matches :: "PlaybookRecord \<Rightarrow> PlaybookUpsert \<Rightarrow> bool" where
  "playbook_matches r want \<longleftrightarrow>
     pb_title r = pu_title want \<and> pb_body r = pu_body want \<and> or_none (pb_macro r) = or_none (pu_macro want) \<and>
     same_dict (or_none (pb_schema r)) (or_none (pu_schema want))"

definition note_matches :: "NoteRecord \<Rightarrow> NoteUpsert \<Rightarrow> bool" where
  "note_matches r want \<longleftrightarrow>
     nt_name r = nu_name want \<and> nt_body r = nu_body want \<and> nt_trigger r = nu_trigger want \<and>
     or_none (nt_pinned_repo r) = or_none (nu_pinned_repo want) \<and> nt_is_enabled r = nu_is_enabled want"

text \<open>\<open>PlaybookRecord(playbook_id=i, **u.model_dump())\<close> and its counterpart for notes.\<close>

definition playbook_record :: "str \<Rightarrow> PlaybookUpsert \<Rightarrow> PlaybookRecord" where
  "playbook_record i u =
     \<lparr>pb_playbook_id = i, pb_title = pu_title u, pb_body = pu_body u, pb_macro = pu_macro u, pb_schema = pu_schema u\<rparr>"

definition note_record :: "str \<Rightarrow> NoteUpsert \<Rightarrow> NoteRecord" where
  "note_record i u =
     \<lparr>nt_note_id = i, nt_name = nu_name u, nt_body = nu_body u, nt_trigger = nu_trigger u,
      nt_pinned_repo = nu_pinned_repo u, nt_is_enabled = nu_is_enabled u\<rparr>"

section \<open>The committed bundle\<close>

definition PLAYBOOKS_DIR :: str where "PLAYBOOKS_DIR = ''playbooks''"
definition KNOWLEDGE_DIR :: str where "KNOWLEDGE_DIR = ''knowledge''"
definition SCHEMA_MAX_BYTES :: nat where "SCHEMA_MAX_BYTES = 64 * 1024"

definition asset_error :: "str \<Rightarrow> exn" where
  "asset_error msg = Exn ''AssetError'' msg"

record PlaybookSpec =
  ps_slug :: str
  ps_kind :: Kind
  ps_upsert :: PlaybookUpsert
  ps_path :: str

record KnowledgeSpec =
  ks_slug :: str
  ks_upsert :: NoteUpsert
  ks_path :: str

record AssetBundle =
  bu_playbooks :: "(Kind, PlaybookSpec) dict"
  bu_knowledge :: "KnowledgeSpec list"

definition playbook_by_slug :: "AssetBundle \<Rightarrow> (str, PlaybookSpec) dict" where
  "playbook_by_slug b = foldl (\<lambda>d p. dict_set (ps_slug p) p d) [] (map snd (bu_playbooks b))"

definition digest_payload :: "(str \<Rightarrow> str) \<Rightarrow> json \<Rightarrow> str" where
  "digest_payload sha256 payload = sha256 (json_dumps True '','' '':'' payload)"

definition json_of_opt :: "('a \<Rightarrow> json) \<Rightarrow> 'a option \<Rightarrow> json" where
  "json_of_opt f v = (case v of None \<Rightarrow> JNull | Some x \<Rightarrow> f x)"

definition playbook_content_sha256 :: "(str \<Rightarrow> str) \<Rightarrow> PlaybookSpec \<Rightarrow> str" where
  "playbook_content_sha256 sha256 spec =
     (let u = ps_upsert spec in
      digest_payload sha256 (JObj [(''title'', JStr (pu_title u)), (''body'', JStr (pu_body u)),
        (''macro'', json_of_opt JStr (pu_macro u)), (''structured_output_schema'', json_of_opt JObj (pu_schema u))]))"

definition note_content_sha256 :: "(str \<Rightarrow> str) \<Rightarrow> KnowledgeSpec \<Rightarrow> str" where
  "note_content_sha256 sha256 spec =
     (let u = ks_upsert spec in
      digest_payload sha256 (JObj [(''name'', JStr (nu_name u)), (''body'', JStr (nu_body u)), (''trigger'', JStr (nu_trigger u)),
        (''pinned_repo'', json_of_opt JStr (nu_pinned_repo u)), (''is_enabled'', JBool (nu_is_enabled u))]))"

text \<open>Both regular expressions: the front matter ends at the first line of three dashes after it.\<close>

definition front_matter_parts :: "str \<Rightarrow> (str \<times> str) option" where
  "front_matter_parts s =
     (let nl = [CHR 0x0A] in
      if starts_with s (''---'' @ nl) then partition_str (nl @ ''---'' @ nl) (drop 4 s) else None)"

definition macro_char :: "char \<Rightarrow> bool" where
  "macro_char c \<longleftrightarrow> (let n = (of_char c :: nat) in
     (65 \<le> n \<and> n \<le> 90) \<or> (97 \<le> n \<and> n \<le> 122) \<or> (48 \<le> n \<and> n \<le> 57) \<or> c = CHR ''_'' \<or> c = CHR ''-'')"

definition is_macro :: "str \<Rightarrow> bool" where
  "is_macro s \<longleftrightarrow> starts_with s ''!'' \<and> tl s \<noteq> [] \<and> list_all macro_char (tl s)"

definition strip_newlines :: "str \<Rightarrow> str" where
  "strip_newlines s = rev (dropWhile (\<lambda>c. c = CHR 0x0A) (rev (dropWhile (\<lambda>c. c = CHR 0x0A) s)))"

fun meta_lines :: "str \<Rightarrow> (str, str) dict \<Rightarrow> str list \<Rightarrow> exn + (str, str) dict" where
  "meta_lines path meta [] = Inr meta"
| "meta_lines path meta (line # rest) =
     (if strip line = [] then meta_lines path meta rest
      else (case partition_str '':'' line of
              None \<Rightarrow> Inl (asset_error (path @ '': bad front matter line '' @ repr_str line))
            | Some (k, v) \<Rightarrow> meta_lines path (dict_set (strip k) (strip v) meta) rest))"

definition front_matter :: "str \<Rightarrow> str \<Rightarrow> exn + (str, str) dict \<times> str" where
  "front_matter path content =
     (case front_matter_parts (universal_newlines content) of
        None \<Rightarrow> Inl (asset_error (path @ '': missing front matter block''))
      | Some (head, rest) \<Rightarrow>
          ebind (meta_lines path [] (splitlines head)) (\<lambda>meta.
            let body = strip_newlines rest in
            if strip body = [] then Inl (asset_error (path @ '': empty body'')) else Inr (meta, body @ [CHR 0x0A])))"

definition require_keys :: "str \<Rightarrow> (str, str) dict \<Rightarrow> str list \<Rightarrow> exn + unit" where
  "require_keys path meta wanted =
     (case find (\<lambda>k. dict_get meta k = None) wanted of
        None \<Rightarrow> Inr ()
      | Some k \<Rightarrow> Inl (asset_error (path @ '': front matter needs '' @ [CHR 0x60] @ k @ [CHR 0x60])))"

definition meta_value :: "(str, str) dict \<Rightarrow> str \<Rightarrow> str" where
  "meta_value meta k = (case dict_get meta k of Some v \<Rightarrow> v | None \<Rightarrow> [])"

definition path_stem :: "str \<Rightarrow> str" where
  "path_stem p = (let name = path_name p in take (length name - length (path_suffix p)) name)"

text \<open>\<open>sorted(dir.glob("*.md"))\<close>: the files directly in the directory, by name.\<close>

definition md_files :: "(str, str) dict \<Rightarrow> str \<Rightarrow> (str \<times> str) list" where
  "md_files t dir =
     sort_key fst (filter (\<lambda>(p, _). path_parent p = dir \<and> ends_with (path_name p) ''.md'') t)"

definition all_kind_list :: "Kind list" where
  "all_kind_list = [K_dependency_upgrade, K_no_fix_reachability, K_container_hardening, K_scanner_disagreement, K_helm_deploy_config]"

definition schema_fields :: "Kind \<Rightarrow> (str \<times> json) list" where
  "schema_fields kind = (case schema_for kind of JObj fs \<Rightarrow> fs | _ \<Rightarrow> [])"

definition schema_too_big :: "Kind \<Rightarrow> bool" where
  "schema_too_big kind \<longleftrightarrow> SCHEMA_MAX_BYTES < length (json_dumps False '', '' '': '' (schema_for kind))"

definition load_playbook :: "(Kind, PlaybookSpec) dict \<Rightarrow> str \<times> str \<Rightarrow> exn + (Kind, PlaybookSpec) dict" where
  "load_playbook playbooks file =
     (case file of (path, content) \<Rightarrow>
      ebind (front_matter path content) (\<lambda>(meta, body).
      ebind (require_keys path meta [''kind'', ''title'', ''macro'']) (\<lambda>_.
      let macro = meta_value meta ''macro'' in
      case find (\<lambda>k. kind_slug k = meta_value meta ''kind'') all_kind_list of
        None \<Rightarrow> Inl (asset_error (path @ '': unknown kind '' @ repr_str (meta_value meta ''kind'')))
      | Some kind \<Rightarrow>
          (case dict_get playbooks kind of
             Some other \<Rightarrow> Inl (asset_error (path @ '': kind '' @ kind_slug kind @ '' already defined by '' @ ps_path other))
           | None \<Rightarrow>
               if path_stem path \<noteq> PLAYBOOK_SLUGS kind
               then Inl (asset_error (path @ '': file must be named '' @ PLAYBOOK_SLUGS kind @ ''.md''))
               else if \<not> is_macro macro
               then Inl (asset_error (path @ '': macro must match ^![A-Za-z0-9_-]+$, got '' @ repr_str macro))
               else if schema_too_big kind
               then Inl (asset_error (path @ '': structured output schema exceeds '' @ show_nat SCHEMA_MAX_BYTES @ '' bytes''))
               else Inr (dict_set kind
                 \<lparr>ps_slug = PLAYBOOK_SLUGS kind, ps_kind = kind,
                  ps_upsert = \<lparr>pu_title = meta_value meta ''title'', pu_body = body, pu_macro = Some macro,
                    pu_schema = Some (schema_fields kind)\<rparr>,
                  ps_path = path\<rparr> playbooks)))))"

definition load_note :: "str \<times> str \<Rightarrow> exn + KnowledgeSpec" where
  "load_note file =
     (case file of (path, content) \<Rightarrow>
      ebind (front_matter path content) (\<lambda>(meta, body).
      ebind (require_keys path meta [''name'', ''trigger'']) (\<lambda>_.
      Inr \<lparr>ks_slug = path_stem path,
           ks_upsert = \<lparr>nu_name = meta_value meta ''name'', nu_body = body, nu_trigger = meta_value meta ''trigger'',
             nu_pinned_repo = or_none (dict_get meta ''pinned_repo''), nu_is_enabled = True\<rparr>,
           ks_path = path\<rparr>)))"

fun fold_sum :: "('a \<Rightarrow> 'b \<Rightarrow> exn + 'a) \<Rightarrow> 'a \<Rightarrow> 'b list \<Rightarrow> exn + 'a" where
  "fold_sum f a [] = Inr a"
| "fold_sum f a (x # xs) = ebind (f a x) (\<lambda>a'. fold_sum f a' xs)"

definition load_assets :: "(str, str) dict \<Rightarrow> str \<Rightarrow> exn + AssetBundle" where
  "load_assets t base =
     (let pb_dir = path_join base PLAYBOOKS_DIR; kn_dir = path_join base KNOWLEDGE_DIR in
      ebind (fold_sum load_playbook [] (md_files t pb_dir)) (\<lambda>playbooks.
      let missing = filter (\<lambda>k. dict_get playbooks k = None) all_kind_list;
          macros = map (\<lambda>p. or_str (pu_macro (ps_upsert (snd p))) []) playbooks in
      if missing \<noteq> [] then Inl (asset_error (pb_dir @ '': no playbook for kinds '' @ repr_str_list (map kind_slug missing)))
      else if \<not> distinct macros then Inl (asset_error (pb_dir @ '': duplicate macros '' @ repr_str_list (sort macros)))
      else ebind (fold_sum (\<lambda>specs f. ebind (load_note f) (\<lambda>s. Inr (specs @ [s]))) [] (md_files t kn_dir)) (\<lambda>knowledge.
        let names = map (\<lambda>s. nu_name (ks_upsert s)) knowledge in
        if knowledge = [] then Inl (asset_error (kn_dir @ '': at least one knowledge note is required''))
        else if \<not> distinct names then Inl (asset_error (kn_dir @ '': duplicate note names '' @ repr_str_list (sort names)))
        else Inr \<lparr>bu_playbooks = playbooks, bu_knowledge = knowledge\<rparr>)))"

end
