(* ===== verification/Ops.thy ===== *)
theory Ops
  imports Vex
begin

text \<open>
  Operations on a state that can raise, as the service clients and doubles are written: an operation
  maps the state to its result (an exception or a value) and the state after it.
\<close>

type_synonym ('s, 'a) op = "'s \<Rightarrow> (exn + 'a) \<times> 's"

definition op_ret :: "'a \<Rightarrow> ('s, 'a) op" where
  "op_ret a = (\<lambda>s. (Inr a, s))"

definition op_bind :: "('s, 'a) op \<Rightarrow> ('a \<Rightarrow> ('s, 'b) op) \<Rightarrow> ('s, 'b) op" where
  "op_bind m f = (\<lambda>s. case m s of (Inl e, s') \<Rightarrow> (Inl e, s') | (Inr a, s') \<Rightarrow> f a s')"

definition op_lift :: "exn + 'a \<Rightarrow> ('s, 'a) op" where
  "op_lift r = (\<lambda>s. (r, s))"

definition op_raise :: "exn \<Rightarrow> ('s, 'a) op" where
  "op_raise e = (\<lambda>s. (Inl e, s))"

definition op_get :: "('s \<Rightarrow> ('s, 'a) op) \<Rightarrow> ('s, 'a) op" where
  "op_get f = (\<lambda>s. f s s)"

definition op_put :: "('s \<Rightarrow> 's) \<Rightarrow> ('s, unit) op" where
  "op_put f = (\<lambda>s. (Inr (), f s))"

fun op_map :: "('a \<Rightarrow> ('s, 'b) op) \<Rightarrow> 'a list \<Rightarrow> ('s, 'b list) op" where
  "op_map f [] = op_ret []"
| "op_map f (x # xs) = op_bind (f x) (\<lambda>y. op_bind (op_map f xs) (\<lambda>ys. op_ret (y # ys)))"

lemmas op_defs = op_bind_def op_ret_def op_get_def op_put_def op_raise_def op_lift_def

lemma op_bind_Inr: "m s = (Inr a, s') \<Longrightarrow> op_bind m f s = f a s'"
  by (simp add: op_bind_def)

section \<open>What every operation keeps\<close>

text \<open>A relation between the states before and after, whatever the result.\<close>

definition op_keeps :: "('s \<Rightarrow> 's \<Rightarrow> bool) \<Rightarrow> ('s, 'a) op \<Rightarrow> bool" where
  "op_keeps R m \<longleftrightarrow> (\<forall>s. R s (snd (m s)))"

named_theorems op_intros \<open>operations that keep a relation\<close>

lemma op_keepsD: "op_keeps R m \<Longrightarrow> m s = (r, s') \<Longrightarrow> R s s'"
  unfolding op_keeps_def by (metis snd_conv)

locale op_relation =
  fixes R :: "'s \<Rightarrow> 's \<Rightarrow> bool"
  assumes refl: "R s s" and trans: "R s t \<Longrightarrow> R t u \<Longrightarrow> R s u"
begin

lemma op_ret_keeps [op_intros]: "op_keeps R (op_ret a)" and op_lift_keeps [op_intros]: "op_keeps R (op_lift x)"
  and op_raise_keeps [op_intros]: "op_keeps R (op_raise e)"
  by (simp_all add: op_keeps_def op_defs refl)

lemma op_bind_keeps [op_intros]: "op_keeps R m \<Longrightarrow> (\<And>a. op_keeps R (f a)) \<Longrightarrow> op_keeps R (op_bind m f)"
  unfolding op_keeps_def op_bind_def by (auto split: prod.splits sum.splits) (metis snd_conv trans)+

lemma op_get_keeps [op_intros]: "(\<And>s. op_keeps R (f s)) \<Longrightarrow> op_keeps R (op_get f)"
  by (simp add: op_keeps_def op_get_def)

lemma op_map_keeps [op_intros]: "(\<And>x. op_keeps R (f x)) \<Longrightarrow> op_keeps R (op_map f xs)"
  by (induction xs) (auto intro!: op_ret_keeps op_bind_keeps)

lemma op_if_keeps [op_intros]: "op_keeps R m \<Longrightarrow> op_keeps R n \<Longrightarrow> op_keeps R (if b then m else n)"
  by simp

lemma op_option_keeps [op_intros]:
  "op_keeps R m \<Longrightarrow> (\<And>a. op_keeps R (f a)) \<Longrightarrow> op_keeps R (case v of None \<Rightarrow> m | Some a \<Rightarrow> f a)"
  by (cases v) simp_all

end

end
