(* ===== verification/Sync.thy ===== *)
theory Sync
  imports Assets Store Ops
begin

text \<open>
  The syncer of \<^verbatim>\<open>devin/assets.py\<close>: reconciling Devin's playbooks and notes with the committed
  bundle, recording the ids, and the check the live orchestrator makes before it starts. An operation
  maps the state of the organisation to its result and the state after it: the service, the committed
  rows of \<^verbatim>\<open>devin_assets\<close> and the number of clock readings.
\<close>

section \<open>Operations on the organisation\<close>

record DevinAsset =
  da_id :: nat
  da_asset_kind :: str
  da_slug :: str
  da_remote_id :: str
  da_title :: str
  da_content_sha256 :: str
  da_last_action :: str
  da_synced_at :: int

record 's Org =
  og_remote :: 's
  og_rows :: "DevinAsset list"
  og_reads :: nat

definition on_remote :: "('s, 'a) op \<Rightarrow> ('s Org, 'a) op" where
  "on_remote m = (\<lambda>o'. case m (og_remote o') of (r, s') \<Rightarrow> (r, o'\<lparr>og_remote := s'\<rparr>))"

text \<open>The operations of Devin's API the syncer calls, for one kind of asset.\<close>

record ('s, 'u, 'r) AssetApi =
  api_list :: "('s, 'r list) op"
  api_create :: "'u \<Rightarrow> ('s, 'r) op"
  api_update :: "str \<Rightarrow> 'u \<Rightarrow> ('s, 'r) op"

section \<open>The report\<close>

datatype AssetChange = AC_created | AC_updated | AC_unchanged | AC_adopted | AC_would_create | AC_would_update

fun asset_change_value :: "AssetChange \<Rightarrow> str" where
  "asset_change_value AC_created = ''created''"
| "asset_change_value AC_updated = ''updated''"
| "asset_change_value AC_unchanged = ''unchanged''"
| "asset_change_value AC_adopted = ''adopted''"
| "asset_change_value AC_would_create = ''would_create''"
| "asset_change_value AC_would_update = ''would_update''"

record AssetAction =
  aa_asset_kind :: str
  aa_slug :: str
  aa_action :: AssetChange
  aa_remote_id :: "str option"

record SyncReport =
  sy_actions :: "AssetAction list"
  sy_dry_run :: bool

definition sync_writes :: "SyncReport \<Rightarrow> nat" where
  "sync_writes r = length (filter (\<lambda>a. aa_action a \<in> {AC_created, AC_updated}) (sy_actions r))"

definition sync_noop :: "SyncReport \<Rightarrow> bool" where
  "sync_noop r \<longleftrightarrow> list_all (\<lambda>a. aa_action a \<in> {AC_unchanged, AC_adopted}) (sy_actions r)"

definition known_ids :: "str \<Rightarrow> SyncReport \<Rightarrow> (str \<times> str) list" where
  "known_ids asset_kind r =
     concat (map (\<lambda>a. if aa_asset_kind a = asset_kind then (case aa_remote_id a of Some i \<Rightarrow> [(aa_slug a, i)] | None \<Rightarrow> []) else [])
       (sy_actions r))"

definition report_playbook_ids :: "SyncReport \<Rightarrow> (str, str) dict" where
  "report_playbook_ids r = foldl (\<lambda>d (slug, i). dict_set slug i d) [] (known_ids ''playbook'' r)"

definition report_knowledge_ids :: "SyncReport \<Rightarrow> str list" where
  "report_knowledge_ids r = map snd (known_ids ''knowledge'' r)"

section \<open>Reconciling one asset\<close>

text \<open>
  What a playbook and a note have in common: the committed asset with its slug, the name it is looked
  up by, its body and its digest; and of the record at Devin its id, its name and the comparison.
\<close>

record 'u Committed =
  cm_slug :: str
  cm_name :: str
  cm_upsert :: 'u
  cm_sha :: str

record ('s, 'u, 'r) AssetClass =
  ac_kind :: str
  ac_noun :: str
  ac_rid :: "'r \<Rightarrow> str"
  ac_name :: "'r \<Rightarrow> str"
  ac_matches :: "'r \<Rightarrow> 'u \<Rightarrow> bool"
  ac_api :: "('s, 'u, 'r) AssetApi"

definition locate_asset :: "('s, 'u, 'r) AssetClass \<Rightarrow> DevinAsset option \<Rightarrow> 'u Committed \<Rightarrow> (str, 'r) dict \<Rightarrow> exn + 'r option" where
  "locate_asset C row spec there =
     (case (case row of Some r \<Rightarrow> dict_get there (da_remote_id r) | None \<Rightarrow> None) of
        Some p \<Rightarrow> Inr (Some p)
      | None \<Rightarrow>
          (case filter (\<lambda>p. ac_name C p = cm_name spec) (map snd there) of
             [] \<Rightarrow> Inr None
           | [p] \<Rightarrow> Inr (Some p)
           | ps \<Rightarrow> Inl (asset_error (show_nat (length ps) @ '' '' @ ac_noun C @ '' '' @ repr_str (cm_name spec) @
               '' exist at Devin; delete the extras by hand before syncing''))))"

definition reconcile_asset ::
    "('s, 'u, 'r) AssetClass \<Rightarrow> 'u Committed \<Rightarrow> 'r option \<Rightarrow> bool \<Rightarrow> ('s Org, AssetAction) op" where
  "reconcile_asset C spec current dry_run =
     (let action = (\<lambda>change i. \<lparr>aa_asset_kind = ac_kind C, aa_slug = cm_slug spec, aa_action = change, aa_remote_id = i\<rparr>) in
      case current of
        None \<Rightarrow>
          if dry_run then op_ret (action AC_would_create None)
          else op_bind (on_remote (api_create (ac_api C) (cm_upsert spec))) (\<lambda>r. op_ret (action AC_created (Some (ac_rid C r))))
      | Some p \<Rightarrow>
          if ac_matches C p (cm_upsert spec) then op_ret (action AC_unchanged (Some (ac_rid C p)))
          else if dry_run then op_ret (action AC_would_update (Some (ac_rid C p)))
          else op_bind (on_remote (api_update (ac_api C) (ac_rid C p) (cm_upsert spec)))
            (\<lambda>r. op_ret (action AC_updated (Some (ac_rid C r)))))"

text \<open>
  \<open>_persist\<close> adds or updates the row and commits at once. A row is an object of the session: its
  fields are read when they are used. The constraint on kind and slug is checked by the commit.
\<close>

definition asset_key :: "DevinAsset \<Rightarrow> str \<times> str" where
  "asset_key r = (da_asset_kind r, da_slug r)"

definition persist_asset ::
    "(nat \<Rightarrow> int) \<Rightarrow> DevinAsset option \<Rightarrow> str \<Rightarrow> str \<Rightarrow> str \<Rightarrow> AssetChange \<Rightarrow> str \<Rightarrow> str \<Rightarrow> ('s Org, unit) op" where
  "persist_asset clock row asset_kind slug title change remote_id sha = (\<lambda>o'.
     let t = clock (og_reads o') in
     case row of
       None \<Rightarrow>
         if list_ex (\<lambda>r. asset_key r = (asset_kind, slug)) (og_rows o')
         then (Inl (Exn ''IntegrityError'' ''UNIQUE constraint failed: devin_assets.asset_kind, devin_assets.slug''),
               o'\<lparr>og_reads := Suc (og_reads o')\<rparr>)
         else (Inr (), o'\<lparr>og_reads := Suc (og_reads o'), og_rows := og_rows o' @
           [\<lparr>da_id = next_id da_id (og_rows o'), da_asset_kind = asset_kind, da_slug = slug, da_remote_id = remote_id,
             da_title = title, da_content_sha256 = sha,
             da_last_action = asset_change_value (if change = AC_unchanged then AC_adopted else change), da_synced_at = t\<rparr>]\<rparr>)
     | Some r \<Rightarrow>
         let last = (if da_remote_id r \<noteq> remote_id \<and> change = AC_unchanged then AC_adopted else change) in
         (Inr (), o'\<lparr>og_reads := Suc (og_reads o'), og_rows := update_row da_id (da_id r)
           (\<lambda>x. x\<lparr>da_remote_id := remote_id, da_title := title, da_content_sha256 := sha,
              da_last_action := asset_change_value last, da_synced_at := t\<rparr>) (og_rows o')\<rparr>))"

text \<open>\<open>rows\<close> gives the row object, by its id, of each kind and slug.\<close>

definition row_ids :: "DevinAsset list \<Rightarrow> (str \<times> str, nat) dict" where
  "row_ids rows = foldl (\<lambda>d r. dict_set (asset_key r) (da_id r) d) [] (sort_key da_id rows)"

definition row_object :: "(str \<times> str, nat) dict \<Rightarrow> str \<times> str \<Rightarrow> DevinAsset list \<Rightarrow> DevinAsset option" where
  "row_object rows k table = (case dict_get rows k of None \<Rightarrow> None | Some i \<Rightarrow> get_row da_id i table)"

definition sync_asset ::
    "('s, 'u, 'r) AssetClass \<Rightarrow> (nat \<Rightarrow> int) \<Rightarrow> bool \<Rightarrow> (str \<times> str, nat) dict \<Rightarrow> (str, 'r) dict \<Rightarrow> 'u Committed
     \<Rightarrow> ('s Org, AssetAction) op" where
  "sync_asset C clock dry_run rows there spec = (\<lambda>o'.
     let row = row_object rows (ac_kind C, cm_slug spec) (og_rows o') in
     op_bind (op_lift (locate_asset C row spec there)) (\<lambda>current.
     op_bind (reconcile_asset C spec current dry_run) (\<lambda>action.
     case aa_remote_id action of
       Some i \<Rightarrow>
         if dry_run then op_ret action
         else op_bind (persist_asset clock row (ac_kind C) (cm_slug spec) (cm_name spec) (aa_action action) i (cm_sha spec))
           (\<lambda>_. op_ret action)
     | None \<Rightarrow> op_ret action)) o')"

definition remote_dict :: "('r \<Rightarrow> str) \<Rightarrow> 'r list \<Rightarrow> (str, 'r) dict" where
  "remote_dict rid rs = foldl (\<lambda>d r. dict_set (rid r) r d) [] rs"

section \<open>The syncer\<close>

record 's DevinAssets =
  dv_playbooks :: "('s, PlaybookUpsert, PlaybookRecord) AssetApi"
  dv_notes :: "('s, NoteUpsert, NoteRecord) AssetApi"

definition playbook_class :: "'s DevinAssets \<Rightarrow> ('s, PlaybookUpsert, PlaybookRecord) AssetClass" where
  "playbook_class D = \<lparr>ac_kind = ''playbook'', ac_noun = ''playbooks titled'', ac_rid = pb_playbook_id, ac_name = pb_title,
     ac_matches = playbook_matches, ac_api = dv_playbooks D\<rparr>"

definition note_class :: "'s DevinAssets \<Rightarrow> ('s, NoteUpsert, NoteRecord) AssetClass" where
  "note_class D = \<lparr>ac_kind = ''knowledge'', ac_noun = ''notes named'', ac_rid = nt_note_id, ac_name = nt_name,
     ac_matches = note_matches, ac_api = dv_notes D\<rparr>"

definition committed_playbooks :: "(str \<Rightarrow> str) \<Rightarrow> AssetBundle \<Rightarrow> PlaybookUpsert Committed list" where
  "committed_playbooks sha256 b = map (\<lambda>(_, p).
     \<lparr>cm_slug = ps_slug p, cm_name = pu_title (ps_upsert p), cm_upsert = ps_upsert p, cm_sha = playbook_content_sha256 sha256 p\<rparr>)
     (bu_playbooks b)"

definition committed_notes :: "(str \<Rightarrow> str) \<Rightarrow> AssetBundle \<Rightarrow> NoteUpsert Committed list" where
  "committed_notes sha256 b = map (\<lambda>k.
     \<lparr>cm_slug = ks_slug k, cm_name = nu_name (ks_upsert k), cm_upsert = ks_upsert k, cm_sha = note_content_sha256 sha256 k\<rparr>)
     (bu_knowledge b)"

text \<open>The API calls come first; what was committed asset by asset stays when a later call raises.\<close>

definition sync :: "'s DevinAssets \<Rightarrow> (str \<Rightarrow> str) \<Rightarrow> (nat \<Rightarrow> int) \<Rightarrow> AssetBundle \<Rightarrow> bool \<Rightarrow> ('s Org, SyncReport) op" where
  "sync D sha256 clock bundle dry_run =
     op_bind (on_remote (api_list (dv_playbooks D))) (\<lambda>pbs.
     op_bind (on_remote (api_list (dv_notes D))) (\<lambda>notes. \<lambda>o'.
     let rows = row_ids (og_rows o') in
     op_bind (op_map (sync_asset (playbook_class D) clock dry_run rows (remote_dict pb_playbook_id pbs)) (committed_playbooks sha256 bundle)) (\<lambda>pa.
     op_bind (op_map (sync_asset (note_class D) clock dry_run rows (remote_dict nt_note_id notes)) (committed_notes sha256 bundle)) (\<lambda>na.
     op_ret \<lparr>sy_actions = pa @ na, sy_dry_run = dry_run\<rparr>)) o'))"

section \<open>What the live orchestrator may use\<close>

record PersistedAssets =
  pa_playbook_ids :: "(Kind, str) dict"
  pa_knowledge_ids :: "str list"
  pa_drifted :: "str list"
  pa_missing :: "str list"

definition assets_ok :: "PersistedAssets \<Rightarrow> bool" where
  "assets_ok p \<longleftrightarrow> pa_drifted p = [] \<and> pa_missing p = []"

definition persisted_assets :: "(str \<Rightarrow> str) \<Rightarrow> DevinAsset list \<Rightarrow> AssetBundle \<Rightarrow> PersistedAssets" where
  "persisted_assets sha256 table bundle =
     (let rows = foldl (\<lambda>d r. dict_set (asset_key r) (da_remote_id r, da_content_sha256 r) d) [] table;
          p1 = foldl (\<lambda>p (kind, spec).
            case dict_get rows (''playbook'', ps_slug spec) of
              None \<Rightarrow> p\<lparr>pa_missing := pa_missing p @ [''playbook:'' @ ps_slug spec]\<rparr>
            | Some (i, sha) \<Rightarrow>
                p\<lparr>pa_drifted := pa_drifted p @ (if sha \<noteq> playbook_content_sha256 sha256 spec then [''playbook:'' @ ps_slug spec] else []),
                  pa_playbook_ids := dict_set kind i (pa_playbook_ids p)\<rparr>)
            \<lparr>pa_playbook_ids = [], pa_knowledge_ids = [], pa_drifted = [], pa_missing = []\<rparr> (bu_playbooks bundle) in
      foldl (\<lambda>p spec.
        case dict_get rows (''knowledge'', ks_slug spec) of
          None \<Rightarrow> p\<lparr>pa_missing := pa_missing p @ [''knowledge:'' @ ks_slug spec]\<rparr>
        | Some (i, sha) \<Rightarrow>
            p\<lparr>pa_drifted := pa_drifted p @ (if sha \<noteq> note_content_sha256 sha256 spec then [''knowledge:'' @ ks_slug spec] else []),
              pa_knowledge_ids := pa_knowledge_ids p @ [i]\<rparr>)
        p1 (bu_knowledge bundle))"

end
