(* ===== verification/DevinDouble.thy ===== *)
theory DevinDouble
  imports Sync Ci
begin

text \<open>
  \<^verbatim>\<open>devin/fake.py\<close>: the in-memory Devin the replays, the tests and the no-spend demo run against. A
  scenario may register a callback for the next call of a method; callbacks are the scenarios' code and
  appear as a function \<open>hook\<close> from their names to what they do to the double.
\<close>

section \<open>The state of the double\<close>

record FakeSession =
  fs_session_id :: str
  fs_request :: CreateSessionRequest
  fs_status :: DevinStatus
  fs_status_detail :: "DevinStatusDetail option"
  fs_acus_consumed :: rat
  fs_structured_output :: "(str \<times> json) list option"
  fs_pull_requests :: "str list"
  fs_messages :: "str list"
  fs_question :: "str option"
  fs_created_at :: int
  fs_updated_at :: int

record FakeReview =
  fr_pr_url :: str
  fr_commit_sha :: str
  fr_status :: ReviewStatus
  fr_created_at :: int

record 'h FakeDevin =
  fv_sessions :: "(str, FakeSession) dict"
  fv_attachments :: "(str, json) dict"
  fv_calls :: "(str \<times> str) list"
  fv_n :: nat
  fv_pr_heads :: "(str, str) dict"
  fv_head_resolver :: "(str \<Rightarrow> str option) option"
  fv_reviews :: "(str \<times> str, FakeReview) dict"
  fv_playbooks :: "(str, PlaybookRecord) dict"
  fv_notes :: "(str, NoteRecord) dict"
  fv_fail_next :: "(str, exn) dict"
  fv_crash_before :: "str list"
  fv_crash_after :: "str list"
  fv_before_next :: "(str, 'h) dict"
  fv_clock_seconds :: int

type_synonym 'h hook = "'h \<Rightarrow> 'h FakeDevin \<Rightarrow> 'h FakeDevin"

definition new_fake_devin :: "'h FakeDevin" where
  "new_fake_devin = \<lparr>fv_sessions = [], fv_attachments = [], fv_calls = [], fv_n = 0, fv_pr_heads = [], fv_head_resolver = None,
     fv_reviews = [], fv_playbooks = [], fv_notes = [], fv_fail_next = [], fv_crash_before = [], fv_crash_after = [],
     fv_before_next = [], fv_clock_seconds = 1800000000\<rparr>"

definition fake_devin_error :: "str \<Rightarrow> exn" where
  "fake_devin_error msg = Exn ''FakeDevinError'' msg"

definition controller_crash :: "str \<Rightarrow> exn" where
  "controller_crash msg = Exn ''ControllerCrash'' msg"

definition dict_del :: "'k \<Rightarrow> ('k, 'v) dict \<Rightarrow> ('k, 'v) dict" where
  "dict_del k = filter (\<lambda>p. fst p \<noteq> k)"

definition new_fake_session :: "str \<Rightarrow> CreateSessionRequest \<Rightarrow> FakeSession" where
  "new_fake_session sid request =
     \<lparr>fs_session_id = sid, fs_request = request, fs_status = DS_new, fs_status_detail = None, fs_acus_consumed = 0,
      fs_structured_output = None, fs_pull_requests = [], fs_messages = [], fs_question = None, fs_created_at = 0,
      fs_updated_at = 0\<rparr>"

definition session_at :: "str \<Rightarrow> ('h FakeDevin, FakeSession) op" where
  "session_at sid = op_get (\<lambda>d. case dict_get (fv_sessions d) sid of Some s \<Rightarrow> op_ret s | None \<Rightarrow> op_raise (key_error sid))"

definition put_session :: "FakeSession \<Rightarrow> ('h FakeDevin, unit) op" where
  "put_session s = op_put (\<lambda>d. d\<lparr>fv_sessions := dict_set (fs_session_id s) s (fv_sessions d)\<rparr>)"

section \<open>What the scenarios script\<close>

text \<open>Keyword arguments that are None leave the field as it is; \<open>question\<close> is always assigned.\<close>

definition kept :: "'a option \<Rightarrow> 'a \<Rightarrow> 'a" where
  "kept v old = (case v of Some x \<Rightarrow> x | None \<Rightarrow> old)"

definition tick_clock :: "int \<Rightarrow> ('h FakeDevin, int) op" where
  "tick_clock n = (\<lambda>d. let t = fv_clock_seconds d + n in (Inr t, d\<lparr>fv_clock_seconds := t\<rparr>))"

definition set_state ::
    "str \<Rightarrow> DevinStatus \<Rightarrow> DevinStatusDetail option \<Rightarrow> rat option \<Rightarrow> (str \<times> json) list option \<Rightarrow> str list option
     \<Rightarrow> str option \<Rightarrow> ('h FakeDevin, unit) op" where
  "set_state sid status detail acus output pull_requests question =
     op_bind (session_at sid) (\<lambda>s.
     op_bind (tick_clock 60) (\<lambda>t.
     put_session (s\<lparr>fs_status := status, fs_status_detail := detail, fs_acus_consumed := kept acus (fs_acus_consumed s),
       fs_structured_output := (if output \<noteq> None then output else fs_structured_output s),
       fs_pull_requests := kept pull_requests (fs_pull_requests s), fs_question := question, fs_updated_at := t\<rparr>)))"

definition finish :: "str \<Rightarrow> (str \<times> json) list \<Rightarrow> rat \<Rightarrow> str list \<Rightarrow> ('h FakeDevin, unit) op" where
  "finish sid output acus pull_requests = set_state sid DS_exit (Some DD_finished) (Some acus) (Some output) (Some pull_requests) None"

definition preexisting_request :: "str list \<Rightarrow> CreateSessionRequest" where
  "preexisting_request tags =
     \<lparr>csr_prompt = ''(pre-existing)'', csr_repos = [], csr_title = ''pre-existing'', csr_tags = tags, csr_max_acu_limit = 5,
      csr_structured_output_schema = JObj [], csr_structured_output_required = True, csr_playbook_id = None,
      csr_knowledge_ids = [], csr_attachment_urls = [], csr_resumable = True\<rparr>"

definition preexisting :: "str \<Rightarrow> str list \<Rightarrow> rat \<Rightarrow> ('h FakeDevin, unit) op" where
  "preexisting sid tags acus =
     put_session ((new_fake_session sid (preexisting_request tags))\<lparr>fs_status := DS_running, fs_status_detail := Some DD_working,
       fs_acus_consumed := acus\<rparr>)"

definition set_pr_head :: "str \<Rightarrow> str \<Rightarrow> ('h FakeDevin, unit) op" where
  "set_pr_head url commit_sha = op_put (\<lambda>d. d\<lparr>fv_pr_heads := dict_set url commit_sha (fv_pr_heads d)\<rparr>)"

definition review_status :: "'h FakeDevin \<Rightarrow> str \<Rightarrow> str \<Rightarrow> ReviewStatus option" where
  "review_status d url commit_sha = map_option fr_status (dict_get (fv_reviews d) (url, commit_sha))"

definition put_review :: "FakeReview \<Rightarrow> ('h FakeDevin, unit) op" where
  "put_review r = op_put (\<lambda>d. d\<lparr>fv_reviews := dict_set (fr_pr_url r, fr_commit_sha r) r (fv_reviews d)\<rparr>)"

definition finish_review :: "str \<Rightarrow> str \<Rightarrow> ReviewStatus \<Rightarrow> ('h FakeDevin, unit) op" where
  "finish_review url commit_sha status = op_get (\<lambda>d.
     case dict_get (fv_reviews d) (url, commit_sha) of
       None \<Rightarrow> op_raise (fake_devin_error (''no review was triggered for '' @ url @ ''@'' @ take 12 commit_sha))
     | Some r \<Rightarrow> put_review (r\<lparr>fr_status := status\<rparr>))"

definition created_requests :: "'h FakeDevin \<Rightarrow> CreateSessionRequest list" where
  "created_requests d = filter (\<lambda>r. csr_prompt r \<noteq> ''(pre-existing)'') (map (fs_request \<circ> snd) (fv_sessions d))"

section \<open>Sessions\<close>

definition touch :: "'h hook \<Rightarrow> str \<Rightarrow> str \<Rightarrow> ('h FakeDevin, unit) op" where
  "touch hook meth target = (\<lambda>d.
     let d1 = d\<lparr>fv_calls := fv_calls d @ [(meth, target)]\<rparr>;
         d2 = (case dict_get (fv_before_next d1) meth of
                 Some h \<Rightarrow> hook h (d1\<lparr>fv_before_next := dict_del meth (fv_before_next d1)\<rparr>)
               | None \<Rightarrow> d1) in
     if meth \<in> set (fv_crash_before d2)
     then (Inl (controller_crash (''before '' @ meth)), d2\<lparr>fv_crash_before := removeAll meth (fv_crash_before d2)\<rparr>)
     else (case dict_get (fv_fail_next d2) meth of
             Some e \<Rightarrow> (Inl e, d2\<lparr>fv_fail_next := dict_del meth (fv_fail_next d2)\<rparr>)
           | None \<Rightarrow> (Inr (), d2)))"

definition crash_after :: "str \<Rightarrow> ('h FakeDevin, unit) op" where
  "crash_after meth = (\<lambda>d.
     if meth \<in> set (fv_crash_after d)
     then (Inl (controller_crash (''after '' @ meth)), d\<lparr>fv_crash_after := removeAll meth (fv_crash_after d)\<rparr>)
     else (Inr (), d))"

definition snap :: "FakeSession \<Rightarrow> SessionSnapshot" where
  "snap s =
     \<lparr>ss_session_id = fs_session_id s,
      ss_url = ''https://app.devin.ai/sessions/'' @
        (if starts_with (fs_session_id s) ''devin-'' then drop 6 (fs_session_id s) else fs_session_id s),
      ss_status = fs_status s, ss_status_detail = fs_status_detail s, ss_acus_consumed = fs_acus_consumed s,
      ss_pull_requests = map (\<lambda>u. \<lparr>spr_url = u, spr_state = None\<rparr>) (fs_pull_requests s),
      ss_structured_output = fs_structured_output s, ss_tags = csr_tags (fs_request s),
      ss_created_at = fs_created_at s, ss_updated_at = fs_updated_at s\<rparr>"

definition create_session :: "'h hook \<Rightarrow> CreateSessionRequest \<Rightarrow> ('h FakeDevin, SessionSnapshot) op" where
  "create_session hook request =
     op_bind (touch hook ''create_session'' (csr_title request)) (\<lambda>_.
     if csr_max_acu_limit request \<le> 0 then op_raise (fake_devin_error ''max_acu_limit must be positive'')
     else if \<not> jtruthy (csr_structured_output_schema request)
     then op_raise (fake_devin_error ''structured_output_schema required'')
     else op_bind (op_put (\<lambda>d. d\<lparr>fv_n := Suc (fv_n d)\<rparr>)) (\<lambda>_.
       op_bind (tick_clock 60) (\<lambda>t. op_get (\<lambda>d.
       let s = (new_fake_session (''devin-fake'' @ pad_zeros 4 (show_nat (fv_n d))) request)\<lparr>fs_created_at := t, fs_updated_at := t\<rparr> in
       op_bind (put_session s) (\<lambda>_. op_bind (crash_after ''create_session'') (\<lambda>_. op_ret (snap s)))))))"

definition get_session :: "'h hook \<Rightarrow> str \<Rightarrow> ('h FakeDevin, SessionSnapshot) op" where
  "get_session hook sid =
     op_bind (touch hook ''get_session'' sid) (\<lambda>_. op_bind (session_at sid) (\<lambda>s. op_ret (snap s)))"

definition send_message :: "'h hook \<Rightarrow> str \<Rightarrow> str \<Rightarrow> ('h FakeDevin, unit) op" where
  "send_message hook sid message =
     op_bind (touch hook ''send_message'' sid) (\<lambda>_. op_bind (session_at sid) (\<lambda>s.
     let s1 = s\<lparr>fs_messages := fs_messages s @ [message]\<rparr> in
     put_session
       (if fs_status s1 \<in> {DS_suspended, DS_exit} then s1\<lparr>fs_status := DS_resuming, fs_status_detail := Some DD_working\<rparr>
        else if fs_status_detail s1 = Some DD_waiting_for_user
        then s1\<lparr>fs_status_detail := Some DD_working, fs_question := None\<rparr>
        else s1)))"

definition terminate_session :: "'h hook \<Rightarrow> str \<Rightarrow> ('h FakeDevin, SessionSnapshot) op" where
  "terminate_session hook sid =
     op_bind (touch hook ''terminate_session'' sid) (\<lambda>_. op_bind (session_at sid) (\<lambda>s.
     if fs_status s \<in> {DS_exit, DS_error} then op_raise (fake_devin_error (''session '' @ sid @ '' already exited''))
     else op_bind (tick_clock 60) (\<lambda>t.
       let s1 = s\<lparr>fs_status := DS_exit, fs_status_detail := None, fs_question := None, fs_updated_at := t\<rparr> in
       op_bind (put_session s1) (\<lambda>_. op_ret (snap s1)))))"

definition list_sessions :: "'h hook \<Rightarrow> str list \<Rightarrow> ('h FakeDevin, SessionSnapshot list) op" where
  "list_sessions hook tags =
     op_bind (touch hook ''list_sessions'' (join '','' tags)) (\<lambda>_. op_get (\<lambda>d.
     op_ret (map snap (filter (\<lambda>s. set tags \<subseteq> set (csr_tags (fs_request s))) (map snd (fv_sessions d))))))"

definition upload_attachment :: "'h hook \<Rightarrow> str \<Rightarrow> json \<Rightarrow> ('h FakeDevin, str) op" where
  "upload_attachment hook filename content =
     op_bind (touch hook ''upload_attachment'' filename) (\<lambda>_. op_get (\<lambda>d.
     let url = ''https://attachments.fake.devin/'' @ show_nat (Suc (length (fv_attachments d))) @ ''/'' @ filename in
     op_bind (op_put (\<lambda>d. d\<lparr>fv_attachments := dict_set url content (fv_attachments d)\<rparr>)) (\<lambda>_. op_ret url)))"

definition last_user_facing_question :: "'h hook \<Rightarrow> str \<Rightarrow> ('h FakeDevin, str option) op" where
  "last_user_facing_question hook sid =
     op_bind (touch hook ''last_user_facing_question'' sid) (\<lambda>_. op_bind (session_at sid) (\<lambda>s. op_ret (fs_question s)))"

section \<open>Reviews\<close>

text \<open>\<open>url.rpartition("/pull/")\<close>.\<close>

definition rpartition :: "str \<Rightarrow> str \<Rightarrow> str \<times> str" where
  "rpartition sep s = (case partition_str (rev sep) (rev s) of Some (b, a) \<Rightarrow> (rev a, rev b) | None \<Rightarrow> ([], s))"

definition review_snap :: "FakeReview \<Rightarrow> exn + ReviewSnapshot" where
  "review_snap r =
     (case rpartition ''/pull/'' (fr_pr_url r) of (prefix, number) \<Rightarrow>
      ebind (int_of_str number) (\<lambda>n.
      Inr \<lparr>rs_status = fr_status r, rs_repo_path = (if starts_with prefix ''https://'' then drop 8 prefix else prefix),
        rs_pr_number = nat n, rs_commit_sha = fr_commit_sha r,
        rs_created_at = fr_created_at r * 1000000\<rparr>))"

definition fake_trigger_review :: "'h hook \<Rightarrow> str \<Rightarrow> ('h FakeDevin, ReviewSnapshot) op" where
  "fake_trigger_review hook url =
     op_bind (touch hook ''trigger_review'' url) (\<lambda>_. op_get (\<lambda>d.
     case (case dict_get (fv_pr_heads d) url of
             Some h \<Rightarrow> Some h
           | None \<Rightarrow> (case fv_head_resolver d of Some f \<Rightarrow> f url | None \<Rightarrow> None)) of
       None \<Rightarrow> op_raise (fake_devin_error (''unknown pull request '' @ url))
     | Some head \<Rightarrow>
         op_bind (tick_clock 1) (\<lambda>t.
         let old = dict_get (fv_reviews d) (url, head);
             fresh = \<lparr>fr_pr_url = url, fr_commit_sha = head, fr_status = RS_pending, fr_created_at = t\<rparr>;
             r = (case old of Some r \<Rightarrow> if review_is_terminal (fr_status r) then fresh else r | None \<Rightarrow> fresh) in
         op_bind (put_review r) (\<lambda>_. op_bind (crash_after ''trigger_review'') (\<lambda>_. op_lift (review_snap r))))))"

definition get_review :: "'h hook \<Rightarrow> str \<Rightarrow> str \<Rightarrow> ('h FakeDevin, ReviewSnapshot option) op" where
  "get_review hook url commit_sha =
     op_bind (touch hook ''get_review'' (url @ ''@'' @ commit_sha)) (\<lambda>_. op_get (\<lambda>d.
     case dict_get (fv_reviews d) (url, commit_sha) of
       None \<Rightarrow> op_ret None
     | Some r \<Rightarrow>
         let r1 = (if fr_status r = RS_pending then r\<lparr>fr_status := RS_running\<rparr> else r) in
         op_bind (put_review r1) (\<lambda>_. op_bind (op_lift (review_snap r1)) (\<lambda>x. op_ret (Some x)))))"

section \<open>Assets\<close>

definition list_playbooks :: "'h hook \<Rightarrow> ('h FakeDevin, PlaybookRecord list) op" where
  "list_playbooks hook = op_bind (touch hook ''list_playbooks'' []) (\<lambda>_. op_get (\<lambda>d. op_ret (map snd (fv_playbooks d))))"

definition create_playbook :: "'h hook \<Rightarrow> PlaybookUpsert \<Rightarrow> ('h FakeDevin, PlaybookRecord) op" where
  "create_playbook hook spec =
     op_bind (touch hook ''create_playbook'' (pu_title spec)) (\<lambda>_. op_get (\<lambda>d.
     if or_none (pu_macro spec) \<noteq> None \<and> list_ex (\<lambda>p. pb_macro (snd p) = pu_macro spec) (fv_playbooks d)
     then op_raise (fake_devin_error (''macro '' @ show_opt_str (pu_macro spec) @ '' already taken (409)''))
     else
       let pid = ''playbook-fake'' @ pad_zeros 4 (show_nat (Suc (length (fv_playbooks d)))); r = playbook_record pid spec in
       op_bind (op_put (\<lambda>d. d\<lparr>fv_playbooks := dict_set pid r (fv_playbooks d)\<rparr>)) (\<lambda>_.
       op_bind (crash_after ''create_playbook'') (\<lambda>_. op_ret r))))"

definition update_playbook :: "'h hook \<Rightarrow> str \<Rightarrow> PlaybookUpsert \<Rightarrow> ('h FakeDevin, PlaybookRecord) op" where
  "update_playbook hook pid spec =
     op_bind (touch hook ''update_playbook'' pid) (\<lambda>_. op_get (\<lambda>d.
     if dict_get (fv_playbooks d) pid = None then op_raise (fake_devin_error (''unknown playbook '' @ pid @ '' (404)''))
     else op_bind (op_put (\<lambda>d. d\<lparr>fv_playbooks := dict_set pid (playbook_record pid spec) (fv_playbooks d)\<rparr>))
       (\<lambda>_. op_ret (playbook_record pid spec))))"

definition list_notes :: "'h hook \<Rightarrow> ('h FakeDevin, NoteRecord list) op" where
  "list_notes hook = op_bind (touch hook ''list_notes'' []) (\<lambda>_. op_get (\<lambda>d. op_ret (map snd (fv_notes d))))"

definition create_note :: "'h hook \<Rightarrow> NoteUpsert \<Rightarrow> ('h FakeDevin, NoteRecord) op" where
  "create_note hook spec =
     op_bind (touch hook ''create_note'' (nu_name spec)) (\<lambda>_. op_get (\<lambda>d.
     let nid = ''note-fake'' @ pad_zeros 4 (show_nat (Suc (length (fv_notes d)))); r = note_record nid spec in
     op_bind (op_put (\<lambda>d. d\<lparr>fv_notes := dict_set nid r (fv_notes d)\<rparr>)) (\<lambda>_.
     op_bind (crash_after ''create_note'') (\<lambda>_. op_ret r))))"

definition update_note :: "'h hook \<Rightarrow> str \<Rightarrow> NoteUpsert \<Rightarrow> ('h FakeDevin, NoteRecord) op" where
  "update_note hook nid spec =
     op_bind (touch hook ''update_note'' nid) (\<lambda>_. op_get (\<lambda>d.
     if dict_get (fv_notes d) nid = None then op_raise (fake_devin_error (''unknown note '' @ nid @ '' (404)''))
     else op_bind (op_put (\<lambda>d. d\<lparr>fv_notes := dict_set nid (note_record nid spec) (fv_notes d)\<rparr>))
       (\<lambda>_. op_ret (note_record nid spec))))"

definition fake_assets :: "'h hook \<Rightarrow> 'h FakeDevin DevinAssets" where
  "fake_assets hook =
     \<lparr>dv_playbooks = \<lparr>api_list = list_playbooks hook, api_create = create_playbook hook, api_update = update_playbook hook\<rparr>,
      dv_notes = \<lparr>api_list = list_notes hook, api_create = create_note hook, api_update = update_note hook\<rparr>\<rparr>"

end
