(* ===== verification/AssetFacts.thy ===== *)
theory AssetFacts
  imports DevinDouble
begin

text \<open>
  What the syncer of \<open>Sync\<close> achieves. \<open>asset_store\<close> is what it relies on of Devin for one kind of asset;
  under it a completed run leaves every committed asset stored as it was written, with its id and
  digest recorded, and a run from there only confirms. The in-memory Devin keeps the contract for
  playbooks and for notes.
\<close>

section \<open>Dictionaries built from lists\<close>

lemma dict_set_new: "k \<notin> fst ` set d \<Longrightarrow> dict_set k v d = d @ [(k, v)]"
  by (induction k v d rule: dict_set.induct) auto

lemma dict_build_from:
  "distinct (map f xs) \<Longrightarrow> f ` set xs \<inter> fst ` set d = {} \<Longrightarrow>
     foldl (\<lambda>d x. dict_set (f x) (g x) d) d xs = d @ map (\<lambda>x. (f x, g x)) xs"
  by (induction xs arbitrary: d) (auto simp: dict_set_new)

lemma dict_build: "distinct (map f xs) \<Longrightarrow> foldl (\<lambda>d x. dict_set (f x) (g x) d) [] xs = map (\<lambda>x. (f x, g x)) xs"
  using dict_build_from [of f xs "[]" g] by simp

lemma dict_get_pairs: "distinct (map f xs) \<Longrightarrow> dict_get (map (\<lambda>x. (f x, g x)) xs) k = Some v \<longleftrightarrow> (\<exists>x\<in>set xs. f x = k \<and> g x = v)"
  unfolding dict_get_def by (subst map_of_eq_Some_iff) (auto simp: comp_def)

lemma dict_get_pairs_None: "dict_get (map (\<lambda>x. (f x, g x)) xs) k = None \<longleftrightarrow> k \<notin> f ` set xs"
  by (induction xs) (auto simp: dict_get_def)

section \<open>Rows and their objects\<close>

definition rows_ok :: "DevinAsset list \<Rightarrow> bool" where
  "rows_ok rows \<longleftrightarrow> distinct (map da_id rows) \<and> distinct (map asset_key rows)"

definition same_objects :: "DevinAsset list \<Rightarrow> DevinAsset list \<Rightarrow> bool" where
  "same_objects old new \<longleftrightarrow> (\<forall>w\<in>set old. \<exists>w'\<in>set new. da_id w' = da_id w \<and> asset_key w' = asset_key w)"

lemma row_ids_get:
  assumes "rows_ok rows"
  shows "dict_get (row_ids rows) k = Some i \<longleftrightarrow> (\<exists>w\<in>set rows. asset_key w = k \<and> da_id w = i)"
    and "dict_get (row_ids rows) k = None \<longleftrightarrow> k \<notin> asset_key ` set rows"
proof -
  have "distinct (map asset_key (sort_key da_id rows))"
    using assms unfolding rows_ok_def by (metis distinct_map distinct_sort set_sort)
  then have "row_ids rows = map (\<lambda>w. (asset_key w, da_id w)) (sort_key da_id rows)"
    unfolding row_ids_def by (rule dict_build)
  with \<open>distinct (map asset_key (sort_key da_id rows))\<close>
  show "dict_get (row_ids rows) k = Some i \<longleftrightarrow> (\<exists>w\<in>set rows. asset_key w = k \<and> da_id w = i)"
    and "dict_get (row_ids rows) k = None \<longleftrightarrow> k \<notin> asset_key ` set rows"
    by (simp_all add: dict_get_pairs dict_get_pairs_None)
qed

lemma get_row_mem: "distinct (map rid rows) \<Longrightarrow> w \<in> set rows \<Longrightarrow> get_row rid (rid w) rows = Some w"
  by (induction rows) (auto simp: get_row_def)

lemma row_object_None: "rows_ok old \<Longrightarrow> k \<notin> asset_key ` set old \<Longrightarrow> row_object (row_ids old) k rows = None"
  using row_ids_get(2) [of old k] by (simp add: row_object_def)

lemma row_object_Some:
  assumes "rows_ok old" "rows_ok rows" "same_objects old rows" "k \<in> asset_key ` set old" "w \<in> set rows" "asset_key w = k"
  shows "row_object (row_ids old) k rows = Some w"
proof -
  from assms(4) obtain v where v: "v \<in> set old" "asset_key v = k" by blast
  then have "dict_get (row_ids old) k = Some (da_id v)" using row_ids_get(1) [OF assms(1)] by blast
  moreover obtain w' where w': "w' \<in> set rows" "da_id w' = da_id v" "asset_key w' = k"
    using assms(3) v unfolding same_objects_def by metis
  moreover have "w' = w" using assms(2,5,6) w' unfolding rows_ok_def distinct_map inj_on_def by metis
  moreover have "get_row da_id (da_id w) rows = Some w" using assms(2,5) unfolding rows_ok_def by (blast intro: get_row_mem)
  ultimately show ?thesis by (simp add: row_object_def)
qed

lemma row_object_mem:
  assumes "rows_ok old" "rows_ok rows" "same_objects old rows" "row_object (row_ids old) k rows = Some w"
  shows "w \<in> set rows" "asset_key w = k" "k \<in> asset_key ` set old"
proof -
  show k: "k \<in> asset_key ` set old" using assms(4) row_object_None [OF assms(1)] by fastforce
  then obtain w' where "w' \<in> set rows" "asset_key w' = k" using assms(3) unfolding same_objects_def by (metis imageE)
  moreover have "w = w'" using row_object_Some [OF assms(1-3) k calculation] assms(4) by simp
  ultimately show "w \<in> set rows" "asset_key w = k" by auto
qed

text \<open>Recording an asset touches one row: the one of its kind and slug.\<close>

definition row_put :: "str \<times> str \<Rightarrow> str \<Rightarrow> str \<Rightarrow> DevinAsset list \<Rightarrow> DevinAsset list \<Rightarrow> bool" where
  "row_put k i sha rows rows' \<longleftrightarrow>
     rows_ok rows' \<and> same_objects rows rows' \<and> asset_key ` set rows' = insert k (asset_key ` set rows) \<and>
     (\<forall>w. asset_key w \<noteq> k \<longrightarrow> (w \<in> set rows' \<longleftrightarrow> w \<in> set rows)) \<and>
     (\<exists>w\<in>set rows'. asset_key w = k \<and> da_remote_id w = i \<and> da_content_sha256 w = sha)"

lemma persist_puts:
  assumes "rows_ok old" "rows_ok (og_rows o1)" "same_objects old (og_rows o1)"
    and row: "row = row_object (row_ids old) (K, slug) (og_rows o1)"
    and run: "persist_asset clock row K slug title change i sha o1 = (Inr (), o2)"
  shows "row_put (K, slug) i sha (og_rows o1) (og_rows o2) \<and> og_remote o2 = og_remote o1"
proof (cases row)
  case None
  then have new: "(K, slug) \<notin> asset_key ` set (og_rows o1)" and o2: "og_remote o2 = og_remote o1"
    using run by (auto simp: persist_asset_def Let_def list_ex_iff split: if_splits)
  obtain w where w: "og_rows o2 = og_rows o1 @ [w]" "asset_key w = (K, slug)" "da_remote_id w = i" "da_content_sha256 w = sha"
      "da_id w = next_id da_id (og_rows o1)"
    using run None by (auto simp: persist_asset_def Let_def asset_key_def split: if_splits)
  show ?thesis
    using assms(2) new o2 next_id_fresh [of da_id "og_rows o1"] w
    unfolding row_put_def rows_ok_def same_objects_def by auto
next
  case (Some v)
  have v: "v \<in> set (og_rows o1)" "asset_key v = (K, slug)" using row_object_mem [OF assms(1-3)] row Some by auto
  define g where "g = (\<lambda>x::DevinAsset. x\<lparr>da_remote_id := i, da_title := title, da_content_sha256 := sha,
     da_last_action := asset_change_value (if da_remote_id v \<noteq> i \<and> change = AC_unchanged then AC_adopted else change),
     da_synced_at := clock (og_reads o1)\<rparr>)"
  have o2: "og_rows o2 = update_row da_id (da_id v) g (og_rows o1)" "og_remote o2 = og_remote o1"
    using run Some unfolding g_def by (auto simp: persist_asset_def Let_def)
  have g: "da_id (g x) = da_id x" "asset_key (g x) = asset_key x" "da_remote_id (g x) = i" "da_content_sha256 (g x) = sha" for x
    by (auto simp: g_def asset_key_def)
  let ?h = "\<lambda>r. if da_id r = da_id v then g r else r"
  have keys: "map asset_key (og_rows o2) = map asset_key (og_rows o1)" "map da_id (og_rows o2) = map da_id (og_rows o1)"
    unfolding o2 update_row_def by (auto simp: g)
  have only: "da_id x = da_id v \<longleftrightarrow> asset_key x = (K, slug)" if "x \<in> set (og_rows o1)" for x
    using that v assms(2) unfolding rows_ok_def distinct_map inj_on_def by metis
  have mem: "w \<in> set (og_rows o2) \<longleftrightarrow> w \<in> set (og_rows o1)" if "asset_key w \<noteq> (K, slug)" for w
    unfolding o2 update_row_def using that only g(2) v by (auto simp: image_iff)
  have "g v \<in> set (og_rows o2)" unfolding o2 update_row_def using v(1) by (force simp: image_iff)
  moreover have "rows_ok (og_rows o2)" using assms(2) unfolding rows_ok_def keys .
  moreover have "same_objects (og_rows o1) (og_rows o2)"
    unfolding same_objects_def
  proof
    fix w
    assume "w \<in> set (og_rows o1)"
    then have "?h w \<in> set (og_rows o2)" unfolding o2 update_row_def by simp
    moreover have "da_id (?h w) = da_id w \<and> asset_key (?h w) = asset_key w" by (simp add: g)
    ultimately show "\<exists>w'\<in>set (og_rows o2). da_id w' = da_id w \<and> asset_key w' = asset_key w" by blast
  qed
  moreover have "asset_key ` set (og_rows o2) = insert (K, slug) (asset_key ` set (og_rows o1))"
    using keys(1) v by (metis image_eqI insert_absorb list.set_map)
  ultimately show ?thesis using mem o2(2) g v unfolding row_put_def by metis
qed

lemma row_object_same:
  assumes "rows_ok old" "rows_ok rows" "same_objects old rows" "rows_ok rows'" "same_objects rows rows'"
    and "\<And>w. asset_key w = k \<Longrightarrow> w \<in> set rows' \<longleftrightarrow> w \<in> set rows"
  shows "row_object (row_ids old) k rows' = row_object (row_ids old) k rows"
proof (cases "k \<in> asset_key ` set old")
  case True
  then obtain w where w: "w \<in> set rows" "asset_key w = k" using assms(3) unfolding same_objects_def by (metis imageE)
  have "w \<in> set rows'" using assms(6) w by simp
  moreover have "same_objects old rows'" using assms(3,5) unfolding same_objects_def by metis
  ultimately show ?thesis
    using row_object_Some [OF assms(1-3) True w] row_object_Some [OF assms(1,4) _ True _ w(2)] by simp
next
  case False
  then show ?thesis by (simp add: row_object_None [OF assms(1)])
qed

lemma row_object_other:
  "rows_ok old \<Longrightarrow> rows_ok rows \<Longrightarrow> same_objects old rows \<Longrightarrow> row_put k' i sha rows rows' \<Longrightarrow> k \<noteq> k' \<Longrightarrow>
     row_object (row_ids old) k rows' = row_object (row_ids old) k rows"
  by (rule row_object_same) (auto simp: row_put_def)

text \<open>Where each asset of a run is found, from the rows and the listing at its start.\<close>

definition committed_key :: "('s, 'u, 'r) AssetClass \<Rightarrow> 'u Committed \<Rightarrow> str \<times> str" where
  "committed_key C x = (ac_kind C, cm_slug x)"

definition found_at :: "('s, 'u, 'r) AssetClass \<Rightarrow> DevinAsset list \<Rightarrow> 'r list \<Rightarrow> 'u Committed \<Rightarrow> exn + 'r option" where
  "found_at C old listed x =
     locate_asset C (row_object (row_ids old) (committed_key C x) old) x (remote_dict (ac_rid C) listed)"

definition found_ids :: "('s, 'u, 'r) AssetClass \<Rightarrow> DevinAsset list \<Rightarrow> 'r list \<Rightarrow> 'u Committed list \<Rightarrow> str list" where
  "found_ids C old listed xs = concat (map (\<lambda>x. case found_at C old listed x of Inr (Some r) \<Rightarrow> [ac_rid C r] | _ \<Rightarrow> []) xs)"

definition recorded ::
    "('s, 'u, 'r) AssetClass \<Rightarrow> 'u Committed \<Rightarrow> AssetAction \<Rightarrow> str \<Rightarrow> bool" where
  "recorded C x a i \<longleftrightarrow> aa_asset_kind a = ac_kind C \<and> aa_slug a = cm_slug x \<and> aa_remote_id a = Some i"

section \<open>The contract of the asset service\<close>

text \<open>
  \<open>up\<close> says that the service answers; \<open>stored\<close> is what it holds of this kind of asset and \<open>others\<close> what
  it holds of the other kind. \<open>make i u\<close> is the record of the asset \<open>u\<close> under the id \<open>i\<close>.
\<close>

locale asset_store =
  fixes C :: "('s, 'u, 'r) AssetClass" and up :: "'s \<Rightarrow> bool" and stored :: "'s \<Rightarrow> 'r list" and others :: "'s \<Rightarrow> 'x"
    and make :: "str \<Rightarrow> 'u \<Rightarrow> 'r" and good :: "'u \<Rightarrow> bool"
  assumes lists: "up s \<Longrightarrow> \<exists>s'. api_list (ac_api C) s = (Inr (stored s), s') \<and> up s' \<and> stored s' = stored s \<and> others s' = others s"
    and creates: "up s \<Longrightarrow> api_create (ac_api C) u s = (Inr r, s') \<Longrightarrow>
      up s' \<and> stored s' = stored s @ [r] \<and> others s' = others s \<and> ac_rid C r \<notin> ac_rid C ` set (stored s) \<and> (\<exists>i. r = make i u)"
    and updates: "up s \<Longrightarrow> api_update (ac_api C) i u s = (Inr r, s') \<Longrightarrow>
      up s' \<and> stored s' = map (\<lambda>x. if ac_rid C x = i then r else x) (stored s) \<and> others s' = others s \<and> r = make i u"
    and rid_make: "ac_rid C (make i u) = i"
    and matches_make: "good u \<Longrightarrow> ac_matches C (make i u) u"
    and distinct_ids: "up s \<Longrightarrow> distinct (map (ac_rid C) (stored s))"
begin

abbreviation "rid \<equiv> ac_rid C"

abbreviation "key \<equiv> committed_key C"

definition settled :: "'u Committed \<Rightarrow> str \<Rightarrow> 's Org \<Rightarrow> bool" where
  "settled x i o' \<longleftrightarrow>
     (\<exists>r\<in>set (stored (og_remote o')). rid r = i \<and> ac_matches C r (cm_upsert x)) \<and>
     (\<exists>w\<in>set (og_rows o'). asset_key w = key x \<and> da_remote_id w = i \<and> da_content_sha256 w = cm_sha x)"

text \<open>The effect of reconciling one asset that was found as \<open>current\<close>, with \<open>i\<close> the id it ends up with.\<close>

definition reconciled :: "'u Committed \<Rightarrow> 'r option \<Rightarrow> str \<Rightarrow> 's Org \<Rightarrow> 's Org \<Rightarrow> bool" where
  "reconciled x current i o1 o2 \<longleftrightarrow>
     up (og_remote o2) \<and> others (og_remote o2) = others (og_remote o1) \<and>
     (case current of Some p \<Rightarrow> i = rid p | None \<Rightarrow> i \<notin> rid ` set (stored (og_remote o1))) \<and>
     (\<exists>r\<in>set (stored (og_remote o2)). rid r = i \<and> ac_matches C r (cm_upsert x)) \<and>
     (\<forall>r\<in>set (stored (og_remote o1)). rid r \<noteq> i \<longrightarrow> r \<in> set (stored (og_remote o2))) \<and>
     rid ` set (stored (og_remote o1)) \<subseteq> rid ` set (stored (og_remote o2))"

lemma reconcile_effect:
  assumes "up (og_remote o1)" "good (cm_upsert x)"
    and current: "\<And>p. current = Some p \<Longrightarrow> p \<in> set (stored (og_remote o1))"
    and run: "reconcile_asset C x current False o1 = (Inr a, o2)"
  shows "\<exists>i. recorded C x a i \<and> reconciled x current i o1 o2 \<and> og_rows o2 = og_rows o1"
proof (cases current)
  case None
  with run obtain r s' where r: "api_create (ac_api C) (cm_upsert x) (og_remote o1) = (Inr r, s')" "o2 = o1\<lparr>og_remote := s'\<rparr>"
      "a = \<lparr>aa_asset_kind = ac_kind C, aa_slug = cm_slug x, aa_action = AC_created, aa_remote_id = Some (rid r)\<rparr>"
    by (auto simp: reconcile_asset_def op_bind_def op_ret_def on_remote_def split: prod.splits sum.splits)
  from creates [OF assms(1) r(1)] assms(2) None r(2,3) show ?thesis
    by (auto simp: recorded_def reconciled_def matches_make)
next
  case (Some p)
  note p = current [OF Some]
  show ?thesis
  proof (cases "ac_matches C p (cm_upsert x)")
    case True
    with run Some p assms(1) show ?thesis
      by (auto simp: reconcile_asset_def op_ret_def recorded_def reconciled_def)
  next
    case False
    with run Some obtain r s' where r: "api_update (ac_api C) (rid p) (cm_upsert x) (og_remote o1) = (Inr r, s')"
        "o2 = o1\<lparr>og_remote := s'\<rparr>"
        "a = \<lparr>aa_asset_kind = ac_kind C, aa_slug = cm_slug x, aa_action = AC_updated, aa_remote_id = Some (rid r)\<rparr>"
      by (auto simp: reconcile_asset_def op_bind_def op_ret_def on_remote_def split: prod.splits sum.splits)
    have ids: "rid (if rid q = rid p then r else q) = rid q" for q
      using updates [OF assms(1) r(1)] by (auto simp: rid_make)
    have st: "stored s' = map (\<lambda>q. if rid q = rid p then r else q) (stored (og_remote o1))"
      using updates [OF assms(1) r(1)] by blast
    have "r \<in> set (stored s')" unfolding st using p by (force simp: image_iff)
    moreover have "map rid (stored s') = map rid (stored (og_remote o1))" unfolding st by (simp only: map_map comp_def ids)
    then have "rid ` set (stored s') = rid ` set (stored (og_remote o1))" by (metis set_map)
    moreover have "q \<in> set (stored s')" if "q \<in> set (stored (og_remote o1))" "rid q \<noteq> rid p" for q
      unfolding st using that by (force simp: image_iff)
    moreover have u: "up s'" "others s' = others (og_remote o1)" "r = make (rid p) (cm_upsert x)"
      using updates [OF assms(1) r(1)] by auto
    ultimately have "reconciled x current (rid p) o1 o2"
      using assms(2) Some unfolding reconciled_def r(2) by (auto simp del: u(3)) (metis u(3) rid_make matches_make)
    then show ?thesis using r(2,3) u(3) by (auto simp: recorded_def rid_make)
  qed
qed

section \<open>A completed run\<close>

lemma found_mem: "distinct (map rid listed) \<Longrightarrow> found_at C old listed x = Inr (Some r) \<Longrightarrow> r \<in> set listed"
proof -
  assume d: "distinct (map rid listed)" and f: "found_at C old listed x = Inr (Some r)"
  have "remote_dict rid listed = map (\<lambda>r. (rid r, r)) listed" unfolding remote_dict_def by (rule dict_build [OF d])
  moreover have "r \<in> set listed" if "filter P listed = [r]" for P using that by (metis filter_is_subset list.set_intros(1) subsetD)
  ultimately show ?thesis
    using f by (auto simp: found_at_def locate_asset_def dict_get_pairs [OF d] comp_def split: option.splits list.splits)
qed

lemma asset_effect:
  assumes up: "up (og_remote o1)" and good: "good (cm_upsert x)"
    and rows: "rows_ok old" "rows_ok (og_rows o1)" "same_objects old (og_rows o1)"
    and row: "row_object (row_ids old) (key x) (og_rows o1) = row_object (row_ids old) (key x) old"
    and there: "\<And>r. found_at C old listed x = Inr (Some r) \<Longrightarrow> r \<in> set (stored (og_remote o1))"
    and run: "sync_asset C clock False (row_ids old) (remote_dict rid listed) x o1 = (Inr a, o2)"
  shows "\<exists>i current. recorded C x a i \<and> found_at C old listed x = Inr current \<and> reconciled x current i o1 o2 \<and>
    row_put (key x) i (cm_sha x) (og_rows o1) (og_rows o2)"
proof -
  let ?row = "row_object (row_ids old) (key x) (og_rows o1)"
  from run obtain current where current: "found_at C old listed x = Inr current"
    by (auto simp: sync_asset_def op_bind_def op_lift_def found_at_def committed_key_def row [unfolded committed_key_def] Let_def split: sum.splits)
  with run obtain o3 where rec: "reconcile_asset C x current False o1 = (Inr a, o3)"
      and per: "\<And>i. aa_remote_id a = Some i \<Longrightarrow>
        persist_asset clock ?row (ac_kind C) (cm_slug x) (cm_name x) (aa_action a) i (cm_sha x) o3 = (Inr (), o2)"
    by (auto simp: sync_asset_def op_bind_def op_lift_def op_ret_def found_at_def committed_key_def row [unfolded committed_key_def] Let_def
        split: sum.splits prod.splits option.splits)
  from reconcile_effect [OF up good _ rec] there current
  obtain i where i: "recorded C x a i" "reconciled x current i o1 o3" "og_rows o3 = og_rows o1" by blast
  have "row_put (key x) i (cm_sha x) (og_rows o3) (og_rows o2) \<and> og_remote o2 = og_remote o3"
    unfolding committed_key_def
  proof (rule persist_puts [OF rows(1) _ _ _ per])
    show "?row = row_object (row_ids old) (ac_kind C, cm_slug x) (og_rows o3)" by (simp add: i(3) committed_key_def)
  qed (use i rows in \<open>auto simp: recorded_def\<close>)
  with i current show ?thesis by (auto simp: reconciled_def)
qed

text \<open>What a completed run of one kind of asset has done, from \<open>o1\<close> to \<open>o2\<close>.\<close>

definition completed :: "DevinAsset list \<Rightarrow> 'r list \<Rightarrow> 'u Committed list \<Rightarrow> AssetAction list \<Rightarrow> 's Org \<Rightarrow> 's Org \<Rightarrow> bool" where
  "completed old listed xs as o1 o2 \<longleftrightarrow>
     (let ids = map (\<lambda>a. the (aa_remote_id a)) as in
      up (og_remote o2) \<and> others (og_remote o2) = others (og_remote o1) \<and>
      rows_ok (og_rows o2) \<and> same_objects (og_rows o1) (og_rows o2) \<and>
      (\<forall>w. asset_key w \<notin> key ` set xs \<longrightarrow> (w \<in> set (og_rows o2) \<longleftrightarrow> w \<in> set (og_rows o1))) \<and>
      list_all2 (\<lambda>x a. \<exists>i. recorded C x a i \<and> settled x i o2) xs as \<and>
      (\<forall>r\<in>set (stored (og_remote o1)). rid r \<notin> set ids \<longrightarrow> r \<in> set (stored (og_remote o2))) \<and>
      rid ` set (stored (og_remote o1)) \<subseteq> rid ` set (stored (og_remote o2)) \<and>
      (\<forall>i\<in>set ids. i \<in> set (found_ids C old listed xs) \<or> i \<notin> rid ` set (stored (og_remote o1))))"

lemma run_effect:
  assumes old: "rows_ok old"
  shows "up (og_remote o1) \<Longrightarrow> rows_ok (og_rows o1) \<Longrightarrow> same_objects old (og_rows o1) \<Longrightarrow>
    (\<And>x. x \<in> set xs \<Longrightarrow> good (cm_upsert x)) \<Longrightarrow> distinct (map key xs) \<Longrightarrow>
    (\<And>x. x \<in> set xs \<Longrightarrow> row_object (row_ids old) (key x) (og_rows o1) = row_object (row_ids old) (key x) old) \<Longrightarrow>
    (\<And>x r. x \<in> set xs \<Longrightarrow> found_at C old listed x = Inr (Some r) \<Longrightarrow> r \<in> set (stored (og_remote o1))) \<Longrightarrow>
    distinct (found_ids C old listed xs) \<Longrightarrow>
    op_map (sync_asset C clock False (row_ids old) (remote_dict rid listed)) xs o1 = (Inr as, o2) \<Longrightarrow>
    completed old listed xs as o1 o2"
proof (induction xs arbitrary: o1 as)
  case Nil
  then show ?case by (auto simp: op_ret_def completed_def same_objects_def)
next
  case (Cons x xs)
  note row = Cons.prems(6) and there = Cons.prems(7)
  from Cons.prems(9) obtain a as' o1' where
    a: "sync_asset C clock False (row_ids old) (remote_dict rid listed) x o1 = (Inr a, o1')" and
    rest: "op_map (sync_asset C clock False (row_ids old) (remote_dict rid listed)) xs o1' = (Inr as', o2)" and as: "as = a # as'"
    by (auto simp: op_bind_def op_ret_def split: prod.splits sum.splits)
  have here: "r \<in> set (stored (og_remote o1))" if "found_at C old listed x = Inr (Some r)" for r using there [of x r] that by simp
  obtain i current where i: "recorded C x a i" "found_at C old listed x = Inr current" "reconciled x current i o1 o1'"
    "row_put (key x) i (cm_sha x) (og_rows o1) (og_rows o1')"
    using asset_effect [OF Cons.prems(1) Cons.prems(4) old Cons.prems(2,3) row here a] by auto
  have ids: "j \<in> rid ` set (stored (og_remote o1)) \<and> j \<noteq> i" if "j \<in> set (found_ids C old listed xs)" for j
  proof -
    from that obtain y where "y \<in> set xs" "j \<in> set (case found_at C old listed y of Inr (Some r) \<Rightarrow> [rid r] | _ \<Rightarrow> [])"
      unfolding found_ids_def by auto
    then obtain r where y: "y \<in> set xs" "found_at C old listed y = Inr (Some r)" "j = rid r"
      by (cases "found_at C old listed y") (auto split: option.splits)
    have j: "j \<in> rid ` set (stored (og_remote o1))" using there [OF _ y(2)] y by auto
    show ?thesis
    proof (cases current)
      case None
      then have "i \<notin> rid ` set (stored (og_remote o1))" using i(3) by (simp add: reconciled_def)
      with j show ?thesis by blast
    next
      case (Some p)
      then have "i = rid p" "distinct (rid p # found_ids C old listed xs)"
        using i(2,3) Cons.prems(8) by (auto simp: reconciled_def found_ids_def)
      with that j show ?thesis by auto
    qed
  qed
  have done': "completed old listed xs as' o1' o2"
  proof (rule Cons.IH [OF _ _ _ _ _ _ _ _ rest])
    show "up (og_remote o1')" using i(3) by (simp add: reconciled_def)
    show "rows_ok (og_rows o1')" using i(4) by (simp add: row_put_def)
    show "same_objects old (og_rows o1')"
      using Cons.prems(3) i(4) unfolding row_put_def same_objects_def by metis
    show "row_object (row_ids old) (key y) (og_rows o1') = row_object (row_ids old) (key y) old" if "y \<in> set xs" for y
    proof -
      have "key y \<noteq> key x" using Cons.prems(5) that by (auto simp: image_iff)
      then show ?thesis using row_object_other [OF old Cons.prems(2,3) i(4), of "key y"] row [of y] that by simp
    qed
    show "r \<in> set (stored (og_remote o1'))" if "y \<in> set xs" "found_at C old listed y = Inr (Some r)" for y r
    proof -
      have "rid r \<in> set (found_ids C old listed xs)" using that by (force simp: found_ids_def)
      with ids have "rid r \<noteq> i" by blast
      then show ?thesis using i(3) there [OF _ that(2)] that(1) by (simp add: reconciled_def)
    qed
  qed (use Cons.prems(4,5,8) in \<open>auto simp: found_ids_def\<close>)
  define later where "later = map (\<lambda>a. the (aa_remote_id a)) as'"
  have i_later: "i \<notin> set later"
  proof
    assume "i \<in> set later"
    with done' have "i \<in> set (found_ids C old listed xs) \<or> i \<notin> rid ` set (stored (og_remote o1'))"
      unfolding completed_def Let_def later_def by blast
    with ids i(3) show False by (auto simp: reconciled_def)
  qed
  have st: "settled x i o2"
  proof -
    from i(3) obtain r where "r \<in> set (stored (og_remote o1'))" "rid r = i" "ac_matches C r (cm_upsert x)"
      by (auto simp: reconciled_def)
    with done' i_later have "r \<in> set (stored (og_remote o2))" "rid r = i" "ac_matches C r (cm_upsert x)"
      unfolding completed_def Let_def later_def by auto
    moreover from i(4) obtain w where "w \<in> set (og_rows o1')" "asset_key w = key x" "da_remote_id w = i" "da_content_sha256 w = cm_sha x"
      by (auto simp: row_put_def)
    with done' Cons.prems(5) have "w \<in> set (og_rows o2)" "asset_key w = key x" "da_remote_id w = i" "da_content_sha256 w = cm_sha x"
      unfolding completed_def Let_def by auto
    ultimately show ?thesis unfolding settled_def by blast
  qed
  have frame: "\<forall>r\<in>set (stored (og_remote o1)). rid r \<noteq> i \<and> rid r \<notin> set later \<longrightarrow> r \<in> set (stored (og_remote o2))"
    using i(3) done' unfolding reconciled_def completed_def Let_def later_def by blast
  have origin: "j \<in> set (found_ids C old listed (x # xs)) \<or> j \<notin> rid ` set (stored (og_remote o1))" if "j \<in> insert i (set later)" for j
  proof (cases "j = i")
    case True
    then show ?thesis using i(2,3) by (cases current) (auto simp: reconciled_def found_ids_def)
  next
    case False
    with that have "j \<in> set later" by simp
    with done' have "j \<in> set (found_ids C old listed xs) \<or> j \<notin> rid ` set (stored (og_remote o1'))"
      unfolding completed_def Let_def later_def by blast
    with i(3) show ?thesis by (auto simp: reconciled_def found_ids_def)
  qed
  have objects: "same_objects (og_rows o1) (og_rows o2)"
    using i(4) done' unfolding row_put_def completed_def Let_def same_objects_def by metis
  have rest_rows: "w \<in> set (og_rows o2) \<longleftrightarrow> w \<in> set (og_rows o1)" if "asset_key w \<notin> key ` set (x # xs)" for w
    using that i(4) done' unfolding row_put_def completed_def Let_def by auto
  have grows: "rid ` set (stored (og_remote o1)) \<subseteq> rid ` set (stored (og_remote o2))"
  proof (rule subset_trans)
    show "rid ` set (stored (og_remote o1)) \<subseteq> rid ` set (stored (og_remote o1'))" using i(3) by (simp add: reconciled_def)
    show "rid ` set (stored (og_remote o1')) \<subseteq> rid ` set (stored (og_remote o2))" using done' by (simp add: completed_def Let_def)
  qed
  have ids_as: "map (\<lambda>a. the (aa_remote_id a)) as = i # later" using i(1) by (simp add: as later_def recorded_def)
  have "list_all2 (\<lambda>x a. \<exists>i. recorded C x a i \<and> settled x i o2) (x # xs) as"
    using i(1) st done' unfolding completed_def Let_def as by auto
  moreover have "up (og_remote o2) \<and> others (og_remote o2) = others (og_remote o1) \<and> rows_ok (og_rows o2)"
    using i(3) done' unfolding completed_def Let_def reconciled_def by simp
  ultimately show ?case
    using objects frame origin rest_rows grows unfolding completed_def Let_def ids_as by auto
qed

section \<open>A repeated run\<close>

text \<open>An asset that is settled is found, is unchanged, and stays settled; nothing is sent to Devin.\<close>

lemma settled_again:
  assumes up: "up (og_remote o0)" and old: "rows_ok old" "rows_ok (og_rows o1)" "same_objects old (og_rows o1)"
    and remote_same: "og_remote o1 = og_remote o0" and key_old: "key x \<in> asset_key ` set old" and st: "settled x i o1"
  shows "\<exists>o2. sync_asset C clock False (row_ids old) (remote_dict rid (stored (og_remote o0))) x o1 =
      (Inr \<lparr>aa_asset_kind = ac_kind C, aa_slug = cm_slug x, aa_action = AC_unchanged, aa_remote_id = Some i\<rparr>, o2) \<and>
    og_remote o2 = og_remote o0 \<and> row_put (key x) i (cm_sha x) (og_rows o1) (og_rows o2)"
proof -
  from st obtain r w where r: "r \<in> set (stored (og_remote o0))" "rid r = i" "ac_matches C r (cm_upsert x)"
    and w: "w \<in> set (og_rows o1)" "asset_key w = key x" "da_remote_id w = i"
    unfolding settled_def remote_same by blast
  let ?there = "remote_dict rid (stored (og_remote o0))"
  have row: "row_object (row_ids old) (key x) (og_rows o1) = Some w" by (rule row_object_Some [OF old key_old w(1,2)])
  have "dict_get ?there i = Some r"
    unfolding remote_dict_def dict_build [OF distinct_ids [OF up]] using dict_get_pairs [OF distinct_ids [OF up], of "\<lambda>r. r" i r] r by auto
  then have loc: "locate_asset C (Some w) x ?there = Inr (Some r)" by (simp add: locate_asset_def w(3))
  define o2 where "o2 = snd (persist_asset clock (Some w) (ac_kind C) (cm_slug x) (cm_name x) AC_unchanged i (cm_sha x) o1)"
  have per: "persist_asset clock (Some w) (ac_kind C) (cm_slug x) (cm_name x) AC_unchanged i (cm_sha x) o1 = (Inr (), o2)"
    unfolding o2_def by (simp add: persist_asset_def Let_def)
  have "row_put (key x) i (cm_sha x) (og_rows o1) (og_rows o2) \<and> og_remote o2 = og_remote o1"
    unfolding committed_key_def by (rule persist_puts [OF old _ per]) (simp add: row [unfolded committed_key_def])
  then show ?thesis
    using row loc r per remote_same
    by (auto simp: sync_asset_def op_bind_def op_lift_def op_ret_def reconcile_asset_def committed_key_def)
qed

lemma settled_kept:
  assumes "settled y j o1" "settled x i o1" "og_remote o2 = og_remote o1" "row_put (key x) i (cm_sha x) (og_rows o1) (og_rows o2)"
    and "key y = key x \<Longrightarrow> y = x"
    and "rows_ok (og_rows o1)"
  shows "settled y j o2"
proof (cases "key y = key x")
  case True
  with assms(5) have "y = x" by simp
  with assms(1,2,6) have "j = i" unfolding settled_def rows_ok_def distinct_map inj_on_def by metis
  with assms(2-4) \<open>y = x\<close> show ?thesis unfolding settled_def row_put_def by metis
next
  case False
  with assms(1,3,4) show ?thesis unfolding settled_def row_put_def by metis
qed

definition all_unchanged :: "AssetAction list \<Rightarrow> bool" where
  "all_unchanged as \<longleftrightarrow> list_all (\<lambda>a. aa_action a = AC_unchanged) as"

lemma run_again:
  assumes up: "up (og_remote o0)" and old: "rows_ok old"
  shows "rows_ok (og_rows o1) \<Longrightarrow> same_objects old (og_rows o1) \<Longrightarrow> og_remote o1 = og_remote o0 \<Longrightarrow>
    distinct (map key xs) \<Longrightarrow> (\<And>x. x \<in> set xs \<Longrightarrow> key x \<in> asset_key ` set old \<and> (\<exists>i. settled x i o1)) \<Longrightarrow>
    \<exists>as o2. op_map (sync_asset C clock False (row_ids old) (remote_dict rid (stored (og_remote o0)))) xs o1 = (Inr as, o2) \<and>
      all_unchanged as \<and> og_remote o2 = og_remote o0 \<and> rows_ok (og_rows o2) \<and> same_objects old (og_rows o2) \<and>
      list_all2 (\<lambda>x a. \<exists>i. recorded C x a i \<and> settled x i o1) xs as \<and>
      (\<forall>w. asset_key w \<notin> key ` set xs \<longrightarrow> (w \<in> set (og_rows o2) \<longleftrightarrow> w \<in> set (og_rows o1)))"
proof (induction xs arbitrary: o1)
  case Nil
  then show ?case by (auto simp: op_ret_def all_unchanged_def)
next
  case (Cons x xs)
  from Cons.prems(5) [of x] obtain i where st: "settled x i o1" and k: "key x \<in> asset_key ` set old" by auto
  define a where "a = \<lparr>aa_asset_kind = ac_kind C, aa_slug = cm_slug x, aa_action = AC_unchanged, aa_remote_id = Some i\<rparr>"
  obtain o1' where
    "sync_asset C clock False (row_ids old) (remote_dict rid (stored (og_remote o0))) x o1 = (Inr a, o1')"
    and o1': "og_remote o1' = og_remote o0" "row_put (key x) i (cm_sha x) (og_rows o1) (og_rows o1')"
    using settled_again [OF up old Cons.prems(1-3) k st] unfolding a_def by metis
  then have a: "sync_asset C clock False (row_ids old) (remote_dict rid (stored (og_remote o0))) x o1 = (Inr a, o1')"
    "aa_action a = AC_unchanged" "recorded C x a i" by (simp_all add: a_def recorded_def)
  have kept: "settled y j o1'" if "settled y j o1" "y \<in> set xs" for y j
    by (rule settled_kept [OF that(1) st _ o1'(2) _ Cons.prems(1)]) (use Cons.prems(3,4) o1'(1) that(2) in \<open>auto simp: image_iff\<close>)
  have before: "\<exists>j. recorded C y b j \<and> settled y j o1" if "y \<in> set xs" "recorded C y b j'" "settled y j' o1'" for y b j'
  proof -
    from Cons.prems(5) [of y] that(1) obtain j where j: "settled y j o1" by auto
    with kept that(1) have "settled y j o1'" by blast
    moreover have "rows_ok (og_rows o1')" using o1'(2) by (simp add: row_put_def)
    ultimately have "j' = j" using that(3) unfolding settled_def rows_ok_def distinct_map inj_on_def by metis
    with j that show ?thesis by blast
  qed
  have so: "same_objects old (og_rows o1')"
    using Cons.prems(2) o1'(2) unfolding row_put_def same_objects_def by metis
  have "\<exists>as o2. op_map (sync_asset C clock False (row_ids old) (remote_dict rid (stored (og_remote o0)))) xs o1' = (Inr as, o2) \<and>
      all_unchanged as \<and> og_remote o2 = og_remote o0 \<and> rows_ok (og_rows o2) \<and> same_objects old (og_rows o2) \<and>
      list_all2 (\<lambda>x a. \<exists>i. recorded C x a i \<and> settled x i o1') xs as \<and>
      (\<forall>w. asset_key w \<notin> key ` set xs \<longrightarrow> (w \<in> set (og_rows o2) \<longleftrightarrow> w \<in> set (og_rows o1')))"
  proof (rule Cons.IH)
    show "key y \<in> asset_key ` set old \<and> (\<exists>i. settled y i o1')" if "y \<in> set xs" for y
      using Cons.prems(5) [of y] kept [of y] that by auto
  qed (use o1' so Cons.prems(4) in \<open>auto simp: row_put_def\<close>)
  then obtain as o2 where as: "op_map (sync_asset C clock False (row_ids old) (remote_dict rid (stored (og_remote o0)))) xs o1' = (Inr as, o2)"
    "all_unchanged as" "og_remote o2 = og_remote o0" "rows_ok (og_rows o2)" "same_objects old (og_rows o2)"
    "list_all2 (\<lambda>x a. \<exists>i. recorded C x a i \<and> settled x i o1') xs as"
    "\<forall>w. asset_key w \<notin> key ` set xs \<longrightarrow> (w \<in> set (og_rows o2) \<longleftrightarrow> w \<in> set (og_rows o1'))" by blast
  have "list_all2 (\<lambda>x a. \<exists>i. recorded C x a i \<and> settled x i o1) xs as"
    using as(6) before unfolding list_all2_conv_all_nth by (metis nth_mem)
  moreover have "w \<in> set (og_rows o2) \<longleftrightarrow> w \<in> set (og_rows o1)" if "asset_key w \<notin> key ` set (x # xs)" for w
    using that as(7) o1'(2) unfolding row_put_def by auto
  ultimately show ?case using a as st by (auto simp: op_bind_def op_ret_def all_unchanged_def)
qed

end

section \<open>The in-memory Devin keeps the contract\<close>

lemma read_pad: "read_nat (pad_zeros k s) = read_nat s"
proof -
  have "foldl (\<lambda>n c. n * 10 + (of_char c - 48)) 0 (replicate m CHR ''0'') = (0::nat)" for m by (induction m) simp_all
  then show ?thesis by (simp add: pad_zeros_def read_nat_def)
qed

definition fake_id :: "str \<Rightarrow> nat \<Rightarrow> str" where
  "fake_id name n = name @ pad_zeros 4 (show_nat n)"

lemma fake_id_inj [simp]: "fake_id name m = fake_id name n \<longleftrightarrow> m = n"
  unfolding fake_id_def by (metis append_same_eq read_pad read_show_nat same_append_eq)

text \<open>
  A store of records under their ids, none of which is an id the double would hand out next. Records
  made by hand may have any other id.
\<close>

definition store_ok :: "str \<Rightarrow> ('r \<Rightarrow> str) \<Rightarrow> (str, 'r) dict \<Rightarrow> bool" where
  "store_ok name rid d \<longleftrightarrow>
     distinct (map fst d) \<and> (\<forall>(k, r)\<in>set d. rid r = k) \<and> (\<forall>n\<ge>length d. fake_id name (Suc n) \<notin> fst ` set d)"

definition answering :: "'h FakeDevin \<Rightarrow> bool" where
  "answering d \<longleftrightarrow>
     fv_fail_next d = [] \<and> fv_crash_before d = [] \<and> fv_crash_after d = [] \<and> fv_before_next d = [] \<and>
     store_ok ''playbook-fake'' pb_playbook_id (fv_playbooks d) \<and> store_ok ''note-fake'' nt_note_id (fv_notes d)"

lemma store_ids: "store_ok name rid d \<Longrightarrow> map rid (map snd d) = map fst d"
  by (auto simp: store_ok_def)

lemma store_distinct: "store_ok name rid d \<Longrightarrow> distinct (map rid (map snd d))"
  by (metis store_ids store_ok_def)

lemma store_add:
  assumes "store_ok name rid d" "rid r = fake_id name (Suc (length d))"
  shows "dict_set (fake_id name (Suc (length d))) r d = d @ [(fake_id name (Suc (length d)), r)]"
    and "store_ok name rid (dict_set (fake_id name (Suc (length d))) r d)"
    and "rid r \<notin> rid ` set (map snd d)"
proof -
  have new: "fake_id name (Suc (length d)) \<notin> fst ` set d" using assms(1) by (simp add: store_ok_def)
  then show add: "dict_set (fake_id name (Suc (length d))) r d = d @ [(fake_id name (Suc (length d)), r)]" by (rule dict_set_new)
  show "store_ok name rid (dict_set (fake_id name (Suc (length d))) r d)"
    using assms new unfolding add store_ok_def by (auto simp: Suc_le_eq)
  have "rid ` set (map snd d) = fst ` set d" using store_ids [OF assms(1)] by (metis list.set_map)
  with new assms(2) show "rid r \<notin> rid ` set (map snd d)" by simp
qed

lemma store_replace:
  assumes "store_ok name rid d" "rid r = i" "dict_get d i \<noteq> None"
  shows "map snd (dict_set i r d) = map (\<lambda>x. if rid x = i then r else x) (map snd d)" "store_ok name rid (dict_set i r d)"
proof -
  have "map fst (dict_set i r d) = map fst d" if "i \<in> fst ` set d" for d :: "(str \<times> 'a) list"
    using that by (induction d) (auto simp: rev_image_eqI)
  moreover have i: "i \<in> fst ` set d" using assms(3) unfolding dict_get_def map_of_eq_None_iff by simp
  ultimately have keys: "map fst (dict_set i r d) = map fst d" by blast
  have "dict_set i r d = map (\<lambda>(k, x). (k, if k = i then r else x)) d"
    if "distinct (map fst d)" "i \<in> fst ` set d" for d
    using that
  proof (induction d)
    case (Cons kx d)
    obtain k x where kx: "kx = (k, x)" by (cases kx)
    show ?case
    proof (cases "k = i")
      case True
      then have "\<And>k' x'. (k', x') \<in> set d \<Longrightarrow> k' \<noteq> i" using Cons.prems(1) kx by force
      then have "map (\<lambda>(k, x). (k, if k = i then r else x)) d = d" by (auto intro!: map_idI)
      with True kx show ?thesis by simp
    next
      case False
      with Cons kx show ?thesis by auto
    qed
  qed simp
  then have d: "dict_set i r d = map (\<lambda>(k, x). (k, if k = i then r else x)) d"
    using assms(1) i by (simp add: store_ok_def)
  show "map snd (dict_set i r d) = map (\<lambda>x. if rid x = i then r else x) (map snd d)"
    using assms(1) unfolding d by (auto simp: store_ok_def)
  have "length (dict_set i r d) = length d" unfolding d by simp
  moreover have "fst ` set (dict_set i r d) = fst ` set d" using keys by (metis list.set_map)
  moreover have "\<forall>(k, x)\<in>set (dict_set i r d). rid x = k" using assms(1,2) unfolding d store_ok_def by auto
  ultimately show "store_ok name rid (dict_set i r d)"
    using assms(1) unfolding store_ok_def keys by (simp add: case_prod_beta')
qed

lemma answering_touch:
  "answering d \<Longrightarrow> touch hook meth target d = (Inr (), d\<lparr>fv_calls := fv_calls d @ [(meth, target)]\<rparr>)"
  by (simp add: touch_def answering_def dict_get_def Let_def)

lemma answering_crash: "answering d \<Longrightarrow> crash_after meth d = (Inr (), d)"
  by (simp add: crash_after_def answering_def)

lemma answering_calls: "answering (d\<lparr>fv_calls := cs\<rparr>) \<longleftrightarrow> answering d"
  by (simp add: answering_def)

text \<open>A schema is a dictionary all the way down, so it equals itself.\<close>

fun keys_once :: "json \<Rightarrow> bool" and keys_once_list :: "json list \<Rightarrow> bool" and keys_once_fields :: "(str \<times> json) list \<Rightarrow> bool" where
  "keys_once (JArr xs) = keys_once_list xs"
| "keys_once (JObj fs) = (distinct (map fst fs) \<and> keys_once_fields fs)"
| "keys_once _ = True"
| "keys_once_list [] = True"
| "keys_once_list (x # xs) = (keys_once x \<and> keys_once_list xs)"
| "keys_once_fields [] = True"
| "keys_once_fields ((k, v) # fs) = (keys_once v \<and> keys_once_fields fs)"

lemma py_eq_refl:
  "keys_once j \<Longrightarrow> py_eq j j"
  "keys_once_list xs \<Longrightarrow> py_eq_list xs xs"
  "keys_once_fields fs \<Longrightarrow> \<forall>gs. distinct (map fst gs) \<and> set fs \<subseteq> set gs \<longrightarrow> py_eq_fields fs gs"
  by (induction j and xs and fs rule: keys_once_keys_once_list_keys_once_fields.induct) auto

lemma py_eq_fields_self: "keys_once_fields fs \<Longrightarrow> distinct (map fst fs) \<Longrightarrow> py_eq_fields fs fs"
  using py_eq_refl(3) by blast

definition good_playbook :: "PlaybookUpsert \<Rightarrow> bool" where
  "good_playbook u \<longleftrightarrow> (case pu_schema u of None \<Rightarrow> True | Some fs \<Rightarrow> keys_once (JObj fs))"

interpretation playbooks: asset_store "playbook_class (fake_assets hook)" answering "\<lambda>d. map snd (fv_playbooks d)" fv_notes
  playbook_record good_playbook
proof
  fix d d' :: "'a FakeDevin" and u i r
  assume d: "answering d"
  then have ok: "store_ok ''playbook-fake'' pb_playbook_id (fv_playbooks d)" by (simp add: answering_def)
  show "\<exists>s'. api_list (ac_api (playbook_class (fake_assets hook))) d = (Inr (map snd (fv_playbooks d)), s') \<and> answering s' \<and>
      map snd (fv_playbooks s') = map snd (fv_playbooks d) \<and> fv_notes s' = fv_notes d"
    using d by (auto simp: playbook_class_def fake_assets_def list_playbooks_def answering_touch op_defs answering_calls)
  show "distinct (map (ac_rid (playbook_class (fake_assets hook))) (map snd (fv_playbooks d)))"
    using store_distinct [OF ok] by (simp add: playbook_class_def)
  show "answering d' \<and> map snd (fv_playbooks d') = map snd (fv_playbooks d) @ [r] \<and> fv_notes d' = fv_notes d \<and>
      ac_rid (playbook_class (fake_assets hook)) r \<notin> ac_rid (playbook_class (fake_assets hook)) ` set (map snd (fv_playbooks d)) \<and>
      (\<exists>i. r = playbook_record i u)"
    if run: "api_create (ac_api (playbook_class (fake_assets hook))) u d = (Inr r, d')"
  proof -
    let ?i = "fake_id ''playbook-fake'' (Suc (length (fv_playbooks d)))"
    let ?d1 = "d\<lparr>fv_calls := fv_calls d @ [(''create_playbook'', pu_title u)]\<rparr>"
    have r: "pb_playbook_id (playbook_record ?i u) = ?i" by (simp add: playbook_record_def)
    note add = store_add [OF ok r]
    have "answering (?d1\<lparr>fv_playbooks := dict_set ?i (playbook_record ?i u) (fv_playbooks d)\<rparr>)"
      using d add(2) by (simp add: answering_def)
    moreover from run d have "r = playbook_record ?i u" "d' = ?d1\<lparr>fv_playbooks := dict_set ?i (playbook_record ?i u) (fv_playbooks d)\<rparr>"
      by (auto simp: playbook_class_def fake_assets_def create_playbook_def answering_touch op_defs Let_def crash_after_def
          answering_def fake_id_def split: if_splits)
    ultimately show ?thesis using add r by (auto simp: playbook_class_def)
  qed
  show "answering d' \<and> map snd (fv_playbooks d') =
      map (\<lambda>x. if ac_rid (playbook_class (fake_assets hook)) x = i then r else x) (map snd (fv_playbooks d)) \<and>
      fv_notes d' = fv_notes d \<and> r = playbook_record i u"
    if run: "api_update (ac_api (playbook_class (fake_assets hook))) i u d = (Inr r, d')"
  proof -
    let ?d1 = "d\<lparr>fv_calls := fv_calls d @ [(''update_playbook'', i)]\<rparr>"
    from run d have "r = playbook_record i u" "d' = ?d1\<lparr>fv_playbooks := dict_set i r (fv_playbooks d)\<rparr>"
        "dict_get (fv_playbooks d) i \<noteq> None"
      by (auto simp: playbook_class_def fake_assets_def update_playbook_def answering_touch op_defs split: if_splits)
    with store_replace [OF ok, of r i] d show ?thesis
      by (simp add: playbook_class_def playbook_record_def answering_def)
  qed
qed (auto simp: playbook_class_def playbook_record_def playbook_matches_def good_playbook_def same_dict_def or_none_def
    py_eq_fields_self split: option.splits)

interpretation knowledge: asset_store "note_class (fake_assets hook)" answering "\<lambda>d. map snd (fv_notes d)" fv_playbooks
  note_record "\<lambda>_. True"
proof
  fix d d' :: "'a FakeDevin" and u i r
  assume d: "answering d"
  then have ok: "store_ok ''note-fake'' nt_note_id (fv_notes d)" by (simp add: answering_def)
  show "\<exists>s'. api_list (ac_api (note_class (fake_assets hook))) d = (Inr (map snd (fv_notes d)), s') \<and> answering s' \<and>
      map snd (fv_notes s') = map snd (fv_notes d) \<and> fv_playbooks s' = fv_playbooks d"
    using d by (auto simp: note_class_def fake_assets_def list_notes_def answering_touch op_defs answering_calls)
  show "distinct (map (ac_rid (note_class (fake_assets hook))) (map snd (fv_notes d)))"
    using store_distinct [OF ok] by (simp add: note_class_def)
  show "answering d' \<and> map snd (fv_notes d') = map snd (fv_notes d) @ [r] \<and> fv_playbooks d' = fv_playbooks d \<and>
      ac_rid (note_class (fake_assets hook)) r \<notin> ac_rid (note_class (fake_assets hook)) ` set (map snd (fv_notes d)) \<and>
      (\<exists>i. r = note_record i u)"
    if run: "api_create (ac_api (note_class (fake_assets hook))) u d = (Inr r, d')"
  proof -
    let ?i = "fake_id ''note-fake'' (Suc (length (fv_notes d)))"
    let ?d1 = "d\<lparr>fv_calls := fv_calls d @ [(''create_note'', nu_name u)]\<rparr>"
    have r: "nt_note_id (note_record ?i u) = ?i" by (simp add: note_record_def)
    note add = store_add [OF ok r]
    have "answering (?d1\<lparr>fv_notes := dict_set ?i (note_record ?i u) (fv_notes d)\<rparr>)"
      using d add(2) by (simp add: answering_def)
    moreover from run d have "r = note_record ?i u" "d' = ?d1\<lparr>fv_notes := dict_set ?i (note_record ?i u) (fv_notes d)\<rparr>"
      by (auto simp: note_class_def fake_assets_def create_note_def answering_touch op_defs Let_def crash_after_def
          answering_def fake_id_def split: if_splits)
    ultimately show ?thesis using add r by (auto simp: note_class_def)
  qed
  show "answering d' \<and> map snd (fv_notes d') =
      map (\<lambda>x. if ac_rid (note_class (fake_assets hook)) x = i then r else x) (map snd (fv_notes d)) \<and>
      fv_playbooks d' = fv_playbooks d \<and> r = note_record i u"
    if run: "api_update (ac_api (note_class (fake_assets hook))) i u d = (Inr r, d')"
  proof -
    let ?d1 = "d\<lparr>fv_calls := fv_calls d @ [(''update_note'', i)]\<rparr>"
    from run d have "r = note_record i u" "d' = ?d1\<lparr>fv_notes := dict_set i r (fv_notes d)\<rparr>"
        "dict_get (fv_notes d) i \<noteq> None"
      by (auto simp: note_class_def fake_assets_def update_note_def answering_touch op_defs split: if_splits)
    with store_replace [OF ok, of r i] d show ?thesis
      by (simp add: note_class_def note_record_def answering_def)
  qed
qed (auto simp: note_class_def note_record_def note_matches_def)

end
