(* ===== verification/SyncFacts.thy ===== *)
theory SyncFacts
  imports AssetFacts
begin

text \<open>
  Whole runs of the syncer against the in-memory Devin: a completed run makes the live orchestrator's
  check pass with the ids the run reports, a second one sends nothing, and a dry run changes nothing.
\<close>

section \<open>The ids the live orchestrator reads\<close>

definition row_remote :: "DevinAsset list \<Rightarrow> str \<times> str \<Rightarrow> str" where
  "row_remote table k = (case find (\<lambda>w. asset_key w = k) table of Some w \<Rightarrow> da_remote_id w | None \<Rightarrow> [])"

definition has_row :: "DevinAsset list \<Rightarrow> str \<times> str \<Rightarrow> str \<Rightarrow> str \<Rightarrow> bool" where
  "has_row table k i sha \<longleftrightarrow> (\<exists>w\<in>set table. asset_key w = k \<and> da_remote_id w = i \<and> da_content_sha256 w = sha)"

lemma row_remote_eq: "rows_ok table \<Longrightarrow> has_row table k i sha \<Longrightarrow> row_remote table k = i"
proof -
  assume ok: "rows_ok table" and "has_row table k i sha"
  then obtain w where w: "w \<in> set table" "asset_key w = k" "da_remote_id w = i" unfolding has_row_def by blast
  then obtain v where "find (\<lambda>w. asset_key w = k) table = Some v"
    by (cases "find (\<lambda>w. asset_key w = k) table") (auto simp: find_None_iff)
  with w ok show ?thesis using find_SomeD [of "\<lambda>w. asset_key w = k" table v]
    unfolding row_remote_def rows_ok_def distinct_map inj_on_def by auto
qed

lemma persisted_rows:
  assumes "rows_ok table" "distinct (map fst (bu_playbooks b))"
    and p: "\<And>kind spec. (kind, spec) \<in> set (bu_playbooks b) \<Longrightarrow>
      \<exists>i. has_row table (''playbook'', ps_slug spec) i (playbook_content_sha256 sha256 spec)"
    and n: "\<And>spec. spec \<in> set (bu_knowledge b) \<Longrightarrow>
      \<exists>i. has_row table (''knowledge'', ks_slug spec) i (note_content_sha256 sha256 spec)"
  shows "persisted_assets sha256 table b =
    \<lparr>pa_playbook_ids = map (\<lambda>(kind, spec). (kind, row_remote table (''playbook'', ps_slug spec))) (bu_playbooks b),
     pa_knowledge_ids = map (\<lambda>spec. row_remote table (''knowledge'', ks_slug spec)) (bu_knowledge b),
     pa_drifted = [], pa_missing = []\<rparr>"
proof -
  define rows where "rows = foldl (\<lambda>d r. dict_set (asset_key r) (da_remote_id r, da_content_sha256 r) d) [] table"
  have keys: "distinct (map asset_key table)" using assms(1) by (simp add: rows_ok_def)
  have rows: "dict_get rows k = Some (row_remote table k, sha)" if "has_row table k i sha" for k i sha
    unfolding rows_def dict_build [OF keys] using that row_remote_eq [OF assms(1) that]
    by (subst dict_get_pairs [OF keys]) (auto simp: has_row_def)
  define stepp where "stepp = (\<lambda>p :: PersistedAssets. \<lambda>(kind, spec).
    case dict_get rows (''playbook'', ps_slug spec) of
      None \<Rightarrow> p\<lparr>pa_missing := pa_missing p @ [''playbook:'' @ ps_slug spec]\<rparr>
    | Some (i, sha) \<Rightarrow>
        p\<lparr>pa_drifted := pa_drifted p @ (if sha \<noteq> playbook_content_sha256 sha256 spec then [''playbook:'' @ ps_slug spec] else []),
          pa_playbook_ids := dict_set kind i (pa_playbook_ids p)\<rparr>)"
  define stepn where "stepn = (\<lambda>p :: PersistedAssets. \<lambda>spec.
    case dict_get rows (''knowledge'', ks_slug spec) of
      None \<Rightarrow> p\<lparr>pa_missing := pa_missing p @ [''knowledge:'' @ ks_slug spec]\<rparr>
    | Some (i, sha) \<Rightarrow>
        p\<lparr>pa_drifted := pa_drifted p @ (if sha \<noteq> note_content_sha256 sha256 spec then [''knowledge:'' @ ks_slug spec] else []),
          pa_knowledge_ids := pa_knowledge_ids p @ [i]\<rparr>)"
  have books: "foldl stepp \<lparr>pa_playbook_ids = d, pa_knowledge_ids = [], pa_drifted = [], pa_missing = []\<rparr> ps =
      \<lparr>pa_playbook_ids = foldl (\<lambda>d x. dict_set (fst x) (row_remote table (''playbook'', ps_slug (snd x))) d) d ps,
       pa_knowledge_ids = [], pa_drifted = [], pa_missing = []\<rparr>" if "set ps \<subseteq> set (bu_playbooks b)" for d ps
    using that
  proof (induction ps arbitrary: d)
    case (Cons x ps)
    obtain kind spec where x: "x = (kind, spec)" by (cases x)
    with Cons.prems obtain i where "has_row table (''playbook'', ps_slug spec) i (playbook_content_sha256 sha256 spec)"
      using p [of kind spec] by auto
    from rows [OF this] show ?case using Cons x by (simp add: stepp_def)
  qed simp
  have pages: "foldl stepn \<lparr>pa_playbook_ids = d, pa_knowledge_ids = ks, pa_drifted = [], pa_missing = []\<rparr> ns =
      \<lparr>pa_playbook_ids = d, pa_knowledge_ids = ks @ map (\<lambda>spec. row_remote table (''knowledge'', ks_slug spec)) ns,
       pa_drifted = [], pa_missing = []\<rparr>" if "set ns \<subseteq> set (bu_knowledge b)" for d ks ns
    using that
  proof (induction ns arbitrary: ks)
    case (Cons spec ns)
    then obtain i where "has_row table (''knowledge'', ks_slug spec) i (note_content_sha256 sha256 spec)"
      using n [of spec] by auto
    from rows [OF this] show ?case using Cons by (simp add: stepn_def)
  qed simp
  have "persisted_assets sha256 table b = foldl stepn (foldl stepp
      \<lparr>pa_playbook_ids = [], pa_knowledge_ids = [], pa_drifted = [], pa_missing = []\<rparr> (bu_playbooks b)) (bu_knowledge b)"
    unfolding persisted_assets_def Let_def rows_def stepp_def stepn_def ..
  then show ?thesis
    using books [of "bu_playbooks b" "[]"] pages [of "bu_knowledge b"] dict_build [OF assms(2)]
    by (simp add: case_prod_beta')
qed

section \<open>Whole runs\<close>

definition bundle_ok :: "AssetBundle \<Rightarrow> bool" where
  "bundle_ok b \<longleftrightarrow>
     distinct (map fst (bu_playbooks b)) \<and> distinct (map (ps_slug \<circ> snd) (bu_playbooks b)) \<and> distinct (map ks_slug (bu_knowledge b)) \<and>
     list_all (\<lambda>(_, p). good_playbook (ps_upsert p)) (bu_playbooks b)"

text \<open>No two committed assets are found as the same record at Devin.\<close>

definition no_sharing :: "(str \<Rightarrow> str) \<Rightarrow> 'h hook \<Rightarrow> AssetBundle \<Rightarrow> 'h FakeDevin Org \<Rightarrow> bool" where
  "no_sharing sha256 hook b o0 \<longleftrightarrow>
     distinct (found_ids (playbook_class (fake_assets hook)) (og_rows o0) (map snd (fv_playbooks (og_remote o0))) (committed_playbooks sha256 b)) \<and>
     distinct (found_ids (note_class (fake_assets hook)) (og_rows o0) (map snd (fv_notes (og_remote o0))) (committed_notes sha256 b))"

definition org_ok :: "'h FakeDevin Org \<Rightarrow> bool" where
  "org_ok o0 \<longleftrightarrow> answering (og_remote o0) \<and> rows_ok (og_rows o0)"

lemma listed:
  assumes "answering (og_remote o0)"
  obtains o1 where
    "sync (fake_assets hook) sha256 clock b dry o0 =
       (let rows = row_ids (og_rows o0); D = fake_assets hook in
        op_bind (op_map (sync_asset (playbook_class D) clock dry rows (remote_dict pb_playbook_id (map snd (fv_playbooks (og_remote o0)))))
          (committed_playbooks sha256 b)) (\<lambda>pa.
        op_bind (op_map (sync_asset (note_class D) clock dry rows (remote_dict nt_note_id (map snd (fv_notes (og_remote o0)))))
          (committed_notes sha256 b)) (\<lambda>na.
        op_ret \<lparr>sy_actions = pa @ na, sy_dry_run = dry\<rparr>)) o1)"
    "og_rows o1 = og_rows o0" "answering (og_remote o1)" "fv_playbooks (og_remote o1) = fv_playbooks (og_remote o0)"
    "fv_notes (og_remote o1) = fv_notes (og_remote o0)"
proof -
  let ?s = "og_remote o0"
  define s1 where "s1 = ?s\<lparr>fv_calls := fv_calls ?s @ [(''list_playbooks'', [])]\<rparr>"
  define s2 where "s2 = s1\<lparr>fv_calls := fv_calls s1 @ [(''list_notes'', [])]\<rparr>"
  have s1: "answering s1" "list_playbooks hook ?s = (Inr (map snd (fv_playbooks ?s)), s1)"
    using assms by (simp_all add: s1_def answering_calls list_playbooks_def answering_touch op_defs)
  have s2: "answering s2" "list_notes hook s1 = (Inr (map snd (fv_notes ?s)), s2)"
    using s1(1) by (simp_all add: s2_def answering_calls list_notes_def answering_touch op_defs) (simp add: s1_def)
  have books: "on_remote (api_list (dv_playbooks (fake_assets hook))) o0 = (Inr (map snd (fv_playbooks ?s)), o0\<lparr>og_remote := s1\<rparr>)"
    using s1(2) by (simp add: on_remote_def fake_assets_def)
  have pages: "on_remote (api_list (dv_notes (fake_assets hook))) (o0\<lparr>og_remote := s1\<rparr>) =
      (Inr (map snd (fv_notes ?s)), o0\<lparr>og_remote := s2\<rparr>)"
    using s2(2) by (simp add: on_remote_def fake_assets_def)
  show thesis
  proof (rule that [of "o0\<lparr>og_remote := s2\<rparr>"])
    show "sync (fake_assets hook) sha256 clock b dry o0 =
       (let rows = row_ids (og_rows o0); D = fake_assets hook in
        op_bind (op_map (sync_asset (playbook_class D) clock dry rows (remote_dict pb_playbook_id (map snd (fv_playbooks (og_remote o0)))))
          (committed_playbooks sha256 b)) (\<lambda>pa.
        op_bind (op_map (sync_asset (note_class D) clock dry rows (remote_dict nt_note_id (map snd (fv_notes (og_remote o0)))))
          (committed_notes sha256 b)) (\<lambda>na.
        op_ret \<lparr>sy_actions = pa @ na, sy_dry_run = dry\<rparr>)) (o0\<lparr>og_remote := s2\<rparr>))"
      unfolding sync_def
      by (simp only: op_bind_Inr [of "on_remote (api_list (dv_playbooks (fake_assets hook)))" o0, OF books]
          op_bind_Inr [of "on_remote (api_list (dv_notes (fake_assets hook)))" "o0\<lparr>og_remote := s1\<rparr>", OF pages] Let_def) simp
  qed (simp_all add: s2(1), simp_all add: s2_def s1_def)
qed

lemma committed_keys:
  assumes "bundle_ok b"
  shows "distinct (map (committed_key (playbook_class D)) (committed_playbooks sha256 b))"
    and "distinct (map (committed_key (note_class D)) (committed_notes sha256 b))"
    and "x \<in> set (committed_playbooks sha256 b) \<Longrightarrow> good_playbook (cm_upsert x)"
    and "committed_key (note_class D) y \<notin> committed_key (playbook_class D) ` set (committed_playbooks sha256 b)"
    and "committed_key (playbook_class D) x \<notin> committed_key (note_class D) ` set (committed_notes sha256 b)"
proof -
  have pk: "map (committed_key (playbook_class D)) (committed_playbooks sha256 b) = map (\<lambda>s. (''playbook'', s)) (map (ps_slug \<circ> snd) (bu_playbooks b))"
    by (simp add: committed_playbooks_def committed_key_def playbook_class_def comp_def case_prod_beta')
  have nk: "map (committed_key (note_class D)) (committed_notes sha256 b) = map (\<lambda>s. (''knowledge'', s)) (map ks_slug (bu_knowledge b))"
    by (simp add: committed_notes_def committed_key_def note_class_def comp_def)
  have pair: "distinct xs \<Longrightarrow> distinct (map (\<lambda>s. (k, s)) xs)" for k :: str and xs :: "str list"
    by (simp add: distinct_map inj_on_def)
  show "distinct (map (committed_key (playbook_class D)) (committed_playbooks sha256 b))"
    unfolding pk by (rule pair) (use assms in \<open>simp add: bundle_ok_def\<close>)
  show "distinct (map (committed_key (note_class D)) (committed_notes sha256 b))"
    unfolding nk by (rule pair) (use assms in \<open>simp add: bundle_ok_def\<close>)
  show "good_playbook (cm_upsert x)" if "x \<in> set (committed_playbooks sha256 b)"
    using assms that by (auto simp: bundle_ok_def committed_playbooks_def list_all_iff)
  show "committed_key (note_class D) y \<notin> committed_key (playbook_class D) ` set (committed_playbooks sha256 b)"
    by (auto simp: committed_key_def note_class_def playbook_class_def)
  show "committed_key (playbook_class D) x \<notin> committed_key (note_class D) ` set (committed_notes sha256 b)"
    by (auto simp: committed_key_def note_class_def playbook_class_def)
qed

text \<open>Everything committed is stored as committed, and recorded.\<close>

definition all_settled :: "(str \<Rightarrow> str) \<Rightarrow> 'h hook \<Rightarrow> AssetBundle \<Rightarrow> 'h FakeDevin Org \<Rightarrow> bool" where
  "all_settled sha256 hook b o1 \<longleftrightarrow>
     (\<forall>x\<in>set (committed_playbooks sha256 b). \<exists>i. playbooks.settled hook x i o1) \<and>
     (\<forall>x\<in>set (committed_notes sha256 b). \<exists>i. knowledge.settled hook x i o1)"

lemma first_run:
  assumes ok: "org_ok o0" "bundle_ok b" and sharing: "no_sharing sha256 hook b o0"
    and run: "sync (fake_assets hook) sha256 clock b False o0 = (Inr rep, o2)"
  obtains pa na where "rep = \<lparr>sy_actions = pa @ na, sy_dry_run = False\<rparr>" "org_ok o2"
    "list_all2 (\<lambda>x a. \<exists>i. recorded (playbook_class (fake_assets hook)) x a i \<and> playbooks.settled hook x i o2) (committed_playbooks sha256 b) pa"
    "list_all2 (\<lambda>x a. \<exists>i. recorded (note_class (fake_assets hook)) x a i \<and> knowledge.settled hook x i o2) (committed_notes sha256 b) na"
proof -
  let ?D = "fake_assets hook" and ?s = "og_remote o0" and ?old = "og_rows o0"
  let ?ps = "committed_playbooks sha256 b" and ?ns = "committed_notes sha256 b"
  have up: "answering ?s" and rows: "rows_ok ?old" using ok(1) by (simp_all add: org_ok_def)
  obtain o1 where o1: "sync ?D sha256 clock b False o0 =
       (let rows = row_ids ?old; D = ?D in
        op_bind (op_map (sync_asset (playbook_class D) clock False rows (remote_dict pb_playbook_id (map snd (fv_playbooks ?s)))) ?ps) (\<lambda>pa.
        op_bind (op_map (sync_asset (note_class D) clock False rows (remote_dict nt_note_id (map snd (fv_notes ?s)))) ?ns) (\<lambda>na.
        op_ret \<lparr>sy_actions = pa @ na, sy_dry_run = False\<rparr>)) o1)"
    "og_rows o1 = ?old" "answering (og_remote o1)" "fv_playbooks (og_remote o1) = fv_playbooks ?s" "fv_notes (og_remote o1) = fv_notes ?s"
    by (rule listed [OF up])
  from run obtain pa na oc where
    pa: "op_map (sync_asset (playbook_class ?D) clock False (row_ids ?old) (remote_dict pb_playbook_id (map snd (fv_playbooks ?s)))) ?ps o1 = (Inr pa, oc)" and
    na: "op_map (sync_asset (note_class ?D) clock False (row_ids ?old) (remote_dict nt_note_id (map snd (fv_notes ?s)))) ?ns oc = (Inr na, o2)" and
    rep: "rep = \<lparr>sy_actions = pa @ na, sy_dry_run = False\<rparr>"
    unfolding o1(1) Let_def by (auto simp: op_bind_def op_ret_def split: prod.splits sum.splits)
  have refl: "same_objects ?old ?old" by (auto simp: same_objects_def)
  have first: "playbooks.completed hook ?old (map snd (fv_playbooks ?s)) ?ps pa o1 oc"
  proof (rule playbooks.run_effect [OF rows])
    show "op_map (sync_asset (playbook_class ?D) clock False (row_ids ?old)
        (remote_dict (ac_rid (playbook_class ?D)) (map snd (fv_playbooks ?s)))) ?ps o1 = (Inr pa, oc)"
      using pa by (simp add: playbook_class_def)
    show "r \<in> set (map snd (fv_playbooks (og_remote o1)))"
      if "found_at (playbook_class ?D) ?old (map snd (fv_playbooks ?s)) x = Inr (Some r)" for x r
      using playbooks.found_mem [OF playbooks.distinct_ids [OF up] that] o1(4) by simp
  qed (use o1 rows refl committed_keys [OF ok(2)] sharing in \<open>auto simp: no_sharing_def\<close>)
  have second: "knowledge.completed hook ?old (map snd (fv_notes ?s)) ?ns na oc o2"
  proof (rule knowledge.run_effect [OF rows])
    show "op_map (sync_asset (note_class ?D) clock False (row_ids ?old)
        (remote_dict (ac_rid (note_class ?D)) (map snd (fv_notes ?s)))) ?ns oc = (Inr na, o2)"
      using na by (simp add: note_class_def)
    show "r \<in> set (map snd (fv_notes (og_remote oc)))"
      if "found_at (note_class ?D) ?old (map snd (fv_notes ?s)) x = Inr (Some r)" for x r
      using knowledge.found_mem [OF knowledge.distinct_ids [OF up] that] first o1(5) by (simp add: playbooks.completed_def Let_def)
    show "row_object (row_ids ?old) (committed_key (note_class ?D) x) (og_rows oc) =
        row_object (row_ids ?old) (committed_key (note_class ?D) x) ?old" if "x \<in> set ?ns" for x
    proof (rule row_object_same [OF rows rows refl])
      show "rows_ok (og_rows oc)" "same_objects ?old (og_rows oc)"
        using first o1(2) by (simp_all add: playbooks.completed_def Let_def)
      show "w \<in> set (og_rows oc) \<longleftrightarrow> w \<in> set ?old" if "asset_key w = committed_key (note_class ?D) x" for w
        using first o1(2) committed_keys(4) [OF ok(2)] that unfolding playbooks.completed_def Let_def by metis
    qed
  qed (use first o1(2) committed_keys [OF ok(2)] sharing in \<open>auto simp: no_sharing_def playbooks.completed_def Let_def\<close>)
  have books: "fv_playbooks (og_remote o2) = fv_playbooks (og_remote oc)"
    and frame: "\<forall>w. asset_key w \<notin> committed_key (note_class ?D) ` set ?ns \<longrightarrow> (w \<in> set (og_rows o2) \<longleftrightarrow> w \<in> set (og_rows oc))"
    using second by (simp_all add: knowledge.completed_def Let_def)
  have kept: "w \<in> set (og_rows o2)" if "asset_key w = committed_key (playbook_class ?D) x" "w \<in> set (og_rows oc)" for w x
    using frame committed_keys(5) [OF ok(2), of ?D x sha256] that by simp
  have "playbooks.settled hook x i o2" if "playbooks.settled hook x i oc" for x i
    using that kept unfolding playbooks.settled_def books by blast
  then have "list_all2 (\<lambda>x a. \<exists>i. recorded (playbook_class (fake_assets hook)) x a i \<and> playbooks.settled hook x i o2) ?ps pa"
    using first unfolding playbooks.completed_def Let_def list_all2_conv_all_nth by (metis nth_mem)
  moreover have "org_ok o2" using second by (simp add: knowledge.completed_def Let_def org_ok_def)
  ultimately show thesis using that rep second by (simp add: knowledge.completed_def Let_def)
qed

lemma second_run:
  assumes ok: "org_ok o2" "bundle_ok b" and st: "all_settled sha256 hook b o2"
  shows "\<exists>as o3. sync (fake_assets hook) sha256 clock b False o2 = (Inr \<lparr>sy_actions = as, sy_dry_run = False\<rparr>, o3) \<and>
    list_all (\<lambda>a. aa_action a = AC_unchanged) as \<and>
    fv_playbooks (og_remote o3) = fv_playbooks (og_remote o2) \<and> fv_notes (og_remote o3) = fv_notes (og_remote o2)"
proof -
  let ?D = "fake_assets hook" and ?s = "og_remote o2" and ?old = "og_rows o2"
  let ?ps = "committed_playbooks sha256 b" and ?ns = "committed_notes sha256 b"
  have up: "answering ?s" and rows: "rows_ok ?old" using ok(1) by (simp_all add: org_ok_def)
  obtain o1 where o1: "sync ?D sha256 clock b False o2 =
       (let rows = row_ids ?old; D = ?D in
        op_bind (op_map (sync_asset (playbook_class D) clock False rows (remote_dict pb_playbook_id (map snd (fv_playbooks ?s)))) ?ps) (\<lambda>pa.
        op_bind (op_map (sync_asset (note_class D) clock False rows (remote_dict nt_note_id (map snd (fv_notes ?s)))) ?ns) (\<lambda>na.
        op_ret \<lparr>sy_actions = pa @ na, sy_dry_run = False\<rparr>)) o1)"
    "og_rows o1 = ?old" "answering (og_remote o1)" "fv_playbooks (og_remote o1) = fv_playbooks ?s" "fv_notes (og_remote o1) = fv_notes ?s"
    by (rule listed [OF up])
  have refl: "same_objects ?old ?old" by (auto simp: same_objects_def)
  have pst: "committed_key (playbook_class ?D) x \<in> asset_key ` set ?old \<and> (\<exists>i. playbooks.settled hook x i o1)"
    if x: "x \<in> set ?ps" for x
  proof -
    from st x obtain i where "playbooks.settled hook x i o2" unfolding all_settled_def by blast
    then show ?thesis unfolding playbooks.settled_def o1(2,4) by (metis image_eqI)
  qed
  have nst: "committed_key (note_class ?D) x \<in> asset_key ` set ?old \<and> (\<exists>i. knowledge.settled hook x i o1)"
    if x: "x \<in> set ?ns" for x
  proof -
    from st x obtain i where "knowledge.settled hook x i o2" unfolding all_settled_def by blast
    then show ?thesis unfolding knowledge.settled_def o1(2,5) by (metis image_eqI)
  qed
  have "\<exists>pa oc. op_map (sync_asset (playbook_class ?D) clock False (row_ids ?old)
        (remote_dict (ac_rid (playbook_class ?D)) (map snd (fv_playbooks (og_remote o1))))) ?ps o1 = (Inr pa, oc) \<and>
      playbooks.all_unchanged pa \<and> og_remote oc = og_remote o1 \<and> rows_ok (og_rows oc) \<and> same_objects ?old (og_rows oc) \<and>
      list_all2 (\<lambda>x a. \<exists>i. recorded (playbook_class ?D) x a i \<and> playbooks.settled hook x i o1) ?ps pa \<and>
      (\<forall>w. asset_key w \<notin> committed_key (playbook_class ?D) ` set ?ps \<longrightarrow> (w \<in> set (og_rows oc) \<longleftrightarrow> w \<in> set (og_rows o1)))"
    by (rule playbooks.run_again [OF o1(3) rows]) (use o1(2) rows refl pst committed_keys(1) [OF ok(2)] in auto)
  then obtain pa oc where pa: "op_map (sync_asset (playbook_class ?D) clock False (row_ids ?old)
        (remote_dict (ac_rid (playbook_class ?D)) (map snd (fv_playbooks (og_remote o1))))) ?ps o1 = (Inr pa, oc)"
      "playbooks.all_unchanged pa" "og_remote oc = og_remote o1" "rows_ok (og_rows oc)" "same_objects ?old (og_rows oc)"
      "\<forall>w. asset_key w \<notin> committed_key (playbook_class ?D) ` set ?ps \<longrightarrow> (w \<in> set (og_rows oc) \<longleftrightarrow> w \<in> set (og_rows o1))"
    by blast
  have kept: "w \<in> set (og_rows oc)" if "asset_key w = committed_key (note_class ?D) x" "w \<in> set (og_rows o1)" for w x
    using pa(6) committed_keys(4) [OF ok(2), of ?D x sha256] that by simp
  have nst': "committed_key (note_class ?D) x \<in> asset_key ` set ?old \<and> (\<exists>i. knowledge.settled hook x i oc)"
    if x: "x \<in> set ?ns" for x
    using nst [OF x] kept unfolding knowledge.settled_def pa(3) by blast
  have "\<exists>na od. op_map (sync_asset (note_class ?D) clock False (row_ids ?old)
        (remote_dict (ac_rid (note_class ?D)) (map snd (fv_notes (og_remote o1))))) ?ns oc = (Inr na, od) \<and>
      knowledge.all_unchanged na \<and> og_remote od = og_remote o1 \<and> rows_ok (og_rows od) \<and> same_objects ?old (og_rows od) \<and>
      list_all2 (\<lambda>x a. \<exists>i. recorded (note_class ?D) x a i \<and> knowledge.settled hook x i oc) ?ns na \<and>
      (\<forall>w. asset_key w \<notin> committed_key (note_class ?D) ` set ?ns \<longrightarrow> (w \<in> set (og_rows od) \<longleftrightarrow> w \<in> set (og_rows oc)))"
    by (rule knowledge.run_again [OF o1(3) rows pa(4,5,3)]) (use nst' committed_keys(2) [OF ok(2)] in auto)
  then obtain na od where na: "op_map (sync_asset (note_class ?D) clock False (row_ids ?old)
        (remote_dict (ac_rid (note_class ?D)) (map snd (fv_notes (og_remote o1))))) ?ns oc = (Inr na, od)"
      "knowledge.all_unchanged na" "og_remote od = og_remote o1"
    by blast
  have "sync ?D sha256 clock b False o2 = (Inr \<lparr>sy_actions = pa @ na, sy_dry_run = False\<rparr>, od)"
    using pa(1) na(1) unfolding o1(1) o1(4,5) by (simp add: op_bind_def op_ret_def playbook_class_def note_class_def)
  then show ?thesis using pa(2) na(2,3) o1(4,5) by (auto simp: playbooks.all_unchanged_def knowledge.all_unchanged_def)
qed

section \<open>What the report and the check say\<close>

lemma known_part:
  "list_all2 (\<lambda>x a. \<exists>i. recorded C x a i \<and> P x i) xs as \<Longrightarrow> (\<And>x i. P x i \<Longrightarrow> f x = i) \<Longrightarrow>
     concat (map (\<lambda>a. if aa_asset_kind a = k then (case aa_remote_id a of Some i \<Rightarrow> [(aa_slug a, i)] | None \<Rightarrow> []) else []) as) =
     (if ac_kind C = k then map (\<lambda>x. (cm_slug x, f x)) xs else [])"
  by (induction rule: list_all2_induct) (auto simp: recorded_def)

lemma sync_settles_assets:
  assumes ok: "org_ok o0" "bundle_ok b" and sharing: "no_sharing sha256 hook b o0"
    and run: "sync (fake_assets hook) sha256 clock b False o0 = (Inr rep, o2)"
  shows "assets_ok (persisted_assets sha256 (og_rows o2) b) \<and>
      map fst (pa_playbook_ids (persisted_assets sha256 (og_rows o2) b)) = map fst (bu_playbooks b) \<and>
      map snd (pa_playbook_ids (persisted_assets sha256 (og_rows o2) b)) = map snd (known_ids ''playbook'' rep) \<and>
      pa_knowledge_ids (persisted_assets sha256 (og_rows o2) b) = report_knowledge_ids rep \<and>
      org_ok o2 \<and> all_settled sha256 hook b o2"
proof -
  let ?D = "fake_assets hook" and ?ps = "committed_playbooks sha256 b" and ?ns = "committed_notes sha256 b" and ?t = "og_rows o2"
  obtain pa na where rep: "rep = \<lparr>sy_actions = pa @ na, sy_dry_run = False\<rparr>" and ok2: "org_ok o2"
    and p: "list_all2 (\<lambda>x a. \<exists>i. recorded (playbook_class ?D) x a i \<and> playbooks.settled hook x i o2) ?ps pa"
    and n: "list_all2 (\<lambda>x a. \<exists>i. recorded (note_class ?D) x a i \<and> knowledge.settled hook x i o2) ?ns na"
    by (rule first_run [OF ok sharing run])
  have rows: "rows_ok ?t" using ok2 by (simp add: org_ok_def)
  have all: "all_settled sha256 hook b o2"
    using p n unfolding all_settled_def list_all2_conv_all_nth by (metis in_set_conv_nth)
  have prow: "has_row ?t (''playbook'', cm_slug x) i (cm_sha x)" if "playbooks.settled hook x i o2" for x i
    using that unfolding playbooks.settled_def has_row_def committed_key_def by (simp add: playbook_class_def)
  have nrow: "has_row ?t (''knowledge'', cm_slug x) i (cm_sha x)" if "knowledge.settled hook x i o2" for x i
    using that unfolding knowledge.settled_def has_row_def committed_key_def by (simp add: note_class_def)
  let ?f = "\<lambda>x. row_remote ?t (''playbook'', cm_slug x)" and ?g = "\<lambda>x. row_remote ?t (''knowledge'', cm_slug x)"
  have pf: "?f x = i" if "playbooks.settled hook x i o2" for x i using row_remote_eq [OF rows prow [OF that]] .
  have ng: "?g x = i" if "knowledge.settled hook x i o2" for x i using row_remote_eq [OF rows nrow [OF that]] .
  have kp: "known_ids ''playbook'' rep = map (\<lambda>x. (cm_slug x, ?f x)) ?ps"
    using known_part [OF p, of ?f "''playbook''"] known_part [OF n, of ?g "''playbook''"] pf ng
    by (simp add: known_ids_def rep playbook_class_def note_class_def)
  have kn: "known_ids ''knowledge'' rep = map (\<lambda>x. (cm_slug x, ?g x)) ?ns"
    using known_part [OF p, of ?f "''knowledge''"] known_part [OF n, of ?g "''knowledge''"] pf ng
    by (simp add: known_ids_def rep playbook_class_def note_class_def)
  have "persisted_assets sha256 ?t b =
    \<lparr>pa_playbook_ids = map (\<lambda>(kind, spec). (kind, row_remote ?t (''playbook'', ps_slug spec))) (bu_playbooks b),
     pa_knowledge_ids = map (\<lambda>spec. row_remote ?t (''knowledge'', ks_slug spec)) (bu_knowledge b),
     pa_drifted = [], pa_missing = []\<rparr>"
  proof (rule persisted_rows [OF rows])
    show "distinct (map fst (bu_playbooks b))" using ok(2) by (simp add: bundle_ok_def)
    show "\<exists>i. has_row ?t (''playbook'', ps_slug spec) i (playbook_content_sha256 sha256 spec)"
      if "(kind, spec) \<in> set (bu_playbooks b)" for kind spec
      using all that prow unfolding all_settled_def committed_playbooks_def by fastforce
    show "\<exists>i. has_row ?t (''knowledge'', ks_slug spec) i (note_content_sha256 sha256 spec)"
      if "spec \<in> set (bu_knowledge b)" for spec
      using all that nrow unfolding all_settled_def committed_notes_def by fastforce
  qed
  then show ?thesis
    using ok2 all by (simp add: assets_ok_def report_knowledge_ids_def kp kn committed_playbooks_def committed_notes_def
        comp_def case_prod_beta')
qed

section \<open>A dry run\<close>

lemma dry_asset: "snd (sync_asset C clock True rows listing x o1) = o1"
  by (auto simp: sync_asset_def reconcile_asset_def op_bind_def op_lift_def op_ret_def Let_def split: sum.splits option.splits)

lemma dry_assets: "snd (op_map (sync_asset C clock True rows listing) xs o1) = o1"
proof (induction xs)
  case (Cons x xs)
  show ?case
    using dry_asset [of C clock rows listing x o1] Cons
    by (auto simp: op_bind_def op_ret_def split: prod.splits sum.splits)
qed (simp add: op_ret_def)

lemma dry_run_writes_nothing:
  "answering (og_remote o0) \<Longrightarrow> sync (fake_assets hook) sha256 clock b True o0 = (r, o2) \<Longrightarrow>
     og_rows o2 = og_rows o0 \<and> fv_playbooks (og_remote o2) = fv_playbooks (og_remote o0) \<and>
     fv_notes (og_remote o2) = fv_notes (og_remote o0)"
proof (rule listed [of o0 hook sha256 clock b True])
  fix o1
  let ?m = "\<lambda>C l xs. op_map (sync_asset C clock True (row_ids (og_rows o0)) l) xs"
  assume "sync (fake_assets hook) sha256 clock b True o0 = (r, o2)"
    "sync (fake_assets hook) sha256 clock b True o0 =
       (let rows = row_ids (og_rows o0); D = fake_assets hook in
        op_bind (op_map (sync_asset (playbook_class D) clock True rows (remote_dict pb_playbook_id (map snd (fv_playbooks (og_remote o0)))))
          (committed_playbooks sha256 b)) (\<lambda>pa.
        op_bind (op_map (sync_asset (note_class D) clock True rows (remote_dict nt_note_id (map snd (fv_notes (og_remote o0)))))
          (committed_notes sha256 b)) (\<lambda>na.
        op_ret \<lparr>sy_actions = pa @ na, sy_dry_run = True\<rparr>)) o1)"
    and o1: "og_rows o1 = og_rows o0" "answering (og_remote o1)" "fv_playbooks (og_remote o1) = fv_playbooks (og_remote o0)"
      "fv_notes (og_remote o1) = fv_notes (og_remote o0)"
  then have "o2 = snd (op_bind (?m (playbook_class (fake_assets hook)) (remote_dict pb_playbook_id (map snd (fv_playbooks (og_remote o0))))
      (committed_playbooks sha256 b)) (\<lambda>pa. op_bind (?m (note_class (fake_assets hook)) (remote_dict nt_note_id (map snd (fv_notes (og_remote o0))))
      (committed_notes sha256 b)) (\<lambda>na. op_ret \<lparr>sy_actions = pa @ na, sy_dry_run = True\<rparr>)) o1)"
    unfolding Let_def by (metis snd_conv)
  also have "\<dots> = o1"
    using dry_assets [of "playbook_class (fake_assets hook)" clock "row_ids (og_rows o0)"
        "remote_dict pb_playbook_id (map snd (fv_playbooks (og_remote o0)))" "committed_playbooks sha256 b" o1]
      dry_assets [of "note_class (fake_assets hook)" clock "row_ids (og_rows o0)"
        "remote_dict nt_note_id (map snd (fv_notes (og_remote o0)))" "committed_notes sha256 b" o1]
    by (auto simp: op_bind_def op_ret_def split: prod.splits sum.splits)
  finally show ?thesis using o1 by simp
qed

section \<open>What a loaded bundle guarantees\<close>

definition playbook_ok :: "Kind \<Rightarrow> PlaybookSpec \<Rightarrow> bool" where
  "playbook_ok kind p \<longleftrightarrow>
     ps_kind p = kind \<and> ps_slug p = PLAYBOOK_SLUGS kind \<and> path_stem (ps_path p) = PLAYBOOK_SLUGS kind \<and>
     pu_schema (ps_upsert p) = Some (schema_fields kind) \<and> (\<exists>m. pu_macro (ps_upsert p) = Some m \<and> is_macro m)"

lemma schemas_keys_once: "keys_once (JObj (schema_fields kind))"
  by (cases kind) (simp_all, code_simp+)

lemma playbook_ok_good: "playbook_ok kind p \<Longrightarrow> good_playbook (ps_upsert p)"
  using schemas_keys_once [of kind] by (simp add: playbook_ok_def good_playbook_def)

lemma slugs_inj: "PLAYBOOK_SLUGS k = PLAYBOOK_SLUGS k' \<longleftrightarrow> k = k'"
  by (cases k; cases k') simp_all

definition playbooks_ok :: "(Kind, PlaybookSpec) dict \<Rightarrow> bool" where
  "playbooks_ok d \<longleftrightarrow> distinct (map fst d) \<and> (\<forall>(k, p)\<in>set d. playbook_ok k p)"

lemma set_dict_set_pair: "set (dict_set k v d) \<subseteq> insert (k, v) (set d)"
  by (induction k v d rule: dict_set.induct) auto

lemma load_playbook_ok: "playbooks_ok d \<Longrightarrow> load_playbook d file = Inr d' \<Longrightarrow> playbooks_ok d'"
proof -
  assume d: "playbooks_ok d" and "load_playbook d file = Inr d'"
  then obtain kind path title macro body where
    d': "d' = dict_set kind \<lparr>ps_slug = PLAYBOOK_SLUGS kind, ps_kind = kind,
        ps_upsert = \<lparr>pu_title = title, pu_body = body, pu_macro = Some macro, pu_schema = Some (schema_fields kind)\<rparr>,
        ps_path = path\<rparr> d" (is "_ = dict_set _ ?p _") and "path_stem path = PLAYBOOK_SLUGS kind" "is_macro macro"
    by (auto simp: load_playbook_def ebind_def Let_def split: prod.splits sum.splits option.splits if_splits)
  then have "playbook_ok kind ?p" by (simp add: playbook_ok_def)
  then show ?thesis
    using d set_dict_set_pair [of kind ?p d] dict_set_distinct [of d kind ?p] unfolding d' playbooks_ok_def by auto
qed

lemma fold_sum_keeps: "P a \<Longrightarrow> (\<And>a x a'. P a \<Longrightarrow> f a x = Inr a' \<Longrightarrow> P a') \<Longrightarrow> fold_sum f a xs = Inr b \<Longrightarrow> P b"
  by (induction f a xs rule: fold_sum.induct) (auto simp: ebind_def split: sum.splits)

lemma loaded_bundle:
  assumes "load_assets t base = Inr b"
  shows "playbooks_ok (bu_playbooks b)" "\<forall>kind. \<exists>p. dict_get (bu_playbooks b) kind = Some p"
    "distinct (map (\<lambda>p. or_str (pu_macro (ps_upsert (snd p))) []) (bu_playbooks b))"
    "bu_knowledge b \<noteq> []" "distinct (map (\<lambda>s. nu_name (ks_upsert s)) (bu_knowledge b))"
proof -
  from assms obtain d ks where
    d: "fold_sum load_playbook [] (md_files t (path_join base PLAYBOOKS_DIR)) = Inr d" and b: "b = \<lparr>bu_playbooks = d, bu_knowledge = ks\<rparr>"
    and c: "filter (\<lambda>k. dict_get d k = None) all_kind_list = []" "distinct (map (\<lambda>p. or_str (pu_macro (ps_upsert (snd p))) []) d)"
      "ks \<noteq> []" "distinct (map (\<lambda>s. nu_name (ks_upsert s)) ks)"
    by (auto simp: load_assets_def ebind_def Let_def split: sum.splits if_splits)
  have "playbooks_ok d" by (rule fold_sum_keeps [OF _ load_playbook_ok d]) (simp add: playbooks_ok_def)
  then show "playbooks_ok (bu_playbooks b)" by (simp add: b)
  have "kind \<in> set all_kind_list" for kind by (cases kind) (simp_all add: all_kind_list_def)
  with c(1) show "\<forall>kind. \<exists>p. dict_get (bu_playbooks b) kind = Some p" by (auto simp: b filter_empty_conv)
qed (use assms in \<open>auto simp: load_assets_def ebind_def Let_def split: sum.splits if_splits\<close>)

lemma loaded_bundle_ok:
  assumes "load_assets t base = Inr b" "distinct (map ks_slug (bu_knowledge b))"
  shows "bundle_ok b"
proof -
  note ok = loaded_bundle(1) [OF assms(1)]
  then have "map (ps_slug \<circ> snd) (bu_playbooks b) = map PLAYBOOK_SLUGS (map fst (bu_playbooks b))"
    by (auto simp: playbooks_ok_def playbook_ok_def)
  moreover have "distinct (map PLAYBOOK_SLUGS (map fst (bu_playbooks b)))"
    using ok by (simp add: playbooks_ok_def distinct_map inj_on_def slugs_inj)
  ultimately have "distinct (map (ps_slug \<circ> snd) (bu_playbooks b))" by (simp only:)
  then show ?thesis
    using ok assms(2) playbook_ok_good by (auto simp: bundle_ok_def playbooks_ok_def list_all_iff)
qed

end
