(* ===== verification/Extract.thy ===== *)
theory Extract
  imports Files Ops
begin

text \<open>
  \<^verbatim>\<open>github/artifacts.py\<close>: unpacking an Actions artifact. The zip format is the library's: \<open>unzip\<close> gives
  the member names and contents of an archive, or what \<open>ZipFile\<close> raises. A disk is a dictionary from
  paths to contents and holds no links.
\<close>

definition artifact_error :: "str \<Rightarrow> exn" where
  "artifact_error msg = Exn ''ArtifactError'' msg"

text \<open>\<open>Path.resolve()\<close> without links: the parts from the root, each dot-dot removing the part before it.\<close>

fun resolve_parts :: "str list \<Rightarrow> str list \<Rightarrow> str list" where
  "resolve_parts done [] = done"
| "resolve_parts done (p # ps) = (if p = ''..'' then resolve_parts (butlast done) ps else resolve_parts (done @ [p]) ps)"

definition resolve :: "str \<Rightarrow> str \<Rightarrow> str list" where
  "resolve cwd p = resolve_parts [] (path_parts (if path_root p \<noteq> [] then p else cwd @ ''/'' @ p))"

definition is_relative_to :: "str list \<Rightarrow> str list \<Rightarrow> bool" where
  "is_relative_to target base \<longleftrightarrow> take (length base) target = base"

text \<open>
  \<open>extractall\<close> writes a member below the destination, under its name without empty parts and dots; a
  name that ends with a slash is a directory.
\<close>

definition member_parts :: "str \<Rightarrow> str list" where
  "member_parts name = filter (\<lambda>p. p \<noteq> [] \<and> p \<noteq> ''.'' \<and> p \<noteq> ''..'') (split_on CHR ''/'' name)"

definition member_path :: "str \<Rightarrow> str \<Rightarrow> str" where
  "member_path dest name = dest @ concat (map (\<lambda>p. ''/'' @ p) (member_parts name))"

definition extract_member :: "str \<Rightarrow> (str, str) dict \<Rightarrow> str \<times> str \<Rightarrow> (str, str) dict" where
  "extract_member dest t m =
     (case m of (name, content) \<Rightarrow> if ends_with name ''/'' then t else dict_set (member_path dest name) content t)"

fun check_members :: "str \<Rightarrow> str \<Rightarrow> (str \<times> str) list \<Rightarrow> exn + unit" where
  "check_members cwd dest [] = Inr ()"
| "check_members cwd dest ((name, _) # ms) =
     (if is_relative_to (resolve cwd (path_join dest name)) (resolve cwd dest) then check_members cwd dest ms
      else Inl (artifact_error (''artifact member escapes destination: '' @ name)))"

definition extract_artifact_zip ::
    "(str \<Rightarrow> exn + (str \<times> str) list) \<Rightarrow> str \<Rightarrow> str \<Rightarrow> str \<Rightarrow> ((str, str) dict, str) op" where
  "extract_artifact_zip unzip cwd payload dest =
     op_bind (op_put (dict_set (with_suffix dest ''.zip'') payload)) (\<lambda>_.
     op_bind (op_lift (case unzip payload of
         Inl e \<Rightarrow> Inl (if exn_type e = ''BadZipFile'' then artifact_error (''artifact is not a zip archive: '' @ exn_msg e) else e)
       | Inr ms \<Rightarrow> Inr ms)) (\<lambda>members.
     op_bind (op_lift (check_members cwd dest members)) (\<lambda>_.
     op_bind (op_put (\<lambda>t. foldl (extract_member dest) t members)) (\<lambda>_. op_ret dest))))"

section \<open>Nothing is written outside the destination\<close>

lemma extract_frame:
  "\<not> starts_with p (dest @ ''/'') \<Longrightarrow> p \<noteq> dest \<Longrightarrow> dict_get (foldl (extract_member dest) t ms) p = dict_get t p"
proof (induction ms arbitrary: t)
  case (Cons m ms)
  have "member_path dest name \<noteq> p" for name
  proof
    assume p: "member_path dest name = p"
    show False
    proof (cases "member_parts name")
      case Nil
      with p Cons.prems(2) show False by (simp add: member_path_def)
    next
      case (Cons x xs)
      with p have "p = (dest @ ''/'') @ x @ concat (map (\<lambda>p. ''/'' @ p) xs)" by (simp add: member_path_def)
      with Cons.prems(1) show False by (metis starts_with_append)
    qed
  qed
  then have "dict_get (extract_member dest t m) p = dict_get t p"
    by (auto simp: extract_member_def dict_get_set split: prod.splits)
  with Cons show ?case by simp
qed simp

lemma extract_writes_below:
  assumes "extract_artifact_zip unzip cwd payload dest t = (r, t')"
    and "\<not> starts_with p (dest @ ''/'')" "p \<noteq> dest" "p \<noteq> with_suffix dest ''.zip''"
  shows "dict_get t' p = dict_get t p"
  using assms(1) extract_frame [OF assms(2,3)] assms(4)
  by (auto simp: extract_artifact_zip_def op_defs dict_get_set split: sum.splits)

lemma extract_refuses:
  assumes "unzip payload = Inr ms" "(name, content) \<in> set ms"
    "\<not> is_relative_to (resolve cwd (path_join dest name)) (resolve cwd dest)"
  shows "\<exists>e. extract_artifact_zip unzip cwd payload dest t = (Inl e, dict_set (with_suffix dest ''.zip'') payload t) \<and>
    exn_type e = ''ArtifactError''"
proof -
  have "\<exists>e. check_members cwd dest ms = Inl e \<and> exn_type e = ''ArtifactError''"
    using assms(2,3) by (induction ms) (auto simp: artifact_error_def)
  then show ?thesis using assms(1) by (auto simp: extract_artifact_zip_def op_defs)
qed

end
