(* ===== verification/Rest.thy ===== *)
theory Rest
  imports Ci Extract Policy
begin

text \<open>
  \<^verbatim>\<open>github/rest.py\<close>: the live GitHub client over an HTTP connection. What answers a request is a
  parameter; the client keeps what it has sent and how long it has slept. Every operation of the class
  is defined, with its retries, its pages and its guard on the repository.
\<close>

section \<open>The connection\<close>

record Request =
  rq_method :: str
  rq_path :: str
  rq_params :: "(str, json) dict"
  rq_body :: "json option"
  rq_accept :: str

record Response =
  rp_status :: nat
  rp_ratelimit_remaining :: "str option"
  rp_text :: str

record Wire =
  ht_sent :: "Request list"
  ht_slept :: "nat list"

text \<open>
  \<open>nw_answer\<close> gives the answer to the last of the requests sent, or the \<open>TransportError\<close> it ends with;
  \<open>nw_json\<close> is \<open>Response.json\<close>, \<open>nw_fromiso\<close> \<open>datetime.fromisoformat\<close> and \<open>nw_unzip\<close> \<open>ZipFile\<close>.
\<close>

record Net =
  nw_answer :: "Request list \<Rightarrow> exn + Response"
  nw_json :: "str \<Rightarrow> exn + json"
  nw_fromiso :: "str \<Rightarrow> exn + int"
  nw_unzip :: "str \<Rightarrow> exn + (str \<times> str) list"

definition send :: "Net \<Rightarrow> Request \<Rightarrow> (Wire, exn + Response) op" where
  "send N q = (\<lambda>w. let sent = ht_sent w @ [q] in (Inr (nw_answer N sent), w\<lparr>ht_sent := sent\<rparr>))"

definition sleep :: "nat \<Rightarrow> (Wire, unit) op" where
  "sleep seconds = op_put (\<lambda>w. w\<lparr>ht_slept := ht_slept w @ [seconds]\<rparr>)"

definition PER_PAGE :: nat where "PER_PAGE = 100"
definition MAX_PAGES :: nat where "MAX_PAGES = 30"

definition github_error :: "str \<Rightarrow> exn" where
  "github_error msg = Exn ''GitHubError'' msg"

definition assert_allowed :: "str \<Rightarrow> (Wire, unit) op" where
  "assert_allowed repo =
     (if repo \<in> set REPO_ALLOWLIST then op_ret ()
      else op_raise (github_error (''refusing to touch '' @ repr_str repo @ '': not in '' @ repr_str_list (sort REPO_ALLOWLIST))))"

text \<open>\<open>_request\<close>: four attempts; the argument counts the ones left after this one.\<close>

definition throttled :: "Response \<Rightarrow> bool" where
  "throttled r \<longleftrightarrow> rp_status r \<in> {502, 503, 504} \<or> (rp_status r \<in> {403, 429} \<and> rp_ratelimit_remaining r = Some ''0'')"

definition settle :: "Request \<Rightarrow> Response \<Rightarrow> exn + Response" where
  "settle q r =
     (if 400 \<le> rp_status r
      then Inl (github_error (rq_method q @ '' '' @ rq_path q @ '' -> '' @ show_nat (rp_status r) @ '': '' @ take 500 (rp_text r)))
      else Inr r)"

fun attempts :: "Net \<Rightarrow> Request \<Rightarrow> nat \<Rightarrow> (Wire, Response) op" where
  "attempts N q 0 = op_bind (send N q) (\<lambda>answer. op_lift
     (case answer of
        Inl e \<Rightarrow> Inl (github_error (rq_method q @ '' '' @ rq_path q @ '': '' @ exn_type e))
      | Inr r \<Rightarrow> settle q r))"
| "attempts N q (Suc left) = op_bind (send N q) (\<lambda>answer.
     case answer of
       Inl e \<Rightarrow> op_bind (sleep (2 ^ (2 - left))) (\<lambda>_. attempts N q left)
     | Inr r \<Rightarrow>
         if throttled r then op_bind (sleep (2 ^ (2 - left))) (\<lambda>_. attempts N q left)
         else op_lift (settle q r))"

definition request :: "Net \<Rightarrow> Request \<Rightarrow> (Wire, Response) op" where
  "request N q = attempts N q 3"

definition plain :: "str \<Rightarrow> str \<Rightarrow> Request" where
  "plain meth path = \<lparr>rq_method = meth, rq_path = path, rq_params = [], rq_body = None, rq_accept = ''application/vnd.github+json''\<rparr>"

definition with_body :: "str \<Rightarrow> str \<Rightarrow> (str \<times> json) list \<Rightarrow> Request" where
  "with_body meth path props = (plain meth path)\<lparr>rq_body := Some (JObj props)\<rparr>"

definition with_params :: "str \<Rightarrow> (str, json) dict \<Rightarrow> Request" where
  "with_params path params = (plain ''GET'' path)\<lparr>rq_params := params\<rparr>"

definition request_json :: "Net \<Rightarrow> Request \<Rightarrow> (Wire, json) op" where
  "request_json N q = op_bind (request N q) (\<lambda>r. op_lift (nw_json N (rp_text r)))"

definition repo_path :: "str \<Rightarrow> str \<Rightarrow> str" where
  "repo_path repo rest = ''/repos/'' @ repo @ ''/'' @ rest"

section \<open>Pages\<close>

text \<open>
  A listing, page by page: \<open>n\<close> pages are left, and a page shorter than \<open>PER_PAGE\<close> is the last one.
  \<open>batch\<close> takes the page's elements from the decoded response.
\<close>

fun pages :: "Net \<Rightarrow> str \<Rightarrow> (str, json) dict \<Rightarrow> (json \<Rightarrow> exn + json list) \<Rightarrow> exn \<Rightarrow> nat \<Rightarrow> (Wire, json list) op" where
  "pages N path params batch too_many 0 = op_raise too_many"
| "pages N path params batch too_many (Suc n) =
     op_bind (request_json N (with_params path
        (params @ [(''per_page'', JInt (int PER_PAGE)), (''page'', JInt (int (MAX_PAGES - n)))]))) (\<lambda>data.
     op_bind (op_lift (batch data)) (\<lambda>items.
     if length items < PER_PAGE then op_ret items
     else op_bind (pages N path params batch too_many n) (\<lambda>rest. op_ret (items @ rest))))"

definition keyed :: "str \<Rightarrow> json \<Rightarrow> exn + json list" where
  "keyed k data = ebind (get_or data k (JArr [])) iter_of"

definition paginate :: "Net \<Rightarrow> str \<Rightarrow> str option \<Rightarrow> (str, json) dict \<Rightarrow> (Wire, json list) op" where
  "paginate N path k params =
     pages N path params (case k of Some key \<Rightarrow> keyed key | None \<Rightarrow> iter_of)
       (github_error (''GET '' @ path @ '': more than '' @ show_nat MAX_PAGES @ '' pages'')) MAX_PAGES"

section \<open>Decoding\<close>

definition text_of :: "json \<Rightarrow> str \<Rightarrow> exn + str" where
  "text_of data k = ebind (item_of data k) (\<lambda>v. Inr (py_str v))"

definition number_of :: "json \<Rightarrow> str \<Rightarrow> exn + nat" where
  "number_of data k = ebind (item_of data k) (\<lambda>v. ebind (py_int v) (\<lambda>n. Inr (nat n)))"

text \<open>\<open>int(data.get(k, 0))\<close>, \<open>str(data.get(k) or "")\<close>, and \<open>str(data[k]) if data.get(k) else None\<close>.\<close>

definition count_field :: "json \<Rightarrow> str \<Rightarrow> exn + nat" where
  "count_field data k = ebind (get_or data k (JInt 0)) (\<lambda>v. ebind (py_int v) (\<lambda>n. Inr (nat n)))"

definition text_or_empty :: "json \<Rightarrow> str \<Rightarrow> exn + str" where
  "text_or_empty data k = ebind (get_of data k) (\<lambda>v. Inr (py_str (or_else v (JStr []))))"

definition text_opt :: "json \<Rightarrow> str \<Rightarrow> exn + str option" where
  "text_opt data k = ebind (get_of data k) (\<lambda>v. Inr (if jtruthy v then Some (py_str v) else None))"

definition field_opt :: "json \<Rightarrow> str \<Rightarrow> exn + str option" where
  "field_opt data k = ebind (get_of data k) (opt_str_field k)"

definition timestamp :: "Net \<Rightarrow> json \<Rightarrow> exn + int option" where
  "timestamp N v =
     (case v of
        JStr s \<Rightarrow> if s = [] then Inr None else ebind (nw_fromiso N (replace_char CHR ''Z'' ''+00:00'' s)) (\<lambda>t. Inr (Some t))
      | _ \<Rightarrow> Inr None)"

definition label_name :: "json \<Rightarrow> exn + str" where
  "label_name lb = (case lb of JObj _ \<Rightarrow> text_of lb ''name'' | _ \<Rightarrow> Inr (py_str lb))"

definition issue_of :: "str \<Rightarrow> json \<Rightarrow> exn + Issue" where
  "issue_of repo data =
     ebind (get_or data ''labels'' (JArr [])) (\<lambda>ls. ebind (iter_of ls) (\<lambda>ls. ebind (emap (\<lambda>_. label_name) 0 ls) (\<lambda>labels.
     ebind (number_of data ''number'') (\<lambda>number. ebind (text_of data ''html_url'') (\<lambda>url.
     ebind (text_of data ''title'') (\<lambda>title. ebind (text_of data ''state'') (\<lambda>state.
     Inr \<lparr>is_repo = repo, is_number = number, is_url = url, is_title = title, is_state = state, is_labels = fromkeys labels\<rparr>)))))))"

definition login_of :: "json \<Rightarrow> exn + str" where
  "login_of data = ebind (get_of data ''user'') (\<lambda>u. text_or_empty (or_else u (JObj [])) ''login'')"

definition pull_of :: "Net \<Rightarrow> str \<Rightarrow> json \<Rightarrow> exn + PullRequestInfo" where
  "pull_of N repo data =
     ebind (number_of data ''number'') (\<lambda>number. ebind (text_of data ''html_url'') (\<lambda>url.
     ebind (text_of data ''title'') (\<lambda>title. ebind (text_of data ''state'') (\<lambda>state.
     ebind (get_or data ''merged'' (JBool False)) (\<lambda>merged. ebind (field_opt data ''merge_commit_sha'') (\<lambda>merge_sha.
     ebind (item_of data ''base'') (\<lambda>base. ebind (text_of base ''ref'') (\<lambda>base_ref.
     ebind (item_of data ''head'') (\<lambda>head. ebind (text_of head ''ref'') (\<lambda>head_ref.
     ebind (get_of head ''repo'') (\<lambda>head_repo. ebind (get_of (or_else head_repo (JObj [])) ''full_name'') (\<lambda>full_name.
     ebind (text_of head ''sha'') (\<lambda>head_sha. ebind (login_of data) (\<lambda>author.
     ebind (get_of data ''merged_at'') (\<lambda>when. ebind (timestamp N when) (\<lambda>merged_at.
     Inr \<lparr>pi_repo = repo, pi_number = number, pi_url = url, pi_title = title, pi_state = state, pi_merged = jtruthy merged,
          pi_merge_commit_sha = merge_sha, pi_base_ref = base_ref, pi_head_ref = head_ref,
          pi_head_repo = py_str (or_else full_name (JStr repo)), pi_head_sha = head_sha, pi_author = author,
          pi_merged_at = merged_at\<rparr>))))))))))))))))"

definition diff_file_of :: "json \<Rightarrow> exn + DiffFile" where
  "diff_file_of f =
     ebind (text_of f ''filename'') (\<lambda>name. ebind (text_of f ''status'') (\<lambda>status. ebind (field_opt f ''previous_filename'') (\<lambda>previous.
     Inr \<lparr>df_filename = name, df_status = status, df_previous_filename = previous\<rparr>)))"

definition review_of :: "Net \<Rightarrow> json \<Rightarrow> exn + Review" where
  "review_of N r =
     ebind (login_of r) (\<lambda>author. ebind (text_of r ''state'') (\<lambda>state. ebind (text_or_empty r ''commit_id'') (\<lambda>commit_sha.
     ebind (get_of r ''submitted_at'') (\<lambda>when. ebind (timestamp N when) (\<lambda>submitted.
     Inr \<lparr>rv_author = author, rv_state = state, rv_commit_sha = commit_sha, rv_submitted_at = submitted\<rparr>)))))"

definition check_run_of :: "json \<Rightarrow> exn + CheckRun" where
  "check_run_of cr =
     ebind (text_of cr ''name'') (\<lambda>name. ebind (text_of cr ''status'') (\<lambda>status.
     ebind (field_opt cr ''conclusion'') (\<lambda>conclusion. ebind (field_opt cr ''html_url'') (\<lambda>url.
     Inr \<lparr>cr_name = name, cr_status = status, cr_conclusion = conclusion, cr_url = url\<rparr>))))"

record CommitStatus =
  st_context :: str
  st_state :: str
  st_description :: "str option"
  st_target_url :: "str option"

definition commit_status_of :: "json \<Rightarrow> exn + CommitStatus" where
  "commit_status_of s =
     ebind (text_of s ''context'') (\<lambda>context. ebind (text_of s ''state'') (\<lambda>state.
     ebind (field_opt s ''description'') (\<lambda>description. ebind (field_opt s ''target_url'') (\<lambda>url.
     Inr \<lparr>st_context = context, st_state = state, st_description = description, st_target_url = url\<rparr>))))"

definition workflow_run_of :: "Net \<Rightarrow> json \<Rightarrow> exn + WorkflowRunInfo" where
  "workflow_run_of N data =
     ebind (number_of data ''id'') (\<lambda>i. ebind (get_of data ''run_attempt'') (\<lambda>attempt. ebind (py_int (or_else attempt (JInt 1))) (\<lambda>attempt.
     ebind (text_or_empty data ''event'') (\<lambda>event. ebind (text_or_empty data ''status'') (\<lambda>status.
     ebind (text_opt data ''conclusion'') (\<lambda>conclusion. ebind (text_opt data ''head_branch'') (\<lambda>branch.
     ebind (text_or_empty data ''head_sha'') (\<lambda>head_sha. ebind (text_or_empty data ''html_url'') (\<lambda>url.
     ebind (get_of data ''updated_at'') (\<lambda>when. ebind (timestamp N when) (\<lambda>_.
     Inr \<lparr>wr_id = i, wr_run_attempt = nat attempt, wr_event = event, wr_status = status, wr_conclusion = conclusion,
          wr_head_branch = branch, wr_head_sha = head_sha, wr_url = url\<rparr>)))))))))))"

text \<open>The size of an artifact is decoded, and not used further.\<close>

definition artifact_of :: "json \<Rightarrow> exn + ArtifactInfo" where
  "artifact_of a =
     ebind (number_of a ''id'') (\<lambda>i. ebind (text_of a ''name'') (\<lambda>name.
     ebind (get_of a ''size_in_bytes'') (\<lambda>size. ebind (py_int (or_else size (JInt 0))) (\<lambda>_.
     ebind (get_or a ''expired'' (JBool False)) (\<lambda>expired. ebind (text_opt a ''digest'') (\<lambda>digest.
     Inr \<lparr>ai_id = i, ai_name = name, ai_expired = jtruthy expired, ai_digest = digest\<rparr>))))))"

definition decode_all :: "(json \<Rightarrow> exn + 'a) \<Rightarrow> json list \<Rightarrow> (Wire, 'a list) op" where
  "decode_all f items = op_lift (emap (\<lambda>_. f) 0 items)"

section \<open>Issues\<close>

definition rest_create_issue :: "Net \<Rightarrow> str \<Rightarrow> str \<Rightarrow> str \<Rightarrow> str list \<Rightarrow> (Wire, Issue) op" where
  "rest_create_issue N repo title body labels =
     op_bind (assert_allowed repo) (\<lambda>_.
     op_bind (request_json N (with_body ''POST'' (repo_path repo ''issues'')
        [(''title'', JStr title), (''body'', JStr body), (''labels'', JArr (map JStr labels))])) (\<lambda>data.
     op_lift (issue_of repo data)))"

definition issue_path :: "str \<Rightarrow> nat \<Rightarrow> str \<Rightarrow> str" where
  "issue_path repo number rest = repo_path repo (''issues/'' @ show_nat number @ rest)"

definition rest_get_issue :: "Net \<Rightarrow> str \<Rightarrow> nat \<Rightarrow> (Wire, Issue) op" where
  "rest_get_issue N repo number =
     op_bind (assert_allowed repo) (\<lambda>_. op_bind (request_json N (plain ''GET'' (issue_path repo number []))) (\<lambda>data.
     op_lift (issue_of repo data)))"

definition rest_add_labels :: "Net \<Rightarrow> str \<Rightarrow> nat \<Rightarrow> str list \<Rightarrow> (Wire, unit) op" where
  "rest_add_labels N repo number labels =
     op_bind (assert_allowed repo) (\<lambda>_.
     op_bind (request N (with_body ''POST'' (issue_path repo number ''/labels'') [(''labels'', JArr (map JStr labels))])) (\<lambda>_. op_ret ()))"

text \<open>The calls that bypass \<open>_request\<close> send once; a \<open>TransportError\<close> is not caught.\<close>

definition send_once :: "Net \<Rightarrow> Request \<Rightarrow> (Wire, Response) op" where
  "send_once N q = op_bind (send N q) op_lift"

definition rest_remove_label :: "Net \<Rightarrow> str \<Rightarrow> nat \<Rightarrow> str \<Rightarrow> (Wire, unit) op" where
  "rest_remove_label N repo number label =
     op_bind (assert_allowed repo) (\<lambda>_.
     op_bind (send_once N (plain ''DELETE'' (issue_path repo number (''/labels/'' @ label)))) (\<lambda>r.
     if rp_status r \<notin> {200, 404}
     then op_raise (github_error (''remove label '' @ repr_str label @ '' -> '' @ show_nat (rp_status r) @ '': '' @ take 300 (rp_text r)))
     else op_ret ()))"

definition rest_close_issue :: "Net \<Rightarrow> str \<Rightarrow> nat \<Rightarrow> (Wire, unit) op" where
  "rest_close_issue N repo number =
     op_bind (assert_allowed repo) (\<lambda>_.
     op_bind (request N (with_body ''PATCH'' (issue_path repo number [])
        [(''state'', JStr ''closed''), (''state_reason'', JStr ''completed'')])) (\<lambda>_. op_ret ()))"

definition rest_reopen_issue :: "Net \<Rightarrow> str \<Rightarrow> nat \<Rightarrow> (Wire, unit) op" where
  "rest_reopen_issue N repo number =
     op_bind (assert_allowed repo) (\<lambda>_.
     op_bind (request N (with_body ''PATCH'' (issue_path repo number []) [(''state'', JStr ''open'')])) (\<lambda>_. op_ret ()))"

text \<open>A row with the key \<open>pull_request\<close> is a pull request.\<close>

definition is_issue_row :: "json \<Rightarrow> bool" where
  "is_issue_row row = (case row of JObj fs \<Rightarrow> map_of fs ''pull_request'' = None | _ \<Rightarrow> True)"

definition rest_find_issues :: "Net \<Rightarrow> str \<Rightarrow> str \<Rightarrow> str \<Rightarrow> (Wire, Issue list) op" where
  "rest_find_issues N repo label state =
     op_bind (assert_allowed repo) (\<lambda>_.
     op_bind (paginate N (repo_path repo ''issues'') None [(''labels'', JStr label), (''state'', JStr state)]) (\<lambda>rows.
     decode_all (issue_of repo) (filter is_issue_row rows)))"

section \<open>Branches and files\<close>

definition rest_branch_head :: "Net \<Rightarrow> str \<Rightarrow> str \<Rightarrow> (Wire, str) op" where
  "rest_branch_head N repo branch =
     op_bind (assert_allowed repo) (\<lambda>_.
     op_bind (request_json N (plain ''GET'' (repo_path repo (''git/ref/heads/'' @ branch)))) (\<lambda>data.
     op_lift (ebind (item_of data ''object'') (\<lambda>obj. text_of obj ''sha''))))"

definition rest_compare :: "Net \<Rightarrow> str \<Rightarrow> str \<Rightarrow> str \<Rightarrow> (Wire, Compare) op" where
  "rest_compare N repo base head =
     op_bind (assert_allowed repo) (\<lambda>_.
     op_bind (request_json N (with_params (repo_path repo (''compare/'' @ base @ ''...'' @ head)) [(''per_page'', JInt 1)])) (\<lambda>data.
     op_lift (ebind (text_of data ''status'') (\<lambda>status. ebind (count_field data ''ahead_by'') (\<lambda>ahead. ebind (count_field data ''behind_by'') (\<lambda>behind.
       Inr \<lparr>cmp_status = status, cmp_ahead_by = ahead, cmp_behind_by = behind\<rparr>))))))"

text \<open>\<open>base64.b64decode\<close>: characters outside the alphabet are skipped; the first complete padding ends the text.\<close>

definition b64_value :: "char \<Rightarrow> nat option" where
  "b64_value c =
     (let n = (of_char c :: nat) in
      if 65 \<le> n \<and> n \<le> 90 then Some (n - 65) else if 97 \<le> n \<and> n \<le> 122 then Some (n - 71)
      else if 48 \<le> n \<and> n \<le> 57 then Some (n + 4) else if n = 43 then Some 62 else if n = 47 then Some 63 else None)"

fun b64_decode :: "nat \<Rightarrow> nat \<Rightarrow> nat \<Rightarrow> str \<Rightarrow> exn + str" where
  "b64_decode quad left pads [] =
     (if quad = 0 then Inr [] else Inl (Exn ''Error'' ''Incorrect padding''))"
| "b64_decode quad left pads (c # s) =
     (if c = CHR ''='' then
        if 2 \<le> quad \<and> 4 \<le> quad + Suc pads then Inr []
        else b64_decode quad left (if 2 \<le> quad then Suc pads else pads) s
      else case b64_value c of
        None \<Rightarrow> b64_decode quad left pads s
      | Some v \<Rightarrow>
          if quad = 0 then b64_decode 1 v 0 s
          else ebind (b64_decode (Suc quad mod 4) (v mod 4 ^ (3 - quad)) 0 s)
            (\<lambda>rest. Inr (char_of (left * 4 ^ quad + v div 4 ^ (3 - quad)) # rest)))"

definition rest_get_file :: "Net \<Rightarrow> str \<Rightarrow> str \<Rightarrow> str \<Rightarrow> (Wire, BranchFile option) op" where
  "rest_get_file N repo path ref =
     op_bind (assert_allowed repo) (\<lambda>_.
     let q = with_params (repo_path repo (''contents/'' @ path)) [(''ref'', JStr ref)] in
     op_bind (send_once N q) (\<lambda>r.
     if rp_status r = 404 then op_ret None
     else if 400 \<le> rp_status r
     then op_raise (github_error (''GET contents '' @ path @ ''@'' @ ref @ '' -> '' @ show_nat (rp_status r)))
     else op_bind (op_lift (nw_json N (rp_text r))) (\<lambda>data.
       if jget data ''type'' \<noteq> Some (JStr ''file'') then op_ret None
       else op_bind
         (let c = json_or_null (jget data ''content'') in
          if jget data ''encoding'' = Some (JStr ''base64'') \<and> jtruthy c
          then op_lift (ebind (as_str ''decode'' c) (b64_decode 0 0 0))
          else op_bind (request N (q\<lparr>rq_accept := ''application/vnd.github.raw+json''\<rparr>)) (\<lambda>raw. op_ret (rp_text raw)))
         (\<lambda>content. op_lift (ebind (text_of data ''sha'') (\<lambda>sha. Inr (Some \<lparr>bf_path = path, bf_sha = sha, bf_content = content\<rparr>)))))))"

definition rest_delete_branch :: "Net \<Rightarrow> str \<Rightarrow> str \<Rightarrow> (Wire, unit) op" where
  "rest_delete_branch N repo branch =
     op_bind (assert_allowed repo) (\<lambda>_.
     op_bind (send_once N (plain ''DELETE'' (repo_path repo (''git/refs/heads/'' @ branch)))) (\<lambda>r.
     if rp_status r \<notin> {204, 404, 422}
     then op_raise (github_error (''delete branch '' @ branch @ '' -> '' @ show_nat (rp_status r) @ '': '' @ take 300 (rp_text r)))
     else op_ret ()))"

section \<open>Pull requests\<close>

definition rest_create_pull_request :: "Net \<Rightarrow> str \<Rightarrow> str \<Rightarrow> str \<Rightarrow> str \<Rightarrow> str \<Rightarrow> bool \<Rightarrow> (Wire, PullRequestInfo) op" where
  "rest_create_pull_request N repo title body head base draft =
     op_bind (assert_allowed repo) (\<lambda>_.
     op_bind (request_json N (with_body ''POST'' (repo_path repo ''pulls'')
        [(''title'', JStr title), (''body'', JStr body), (''head'', JStr head), (''base'', JStr base), (''draft'', JBool draft)])) (\<lambda>data.
     op_lift (pull_of N repo data)))"

definition pull_path :: "str \<Rightarrow> nat \<Rightarrow> str \<Rightarrow> str" where
  "pull_path repo number rest = repo_path repo (''pulls/'' @ show_nat number @ rest)"

definition rest_get_pull_request :: "Net \<Rightarrow> str \<Rightarrow> nat \<Rightarrow> (Wire, PullRequestInfo) op" where
  "rest_get_pull_request N repo number =
     op_bind (assert_allowed repo) (\<lambda>_. op_bind (request_json N (plain ''GET'' (pull_path repo number []))) (\<lambda>data.
     op_lift (pull_of N repo data)))"

definition rest_pull_request_from_url :: "Net \<Rightarrow> str \<Rightarrow> (Wire, PullRequestInfo) op" where
  "rest_pull_request_from_url N url =
     (case parse_pr_url url of
        None \<Rightarrow> op_raise (github_error (''not a GitHub pull request url: '' @ repr_str (take 200 url)))
      | Some (repo, number) \<Rightarrow> op_bind (assert_allowed repo) (\<lambda>_. rest_get_pull_request N repo number))"

definition rest_close_pull_request :: "Net \<Rightarrow> str \<Rightarrow> nat \<Rightarrow> (Wire, unit) op" where
  "rest_close_pull_request N repo number =
     op_bind (assert_allowed repo) (\<lambda>_.
     op_bind (request N (with_body ''PATCH'' (pull_path repo number []) [(''state'', JStr ''closed'')])) (\<lambda>_. op_ret ()))"

definition rest_list_pr_files :: "Net \<Rightarrow> str \<Rightarrow> nat \<Rightarrow> (Wire, DiffFile list) op" where
  "rest_list_pr_files N repo number =
     op_bind (assert_allowed repo) (\<lambda>_.
     op_bind (paginate N (pull_path repo number ''/files'') None []) (decode_all diff_file_of))"

definition rest_list_pr_reviews :: "Net \<Rightarrow> str \<Rightarrow> nat \<Rightarrow> (Wire, Review list) op" where
  "rest_list_pr_reviews N repo number =
     op_bind (assert_allowed repo) (\<lambda>_.
     op_bind (paginate N (pull_path repo number ''/reviews'') None []) (decode_all (review_of N)))"

definition rest_comment_issue :: "Net \<Rightarrow> str \<Rightarrow> nat \<Rightarrow> str \<Rightarrow> (Wire, unit) op" where
  "rest_comment_issue N repo number body =
     op_bind (assert_allowed repo) (\<lambda>_.
     op_bind (request N (with_body ''POST'' (issue_path repo number ''/comments'') [(''body'', JStr body)])) (\<lambda>_. op_ret ()))"

definition rest_comment_pull_request :: "Net \<Rightarrow> str \<Rightarrow> nat \<Rightarrow> str \<Rightarrow> (Wire, unit) op" where
  "rest_comment_pull_request N repo number body = rest_comment_issue N repo number body"

section \<open>Checks and workflow runs\<close>

definition rest_list_check_runs :: "Net \<Rightarrow> str \<Rightarrow> str \<Rightarrow> (Wire, CheckRun list) op" where
  "rest_list_check_runs N repo sha =
     op_bind (assert_allowed repo) (\<lambda>_.
     op_bind (paginate N (repo_path repo (''commits/'' @ sha @ ''/check-runs'')) (Some ''check_runs'') []) (decode_all check_run_of))"

definition decoded :: "(json \<Rightarrow> exn + 'a) \<Rightarrow> str \<Rightarrow> json \<Rightarrow> exn + json list" where
  "decoded f k data = ebind (keyed k data) (\<lambda>items. ebind (emap (\<lambda>_. f) 0 items) (\<lambda>_. Inr items))"

text \<open>
  Three listings decode each page before they ask for the next one. \<open>list_workflow_runs\<close> is a
  generator; this is what a consumer gets that reads all of it.
\<close>

definition rest_list_commit_statuses :: "Net \<Rightarrow> str \<Rightarrow> str \<Rightarrow> (Wire, CommitStatus list) op" where
  "rest_list_commit_statuses N repo sha =
     op_bind (assert_allowed repo) (\<lambda>_.
     op_bind (pages N (repo_path repo (''commits/'' @ sha @ ''/status'')) [] (decoded commit_status_of ''statuses'')
        (github_error (''statuses for '' @ sha @ '': more than '' @ show_nat MAX_PAGES @ '' pages'')) MAX_PAGES)
       (decode_all commit_status_of))"

definition given :: "str \<Rightarrow> str option \<Rightarrow> (str, json) dict" where
  "given k v = (case (if v = Some [] then None else v) of Some s \<Rightarrow> [(k, JStr s)] | None \<Rightarrow> [])"

definition rest_list_workflow_runs ::
    "Net \<Rightarrow> str \<Rightarrow> str \<Rightarrow> str option \<Rightarrow> str option \<Rightarrow> str option \<Rightarrow> (Wire, WorkflowRunInfo list) op" where
  "rest_list_workflow_runs N repo workflow_file head_sha branch status =
     op_bind (assert_allowed repo) (\<lambda>_.
     let path = repo_path repo (''actions/workflows/'' @ workflow_file @ ''/runs'') in
     op_bind (pages N path (given ''head_sha'' head_sha @ given ''branch'' branch @ given ''status'' status)
        (decoded (workflow_run_of N) ''workflow_runs'')
        (github_error (''GET '' @ path @ '': more than '' @ show_nat MAX_PAGES @ '' pages'')) MAX_PAGES)
       (decode_all (workflow_run_of N)))"

definition rest_list_run_artifacts :: "Net \<Rightarrow> str \<Rightarrow> nat \<Rightarrow> (Wire, ArtifactInfo list) op" where
  "rest_list_run_artifacts N repo run_id =
     op_bind (assert_allowed repo) (\<lambda>_.
     let path = repo_path repo (''actions/runs/'' @ show_nat run_id @ ''/artifacts'') in
     op_bind (pages N path [] (decoded artifact_of ''artifacts'')
        (github_error (''GET '' @ path @ '': more than '' @ show_nat MAX_PAGES @ '' pages'')) MAX_PAGES)
       (decode_all artifact_of))"

text \<open>The download also writes to the disk, which this operation returns.\<close>

definition rest_download_artifact ::
    "Net \<Rightarrow> str \<Rightarrow> (str, str) dict \<Rightarrow> str \<Rightarrow> nat \<Rightarrow> str \<Rightarrow> (Wire, (exn + str) \<times> (str, str) dict) op" where
  "rest_download_artifact N cwd t repo artifact_id dest =
     op_bind (assert_allowed repo) (\<lambda>_.
     op_bind (request N (plain ''GET'' (repo_path repo (''actions/artifacts/'' @ show_nat artifact_id @ ''/zip'')))) (\<lambda>r.
     op_ret (extract_artifact_zip (nw_unzip N) cwd (rp_text r) dest t)))"

end
