(* ===== verification/RestFacts.thy ===== *)
theory RestFacts
  imports Rest
begin

text \<open>
  What holds of every conversation with GitHub: only repositories of the allowlist are addressed, a
  request is repeated at most three times, and a listing is read to its end or refused.
\<close>

section \<open>Every request names an allowed repository\<close>

definition names_allowed :: "Request \<Rightarrow> bool" where
  "names_allowed q \<longleftrightarrow> (\<exists>repo\<in>set REPO_ALLOWLIST. \<exists>rest. rq_path q = repo_path repo rest)"

definition sent_allowed :: "Wire \<Rightarrow> Wire \<Rightarrow> bool" where
  "sent_allowed w w' \<longleftrightarrow> (\<exists>new. ht_sent w' = ht_sent w @ new \<and> list_all names_allowed new)"

interpretation allowed: op_relation sent_allowed
proof
  fix w u v :: Wire
  show "sent_allowed w w" by (auto simp: sent_allowed_def)
  show "sent_allowed w u \<Longrightarrow> sent_allowed u v \<Longrightarrow> sent_allowed w v"
    unfolding sent_allowed_def by (metis append_assoc list_all_append)
qed

lemmas allowed_intros = allowed.op_ret_keeps allowed.op_lift_keeps allowed.op_raise_keeps allowed.op_bind_keeps
  allowed.op_if_keeps allowed.op_option_keeps

lemma guard_keeps:
  "(repo \<in> set REPO_ALLOWLIST \<Longrightarrow> op_keeps sent_allowed m) \<Longrightarrow> op_keeps sent_allowed (op_bind (assert_allowed repo) (\<lambda>_. m))"
  unfolding assert_allowed_def
  by (cases "repo \<in> set REPO_ALLOWLIST") (auto simp: op_keeps_def op_defs allowed.refl)

lemma send_keeps: "names_allowed q \<Longrightarrow> op_keeps sent_allowed (send N q)"
  by (auto simp: op_keeps_def send_def sent_allowed_def Let_def)

lemma sleep_keeps: "op_keeps sent_allowed (sleep n)"
  by (simp add: op_keeps_def sleep_def op_put_def sent_allowed_def)

lemma attempts_keeps: "names_allowed q \<Longrightarrow> op_keeps sent_allowed (attempts N q n)"
proof (induction n)
  case 0
  then show ?case by (auto intro!: allowed_intros send_keeps)
next
  case (Suc n)
  have "op_keeps sent_allowed (case answer of Inl e \<Rightarrow> op_bind (sleep (2 ^ (2 - n))) (\<lambda>_. attempts N q n)
     | Inr r \<Rightarrow> if throttled r then op_bind (sleep (2 ^ (2 - n))) (\<lambda>_. attempts N q n) else op_lift (settle q r))" for answer
    by (cases answer) (auto intro!: allowed_intros sleep_keeps Suc)
  then show ?case using Suc.prems by (auto intro!: allowed_intros send_keeps)
qed

lemma request_keeps: "names_allowed q \<Longrightarrow> op_keeps sent_allowed (request N q)"
  unfolding request_def by (rule attempts_keeps)

lemma request_json_keeps: "names_allowed q \<Longrightarrow> op_keeps sent_allowed (request_json N q)"
  unfolding request_json_def by (intro allowed_intros request_keeps)

lemma send_once_keeps: "names_allowed q \<Longrightarrow> op_keeps sent_allowed (send_once N q)"
  unfolding send_once_def by (intro allowed_intros send_keeps)

lemma names_allowed_path:
  "repo \<in> set REPO_ALLOWLIST \<Longrightarrow> names_allowed (plain meth (repo_path repo rest))"
  "repo \<in> set REPO_ALLOWLIST \<Longrightarrow> names_allowed (with_body meth (repo_path repo rest) props)"
  "repo \<in> set REPO_ALLOWLIST \<Longrightarrow> names_allowed (with_params (repo_path repo rest) ps)"
  "names_allowed (q\<lparr>rq_accept := a\<rparr>) = names_allowed q"
  by (auto simp: names_allowed_def plain_def with_body_def with_params_def)

lemma pages_keeps: "repo \<in> set REPO_ALLOWLIST \<Longrightarrow> op_keeps sent_allowed (pages N (repo_path repo rest) params batch e n)"
  by (induction n) (auto intro!: allowed_intros request_json_keeps names_allowed_path)

lemma decode_all_keeps: "op_keeps sent_allowed (decode_all f items)"
  unfolding decode_all_def by (intro allowed_intros)

lemmas call_intros = guard_keeps allowed_intros request_keeps request_json_keeps send_once_keeps names_allowed_path
  pages_keeps decode_all_keeps

lemmas rest_defs = rest_create_issue_def rest_get_issue_def rest_add_labels_def rest_remove_label_def rest_close_issue_def
  rest_reopen_issue_def rest_find_issues_def rest_branch_head_def rest_compare_def rest_delete_branch_def
  rest_create_pull_request_def rest_get_pull_request_def rest_close_pull_request_def
  rest_list_pr_files_def rest_list_pr_reviews_def rest_comment_issue_def rest_comment_pull_request_def
  rest_list_check_runs_def rest_list_commit_statuses_def rest_list_workflow_runs_def rest_list_run_artifacts_def
  rest_download_artifact_def paginate_def issue_path_def pull_path_def Let_def

lemma rest_calls_keep:
  "op_keeps sent_allowed (rest_create_issue N repo title body labels)" "op_keeps sent_allowed (rest_get_issue N repo n)"
  "op_keeps sent_allowed (rest_add_labels N repo n labels)" "op_keeps sent_allowed (rest_remove_label N repo n label)"
  "op_keeps sent_allowed (rest_close_issue N repo n)" "op_keeps sent_allowed (rest_reopen_issue N repo n)"
  "op_keeps sent_allowed (rest_find_issues N repo label state)" "op_keeps sent_allowed (rest_branch_head N repo branch)"
  "op_keeps sent_allowed (rest_compare N repo base head)" "op_keeps sent_allowed (rest_delete_branch N repo branch)"
  "op_keeps sent_allowed (rest_create_pull_request N repo title body head base draft)"
  "op_keeps sent_allowed (rest_get_pull_request N repo n)" "op_keeps sent_allowed (rest_close_pull_request N repo n)"
  "op_keeps sent_allowed (rest_list_pr_files N repo n)" "op_keeps sent_allowed (rest_list_pr_reviews N repo n)"
  "op_keeps sent_allowed (rest_comment_issue N repo n body)" "op_keeps sent_allowed (rest_comment_pull_request N repo n body)"
  "op_keeps sent_allowed (rest_list_check_runs N repo sha)" "op_keeps sent_allowed (rest_list_commit_statuses N repo sha)"
  "op_keeps sent_allowed (rest_list_workflow_runs N repo file head_sha branch' status)"
  "op_keeps sent_allowed (rest_list_run_artifacts N repo n)"
  "op_keeps sent_allowed (rest_download_artifact N cwd t repo n dest)"
  unfolding rest_defs by (intro call_intros; assumption?)+

lemma rest_get_file_keeps: "op_keeps sent_allowed (rest_get_file N repo path ref)"
  unfolding rest_get_file_def Let_def
  by (intro call_intros names_allowed_path(4) [THEN iffD2]; assumption?)+

lemma rest_from_url_keeps: "op_keeps sent_allowed (rest_pull_request_from_url N url)"
  unfolding rest_pull_request_from_url_def
  by (cases "parse_pr_url url") (auto intro!: call_intros rest_calls_keep)

section \<open>Retries\<close>

lemma attempts_effect:
  "n \<le> 3 \<Longrightarrow> attempts N q n w = (r, w') \<Longrightarrow>
     \<exists>k\<le>n. ht_sent w' = ht_sent w @ replicate (Suc k) q \<and> ht_slept w' = ht_slept w @ take k (drop (3 - n) [1, 2, 4]) \<and>
       (\<forall>resp. r = Inr resp \<longrightarrow> rp_status resp < 400 \<and> nw_answer N (ht_sent w') = Inr resp)"
proof (induction n arbitrary: w)
  case 0
  then show ?case by (auto simp: op_defs send_def settle_def Let_def split: sum.splits if_splits)
next
  case (Suc n)
  let ?w1 = "w\<lparr>ht_sent := ht_sent w @ [q]\<rparr>"
  let ?w2 = "?w1\<lparr>ht_slept := ht_slept w @ [2 ^ (2 - n)]\<rparr>"
  have slept: "[2 ^ (2 - n)] @ take k (drop (3 - n) [1, 2, 4]) = take (Suc k) (drop (3 - Suc n) [1, 2, 4::nat])" for k
  proof -
    from Suc.prems(1) consider "n = 0" | "n = 1" | "n = 2" by linarith
    then show ?thesis by cases (simp_all add: numeral_2_eq_2)
  qed
  consider (again) "attempts N q n ?w2 = (r, w')" | (final) "op_lift (case nw_answer N (ht_sent w @ [q]) of Inr x \<Rightarrow> settle q x | Inl e \<Rightarrow> Inl e) ?w1 = (r, w')"
    using Suc.prems(2)
    by (auto simp: op_bind_def send_def sleep_def op_put_def Let_def split: sum.splits if_splits)
  then show ?case
  proof cases
    case again
    from Suc.IH [OF _ again] Suc.prems(1) obtain k where k: "k \<le> n" "ht_sent w' = ht_sent ?w2 @ replicate (Suc k) q"
      "ht_slept w' = ht_slept ?w2 @ take k (drop (3 - n) [1, 2, 4])"
      "\<forall>resp. r = Inr resp \<longrightarrow> rp_status resp < 400 \<and> nw_answer N (ht_sent w') = Inr resp" by auto
    show ?thesis
    proof (intro exI [of _ "Suc k"] conjI)
      show "ht_slept w' = ht_slept w @ take (Suc k) (drop (3 - Suc n) [1, 2, 4])" using k(3) slept [of k] by simp
    qed (use k in auto)
  next
    case final
    then show ?thesis
      by (intro exI [of _ 0]) (auto simp: op_lift_def settle_def split: sum.splits if_splits)
  qed
qed

lemma request_bounded:
  "case request N q w of (r, w') \<Rightarrow>
     \<exists>k\<le>3. ht_sent w' = ht_sent w @ replicate (Suc k) q \<and> ht_slept w' = ht_slept w @ take k [1, 2, 4] \<and>
       (\<forall>resp. r = Inr resp \<longrightarrow> rp_status resp < 400 \<and> nw_answer N (ht_sent w') = Inr resp)"
  using attempts_effect [of 3 N q w] by (cases "request N q w") (auto simp: request_def)

section \<open>Listings\<close>

definition page_request :: "str \<Rightarrow> (str, json) dict \<Rightarrow> nat \<Rightarrow> Request" where
  "page_request path params p = with_params path (params @ [(''per_page'', JInt (int PER_PAGE)), (''page'', JInt (int p))])"

text \<open>The service holds the listing \<open>xs\<close> and serves it in pages of \<open>PER_PAGE\<close>.\<close>

definition serves :: "Net \<Rightarrow> str \<Rightarrow> (str, json) dict \<Rightarrow> (json \<Rightarrow> exn + json list) \<Rightarrow> json list \<Rightarrow> bool" where
  "serves N path params batch xs \<longleftrightarrow>
     (\<forall>sent p. 1 \<le> p \<longrightarrow> (\<exists>r data. nw_answer N (sent @ [page_request path params p]) = Inr r \<and> rp_status r = 200 \<and>
        nw_json N (rp_text r) = Inr data \<and> batch data = Inr (take PER_PAGE (drop (PER_PAGE * (p - 1)) xs))))"

lemma request_answered:
  assumes "nw_answer N (ht_sent w @ [q]) = Inr r" "rp_status r = 200"
  shows "request N q w = (Inr r, w\<lparr>ht_sent := ht_sent w @ [q]\<rparr>)"
proof -
  have "\<not> throttled r" "settle q r = Inr r" using assms(2) by (simp_all add: throttled_def settle_def)
  with assms(1) show ?thesis
    unfolding request_def numeral_3_eq_3 attempts.simps by (simp add: op_bind_def op_lift_def send_def Let_def)
qed

lemma pages_served:
  assumes "serves N path params batch xs"
  shows "n \<le> MAX_PAGES \<Longrightarrow>
    (let ys = drop (PER_PAGE * (MAX_PAGES - n)) xs in
     \<exists>w'. pages N path params batch e n w = (if length ys < PER_PAGE * n then Inr ys else Inl e, w') \<and>
       length (ht_sent w') = length (ht_sent w) + min n (Suc (length ys div PER_PAGE)))"
proof (induction n arbitrary: w)
  case 0
  then show ?case by (simp add: op_raise_def)
next
  case (Suc n)
  let ?p = "MAX_PAGES - n" and ?ys = "drop (PER_PAGE * (MAX_PAGES - Suc n)) xs"
  let ?w1 = "w\<lparr>ht_sent := ht_sent w @ [page_request path params ?p]\<rparr>"
  have p: "1 \<le> ?p" "?p - 1 = MAX_PAGES - Suc n" using Suc.prems by auto
  with assms obtain r data where r: "nw_answer N (ht_sent w @ [page_request path params ?p]) = Inr r" "rp_status r = 200"
    "nw_json N (rp_text r) = Inr data" "batch data = Inr (take PER_PAGE ?ys)"
    unfolding serves_def by metis
  have step: "pages N path params batch e (Suc n) w =
      (if length (take PER_PAGE ?ys) < PER_PAGE then (Inr (take PER_PAGE ?ys), ?w1)
       else op_bind (pages N path params batch e n) (\<lambda>rest. op_ret (take PER_PAGE ?ys @ rest)) ?w1)"
    using request_answered [OF r(1,2)] r(3,4)
    by (simp add: op_bind_def op_lift_def op_ret_def request_json_def page_request_def)
  show ?case
  proof (cases "length ?ys < PER_PAGE")
    case True
    then have "length ?ys < PER_PAGE * Suc n" by simp
    with True step show ?thesis by (auto simp: Let_def)
  next
    case False
    let ?zs = "drop (PER_PAGE * (MAX_PAGES - n)) xs"
    have "PER_PAGE * (MAX_PAGES - n) = PER_PAGE + PER_PAGE * (MAX_PAGES - Suc n)"
      using p by (metis Suc_diff_Suc Suc_le_lessD Suc.prems mult_Suc_right)
    then have zs: "?zs = drop PER_PAGE ?ys" by (simp add: add.commute)
    from Suc.IH [of ?w1] Suc.prems obtain w' where
      w': "pages N path params batch e n ?w1 = (if length ?zs < PER_PAGE * n then Inr ?zs else Inl e, w')"
      "length (ht_sent w') = length (ht_sent ?w1) + min n (Suc (length ?zs div PER_PAGE))"
      unfolding Let_def by auto
    have len: "length ?ys = PER_PAGE + length ?zs" using False unfolding zs by simp
    have "length ?ys div PER_PAGE = Suc (length ?zs div PER_PAGE)"
      unfolding len by (simp add: PER_PAGE_def)
    moreover have "length ?ys < PER_PAGE * Suc n \<longleftrightarrow> length ?zs < PER_PAGE * n" unfolding len by simp
    moreover have "take PER_PAGE ?ys @ ?zs = ?ys" unfolding zs by (rule append_take_drop_id)
    moreover have "pages N path params batch e (Suc n) w =
        op_bind (pages N path params batch e n) (\<lambda>rest. op_ret (take PER_PAGE ?ys @ rest)) ?w1"
      using step False by simp
    ultimately show ?thesis using w' by (simp add: op_bind_def op_ret_def Let_def)
  qed
qed

lemma listing_read_whole:
  assumes "serves N path params batch xs"
  shows "\<exists>w'. pages N path params batch e MAX_PAGES w = (if length xs < PER_PAGE * MAX_PAGES then Inr xs else Inl e, w') \<and>
    length (ht_sent w') = length (ht_sent w) + min MAX_PAGES (Suc (length xs div PER_PAGE))"
  using pages_served [OF assms, of MAX_PAGES e w] by (simp add: Let_def)

end
