(* ===== verification/DevinRest.thy ===== *)
theory DevinRest
  imports Rest Sync
begin

text \<open>
  \<^verbatim>\<open>devin/rest.py\<close>: the live Devin client. It shares the connection of \<open>Rest\<close>; the models its answers
  are validated against are pydantic's, so \<open>model_validate\<close> is a parameter for each of them.
\<close>

section \<open>The client\<close>

text \<open>Each validator gives the model or the message of the \<open>ValidationError\<close>.\<close>

record DevinNet =
  dn_net :: Net
  dn_org :: str
  dn_session :: "json \<Rightarrow> str + SessionSnapshot"
  dn_review :: "json \<Rightarrow> str + ReviewSnapshot"
  dn_playbook :: "json \<Rightarrow> str + PlaybookRecord"
  dn_note :: "json \<Rightarrow> str + NoteRecord"

definition RETRY_STATUSES :: "nat list" where "RETRY_STATUSES = [429, 502, 503, 504]"
definition PAGE_SIZE :: nat where "PAGE_SIZE = 100"
definition DEVIN_MAX_PAGES :: nat where "DEVIN_MAX_PAGES = 20"

definition devin_error :: "str \<Rightarrow> exn" where
  "devin_error msg = Exn ''DevinError'' msg"

definition check_org :: "str \<Rightarrow> exn + unit" where
  "check_org org =
     (if starts_with org ''org-'' then Inr ()
      else Inl (devin_error (''organization id must start with '' @ repr_str ''org-'' @ '', got '' @ repr_str (take 8 org))))"

definition problem :: "Net \<Rightarrow> Response \<Rightarrow> str" where
  "problem N r =
     (case nw_json N (rp_text r) of
        Inl _ \<Rightarrow> take 300 (rp_text r)
      | Inr data \<Rightarrow> take 300 (py_str
          (case data of
             JObj fs \<Rightarrow> or_else (or_else (json_or_null (map_of fs ''detail'')) (json_or_null (map_of fs ''title''))) data
           | _ \<Rightarrow> data)))"

definition devin_settle :: "Net \<Rightarrow> Request \<Rightarrow> bool \<Rightarrow> Response \<Rightarrow> exn + Response" where
  "devin_settle N q allow_404 r =
     (if rp_status r = 404 \<and> allow_404 then Inr r
      else if 400 \<le> rp_status r
      then Inl (devin_error (rq_method q @ '' '' @ rq_path q @ '' -> '' @ show_nat (rp_status r) @ '': '' @ problem N r))
      else Inr r)"

fun devin_attempts :: "Net \<Rightarrow> Request \<Rightarrow> bool \<Rightarrow> nat \<Rightarrow> (Wire, Response) op" where
  "devin_attempts N q allow_404 0 = op_bind (send N q) (\<lambda>answer. op_lift
     (case answer of
        Inl e \<Rightarrow> Inl (devin_error (rq_method q @ '' '' @ rq_path q @ '': '' @ exn_type e))
      | Inr r \<Rightarrow> devin_settle N q allow_404 r))"
| "devin_attempts N q allow_404 (Suc left) = op_bind (send N q) (\<lambda>answer.
     case answer of
       Inl e \<Rightarrow> op_bind (sleep (2 ^ (2 - left))) (\<lambda>_. devin_attempts N q allow_404 left)
     | Inr r \<Rightarrow>
         if rp_status r \<in> set RETRY_STATUSES then op_bind (sleep (2 ^ (2 - left))) (\<lambda>_. devin_attempts N q allow_404 left)
         else op_lift (devin_settle N q allow_404 r))"

definition devin_request :: "DevinNet \<Rightarrow> Request \<Rightarrow> bool \<Rightarrow> (Wire, Response) op" where
  "devin_request D q allow_404 = devin_attempts (dn_net D) q allow_404 3"

definition devin_json :: "DevinNet \<Rightarrow> Request \<Rightarrow> (Wire, json) op" where
  "devin_json D q = op_bind (devin_request D q False) (\<lambda>r. op_lift (nw_json (dn_net D) (rp_text r)))"

definition org_path :: "DevinNet \<Rightarrow> str \<Rightarrow> str" where
  "org_path D rest = ''/organizations/'' @ dn_org D @ ''/'' @ rest"

definition devin_get :: "str \<Rightarrow> Request" where
  "devin_get path = (plain ''GET'' path)\<lparr>rq_accept := ''application/json''\<rparr>"

definition devin_send :: "str \<Rightarrow> str \<Rightarrow> (str \<times> json) list \<Rightarrow> Request" where
  "devin_send meth path props = (with_body meth path props)\<lparr>rq_accept := ''application/json''\<rparr>"

definition parse_model :: "str \<Rightarrow> (json \<Rightarrow> str + 'a) \<Rightarrow> json \<Rightarrow> exn + 'a" where
  "parse_model name validate data =
     (case validate data of Inr m \<Rightarrow> Inr m | Inl msg \<Rightarrow> Inl (devin_error (''unexpected '' @ name @ '' shape: '' @ msg)))"

definition snapshot_of :: "DevinNet \<Rightarrow> json \<Rightarrow> exn + SessionSnapshot" where
  "snapshot_of D = parse_model ''SessionResponse'' (dn_session D)"

definition review_snapshot_of :: "DevinNet \<Rightarrow> json \<Rightarrow> exn + ReviewSnapshot" where
  "review_snapshot_of D = parse_model ''ReviewSnapshot'' (dn_review D)"

section \<open>Sessions\<close>

text \<open>Optional fields of the request are sent only when they are not empty.\<close>

definition session_body :: "CreateSessionRequest \<Rightarrow> (str \<times> json) list" where
  "session_body q =
     [(''prompt'', JStr (csr_prompt q)), (''title'', JStr (csr_title q)), (''tags'', JArr (map JStr (csr_tags q))),
      (''max_acu_limit'', JInt (round_half_even (csr_max_acu_limit q))), (''repos'', JArr (map JStr (csr_repos q))),
      (''structured_output_schema'', csr_structured_output_schema q),
      (''structured_output_required'', JBool (csr_structured_output_required q)), (''resumable'', JBool (csr_resumable q))] @
     (case or_none (csr_playbook_id q) of Some i \<Rightarrow> [(''playbook_id'', JStr i)] | None \<Rightarrow> []) @
     (if csr_knowledge_ids q \<noteq> [] then [(''knowledge_ids'', JArr (map JStr (csr_knowledge_ids q)))] else []) @
     (if csr_attachment_urls q \<noteq> [] then [(''attachment_urls'', JArr (map JStr (csr_attachment_urls q)))] else [])"

definition drest_create_session :: "DevinNet \<Rightarrow> CreateSessionRequest \<Rightarrow> (Wire, SessionSnapshot) op" where
  "drest_create_session D q =
     op_bind (devin_json D (devin_send ''POST'' (org_path D ''sessions'') (session_body q))) (\<lambda>data. op_lift (snapshot_of D data))"

definition session_path :: "DevinNet \<Rightarrow> str \<Rightarrow> str \<Rightarrow> str" where
  "session_path D sid rest = org_path D (''sessions/'' @ sid @ rest)"

definition drest_get_session :: "DevinNet \<Rightarrow> str \<Rightarrow> (Wire, SessionSnapshot) op" where
  "drest_get_session D sid =
     op_bind (devin_json D (devin_get (session_path D sid []))) (\<lambda>data. op_lift (snapshot_of D data))"

definition drest_send_message :: "DevinNet \<Rightarrow> str \<Rightarrow> str \<Rightarrow> (Wire, unit) op" where
  "drest_send_message D sid message =
     op_bind (devin_request D (devin_send ''POST'' (session_path D sid ''/messages'') [(''message'', JStr message)]) False) (\<lambda>_. op_ret ())"

definition drest_terminate_session :: "DevinNet \<Rightarrow> str \<Rightarrow> (Wire, SessionSnapshot) op" where
  "drest_terminate_session D sid =
     op_bind (devin_json D ((devin_get (session_path D sid []))\<lparr>rq_method := ''DELETE''\<rparr>)) (\<lambda>data. op_lift (snapshot_of D data))"

text \<open>
  A cursor listing: the \<open>items\<close> of a page and the cursor of the next one, which ends where the page says
  there is none or names none. \<open>n\<close> pages are left.
\<close>

definition page_items :: "json \<Rightarrow> exn + json list" where
  "page_items data = ebind (get_or data ''items'' (JArr [])) iter_of"

definition next_cursor :: "json \<Rightarrow> exn + json option" where
  "next_cursor data =
     ebind (get_of data ''has_next_page'') (\<lambda>more. ebind (get_of data ''end_cursor'') (\<lambda>cursor.
     Inr (if jtruthy more \<and> jtruthy cursor then Some cursor else None)))"

fun cursor_pages ::
    "DevinNet \<Rightarrow> str \<Rightarrow> (str, json) dict \<Rightarrow> ('a \<Rightarrow> json list \<Rightarrow> exn + 'a) \<Rightarrow> 'a \<Rightarrow> ('a \<Rightarrow> exn + 'a) \<Rightarrow> nat \<Rightarrow> (Wire, 'a) op" where
  "cursor_pages D path params step acc too_many 0 = op_lift (too_many acc)"
| "cursor_pages D path params step acc too_many (Suc n) =
     op_bind (devin_json D ((devin_get path)\<lparr>rq_params := params\<rparr>)) (\<lambda>data.
     op_bind (op_lift (ebind (page_items data) (step acc))) (\<lambda>acc'.
     op_bind (op_lift (next_cursor data)) (\<lambda>cursor.
     case cursor of
       None \<Rightarrow> op_ret acc'
     | Some c \<Rightarrow> cursor_pages D path (dict_set ''after'' c params) step acc' too_many n)))"

definition take_session :: "DevinNet \<Rightarrow> str list \<Rightarrow> SessionSnapshot list \<Rightarrow> json list \<Rightarrow> exn + SessionSnapshot list" where
  "take_session D tags acc items =
     ebind (emap (\<lambda>_. snapshot_of D) 0 items) (\<lambda>snaps. Inr (acc @ filter (\<lambda>s. set tags \<subseteq> set (ss_tags s)) snaps))"

definition drest_list_sessions :: "DevinNet \<Rightarrow> str list \<Rightarrow> (Wire, SessionSnapshot list) op" where
  "drest_list_sessions D tags =
     cursor_pages D (org_path D ''sessions'') [(''tags'', JArr (map JStr tags)), (''first'', JInt (int PAGE_SIZE))]
       (take_session D tags) []
       (\<lambda>_. Inl (devin_error (''list_sessions(tags='' @ repr_str_list tags @ ''): more than '' @ show_nat DEVIN_MAX_PAGES @ '' pages'')))
       DEVIN_MAX_PAGES"

text \<open>The multipart body is the file's name and its content.\<close>

definition drest_upload_attachment :: "DevinNet \<Rightarrow> str \<Rightarrow> json \<Rightarrow> (Wire, str) op" where
  "drest_upload_attachment D filename content =
     op_bind (devin_json D ((devin_get (org_path D ''attachments''))\<lparr>rq_method := ''POST'', rq_body := Some (JArr [JStr filename, content])\<rparr>)) (\<lambda>data.
     op_lift (ebind (get_of data ''url'') (\<lambda>url.
       case url of
         JStr u \<Rightarrow> if u \<noteq> [] then Inr u else Inl (devin_error ''attachment upload returned no url'')
       | _ \<Rightarrow> Inl (devin_error ''attachment upload returned no url''))))"

definition OWN_SOURCES :: "str list" where "OWN_SOURCES = [''user'', ''api'', ''service_user'']"

definition note_message :: "(int \<times> str) option \<Rightarrow> json \<Rightarrow> exn + (int \<times> str) option" where
  "note_message latest item =
     ebind (get_or item ''source'' (JStr [])) (\<lambda>source. ebind (get_or item ''message'' (JStr [])) (\<lambda>message.
     let text' = strip (py_str message) in
     if lower (py_str source) \<in> set OWN_SOURCES \<or> text' = [] then Inr latest
     else ebind (get_of item ''created_at'') (\<lambda>created. ebind (py_int (or_else created (JInt 0))) (\<lambda>stamp.
       Inr (case latest of
              None \<Rightarrow> Some (stamp, text')
            | Some (t, _) \<Rightarrow> if t \<le> stamp then Some (stamp, text') else latest)))))"

fun note_messages :: "(int \<times> str) option \<Rightarrow> json list \<Rightarrow> exn + (int \<times> str) option" where
  "note_messages latest [] = Inr latest"
| "note_messages latest (i # items) = ebind (note_message latest i) (\<lambda>l. note_messages l items)"

definition drest_last_user_facing_question :: "DevinNet \<Rightarrow> str \<Rightarrow> (Wire, str option) op" where
  "drest_last_user_facing_question D sid =
     op_bind (cursor_pages D (session_path D sid ''/messages'') [(''first'', JInt (int PAGE_SIZE))] note_messages None Inr DEVIN_MAX_PAGES)
       (\<lambda>latest. op_ret (map_option snd latest))"

section \<open>Reviews\<close>

definition drest_trigger_review :: "DevinNet \<Rightarrow> str \<Rightarrow> (Wire, ReviewSnapshot) op" where
  "drest_trigger_review D url =
     op_bind (devin_json D (devin_send ''POST'' (org_path D ''pr-reviews'') [(''pr_url'', JStr url)])) (\<lambda>data. op_lift (review_snapshot_of D data))"

definition drest_get_review :: "DevinNet \<Rightarrow> str \<Rightarrow> str \<Rightarrow> (Wire, ReviewSnapshot option) op" where
  "drest_get_review D url commit_sha =
     op_bind (devin_request D ((devin_get (org_path D ''pr-reviews''))
        \<lparr>rq_params := [(''pr_url'', JStr url), (''commit_sha'', JStr commit_sha)]\<rparr>) True) (\<lambda>r.
     if rp_status r = 404 then op_ret None
     else op_lift (ebind (nw_json (dn_net D) (rp_text r)) (\<lambda>data. ebind (review_snapshot_of D data) (\<lambda>x. Inr (Some x)))))"

section \<open>Assets\<close>

definition all_pages :: "DevinNet \<Rightarrow> str \<Rightarrow> (Wire, json list) op" where
  "all_pages D path =
     cursor_pages D path [(''first'', JInt (int PAGE_SIZE))] (\<lambda>acc items. Inr (acc @ items)) []
       (\<lambda>_. Inl (devin_error (''GET '' @ path @ '': more than '' @ show_nat DEVIN_MAX_PAGES @ '' pages''))) DEVIN_MAX_PAGES"

definition drest_list_playbooks :: "DevinNet \<Rightarrow> (Wire, PlaybookRecord list) op" where
  "drest_list_playbooks D =
     op_bind (all_pages D (org_path D ''playbooks'')) (decode_all (parse_model ''PlaybookRecord'' (dn_playbook D)))"

definition playbook_body :: "PlaybookUpsert \<Rightarrow> (str \<times> json) list" where
  "playbook_body u = [(''title'', JStr (pu_title u)), (''body'', JStr (pu_body u)), (''macro'', json_of_opt JStr (pu_macro u)),
     (''structured_output_schema'', json_of_opt JObj (pu_schema u))]"

definition drest_create_playbook :: "DevinNet \<Rightarrow> PlaybookUpsert \<Rightarrow> (Wire, PlaybookRecord) op" where
  "drest_create_playbook D u =
     op_bind (devin_json D (devin_send ''POST'' (org_path D ''playbooks'') (playbook_body u))) (\<lambda>data.
     op_lift (parse_model ''PlaybookRecord'' (dn_playbook D) data))"

definition drest_update_playbook :: "DevinNet \<Rightarrow> str \<Rightarrow> PlaybookUpsert \<Rightarrow> (Wire, PlaybookRecord) op" where
  "drest_update_playbook D pid u =
     op_bind (devin_json D (devin_send ''PUT'' (org_path D (''playbooks/'' @ pid)) (playbook_body u))) (\<lambda>data.
     op_lift (parse_model ''PlaybookRecord'' (dn_playbook D) data))"

definition drest_list_notes :: "DevinNet \<Rightarrow> (Wire, NoteRecord list) op" where
  "drest_list_notes D =
     op_bind (all_pages D (org_path D ''knowledge/notes'')) (decode_all (parse_model ''NoteRecord'' (dn_note D)))"

definition note_body :: "NoteUpsert \<Rightarrow> (str \<times> json) list" where
  "note_body u = [(''name'', JStr (nu_name u)), (''body'', JStr (nu_body u)), (''trigger'', JStr (nu_trigger u)),
     (''pinned_repo'', json_of_opt JStr (nu_pinned_repo u)), (''is_enabled'', JBool (nu_is_enabled u))]"

definition drest_create_note :: "DevinNet \<Rightarrow> NoteUpsert \<Rightarrow> (Wire, NoteRecord) op" where
  "drest_create_note D u =
     op_bind (devin_json D (devin_send ''POST'' (org_path D ''knowledge/notes'') (note_body u))) (\<lambda>data.
     op_lift (parse_model ''NoteRecord'' (dn_note D) data))"

definition drest_update_note :: "DevinNet \<Rightarrow> str \<Rightarrow> NoteUpsert \<Rightarrow> (Wire, NoteRecord) op" where
  "drest_update_note D nid u =
     op_bind (devin_json D (devin_send ''PUT'' (org_path D (''knowledge/notes/'' @ nid)) (note_body u))) (\<lambda>data.
     op_lift (parse_model ''NoteRecord'' (dn_note D) data))"

section \<open>What a listing and a search return\<close>

lemma cursor_pages_inv:
  assumes step: "\<And>acc items acc'. P acc \<Longrightarrow> step acc items = Inr acc' \<Longrightarrow> P acc'"
    and last: "\<And>acc acc'. P acc \<Longrightarrow> too_many acc = Inr acc' \<Longrightarrow> P acc'"
  shows "P acc \<Longrightarrow> cursor_pages D path params step acc too_many n w = (Inr r, w') \<Longrightarrow> P r"
proof (induction n arbitrary: acc params w)
  case 0
  then show ?case using last by (auto simp: op_lift_def)
next
  case (Suc n)
  from Suc.prems(2) obtain data w1 acc' cursor where a: "ebind (page_items data) (step acc) = Inr acc'"
    and c: "(case cursor of None \<Rightarrow> op_ret acc' | Some c \<Rightarrow> cursor_pages D path (dict_set ''after'' c params) step acc' too_many n) w1 = (Inr r, w')"
    by (auto simp: op_bind_def op_lift_def split: prod.splits sum.splits)
  from a have "P acc'" using step Suc.prems(1) by (auto simp: ebind_def split: sum.splits)
  with c Suc.IH show ?case by (cases cursor) (auto simp: op_ret_def)
qed

lemma listed_sessions_carry_tags:
  assumes "drest_list_sessions D tags w = (Inr snaps, w')"
  shows "list_all (\<lambda>s. set tags \<subseteq> set (ss_tags s)) snaps"
proof -
  have step: "list_all (\<lambda>s. set tags \<subseteq> set (ss_tags s)) acc'"
    if "list_all (\<lambda>s. set tags \<subseteq> set (ss_tags s)) acc" "take_session D tags acc items = Inr acc'" for acc items acc'
    using that unfolding take_session_def ebind_Inr_iff list_all_iff by force
  show ?thesis
    by (rule cursor_pages_inv [OF step _ _ assms [unfolded drest_list_sessions_def]]) simp_all
qed

text \<open>A question is never one of the controller's own messages, nor blank.\<close>

lemma note_messages_not_blank:
  "(\<forall>t x. latest = Some (t, x) \<longrightarrow> x \<noteq> []) \<Longrightarrow> note_messages latest items = Inr l \<Longrightarrow> (\<forall>t x. l = Some (t, x) \<longrightarrow> x \<noteq> [])"
proof (induction latest items rule: note_messages.induct)
  case (2 latest i items)
  then obtain l' where l': "note_message latest i = Inr l'" "note_messages l' items = Inr l"
    by (auto simp: ebind_Inr_iff)
  have "\<forall>t x. l' = Some (t, x) \<longrightarrow> x \<noteq> []"
    using l'(1) "2.prems"(1) by (auto simp: note_message_def ebind_Inr_iff Let_def split: if_splits option.splits)
  with "2.IH" l' show ?case by blast
qed auto

section \<open>Retries\<close>

lemma devin_attempts_effect:
  "n \<le> 3 \<Longrightarrow> devin_attempts N q allow n w = (r, w') \<Longrightarrow>
     \<exists>k\<le>n. ht_sent w' = ht_sent w @ replicate (Suc k) q \<and> ht_slept w' = ht_slept w @ take k (drop (3 - n) [1, 2, 4]) \<and>
       (\<forall>resp. r = Inr resp \<longrightarrow> (rp_status resp < 400 \<or> allow \<and> rp_status resp = 404) \<and> nw_answer N (ht_sent w') = Inr resp)"
proof (induction n arbitrary: w)
  case 0
  then show ?case by (auto simp: op_defs send_def devin_settle_def Let_def split: sum.splits if_splits)
next
  case (Suc n)
  let ?w1 = "w\<lparr>ht_sent := ht_sent w @ [q]\<rparr>"
  let ?w2 = "?w1\<lparr>ht_slept := ht_slept w @ [2 ^ (2 - n)]\<rparr>"
  have slept: "[2 ^ (2 - n)] @ take k (drop (3 - n) [1, 2, 4]) = take (Suc k) (drop (3 - Suc n) [1, 2, 4::nat])" for k
  proof -
    from Suc.prems(1) consider "n = 0" | "n = 1" | "n = 2" by linarith
    then show ?thesis by cases (simp_all add: numeral_2_eq_2)
  qed
  consider (again) "devin_attempts N q allow n ?w2 = (r, w')"
    | (final) "op_lift (case nw_answer N (ht_sent w @ [q]) of Inr x \<Rightarrow> devin_settle N q allow x | Inl e \<Rightarrow> Inl e) ?w1 = (r, w')"
    using Suc.prems(2)
    by (auto simp: op_bind_def send_def sleep_def op_put_def Let_def split: sum.splits if_splits)
  then show ?case
  proof cases
    case again
    from Suc.IH [OF _ again] Suc.prems(1) obtain k where k: "k \<le> n" "ht_sent w' = ht_sent ?w2 @ replicate (Suc k) q"
      "ht_slept w' = ht_slept ?w2 @ take k (drop (3 - n) [1, 2, 4])"
      "\<forall>resp. r = Inr resp \<longrightarrow> (rp_status resp < 400 \<or> allow \<and> rp_status resp = 404) \<and> nw_answer N (ht_sent w') = Inr resp" by auto
    show ?thesis
    proof (intro exI [of _ "Suc k"] conjI)
      show "ht_slept w' = ht_slept w @ take (Suc k) (drop (3 - Suc n) [1, 2, 4])" using k(3) slept [of k] by simp
    qed (use k in auto)
  next
    case final
    then show ?thesis
      by (intro exI [of _ 0]) (auto simp: op_lift_def devin_settle_def split: sum.splits if_splits)
  qed
qed

end
