(* ===== verification/Doctor.thy ===== *)
theory Doctor
  imports Sync DevinRest Metrics Intake Controller
begin

text \<open>
  \<^verbatim>\<open>doctor.py\<close>, the preconditions of a live run, and \<^verbatim>\<open>operator.py\<close>, the runtime that serves the
  operator. What they read of the machine is a record: the database file, the committed tree and the
  rows of the database.
\<close>

section \<open>Settings and machine\<close>

text \<open>The settings the controller itself reads, and the ones only its start does. Secrets are opaque.\<close>

record LiveSettings =
  lv_settings :: Settings
  lv_github_token :: "str option"
  lv_devin_api_key :: "str option"
  lv_devin_org_id :: str
  lv_devin_api_base :: str
  lv_operator_login :: "str option"
  lv_auto_dispatch :: bool
  lv_scan_gate_mode :: GateMode
  lv_replay_mode :: bool
  lv_acu_cost_usd :: "rat option"
  lv_database_path :: str

text \<open>
  \<open>ho_version\<close> is the highest schema version of the database file, or what sqlite raises;
  \<open>ho_open_error\<close> the RuntimeError of \<open>open_database\<close>, if it raises one.
\<close>

record Host =
  ho_db_exists :: bool
  ho_version :: "str + nat option"
  ho_open_error :: "str option"
  ho_db :: Db
  ho_assets :: "DevinAsset list"
  ho_tree :: tree

definition SCHEMA_VERSION :: nat where "SCHEMA_VERSION = 6"
definition LIVE_OPERATOR_LOGIN :: str where "LIVE_OPERATOR_LOGIN = ''Hunter-1298''"
definition LIVE_MAX_CONCURRENT :: nat where "LIVE_MAX_CONCURRENT = 1"
definition LIVE_ACU_BUDGET :: rat where "LIVE_ACU_BUDGET = 5"

section \<open>The report\<close>

datatype CheckLevel = CL_ok | CL_warn | CL_fail

fun check_level_value :: "CheckLevel \<Rightarrow> str" where
  "check_level_value CL_ok = ''ok''"
| "check_level_value CL_warn = ''warn''"
| "check_level_value CL_fail = ''fail''"

record DoctorCheck =
  ck_name :: str
  ck_level :: CheckLevel
  ck_detail :: str

record DoctorReport =
  rt_live :: bool
  rt_checks :: "DoctorCheck list"

definition doctor_check :: "str \<Rightarrow> CheckLevel \<Rightarrow> str \<Rightarrow> DoctorCheck" where
  "doctor_check name level detail = \<lparr>ck_name = name, ck_level = level, ck_detail = detail\<rparr>"

definition doctor_ok :: "DoctorReport \<Rightarrow> bool" where
  "doctor_ok r \<longleftrightarrow> \<not> list_ex (\<lambda>c. ck_level c = CL_fail) (rt_checks r)"

definition ljust :: "nat \<Rightarrow> str \<Rightarrow> str" where
  "ljust n s = s @ replicate (n - length s) CHR '' ''"

definition render_doctor :: "DoctorReport \<Rightarrow> str" where
  "render_doctor r =
     (let width = fold (\<lambda>c m. max (length (ck_name c)) m) (rt_checks r) 0 in
      join [CHR 0x0A] (map (\<lambda>c. ''['' @ ljust 4 (check_level_value (ck_level c)) @ ''] '' @ ljust width (ck_name c) @ ''  '' @ ck_detail c)
        (rt_checks r) @ [''doctor: '' @ (if doctor_ok r then ''all checks passed'' else ''FAILED'')]))"

section \<open>The checks\<close>

definition ok_or :: "bool \<Rightarrow> CheckLevel \<Rightarrow> CheckLevel" where
  "ok_or b level = (if b then CL_ok else level)"

definition lower_bool :: "bool \<Rightarrow> str" where
  "lower_bool b = (if b then ''true'' else ''false'')"

text \<open>\<open>f"{q:g}"\<close> of a positive number below a million: six significant digits without trailing zeros.\<close>

definition fmt_g :: "rat \<Rightarrow> str" where
  "fmt_g q =
     (let whole = \<lfloor>q\<rfloor>;
          places = (if 1 \<le> q then 6 - length (show_int whole) else if q * 10 \<ge> 1 then 6 else if q * 100 \<ge> 1 then 7 else if q * 1000 \<ge> 1 then 8 else 9);
          s = fmt_fixed places q in
      if CHR ''.'' \<in> set s then rstrip_char CHR ''.'' (rstrip_char CHR ''0'' s) else s)"

definition credential_checks :: "LiveSettings \<Rightarrow> bool \<Rightarrow> DoctorCheck list" where
  "credential_checks s live =
     (let need = (if live then CL_fail else CL_warn);
          unset = ''unset (required for live runs)'';
          org_ok = starts_with (lv_devin_org_id s) ''org-'' in
      [doctor_check ''HL_GITHUB_TOKEN'' (ok_or (lv_github_token s \<noteq> None) need) (if lv_github_token s \<noteq> None then ''set'' else unset),
       doctor_check ''HL_DEVIN_API_KEY'' (ok_or (lv_devin_api_key s \<noteq> None) need) (if lv_devin_api_key s \<noteq> None then ''set'' else unset),
       doctor_check ''HL_DEVIN_ORG_ID'' (ok_or org_ok CL_fail) (if org_ok then lv_devin_org_id s else ''malformed''),
       doctor_check ''HL_DEVIN_API_BASE'' (ok_or (ends_with (rstrip_char CHR ''/'' (lv_devin_api_base s)) ''/v3'') CL_fail) (lv_devin_api_base s)])"

definition login_given :: "LiveSettings \<Rightarrow> bool" where
  "login_given s \<longleftrightarrow> lv_operator_login s \<noteq> None \<and> lv_operator_login s \<noteq> Some []"

definition profile_checks :: "LiveSettings \<Rightarrow> bool \<Rightarrow> DoctorCheck list" where
  "profile_checks s live =
     (let b = lv_settings s;
          login_ok = login_given s \<and> (\<not> live \<or> lv_operator_login s = Some LIVE_OPERATOR_LOGIN);
          conc_ok = \<not> live \<or> st_max_concurrent_sessions b = LIVE_MAX_CONCURRENT;
          budget_ok = \<not> live \<or> st_global_acu_budget b \<le> LIVE_ACU_BUDGET in
      [doctor_check ''fork repo'' (ok_or (st_fork_repo b \<in> set REPO_ALLOWLIST) CL_fail)
         (st_fork_repo b @ '' (allowlist '' @ repr_str_list (sort REPO_ALLOWLIST) @ '')''),
       doctor_check ''remediation branch'' (ok_or (st_remediation_branch b = ''main'') CL_fail) (st_remediation_branch b),
       doctor_check ''baseline sha'' CL_ok BASELINE_SHA,
       doctor_check ''HL_OPERATOR_LOGIN'' (ok_or login_ok (if live then CL_fail else CL_warn)) (or_str (lv_operator_login s) ''unset''),
       doctor_check ''HL_AUTO_DISPATCH'' (ok_or (\<not> (live \<and> lv_auto_dispatch s)) CL_fail)
         (lower_bool (lv_auto_dispatch s) @ (if live then '' (live runs require false)'' else [])),
       doctor_check ''HL_AUTO_OPEN_ISSUES'' (ok_or (\<not> (live \<and> st_auto_open_issues b)) CL_fail)
         (lower_bool (st_auto_open_issues b) @ (if live then '' (live runs require false: one issue per explicit launch)'' else [])),
       doctor_check ''HL_MAX_CONCURRENT_SESSIONS'' (ok_or conc_ok CL_fail)
         (show_nat (st_max_concurrent_sessions b) @ (if live then '' (live runs require '' @ show_nat LIVE_MAX_CONCURRENT @ '')'' else [])),
       doctor_check ''HL_GLOBAL_ACU_BUDGET'' (ok_or budget_ok CL_fail)
         (fmt_g (st_global_acu_budget b) @ '' ACU'' @ (if live then '' (live runs require <= '' @ fmt_g LIVE_ACU_BUDGET @ '')'' else [])),
       doctor_check ''SCAN_GATE_MODE'' (ok_or (lv_scan_gate_mode s = GM_report \<or> \<not> live) CL_fail) (gate_mode_value (lv_scan_gate_mode s)),
       doctor_check ''replay mode'' (ok_or (\<not> (live \<and> lv_replay_mode s)) CL_fail) (lower_bool (lv_replay_mode s)),
       doctor_check ''approver logins'' (ok_or (st_approver_logins b \<noteq> []) CL_fail) (join '', '' (st_approver_logins b))])"

definition version_text :: "nat option \<Rightarrow> str" where
  "version_text v = (case v of None \<Rightarrow> ''None'' | Some n \<Rightarrow> show_nat n)"

definition active_sessions :: "Db \<Rightarrow> nat" where
  "active_sessions d = length (filter (\<lambda>s. se_finished_at s = None) (db_sessions d))"

definition database_checks :: "LiveSettings \<Rightarrow> Host \<Rightarrow> bool \<Rightarrow> DoctorCheck list" where
  "database_checks s h live =
     (let path = lv_database_path s in
      if \<not> ho_db_exists h then [doctor_check ''database'' (if live then CL_fail else CL_warn) (path @ '' does not exist yet'')]
      else case ho_version h of
        Inl msg \<Rightarrow> [doctor_check ''database'' CL_fail (path @ '': '' @ msg)]
      | Inr version \<Rightarrow>
          if version \<noteq> Some SCHEMA_VERSION
          then [doctor_check ''database'' CL_fail (path @ '': schema '' @ version_text version @ '' != code '' @ show_nat SCHEMA_VERSION)]
          else
            let d = ho_db h; runs = length (db_runs d); items = length (db_work_items d);
                stuck = length (filter (\<lambda>w. wi_state w = W_dispatching) (db_work_items d)); active = active_sessions d in
            [doctor_check ''database'' CL_ok (path @ '' (schema '' @ show_nat SCHEMA_VERSION @ '')''),
             doctor_check ''scan runs'' (ok_or (runs \<noteq> 0) CL_warn) (show_nat runs @ '' persisted''),
             doctor_check ''work items'' CL_ok (show_nat items @ '' total''),
             doctor_check ''stuck dispatching'' (ok_or (stuck = 0) CL_warn)
               (if stuck \<noteq> 0 then show_nat stuck @ '' (recovered on the next tick)'' else ''0''),
             doctor_check ''active sessions'' (ok_or (active \<le> st_max_concurrent_sessions (lv_settings s)) CL_fail)
               (show_nat active @ '' of '' @ show_nat (st_max_concurrent_sessions (lv_settings s)) @ '' allowed'')])"

text \<open>\<open>export_schemas(dir, write=False)\<close>; \<open>dumps\<close> is \<open>json.dumps(j, indent=2, sort_keys=True)\<close>.\<close>

definition stale_schemas :: "(json \<Rightarrow> str) \<Rightarrow> tree \<Rightarrow> str \<Rightarrow> str list" where
  "stale_schemas dumps t dir =
     map (\<lambda>k. PLAYBOOK_SLUGS k @ ''.json'')
       (filter (\<lambda>k. map_option universal_newlines (disk_of t (path_join dir (PLAYBOOK_SLUGS k @ ''.json''))) \<noteq>
          Some (dumps (schema_for k) @ [CHR 0x0A])) all_kind_list)"

definition asset_checks :: "(json \<Rightarrow> str) \<Rightarrow> (str \<Rightarrow> str) \<Rightarrow> LiveSettings \<Rightarrow> Host \<Rightarrow> bool \<Rightarrow> DoctorCheck list" where
  "asset_checks dumps sha256 s h live =
     (let base = st_repo_root (lv_settings s); t = ho_tree h in
      case load_assets t base of
        Inl e \<Rightarrow> [doctor_check ''committed assets'' CL_fail (exn_msg e)]
      | Inr bundle \<Rightarrow>
          let blueprint = path_join base ''blueprint/superset.yaml'';
              blueprint_ok = (case disk_of t blueprint of Some content \<Rightarrow> contains_str content ''initialize:'' | None \<Rightarrow> False);
              exported = stale_schemas dumps t (path_join base ''playbooks/schemas'');
              synced = ''devin assets synced'' in
          [doctor_check ''committed assets'' CL_ok
             (show_nat (length (bu_playbooks bundle)) @ '' playbooks, '' @ show_nat (length (bu_knowledge bundle)) @ '' knowledge note(s)''),
           doctor_check ''fork blueprint'' (ok_or blueprint_ok CL_fail)
             (if blueprint_ok then ''blueprint/superset.yaml present'' else blueprint @ '' missing or empty''),
           doctor_check ''exported schemas'' (ok_or (exported = []) CL_fail)
             (if exported = [] then ''match schemas.py'' else ''stale: '' @ repr_str_list (sort exported) @ ''; run '' @ [CHR 0x60] @ ''schemas export'' @ [CHR 0x60]),
           (if \<not> ho_db_exists h then doctor_check synced (if live then CL_fail else CL_warn) ''no database yet''
            else case ho_open_error h of
              Some msg \<Rightarrow> doctor_check synced CL_fail (''cannot open database: '' @ msg)
            | None \<Rightarrow>
                let state = persisted_assets sha256 (ho_assets h) bundle in
                if assets_ok state
                then doctor_check synced CL_ok (show_nat (length (pa_playbook_ids state)) @ '' playbook ids, '' @
                  show_nat (length (pa_knowledge_ids state)) @ '' knowledge id(s)'')
                else doctor_check synced (if live then CL_fail else CL_warn)
                  (''missing='' @ repr_str_list (pa_missing state) @ '' drifted='' @ repr_str_list (pa_drifted state) @
                   ''; run '' @ [CHR 0x60] @ ''hardening-loop assets sync'' @ [CHR 0x60]))])"

text \<open>The classes \<open>_fixtures\<close> catches, with their subclasses; anything else ends the command.\<close>

definition FIXTURE_ERRORS :: "str list" where
  "FIXTURE_ERRORS = [''EvidenceError'', ''FileNotFoundError'', ''KeyError'', ''ValueError'', ''JSONDecodeError'', ''ValidationError'']"

definition fixture_checks :: "'spec Lib \<Rightarrow> LiveSettings \<Rightarrow> Host \<Rightarrow> exn + DoctorCheck list" where
  "fixture_checks L s h =
     (let path = path_join (st_repo_root (lv_settings s)) (''fixtures/baseline/'' @ BASELINE_SHA) in
      case load_baseline L (disk_of (ho_tree h)) path of
        Inr m \<Rightarrow> Inr [doctor_check ''baseline fixtures'' CL_ok (show_nat (length (bm_jobs m)) @ '' jobs, checksums verified'')]
      | Inl e \<Rightarrow>
          if exn_type e \<in> set FIXTURE_ERRORS
          then Inr [doctor_check ''baseline fixtures'' CL_fail (path @ '': '' @ exn_msg e)]
          else Inl e)"

definition run_doctor :: "'spec Lib \<Rightarrow> (json \<Rightarrow> str) \<Rightarrow> LiveSettings \<Rightarrow> Host \<Rightarrow> bool \<Rightarrow> exn + DoctorReport" where
  "run_doctor L dumps s h live =
     ebind (fixture_checks L s h) (\<lambda>fixtures.
     Inr \<lparr>rt_live = live, rt_checks = credential_checks s live @ profile_checks s live @ database_checks s h live @
       asset_checks dumps (lb_sha256 L) s h live @ fixtures\<rparr>)"

section \<open>Starting the operator\<close>

definition operator_error :: "str \<Rightarrow> exn" where
  "operator_error msg = Exn ''OperatorConfigError'' msg"

text \<open>\<open>is_loopback\<close> is \<open>ipaddress.ip_address(host).is_loopback\<close>, None where that raises ValueError.\<close>

definition strip_brackets :: "str \<Rightarrow> str" where
  "strip_brackets s =
     rev (dropWhile (\<lambda>c. c = CHR ''['' \<or> c = CHR '']'') (rev (dropWhile (\<lambda>c. c = CHR ''['' \<or> c = CHR '']'') s)))"

definition require_loopback_bind :: "(str \<Rightarrow> bool option) \<Rightarrow> str \<Rightarrow> exn + unit" where
  "require_loopback_bind is_loopback host =
     (if lower (strip host) = ''localhost'' then Inr ()
      else if is_loopback (strip_brackets (strip host)) = Some True then Inr ()
      else Inl (operator_error (''operator mode binds loopback only (got --host '' @ repr_str host @
        ''); the launch route has no authentication of its own, so put an authenticating TLS proxy in front instead'')))"

text \<open>The playbook and knowledge ids the live orchestrator is built with.\<close>

definition build_live_orchestrator :: "(str \<Rightarrow> str) \<Rightarrow> LiveSettings \<Rightarrow> Host \<Rightarrow> exn + (Kind, str) dict \<times> str list" where
  "build_live_orchestrator sha256 s h =
     (if lv_replay_mode s then Inl (operator_error ''replay mode never talks to GitHub or Devin; drop --replay'')
      else if lv_github_token s = None then Inl (operator_error ''HL_GITHUB_TOKEN is required for operator mode'')
      else if lv_devin_api_key s = None then Inl (operator_error ''HL_DEVIN_API_KEY is required for operator mode'')
      else if \<not> login_given s
      then Inl (operator_error ''HL_OPERATOR_LOGIN (the GitHub login recorded on every launch) is required'')
      else case ho_open_error h of
        Some msg \<Rightarrow> Inl (Exn ''RuntimeError'' msg)
      | None \<Rightarrow>
          ebind (load_assets (ho_tree h) (st_repo_root (lv_settings s))) (\<lambda>bundle.
          let assets = persisted_assets sha256 (ho_assets h) bundle in
          if \<not> assets_ok assets
          then Inl (operator_error (''Devin assets are not in sync with the committed playbooks/knowledge (missing='' @
            repr_str_list (pa_missing assets) @ '', drifted='' @ repr_str_list (pa_drifted assets) @ ''); run '' @ [CHR 0x60] @
            ''hardening-loop assets sync'' @ [CHR 0x60]))
          else ebind (check_org (lv_devin_org_id s)) (\<lambda>_. Inr (pa_playbook_ids assets, pa_knowledge_ids assets))))"

section \<open>The operator's runtime\<close>

text \<open>
  \<open>OperatorContext.tick\<close>: one tick of the orchestrator, then a snapshot of the metrics of what is
  committed, under one lock. The snapshots are rows of their own table; \<open>t\<close> is the clock.
\<close>

definition context_tick ::
    "Env \<Rightarrow> 'spec Lib \<Rightarrow> bool \<Rightarrow> rat option \<Rightarrow> int \<Rightarrow> World \<times> MetricsSnapshot list \<Rightarrow> (exn + TickReport) \<times> World \<times> MetricsSnapshot list" where
  "context_tick E L auto_dispatch acu_cost_usd t ws =
     (case ws of (w, snapshots) \<Rightarrow>
      case tick E (poll_scans E L) auto_dispatch w of
        (Inl e, w') \<Rightarrow> (Inl e, w', snapshots)
      | (Inr report, w') \<Rightarrow> (Inr report, w', snapshot_metrics (w_saved w') ''tick'' acu_cost_usd t snapshots))"

record OperatorRuntime =
  or_ticks :: nat
  or_last_error :: "str option"

text \<open>\<open>_job\<close>: the loop survives one bad poll.\<close>

definition run_job ::
    "Env \<Rightarrow> 'spec Lib \<Rightarrow> bool \<Rightarrow> rat option \<Rightarrow> int \<Rightarrow> OperatorRuntime \<times> World \<times> MetricsSnapshot list \<Rightarrow> OperatorRuntime \<times> World \<times> MetricsSnapshot list" where
  "run_job E L auto_dispatch acu_cost_usd t st =
     (case st of (rt, ws) \<Rightarrow>
      case context_tick E L auto_dispatch acu_cost_usd t ws of
        (Inr _, ws') \<Rightarrow> (\<lparr>or_ticks = Suc (or_ticks rt), or_last_error = None\<rparr>, ws')
      | (Inl e, ws') \<Rightarrow> (rt\<lparr>or_last_error := Some (take 300 (exn_type e @ '': '' @ exn_msg e))\<rparr>, ws'))"

section \<open>What a passing doctor means\<close>

definition live_profile :: "LiveSettings \<Rightarrow> bool" where
  "live_profile s \<longleftrightarrow>
     lv_github_token s \<noteq> None \<and> lv_devin_api_key s \<noteq> None \<and> starts_with (lv_devin_org_id s) ''org-'' \<and>
     lv_operator_login s = Some LIVE_OPERATOR_LOGIN \<and> \<not> lv_auto_dispatch s \<and> \<not> st_auto_open_issues (lv_settings s) \<and>
     st_max_concurrent_sessions (lv_settings s) = LIVE_MAX_CONCURRENT \<and> st_global_acu_budget (lv_settings s) \<le> LIVE_ACU_BUDGET \<and>
     lv_scan_gate_mode s = GM_report \<and> \<not> lv_replay_mode s \<and> st_fork_repo (lv_settings s) \<in> set REPO_ALLOWLIST \<and>
     st_remediation_branch (lv_settings s) = ''main'' \<and> st_approver_logins (lv_settings s) \<noteq> []"

lemma doctor_check_level [simp]: "ck_level (doctor_check n l x) = l"
  by (simp add: doctor_check_def)

lemma ok_or_fail [simp]: "ok_or b CL_fail = CL_fail \<longleftrightarrow> \<not> b" "ok_or b CL_warn \<noteq> CL_fail"
  by (simp_all add: ok_or_def)

lemma credentials_live: "\<not> list_ex (\<lambda>c. ck_level c = CL_fail) (credential_checks s True) \<Longrightarrow>
    lv_github_token s \<noteq> None \<and> lv_devin_api_key s \<noteq> None \<and> starts_with (lv_devin_org_id s) ''org-''"
  by (simp add: credential_checks_def Let_def)

lemma profile_live: "\<not> list_ex (\<lambda>c. ck_level c = CL_fail) (profile_checks s True) \<Longrightarrow>
    lv_operator_login s = Some LIVE_OPERATOR_LOGIN \<and> \<not> lv_auto_dispatch s \<and> \<not> st_auto_open_issues (lv_settings s) \<and>
     st_max_concurrent_sessions (lv_settings s) = LIVE_MAX_CONCURRENT \<and> st_global_acu_budget (lv_settings s) \<le> LIVE_ACU_BUDGET \<and>
     lv_scan_gate_mode s = GM_report \<and> \<not> lv_replay_mode s \<and> st_fork_repo (lv_settings s) \<in> set REPO_ALLOWLIST \<and>
     st_remediation_branch (lv_settings s) = ''main'' \<and> st_approver_logins (lv_settings s) \<noteq> []"
  by (simp add: profile_checks_def Let_def)

lemma database_live: "\<not> list_ex (\<lambda>c. ck_level c = CL_fail) (database_checks s h True) \<Longrightarrow>
    ho_db_exists h \<and> ho_version h = Inr (Some SCHEMA_VERSION) \<and> active_sessions (ho_db h) \<le> st_max_concurrent_sessions (lv_settings s)"
  by (auto simp: database_checks_def Let_def split: if_splits sum.splits)

lemma assets_live: "\<not> list_ex (\<lambda>c. ck_level c = CL_fail) (asset_checks dumps sha256 s h True) \<Longrightarrow>
    \<exists>bundle. load_assets (ho_tree h) (st_repo_root (lv_settings s)) = Inr bundle \<and> ho_open_error h = None \<and>
      assets_ok (persisted_assets sha256 (ho_assets h) bundle)"
  by (auto simp: asset_checks_def Let_def split: if_splits sum.splits option.splits)

lemma doctor_passes_live:
  assumes "run_doctor L dumps s h True = Inr r" "doctor_ok r"
  shows "live_profile s \<and> ho_version h = Inr (Some SCHEMA_VERSION) \<and> active_sessions (ho_db h) \<le> 1 \<and>
    (\<exists>m. load_baseline L (disk_of (ho_tree h)) (path_join (st_repo_root (lv_settings s)) (''fixtures/baseline/'' @ BASELINE_SHA)) = Inr m) \<and>
    (\<exists>ids. build_live_orchestrator (lb_sha256 L) s h = Inr ids)"
proof -
  from assms obtain fixs where f: "fixture_checks L s h = Inr fixs"
    and checks: "\<not> list_ex (\<lambda>c. ck_level c = CL_fail) (credential_checks s True)" "\<not> list_ex (\<lambda>c. ck_level c = CL_fail) (profile_checks s True)"
      "\<not> list_ex (\<lambda>c. ck_level c = CL_fail) (database_checks s h True)"
      "\<not> list_ex (\<lambda>c. ck_level c = CL_fail) (asset_checks dumps (lb_sha256 L) s h True)" "\<not> list_ex (\<lambda>c. ck_level c = CL_fail) fixs"
    unfolding run_doctor_def ebind_Inr_iff doctor_ok_def by auto
  have profile: "live_profile s"
    using credentials_live [OF checks(1)] profile_live [OF checks(2)] by (simp add: live_profile_def)
  obtain bun where bun: "load_assets (ho_tree h) (st_repo_root (lv_settings s)) = Inr bun" "ho_open_error h = None"
    "assets_ok (persisted_assets (lb_sha256 L) (ho_assets h) bun)" using assets_live [OF checks(4)] by blast
  have "\<exists>m. load_baseline L (disk_of (ho_tree h)) (path_join (st_repo_root (lv_settings s)) (''fixtures/baseline/'' @ BASELINE_SHA)) = Inr m"
    using f checks(5) by (auto simp: fixture_checks_def Let_def split: sum.splits if_splits)
  moreover have "\<exists>ids. build_live_orchestrator (lb_sha256 L) s h = Inr ids"
    using profile bun
    by (auto simp: live_profile_def build_live_orchestrator_def login_given_def LIVE_OPERATOR_LOGIN_def check_org_def Let_def)
  ultimately show ?thesis
    using profile database_live [OF checks(3)] by (simp add: live_profile_def LIVE_MAX_CONCURRENT_def)
qed

text \<open>The conditions are also enough: a failing check has one of them to blame.\<close>

lemma doctor_live_iff:
  "(\<exists>r. run_doctor L dumps s h True = Inr r \<and> doctor_ok r) \<longleftrightarrow>
     live_profile s \<and> ends_with (rstrip_char CHR ''/'' (lv_devin_api_base s)) ''/v3'' \<and>
     ho_db_exists h \<and> ho_version h = Inr (Some SCHEMA_VERSION) \<and> active_sessions (ho_db h) \<le> LIVE_MAX_CONCURRENT \<and>
     (\<exists>content. disk_of (ho_tree h) (path_join (st_repo_root (lv_settings s)) ''blueprint/superset.yaml'') = Some content \<and>
        contains_str content ''initialize:'') \<and>
     stale_schemas dumps (ho_tree h) (path_join (st_repo_root (lv_settings s)) ''playbooks/schemas'') = [] \<and>
     (\<exists>m. load_baseline L (disk_of (ho_tree h)) (path_join (st_repo_root (lv_settings s)) (''fixtures/baseline/'' @ BASELINE_SHA)) = Inr m) \<and>
     (\<exists>ids. build_live_orchestrator (lb_sha256 L) s h = Inr ids)"
  (is "?passes \<longleftrightarrow> ?profile \<and> ?base \<and> ?db \<and> ?version \<and> ?active \<and> ?blueprint \<and> ?schemas \<and> ?baseline \<and> ?live")
proof
  assume ?passes
  then obtain r where r: "run_doctor L dumps s h True = Inr r" "doctor_ok r" by blast
  then have c: "\<not> list_ex (\<lambda>c. ck_level c = CL_fail) (credential_checks s True)"
      "\<not> list_ex (\<lambda>c. ck_level c = CL_fail) (database_checks s h True)"
      "\<not> list_ex (\<lambda>c. ck_level c = CL_fail) (asset_checks dumps (lb_sha256 L) s h True)"
    unfolding run_doctor_def ebind_Inr_iff doctor_ok_def by auto
  have ?base using c(1) by (simp add: credential_checks_def Let_def)
  moreover have ?db using c(2) by (auto simp: database_checks_def Let_def split: if_splits)
  moreover have "?blueprint \<and> ?schemas"
    using c(3) by (auto simp: asset_checks_def Let_def split: if_splits sum.splits option.splits)
  ultimately show "?profile \<and> ?base \<and> ?db \<and> ?version \<and> ?active \<and> ?blueprint \<and> ?schemas \<and> ?baseline \<and> ?live"
    using doctor_passes_live [OF r] by (simp add: LIVE_MAX_CONCURRENT_def)
next
  assume a: "?profile \<and> ?base \<and> ?db \<and> ?version \<and> ?active \<and> ?blueprint \<and> ?schemas \<and> ?baseline \<and> ?live"
  then have p: ?profile and conc: "st_max_concurrent_sessions (lv_settings s) = LIVE_MAX_CONCURRENT" by (simp_all add: live_profile_def)
  from a obtain m where m: "load_baseline L (disk_of (ho_tree h)) (path_join (st_repo_root (lv_settings s)) (''fixtures/baseline/'' @ BASELINE_SHA)) = Inr m"
    by blast
  from a obtain bun where b: "load_assets (ho_tree h) (st_repo_root (lv_settings s)) = Inr bun" "ho_open_error h = None"
    "assets_ok (persisted_assets (lb_sha256 L) (ho_assets h) bun)"
    by (auto simp: build_live_orchestrator_def ebind_Inr_iff Let_def split: if_splits option.splits)
  have "\<not> list_ex (\<lambda>c. ck_level c = CL_fail) (credential_checks s True)"
    using p a by (simp add: credential_checks_def live_profile_def Let_def ok_or_def)
  moreover have "\<not> list_ex (\<lambda>c. ck_level c = CL_fail) (profile_checks s True)"
    using p by (simp add: profile_checks_def live_profile_def login_given_def LIVE_OPERATOR_LOGIN_def Let_def ok_or_def)
  moreover have "\<not> list_ex (\<lambda>c. ck_level c = CL_fail) (database_checks s h True)"
    using a conc by (simp add: database_checks_def Let_def ok_or_def)
  moreover have "\<not> list_ex (\<lambda>c. ck_level c = CL_fail) (asset_checks dumps (lb_sha256 L) s h True)"
    using a b by (auto simp: asset_checks_def Let_def ok_or_def)
  ultimately show ?passes using m by (simp add: run_doctor_def fixture_checks_def ebind_def doctor_ok_def)
qed

text \<open>One job counts a tick and takes a snapshot, or records an error and takes none; earlier snapshots stay.\<close>

lemma job_outcome:
  "case run_job E L auto cost t (rt, w, snaps) of (rt', w', snaps') \<Rightarrow>
     (or_ticks rt' = Suc (or_ticks rt) \<and> or_last_error rt' = None \<and>
        (\<exists>m. snaps' = snaps @ [m] \<and> ms_body m = compute_metrics (w_saved w') cost t \<and> ms_id m \<notin> ms_id ` set snaps)) \<or>
     (or_ticks rt' = or_ticks rt \<and> or_last_error rt' \<noteq> None \<and> snaps' = snaps)"
  using next_id_fresh [of ms_id snaps]
  by (auto simp: run_job_def context_tick_def snapshot_metrics_def Let_def split: prod.splits sum.splits)

end
