(* ===== verification/GitHubDouble.thy ===== *)
theory GitHubDouble
  imports DevinDouble Extract Config
begin

text \<open>
  \<^verbatim>\<open>github/fake.py\<close>: the in-memory GitHub and CI. Callbacks that a scenario registers for the next call of
  a method are the scenario's code, a parameter \<open>hook\<close> as in \<open>DevinDouble\<close>. \<open>hash\<close> is the interpreter's
  string hash, which the double uses for made-up identifiers only.
\<close>

section \<open>The state of the double\<close>

record FakeIssue =
  fi_number :: nat
  fi_title :: str
  fi_body :: str
  fi_labels :: "str list"
  fi_state :: str
  fi_comments :: "str list"

record FakePR =
  fp_number :: nat
  fp_title :: str
  fp_base_ref :: str
  fp_head_ref :: str
  fp_head_sha :: str
  fp_author :: str
  fp_files :: "DiffFile list"
  fp_state :: str
  fp_merged :: bool
  fp_merge_commit_sha :: "str option"
  fp_merged_at :: "int option"
  fp_reviews :: "Review list"
  fp_comments :: "str list"
  fp_head_repo :: str

record FakeStatus =
  fc_context :: str
  fc_state :: str
  fc_description :: str

record FakeRun =
  fw_info :: WorkflowRunInfo
  fw_workflow_file :: str
  fw_artifacts :: "(ArtifactInfo \<times> str) list"

record 'h FakeGitHub =
  fg_repo :: str
  fg_calls :: "(str \<times> str) list"
  fg_issues :: "(nat, FakeIssue) dict"
  fg_prs :: "(nat, FakePR) dict"
  fg_checks :: "(str, CheckRun list) dict"
  fg_statuses :: "(str, FakeStatus list) dict"
  fg_files :: "(str \<times> str, BranchFile) dict"
  fg_parents :: "(str, str option) dict"
  fg_branches :: "(str, str) dict"
  fg_next_issue :: nat
  fg_next_pr :: nat
  fg_fail_next :: "(str, exn) dict"
  fg_before_next :: "(str, 'h) dict"
  fg_workflow_runs :: "(nat, FakeRun) dict"
  fg_workflow_runs_yielded :: nat
  fg_next_artifact :: nat

type_synonym 'h ghook = "'h \<Rightarrow> 'h FakeGitHub \<Rightarrow> 'h FakeGitHub"

definition fake_github_error :: "str \<Rightarrow> exn" where
  "fake_github_error msg = Exn ''FakeGitHubError'' msg"

definition new_fake_github :: "str \<Rightarrow> str \<Rightarrow> exn + 'h FakeGitHub" where
  "new_fake_github repo main_head =
     ebind (assert_repo_allowed repo) (\<lambda>_. Inr
       \<lparr>fg_repo = repo, fg_calls = [], fg_issues = [], fg_prs = [], fg_checks = [], fg_statuses = [], fg_files = [],
        fg_parents = [(main_head, None)], fg_branches = [(REMEDIATION_BRANCH, main_head)], fg_next_issue = 100, fg_next_pr = 500,
        fg_fail_next = [], fg_before_next = [], fg_workflow_runs = [], fg_workflow_runs_yielded = 0, fg_next_artifact = 9000\<rparr>)"

text \<open>A subscript of a dictionary with numbers for keys.\<close>

definition number_key_error :: "nat \<Rightarrow> exn" where
  "number_key_error n = Exn ''KeyError'' (show_nat n)"

definition pr_at :: "nat \<Rightarrow> ('h FakeGitHub, FakePR) op" where
  "pr_at n = op_get (\<lambda>g. case dict_get (fg_prs g) n of Some p \<Rightarrow> op_ret p | None \<Rightarrow> op_raise (number_key_error n))"

definition issue_at :: "nat \<Rightarrow> ('h FakeGitHub, FakeIssue) op" where
  "issue_at n = op_get (\<lambda>g. case dict_get (fg_issues g) n of Some i \<Rightarrow> op_ret i | None \<Rightarrow> op_raise (number_key_error n))"

definition put_pr :: "FakePR \<Rightarrow> ('h FakeGitHub, unit) op" where
  "put_pr p = op_put (\<lambda>g. g\<lparr>fg_prs := dict_set (fp_number p) p (fg_prs g)\<rparr>)"

definition put_issue :: "FakeIssue \<Rightarrow> ('h FakeGitHub, unit) op" where
  "put_issue i = op_put (\<lambda>g. g\<lparr>fg_issues := dict_set (fi_number i) i (fg_issues g)\<rparr>)"

definition edit_issue :: "nat \<Rightarrow> (FakeIssue \<Rightarrow> FakeIssue) \<Rightarrow> ('h FakeGitHub, unit) op" where
  "edit_issue n f = op_bind (issue_at n) (\<lambda>i. put_issue (f i))"

definition change_pr :: "nat \<Rightarrow> (FakePR \<Rightarrow> FakePR) \<Rightarrow> ('h FakeGitHub, unit) op" where
  "change_pr n f = op_bind (pr_at n) (\<lambda>p. put_pr (f p))"

definition branch_at :: "str \<Rightarrow> ('h FakeGitHub, str) op" where
  "branch_at b = op_get (\<lambda>g. case dict_get (fg_branches g) b of Some sha \<Rightarrow> op_ret sha | None \<Rightarrow> op_raise (key_error b))"

section \<open>What the scenarios script\<close>

definition add_commit :: "str \<Rightarrow> str \<Rightarrow> ('h FakeGitHub, unit) op" where
  "add_commit sha parent = op_get (\<lambda>g.
     if dict_get (fg_parents g) parent = None then op_raise (fake_github_error (''unknown parent '' @ parent))
     else op_put (\<lambda>g. g\<lparr>fg_parents := dict_set sha (Some parent) (fg_parents g)\<rparr>))"

definition pull_url :: "str \<Rightarrow> nat \<Rightarrow> str" where
  "pull_url repo n = ''https://github.com/'' @ repo @ ''/pull/'' @ show_nat n"

definition fake_open_pr ::
    "str \<Rightarrow> str \<Rightarrow> str \<Rightarrow> str list \<Rightarrow> str \<Rightarrow> str \<Rightarrow> str \<Rightarrow> str option \<Rightarrow> ('h FakeGitHub, str) op" where
  "fake_open_pr title head_ref head_sha files base_ref author head_repo parent =
     op_bind (case or_none parent of Some p \<Rightarrow> op_ret p | None \<Rightarrow> branch_at REMEDIATION_BRANCH) (\<lambda>p.
     op_bind (add_commit head_sha p) (\<lambda>_. op_get (\<lambda>g.
     let n = fg_next_pr g in
     op_bind (op_put (\<lambda>g. g\<lparr>fg_next_pr := Suc n\<rparr>)) (\<lambda>_.
     op_bind (put_pr \<lparr>fp_number = n, fp_title = title, fp_base_ref = base_ref, fp_head_ref = head_ref, fp_head_sha = head_sha,
        fp_author = author, fp_files = map (\<lambda>f. \<lparr>df_filename = f, df_status = ''modified'', df_previous_filename = None\<rparr>) files,
        fp_state = ''open'', fp_merged = False, fp_merge_commit_sha = None, fp_merged_at = None, fp_reviews = [], fp_comments = [],
        fp_head_repo = head_repo\<rparr>) (\<lambda>_. op_ret (pull_url (fg_repo g) n))))))"

definition fake_push :: "nat \<Rightarrow> str \<Rightarrow> ('h FakeGitHub, unit) op" where
  "fake_push n new_sha =
     op_bind (pr_at n) (\<lambda>p. op_bind (add_commit new_sha (fp_head_sha p)) (\<lambda>_. put_pr (p\<lparr>fp_head_sha := new_sha\<rparr>)))"

definition set_checks :: "(str \<times> str \<Rightarrow> int) \<Rightarrow> str \<Rightarrow> (str, str option) dict \<Rightarrow> ('h FakeGitHub, unit) op" where
  "set_checks hash sha results = op_put (\<lambda>g. g\<lparr>fg_checks := dict_set sha
     (map (\<lambda>(name, conclusion).
        \<lparr>cr_name = name, cr_status = (if conclusion \<noteq> None then ''completed'' else ''in_progress''), cr_conclusion = conclusion,
         cr_url = Some (''https://github.com/'' @ fg_repo g @ ''/actions/runs/'' @ show_int (\<bar>hash (sha, name)\<bar> mod 10 ^ 6))\<rparr>) results)
     (fg_checks g)\<rparr>)"

definition add_workflow_run ::
    "nat \<Rightarrow> str \<Rightarrow> str option \<Rightarrow> str \<Rightarrow> str \<Rightarrow> str \<Rightarrow> str option \<Rightarrow> nat \<Rightarrow> ('h FakeGitHub, WorkflowRunInfo) op" where
  "add_workflow_run run_id head_sha head_branch workflow_file event status conclusion run_attempt = op_get (\<lambda>g.
     let info = \<lparr>wr_id = run_id, wr_run_attempt = run_attempt, wr_event = event, wr_status = status, wr_conclusion = conclusion,
       wr_head_branch = head_branch, wr_head_sha = head_sha,
       wr_url = ''https://github.com/'' @ fg_repo g @ ''/actions/runs/'' @ show_nat run_id\<rparr> in
     op_bind (op_put (\<lambda>g. g\<lparr>fg_workflow_runs := dict_set run_id \<lparr>fw_info = info, fw_workflow_file = workflow_file, fw_artifacts = []\<rparr>
       (fg_workflow_runs g)\<rparr>)) (\<lambda>_. op_ret info))"

text \<open>\<open>zip\<close> is the archive of the tree, \<open>sha256\<close> its checksum.\<close>

definition add_artifact :: "(str \<Rightarrow> str) \<Rightarrow> nat \<Rightarrow> str \<Rightarrow> str \<Rightarrow> ('h FakeGitHub, ArtifactInfo) op" where
  "add_artifact sha256 run_id name payload = op_get (\<lambda>g.
     let n = fg_next_artifact g;
         info = \<lparr>ai_id = n, ai_name = name, ai_expired = False, ai_digest = Some (''sha256:'' @ sha256 payload)\<rparr> in
     op_bind (op_put (\<lambda>g. g\<lparr>fg_next_artifact := Suc n\<rparr>)) (\<lambda>_.
     case dict_get (fg_workflow_runs g) run_id of
       None \<Rightarrow> op_raise (number_key_error run_id)
     | Some r \<Rightarrow> op_bind (op_put (\<lambda>g. g\<lparr>fg_workflow_runs := dict_set run_id (r\<lparr>fw_artifacts := fw_artifacts r @ [(info, payload)]\<rparr>)
         (fg_workflow_runs g)\<rparr>)) (\<lambda>_. op_ret info)))"

definition set_status :: "str \<Rightarrow> str \<Rightarrow> str \<Rightarrow> str \<Rightarrow> ('h FakeGitHub, unit) op" where
  "set_status sha context state description = op_put (\<lambda>g.
     let others = filter (\<lambda>s. fc_context s \<noteq> context) (case dict_get (fg_statuses g) sha of Some ss \<Rightarrow> ss | None \<Rightarrow> []) in
     g\<lparr>fg_statuses := dict_set sha (others @ [\<lparr>fc_context = context, fc_state = state, fc_description = description\<rparr>]) (fg_statuses g)\<rparr>)"

definition fake_approve :: "nat \<Rightarrow> str \<Rightarrow> int option \<Rightarrow> ('h FakeGitHub, unit) op" where
  "fake_approve n login submitted = change_pr n (\<lambda>p. p\<lparr>fp_reviews := fp_reviews p @
     [\<lparr>rv_author = login, rv_state = ''APPROVED'', rv_commit_sha = fp_head_sha p, rv_submitted_at = submitted\<rparr>]\<rparr>)"

definition fake_merge :: "nat \<Rightarrow> str \<Rightarrow> int option \<Rightarrow> ('h FakeGitHub, str) op" where
  "fake_merge n merge_sha merged_at =
     op_bind (pr_at n) (\<lambda>p.
     if fp_state p \<noteq> ''open'' then op_raise (fake_github_error ''PR not open'')
     else op_bind (branch_at REMEDIATION_BRANCH) (\<lambda>main.
       op_bind (add_commit merge_sha main) (\<lambda>_.
       op_bind (op_put (\<lambda>g. g\<lparr>fg_parents := dict_set (merge_sha @ ''~pr'') (Some (fp_head_sha p)) (fg_parents g),
          fg_branches := dict_set REMEDIATION_BRANCH merge_sha (fg_branches g)\<rparr>)) (\<lambda>_.
       op_bind (put_pr (p\<lparr>fp_state := ''closed'', fp_merged := True, fp_merge_commit_sha := Some merge_sha, fp_merged_at := merged_at\<rparr>))
         (\<lambda>_. op_ret merge_sha)))))"

definition fake_close_pr :: "nat \<Rightarrow> ('h FakeGitHub, unit) op" where
  "fake_close_pr n = change_pr n (\<lambda>p. p\<lparr>fp_state := ''closed''\<rparr>)"

definition with_labels :: "str list \<Rightarrow> str list \<Rightarrow> str list" where
  "with_labels old new = fromkeys (old @ new)"

definition fake_label :: "nat \<Rightarrow> str list \<Rightarrow> ('h FakeGitHub, unit) op" where
  "fake_label n labels = edit_issue n (\<lambda>i. i\<lparr>fi_labels := with_labels (fi_labels i) labels\<rparr>)"

definition fake_unlabel :: "nat \<Rightarrow> str \<Rightarrow> ('h FakeGitHub, unit) op" where
  "fake_unlabel n label = edit_issue n (\<lambda>i. i\<lparr>fi_labels := removeAll label (fi_labels i)\<rparr>)"

definition human_close_issue :: "nat \<Rightarrow> ('h FakeGitHub, unit) op" where
  "human_close_issue n = edit_issue n (\<lambda>i. i\<lparr>fi_state := ''closed''\<rparr>)"

definition put_file :: "(str \<Rightarrow> int) \<Rightarrow> str \<Rightarrow> str \<Rightarrow> str \<Rightarrow> ('h FakeGitHub, unit) op" where
  "put_file hash path ref content = op_put (\<lambda>g. g\<lparr>fg_files := dict_set (path, ref)
     \<lparr>bf_path = path, bf_sha = ''blob-'' @ show_int \<bar>hash content\<bar>, bf_content = content\<rparr> (fg_files g)\<rparr>)"

definition open_issue_numbers :: "'h FakeGitHub \<Rightarrow> nat list" where
  "open_issue_numbers g = sort (map fst (filter (\<lambda>(_, i). fi_state i = ''open'') (fg_issues g)))"

section \<open>The protocol\<close>

definition github_touch :: "'h ghook \<Rightarrow> str \<Rightarrow> str \<Rightarrow> str \<Rightarrow> ('h FakeGitHub, unit) op" where
  "github_touch hook meth repo target =
     op_bind (op_lift (assert_repo_allowed repo)) (\<lambda>_. \<lambda>g.
     if repo \<noteq> fg_repo g then (Inl (fake_github_error (''fake only serves '' @ fg_repo g @ '', got '' @ repo)), g)
     else
       let g1 = g\<lparr>fg_calls := fg_calls g @ [(meth, target)]\<rparr>;
           g2 = (case dict_get (fg_before_next g1) meth of
                   Some h \<Rightarrow> hook h (g1\<lparr>fg_before_next := dict_del meth (fg_before_next g1)\<rparr>)
                 | None \<Rightarrow> g1) in
       case dict_get (fg_fail_next g2) meth of
         Some e \<Rightarrow> (Inl e, g2\<lparr>fg_fail_next := dict_del meth (fg_fail_next g2)\<rparr>)
       | None \<Rightarrow> (Inr (), g2))"

definition fake_get_issue :: "'h ghook \<Rightarrow> str \<Rightarrow> nat \<Rightarrow> ('h FakeGitHub, Issue) op" where
  "fake_get_issue hook repo n =
     op_bind (github_touch hook ''get_issue'' repo (show_nat n)) (\<lambda>_. op_bind (issue_at n) (\<lambda>i.
     op_ret \<lparr>is_repo = repo, is_number = n, is_url = ''https://github.com/'' @ repo @ ''/issues/'' @ show_nat n, is_title = fi_title i,
       is_state = fi_state i, is_labels = fi_labels i\<rparr>))"

definition fake_create_issue :: "'h ghook \<Rightarrow> str \<Rightarrow> str \<Rightarrow> str \<Rightarrow> str list \<Rightarrow> ('h FakeGitHub, Issue) op" where
  "fake_create_issue hook repo title body labels =
     op_bind (github_touch hook ''create_issue'' repo title) (\<lambda>_. op_get (\<lambda>g.
     let n = fg_next_issue g in
     op_bind (op_put (\<lambda>g. g\<lparr>fg_next_issue := Suc n\<rparr>)) (\<lambda>_.
     op_bind (put_issue \<lparr>fi_number = n, fi_title = title, fi_body = body, fi_labels = fromkeys labels, fi_state = ''open'', fi_comments = []\<rparr>) (\<lambda>_.
     fake_get_issue hook repo n))))"

definition on_issue :: "'h ghook \<Rightarrow> str \<Rightarrow> str \<Rightarrow> nat \<Rightarrow> (FakeIssue \<Rightarrow> FakeIssue) \<Rightarrow> ('h FakeGitHub, unit) op" where
  "on_issue hook meth repo n f = op_bind (github_touch hook meth repo (show_nat n)) (\<lambda>_. edit_issue n f)"

definition fake_comment_issue :: "'h ghook \<Rightarrow> str \<Rightarrow> nat \<Rightarrow> str \<Rightarrow> ('h FakeGitHub, unit) op" where
  "fake_comment_issue hook repo n body = on_issue hook ''comment_issue'' repo n (\<lambda>i. i\<lparr>fi_comments := fi_comments i @ [body]\<rparr>)"

definition fake_add_labels :: "'h ghook \<Rightarrow> str \<Rightarrow> nat \<Rightarrow> str list \<Rightarrow> ('h FakeGitHub, unit) op" where
  "fake_add_labels hook repo n labels = on_issue hook ''add_labels'' repo n (\<lambda>i. i\<lparr>fi_labels := with_labels (fi_labels i) labels\<rparr>)"

definition fake_remove_label :: "'h ghook \<Rightarrow> str \<Rightarrow> nat \<Rightarrow> str \<Rightarrow> ('h FakeGitHub, unit) op" where
  "fake_remove_label hook repo n label = on_issue hook ''remove_label'' repo n (\<lambda>i. i\<lparr>fi_labels := removeAll label (fi_labels i)\<rparr>)"

definition fake_close_issue :: "'h ghook \<Rightarrow> str \<Rightarrow> nat \<Rightarrow> ('h FakeGitHub, unit) op" where
  "fake_close_issue hook repo n = on_issue hook ''close_issue'' repo n (\<lambda>i. i\<lparr>fi_state := ''closed''\<rparr>)"

definition fake_reopen_issue :: "'h ghook \<Rightarrow> str \<Rightarrow> nat \<Rightarrow> ('h FakeGitHub, unit) op" where
  "fake_reopen_issue hook repo n = on_issue hook ''reopen_issue'' repo n (\<lambda>i. i\<lparr>fi_state := ''open''\<rparr>)"

definition fake_find_issues :: "'h ghook \<Rightarrow> str \<Rightarrow> str \<Rightarrow> str \<Rightarrow> ('h FakeGitHub, Issue list) op" where
  "fake_find_issues hook repo label state =
     op_bind (github_touch hook ''find_issues'' repo label) (\<lambda>_. op_get (\<lambda>g.
     op_map (fake_get_issue hook repo)
       (map fst (filter (\<lambda>(n, i). label \<in> set (fi_labels i) \<and> (state = ''all'' \<or> fi_state i = state)) (sort_key fst (fg_issues g))))))"

definition fake_get_pull_request :: "'h ghook \<Rightarrow> str \<Rightarrow> nat \<Rightarrow> ('h FakeGitHub, PullRequestInfo) op" where
  "fake_get_pull_request hook repo n =
     op_bind (github_touch hook ''get_pull_request'' repo (show_nat n)) (\<lambda>_. op_bind (pr_at n) (\<lambda>p.
     op_ret \<lparr>pi_repo = repo, pi_number = n, pi_url = pull_url repo n, pi_title = fp_title p, pi_state = fp_state p,
       pi_merged = fp_merged p, pi_merge_commit_sha = fp_merge_commit_sha p, pi_base_ref = fp_base_ref p,
       pi_head_ref = fp_head_ref p, pi_head_repo = fp_head_repo p, pi_head_sha = fp_head_sha p, pi_author = fp_author p,
       pi_merged_at = fp_merged_at p\<rparr>))"

definition fake_pull_request_from_url :: "'h ghook \<Rightarrow> str \<Rightarrow> ('h FakeGitHub, PullRequestInfo) op" where
  "fake_pull_request_from_url hook url = op_get (\<lambda>g.
     let prefix = ''https://github.com/'' @ fg_repo g @ ''/pull/'' in
     if \<not> starts_with url prefix then op_raise (fake_github_error (''foreign PR url '' @ url))
     else op_bind (op_lift (int_of_str (rstrip_char CHR ''/'' (drop (length prefix) url)))) (\<lambda>n.
       fake_get_pull_request hook (fg_repo g) (nat n)))"

definition fake_list_pr_files :: "'h ghook \<Rightarrow> str \<Rightarrow> nat \<Rightarrow> ('h FakeGitHub, DiffFile list) op" where
  "fake_list_pr_files hook repo n =
     op_bind (github_touch hook ''list_pr_files'' repo (show_nat n)) (\<lambda>_. op_bind (pr_at n) (\<lambda>p. op_ret (fp_files p)))"

definition fake_list_pr_reviews :: "'h ghook \<Rightarrow> str \<Rightarrow> nat \<Rightarrow> ('h FakeGitHub, Review list) op" where
  "fake_list_pr_reviews hook repo n =
     op_bind (github_touch hook ''list_pr_reviews'' repo (show_nat n)) (\<lambda>_. op_bind (pr_at n) (\<lambda>p. op_ret (fp_reviews p)))"

definition fake_comment_pull_request :: "'h ghook \<Rightarrow> str \<Rightarrow> nat \<Rightarrow> str \<Rightarrow> ('h FakeGitHub, unit) op" where
  "fake_comment_pull_request hook repo n body =
     op_bind (github_touch hook ''comment_pull_request'' repo (show_nat n)) (\<lambda>_. change_pr n (\<lambda>p. p\<lparr>fp_comments := fp_comments p @ [body]\<rparr>))"

definition or_nil :: "'a list option \<Rightarrow> 'a list" where
  "or_nil v = (case v of Some xs \<Rightarrow> xs | None \<Rightarrow> [])"

definition fake_list_check_runs :: "'h ghook \<Rightarrow> str \<Rightarrow> str \<Rightarrow> ('h FakeGitHub, CheckRun list) op" where
  "fake_list_check_runs hook repo sha =
     op_bind (github_touch hook ''list_check_runs'' repo sha) (\<lambda>_. op_get (\<lambda>g. op_ret (or_nil (dict_get (fg_checks g) sha))))"

definition fake_list_commit_statuses :: "'h ghook \<Rightarrow> str \<Rightarrow> str \<Rightarrow> ('h FakeGitHub, FakeStatus list) op" where
  "fake_list_commit_statuses hook repo sha =
     op_bind (github_touch hook ''list_commit_statuses'' repo sha) (\<lambda>_. op_get (\<lambda>g. op_ret (or_nil (dict_get (fg_statuses g) sha))))"

text \<open>
  \<open>_descends\<close>: a search over the parents, the head of the list being the top of the stack. The second
  parent of a merge is stored under the merge's name with a suffix.
\<close>

definition parents_of :: "(str, str option) dict \<Rightarrow> str \<Rightarrow> str list" where
  "parents_of ps cur =
     (case dict_get ps (cur @ ''~pr'') of Some (Some p) \<Rightarrow> [p] | _ \<Rightarrow> []) @ (case dict_get ps cur of Some (Some p) \<Rightarrow> [p] | _ \<Rightarrow> [])"

lemma finite_children: "finite {c. parents_of ps c \<noteq> []}"
proof (rule finite_subset)
  show "{c. parents_of ps c \<noteq> []} \<subseteq> fst ` set ps \<union> (\<lambda>k. take (length k - 3) k) ` fst ` set ps"
  proof
    fix c
    assume "c \<in> {c. parents_of ps c \<noteq> []}"
    then have "dict_get ps (c @ ''~pr'') \<noteq> None \<or> dict_get ps c \<noteq> None" by (auto simp: parents_of_def)
    then have "c @ ''~pr'' \<in> fst ` set ps \<or> c \<in> fst ` set ps" unfolding dict_get_def map_of_eq_None_iff by simp
    moreover have "c = take (length (c @ ''~pr'') - 3) (c @ ''~pr'')" by simp
    ultimately show "c \<in> fst ` set ps \<union> (\<lambda>k. take (length k - 3) k) ` fst ` set ps" by blast
  qed
qed simp

function search_parents :: "(str, str option) dict \<Rightarrow> str \<Rightarrow> str list \<Rightarrow> str list \<Rightarrow> bool" where
  "search_parents ps ancestor seen [] = False"
| "search_parents ps ancestor seen (cur # stack) =
     (if cur = ancestor then True
      else if cur \<in> set seen then search_parents ps ancestor seen stack
      else search_parents ps ancestor (cur # seen) (parents_of ps cur @ stack))"
  by pat_completeness auto

termination
proof (relation "(\<lambda>(ps, a, seen, stack). card ({c. parents_of ps c \<noteq> []} - set seen)) <*mlex*> measure (\<lambda>(ps, a, seen, stack). length stack)",
    goal_cases)
  case 1
  show ?case by (intro wf_mlex wf_measure)
next
  case (2 ps a seen cur stack)
  then show ?case by (simp add: mlex_iff)
next
  case (3 ps a seen cur stack)
  show ?case
  proof (cases "parents_of ps cur = []")
    case True
    have "{c. parents_of ps c \<noteq> []} - set (cur # seen) = {c. parents_of ps c \<noteq> []} - set seen" using True by auto
    with True show ?thesis by (simp add: mlex_iff)
  next
    case False
    have "card ({c. parents_of ps c \<noteq> []} - set (cur # seen)) < card ({c. parents_of ps c \<noteq> []} - set seen)"
      by (rule psubset_card_mono) (use False 3 finite_children [of ps] in auto)
    then show ?thesis by (simp add: mlex_iff)
  qed
qed

definition commit_descends :: "'h FakeGitHub \<Rightarrow> str \<Rightarrow> str \<Rightarrow> bool" where
  "commit_descends g node ancestor = search_parents (fg_parents g) ancestor [] [node]"

definition fake_compare :: "'h ghook \<Rightarrow> str \<Rightarrow> str \<Rightarrow> str \<Rightarrow> ('h FakeGitHub, Compare) op" where
  "fake_compare hook repo base head =
     op_bind (github_touch hook ''compare'' repo (base @ ''...'' @ head)) (\<lambda>_. op_get (\<lambda>g. op_ret
       (if base = head then \<lparr>cmp_status = ''identical'', cmp_ahead_by = 0, cmp_behind_by = 0\<rparr>
        else if commit_descends g head base then \<lparr>cmp_status = ''ahead'', cmp_ahead_by = 1, cmp_behind_by = 0\<rparr>
        else if commit_descends g base head then \<lparr>cmp_status = ''behind'', cmp_ahead_by = 0, cmp_behind_by = 1\<rparr>
        else \<lparr>cmp_status = ''diverged'', cmp_ahead_by = 1, cmp_behind_by = 1\<rparr>)))"

definition fake_get_file :: "'h ghook \<Rightarrow> str \<Rightarrow> str \<Rightarrow> str \<Rightarrow> ('h FakeGitHub, BranchFile option) op" where
  "fake_get_file hook repo path ref =
     op_bind (github_touch hook ''get_file'' repo (ref @ '':'' @ path)) (\<lambda>_. op_get (\<lambda>g. op_ret (dict_get (fg_files g) (path, ref))))"

definition fake_branch_head :: "'h ghook \<Rightarrow> str \<Rightarrow> str \<Rightarrow> ('h FakeGitHub, str) op" where
  "fake_branch_head hook repo branch = op_bind (github_touch hook ''branch_head'' repo branch) (\<lambda>_. branch_at branch)"

text \<open>What a consumer gets that reads the whole listing, newest run first.\<close>

definition fake_list_workflow_runs ::
    "'h ghook \<Rightarrow> str \<Rightarrow> str \<Rightarrow> str option \<Rightarrow> str option \<Rightarrow> str option \<Rightarrow> ('h FakeGitHub, WorkflowRunInfo list) op" where
  "fake_list_workflow_runs hook repo workflow_file head_sha branch status =
     op_bind (github_touch hook ''list_workflow_runs'' repo workflow_file) (\<lambda>_. op_get (\<lambda>g.
     let out = map fw_info (filter (\<lambda>r. fw_workflow_file r = workflow_file \<and> (head_sha = None \<or> Some (wr_head_sha (fw_info r)) = head_sha) \<and>
           (branch = None \<or> wr_head_branch (fw_info r) = branch) \<and> (status = None \<or> Some (wr_status (fw_info r)) = status))
           (map snd (fg_workflow_runs g)));
         infos = sort_key (\<lambda>r. - int (wr_id r)) out in
     op_bind (op_put (\<lambda>g. g\<lparr>fg_workflow_runs_yielded := fg_workflow_runs_yielded g + length infos\<rparr>)) (\<lambda>_. op_ret infos)))"

definition fake_list_run_artifacts :: "'h ghook \<Rightarrow> str \<Rightarrow> nat \<Rightarrow> ('h FakeGitHub, ArtifactInfo list) op" where
  "fake_list_run_artifacts hook repo run_id =
     op_bind (github_touch hook ''list_run_artifacts'' repo (show_nat run_id)) (\<lambda>_. op_get (\<lambda>g.
     case dict_get (fg_workflow_runs g) run_id of
       None \<Rightarrow> op_raise (fake_github_error (''unknown workflow run '' @ show_nat run_id))
     | Some r \<Rightarrow> op_ret (map fst (fw_artifacts r))))"

definition fake_download_artifact ::
    "'h ghook \<Rightarrow> (str \<Rightarrow> exn + (str \<times> str) list) \<Rightarrow> str \<Rightarrow> (str, str) dict \<Rightarrow> str \<Rightarrow> nat \<Rightarrow> str
     \<Rightarrow> ('h FakeGitHub, (exn + str) \<times> (str, str) dict) op" where
  "fake_download_artifact hook unzip cwd t repo artifact_id dest =
     op_bind (github_touch hook ''download_artifact'' repo (show_nat artifact_id)) (\<lambda>_. op_get (\<lambda>g.
     case find (\<lambda>(info, _). ai_id info = artifact_id) (concat (map (fw_artifacts \<circ> snd) (fg_workflow_runs g))) of
       None \<Rightarrow> op_raise (fake_github_error (''unknown artifact '' @ show_nat artifact_id))
     | Some (_, payload) \<Rightarrow> op_ret (extract_artifact_zip unzip cwd payload dest t)))"

section \<open>Assertions of the scenarios\<close>

definition WRITE_METHODS :: "str list" where
  "WRITE_METHODS = [''create_issue'', ''comment_issue'', ''add_labels'', ''remove_label'', ''close_issue'', ''reopen_issue'', ''comment_pull_request'']"

definition write_calls :: "'h FakeGitHub \<Rightarrow> (str \<times> str) list" where
  "write_calls g = filter (\<lambda>c. fst c \<in> set WRITE_METHODS) (fg_calls g)"

definition never_merged_or_approved :: "'h FakeGitHub \<Rightarrow> bool" where
  "never_merged_or_approved g \<longleftrightarrow> \<not> list_ex (\<lambda>c. fst c \<in> {''merge_pull_request'', ''approve_pull_request''}) (fg_calls g)"

section \<open>The search finds exactly the ancestors\<close>

definition parent_edges :: "(str, str option) dict \<Rightarrow> (str \<times> str) set" where
  "parent_edges ps = {(c, p). p \<in> set (parents_of ps c)}"

lemma last_visit:
  "(s, a) \<in> R\<^sup>* \<Longrightarrow> (s, a) \<in> {(x, y) \<in> R. x \<noteq> c}\<^sup>* \<or> (\<exists>p. (c, p) \<in> R \<and> (p, a) \<in> {(x, y) \<in> R. x \<noteq> c}\<^sup>*)"
proof (induction rule: converse_rtrancl_induct)
  case (step s s')
  then show ?case by (cases "s = c") (auto intro: converse_rtrancl_into_rtrancl)
qed simp

lemma search_parents_iff:
  "ancestor \<notin> set seen \<Longrightarrow>
     search_parents ps ancestor seen stack \<longleftrightarrow> (\<exists>s\<in>set stack. (s, ancestor) \<in> {(x, y) \<in> parent_edges ps. x \<notin> set seen}\<^sup>*)"
proof (induction ps ancestor seen stack rule: search_parents.induct)
  case (2 ps ancestor seen cur stack)
  let ?R = "\<lambda>seen. {(x, y) \<in> parent_edges ps. x \<notin> set seen}"
  consider "cur = ancestor" | "cur \<noteq> ancestor" "cur \<in> set seen" | "cur \<noteq> ancestor" "cur \<notin> set seen" by blast
  then show ?case
  proof cases
    case 2
    then have "(cur, ancestor) \<notin> (?R seen)\<^sup>*" by (auto elim: converse_rtranclE)
    with 2 "2.IH"(1) "2.prems" show ?thesis by simp
  next
    case 3
    let ?R' = "?R (cur # seen)"
    have R': "?R' = {(x, y) \<in> ?R seen. x \<noteq> cur}" by auto
    have "(\<exists>s\<in>set (parents_of ps cur @ stack). (s, ancestor) \<in> ?R'\<^sup>*) \<longleftrightarrow> (\<exists>s\<in>set (cur # stack). (s, ancestor) \<in> (?R seen)\<^sup>*)" (is "?A \<longleftrightarrow> ?B")
    proof
      assume ?A
      then obtain s where s: "s \<in> set (parents_of ps cur @ stack)" "(s, ancestor) \<in> ?R'\<^sup>*" by blast
      then have reach: "(s, ancestor) \<in> (?R seen)\<^sup>*" unfolding R' by (auto elim: rtrancl_mono [THEN subsetD, rotated])
      show ?B
      proof (cases "s \<in> set stack")
        case False
        with s(1) have "(cur, s) \<in> ?R seen" using 3 by (simp add: parent_edges_def)
        with reach show ?B by (auto intro: converse_rtrancl_into_rtrancl)
      qed (use reach in auto)
    next
      assume ?B
      then obtain s where s: "s \<in> set (cur # stack)" "(s, ancestor) \<in> (?R seen)\<^sup>*" by blast
      from last_visit [OF s(2), of cur] consider "(s, ancestor) \<in> ?R'\<^sup>*" | p where "(cur, p) \<in> ?R seen" "(p, ancestor) \<in> ?R'\<^sup>*"
        unfolding R' by blast
      then show ?A
      proof cases
        case 1
        show ?A
        proof (cases "s = cur")
          case True
          with 1 3(1) obtain y where "(cur, y) \<in> ?R'" by (auto elim: converse_rtranclE)
          then show ?A by simp
        qed (use 1 s(1) in auto)
      next
        case 2
        then show ?A by (auto simp: parent_edges_def)
      qed
    qed
    with 3 "2.IH"(2) "2.prems" show ?thesis by simp
  qed auto
qed simp

lemma commit_descends_iff: "commit_descends g node ancestor \<longleftrightarrow> (node, ancestor) \<in> (parent_edges (fg_parents g))\<^sup>*"
  unfolding commit_descends_def by (subst search_parents_iff) simp_all

end
