(* ===== verification/Redact.thy ===== *)
theory Redact
  imports Config
begin

text \<open>
  \<^verbatim>\<open>logging_utils.py\<close>: what the logs may contain. A replacement scans the text once from the left; where a
  match begins, the part of it that is kept and the marker take its place.
\<close>

section \<open>The filter\<close>

definition REDACTED :: str where "REDACTED = ''[REDACTED]''"

text \<open>
  \<open>m s\<close> tells whether a match begins at \<open>s\<close>: what is kept of it, and what follows it. A matcher consumes
  at least one character.
\<close>

function substitute :: "(str \<Rightarrow> (str \<times> str) option) \<Rightarrow> str \<Rightarrow> str" where
  "substitute m [] = []"
| "substitute m (c # s) =
     (case m (c # s) of
        Some (kept, rest) \<Rightarrow> if length rest \<le> length s then kept @ REDACTED @ substitute m rest else c # substitute m s
      | None \<Rightarrow> c # substitute m s)"
  by pat_completeness auto
termination by (relation "measure (\<lambda>(m, s). length s)") auto

definition match_text :: "str \<Rightarrow> str \<Rightarrow> (str \<times> str) option" where
  "match_text secret s = (if secret \<noteq> [] \<and> starts_with s secret then Some ([], drop (length secret) s) else None)"

text \<open>A prefix and a run of at least \<open>n\<close> characters of a class.\<close>

definition match_token :: "str \<Rightarrow> (char \<Rightarrow> bool) \<Rightarrow> nat \<Rightarrow> str \<Rightarrow> (str \<times> str) option" where
  "match_token prefix cls n s =
     (let body = drop (length prefix) s; run = takeWhile cls body in
      if prefix \<noteq> [] \<and> starts_with s prefix \<and> n \<le> length run then Some ([], dropWhile cls body) else None)"

definition alphanumeric :: "char \<Rightarrow> bool" where
  "alphanumeric c \<longleftrightarrow> (let n = (of_char c :: nat) in (65 \<le> n \<and> n \<le> 90) \<or> (97 \<le> n \<and> n \<le> 122) \<or> (48 \<le> n \<and> n \<le> 57))"

definition GITHUB_PREFIXES :: "str list" where
  "GITHUB_PREFIXES = [''ghp_'', ''gho_'', ''ghu_'', ''ghs_'', ''ghr_'']"

definition match_github :: "str \<Rightarrow> (str \<times> str) option" where
  "match_github s =
     (case filter (\<lambda>p. match_token p alphanumeric 20 s \<noteq> None) GITHUB_PREFIXES of
        [] \<Rightarrow> None
      | p # _ \<Rightarrow> match_token p alphanumeric 20 s)"

text \<open>\<open>(?i)(authorization:\\s*bearer\\s+)\\S+\<close>: the scheme is kept, the credential is not.\<close>

definition match_bearer :: "str \<Rightarrow> (str \<times> str) option" where
  "match_bearer s =
     (if lower (take 14 s) \<noteq> ''authorization:'' then None
      else
        let gap = takeWhile is_space (drop 14 s); t = dropWhile is_space (drop 14 s) in
        if lower (take 6 t) \<noteq> ''bearer'' then None
        else
          let space = takeWhile is_space (drop 6 t); u = dropWhile is_space (drop 6 t) in
          if space = [] \<or> u = [] then None
          else Some (take 14 s @ gap @ take 6 t @ space, dropWhile (\<lambda>c. \<not> is_space c) u))"

definition redact :: "str list \<Rightarrow> str \<Rightarrow> str" where
  "redact secrets s =
     (let s1 = foldl (\<lambda>t secret. substitute (match_text secret) t) s (filter (\<lambda>x. x \<noteq> []) secrets);
          s2 = substitute (match_token ''cog_'' (\<lambda>c. alphanumeric c \<or> c = CHR ''_'' \<or> c = CHR ''-'') 8) s1;
          s3 = substitute match_github s2;
          s4 = substitute (match_token ''github_pat_'' (\<lambda>c. alphanumeric c \<or> c = CHR ''_'') 20) s3 in
      substitute match_bearer s4)"

section \<open>Occurrences and brackets\<close>

definition occurs :: "str \<Rightarrow> str \<Rightarrow> bool" where
  "occurs x s \<longleftrightarrow> (\<exists>a b. s = a @ x @ b)"

lemma occurs_split:
  assumes "occurs x (s @ c # t)" "c \<notin> set x" "x \<noteq> []"
  shows "occurs x s \<or> occurs x t"
proof -
  from assms(1) obtain a b where e: "s @ c # t = a @ x @ b" by (auto simp: occurs_def)
  obtain us where "s = a @ us \<and> us @ c # t = x @ b \<or> s @ us = a \<and> c # t = us @ x @ b"
    using append_eq_append_conv2 [THEN iffD1, OF e] by (elim exE)
  then show ?thesis
  proof
    assume s: "s = a @ us \<and> us @ c # t = x @ b"
    then obtain vs where "us = x @ vs \<and> vs @ c # t = b \<or> us @ vs = x \<and> c # t = vs @ b"
      using append_eq_append_conv2 [THEN iffD1, OF conjunct2 [OF s]] by (elim exE)
    then show ?thesis
    proof
      assume "us = x @ vs \<and> vs @ c # t = b"
      with s show ?thesis by (auto simp: occurs_def)
    next
      assume v: "us @ vs = x \<and> c # t = vs @ b"
      with assms(2) have "vs = []" by (cases vs) auto
      with v s have "s = a @ x @ []" by simp
      then show ?thesis unfolding occurs_def by blast
    qed
  next
    assume s: "s @ us = a \<and> c # t = us @ x @ b"
    with assms(2,3) obtain us' where "us = c # us'" by (cases us; cases x) auto
    with s show ?thesis by (auto simp: occurs_def)
  qed
qed

lemma occurs_mono: "occurs x s \<Longrightarrow> occurs x (p @ s @ q)"
  unfolding occurs_def by (metis append.assoc)

text \<open>A secret the marker cannot contribute to.\<close>

definition plain_secret :: "str \<Rightarrow> bool" where
  "plain_secret x \<longleftrightarrow> x \<noteq> [] \<and> CHR ''['' \<notin> set x \<and> CHR '']'' \<notin> set x \<and> \<not> occurs x ''REDACTED''"

lemma occurs_marker: "plain_secret x \<Longrightarrow> occurs x (s @ REDACTED @ t) \<Longrightarrow> occurs x s \<or> occurs x t"
proof -
  assume p: "plain_secret x" and o': "occurs x (s @ REDACTED @ t)"
  have "s @ REDACTED @ t = s @ CHR ''['' # (''REDACTED'' @ CHR '']'' # t)" by (simp add: REDACTED_def)
  with o' p occurs_split [of x s "CHR ''[''" "''REDACTED'' @ CHR '']'' # t"]
  have "occurs x s \<or> occurs x (''REDACTED'' @ CHR '']'' # t)" by (simp add: plain_secret_def)
  then show ?thesis using p occurs_split [of x "''REDACTED''" "CHR '']''" t] by (auto simp: plain_secret_def)
qed

section \<open>No secret survives\<close>

definition matcher_ok :: "(str \<Rightarrow> (str \<times> str) option) \<Rightarrow> bool" where
  "matcher_ok m \<longleftrightarrow> (\<forall>s kept rest. m s = Some (kept, rest) \<longrightarrow> (\<exists>gone. s = kept @ gone @ rest))"

lemma substitute_keeps_out:
  "plain_secret x \<Longrightarrow> matcher_ok m \<Longrightarrow> \<not> occurs x (q @ s) \<Longrightarrow> \<not> occurs x (q @ substitute m s)"
proof (induction m s arbitrary: q rule: substitute.induct)
  case (2 m c s)
  note IH = 2(1,2,3) and p = 2(4) and ok = 2(5) and out = 2(6)
  show ?case
  proof (cases "m (c # s)")
    case None
    with IH(1) [OF None p ok, of "q @ [c]"] out show ?thesis by simp
  next
    case (Some kr)
    obtain kept rest where kr: "kr = (kept, rest)" by (cases kr)
    with ok Some obtain gone where gone: "c # s = kept @ gone @ rest" unfolding matcher_ok_def by blast
    show ?thesis
    proof (cases "length rest \<le> length s")
      case True
      have "\<not> occurs x (q @ kept)" "\<not> occurs x rest"
        using out occurs_mono [of x "q @ kept" "[]" "gone @ rest"] occurs_mono [of x rest "q @ kept @ gone" "[]"] gone by auto
      with IH(2) [OF Some kr [symmetric] True p ok, of "[]"] have "\<not> occurs x (q @ kept)" "\<not> occurs x (substitute m rest)" by simp_all
      with occurs_marker [OF p, of "q @ kept" "substitute m rest"] Some kr True show ?thesis by auto
    next
      case False
      with IH(3) [OF Some kr [symmetric] False p ok, of "q @ [c]"] out Some kr show ?thesis by simp
    qed
  qed
qed simp

lemma match_text_ok: "matcher_ok (match_text secret)"
  by (auto simp: matcher_ok_def match_text_def starts_with_iff split: if_splits)

lemma starts_with_drop: "starts_with s p \<Longrightarrow> s = p @ drop (length p) s"
  by (auto simp: starts_with_iff)

lemma match_token_ok: "matcher_ok (match_token p cls n)"
  unfolding matcher_ok_def match_token_def Let_def
proof (intro allI impI)
  fix s kept rest
  assume "(if p \<noteq> [] \<and> starts_with s p \<and> n \<le> length (takeWhile cls (drop (length p) s))
      then Some ([], dropWhile cls (drop (length p) s)) else None) = Some (kept :: str, rest)"
  then have k: "kept = []" "rest = dropWhile cls (drop (length p) s)" and m: "starts_with s p" by (auto split: if_splits)
  have "s = kept @ (p @ takeWhile cls (drop (length p) s)) @ rest" using starts_with_drop [OF m] k by simp
  then show "\<exists>gone. s = kept @ gone @ rest" by blast
qed

lemma match_github_ok: "matcher_ok match_github"
  using match_token_ok unfolding matcher_ok_def match_github_def
  by (auto split: list.splits)

lemma match_bearer_ok: "matcher_ok match_bearer"
  unfolding matcher_ok_def
proof (intro allI impI)
  fix s kept rest
  assume "match_bearer s = Some (kept, rest)"
  then have k: "kept = take 14 s @ takeWhile is_space (drop 14 s) @ take 6 (dropWhile is_space (drop 14 s)) @
      takeWhile is_space (drop 6 (dropWhile is_space (drop 14 s)))"
    and r: "rest = dropWhile (\<lambda>c. \<not> is_space c) (dropWhile is_space (drop 6 (dropWhile is_space (drop 14 s))))"
    by (auto simp: match_bearer_def Let_def split: if_splits)
  have "s = kept @ takeWhile (\<lambda>c. \<not> is_space c) (dropWhile is_space (drop 6 (dropWhile is_space (drop 14 s)))) @ rest"
    unfolding k r by (simp only: append.assoc takeWhile_dropWhile_id append_take_drop_id)
  then show "\<exists>gone. s = kept @ gone @ rest" by blast
qed

text \<open>Replacing a secret removes it: no occurrence begins where the scan has passed.\<close>

lemma substitute_removes:
  assumes p: "plain_secret x"
  shows "(\<forall>i<length q. \<not> starts_with (drop i (q @ s)) x) \<Longrightarrow> \<not> occurs x (q @ substitute (match_text x) s)"
proof (induction "match_text x" s arbitrary: q rule: substitute.induct)
  case 1
  show ?case
  proof
    assume "occurs x (q @ substitute (match_text x) [])"
    then obtain a b where q: "q = a @ x @ b" by (auto simp: occurs_def)
    then have "length a < length q" using p by (simp add: plain_secret_def)
    with 1 have "\<not> starts_with (drop (length a) (q @ [])) x" by blast
    with q show False by (simp add: starts_with_iff)
  qed
next
  case (2 c s)
  have x: "x \<noteq> []" using p by (simp add: plain_secret_def)
  show ?case
  proof (cases "starts_with (c # s) x")
    case False
    then have none: "match_text x (c # s) = None" by (simp add: match_text_def)
    have "\<not> starts_with (drop i ((q @ [c]) @ s)) x" if "i < length (q @ [c])" for i
      using 2(4) False that by (cases "i = length q") auto
    with 2(1) [OF none, of "q @ [c]"] none show ?thesis by simp
  next
    case True
    let ?rest = "drop (length x) (c # s)"
    have some: "match_text x (c # s) = Some ([], ?rest)" using True x by (simp add: match_text_def)
    have len: "length ?rest \<le> length s" using x by (cases x) auto
    have "\<not> occurs x q"
    proof
      assume "occurs x q"
      then obtain a b where q: "q = a @ x @ b" by (auto simp: occurs_def)
      then have "length a < length q" using x by simp
      with 2(4) have "\<not> starts_with (drop (length a) (q @ c # s)) x" by blast
      with q show False by (simp add: starts_with_iff)
    qed
    moreover have "\<not> occurs x (substitute (match_text x) ?rest)"
      using 2(2) [OF some refl len, of "[]"] by simp
    ultimately have "\<not> occurs x (q @ REDACTED @ substitute (match_text x) ?rest)" using occurs_marker [OF p] by blast
    then show ?thesis using some len by simp
  qed
qed

lemma secrets_gone:
  "plain_secret x \<Longrightarrow> x \<in> set secrets \<or> \<not> occurs x s \<Longrightarrow>
     \<not> occurs x (foldl (\<lambda>t secret. substitute (match_text secret) t) s secrets)"
proof (induction secrets arbitrary: s)
  case (Cons y ys)
  show ?case
  proof (cases "x = y \<or> \<not> occurs x s")
    case True
    then have "\<not> occurs x (substitute (match_text y) s)"
      using substitute_removes [OF Cons.prems(1), of "[]" s] substitute_keeps_out [OF Cons.prems(1) match_text_ok, of "[]" s] by auto
    then show ?thesis using Cons by simp
  next
    case False
    then have "x \<in> set ys" using Cons.prems(2) by simp
    then show ?thesis using Cons by simp
  qed
qed simp

lemma redact_removes_secrets:
  assumes "x \<in> set secrets" "plain_secret x"
  shows "\<not> occurs x (redact secrets s)"
proof -
  have "x \<in> set (filter (\<lambda>x. x \<noteq> []) secrets)" using assms by (simp add: plain_secret_def)
  note gone = secrets_gone [OF assms(2) disjI1 [OF this], of s]
  have step: "\<not> occurs x (substitute m t)" if "matcher_ok m" "\<not> occurs x t" for m t
    using substitute_keeps_out [OF assms(2) that(1), of "[]" t] that(2) by simp
  show ?thesis
    unfolding redact_def Let_def by (intro step match_bearer_ok match_token_ok match_github_ok gone)
qed

end
