(* ===== verification/Tooling.thy ===== *)
theory Tooling
  imports CiFacts BundleSamples ReportFacts Labels Vuln SyncFacts RestFacts DevinRest Doctor GitHubDouble Redact
begin

text \<open>
  The properties of the tools around the controller: the manifest and the lint of \<^verbatim>\<open>ci.py\<close>, the negative
  suite of \<^verbatim>\<open>negative.py\<close>, the asset syncer, the service clients, the doctor and the operator's runtime, the
  metrics and the log filter, with the concrete inputs of their witnesses.
\<close>

section \<open>The manifest\<close>

definition sample_image :: "ImageTarget \<Rightarrow> RegistryImage" where
  "sample_image target = \<lparr>ri_target = target, ri_tag = ''t'', ri_digest = ''sha256:i'',
     ri_manifest = [(''config'', JObj [(''digest'', JStr ''sha256:c''), (''size'', JInt 2)]),
       (''layers'', JArr [JObj [(''digest'', JStr (image_target_value target)), (''size'', JInt 3)]])],
     ri_config = [(''config'', JObj [])]\<rparr>"

definition sample_ci_run :: WorkflowRun where
  "sample_ci_run = \<lparr>wf_run_id = 12, wf_run_attempt = 1, wf_event = ''push'', wf_workflow_sha = ''w'', wf_ref = ''r'',
     wf_gate_mode = GM_report, wf_server_url = ''https://github.com'', wf_head_sha = None,
     wf_job_results = [(''lean-smoke'', ''success''), (''app-runs'', ''success'')]\<rparr>"

definition sample_request :: ManifestRequest where
  "sample_request = \<lparr>mr_source_repo = FORK_REPO, mr_source_branch = REMEDIATION_BRANCH, mr_source_sha = BASELINE_SHA,
     mr_platform = DEFAULT_PLATFORM, mr_images = [(IT_lean, sample_image IT_lean), (IT_ci, sample_image IT_ci)],
     mr_run = sample_ci_run, mr_expected_jobs = DEFAULT_EXPECTED_JOBS, mr_gate_files = [(''lean-policy'', ''/b/gate.json'')],
     mr_attach_dirs = [''runtime''], mr_controller_sha = None\<rparr>"

definition sample_tree :: tree where
  "sample_tree = sample_files @ [(''/b/gate.json'', ''gate'')]"

definition sample_gate_json :: json where
  "sample_gate_json = JObj [(''image_ref'', JStr ''x@sha256:i''), (''image_target'', JStr ''lean''), (''mode'', JStr ''report'')]"

definition ci_lib :: "str Lib" where
  "ci_lib = good_lib\<lparr>lb_json := (lb_json good_lib)(''gate'' \<mapsto> sample_gate_json)\<rparr>"

lemma sample_manifest_written:
  "\<not> isl (write_scan_manifest ci_lib (\<lambda>_. ''m'') sample_tree ''/b'' sample_request 0)"
  by code_simp

text \<open>C17. A manifest that is written claims no more than its evidence: its jobs are exactly the
  expected ones, each loaded and checksummed evidence of the image that was pushed for its target; every
  gate in it is about the job it is named for, in the mode of the run; and it says that the runtime was
  verified only when the record of every required runtime job is attached, passed, and ran on the pushed
  image.\<close>

theorem manifest_claims_only_evidence:
  assumes "write_scan_manifest L dumps t out q time = Inr (manifest, t')"
  shows "\<exists>jobs gates files run.
     jget manifest ''jobs'' = Some (JObj jobs) \<and> jget manifest ''gates'' = Some (JObj gates) \<and>
     jget manifest ''files'' = Some (JObj files) \<and> jget manifest ''run'' = Some run \<and>
     fst ` set jobs = set (mr_expected_jobs q) \<and>
     (\<forall>name \<in> set (mr_expected_jobs q). \<exists>job. job_pushed L (disk_of t) out q name job) \<and>
     (\<forall>name gate. dict_get gates name = Some gate \<longrightarrow>
        (\<exists>job. job_pushed L (disk_of t) out q name job \<and> gate_matches q job gate)) \<and>
     (jget run ''runtime_verified'' = Some (JBool True) \<longrightarrow>
        (\<forall>claim \<in> set RUNTIME_RECORDS. runtime_attested L (disk_of t) out q files claim))"
proof -
  obtain g where g: "gather L t out q = Inr g" "manifest_json q g time = Inr manifest"
    using write_scan_manifest_gather [OF assms] by blast
  obtain run where run: "jget manifest ''run'' = Some run" "jget run ''runtime_verified'' = Some (JBool (runtime_verified (mr_run q)))"
    using manifest_json_parts(4) [OF g(2)] by blast
  have gates: "\<exists>job. job_pushed L (disk_of t) out q name job \<and> gate_matches q job gate"
    if "dict_get (ga_gates g) name = Some gate" for name gate
    using gather_gate [OF g(1) that] gather_only_pushed [OF g(1)] by blast
  have jobs: "\<exists>job. job_pushed L (disk_of t) out q name job" if "name \<in> set (mr_expected_jobs q)" for name
    using gather_job [OF g(1) that] by blast
  have runtime: "runtime_attested L (disk_of t) out q (ga_files g) claim"
    if "jget run ''runtime_verified'' = Some (JBool True)" "claim \<in> set RUNTIME_RECORDS" for claim
    using gather_runtime_attested [OF g(1) _ that(2)] that(1) run(2) by simp
  show ?thesis
    by (intro exI [of _ "ga_entries g"] exI [of _ "ga_gates g"] exI [of _ "ga_files g"] exI [of _ run] conjI
        manifest_json_parts(1-3) [OF g(2)] run(1) gather_entries [OF g(1)] ballI allI impI jobs gates runtime)
qed

theorem manifest_claims_only_evidence_witness:
  "\<exists>manifest t'. write_scan_manifest ci_lib (\<lambda>_. ''m'') sample_tree ''/b'' sample_request 0 = Inr (manifest, t') \<and>
     (\<exists>jobs. jget manifest ''jobs'' = Some (JObj jobs) \<and> fst ` set jobs = {''lean-raw'', ''lean-policy'', ''ci-raw''})"
proof -
  obtain manifest t' where w: "write_scan_manifest ci_lib (\<lambda>_. ''m'') sample_tree ''/b'' sample_request 0 = Inr (manifest, t')"
    using sample_manifest_written by (cases "write_scan_manifest ci_lib (\<lambda>_. ''m'') sample_tree ''/b'' sample_request 0") auto
  have "set (mr_expected_jobs sample_request) = {''lean-raw'', ''lean-policy'', ''ci-raw''}"
    by (simp add: sample_request_def DEFAULT_EXPECTED_JOBS_def)
  with w manifest_claims_only_evidence [OF w] show ?thesis by auto
qed

section \<open>The lint\<close>

text \<open>C18. Where the lint of a checkout finds nothing wrong, every document of the approved
  directory is JSON that validates as OpenVEX; each of its not_affected statements carries a listed
  justification and an impact statement; and it is approved, on an issue of the given repository and by
  one of the given approvers.\<close>

theorem clean_lint_means_approved:
  assumes "lint_approved_vex L t src repo approvers = Inr report" and "vl_ok report"
    and "name \<in> set (dir_entries t (src @ ''/'' @ APPROVED_DIR))" and "name \<notin> set [''README.md'', ''.gitkeep'']"
  shows "\<exists>content doc. disk_of t (src @ ''/'' @ APPROVED_DIR @ ''/'' @ name) = Some content \<and> lb_json L content = Some (JObj doc) \<and>
     lint_passed (APPROVED_DIR @ ''/'' @ name) doc repo approvers"
  by (rule lint_approved_clean [OF assms])

definition sample_vex_json :: "(str, json) dict" where
  "sample_vex_json =
     [(''@context'', JStr ''https://openvex.dev/ns/v0.2.0''), (''author'', JStr ''a''), (''timestamp'', JStr ''T''),
      (''statements'', JArr [JObj
         [(''vulnerability'', JObj [(''name'', JStr ''CVE-1'')]), (''products'', JArr [JObj [(''@id'', JStr ''p'')]]),
          (''status'', JStr ''not_affected''), (''justification'', JStr ''component_not_present''),
          (''impact_statement'', JStr ''unused'')]]),
      (''x-approval'', JObj [(''issue_url'', JStr ''https://github.com/o/r/issues/1''), (''approved_by'', JStr ''b''),
         (''approved_at'', JStr ''T'')])]"

definition vex_lib :: "str Lib" where
  "vex_lib = good_lib\<lparr>lb_json := [''v'' \<mapsto> JObj sample_vex_json]\<rparr>"

definition vex_tree :: tree where
  "vex_tree = [(''s/security/vex/approved/a.json'', ''v''), (''s/security/vex/approved/README.md'', ''r'')]"

lemma sample_lint:
  "lint_approved_vex vex_lib vex_tree ''s'' (Some ''O/R'') (Some [''b'']) =
     Inr \<lparr>vl_checked = [''security/vex/approved/a.json''], vl_problems = [],
          vl_issue_urls = [(''security/vex/approved/a.json'', ''https://github.com/o/r/issues/1'')]\<rparr> \<and>
   dir_entries vex_tree (''s'' @ ''/'' @ APPROVED_DIR) = [''README.md'', ''a.json'']"
  by code_simp

theorem clean_lint_means_approved_witness:
  "\<exists>content doc. disk_of vex_tree ''s/security/vex/approved/a.json'' = Some content \<and> lb_json vex_lib content = Some (JObj doc) \<and>
     lint_passed ''security/vex/approved/a.json'' doc (Some ''O/R'') (Some [''b''])"
  using clean_lint_means_approved [OF conjunct1 [OF sample_lint], of "''a.json''"] conjunct2 [OF sample_lint]
  by (simp add: vl_ok_def APPROVED_DIR_def)

section \<open>The negative suite\<close>

text \<open>C19. The two mutations that only plant a file are caught by the repository's own checks: in
  the tree the ignore-file case leaves, the search for ignore files finds the planted one; the tree the
  unapproved-vex case leaves never passes the lint, whatever repository and approvers are given.\<close>

theorem mutations_are_caught:
  assumes "mutate dumps ''ignore-file'' regen src t = Inr (t1, changed1)"
    and "path_join src ''.trivyignore'' = src @ ''/.trivyignore''"
    and "''node_modules'' \<notin> set (path_parts (src @ ''/.trivyignore''))"
    and "mutate dumps ''unapproved-vex'' regen src t = Inr (t2, changed2)"
    and "path_join src unapproved_rel = src @ ''/'' @ unapproved_rel"
    and "lb_json L (dumps (JObj unapproved_doc) @ [CHR 0x0A]) = Some (JObj unapproved_doc)"
  shows "''.trivyignore'' \<in> set (find_ignore_files t1 src) \<and>
    \<not> (\<exists>report. lint_approved_vex L t2 src repo approvers = Inr report \<and> vl_ok report)"
  using ignore_file_found [OF assms(1-3)] unapproved_vex_found [OF assms(4-6)] by blast

definition negative_lib :: "str Lib" where
  "negative_lib = good_lib\<lparr>lb_json := [''d'' @ [CHR 0x0A] \<mapsto> JObj unapproved_doc]\<rparr>"

theorem mutations_are_caught_witness:
  "''.trivyignore'' \<in> set (find_ignore_files
      [(''s/.trivyignore'', ''# ci-negative: forbidden suppression file'' @ [CHR 0x0A] @ ''CVE-2024-0001'' @ [CHR 0x0A])] ''s'') \<and>
   \<not> (\<exists>report. lint_approved_vex negative_lib [(''s/security/vex/approved/ci-negative-unapproved.json'', ''d'' @ [CHR 0x0A])] ''s''
        None None = Inr report \<and> vl_ok report)"
proof (rule mutations_are_caught)
  show "mutate (\<lambda>_. ''d'') ''ignore-file'' Inr ''s'' [] =
    Inr ([(''s/.trivyignore'', ''# ci-negative: forbidden suppression file'' @ [CHR 0x0A] @ ''CVE-2024-0001'' @ [CHR 0x0A])],
      [''.trivyignore''])" by code_simp
  show "mutate (\<lambda>_. ''d'') ''unapproved-vex'' Inr ''s'' [] =
    Inr ([(''s/security/vex/approved/ci-negative-unapproved.json'', ''d'' @ [CHR 0x0A])],
      [''security/vex/approved/ci-negative-unapproved.json''])" by code_simp
  show "path_join ''s'' ''.trivyignore'' = ''s'' @ ''/.trivyignore''" by code_simp
  show "''node_modules'' \<notin> set (path_parts (''s'' @ ''/.trivyignore''))" by code_simp
  show "path_join ''s'' unapproved_rel = ''s'' @ ''/'' @ unapproved_rel" by code_simp
  show "lb_json negative_lib ((\<lambda>_. ''d'') (JObj unapproved_doc) @ [CHR 0x0A]) = Some (JObj unapproved_doc)"
    by (simp add: negative_lib_def)
qed


definition sample_check :: "str \<Rightarrow> str \<Rightarrow> CheckRun" where
  "sample_check name conclusion = \<lparr>cr_name = name, cr_status = ''completed'', cr_conclusion = Some conclusion, cr_url = None\<rparr>"

definition sample_checks :: "CheckRun list" where
  "sample_checks =
     [sample_check ''build-image'' ''failure'', sample_check ''forbid-ignore-files'' ''success'', sample_check ''vex-lint'' ''success'',
      sample_check CHECK_SCAN_MATRIX_TEMPLATE ''skipped'', sample_check ''policy-gate'' ''skipped'',
      sample_check ''lean-smoke'' ''skipped'', sample_check ''app-runs'' ''skipped'', sample_check ''scan-manifest'' ''failure'']"

text \<open>Nothing is listed at first; then every check has ended, the scan matrix skipped as a
  whole.\<close>

definition sample_negative :: NegEnv where
  "sample_negative = \<lparr>ne_create_pr = Inr (7, ''u''),
     ne_check_runs = (\<lambda>k. Inr (if k = 0 then [] else sample_checks)),
     ne_monotonic = (\<lambda>k. of_nat k), ne_now = (\<lambda>_. 0), ne_runs_of_head = Inr [], ne_runs_of_base = Inr [],
     ne_artifacts = (\<lambda>_. Inr []), ne_download = (\<lambda>_ _. Inr []), ne_comment = (\<lambda>_. Inr ()), ne_close = Inr (),
     ne_delete = Inr (), ne_disk = (\<lambda>_. None)\<rparr>"

definition sample_runner :: NegRunner where
  "sample_runner = \<lparr>nr_base_branch = ''main'', nr_timeout_seconds = 5400, nr_work_dir = ''/w'', nr_compare_run_id = None\<rparr>"





text \<open>C21. A negative case does not wait for ever: if the clock passes the deadline at some
  reading, the run returns; and once its pull request exists, the last things it does, whatever raised
  before, are to close the pull request and delete the branch.\<close>

theorem negative_case_ends_clean:
  assumes "\<exists>j. ne_monotonic N 0 + nr_timeout_seconds R \<le> ne_monotonic N (Suc j)" and "ne_create_pr N = Inr pr"
  shows "\<exists>r before. run_case L N R c branch head_sha = Some (r, before @ [NA_close, NA_delete])"
  using run_case_returns [OF assms(1)] run_case_cleans_up [OF _ assms(2)] by metis

theorem negative_case_ends_clean_witness:
  "\<exists>r before. run_case good_lib sample_negative sample_runner case_broken_build ''b'' ''h'' = Some (r, before @ [NA_close, NA_delete])"
proof (rule negative_case_ends_clean)
  show "\<exists>j. ne_monotonic sample_negative 0 + nr_timeout_seconds sample_runner \<le> ne_monotonic sample_negative (Suc j)"
    by (intro exI [of _ 5400]) (simp add: sample_negative_def sample_runner_def)
  show "ne_create_pr sample_negative = Inr (7, ''u'')" by (simp add: sample_negative_def)
qed

section \<open>Assets\<close>







section \<open>The GitHub client\<close>


text \<open>C37. A request is sent once and repeated at most three times, after waits of one, two and
  four seconds; a response it returns is the last one received and has no error status.\<close>

theorem requests_are_bounded:
  "case request N q w of (r, w') \<Rightarrow>
     (\<exists>k\<le>3. ht_sent w' = ht_sent w @ replicate (Suc k) q \<and> ht_slept w' = ht_slept w @ take k [1, 2, 4]) \<and>
     (case r of Inl _ \<Rightarrow> True | Inr resp \<Rightarrow> rp_status resp < 400 \<and> nw_answer N (ht_sent w') = Inr resp)"
  using request_bounded [where N = N and q = q and w = w] by (auto split: prod.splits sum.splits)

text \<open>C36. Where GitHub holds a listing and serves it in pages, the client returns all of it, in
  order, or refuses it when it does not end within thirty pages; it asks for each page once.\<close>

theorem listings_are_whole_or_refused:
  assumes "serves N path params (case k of Some key \<Rightarrow> keyed key | None \<Rightarrow> iter_of) xs"
  shows "\<exists>w'. paginate N path k params w =
      (if length xs < PER_PAGE * MAX_PAGES then Inr xs
       else Inl (github_error (''GET '' @ path @ '': more than '' @ show_nat MAX_PAGES @ '' pages'')), w') \<and>
    length (ht_sent w') = length (ht_sent w) + min MAX_PAGES (Suc (length xs div PER_PAGE))"
  unfolding paginate_def by (rule listing_read_whole [OF assms])

definition paging_net :: "json list \<Rightarrow> Net" where
  "paging_net xs =
     \<lparr>nw_answer = (\<lambda>sent. case dict_get (rq_params (last sent)) ''page'' of
        Some (JInt p) \<Rightarrow> Inr \<lparr>rp_status = 200, rp_ratelimit_remaining = None, rp_text = replicate (nat p) CHR ''p''\<rparr>
      | _ \<Rightarrow> Inl (Exn ''ReadError'' [])),
      nw_json = (\<lambda>s. Inr (JArr (take PER_PAGE (drop (PER_PAGE * (length s - 1)) xs)))),
      nw_fromiso = (\<lambda>_. Inr 0), nw_unzip = (\<lambda>_. Inr [])\<rparr>"

lemma paging_net_serves: "serves (paging_net xs) path [] iter_of xs"
  by (auto simp: serves_def paging_net_def page_request_def with_params_def plain_def dict_get_def iter_of_def)

theorem listings_are_whole_or_refused_witness:
  "\<exists>w'. paginate (paging_net (replicate 250 JNull)) ''/repos/r/issues'' None [] \<lparr>ht_sent = [], ht_slept = []\<rparr> =
     (Inr (replicate 250 JNull), w') \<and> length (ht_sent w') = 3"
  using listings_are_whole_or_refused [of "paging_net (replicate 250 JNull)" "''/repos/r/issues''" "[]" None "replicate 250 JNull"
      "\<lparr>ht_sent = [], ht_slept = []\<rparr>"] paging_net_serves
  by (simp add: PER_PAGE_def MAX_PAGES_def)

section \<open>The doctor and the operator's runtime\<close>

text \<open>C22. The doctor of a live run passes exactly when the bounded live profile is set, the
  database is at the code's schema with no more open sessions than allowed, the committed tree has its
  blueprint, schemas and baseline, and the live orchestrator can be built.\<close>

theorem live_doctor_decides:
  "(\<exists>r. run_doctor L dumps s h True = Inr r \<and> doctor_ok r) \<longleftrightarrow>
     live_profile s \<and> ends_with (rstrip_char CHR ''/'' (lv_devin_api_base s)) ''/v3'' \<and>
     ho_db_exists h \<and> ho_version h = Inr (Some SCHEMA_VERSION) \<and> active_sessions (ho_db h) \<le> LIVE_MAX_CONCURRENT \<and>
     (\<exists>content. disk_of (ho_tree h) (path_join (st_repo_root (lv_settings s)) ''blueprint/superset.yaml'') = Some content \<and>
        contains_str content ''initialize:'') \<and>
     stale_schemas dumps (ho_tree h) (path_join (st_repo_root (lv_settings s)) ''playbooks/schemas'') = [] \<and>
     (\<exists>m. load_baseline L (disk_of (ho_tree h)) (path_join (st_repo_root (lv_settings s)) (''fixtures/baseline/'' @ BASELINE_SHA)) = Inr m) \<and>
     (\<exists>ids. build_live_orchestrator (lb_sha256 L) s h = Inr ids)"
  by (rule doctor_live_iff)

text \<open>C24. A job of the operator's scheduler never raises: it counts a tick and adds a snapshot of
  the metrics of the committed database, or it notes the error and adds none. Earlier snapshots
  stay.\<close>

theorem polling_survives_errors:
  "case run_job E L auto cost t (rt, w, snaps) of (rt', w', snaps') \<Rightarrow>
     (or_ticks rt' = Suc (or_ticks rt) \<and> or_last_error rt' = None \<and>
        (\<exists>m. snaps' = snaps @ [m] \<and> ms_body m = compute_metrics (w_saved w') cost t \<and> ms_id m \<notin> ms_id ` set snaps)) \<or>
     (or_ticks rt' = or_ticks rt \<and> (\<exists>e. or_last_error rt' = Some e) \<and> snaps' = snaps)"
  using job_outcome [where E = E and L = L and auto = auto and cost = cost and t = t and rt = rt and w = w and snaps = snaps] by (auto split: prod.splits)

section \<open>Metrics and logs\<close>

text \<open>C23. The count of a severity in a run is the number of findings present whose worst sighting
  in the run has that severity, the total is the number of findings present, and the gate of the run is
  ready for enforcement exactly when no finding is shown high or critical.\<close>

theorem run_counts_are_exact:
  "dict_get (counts_by_severity d run_id mode) (severity_value s) = Some (card (shown_at d run_id mode s)) \<and>
   sum_list (map snd (counts_by_severity d run_id mode)) = card (shown d run_id mode) \<and>
   (ready_for_enforce (run_gate d run) \<longleftrightarrow>
      shown_at d (sr_id run) SM_policy SEV_high = {} \<and> shown_at d (sr_id run) SM_policy SEV_critical = {})"
  unfolding run_gate_def using counts_at counts_total ready_iff by blast



text \<open>C39. The search of the in-memory GitHub over the parents of commits ends and finds exactly
  the ancestors, second parents of merges included, also where the commits form a cycle.\<close>

theorem ancestry_search_is_exact:
  "commit_descends g node ancestor \<longleftrightarrow> (node, ancestor) \<in> (parent_edges (fg_parents g))\<^sup>*"
  by (rule commit_descends_iff)

end
