(* ===== verification/Spec2Isabelle.thy ===== *)
theory Spec2Isabelle
  imports Contracts Tooling
begin

text \<open>
  \<^bold>\<open>superset-hardening-loop: the controller that turns scan findings into verified fixes.\<close>

  The program (\<^verbatim>\<open>src/hardening_loop\<close>) takes vulnerability scans of one fork and branch, merges and
  classifies their findings, groups them into work items, opens a GitHub issue and a Devin session for
  each, watches the session, its pull request, the checks and the review, waits for a human to merge,
  and closes the findings only on the evidence of a later scan. One SQLite database holds the state;
  GitHub and Devin are remote services; a tick of \<^verbatim>\<open>orchestrator/engine.py\<close> runs all of it in order.

  \<^bold>\<open>Theories and the code they model.\<close>
  \<^item> \<open>Prelude\<close>: strings, dicts, JSON values, number formatting as Python has them; generic lemmas.
  \<^item> \<open>Domain\<close> (\<^verbatim>\<open>domain/enums.py\<close>), \<open>Lifecycle\<close> (\<^verbatim>\<open>orchestrator/state.py\<close>): the enums and the two
    transition tables, with \<open>next_work_item_state\<close> and \<open>next_finding_state\<close>.
  \<^item> \<open>Regex\<close>: the regular expressions the code matches with, decided by derivatives.
  \<^item> \<open>Protocol\<close> (\<^verbatim>\<open>devin/enums.py\<close>, \<^verbatim>\<open>devin/protocol.py\<close>, \<^verbatim>\<open>github/protocol.py\<close>): what the services answer.
  \<^item> \<open>Config\<close>, \<open>Policy\<close>, \<open>Assess\<close>, \<open>Launch\<close>, \<open>Gate\<close>, \<open>Depth\<close>: the pure decisions of \<^verbatim>\<open>config.py\<close>,
    \<^verbatim>\<open>orchestrator/policy.py\<close>, \<^verbatim>\<open>assess.py\<close>, \<^verbatim>\<open>launch.py\<close>, \<^verbatim>\<open>gate.py\<close> and \<^verbatim>\<open>verification.py\<close>.
  \<^item> \<open>Records\<close>, \<open>Classify\<close>, \<open>Vex\<close>, \<open>Schemas\<close>: the merge of the scanners' reports, the rule chain and the
    grouping, OpenVEX documents, the schema of a session's output.
  \<^item> \<open>Dynamic\<close>, \<open>Files\<close>: JSON values as Python code reads them, every failing access with its exception
    class; paths, files, time stamps and the libraries the intake calls (\<open>Lib\<close>).
  \<^item> \<open>Scanners\<close> (\<^verbatim>\<open>ingest/trivy.py\<close>, \<^verbatim>\<open>grype.py\<close>, \<^verbatim>\<open>sbom.py\<close>), \<open>Evidence\<close> (\<^verbatim>\<open>ingest/evidence.py\<close>,
    \<^verbatim>\<open>ingest/vex.py\<close>): the parsers of the reports and of the evidence files a CI bundle holds.
  \<^item> \<open>Tables\<close> (\<^verbatim>\<open>models/tables.py\<close>), \<open>Lineage\<close> (\<^verbatim>\<open>models/lineage.py\<close>): the rows, and regressions of items.
  \<^item> \<open>Closer\<close> (\<^verbatim>\<open>orchestrator/closer.py\<close>): when a run is valid evidence and what it decides.
  \<^item> \<open>Store\<close>: the database as a record of tables, the environment, and the state monad the engine runs
    in; \<open>session_scope\<close> and \<open>write_scope\<close> of \<^verbatim>\<open>db.py\<close> with commit and rollback.
  \<^item> \<open>Core\<close>, \<open>Grouping\<close>, \<open>Dispatch\<close>, \<open>Operate\<close>, \<open>Sessions\<close>, \<open>PullRequests\<close>, \<open>Closure\<close>, \<open>Controller\<close>:
    the methods of \<^verbatim>\<open>Orchestrator\<close>, one definition per method and per loop body, up to \<open>tick\<close>; the last
    also has the step relation \<open>controller_step\<close> and its closure \<open>reachable\<close>.
  \<^item> \<open>Invariants\<close>, \<open>Effects\<close>, \<open>Reservation\<close>, \<open>Guards\<close>, \<open>Handlers\<close>: the lemmas about them.
  \<^item> \<open>Persist\<close> (\<^verbatim>\<open>ingest/persist.py\<close>), \<open>Intake\<close> (\<^verbatim>\<open>ingest/intake.py\<close>): writing a run into the database,
    the validation of a bundle and the polling of workflow runs. \<open>IntakeFacts\<close> has the locale
    \<open>intake_invariant\<close> for what every intake preserves, and the relation \<open>system_reachable\<close>: controller
    operations and intakes in any order. \<open>Bundles\<close>: what an accepted bundle proves; \<open>Outcomes\<close>: what the
    intake of a run leaves behind.
  \<^item> \<open>BundleSamples\<close>: a concrete bundle for the witnesses.
  \<^item> \<open>Samples\<close>: a small concrete repository on which the properties' witnesses are evaluated.
  \<^item> \<open>Ci\<close> (\<^verbatim>\<open>ci.py\<close>), \<open>Negative\<close> (\<^verbatim>\<open>negative.py\<close>): the manifest the workflow writes, the lint of approved
    VEX documents, the ignore-file check, and the negative suite that proves the workflow catches what
    it must; \<open>CiFacts\<close>: the lemmas about them.
  \<^item> \<open>Metrics\<close>, \<open>MetricsFacts\<close> (\<^verbatim>\<open>metrics.py\<close>), \<open>Report\<close>, \<open>ReportFacts\<close> (\<^verbatim>\<open>report/run_report.py\<close>),
    \<open>Labels\<close> (\<^verbatim>\<open>dashboard/labels.py\<close>), \<open>Vuln\<close> (\<^verbatim>\<open>dashboard/vuln.py\<close>): what is shown of the database and
    of the scanners' records.
  \<^item> \<open>Ops\<close>: operations on a service's state that can raise, with the locale \<open>op_relation\<close> for what every
    operation of a client keeps. \<open>Extract\<close> (\<^verbatim>\<open>github/artifacts.py\<close>), \<open>Rest\<close>, \<open>RestFacts\<close> (\<^verbatim>\<open>github/rest.py\<close>),
    \<open>DevinRest\<close> (\<^verbatim>\<open>devin/rest.py\<close>): the live clients over a connection \<open>Net\<close> that answers each request;
    \<open>DevinDouble\<close> (\<^verbatim>\<open>devin/fake.py\<close>), \<open>GitHubDouble\<close> (\<^verbatim>\<open>github/fake.py\<close>): the in-memory services.
  \<^item> \<open>Assets\<close>, \<open>Sync\<close> (\<^verbatim>\<open>devin/assets.py\<close>): the committed playbooks and notes and their reconciliation with
    Devin. \<open>AssetFacts\<close> proves the syncer once in the locale \<open>asset_store\<close>, what a service promises for one
    kind of asset, and interprets it for the playbooks and the notes of the in-memory Devin;
    \<open>SyncFacts\<close> composes both kinds into runs and shows what the loaded bundle guarantees.
  \<^item> \<open>Doctor\<close> (\<^verbatim>\<open>doctor.py\<close>, \<^verbatim>\<open>operator.py\<close>): the preconditions of a live run, its start and its scheduled
    job; \<open>Redact\<close> (\<^verbatim>\<open>logging_utils.py\<close>): what the log filter removes.
  \<^item> \<open>Contracts\<close>: the properties of single components; \<open>Tooling\<close>: those of the tools around the
    controller; this theory: those of the whole controller.

  \<^bold>\<open>How the state corresponds.\<close> \<open>Db\<close> is the set of tables, each a list of rows in id order; an
  operation is a function on a \<open>World\<close>: the open database, the last committed one (what a rollback or
  a crash leaves), the remote calls made so far, each with the committed database at that moment, and
  the number of clock readings. It returns a value or an exception \<open>Exn\<close> with its class and message.
  \<open>Env\<close> is everything outside \<^verbatim>\<open>src/\<close>: the settings, the clock, the answers of GitHub and Devin as
  arbitrary functions of the calls made so far, the files on disk, and the packaging and jsonschema
  libraries. The intake also takes a \<open>Lib\<close>: SHA-256, the JSON and TOML parsers, \<^verbatim>\<open>fromisoformat\<close> and
  version parsing as arbitrary functions. A theorem about an operation holds for every such
  environment.

  \<^bold>\<open>What the lemmas show.\<close> The locale \<open>controller_invariant\<close> (in \<open>Core\<close>) states what an invariant must
  survive: the primitive writes of the engine. Every operation is proved once, inside the locale, to
  keep any such invariant in the open and in every committed database; \<open>Invariants\<close> interprets it for
  the event log, for the immutability of evidence and for the closing runs. \<open>Effects\<close> has the dual
  for relations between the world before and after (locales \<open>effect\<close> and \<open>call_effect\<close>), interpreted
  for the sessions created, the rows left alone and the transaction. \<open>op_relation\<close> does the same for the
  operations of a client and is interpreted for the requests it sends. \<open>Guards\<close> and \<open>Handlers\<close> derive the
  guarded steps of dispatch, recovery, polling, labels and closing from them.

  \<^bold>\<open>Bounds and fuel.\<close> Loops over rows are folds. The search for a regression suffix terminates because
  each number tried occupies a key; the walk over regressions is a \<open>partial_function\<close> proved to return
  where regressions point back in time; the chain of owners is cut at the first repetition, with the
  number of parents as its bound. The clients' loops count down the attempts and pages the code allows.
  The search for an ancestor in the in-memory GitHub terminates because each commit with parents is
  expanded once. No other loop needs a bound.

  \<^bold>\<open>Not modelled.\<close> The unique constraints of the tables, save those of a run's scan jobs and of the synced
  assets (elsewhere an \<open>IntegrityError\<close> is never raised; new ids are fresh by construction); concurrency
  between transactions (SQLite's write lock makes them serial, and a crash is a stop inside a remote
  call, the only place where time passes between commits); symbolic links, empty directories and, save
  in \<open>Extract\<close>, \<open>..\<close> in paths; the order of SELECTs without ORDER BY (rows come in id order) and of sets
  (insertion order); float rounding (ACUs and scores are rationals); characters beyond one byte; log
  messages. In the controller's intake a download answers with the files of the bundle; \<open>Rest\<close> and
  \<open>Extract\<close> model how the live client obtains them. Of the clients, HTTP itself, the zip format, the
  validation of Devin's answers and the callbacks that scenarios register are parameters. Not
  translated at all are the HTML of the dashboard (\<^verbatim>\<open>dashboard/app.py\<close>), the arguments of the command
  line (\<^verbatim>\<open>cli.py\<close>), the replay scenarios (\<^verbatim>\<open>replay\<close>), which script the doubles, and the migrations: they
  display or drive the state modelled here. The manifest lists every part.
\<close>

section \<open>What holds after any number of operations\<close>

text \<open>C1. From a database where every closed finding names an entitled run, any sequence of
  controller operations and scan intakes, completed or cut off inside any remote call, leads to one
  where every closed finding still names a complete run of the fork's remediation branch whose trigger
  may close.\<close>

theorem reachable_closures_entitled:
  assumes "system_reachable L d0 d" and "closed_ok d0"
  shows "closed_ok d"
  by (rule system_closed_ok [OF assms])

theorem reachable_closures_entitled_witness:
  "closed_ok verified_db \<and> map fd_state (db_findings verified_db) = [F_fixed]"
proof
  have "closed_ok (sample_db W_merged F_awaiting_rescan)"
    by (simp add: closed_ok_def sample_defs closed_by_one_of_def enum_defs)
  with verified_db_reachable show "closed_ok verified_db" by (rule reachable_closures_entitled)
  show "map fd_state (db_findings verified_db) = [F_fixed]" by (rule verified_db_states)
qed

text \<open>C3. No item reaches merged, awaiting rescan or verified on its own: if it is there and was
  not at the start, the event log holds a merge by a human or a resolution by a human of that very
  item.\<close>

theorem verified_only_after_a_human:
  assumes "system_reachable L d0 d" and "item_keys_ok d0"
    and "start_state wi_id wi_state W_queued (db_work_items d0) i \<notin> set remediated"
    and "get_row wi_id i (db_work_items d) = Some w" and "wi_state w \<in> set remediated"
  shows "\<exists>e \<in> set (db_events d). el_entity_type e = ''work_item'' \<and> el_entity_id e = i \<and>
    el_event e \<in> {''human_merged'', ''human_resolved''}"
proof -
  have "items_log_ok d0 d" using assms(1,2) by (rule system_items_log_ok)
  from items_log_replay [OF this assms(4)] obtain es where es: "db_events d = db_events d0 @ es"
    and r: "replay_wi (start_state wi_id wi_state W_queued (db_work_items d0) i)
      (entity_log ''work_item'' wi_event_names i es) = Some (wi_state w)"
    by blast
  from replay_crosses [OF r assms(3,5)] obtain e s1 ev s2 where e: "e \<in> set (entity_log ''work_item'' wi_event_names i es)"
    "el_event e = wi_event_value ev" "next_work_item_state s1 ev = Inr s2" "s1 \<notin> set remediated" "s2 \<in> set remediated"
    by blast
  with entering_remediated [OF e(3-5)] es show ?thesis
    by (auto simp: entity_log_def intro!: bexI [of _ e])
qed

theorem verified_only_after_a_human_witness:
  "\<exists>e \<in> set (db_events merged_db). el_entity_type e = ''work_item'' \<and> el_entity_id e = 5 \<and>
     el_event e \<in> {''human_merged'', ''human_resolved''}"
proof -
  obtain w where w: "get_row wi_id 5 (db_work_items merged_db) = Some w" using merged_db_item(1) by blast
  then have "wi_state w \<in> set (map wi_state (db_work_items merged_db))" by (auto dest: get_row_SomeD)
  then have m: "wi_state w \<in> set remediated" by (simp add: merged_db_item(2) remediated_def)
  have "item_keys_ok review_db" "start_state wi_id wi_state W_queued (db_work_items review_db) 5 \<notin> set remediated"
    by (simp_all add: item_keys_ok_def review_db_def sample_defs start_state_def get_row_Cons remediated_def)
  from verified_only_after_a_human [OF merged_db_reachable this w m] show ?thesis .
qed



text \<open>No operation and no crash rewrites evidence: runs (but for their stamp), jobs and sightings
  stay as recorded, findings keep their identity and scan columns, work items keep theirs and are only
  added.\<close>

theorem evidence_is_never_rewritten:
  assumes "reachable (\<lambda>_ _. False) d0 d"
  shows "evidence_ok d0 d"
  using assms
  by (induction rule: reachable.induct) (auto intro: evidence_ok_start evidence_inv.controller_step_keeps)

theorem evidence_is_never_rewritten_witness:
  "evidence_ok (sample_db W_merged F_awaiting_rescan) verified_db"
  by (rule evidence_is_never_rewritten [OF verified_db_reachable])

text \<open>C9. Across controller operations, scan intakes and crashes, scan jobs, sightings, evidence,
  intake rows and events are only ever added; runs are added and keep everything but their closing
  stamp; findings and work items are added, never removed, and keep what they were when opened.\<close>

theorem history_is_append_only:
  assumes "system_reachable L d0 d"
  shows "history_ok d0 d"
  by (rule system_history_ok [OF assms])

theorem history_is_append_only_witness:
  "history_ok empty_db (w_db ingested_world) \<and> map sr_status (db_runs (w_db ingested_world)) = [SR_complete]"
  using history_is_append_only [OF ingested_reachable] sample_ingested by simp



text \<open>A verified or abandoned work item never changes state again, whatever operations
  follow.\<close>

theorem terminal_items_stay:
  assumes "system_reachable L d0 d" and "item_keys_ok d0"
    and "get_row wi_id i (db_work_items d0) = Some w" and "wi_state w \<in> set TERMINAL_WORK_ITEM_STATES"
    and "get_row wi_id i (db_work_items d) = Some w'"
  shows "wi_state w' = wi_state w"
proof -
  have "items_log_ok d0 d" using assms(1,2) by (rule system_items_log_ok)
  from items_log_state [OF this assms(3,5)] show ?thesis using replay_terminal assms(4) by blast
qed

theorem terminal_items_stay_witness:
  "\<exists>w'. get_row wi_id 5 (db_work_items (sample_db W_verified F_fixed)) = Some w' \<and> wi_state w' = W_verified"
proof (intro exI conjI)
  have final: "wi_state (sample_item W_verified) \<in> set TERMINAL_WORK_ITEM_STATES" by code_simp
  have keys: "item_keys_ok (sample_db W_verified F_fixed)" by (simp add: item_keys_ok_def sample_defs)
  note stay = terminal_items_stay [OF reachable.start keys sample_rows(1) final sample_rows(1)]
  show "get_row wi_id 5 (db_work_items (sample_db W_verified F_fixed)) = Some (sample_item W_verified)" by (rule sample_rows)
  show "wi_state (sample_item W_verified) = W_verified" using stay sample_rows(3) by simp
qed

section \<open>Taking in scans\<close>

text \<open>C11. A scan run that the intake of a workflow run adds comes from a checksummed bundle that
  speaks for that workflow run, the expected repository and branch, and in which every required scan job
  is genuine; it is complete only if the workflow concluded with success and every required runtime job
  passed on the very image the manifest names.\<close>

theorem new_runs_are_authentic:
  assumes "ingest_workflow_run E L ix run (fresh_world d) = (r, w')"
    and "x \<in> set (db_runs (w_db w'))" and "x \<notin> set (db_runs d)"
  shows "scan_authentic L ix run x"
  by (rule new_run_authentic [OF assms])

theorem new_runs_are_authentic_witness:
  "\<exists>x \<in> set (db_runs (w_db ingested_world)). sr_status x = SR_complete \<and>
     scan_authentic good_lib sample_expectation sample_workflow_run x"
proof -
  obtain x where x: "db_runs (w_db ingested_world) = [x]" "sr_status x = SR_complete" using sample_ingested by auto
  obtain r where "ingest_workflow_run intake_env good_lib sample_expectation sample_workflow_run (fresh_world empty_db) = (r, ingested_world)"
    by (metis ingested_world_def prod.collapse)
  from new_runs_are_authentic [OF this] x show ?thesis by (simp add: empty_db_def)
qed

text \<open>C12. Looking at a workflow run for the first time either raises and leaves no trace, or
  commits exactly one intake row with the outcome: a rejected run changes nothing else, an ingested one
  adds the run of an admitted bundle, or finds it present, and the row names it.\<close>

theorem every_run_gets_one_intake_row:
  assumes "intake_of (external_run_id (ix_source_repo ix) run) d = None"
    and "ingest_workflow_run E L ix run (fresh_world d) = (r, w')"
  shows "looked_at E L ix run (external_run_id (ix_source_repo ix) run) d r w'"
  using ingest_workflow_run_looked_at [OF assms] by simp

theorem every_run_gets_one_intake_row_witness:
  "\<exists>out. intake_recorded (external_run_id FORK_REPO sample_workflow_run) out empty_db (w_db ingested_world) \<and>
     io_status out = IS_ingested"
proof -
  obtain r where run: "ingest_workflow_run intake_env good_lib sample_expectation sample_workflow_run (fresh_world empty_db) = (r, ingested_world)"
    by (metis ingested_world_def prod.collapse)
  have "intake_of (external_run_id (ix_source_repo sample_expectation) sample_workflow_run) empty_db = None"
    by (simp add: intake_of_def empty_db_def)
  from every_run_gets_one_intake_row [OF this run] sample_ingested show ?thesis
    by (auto simp: looked_at_def intake_recorded_def sample_expectation_def intake_expectation_def empty_db_def split: sum.splits)
qed

text \<open>C13. Whatever the downloaded files hold, and whatever GitHub answers, the guarded check of a
  bundle returns: a bundle to ingest or the reasons to reject it. The TOML parser may raise only what it
  documents.\<close>

theorem malformed_bundles_are_rejected:
  assumes "toml_documented L"
  shows "\<exists>x w'. guarded_check E L ix dir run w = (Inr x, w')"
  by (rule guarded_check_total [OF assms])

theorem malformed_bundles_are_rejected_witness:
  "\<exists>x w'. guarded_check sample_env good_lib sample_expectation sample_bundle sample_workflow_run (fresh_world empty_db) = (Inr x, w')"
proof (rule malformed_bundles_are_rejected)
  show "toml_documented good_lib" by (simp add: toml_documented_def good_lib_def sample_lib_def)
qed

text \<open>C14. The ingestion is outside the guard: a bundle that the validation accepts, but that
  holds a policy scan of an image other than the primary one, makes the poll raise with no intake row
  written, so that the next poll meets the same run again.\<close>

theorem accepted_bundle_can_escape:
  "\<exists>E (L :: str Lib) fs m w'. fst (validate_bundle L fs sample_bundle sample_workflow_run (scan_intake E) (scan_descends E (scan_intake E))
       (fresh_world empty_db)) = Inr (Some m, []) \<and>
     poll_scans E L (fresh_world empty_db) =
       (Inl (value_error ''policy scans of a non-primary image target have no consumer''), w') \<and>
     db_intakes (w_db w') = []"
proof -
  have ix: "scan_intake intake_env = sample_expectation" by code_simp
  obtain m where m: "fst (validate_bundle extra_lib sample_disk sample_bundle sample_workflow_run sample_expectation
      (scan_descends intake_env sample_expectation) (fresh_world empty_db)) = Inr (m, [])"
    using extra_job_accepted by (auto split: sum.splits)
  then obtain x where "m = Some x" using validate_bundle_named by blast
  with m have "fst (validate_bundle extra_lib sample_disk sample_bundle sample_workflow_run (scan_intake intake_env)
      (scan_descends intake_env (scan_intake intake_env)) (fresh_world empty_db)) = Inr (Some x, [])" by (simp add: ix)
  moreover have "poll_scans intake_env extra_lib (fresh_world empty_db) =
      (Inl (value_error ''policy scans of a non-primary image target have no consumer''),
       snd (poll_scans intake_env extra_lib (fresh_world empty_db)))"
    using extra_job_raises by (metis prod.collapse)
  ultimately show ?thesis using extra_job_raises by blast
qed

section \<open>Dispatch\<close>

text \<open>C5. Whatever operation runs, every session it asks Devin to create is tagged for a work item
  that the database committed before the call shows as dispatching: a crash after the call always leaves
  a row to recover from.\<close>

theorem sessions_created_only_for_reserved_items:
  "set (creates (snd (run_op E op (fresh_world d)))) \<subseteq> {x. reserved_call x}"
  by (rule run_op_reserved)

text \<open>C6. A dispatch candidate gets a session only when a slot is free, the item is in issue-open
  with that issue, and its cap fits the budget; the session is tagged for that item, committed as
  dispatching before the call.\<close>

theorem dispatch_reserves_within_limits:
  assumes "dispatch_candidate E wid n acc w = (r, w')" and "x \<in> set (creates w') - set (creates w)"
  shows "\<not> at_capacity E (w_db w) \<and> reserved wid x \<and>
    (\<exists>wi. get_row wi_id wid (db_work_items (w_db w)) = Some wi \<and> wi_state wi = W_issue_open \<and>
       wi_issue_number wi = Some n \<and> \<not> over_budget E wi (w_db w))"
  by (rule dispatch_candidate_created [OF assms])

theorem dispatch_reserves_within_limits_witness:
  "creates (snd (dispatch_candidate sample_env 5 7 (0, []) (fresh_world (sample_db W_issue_open F_grouped)))) \<noteq> [] \<and>
   list_all (reserved 5) (creates (snd (dispatch_candidate sample_env 5 7 (0, []) (fresh_world (sample_db W_issue_open F_grouped)))))"
proof
  let ?m = "dispatch_candidate sample_env 5 7 (0, []) (fresh_world (sample_db W_issue_open F_grouped))"
  show "creates (snd ?m) \<noteq> []" by code_simp
  have "creates (fresh_world (sample_db W_issue_open F_grouped)) = []" by code_simp
  then show "list_all (reserved 5) (creates (snd ?m))"
    using dispatch_reserves_within_limits [OF prod.collapse [symmetric], of _ sample_env 5 7 "(0, [])" "fresh_world (sample_db W_issue_open F_grouped)"]
    by (auto simp: list_all_iff)
qed



text \<open>The dispatch phase of a tick that may only recover creates no session.\<close>

theorem recovery_only_ticks_create_no_session:
  "creates (snd (tick_dispatch E auto True w)) = creates w"
  by (metis no_create_creates prod.collapse recover_only_creates_none)

section \<open>Sessions, pull requests and labels\<close>

text \<open>C7. An active item moves to its pull request only when the session's final report is valid
  and within the cap, and GitHub answered with a pull request on the fork whose diff is within
  policy.\<close>

theorem pr_opens_only_when_verified:
  assumes "get_row wi_id wid (db_work_items (w_db w)) = Some wi" and "wi_state wi = W_session_active"
    and "apply_snapshot E wid srow shot w = (r, w')" and "row_in wid [W_pr_open, W_checks_running] w'"
  shows "\<exists>pr. acceptable_pr E (wi_kind wi) (claimed_pr_url shot) pr \<and> is_final_report shot \<and>
    validate_output (en_iter_errors E) (wi_kind wi) (ss_structured_output shot) = [] \<and>
    ss_outcome shot = Some O_pr_opened \<and> ss_acus_consumed shot \<le> wi_acu_cap wi"
  using apply_snapshot_opens [OF assms] by blast

theorem pr_opens_only_when_verified_witness:
  "\<exists>pr. acceptable_pr (pr_env False) K_container_hardening (Some sample_pr_url) pr \<and>
     pi_number pr = 4"
proof -
  let ?m = "apply_snapshot (pr_env False) 5 sample_session reporting_snapshot active_world"
  have row: "get_row wi_id 5 (db_work_items (w_db active_world)) = Some (sample_item W_session_active)"
    by (simp add: active_world_def sample_defs get_row_Cons)
  have st: "wi_state (sample_item W_session_active) = W_session_active"
    and kind: "wi_kind (sample_item W_session_active) = K_container_hardening" by code_simp+
  have "row_in 5 [W_pr_open, W_checks_running] (snd ?m)" by code_simp
  from pr_opens_only_when_verified [OF row st prod.collapse [symmetric] this]
  obtain pr where pr: "acceptable_pr (pr_env False) K_container_hardening (claimed_pr_url reporting_snapshot) pr"
    unfolding kind by blast
  have "claimed_pr_url reporting_snapshot = Some sample_pr_url" by code_simp
  then show ?thesis using pr by (auto simp: acceptable_pr_def pr_env_def sample_pr_def)
qed

text \<open>C30. A retry label reopens the item without a session: the next dispatch creates a new one,
  on the same issue.\<close>

theorem retry_uses_a_fresh_session:
  assumes "get_row wi_id wid (db_work_items (w_db w)) = Some wi" and "wi_state wi \<in> set HUMAN_ATTENTION_STATES"
    and "retry_item E wid n w = (Inr (), w')"
  shows "\<exists>wi'. get_row wi_id wid (db_work_items (w_db w')) = Some wi' \<and> wi_state wi' = W_issue_open \<and>
    wi_active_session_id wi' = None \<and> wi_issue_number wi' = wi_issue_number wi"
  by (rule retry_item_resets [OF assms])

theorem retry_uses_a_fresh_session_witness:
  "\<exists>wi'. get_row wi_id 5 (db_work_items (w_db (snd (retry_item sample_env 5 7
       (fresh_world (sample_db W_needs_human F_grouped)))))) = Some wi' \<and>
     wi_state wi' = W_issue_open \<and> wi_active_session_id wi' = None"
proof -
  let ?w = "fresh_world (sample_db W_needs_human F_grouped)"
  have "fst (retry_item sample_env 5 7 ?w) = Inr ()" by code_simp
  then have m: "retry_item sample_env 5 7 ?w = (Inr (), snd (retry_item sample_env 5 7 ?w))" by (metis prod.collapse)
  have r: "get_row wi_id 5 (db_work_items (w_db ?w)) = Some (sample_item W_needs_human)"
    by (simp add: sample_defs get_row_Cons)
  have "wi_state (sample_item W_needs_human) \<in> set HUMAN_ATTENTION_STATES" by code_simp
  from retry_uses_a_fresh_session [OF r this m] show ?thesis by blast
qed

section \<open>Closing\<close>

text \<open>C4. A work item is verified by a scan run only when every one of its findings is closed
  after that run, and it has at least one.\<close>

theorem issue_closes_only_when_all_members_close:
  assumes "row_in wid [W_merged, W_awaiting_rescan] w"
    and "close_work_item E wid run jobs ss counts w = (r, w')"
    and "row_in wid [W_verified] w'"
  shows "issue_may_close (member_states (members_of wid (w_db w)) (w_db w'))"
  using assms by (intro close_work_item_verifies) (auto simp: row_in_def split: option.splits)

theorem issue_closes_only_when_all_members_close_witness:
  "issue_may_close (member_states (members_of 5 (sample_db W_merged F_awaiting_rescan))
     (w_db (snd (close_work_item sample_env 5 sample_run [sample_job] [] []
       (fresh_world (sample_db W_merged F_awaiting_rescan))))))"
proof -
  let ?w = "fresh_world (sample_db W_merged F_awaiting_rescan)"
  let ?m = "close_work_item sample_env 5 sample_run [sample_job] [] [] ?w"
  have "row_in 5 [W_merged, W_awaiting_rescan] ?w" by code_simp
  moreover have "row_in 5 [W_verified] (snd ?m)" by code_simp
  ultimately have "issue_may_close (member_states (members_of 5 (w_db ?w)) (w_db (snd ?m)))"
    by (intro issue_closes_only_when_all_members_close [OF _ prod.collapse [symmetric]])
  then show ?thesis by (simp add: fresh_world_def)
qed

text \<open>C25. Applying a scan run that was applied before returns no counts and leaves the database
  as it is, whatever the services answer the second time.\<close>

theorem applying_a_run_again_changes_nothing:
  assumes "apply_scan_run E i (fresh_world d) = (Inr c, w)"
  shows "apply_scan_run E' i (fresh_world (w_db w)) = (Inr [], fresh_world (w_db w))"
  by (rule apply_scan_run_once [OF assms])

theorem applying_a_run_again_changes_nothing_witness:
  "\<exists>d. map wi_state (db_work_items d) = [W_verified] \<and>
     apply_scan_run sample_env 2 (fresh_world d) = (Inr [], fresh_world d)"
proof -
  let ?m = "apply_scan_run sample_env 2 (fresh_world (sample_db W_merged F_awaiting_rescan))"
  have "isl (fst ?m) = False" by code_simp
  then obtain c w where m: "?m = (Inr c, w)" by (cases ?m; cases "fst ?m") auto
  have "map wi_state (db_work_items (w_db (snd ?m))) = [W_verified]" by code_simp
  then show ?thesis
    using applying_a_run_again_changes_nothing [OF m, of sample_env] m by (intro exI [of _ "w_db w"]) simp
qed

text \<open>C26. If applying a scan run raises, the transaction is rolled back: neither the open nor the
  committed database changed.\<close>

theorem failed_application_leaves_no_trace:
  assumes "apply_scan_run E i (fresh_world d) = (Inl e, w)"
  shows "w_db w = d \<and> w_saved w = d"
  by (rule apply_scan_run_failed [OF assms])

theorem failed_application_leaves_no_trace_witness:
  "w_db (snd (apply_scan_run sample_env 9 (fresh_world (sample_db W_merged F_awaiting_rescan)))) =
     sample_db W_merged F_awaiting_rescan"
proof -
  let ?m = "apply_scan_run sample_env 9 (fresh_world (sample_db W_merged F_awaiting_rescan))"
  have "isl (fst ?m)" by code_simp
  then obtain e w where m: "?m = (Inl e, w)" by (cases ?m; cases "fst ?m") auto
  then show ?thesis using failed_application_leaves_no_trace [OF m] by simp
qed



end
